(* ===== verification/Prelude.thy ===== *)
theory Prelude
  imports Complex_Main "HOL-Library.Word" "HOL-Library.Sublist"
begin

text \<open>The shared layer: the machine types of types.h, C memory as byte lists, C strings,
  little-endian encoding of the integers that are stored in an archive, and the generic list and
  word lemmas that the component theories use.\<close>

unbundle bit_operations_syntax

section \<open>Machine types (types.h)\<close>

type_synonym u8 = "8 word"
type_synonym u16 = "16 word"
type_synonym u32 = "32 word"
type_synonym u64 = "64 word"

named_theorems fsa_const \<open>values of the constants of fsarchiver.h\<close>
named_theorems len_simps \<open>lengths of encoded values\<close>

section \<open>Allocation\<close>

text \<open>malloc is a predicate on the requested size: \<open>mem n\<close> says that an allocation of \<open>n\<close>
  bytes succeeds. Every function that allocates takes it as its first argument.\<close>

type_synonym malloc = "nat \<Rightarrow> bool"

abbreviation mem_ok :: malloc where
  "mem_ok \<equiv> (\<lambda>n. True)"

section \<open>Little-endian integers\<close>

text \<open>The bytes that memcpy copies from a variable after cpu_to_leN, and the value that leN_to_cpu
  reads from such bytes (lowest byte first).\<close>

fun le_bytes :: "nat \<Rightarrow> 'a::len word \<Rightarrow> u8 list" where
  "le_bytes 0 w = []"
| "le_bytes (Suc n) w = ucast w # le_bytes n (drop_bit 8 w)"

fun le_val :: "u8 list \<Rightarrow> 'a::len word" where
  "le_val [] = 0"
| "le_val (b # bs) = ucast b OR push_bit 8 (le_val bs)"

lemma length_le_bytes [simp]: "length (le_bytes n w) = n"
  by (induction n arbitrary: w) auto

lemma le_val_le_bytes: "le_val (le_bytes n w) = take_bit (8 * n) (w :: 'a::len word)"
proof (induction n arbitrary: w)
  case (Suc n)
  show ?case
  proof (rule bit_word_eqI)
    fix k assume "k < LENGTH('a)"
    then show "bit (le_val (le_bytes (Suc n) w) :: 'a word) k = bit (take_bit (8 * Suc n) w) k"
      using Suc.IH [of "drop_bit 8 w"]
      by (auto simp: bit_simps bit_imp_le_length)
  qed
qed simp

lemma le_val_le_bytes_full:
  "LENGTH('a) \<le> 8 * n \<Longrightarrow> le_val (le_bytes n w) = (w :: 'a::len word)"
  by (simp add: le_val_le_bytes take_bit_word_eq_self)

lemma le_bytes_le_val:
  "8 * length bs \<le> LENGTH('a) \<Longrightarrow> le_bytes (length bs) (le_val bs :: 'a::len word) = bs"
proof (induction bs)
  case (Cons b bs)
  have "(ucast (le_val (b # bs) :: 'a word) :: u8) = b"
    using Cons.prems
    by (intro bit_word_eqI) (auto simp: bit_simps dest: bit_imp_le_length)
  moreover have "drop_bit 8 (le_val (b # bs) :: 'a word) = le_val bs"
  proof (rule bit_word_eqI)
    fix k assume k: "k < LENGTH('a)"
    have "bit (le_val bs :: 'a word) k \<Longrightarrow> 8 + k < LENGTH('a)"
    proof -
      assume bk: "bit (le_val bs :: 'a word) k"
      have "le_val bs = (take_bit (8 * length bs) (le_val bs) :: 'a word)"
        using Cons le_val_le_bytes [of "length bs" "le_val bs :: 'a word"] by simp
      then have "k < 8 * length bs" using bk by (metis bit_take_bit_iff)
      then show "8 + k < LENGTH('a)" using Cons.prems by simp
    qed
    then show "bit (drop_bit 8 (le_val (b # bs) :: 'a word)) k = bit (le_val bs :: 'a word) k"
      using k by (auto simp: bit_simps dest: bit_imp_le_length)
  qed
  ultimately show ?case using Cons by simp
qed simp

lemma bit_le_val: "bit (le_val bs :: 'a::len word) n \<Longrightarrow> n < 8 * length bs"
proof (induction bs arbitrary: n)
  case (Cons b bs)
  then consider "bit b n" | "8 \<le> n" "bit (le_val bs :: 'a word) (n - 8)"
    by (auto simp: bit_simps)
  then show ?case
  proof cases
    case 1
    then show ?thesis using bit_imp_le_length [of b n] by simp
  next
    case 2
    then show ?thesis using Cons.IH [of "n - 8"] by simp
  qed
qed simp

lemma le_val_append:
  "le_val (xs @ ys) = (le_val xs OR push_bit (8 * length xs) (le_val ys) :: 'a::len word)"
proof (induction xs)
  case (Cons x xs)
  have "8 * length (x # xs) = 8 + 8 * length xs" by simp
  then show ?case
    using Cons by (simp only: append_Cons le_val.simps push_bit_or push_bit_push_bit or.assoc)
qed simp

lemma ucast_le_val:
  "8 * length bs \<le> LENGTH('b) \<Longrightarrow> ucast (le_val bs :: 'b::len word) = (le_val bs :: 'a::len word)"
proof (induction bs)
  case (Cons b bs)
  then have IH: "ucast (le_val bs :: 'b word) = (le_val bs :: 'a word)" by simp
  show ?case
  proof (rule bit_word_eqI)
    fix n assume n: "n < LENGTH('a)"
    have b: "bit b n \<Longrightarrow> n < LENGTH('b)" using Cons.prems bit_imp_le_length [of b n] by simp
    have "bit (le_val bs :: 'b word) (n - 8) \<Longrightarrow> n < LENGTH('b)"
      using Cons.prems bit_le_val [where 'a = 'b, of bs "n - 8"] by simp
    then show "bit (ucast (le_val (b # bs) :: 'b word) :: 'a word) n = bit (le_val (b # bs) :: 'a word) n"
      using n b unfolding le_val.simps IH [symmetric] by (auto simp: bit_simps)
  qed
qed simp

definition cpu_to_le16 :: "u16 \<Rightarrow> u8 list" where
  "cpu_to_le16 v = le_bytes 2 v"

definition cpu_to_le32 :: "u32 \<Rightarrow> u8 list" where
  "cpu_to_le32 v = le_bytes 4 v"

definition cpu_to_le64 :: "u64 \<Rightarrow> u8 list" where
  "cpu_to_le64 v = le_bytes 8 v"

definition le16_to_cpu :: "u8 list \<Rightarrow> u16" where
  "le16_to_cpu bs = le_val bs"

definition le32_to_cpu :: "u8 list \<Rightarrow> u32" where
  "le32_to_cpu bs = le_val bs"

definition le64_to_cpu :: "u8 list \<Rightarrow> u64" where
  "le64_to_cpu bs = le_val bs"

section \<open>Fixed-width codecs as an interface\<close>

text \<open>What a reader relies on when it takes a fixed-size field from a stream.\<close>

locale field_codec =
  fixes enc :: "'v \<Rightarrow> u8 list"
    and dec :: "u8 list \<Rightarrow> 'v"
    and width :: nat
  assumes enc_len: "length (enc v) = width"
    and dec_enc: "dec (enc v) = v"
begin

lemma take_enc: "take width (enc v @ rest) = enc v"
  by (simp add: enc_len)

lemma drop_enc: "drop width (enc v @ rest) = rest"
  by (simp add: enc_len)

lemma dec_take: "dec (take width (enc v @ rest)) = v"
  unfolding take_enc by (rule dec_enc)

lemma enc_inj: "enc v = enc w \<longleftrightarrow> v = w"
  by (metis dec_enc)

lemma enc_append_inj: "enc v @ r = enc w @ s \<longleftrightarrow> v = w \<and> r = s"
  by (metis append_eq_append_conv dec_enc enc_len)

end

interpretation le16: field_codec cpu_to_le16 le16_to_cpu 2
  by unfold_locales
    (auto simp: cpu_to_le16_def le16_to_cpu_def intro!: le_val_le_bytes_full)

interpretation le32: field_codec cpu_to_le32 le32_to_cpu 4
  by unfold_locales
    (auto simp: cpu_to_le32_def le32_to_cpu_def intro!: le_val_le_bytes_full)

interpretation le64: field_codec cpu_to_le64 le64_to_cpu 8
  by unfold_locales
    (auto simp: cpu_to_le64_def le64_to_cpu_def intro!: le_val_le_bytes_full)

lemmas le_lens [simp, len_simps] = le16.enc_len le32.enc_len le64.enc_len
lemmas le_decs [simp] = le16.dec_enc le32.dec_enc le64.dec_enc

section \<open>C strings\<close>

text \<open>A C string is the list of its bytes before the terminating NUL. \<open>cstr\<close> is the string that a
  char buffer holds, \<open>snprintf_s n s\<close> the string that is in a buffer of \<open>n\<close> bytes after
  \<open>snprintf(buf, n, "%s", s)\<close>.\<close>

definition cstr :: "string \<Rightarrow> string" where
  "cstr buf = takeWhile (\<lambda>c. c \<noteq> CHR 0x00) buf"

definition snprintf_s :: "nat \<Rightarrow> string \<Rightarrow> string" where
  "snprintf_s n s = take (n - 1) s"

definition bytes_of_string :: "string \<Rightarrow> u8 list" where
  "bytes_of_string s = map of_char s"

definition string_of_bytes :: "u8 list \<Rightarrow> string" where
  "string_of_bytes bs = map (\<lambda>b. char_of (unat b)) bs"

lemma string_of_bytes_of_string [simp]: "string_of_bytes (bytes_of_string s) = s"
proof -
  have "unat (of_char c :: u8) = of_char c" for c :: char
  proof -
    have "(of_char c :: u8) = of_nat (of_char c)" by (rule of_nat_of_char [symmetric])
    then show ?thesis using of_char_mod_256 [of c, where 'a = nat]
      by (simp add: unsigned_of_nat take_bit_eq_mod)
  qed
  then show ?thesis by (simp add: string_of_bytes_def bytes_of_string_def comp_def)
qed

lemma cstr_no_nul [simp]: "CHR 0x00 \<notin> set (cstr s)"
  by (auto simp: cstr_def dest: set_takeWhileD)

lemma cstr_id: "CHR 0x00 \<notin> set s \<Longrightarrow> cstr s = s"
  unfolding cstr_def takeWhile_eq_all_conv by blast

lemma length_snprintf_s: "0 < n \<Longrightarrow> length (snprintf_s n s) < n"
  by (auto simp: snprintf_s_def)

lemma snprintf_s_id: "length s < n \<Longrightarrow> snprintf_s n s = s"
  by (simp add: snprintf_s_def)

section \<open>Generic lemmas\<close>

lemma find_None_notin: "find P xs = None \<longleftrightarrow> (\<forall>x \<in> set xs. \<not> P x)"
  by (induction xs) auto

lemma find_append: "find P (xs @ ys) = (case find P xs of None \<Rightarrow> find P ys | Some x \<Rightarrow> Some x)"
  by (induction xs) auto

lemma find_SomeD: "find P xs = Some x \<Longrightarrow> x \<in> set xs \<and> P x"
  by (induction xs) (auto split: if_splits)

lemma length_filter_snoc: "length (filter P (xs @ [x])) = length (filter P xs) + (if P x then 1 else 0)"
  by simp

end
