(* ===== verification/Fsa_Const.thy ===== *)
theory Fsa_Const
  imports Prelude
begin

text \<open>The constants of fsarchiver.h: the keys of the dictionaries, the algorithm and object
  numbers, the size limits, the error codes, the version macros and the magic strings, with the
  table \<open>valid_magic\<close> of fsarchiver.c and \<open>is_magic_valid\<close> of common.c. Dictionary sections and
  keys have the width they have in struct s_dicoitem, sizes are natural numbers.\<close>

section \<open>Sections of a dictionary\<close>

definition DICO_OBJ_SECTION_STDATTR :: u8 where
  [fsa_const]: "DICO_OBJ_SECTION_STDATTR = 0"

definition DICO_OBJ_SECTION_XATTR :: u8 where
  [fsa_const]: "DICO_OBJ_SECTION_XATTR = 1"

definition DICO_OBJ_SECTION_WINATTR :: u8 where
  [fsa_const]: "DICO_OBJ_SECTION_WINATTR = 2"

section \<open>Archive types\<close>

definition ARCHTYPE_NULL :: u32 where
  [fsa_const]: "ARCHTYPE_NULL = 0"

definition ARCHTYPE_FILESYSTEMS :: u32 where
  [fsa_const]: "ARCHTYPE_FILESYSTEMS = 1"

definition ARCHTYPE_DIRECTORIES :: u32 where
  [fsa_const]: "ARCHTYPE_DIRECTORIES = 2"

section \<open>Keys of the volume header and footer\<close>

definition VOLUMEHEADKEY_VOLNUM :: u16 where
  [fsa_const]: "VOLUMEHEADKEY_VOLNUM = 0"

definition VOLUMEHEADKEY_ARCHID :: u16 where
  [fsa_const]: "VOLUMEHEADKEY_ARCHID = 1"

definition VOLUMEHEADKEY_FILEFORMATVER :: u16 where
  [fsa_const]: "VOLUMEHEADKEY_FILEFORMATVER = 2"

definition VOLUMEHEADKEY_PROGVERCREAT :: u16 where
  [fsa_const]: "VOLUMEHEADKEY_PROGVERCREAT = 3"

definition VOLUMEFOOTKEY_VOLNUM :: u16 where
  [fsa_const]: "VOLUMEFOOTKEY_VOLNUM = 0"

definition VOLUMEFOOTKEY_ARCHID :: u16 where
  [fsa_const]: "VOLUMEFOOTKEY_ARCHID = 1"

definition VOLUMEFOOTKEY_LASTVOL :: u16 where
  [fsa_const]: "VOLUMEFOOTKEY_LASTVOL = 2"

section \<open>Compression and encryption algorithms\<close>

definition COMPRESS_NULL :: u16 where
  [fsa_const]: "COMPRESS_NULL = 0"

definition COMPRESS_NONE :: u16 where
  [fsa_const]: "COMPRESS_NONE = 1"

definition COMPRESS_LZO :: u16 where
  [fsa_const]: "COMPRESS_LZO = 2"

definition COMPRESS_GZIP :: u16 where
  [fsa_const]: "COMPRESS_GZIP = 3"

definition COMPRESS_BZIP2 :: u16 where
  [fsa_const]: "COMPRESS_BZIP2 = 4"

definition COMPRESS_LZMA :: u16 where
  [fsa_const]: "COMPRESS_LZMA = 5"

definition COMPRESS_LZ4 :: u16 where
  [fsa_const]: "COMPRESS_LZ4 = 6"

definition COMPRESS_ZSTD :: u16 where
  [fsa_const]: "COMPRESS_ZSTD = 7"

definition ENCRYPT_NULL :: u16 where
  [fsa_const]: "ENCRYPT_NULL = 0"

definition ENCRYPT_NONE :: u16 where
  [fsa_const]: "ENCRYPT_NONE = 1"

definition ENCRYPT_BLOWFISH :: u16 where
  [fsa_const]: "ENCRYPT_BLOWFISH = 2"

section \<open>Object types and keys\<close>

definition OBJTYPE_NULL :: u32 where
  [fsa_const]: "OBJTYPE_NULL = 0"

definition OBJTYPE_DIR :: u32 where
  [fsa_const]: "OBJTYPE_DIR = 1"

definition OBJTYPE_SYMLINK :: u32 where
  [fsa_const]: "OBJTYPE_SYMLINK = 2"

definition OBJTYPE_HARDLINK :: u32 where
  [fsa_const]: "OBJTYPE_HARDLINK = 3"

definition OBJTYPE_CHARDEV :: u32 where
  [fsa_const]: "OBJTYPE_CHARDEV = 4"

definition OBJTYPE_BLOCKDEV :: u32 where
  [fsa_const]: "OBJTYPE_BLOCKDEV = 5"

definition OBJTYPE_FIFO :: u32 where
  [fsa_const]: "OBJTYPE_FIFO = 6"

definition OBJTYPE_SOCKET :: u32 where
  [fsa_const]: "OBJTYPE_SOCKET = 7"

definition OBJTYPE_REGFILEUNIQUE :: u32 where
  [fsa_const]: "OBJTYPE_REGFILEUNIQUE = 8"

definition OBJTYPE_REGFILEMULTI :: u32 where
  [fsa_const]: "OBJTYPE_REGFILEMULTI = 9"

definition DISKITEMKEY_NULL :: u16 where
  [fsa_const]: "DISKITEMKEY_NULL = 0"

definition DISKITEMKEY_OBJECTID :: u16 where
  [fsa_const]: "DISKITEMKEY_OBJECTID = 1"

definition DISKITEMKEY_PATH :: u16 where
  [fsa_const]: "DISKITEMKEY_PATH = 2"

definition DISKITEMKEY_OBJTYPE :: u16 where
  [fsa_const]: "DISKITEMKEY_OBJTYPE = 3"

definition DISKITEMKEY_SYMLINK :: u16 where
  [fsa_const]: "DISKITEMKEY_SYMLINK = 4"

definition DISKITEMKEY_HARDLINK :: u16 where
  [fsa_const]: "DISKITEMKEY_HARDLINK = 5"

definition DISKITEMKEY_RDEV :: u16 where
  [fsa_const]: "DISKITEMKEY_RDEV = 6"

definition DISKITEMKEY_MODE :: u16 where
  [fsa_const]: "DISKITEMKEY_MODE = 7"

definition DISKITEMKEY_SIZE :: u16 where
  [fsa_const]: "DISKITEMKEY_SIZE = 8"

definition DISKITEMKEY_UID :: u16 where
  [fsa_const]: "DISKITEMKEY_UID = 9"

definition DISKITEMKEY_GID :: u16 where
  [fsa_const]: "DISKITEMKEY_GID = 10"

definition DISKITEMKEY_ATIME :: u16 where
  [fsa_const]: "DISKITEMKEY_ATIME = 11"

definition DISKITEMKEY_MTIME :: u16 where
  [fsa_const]: "DISKITEMKEY_MTIME = 12"

definition DISKITEMKEY_MD5SUM :: u16 where
  [fsa_const]: "DISKITEMKEY_MD5SUM = 13"

definition DISKITEMKEY_MULTIFILESCOUNT :: u16 where
  [fsa_const]: "DISKITEMKEY_MULTIFILESCOUNT = 14"

definition DISKITEMKEY_MULTIFILESOFFSET :: u16 where
  [fsa_const]: "DISKITEMKEY_MULTIFILESOFFSET = 15"

definition DISKITEMKEY_LINKTARGETTYPE :: u16 where
  [fsa_const]: "DISKITEMKEY_LINKTARGETTYPE = 16"

definition DISKITEMKEY_FLAGS :: u16 where
  [fsa_const]: "DISKITEMKEY_FLAGS = 17"

section \<open>Keys of a block header and footer\<close>

definition BLOCKHEADITEMKEY_NULL :: u16 where
  [fsa_const]: "BLOCKHEADITEMKEY_NULL = 0"

definition BLOCKHEADITEMKEY_REALSIZE :: u16 where
  [fsa_const]: "BLOCKHEADITEMKEY_REALSIZE = 1"

definition BLOCKHEADITEMKEY_BLOCKOFFSET :: u16 where
  [fsa_const]: "BLOCKHEADITEMKEY_BLOCKOFFSET = 2"

definition BLOCKHEADITEMKEY_COMPRESSALGO :: u16 where
  [fsa_const]: "BLOCKHEADITEMKEY_COMPRESSALGO = 3"

definition BLOCKHEADITEMKEY_ENCRYPTALGO :: u16 where
  [fsa_const]: "BLOCKHEADITEMKEY_ENCRYPTALGO = 4"

definition BLOCKHEADITEMKEY_ARSIZE :: u16 where
  [fsa_const]: "BLOCKHEADITEMKEY_ARSIZE = 5"

definition BLOCKHEADITEMKEY_COMPSIZE :: u16 where
  [fsa_const]: "BLOCKHEADITEMKEY_COMPSIZE = 6"

definition BLOCKHEADITEMKEY_ARCSUM :: u16 where
  [fsa_const]: "BLOCKHEADITEMKEY_ARCSUM = 7"

definition BLOCKFOOTITEMKEY_NULL :: u16 where
  [fsa_const]: "BLOCKFOOTITEMKEY_NULL = 0"

definition BLOCKFOOTITEMKEY_MD5SUM :: u16 where
  [fsa_const]: "BLOCKFOOTITEMKEY_MD5SUM = 1"

section \<open>Keys of the main header\<close>

definition MAINHEADKEY_NULL :: u16 where
  [fsa_const]: "MAINHEADKEY_NULL = 0"

definition MAINHEADKEY_FILEFORMATVER :: u16 where
  [fsa_const]: "MAINHEADKEY_FILEFORMATVER = 1"

definition MAINHEADKEY_PROGVERCREAT :: u16 where
  [fsa_const]: "MAINHEADKEY_PROGVERCREAT = 2"

definition MAINHEADKEY_ARCHIVEID :: u16 where
  [fsa_const]: "MAINHEADKEY_ARCHIVEID = 3"

definition MAINHEADKEY_CREATTIME :: u16 where
  [fsa_const]: "MAINHEADKEY_CREATTIME = 4"

definition MAINHEADKEY_ARCHLABEL :: u16 where
  [fsa_const]: "MAINHEADKEY_ARCHLABEL = 5"

definition MAINHEADKEY_ARCHTYPE :: u16 where
  [fsa_const]: "MAINHEADKEY_ARCHTYPE = 6"

definition MAINHEADKEY_FSCOUNT :: u16 where
  [fsa_const]: "MAINHEADKEY_FSCOUNT = 7"

definition MAINHEADKEY_COMPRESSALGO :: u16 where
  [fsa_const]: "MAINHEADKEY_COMPRESSALGO = 8"

definition MAINHEADKEY_COMPRESSLEVEL :: u16 where
  [fsa_const]: "MAINHEADKEY_COMPRESSLEVEL = 9"

definition MAINHEADKEY_ENCRYPTALGO :: u16 where
  [fsa_const]: "MAINHEADKEY_ENCRYPTALGO = 10"

definition MAINHEADKEY_BUFCHECKPASSCLEARMD5 :: u16 where
  [fsa_const]: "MAINHEADKEY_BUFCHECKPASSCLEARMD5 = 11"

definition MAINHEADKEY_BUFCHECKPASSCRYPTBUF :: u16 where
  [fsa_const]: "MAINHEADKEY_BUFCHECKPASSCRYPTBUF = 12"

definition MAINHEADKEY_FSACOMPLEVEL :: u16 where
  [fsa_const]: "MAINHEADKEY_FSACOMPLEVEL = 13"

definition MAINHEADKEY_MINFSAVERSION :: u16 where
  [fsa_const]: "MAINHEADKEY_MINFSAVERSION = 14"

definition MAINHEADKEY_HASDIRSINFOHEAD :: u16 where
  [fsa_const]: "MAINHEADKEY_HASDIRSINFOHEAD = 15"

section \<open>Error codes\<close>

definition FSAERR_SUCCESS :: int where
  [fsa_const]: "FSAERR_SUCCESS = 0"

definition FSAERR_UNKNOWN :: int where
  [fsa_const]: "FSAERR_UNKNOWN = - 1"

definition FSAERR_ENOMEM :: int where
  [fsa_const]: "FSAERR_ENOMEM = - 2"

definition FSAERR_EINVAL :: int where
  [fsa_const]: "FSAERR_EINVAL = - 3"

definition FSAERR_ENOENT :: int where
  [fsa_const]: "FSAERR_ENOENT = - 4"

definition FSAERR_ENDOFFILE :: int where
  [fsa_const]: "FSAERR_ENDOFFILE = - 5"

definition FSAERR_WRONGTYPE :: int where
  [fsa_const]: "FSAERR_WRONGTYPE = - 6"

definition FSAERR_NOTOPEN :: int where
  [fsa_const]: "FSAERR_NOTOPEN = - 7"

definition FSAERR_ENOSPC :: int where
  [fsa_const]: "FSAERR_ENOSPC = - 8"

definition FSAERR_SEEK :: int where
  [fsa_const]: "FSAERR_SEEK = - 9"

definition FSAERR_READ :: int where
  [fsa_const]: "FSAERR_READ = - 10"

definition FSAERR_WRITE :: int where
  [fsa_const]: "FSAERR_WRITE = - 11"

definition OLDERR_FATAL :: int where
  [fsa_const]: "OLDERR_FATAL = 1"

definition OLDERR_MINOR :: int where
  [fsa_const]: "OLDERR_MINOR = 2"

section \<open>Limits\<close>

definition FSA_MAX_FILEFMTLEN :: nat where
  [fsa_const]: "FSA_MAX_FILEFMTLEN = 32"

definition FSA_MAX_PROGVERLEN :: nat where
  [fsa_const]: "FSA_MAX_PROGVERLEN = 32"

definition FSA_MAX_FSPERARCH :: nat where
  [fsa_const]: "FSA_MAX_FSPERARCH = 128"

definition FSA_MAX_COMPJOBS :: nat where
  [fsa_const]: "FSA_MAX_COMPJOBS = 32"

definition FSA_MAX_QUEUESIZE :: nat where
  [fsa_const]: "FSA_MAX_QUEUESIZE = 32"

definition FSA_MAX_BLKSIZE :: nat where
  [fsa_const]: "FSA_MAX_BLKSIZE = 921600"

definition FSA_DEF_BLKSIZE :: nat where
  [fsa_const]: "FSA_DEF_BLKSIZE = 524288"

definition FSA_MAX_SMALLFILECOUNT :: nat where
  [fsa_const]: "FSA_MAX_SMALLFILECOUNT = 512"

definition FSA_MAX_SMALLFILESIZE :: nat where
  [fsa_const]: "FSA_MAX_SMALLFILESIZE = 131072"

definition FSA_COST_PER_FILE :: nat where
  [fsa_const]: "FSA_COST_PER_FILE = 16384"

definition FSA_MAX_LABELLEN :: nat where
  [fsa_const]: "FSA_MAX_LABELLEN = 512"

definition FSA_MIN_PASSLEN :: nat where
  [fsa_const]: "FSA_MIN_PASSLEN = 6"

definition FSA_MAX_PASSLEN :: nat where
  [fsa_const]: "FSA_MAX_PASSLEN = 64"

definition FSA_CHECKPASSBUF_SIZE :: nat where
  [fsa_const]: "FSA_CHECKPASSBUF_SIZE = 4096"

definition FSA_SIZEOF_MAGIC :: nat where
  [fsa_const]: "FSA_SIZEOF_MAGIC = 4"

definition FSA_FILESYSID_NULL :: u16 where
  [fsa_const]: "FSA_FILESYSID_NULL = 0xFFFF"

section \<open>Operations of the command line\<close>

definition OPER_NULL :: nat where
  [fsa_const]: "OPER_NULL = 0"

definition OPER_SAVEFS :: nat where
  [fsa_const]: "OPER_SAVEFS = 1"

definition OPER_RESTFS :: nat where
  [fsa_const]: "OPER_RESTFS = 2"

definition OPER_SAVEDIR :: nat where
  [fsa_const]: "OPER_SAVEDIR = 3"

definition OPER_RESTDIR :: nat where
  [fsa_const]: "OPER_RESTDIR = 4"

definition OPER_ARCHINFO :: nat where
  [fsa_const]: "OPER_ARCHINFO = 5"

definition OPER_PROBE :: nat where
  [fsa_const]: "OPER_PROBE = 6"

section \<open>Keys of the filesystem header\<close>

definition FSYSHEADKEY_NULL :: u16 where
  [fsa_const]: "FSYSHEADKEY_NULL = 0"

definition FSYSHEADKEY_FILESYSTEM :: u16 where
  [fsa_const]: "FSYSHEADKEY_FILESYSTEM = 1"

definition FSYSHEADKEY_MNTPATH :: u16 where
  [fsa_const]: "FSYSHEADKEY_MNTPATH = 2"

definition FSYSHEADKEY_BYTESTOTAL :: u16 where
  [fsa_const]: "FSYSHEADKEY_BYTESTOTAL = 3"

definition FSYSHEADKEY_BYTESUSED :: u16 where
  [fsa_const]: "FSYSHEADKEY_BYTESUSED = 4"

definition FSYSHEADKEY_FSLABEL :: u16 where
  [fsa_const]: "FSYSHEADKEY_FSLABEL = 5"

definition FSYSHEADKEY_FSUUID :: u16 where
  [fsa_const]: "FSYSHEADKEY_FSUUID = 6"

definition FSYSHEADKEY_FSINODESIZE :: u16 where
  [fsa_const]: "FSYSHEADKEY_FSINODESIZE = 7"

definition FSYSHEADKEY_FSVERSION :: u16 where
  [fsa_const]: "FSYSHEADKEY_FSVERSION = 8"

definition FSYSHEADKEY_FSEXTDEFMNTOPT :: u16 where
  [fsa_const]: "FSYSHEADKEY_FSEXTDEFMNTOPT = 9"

definition FSYSHEADKEY_FSEXTREVISION :: u16 where
  [fsa_const]: "FSYSHEADKEY_FSEXTREVISION = 10"

definition FSYSHEADKEY_FSEXTBLOCKSIZE :: u16 where
  [fsa_const]: "FSYSHEADKEY_FSEXTBLOCKSIZE = 11"

definition FSYSHEADKEY_FSEXTFEATURECOMPAT :: u16 where
  [fsa_const]: "FSYSHEADKEY_FSEXTFEATURECOMPAT = 12"

definition FSYSHEADKEY_FSEXTFEATUREINCOMPAT :: u16 where
  [fsa_const]: "FSYSHEADKEY_FSEXTFEATUREINCOMPAT = 13"

definition FSYSHEADKEY_FSEXTFEATUREROCOMPAT :: u16 where
  [fsa_const]: "FSYSHEADKEY_FSEXTFEATUREROCOMPAT = 14"

definition FSYSHEADKEY_FSREISERBLOCKSIZE :: u16 where
  [fsa_const]: "FSYSHEADKEY_FSREISERBLOCKSIZE = 15"

definition FSYSHEADKEY_FSREISER4BLOCKSIZE :: u16 where
  [fsa_const]: "FSYSHEADKEY_FSREISER4BLOCKSIZE = 16"

definition FSYSHEADKEY_FSXFSBLOCKSIZE :: u16 where
  [fsa_const]: "FSYSHEADKEY_FSXFSBLOCKSIZE = 17"

definition FSYSHEADKEY_FSBTRFSSECTORSIZE :: u16 where
  [fsa_const]: "FSYSHEADKEY_FSBTRFSSECTORSIZE = 18"

definition FSYSHEADKEY_NTFSSECTORSIZE :: u16 where
  [fsa_const]: "FSYSHEADKEY_NTFSSECTORSIZE = 19"

definition FSYSHEADKEY_NTFSCLUSTERSIZE :: u16 where
  [fsa_const]: "FSYSHEADKEY_NTFSCLUSTERSIZE = 20"

definition FSYSHEADKEY_BTRFSFEATURECOMPAT :: u16 where
  [fsa_const]: "FSYSHEADKEY_BTRFSFEATURECOMPAT = 21"

definition FSYSHEADKEY_BTRFSFEATUREINCOMPAT :: u16 where
  [fsa_const]: "FSYSHEADKEY_BTRFSFEATUREINCOMPAT = 22"

definition FSYSHEADKEY_BTRFSFEATUREROCOMPAT :: u16 where
  [fsa_const]: "FSYSHEADKEY_BTRFSFEATUREROCOMPAT = 23"

definition FSYSHEADKEY_NTFSUUID :: u16 where
  [fsa_const]: "FSYSHEADKEY_NTFSUUID = 24"

definition FSYSHEADKEY_MINFSAVERSION :: u16 where
  [fsa_const]: "FSYSHEADKEY_MINFSAVERSION = 25"

definition FSYSHEADKEY_MOUNTINFO :: u16 where
  [fsa_const]: "FSYSHEADKEY_MOUNTINFO = 26"

definition FSYSHEADKEY_ORIGDEV :: u16 where
  [fsa_const]: "FSYSHEADKEY_ORIGDEV = 27"

definition FSYSHEADKEY_TOTALCOST :: u16 where
  [fsa_const]: "FSYSHEADKEY_TOTALCOST = 28"

definition FSYSHEADKEY_FSEXTFSCKMAXMNTCOUNT :: u16 where
  [fsa_const]: "FSYSHEADKEY_FSEXTFSCKMAXMNTCOUNT = 29"

definition FSYSHEADKEY_FSEXTFSCKCHECKINTERVAL :: u16 where
  [fsa_const]: "FSYSHEADKEY_FSEXTFSCKCHECKINTERVAL = 30"

definition FSYSHEADKEY_FSEXTEOPTRAIDSTRIPEWIDTH :: u16 where
  [fsa_const]: "FSYSHEADKEY_FSEXTEOPTRAIDSTRIPEWIDTH = 31"

definition FSYSHEADKEY_FSEXTEOPTRAIDSTRIDE :: u16 where
  [fsa_const]: "FSYSHEADKEY_FSEXTEOPTRAIDSTRIDE = 32"

definition FSYSHEADKEY_FSINODEBLOCKSPERGROUP :: u16 where
  [fsa_const]: "FSYSHEADKEY_FSINODEBLOCKSPERGROUP = 33"

definition FSYSHEADKEY_FSXFSVERSION :: u16 where
  [fsa_const]: "FSYSHEADKEY_FSXFSVERSION = 34"

definition FSYSHEADKEY_FSXFSFEATURECOMPAT :: u16 where
  [fsa_const]: "FSYSHEADKEY_FSXFSFEATURECOMPAT = 35"

definition FSYSHEADKEY_FSXFSFEATUREROCOMPAT :: u16 where
  [fsa_const]: "FSYSHEADKEY_FSXFSFEATUREROCOMPAT = 36"

definition FSYSHEADKEY_FSXFSFEATUREINCOMPAT :: u16 where
  [fsa_const]: "FSYSHEADKEY_FSXFSFEATUREINCOMPAT = 37"

definition FSYSHEADKEY_FSXFSFEATURELOGINCOMPAT :: u16 where
  [fsa_const]: "FSYSHEADKEY_FSXFSFEATURELOGINCOMPAT = 38"

definition FSYSHEADKEY_FSVFATTYPE :: u16 where
  [fsa_const]: "FSYSHEADKEY_FSVFATTYPE = 39"

definition FSYSHEADKEY_FSVFATSERIAL :: u16 where
  [fsa_const]: "FSYSHEADKEY_FSVFATSERIAL = 40"

section \<open>Keys of the header of the directories\<close>

definition DIRSINFOKEY_NULL :: u16 where
  [fsa_const]: "DIRSINFOKEY_NULL = 0"

definition DIRSINFOKEY_TOTALCOST :: u16 where
  [fsa_const]: "DIRSINFOKEY_TOTALCOST = 1"

section \<open>More limits\<close>

definition FSA_MAX_FSNAMELEN :: nat where
  [fsa_const]: "FSA_MAX_FSNAMELEN = 128"

definition FSA_MAX_DEVLEN :: nat where
  [fsa_const]: "FSA_MAX_DEVLEN = 256"

definition FSA_MAX_UUIDLEN :: nat where
  [fsa_const]: "FSA_MAX_UUIDLEN = 128"

definition FSA_MAX_BLKDEVICES :: nat where
  [fsa_const]: "FSA_MAX_BLKDEVICES = 256"

definition FSA_DEF_FSACOMP_LEVEL :: nat where
  [fsa_const]: "FSA_DEF_FSACOMP_LEVEL = 3"

definition FSA_FILEFLAGS_SPARSE :: u64 where
  [fsa_const]: "FSA_FILEFLAGS_SPARSE = 1"

section \<open>Magic strings\<close>

definition FSA_MAGIC_VOLH :: "u8 list" where
  "FSA_MAGIC_VOLH = bytes_of_string ''FsA0''"

definition FSA_MAGIC_VOLF :: "u8 list" where
  "FSA_MAGIC_VOLF = bytes_of_string ''FsAE''"

definition FSA_MAGIC_MAIN :: "u8 list" where
  "FSA_MAGIC_MAIN = bytes_of_string ''ArCh''"

definition FSA_MAGIC_FSIN :: "u8 list" where
  "FSA_MAGIC_FSIN = bytes_of_string ''FsIn''"

definition FSA_MAGIC_FSYB :: "u8 list" where
  "FSA_MAGIC_FSYB = bytes_of_string ''FsYs''"

definition FSA_MAGIC_DIRS :: "u8 list" where
  "FSA_MAGIC_DIRS = bytes_of_string ''DiRs''"

definition FSA_MAGIC_OBJT :: "u8 list" where
  "FSA_MAGIC_OBJT = bytes_of_string ''ObJt''"

definition FSA_MAGIC_BLKH :: "u8 list" where
  "FSA_MAGIC_BLKH = bytes_of_string ''BlKh''"

definition FSA_MAGIC_FILF :: "u8 list" where
  "FSA_MAGIC_FILF = bytes_of_string ''FiLf''"

definition FSA_MAGIC_DATF :: "u8 list" where
  "FSA_MAGIC_DATF = bytes_of_string ''DaEn''"

definition valid_magic :: "u8 list list" where
  "valid_magic = [FSA_MAGIC_MAIN, FSA_MAGIC_VOLH, FSA_MAGIC_VOLF, FSA_MAGIC_FSIN, FSA_MAGIC_FSYB,
     FSA_MAGIC_DATF, FSA_MAGIC_OBJT, FSA_MAGIC_BLKH, FSA_MAGIC_FILF, FSA_MAGIC_DIRS]"

fun is_magic_valid_from :: "u8 list list \<Rightarrow> u8 list \<Rightarrow> bool" where
  "is_magic_valid_from [] magic = False"
| "is_magic_valid_from (m # ms) magic =
     (if take FSA_SIZEOF_MAGIC magic = take FSA_SIZEOF_MAGIC m then True
      else is_magic_valid_from ms magic)"

definition is_magic_valid :: "u8 list \<Rightarrow> bool" where
  "is_magic_valid magic = is_magic_valid_from valid_magic magic"

lemmas magic_defs = FSA_MAGIC_VOLH_def FSA_MAGIC_VOLF_def FSA_MAGIC_MAIN_def FSA_MAGIC_FSIN_def FSA_MAGIC_FSYB_def FSA_MAGIC_DIRS_def FSA_MAGIC_OBJT_def FSA_MAGIC_BLKH_def FSA_MAGIC_FILF_def FSA_MAGIC_DATF_def

lemma length_magic [simp, len_simps]:
  "length FSA_MAGIC_VOLH = 4"
  "length FSA_MAGIC_VOLF = 4"
  "length FSA_MAGIC_MAIN = 4"
  "length FSA_MAGIC_FSIN = 4"
  "length FSA_MAGIC_FSYB = 4"
  "length FSA_MAGIC_DIRS = 4"
  "length FSA_MAGIC_OBJT = 4"
  "length FSA_MAGIC_BLKH = 4"
  "length FSA_MAGIC_FILF = 4"
  "length FSA_MAGIC_DATF = 4"
  by (simp_all add: magic_defs bytes_of_string_def)

lemma is_magic_valid_from_iff:
  "is_magic_valid_from ms magic \<longleftrightarrow>
     (\<exists>m \<in> set ms. take FSA_SIZEOF_MAGIC magic = take FSA_SIZEOF_MAGIC m)"
  by (induction ms) auto

lemma is_magic_valid_iff:
  "length magic = FSA_SIZEOF_MAGIC \<Longrightarrow> is_magic_valid magic \<longleftrightarrow> magic \<in> set valid_magic"
  by (auto simp: is_magic_valid_def is_magic_valid_from_iff valid_magic_def FSA_SIZEOF_MAGIC_def)

lemma magic_in_valid [simp]:
  "FSA_MAGIC_VOLH \<in> set valid_magic"
  "FSA_MAGIC_VOLF \<in> set valid_magic"
  "FSA_MAGIC_MAIN \<in> set valid_magic"
  "FSA_MAGIC_FSIN \<in> set valid_magic"
  "FSA_MAGIC_FSYB \<in> set valid_magic"
  "FSA_MAGIC_DIRS \<in> set valid_magic"
  "FSA_MAGIC_OBJT \<in> set valid_magic"
  "FSA_MAGIC_BLKH \<in> set valid_magic"
  "FSA_MAGIC_FILF \<in> set valid_magic"
  "FSA_MAGIC_DATF \<in> set valid_magic"
  by (simp_all add: valid_magic_def)

section \<open>Version numbers\<close>

definition FSA_VERSION_BUILD :: "u64 \<Rightarrow> u64 \<Rightarrow> u64 \<Rightarrow> u64 \<Rightarrow> u64" where
  "FSA_VERSION_BUILD a b c d =
     push_bit 48 (a AND 0xFFFF) + push_bit 32 (b AND 0xFFFF)
     + push_bit 16 (c AND 0xFFFF) + push_bit 0 (d AND 0xFFFF)"

definition FSA_VERSION_GET_A :: "u64 \<Rightarrow> u64" where
  "FSA_VERSION_GET_A ver = drop_bit 48 ver AND 0xFFFF"

definition FSA_VERSION_GET_B :: "u64 \<Rightarrow> u64" where
  "FSA_VERSION_GET_B ver = drop_bit 32 ver AND 0xFFFF"

definition FSA_VERSION_GET_C :: "u64 \<Rightarrow> u64" where
  "FSA_VERSION_GET_C ver = drop_bit 16 ver AND 0xFFFF"

definition FSA_VERSION_GET_D :: "u64 \<Rightarrow> u64" where
  "FSA_VERSION_GET_D ver = drop_bit 0 ver AND 0xFFFF"

lemma unat_mask16: "unat (w AND 0xFFFF :: u64) = unat w mod 65536"
proof -
  have "w AND 0xFFFF = w mod 65536"
    using take_bit_eq_mask [of 16 w] by (simp add: take_bit_eq_mod mask_eq_exp_minus_1)
  then show ?thesis by (simp add: unat_mod_distrib)
qed

lemma unat_FSA_VERSION_BUILD:
  "unat (FSA_VERSION_BUILD a b c d) =
     ((unat a mod 65536 * 65536 + unat b mod 65536) * 65536 + unat c mod 65536) * 65536 + unat d mod 65536"
proof -
  let ?m = "\<lambda>w :: u64. unat w mod 65536"
  have push: "unat (push_bit k (w AND 0xFFFF :: u64)) = ?m w * 2 ^ k" if "k \<le> 48" for k w
  proof -
    have "?m w * 2 ^ k \<le> 65535 * 2 ^ 48"
      using that by (intro mult_le_mono power_increasing) (simp_all add: less_Suc_eq_le [symmetric])
    then have "take_bit 64 (push_bit k (?m w)) = ?m w * 2 ^ k"
      by (simp add: push_bit_eq_mult take_bit_nat_eq_self)
    then show ?thesis
      using unsigned_push_bit_eq [of k "w AND 0xFFFF", where ?'a = nat] that
      by (simp only: unat_mask16) simp
  qed
  have m: "?m w < 65536" for w by simp
  show ?thesis
    unfolding FSA_VERSION_BUILD_def
    using m [of a] m [of b] m [of c] m [of d] push [of 48 a] push [of 32 b] push [of 16 c] push [of 0 d]
    by (simp add: unat_add_lem [THEN iffD1])
qed

lemma unat_drop_bit: "unat (drop_bit k v :: u64) = unat v div 2 ^ k"
proof -
  have "take_bit 64 (unat v) = unat v"
    using unsigned_less [of v, where ?'a = nat] by (simp add: take_bit_nat_eq_self)
  then show ?thesis
    using unsigned_drop_bit_eq [of k v, where ?'a = nat] by (simp only: drop_bit_eq_div) simp
qed

text \<open>The four fields are the digits of a number in base 65536.\<close>

lemma digit_div: "(p * 65536 + x mod 65536) div 65536 = (p :: nat)"
  by simp

lemma digit_mod: "(p * 65536 + x mod 65536) mod 65536 = x mod (65536 :: nat)"
  by (simp add: mod_simps)

lemma digit_le:
  "p * 65536 + x mod 65536 \<le> p' * 65536 + x' mod 65536 \<longleftrightarrow>
     p < p' \<or> p = p' \<and> x mod 65536 \<le> x' mod (65536 :: nat)"
proof -
  have "x mod 65536 < 65536" "x' mod 65536 < 65536" by simp_all
  then show ?thesis by linarith
qed

lemma digit_less:
  "p * 65536 + x mod 65536 < p' * 65536 + x' mod 65536 \<longleftrightarrow>
     p < p' \<or> p = p' \<and> x mod 65536 < x' mod (65536 :: nat)"
proof -
  have "x mod 65536 < 65536" "x' mod 65536 < 65536" by simp_all
  then show ?thesis by linarith
qed

lemma digit_eq:
  "p * 65536 + x mod 65536 = p' * 65536 + x' mod 65536 \<longleftrightarrow>
     p = p' \<and> x mod 65536 = x' mod (65536 :: nat)"
  using digit_le [of p x p' x'] digit_le [of p' x' p x] by auto

lemma version_fields:
  "FSA_VERSION_GET_A (FSA_VERSION_BUILD a b c d) = a AND 0xFFFF"
  "FSA_VERSION_GET_B (FSA_VERSION_BUILD a b c d) = b AND 0xFFFF"
  "FSA_VERSION_GET_C (FSA_VERSION_BUILD a b c d) = c AND 0xFFFF"
  "FSA_VERSION_GET_D (FSA_VERSION_BUILD a b c d) = d AND 0xFFFF"
proof -
  have p: "n div 2 ^ 48 = n div 65536 div 65536 div 65536" "n div 2 ^ 32 = n div 65536 div 65536"
    "n div 2 ^ 16 = n div 65536" "n div 2 ^ 0 = n" for n :: nat
    by (simp_all add: div_mult2_eq [symmetric])
  note defs = FSA_VERSION_GET_A_def FSA_VERSION_GET_B_def FSA_VERSION_GET_C_def FSA_VERSION_GET_D_def
    word_eq_iff_unsigned [where 'a = nat] unat_drop_bit unat_FSA_VERSION_BUILD unat_mask16
  show "FSA_VERSION_GET_A (FSA_VERSION_BUILD a b c d) = a AND 0xFFFF"
    by (simp only: defs p digit_div digit_mod mod_mod_trivial)
  show "FSA_VERSION_GET_B (FSA_VERSION_BUILD a b c d) = b AND 0xFFFF"
    by (simp only: defs p digit_div digit_mod mod_mod_trivial)
  show "FSA_VERSION_GET_C (FSA_VERSION_BUILD a b c d) = c AND 0xFFFF"
    by (simp only: defs p digit_div digit_mod mod_mod_trivial)
  show "FSA_VERSION_GET_D (FSA_VERSION_BUILD a b c d) = d AND 0xFFFF"
    by (simp only: defs p digit_div digit_mod mod_mod_trivial)
qed

lemma version_le_lex:
  "FSA_VERSION_BUILD a b c d \<le> FSA_VERSION_BUILD a' b' c' d' \<longleftrightarrow>
     (let m = \<lambda>w. w AND 0xFFFF in
      m a < m a' \<or> m a = m a' \<and> (m b < m b' \<or> m b = m b' \<and>
        (m c < m c' \<or> m c = m c' \<and> m d \<le> m d')))"
  unfolding Let_def word_le_nat_alt word_less_nat_alt word_eq_iff_unsigned [where 'a = nat]
    unat_FSA_VERSION_BUILD unat_mask16 digit_le digit_less digit_eq
  by blast

end
