(* ===== verification/Checksum.thy ===== *)
theory Checksum
  imports Fsa_Const
begin

text \<open>The checksum of headers and data blocks: \<open>fletcher32\<close> of common.c, on 32-bit words as in the
  code, and its value as plain sums modulo 65535.\<close>

section \<open>The code\<close>

text \<open>The inner do-while loop: at most 360 bytes are added before the sums are reduced.\<close>

fun fletcher_chunk :: "u8 list \<Rightarrow> u32 \<times> u32 \<Rightarrow> u32 \<times> u32" where
  "fletcher_chunk [] (sum1, sum2) = (sum1, sum2)"
| "fletcher_chunk (b # bs) (sum1, sum2) =
     (let sum1 = sum1 + ucast b; sum2 = sum2 + sum1 in fletcher_chunk bs (sum1, sum2))"

definition fletcher_reduce :: "u32 \<Rightarrow> u32" where
  "fletcher_reduce s = (s AND 0xffff) + drop_bit 16 s"

function fletcher_loop :: "u8 list \<Rightarrow> u32 \<times> u32 \<Rightarrow> u32 \<times> u32" where
  "fletcher_loop data s =
     (if data = [] then s
      else let tlen = (if length data > 360 then 360 else length data);
               (sum1, sum2) = fletcher_chunk (take tlen data) s
           in fletcher_loop (drop tlen data) (fletcher_reduce sum1, fletcher_reduce sum2))"
  by pat_completeness auto
termination by (relation "measure (length \<circ> fst)") auto

declare fletcher_loop.simps [simp del]

definition fletcher32 :: "u8 list \<Rightarrow> u32" where
  "fletcher32 data =
     (let (sum1, sum2) = fletcher_loop data (0xffff, 0xffff);
          sum1 = fletcher_reduce sum1;
          sum2 = fletcher_reduce sum2
      in push_bit 16 sum2 OR sum1)"

section \<open>The sums without wrap-around\<close>

fun fsum :: "u8 list \<Rightarrow> nat \<times> nat \<Rightarrow> nat \<times> nat" where
  "fsum [] (a, b) = (a, b)"
| "fsum (x # xs) (a, b) = fsum xs (a + unat x, b + (a + unat x))"

text \<open>The representative in 1..65535 of a positive number modulo 65535.\<close>

definition canon :: "nat \<Rightarrow> nat" where
  "canon n = (if n mod 65535 = 0 then 65535 else n mod 65535)"

text \<open>The checksum as two sums over the bytes: the plain sum, and the sum weighted by the distance
  to the end of the data.\<close>

definition byte_sum :: "u8 list \<Rightarrow> nat" where
  "byte_sum data = (\<Sum>x\<leftarrow>data. unat x)"

fun weighted_sum :: "u8 list \<Rightarrow> nat" where
  "weighted_sum [] = 0"
| "weighted_sum (x # xs) = Suc (length xs) * unat x + weighted_sum xs"

definition fletcher32_spec :: "u8 list \<Rightarrow> nat" where
  "fletcher32_spec data = canon (weighted_sum data) * 65536 + canon (byte_sum data)"

lemma fsum_closed:
  "fsum xs (a, b) = (a + byte_sum xs, b + length xs * a + weighted_sum xs)"
  by (induction xs arbitrary: a b) (auto simp: byte_sum_def algebra_simps)

lemma canon_cong: "m mod 65535 = n mod 65535 \<Longrightarrow> canon m = canon n"
  by (simp add: canon_def)

lemma canon_eq_iff: "canon m = canon n \<longleftrightarrow> m mod 65535 = n mod 65535"
  using mod_less_divisor [of 65535 m] mod_less_divisor [of 65535 n]
  by (auto simp: canon_def split: if_splits)

lemma canon_bounds: "0 < canon n" "canon n \<le> 65535"
  using mod_less_divisor [of 65535 n] by (auto simp: canon_def)

lemma fsum_append: "fsum (xs @ ys) s = fsum ys (fsum xs s)"
  by (induction xs s rule: fsum.induct) auto

lemma fsum_mono: "a \<le> fst (fsum xs (a, b)) \<and> b \<le> snd (fsum xs (a, b))"
proof (induction xs arbitrary: a b)
  case (Cons x xs)
  show ?case using Cons.IH [of "a + unat x" "b + (a + unat x)"] by simp
qed simp

lemma fsum_cong:
  "a mod 65535 = a' mod 65535 \<Longrightarrow> b mod 65535 = b' mod 65535 \<Longrightarrow>
   fst (fsum xs (a, b)) mod 65535 = fst (fsum xs (a', b')) mod 65535 \<and>
   snd (fsum xs (a, b)) mod 65535 = snd (fsum xs (a', b')) mod 65535"
proof (induction xs arbitrary: a a' b b')
  case (Cons x xs)
  have A: "(a + unat x) mod 65535 = (a' + unat x) mod 65535"
    using mod_add_cong [OF Cons.prems(1) refl, of "unat x"] .
  have B: "(b + (a + unat x)) mod 65535 = (b' + (a' + unat x)) mod 65535"
    using mod_add_cong [OF Cons.prems(2) A] .
  show ?case using Cons.IH [OF A B] by simp
qed simp

lemma unat_u8_le: "unat (x :: u8) \<le> 255"
proof -
  have "unat x < 2 ^ LENGTH(8)" by (rule unsigned_less)
  then show ?thesis by simp
qed

lemma unat_ucast_u8 [simp]: "unat (ucast (x :: u8) :: u32) = unat x"
  using unat_u8_le [of x] by (simp add: unsigned_ucast_eq take_bit_nat_eq_self)

lemma fsum_bound:
  "fst (fsum xs (a, b)) \<le> a + 255 * length xs \<and>
   snd (fsum xs (a, b)) \<le> b + length xs * (a + 255 * length xs)"
proof (induction xs arbitrary: a b)
  case (Cons x xs)
  have x: "unat x \<le> 255" by (rule unat_u8_le)
  define Y where "Y = a + 255 * length (x # xs)"
  have "length xs * (a + unat x + 255 * length xs) \<le> length xs * Y" "a + unat x \<le> Y"
    using x by (auto simp: Y_def intro: mult_le_mono2)
  moreover have "length (x # xs) * Y = Y + length xs * Y" by simp
  ultimately have "b + (a + unat x) + length xs * (a + unat x + 255 * length xs) \<le> b + length (x # xs) * Y"
    by linarith
  then show ?case using Cons.IH [of "a + unat x" "b + (a + unat x)"] x
    unfolding Y_def by (auto intro: order_trans)
qed simp

lemma fletcher_chunk_unat:
  assumes "snd (fsum xs (unat s1, unat s2)) < 2 ^ 32" and "fst (fsum xs (unat s1, unat s2)) < 2 ^ 32"
  shows "map_prod unat unat (fletcher_chunk xs (s1, s2)) = fsum xs (unat s1, unat s2)"
  using assms
proof (induction xs arbitrary: s1 s2)
  case (Cons x xs)
  let ?n1 = "unat s1 + unat x"
  have m: "?n1 \<le> fst (fsum xs (?n1, unat s2 + ?n1)) \<and> unat s2 + ?n1 \<le> snd (fsum xs (?n1, unat s2 + ?n1))"
    by (rule fsum_mono)
  have n1: "unat (s1 + ucast x) = ?n1"
    using m Cons.prems by (subst unat_add_lem [THEN iffD1]) auto
  have n2: "unat (s2 + (s1 + ucast x)) = unat s2 + ?n1"
    using m Cons.prems n1 by (subst unat_add_lem [THEN iffD1]) auto
  show ?case
    using Cons.IH [of "s1 + ucast x" "s2 + (s1 + ucast x)"] Cons.prems by (simp add: n1 n2 Let_def)
qed simp


section \<open>The reductions\<close>

lemma unat_fletcher_reduce:
  "unat (fletcher_reduce s) = unat s mod 65536 + unat s div 65536"
proof -
  have s: "unat s < 2 ^ LENGTH(32)" by (rule unsigned_less)
  have "s AND 0xffff = s mod 65536"
    using take_bit_eq_mask [of 16 s] by (simp add: take_bit_eq_mod mask_eq_exp_minus_1)
  then have a: "unat (s AND 0xffff) = unat s mod 65536"
    by (simp add: unat_mod_distrib)
  have d: "unat (drop_bit 16 s) = unat s div 65536"
    by (simp add: drop_bit_eq_div unat_div_distrib)
  have "unat s div 65536 < 65536"
    using s by (simp add: div_less_iff_less_mult)
  then have "unat (s AND 0xffff) + unat (drop_bit 16 s) < 2 ^ LENGTH(32)"
    unfolding a d by simp
  then show ?thesis
    unfolding fletcher_reduce_def a [symmetric] d [symmetric] by (rule unat_add_lem [THEN iffD1])
qed

lemma fletcher_reduce_props:
  "unat (fletcher_reduce s) \<le> 131070"
  "unat (fletcher_reduce s) mod 65535 = unat s mod 65535"
  "0 < unat s \<Longrightarrow> 0 < unat (fletcher_reduce s)"
proof -
  let ?n = "unat s"
  have "?n < 2 ^ LENGTH(32)" by (rule unsigned_less)
  then show "unat (fletcher_reduce s) \<le> 131070"
    by (simp add: unat_fletcher_reduce)
  have "?n = (?n mod 65536 + ?n div 65536) + 65535 * (?n div 65536)"
    using div_mult_mod_eq [of ?n 65536] by linarith
  then show "unat (fletcher_reduce s) mod 65535 = ?n mod 65535"
    by (metis mod_mult_self2 unat_fletcher_reduce)
  show "0 < ?n \<Longrightarrow> 0 < unat (fletcher_reduce s)"
    by (simp add: unat_fletcher_reduce) (metis div_eq_0_iff mod_less gr0I zero_less_numeral)
qed

lemma fletcher_reduce_canon:
  assumes "0 < unat s" and "unat s \<le> 131070"
  shows "unat (fletcher_reduce s) = canon (unat s)"
proof -
  consider "unat s < 65535" | "unat s = 65535" | "65535 < unat s" "unat s < 131070" | "unat s = 131070"
    using assms by linarith
  then show ?thesis
  proof cases
    case 3
    then have "unat s div 65536 = 1" "unat s mod 65536 = unat s - 65536" "unat s mod 65535 = unat s - 65535"
      by (auto simp: div_nat_eqI le_mod_geq)
    then show ?thesis using 3 by (simp add: unat_fletcher_reduce canon_def)
  qed (use assms in \<open>simp_all add: unat_fletcher_reduce canon_def\<close>)
qed

section \<open>The loop\<close>

lemma fletcher_loop_sums:
  assumes "0 < unat s1" "unat s1 \<le> 131070" "0 < unat s2" "unat s2 \<le> 131070"
    and "fletcher_loop data (s1, s2) = (t1, t2)"
  shows "0 < unat t1 \<and> unat t1 \<le> 131070 \<and> 0 < unat t2 \<and> unat t2 \<le> 131070 \<and>
    unat t1 mod 65535 = fst (fsum data (unat s1, unat s2)) mod 65535 \<and>
    unat t2 mod 65535 = snd (fsum data (unat s1, unat s2)) mod 65535"
  using assms
proof (induction "length data" arbitrary: data s1 s2 rule: less_induct)
  case less
  show ?case
  proof (cases "data = []")
    case True
    then show ?thesis using less.prems by (simp add: fletcher_loop.simps)
  next
    case False
    define n where "n = (if length data > 360 then 360 else length data)"
    define xs where "xs = take n data"
    obtain u1 u2 where u: "fletcher_chunk xs (s1, s2) = (u1, u2)" by fastforce
    have n: "n \<le> 360" "0 < n" "length xs = n" using False by (auto simp: n_def xs_def)
    have "n * (unat s1 + 255 * n) \<le> 360 * (131070 + 255 * 360)"
      using n less.prems by (intro mult_le_mono) simp_all
    then have "fst (fsum xs (unat s1, unat s2)) < 2 ^ 32 \<and> snd (fsum xs (unat s1, unat s2)) < 2 ^ 32"
      using fsum_bound [of xs "unat s1" "unat s2"] less.prems n by simp
    then have us: "unat u1 = fst (fsum xs (unat s1, unat s2))" "unat u2 = snd (fsum xs (unat s1, unat s2))"
      using fletcher_chunk_unat [of xs s1 s2] by (simp_all add: u prod_eq_iff)
    have pos: "0 < unat u1" "0 < unat u2"
      using fsum_mono [of "unat s1" xs "unat s2"] less.prems by (auto simp: us)
    have rec: "fletcher_loop (drop n data) (fletcher_reduce u1, fletcher_reduce u2) = (t1, t2)"
      using less.prems False
      by (simp add: fletcher_loop.simps [of data] Let_def n_def [symmetric] xs_def [symmetric] u)
    have shorter: "length (drop n data) < length data" using False n by simp
    note IH = less.hyps [OF shorter fletcher_reduce_props(3) [OF pos(1)] fletcher_reduce_props(1)
        fletcher_reduce_props(3) [OF pos(2)] fletcher_reduce_props(1) rec]
    have "fsum data (unat s1, unat s2) = fsum (drop n data) (unat u1, unat u2)"
      using fsum_append [of xs "drop n data" "(unat s1, unat s2)"]
      by (simp add: xs_def us)
    moreover note fsum_cong [of "unat (fletcher_reduce u1)" "unat u1" "unat (fletcher_reduce u2)" "unat u2"
        "drop n data", OF fletcher_reduce_props(2) fletcher_reduce_props(2)]
    ultimately show ?thesis using IH by simp
  qed
qed

text \<open>No sum wraps around, whatever the length of the data: the 32-bit routine computes the two sums
  modulo 65535.\<close>

lemma unat_join_halves:
  assumes "unat (hi :: u32) < 65536" and "unat (lo :: u32) < 65536"
  shows "unat (push_bit 16 hi OR lo) = unat hi * 65536 + unat lo"
proof -
  have "push_bit 16 hi AND lo = 0"
  proof (rule bit_word_eqI)
    fix k assume "k < LENGTH(32)"
    have "lo = take_bit 16 lo"
      using assms(2) by (simp add: take_bit_eq_mod word_eq_iff_unsigned [where 'a = nat] unat_mod_distrib)
    then have "bit lo k \<Longrightarrow> k < 16" by (metis bit_take_bit_iff)
    then show "bit (push_bit 16 hi AND lo) k = bit (0 :: u32) k" by (auto simp: bit_simps)
  qed
  then have "push_bit 16 hi OR lo = push_bit 16 hi + lo"
    using word_plus_and_or [of "push_bit 16 hi" lo] by simp
  moreover have "unat (push_bit 16 hi) = unat hi * 65536"
    using assms(1) by (simp add: push_bit_eq_mult unat_mult_lem [THEN iffD1])
  ultimately show ?thesis using assms by (simp add: unat_add_lem [THEN iffD1])
qed

lemma unat_fletcher32: "unat (fletcher32 data) = fletcher32_spec data"
proof -
  obtain t1 t2 where t: "fletcher_loop data (0xffff, 0xffff) = (t1, t2)" by fastforce
  have w: "(65535 + length data * 65535 + weighted_sum data) mod 65535 = weighted_sum data mod 65535"
    using mod_mult_self2 [of "weighted_sum data" 65535 "Suc (length data)"] by (simp add: algebra_simps)
  have T: "0 < unat t1" "unat t1 \<le> 131070" "0 < unat t2" "unat t2 \<le> 131070"
    "unat t1 mod 65535 = byte_sum data mod 65535" "unat t2 mod 65535 = weighted_sum data mod 65535"
    using fletcher_loop_sums [OF _ _ _ _ t] by (auto simp: fsum_closed w)
  have "unat (fletcher_reduce t1) = canon (byte_sum data)"
    "unat (fletcher_reduce t2) = canon (weighted_sum data)"
    using T by (simp_all add: fletcher_reduce_canon canon_eq_iff)
  then show ?thesis
    using canon_bounds(2) [of "byte_sum data"] canon_bounds(2) [of "weighted_sum data"]
    by (simp add: fletcher32_def t fletcher32_spec_def unat_join_halves)
qed

lemma fletcher32_eq_iff:
  "fletcher32 xs = fletcher32 ys \<longleftrightarrow>
     byte_sum xs mod 65535 = byte_sum ys mod 65535 \<and>
     weighted_sum xs mod 65535 = weighted_sum ys mod 65535"
proof -
  have "fletcher32 xs = fletcher32 ys \<longleftrightarrow> fletcher32_spec xs = fletcher32_spec ys"
    by (simp add: word_eq_iff_unsigned [where 'a = nat] unat_fletcher32)
  also have "\<dots> \<longleftrightarrow> canon (weighted_sum xs) = canon (weighted_sum ys) \<and> canon (byte_sum xs) = canon (byte_sum ys)"
  proof
    assume eq: "fletcher32_spec xs = fletcher32_spec ys"
    have lt: "canon (byte_sum zs) < 65536" for zs using canon_bounds(2) [of "byte_sum zs"] by simp
    have "fletcher32_spec zs div 65536 = canon (weighted_sum zs)"
      "fletcher32_spec zs mod 65536 = canon (byte_sum zs)" for zs
      using lt [of zs] by (simp_all add: fletcher32_spec_def)
    then show "canon (weighted_sum xs) = canon (weighted_sum ys) \<and> canon (byte_sum xs) = canon (byte_sum ys)"
      using eq by metis
  qed (simp add: fletcher32_spec_def)
  finally show ?thesis by (auto simp: canon_eq_iff)
qed

lemma weighted_sum_append:
  "weighted_sum (xs @ ys) = weighted_sum xs + length ys * byte_sum xs + weighted_sum ys"
  by (induction xs) (auto simp: byte_sum_def algebra_simps)

lemma byte_sum_simps [simp]:
  "byte_sum [] = 0" "byte_sum (x # xs) = unat x + byte_sum xs" "byte_sum (xs @ ys) = byte_sum xs + byte_sum ys"
  by (simp_all add: byte_sum_def)

lemma small_mod_eq:
  assumes "(c + m) mod 65535 = (c + n) mod (65535 :: nat)" and "m < 65535" and "n < 65535"
  shows "m = n"
proof -
  have "int m mod 65535 = int n mod 65535"
    using assms(1) by (metis (no_types, opaque_lifting) add_diff_cancel_left' mod_diff_left_eq of_nat_add
        of_nat_mod of_nat_numeral)
  then show ?thesis using assms(2,3) by simp
qed

lemma fletcher32_byte_eq: "fletcher32 (xs @ a # ys) = fletcher32 (xs @ b # ys) \<longleftrightarrow> a = b"
proof
  assume "fletcher32 (xs @ a # ys) = fletcher32 (xs @ b # ys)"
  then have "(byte_sum xs + byte_sum ys + unat a) mod 65535 = (byte_sum xs + byte_sum ys + unat b) mod 65535"
    by (simp add: fletcher32_eq_iff ac_simps)
  from small_mod_eq [OF this] have "unat a = unat b"
    using unat_u8_le [of a] unat_u8_le [of b] by simp
  then show "a = b" by (simp add: word_eq_iff_unsigned [where 'a = nat])
qed simp

text \<open>C27: fletcher32 never loses a carry: for data of any length the 32-bit routine, with its two
  reduction steps every 360 bytes, returns the byte sum and the position-weighted byte sum modulo
  65535, each as the representative in 1..65535.\<close>

theorem fletcher32_correct: "unat (fletcher32 data) = fletcher32_spec data"
  by (rule unat_fletcher32)

text \<open>C28: any change of a single byte of a header or a block is detected, at any position and length.\<close>

theorem fletcher32_detects_byte:
  "fletcher32 (xs @ a # ys) = fletcher32 (xs @ b # ys) \<longleftrightarrow> a = b"
  by (rule fletcher32_byte_eq)

text \<open>Exchanging two adjacent bytes that differ is detected as well, which a plain sum misses.\<close>

theorem fletcher32_detects_swap:
  "fletcher32 (xs @ a # b # ys) = fletcher32 (xs @ b # a # ys) \<longleftrightarrow> a = b"
proof
  assume "fletcher32 (xs @ a # b # ys) = fletcher32 (xs @ b # a # ys)"
  then have "weighted_sum (xs @ a # b # ys) mod 65535 = weighted_sum (xs @ b # a # ys) mod 65535"
    by (simp add: fletcher32_eq_iff)
  moreover define c where "c = weighted_sum xs + (length ys + 2) * byte_sum xs + weighted_sum ys
      + Suc (length ys) * (unat a + unat b)"
  have "weighted_sum (xs @ a # b # ys) = c + unat a" "weighted_sum (xs @ b # a # ys) = c + unat b"
    by (simp_all add: weighted_sum_append c_def algebra_simps)
  ultimately have "unat a = unat b"
    using small_mod_eq [of c "unat a" "unat b"] unat_u8_le [of a] unat_u8_le [of b] by simp
  then show "a = b" by (simp add: word_eq_iff_unsigned [where 'a = nat])
qed simp

end
