(* ===== verification/Cstring.thy ===== *)
theory Cstring
  imports Fsa_Const
begin

text \<open>The part of the C library's string handling that the program uses: strtok_r, the appending
  snprintf behind \<open>strlcatf\<close> (common.c), decimal and hexadecimal conversions.\<close>

section \<open>Splitting\<close>

text \<open>One call of strtok_r on the text that is left: the next token and the text after its
  delimiter.\<close>

definition strtok_r :: "string \<Rightarrow> string \<Rightarrow> (string \<times> string) option" where
  "strtok_r delims str =
     (let s = dropWhile (\<lambda>c. c \<in> set delims) str
      in if s = [] then None
         else Some (takeWhile (\<lambda>c. c \<notin> set delims) s,
                    drop 1 (dropWhile (\<lambda>c. c \<notin> set delims) s)))"

lemma strtok_r_shorter: "strtok_r delims str = Some (tok, rest) \<Longrightarrow> length rest < length str"
proof -
  assume "strtok_r delims str = Some (tok, rest)"
  then have s: "dropWhile (\<lambda>c. c \<in> set delims) str \<noteq> []"
    and rest: "rest = drop 1 (dropWhile (\<lambda>c. c \<notin> set delims) (dropWhile (\<lambda>c. c \<in> set delims) str))"
    by (auto simp: strtok_r_def Let_def split: if_splits)
  from s obtain c cs where c: "dropWhile (\<lambda>c. c \<in> set delims) str = c # cs"
    by (cases "dropWhile (\<lambda>c. c \<in> set delims) str") auto
  then have "c \<notin> set delims" using hd_dropWhile [of "\<lambda>c. c \<in> set delims" str] by simp
  moreover have "length (c # cs) \<le> length str" by (metis c length_dropWhile_le)
  moreover have "length (dropWhile (\<lambda>c. c \<notin> set delims) cs) \<le> length cs" by (rule length_dropWhile_le)
  ultimately show ?thesis unfolding rest c by simp
qed

lemma strtok_r_token:
  "strtok_r delims str = Some (tok, rest) \<Longrightarrow> tok \<noteq> [] \<and> set tok \<inter> set delims = {}"
  using hd_dropWhile [of "\<lambda>c. c \<in> set delims" str]
  by (auto simp: strtok_r_def Let_def takeWhile_eq_Nil_iff dest: set_takeWhileD split: if_splits)

function strtok_all :: "string \<Rightarrow> string \<Rightarrow> string list" where
  "strtok_all delims str =
     (case strtok_r delims str of None \<Rightarrow> [] | Some (tok, rest) \<Rightarrow> tok # strtok_all delims rest)"
  by pat_completeness auto
termination
  by (relation "measure (length \<circ> snd)") (auto dest: strtok_r_shorter)

declare strtok_all.simps [simp del]

lemma strtok_all_tokens:
  "tok \<in> set (strtok_all delims str) \<Longrightarrow> tok \<noteq> [] \<and> set tok \<inter> set delims = {}"
proof (induction delims str rule: strtok_all.induct)
  case (1 delims str)
  show ?case
  proof (cases "strtok_r delims str")
    case None
    then show ?thesis using 1 by (simp add: strtok_all.simps [of delims str])
  next
    case (Some p)
    obtain t rest where p: "p = (t, rest)" by (cases p)
    have "tok = t \<or> tok \<in> set (strtok_all delims rest)"
      using 1(2) Some p by (simp add: strtok_all.simps [of delims str])
    then show ?thesis using 1(1) Some p strtok_r_token by blast
  qed
qed

text \<open>Tokens joined with a delimiter are the tokens again.\<close>

fun join_sep :: "char \<Rightarrow> string list \<Rightarrow> string" where
  "join_sep sep [] = []"
| "join_sep sep [s] = s"
| "join_sep sep (s # ss) = s @ sep # join_sep sep ss"

lemma join_sep_Cons: "join_sep sep (s # ss) = s @ (if ss = [] then [] else sep # join_sep sep ss)"
  by (cases ss) auto

lemma strtok_r_join:
  assumes "s \<noteq> []" and "set s \<inter> set delims = {}" and "sep \<in> set delims"
  shows "strtok_r delims (join_sep sep (s # ss)) = Some (s, join_sep sep ss)"
proof -
  have t: "takeWhile (\<lambda>c. c \<notin> set delims) (s @ u) = s @ takeWhile (\<lambda>c. c \<notin> set delims) u"
    and d: "dropWhile (\<lambda>c. c \<notin> set delims) (s @ u) = dropWhile (\<lambda>c. c \<notin> set delims) u" for u
    using assms(2) by (induction s) auto
  obtain c cs where s: "s = c # cs" using assms(1) by (cases s) auto
  then have "dropWhile (\<lambda>c. c \<in> set delims) (s @ u) = s @ u" for u using assms(2) by auto
  then show ?thesis
    using assms by (simp add: strtok_r_def join_sep_Cons t d)
qed

lemma strtok_all_Nil [simp]: "strtok_all delims [] = []"
  by (simp add: strtok_all.simps strtok_r_def)

lemma strtok_all_join_set:
  "sep \<in> set delims \<Longrightarrow> \<forall>s \<in> set ss. s \<noteq> [] \<and> set s \<inter> set delims = {} \<Longrightarrow>
   strtok_all delims (join_sep sep ss) = ss"
proof (induction ss)
  case (Cons s ss)
  then show ?case by (subst strtok_all.simps) (simp add: strtok_r_join)
qed simp

lemma strtok_all_join:
  "\<forall>s \<in> set ss. s \<noteq> [] \<and> sep \<notin> set s \<Longrightarrow> strtok_all [sep] (join_sep sep ss) = ss"
  by (rule strtok_all_join_set) auto

section \<open>Appending to a buffer\<close>

text \<open>strlcatf on a buffer of \<open>n\<close> bytes that holds the string \<open>dest\<close>: the formatted text is cut to the
  room that is left, the terminating NUL included.\<close>

definition strlcatf :: "nat \<Rightarrow> string \<Rightarrow> string \<Rightarrow> string" where
  "strlcatf n dest str =
     (let len1 = length dest
      in if n \<le> len1 then dest else dest @ snprintf_s (n - len1) str)"

lemma strlcatf_take: "length dest < n \<Longrightarrow> strlcatf n dest str = take (n - 1) (dest @ str)"
  by (simp add: strlcatf_def snprintf_s_def Let_def)

lemma strlcatf_fits: "length dest + length str < n \<Longrightarrow> strlcatf n dest str = dest @ str"
  by (simp add: strlcatf_take)

lemma strlcatf_length: "length dest < n \<Longrightarrow> length (strlcatf n dest str) < n"
  by (auto simp: strlcatf_take)

section \<open>Numbers\<close>

definition digit_char :: "nat \<Rightarrow> char" where
  "digit_char d = char_of (if d < 10 then 48 + d else 87 + d)"

fun dec_digits :: "nat \<Rightarrow> string" where
  "dec_digits n = (if n < 10 then [digit_char n] else dec_digits (n div 10) @ [digit_char (n mod 10)])"

declare dec_digits.simps [simp del]

text \<open>\<open>%.<w>ld\<close> of a number that is not negative: at least \<open>w\<close> digits.\<close>

definition dec_pad :: "nat \<Rightarrow> nat \<Rightarrow> string" where
  "dec_pad w n = (let s = dec_digits n in replicate (w - length s) (CHR ''0'') @ s)"

text \<open>\<open>%.2x\<close> of a byte.\<close>

definition hex2 :: "u8 \<Rightarrow> string" where
  "hex2 b = [digit_char (unat b div 16), digit_char (unat b mod 16)]"

definition char_value :: "char \<Rightarrow> nat" where
  "char_value c = (let v = of_char c in if v < 58 then v - 48 else v - 87)"

definition dec_value :: "string \<Rightarrow> nat" where
  "dec_value s = foldl (\<lambda>v c. 10 * v + char_value c) 0 s"

lemma char_value_digit [simp]: "d < 16 \<Longrightarrow> char_value (digit_char d) = d"
  by (simp add: char_value_def digit_char_def Let_def)

lemma dec_value_digits: "foldl (\<lambda>v c. 10 * v + char_value c) 0 (dec_digits n) = n"
proof (induction n rule: dec_digits.induct)
  case (1 n)
  then show ?case by (subst dec_digits.simps) auto
qed

lemma foldl_zeros: "foldl (\<lambda>v c. 10 * v + char_value c) 0 (replicate k (CHR ''0'')) = 0"
  by (induction k) (auto simp: char_value_def)

lemma dec_value_dec_pad: "dec_value (dec_pad w n) = n"
  by (simp add: dec_value_def dec_pad_def Let_def foldl_zeros dec_value_digits)

lemma dec_pad_inj: "dec_pad w m = dec_pad w n \<longleftrightarrow> m = n"
  by (metis dec_value_dec_pad)

lemma digit_char_dec: "d < 10 \<Longrightarrow> digit_char d \<in> set ''0123456789''"
  by (simp add: numeral_eq_Suc less_Suc_eq) (elim disjE; simp add: digit_char_def; code_simp)

lemma dec_digits_chars: "set (dec_digits n) \<subseteq> set ''0123456789''"
proof (induction n rule: dec_digits.induct)
  case (1 n)
  show ?case
  proof (cases "n < 10")
    case True
    then have "dec_digits n = [digit_char n]" by (subst dec_digits.simps) simp
    then show ?thesis using digit_char_dec [OF True] by simp
  next
    case False
    moreover have "digit_char (n mod 10) \<in> set ''0123456789''" by (rule digit_char_dec) simp
    moreover have "dec_digits n = dec_digits (n div 10) @ [digit_char (n mod 10)]"
      using False by (subst dec_digits.simps) simp
    ultimately show ?thesis using 1 by auto
  qed
qed

lemma dec_pad_chars: "set (dec_pad w n) \<subseteq> set ''0123456789''"
proof -
  have "set (replicate k (CHR ''0'')) \<subseteq> set ''0123456789''" for k by auto
  then show ?thesis using dec_digits_chars [of n] unfolding dec_pad_def Let_def set_append by blast
qed

lemma hex2_inj: "hex2 a = hex2 b \<longleftrightarrow> a = b"
proof
  assume "hex2 a = hex2 b"
  then have "map char_value (hex2 a) = map char_value (hex2 b)" by simp
  moreover have "unat x div 16 < 16" for x :: u8
    using unsigned_less [of x, where ?'a = nat] by (simp add: div_less_iff_less_mult)
  ultimately have "unat a div 16 = unat b div 16" "unat a mod 16 = unat b mod 16"
    by (simp_all add: hex2_def)
  then have "unat a = unat b" by (metis div_mult_mod_eq)
  then show "a = b" by (simp add: word_eq_iff_unsigned [where ?'a = nat])
qed simp

end
