(* ===== verification/Strlist.thy ===== *)
theory Strlist
  imports Cstring
begin

text \<open>strlist.c: the linked list of strings that holds exclude patterns, volume names and mount
  options. The list of the nodes' strings is the state; the functions return the C return code with
  the new list.\<close>

type_synonym cstrlist = "string list"

section \<open>The operations\<close>

definition strlist_init :: "int \<times> cstrlist" where
  "strlist_init = (0, [])"

definition strlist_empty :: "cstrlist \<Rightarrow> int \<times> cstrlist" where
  "strlist_empty l = (0, [])"

definition strlist_destroy :: "cstrlist \<Rightarrow> int \<times> cstrlist" where
  "strlist_destroy l = (let (r, l) = strlist_empty l in (0, l))"

fun strlist_exists :: "cstrlist \<Rightarrow> string \<Rightarrow> bool" where
  "strlist_exists [] str = False"
| "strlist_exists (item # items) str = (if item = str then True else strlist_exists items str)"

definition sizeof_cstrlistitem :: nat where
  "sizeof_cstrlistitem = 16"

definition strlist_add :: "malloc \<Rightarrow> cstrlist \<Rightarrow> string \<Rightarrow> int \<times> cstrlist" where
  "strlist_add mem l str =
     (if length str = 0 then (-1, l)
      else if strlist_exists l str then (-1, l)
      else if \<not> mem sizeof_cstrlistitem then (-1, l)
      else if \<not> mem (length str + 1) then (-1, l)
      else (0, l @ [str]))"

text \<open>The loop of strlist_getitem stops at the first node whose position is not below the index, so an
  index that is not positive gives the first node.\<close>

fun strlist_seek :: "cstrlist \<Rightarrow> int \<Rightarrow> int \<Rightarrow> string option" where
  "strlist_seek [] pos index = None"
| "strlist_seek (item # items) pos index =
     (if pos < index then strlist_seek items (pos + 1) index else Some item)"

definition strlist_getitem :: "cstrlist \<Rightarrow> int \<Rightarrow> string \<Rightarrow> int \<Rightarrow> int \<times> string" where
  "strlist_getitem l index buf bufsize =
     (if bufsize \<le> 0 then (-1, buf)
      else case strlist_seek l 0 index of
        Some item \<Rightarrow> (0, snprintf_s (nat bufsize) item)
      | None \<Rightarrow> (-1, buf))"

fun strlist_unlink :: "cstrlist \<Rightarrow> string \<Rightarrow> int \<times> cstrlist" where
  "strlist_unlink (item # next_item # items) str =
     (if next_item = str then (0, item # items)
      else let (r, l) = strlist_unlink (next_item # items) str in (r, item # l))"
| "strlist_unlink l str = (-1, l)"

definition strlist_remove :: "cstrlist \<Rightarrow> string \<Rightarrow> int \<times> cstrlist" where
  "strlist_remove l str =
     (case l of
        [] \<Rightarrow> (-1, l)
      | item # items \<Rightarrow> if item = str then (0, items) else strlist_unlink l str)"

fun strlist_merge_loop :: "bool \<Rightarrow> cstrlist \<Rightarrow> nat \<Rightarrow> char \<Rightarrow> string \<Rightarrow> string" where
  "strlist_merge_loop first [] n sep bufdat = bufdat"
| "strlist_merge_loop first (item # items) n sep bufdat =
     (let bufdat = (if \<not> first then strlcatf n bufdat [sep] else bufdat)
      in strlist_merge_loop False items n sep (strlcatf n bufdat item))"

definition strlist_merge :: "cstrlist \<Rightarrow> int \<Rightarrow> char \<Rightarrow> string option" where
  "strlist_merge l bufsize sep =
     (if bufsize \<le> 0 then None else Some (strlist_merge_loop True l (nat bufsize) sep []))"

fun strlist_add_tokens :: "malloc \<Rightarrow> cstrlist \<Rightarrow> string list \<Rightarrow> int \<times> cstrlist" where
  "strlist_add_tokens mem l [] = (0, l)"
| "strlist_add_tokens mem l (tok # toks) =
     (let (r, l) = strlist_add mem l tok
      in if r \<noteq> 0 then (-1, l) else strlist_add_tokens mem l toks)"

definition strlist_split :: "malloc \<Rightarrow> cstrlist \<Rightarrow> string \<Rightarrow> char \<Rightarrow> int \<times> cstrlist" where
  "strlist_split mem l str sep =
     (let delims = [sep]; (r, l) = strlist_empty l
      in if \<not> mem (length str + 1) then (-1, l)
         else strlist_add_tokens mem l (strtok_all delims str))"

fun strlist_count_loop :: "cstrlist \<Rightarrow> int \<Rightarrow> int" where
  "strlist_count_loop [] count = count"
| "strlist_count_loop (item # items) count = strlist_count_loop items (count + 1)"

definition strlist_count :: "cstrlist \<Rightarrow> int" where
  "strlist_count l = (if l = [] then 0 else strlist_count_loop l 0)"

text \<open>exclude_check of common.c: fnmatch (the C library's pattern matching) is a parameter; the
  pattern is copied to a buffer of 1024 bytes first.\<close>

fun exclude_check_loop ::
    "(string \<Rightarrow> string \<Rightarrow> bool) \<Rightarrow> cstrlist \<Rightarrow> string \<Rightarrow> nat \<Rightarrow> int \<Rightarrow> string \<Rightarrow> bool" where
  "exclude_check_loop fnmatch patlist pattern 0 i str = False"
| "exclude_check_loop fnmatch patlist pattern (Suc n) i str =
     (let (r, pattern) = strlist_getitem patlist i pattern 1024
      in if fnmatch pattern str then True
         else exclude_check_loop fnmatch patlist pattern n (i + 1) str)"

definition exclude_check :: "(string \<Rightarrow> string \<Rightarrow> bool) \<Rightarrow> cstrlist \<Rightarrow> string \<Rightarrow> bool" where
  "exclude_check fnmatch patlist str =
     exclude_check_loop fnmatch patlist [] (nat (strlist_count patlist)) 0 str"

section \<open>Lemmas\<close>

definition strlist_wf :: "cstrlist \<Rightarrow> bool" where
  "strlist_wf l \<longleftrightarrow> distinct l \<and> [] \<notin> set l"

lemma strlist_exists_iff [simp]: "strlist_exists l str \<longleftrightarrow> str \<in> set l"
  by (induction l) auto

lemma strlist_count_eq: "strlist_count l = int (length l)"
proof -
  have "strlist_count_loop l c = c + int (length l)" for c
    by (induction l arbitrary: c) auto
  then show ?thesis by (simp add: strlist_count_def)
qed

lemma strlist_seek_nth:
  "strlist_seek l pos index =
     (if nat (index - pos) < length l then Some (l ! nat (index - pos)) else None)"
proof (induction l arbitrary: pos)
  case (Cons item items)
  have "nat (index - pos) = Suc (nat (index - (pos + 1)))" if "pos < index"
    using that by simp
  then show ?case using Cons by simp
qed simp

lemma strlist_unlink_remove1:
  "l = [] \<or> hd l \<noteq> str \<Longrightarrow>
   strlist_unlink l str = (if str \<in> set l then (0, remove1 str l) else (-1, l))"
  by (induction l str rule: strlist_unlink.induct) (auto simp: Let_def split: if_splits prod.splits)

lemma strlist_remove_eq:
  "strlist_remove l str = (if str \<in> set l then (0, remove1 str l) else (-1, l))"
  by (cases l) (auto simp: strlist_remove_def strlist_unlink_remove1)

lemma strlist_add_wf: "strlist_wf l \<Longrightarrow> strlist_wf (snd (strlist_add mem l str))"
  by (auto simp: strlist_add_def strlist_wf_def)

lemma strlist_remove_wf: "strlist_wf l \<Longrightarrow> strlist_wf (snd (strlist_remove l str))"
  by (auto simp: strlist_remove_eq strlist_wf_def dest: notin_set_remove1)

lemma strlist_add_tokens_wf: "strlist_wf l \<Longrightarrow> strlist_wf (snd (strlist_add_tokens mem l toks))"
proof (induction mem l toks rule: strlist_add_tokens.induct)
  case (2 mem l tok toks)
  then show ?case
    using strlist_add_wf [of l mem tok] by (auto simp: Let_def split: prod.splits)
qed simp

lemma strlist_split_wf: "strlist_wf (snd (strlist_split mem l str sep))"
  using strlist_add_tokens_wf [of "[]"]
  by (simp add: strlist_split_def strlist_empty_def strlist_wf_def)

lemma strlist_add_ok:
  "str \<noteq> [] \<Longrightarrow> str \<notin> set l \<Longrightarrow> strlist_add mem_ok l str = (0, l @ [str])"
  by (simp add: strlist_add_def)

lemma strlist_add_tokens_ok:
  "distinct (l @ toks) \<Longrightarrow> [] \<notin> set toks \<Longrightarrow> strlist_add_tokens mem_ok l toks = (0, l @ toks)"
  by (induction toks arbitrary: l) (auto simp: strlist_add_ok)

lemma strlist_merge_loop_False:
  "length bufdat + length (join_sep sep ([] # l)) < n \<Longrightarrow>
   strlist_merge_loop False l n sep bufdat = bufdat @ join_sep sep ([] # l)"
proof (induction l arbitrary: bufdat)
  case (Cons item items)
  then show ?case by (auto simp: strlcatf_fits join_sep_Cons Let_def)
qed simp

lemma strlist_merge_join:
  "int (length (join_sep sep l)) < bufsize \<Longrightarrow> strlist_merge l bufsize sep = Some (join_sep sep l)"
proof (cases l)
  case (Cons item items)
  assume "int (length (join_sep sep l)) < bufsize"
  then show ?thesis
    using Cons strlist_merge_loop_False [of item sep items "nat bufsize"]
    by (auto simp: strlist_merge_def strlcatf_fits join_sep_Cons Let_def)
qed (auto simp: strlist_merge_def)

lemma strlist_merge_loop_bound:
  "length bufdat < n \<Longrightarrow> length (strlist_merge_loop first l n sep bufdat) < n"
  by (induction first l n sep bufdat rule: strlist_merge_loop.induct)
    (auto simp: Let_def strlcatf_length)

lemma exclude_check_loop_iff:
  assumes "i + int n = int (length patlist)" and "0 \<le> i"
  shows "exclude_check_loop fnmatch patlist pattern n i str \<longleftrightarrow>
    (\<exists>p \<in> set (drop (nat i) patlist). fnmatch (snprintf_s 1024 p) str)"
  using assms
proof (induction n arbitrary: i pattern)
  case (Suc n)
  have lt: "nat i < length patlist" using Suc.prems by simp
  then have "drop (nat i) patlist = patlist ! nat i # drop (nat (i + 1)) patlist"
    using Suc.prems by (simp add: Cons_nth_drop_Suc nat_add_distrib)
  then show ?case
    using Suc lt by (simp add: strlist_getitem_def strlist_seek_nth)
qed simp

lemma exclude_check_iff:
  "exclude_check fnmatch patlist str \<longleftrightarrow> (\<exists>p \<in> set patlist. fnmatch (take 1023 p) str)"
  using exclude_check_loop_iff [of 0 "length patlist" patlist fnmatch "[]" str]
  by (simp add: exclude_check_def strlist_count_eq snprintf_s_def)

section \<open>The set that callers see\<close>

locale string_set =
  fixes s_empty :: 's
    and s_add :: "'s \<Rightarrow> string \<Rightarrow> int \<times> 's"
    and s_remove :: "'s \<Rightarrow> string \<Rightarrow> int \<times> 's"
    and s_isin :: "'s \<Rightarrow> string \<Rightarrow> bool"
    and members :: "'s \<Rightarrow> string set"
    and invar :: "'s \<Rightarrow> bool"
  assumes empty_law: "invar s_empty" "members s_empty = {}"
    and add_law: "invar s \<Longrightarrow> invar (snd (s_add s x))"
      "invar s \<Longrightarrow> x \<noteq> [] \<Longrightarrow> members (snd (s_add s x)) = insert x (members s)"
      "invar s \<Longrightarrow> x \<noteq> [] \<Longrightarrow> fst (s_add s x) = 0 \<longleftrightarrow> x \<notin> members s"
    and remove_law: "invar s \<Longrightarrow> invar (snd (s_remove s x))"
      "invar s \<Longrightarrow> members (snd (s_remove s x)) = members s - {x}"
      "invar s \<Longrightarrow> fst (s_remove s x) = 0 \<longleftrightarrow> x \<in> members s"
    and isin_law: "invar s \<Longrightarrow> s_isin s x \<longleftrightarrow> x \<in> members s"
begin

lemma isin_add: "invar s \<Longrightarrow> x \<noteq> [] \<Longrightarrow> s_isin (snd (s_add s x)) y \<longleftrightarrow> y = x \<or> s_isin s y"
  by (simp add: isin_law add_law)

lemma add_twice_fails: "invar s \<Longrightarrow> x \<noteq> [] \<Longrightarrow> fst (s_add (snd (s_add s x)) x) \<noteq> 0"
  by (simp add: add_law)

lemma add_remove: "invar s \<Longrightarrow> x \<noteq> [] \<Longrightarrow> x \<notin> members s \<Longrightarrow>
    members (snd (s_remove (snd (s_add s x)) x)) = members s"
  by (simp add: add_law remove_law)

lemma add_all:
  "invar s \<Longrightarrow> [] \<notin> set xs \<Longrightarrow>
   invar (fold (\<lambda>x s. snd (s_add s x)) xs s) \<and>
   members (fold (\<lambda>x s. snd (s_add s x)) xs s) = members s \<union> set xs"
proof (induction xs arbitrary: s)
  case (Cons x xs)
  then show ?case using Cons.IH [of "snd (s_add s x)"] by (auto simp: add_law)
qed simp

end

interpretation strset: string_set "[]" "strlist_add mem_ok" strlist_remove strlist_exists set strlist_wf
proof
  fix s :: cstrlist and x :: string
  assume wf: "strlist_wf s"
  show "strlist_wf (snd (strlist_add mem_ok s x))" using wf by (rule strlist_add_wf)
  show "strlist_wf (snd (strlist_remove s x))" using wf by (rule strlist_remove_wf)
  show "set (snd (strlist_remove s x)) = set s - {x}"
    using wf by (auto simp: strlist_remove_eq strlist_wf_def)
qed (auto simp: strlist_wf_def strlist_add_def strlist_remove_eq)

end
