(* ===== verification/Paths.thy ===== *)
theory Paths
  imports Strlist
begin

text \<open>The functions of common.c on lines, paths and names, and the conversions to text that are pure.
  Calls of the operating system (stat, mkdir, realpath, access, gettimeofday) are parameters.\<close>

section \<open>Lines of a stream\<close>

text \<open>A FILE is the characters that are left with its end-of-file flag, which fgetc sets when it finds
  none.\<close>

record cfile =
  fdata :: string
  feof :: bool

function stream_readline_loop :: "cfile \<Rightarrow> int \<Rightarrow> int \<Rightarrow> string \<Rightarrow> (int \<times> string) \<times> cfile" where
  "stream_readline_loop f buflen i buf =
     (if feof f then ((i, buf), f)
      else case fdata f of
        [] \<Rightarrow> ((i, buf), f\<lparr>feof := True\<rparr>)
      | c # cs \<Rightarrow>
          (let f = f\<lparr>fdata := cs\<rparr>
           in if c = CHR 0x0A \<or> \<not> i < buflen then ((i, buf), f)
              else stream_readline_loop f buflen (i + 1) (buf @ [c])))"
  by pat_completeness auto
termination
  by (relation "measure (\<lambda>(f, _). length (fdata f))") auto

declare stream_readline_loop.simps [simp del]

definition stream_readline :: "cfile \<Rightarrow> int \<Rightarrow> (int \<times> string) \<times> cfile" where
  "stream_readline f buflen = stream_readline_loop f buflen 0 []"

lemma stream_readline_loop_line:
  "\<lbrakk>\<not> feof f; fdata f = line @ CHR 0x0A # rest; CHR 0x0A \<notin> set line; i + int (length line) \<le> buflen\<rbrakk> \<Longrightarrow>
   stream_readline_loop f buflen i buf = ((i + int (length line), buf @ line), f\<lparr>fdata := rest\<rparr>)"
proof (induction line arbitrary: f i buf)
  case (Cons c line)
  then show ?case
    using Cons.IH [of "f\<lparr>fdata := line @ CHR 0x0A # rest\<rparr>" "i + 1" "buf @ [c]"]
    by (subst stream_readline_loop.simps) (auto simp: Let_def)
qed (subst stream_readline_loop.simps, simp)

section \<open>Joining and cutting paths\<close>

text \<open>The copy loop of concatenate_paths drops one slash at the end of the first path. The whole size of
  the buffer is passed to strlcatf although the write starts behind the copy: the result is None when
  bytes are written past the end of the buffer.\<close>

fun copy_path :: "string \<Rightarrow> string" where
  "copy_path [] = []"
| "copy_path (c # cs) = (if c \<noteq> CHR ''/'' \<or> cs \<noteq> [] then c # copy_path cs else [])"

definition concatenate_paths :: "nat \<Rightarrow> string \<Rightarrow> string \<Rightarrow> string option" where
  "concatenate_paths maxbufsize p1 p2 =
     (let buffer = copy_path p1 @ [CHR ''/''];
          p2 = dropWhile (\<lambda>c. c = CHR ''/'') p2;
          buffer = buffer @ strlcatf maxbufsize [] p2
      in if length buffer + 1 \<le> maxbufsize then Some buffer else None)"

fun dirpath_scan :: "string \<Rightarrow> nat \<Rightarrow> string" where
  "dirpath_scan buf 0 = (if buf \<noteq> [] \<and> hd buf = CHR ''/'' then [CHR ''/''] else [])"
| "dirpath_scan buf (Suc i) =
     (if Suc i < length buf \<and> buf ! Suc i = CHR ''/'' then take (Suc i) buf else dirpath_scan buf i)"

text \<open>extract_dirpath: from the terminating NUL backwards every byte is cleared up to the last slash,
  which is kept when it is the first byte.\<close>

definition extract_dirpath :: "string \<Rightarrow> nat \<Rightarrow> string" where
  "extract_dirpath filepath dirbufsize =
     (let dirbuf = snprintf_s dirbufsize filepath in dirpath_scan dirbuf (length dirbuf))"

fun basename_scan :: "string \<Rightarrow> nat \<Rightarrow> nat" where
  "basename_scan path 0 = 0"
| "basename_scan path (Suc i) =
     (if (Suc i < length path \<and> path ! Suc i = CHR ''/'') \<or> path ! i = CHR ''/'' then Suc i
      else basename_scan path i)"

definition extract_basename :: "string \<Rightarrow> nat \<Rightarrow> string" where
  "extract_basename filepath basenamebufsize =
     snprintf_s basenamebufsize (drop (basename_scan filepath (length filepath)) filepath)"

definition path_force_extension :: "nat \<Rightarrow> string \<Rightarrow> string \<Rightarrow> string" where
  "path_force_extension bufsize origpath ext =
     (let oldlen = length origpath; extlen = length ext
      in if oldlen < extlen \<or> drop (oldlen - extlen) origpath \<noteq> ext
         then snprintf_s bufsize (origpath @ ext)
         else snprintf_s bufsize origpath)"

definition PATH_MAX :: nat where
  [fsa_const]: "PATH_MAX = 4096"

text \<open>The name of a volume: realpath is a parameter (None when it fails).\<close>

definition get_path_to_volume ::
    "(string \<Rightarrow> string option) \<Rightarrow> nat \<Rightarrow> string \<Rightarrow> nat \<Rightarrow> string option" where
  "get_path_to_volume realpath bufsize basepath curvol =
     (let pathlen = length basepath
      in if pathlen < 4 then None
         else if curvol = 0 then
           (case realpath basepath of Some p \<Rightarrow> Some p | None \<Rightarrow> Some (snprintf_s bufsize basepath))
         else
           (let prefix = take (pathlen - 2) basepath
            in Some (snprintf_s bufsize (prefix @ dec_pad 2 curvol))))"

text \<open>mkdir_recursive: a directory is made for every prefix of the path that stat does not find.
  \<open>missing\<close> is stat failing with ENOENT, \<open>mkdir\<close> the effect of mkdir on the file system.\<close>

fun mkdir_recursive_loop ::
    "('fs \<Rightarrow> string \<Rightarrow> bool) \<Rightarrow> ('fs \<Rightarrow> string \<Rightarrow> 'fs) \<Rightarrow> 'fs \<Rightarrow> string \<Rightarrow> nat list \<Rightarrow> 'fs" where
  "mkdir_recursive_loop missing mkdir fs path [] = fs"
| "mkdir_recursive_loop missing mkdir fs path (pos # poss) =
     (if pos = length path \<or> path ! pos = CHR ''/'' then
        (let buffer = take pos path;
             fs = (if missing fs buffer then mkdir fs buffer else fs)
         in mkdir_recursive_loop missing mkdir fs path poss)
      else mkdir_recursive_loop missing mkdir fs path poss)"

definition mkdir_recursive ::
    "('fs \<Rightarrow> string \<Rightarrow> bool) \<Rightarrow> ('fs \<Rightarrow> string \<Rightarrow> 'fs) \<Rightarrow> 'fs \<Rightarrow> string \<Rightarrow> 'fs" where
  "mkdir_recursive missing mkdir fs path = mkdir_recursive_loop missing mkdir fs path [0..<Suc (length path)]"

section \<open>Names, identifiers and counters\<close>

text \<open>The search of a program in the directories of the PATH variable (None when it is not set);
  \<open>access\<close> says whether a path can be executed.\<close>

fun getpathtoprog_loop :: "(string \<Rightarrow> bool) \<Rightarrow> nat \<Rightarrow> string \<Rightarrow> string list \<Rightarrow> string option" where
  "getpathtoprog_loop access bufsize prog [] = None"
| "getpathtoprog_loop access bufsize prog (dir # dirs) =
     (let pathtest = snprintf_s PATH_MAX (dir @ ''/'' @ prog)
      in if access pathtest then Some (snprintf_s bufsize pathtest)
         else getpathtoprog_loop access bufsize prog dirs)"

definition getpathtoprog ::
    "string option \<Rightarrow> (string \<Rightarrow> bool) \<Rightarrow> nat \<Rightarrow> string \<Rightarrow> string option" where
  "getpathtoprog env_path access bufsize prog =
     (case env_path of
        None \<Rightarrow> None
      | Some vp \<Rightarrow>
          (let pathenv = snprintf_s 4096 vp
           in getpathtoprog_loop access bufsize prog (strtok_all [CHR '':'', CHR 0x09, CHR 0x0A] pathenv)))"

text \<open>The archive id: the clock is read until the exclusive or of its seconds and microseconds is not
  zero. The readings are a list; None says that they were all used.\<close>

fun generate_random_u32_id :: "(u64 \<times> u64) list \<Rightarrow> u32 option" where
  "generate_random_u32_id [] = None"
| "generate_random_u32_id ((tv_sec, tv_usec) # readings) =
     (let archid = (ucast tv_sec :: u32) XOR ucast tv_usec
      in if archid = 0 then generate_random_u32_id readings else Some archid)"

text \<open>What stat says of a path, and regfile_exists with its three answers.\<close>

datatype stat_result = Stat_ok bool | Stat_enoent | Stat_error

definition regfile_exists :: "stat_result \<Rightarrow> int" where
  "regfile_exists res = (case res of
     Stat_ok isreg \<Rightarrow> if isreg then 1 else -1
   | Stat_enoent \<Rightarrow> 0
   | Stat_error \<Rightarrow> -1)"

definition get_objtype_name :: "u32 \<Rightarrow> string" where
  "get_objtype_name objtype =
     (if objtype = OBJTYPE_DIR then ''DIR     ''
      else if objtype = OBJTYPE_SYMLINK then ''SYMLINK ''
      else if objtype = OBJTYPE_REGFILEUNIQUE then ''REGFILE ''
      else if objtype = OBJTYPE_REGFILEMULTI then ''REGFILEM''
      else if objtype = OBJTYPE_HARDLINK then ''HARDLINK''
      else if objtype = OBJTYPE_CHARDEV then ''CHARDEV ''
      else if objtype = OBJTYPE_BLOCKDEV then ''BLOCKDEV''
      else if objtype = OBJTYPE_FIFO then ''FIFO    ''
      else if objtype = OBJTYPE_SOCKET then ''SOCKET  ''
      else ''UNKNOWN '')"

fun format_md5_loop :: "nat \<Rightarrow> string \<Rightarrow> u8 list \<Rightarrow> string" where
  "format_md5_loop maxbuf buf [] = buf"
| "format_md5_loop maxbuf buf (b # bs) = format_md5_loop maxbuf (strlcatf maxbuf buf (hex2 b)) bs"

definition format_md5 :: "nat \<Rightarrow> u8 list \<Rightarrow> string" where
  "format_md5 maxbuf md5bin = format_md5_loop maxbuf [] (take 16 md5bin)"

record cstats =
  cnt_regfile :: u64
  cnt_dir :: u64
  cnt_symlink :: u64
  cnt_hardlink :: u64
  cnt_special :: u64
  err_regfile :: u64
  err_dir :: u64
  err_symlink :: u64
  err_hardlink :: u64
  err_special :: u64

definition stats_errcount :: "cstats \<Rightarrow> u64" where
  "stats_errcount stats =
     err_regfile stats + err_dir stats + err_symlink stats + err_hardlink stats + err_special stats"

definition error_int_to_string :: "int \<Rightarrow> string" where
  "error_int_to_string err =
     (if err = FSAERR_SUCCESS then ''FSAERR_SUCCESS''
      else if err = FSAERR_UNKNOWN then ''FSAERR_UNKNOWN''
      else if err = FSAERR_ENOMEM then ''FSAERR_ENOMEM''
      else if err = FSAERR_EINVAL then ''FSAERR_EINVAL''
      else if err = FSAERR_ENOENT then ''FSAERR_ENOENT''
      else if err = FSAERR_ENDOFFILE then ''FSAERR_ENDOFFILE''
      else if err = FSAERR_WRONGTYPE then ''FSAERR_WRONGTYPE''
      else if err = FSAERR_NOTOPEN then ''FSAERR_NOTOPEN''
      else ''FSAERR_?'')"

text \<open>is_dir_empty: the entries that readdir returns, each with the success of its lstat, or None when
  opendir fails.\<close>

fun is_dir_empty_loop :: "(string \<times> bool) list \<Rightarrow> int" where
  "is_dir_empty_loop [] = 0"
| "is_dir_empty_loop ((d_name, lstat_ok) # entries) =
     (if \<not> lstat_ok then -1
      else if d_name \<noteq> ''.'' \<and> d_name \<noteq> ''..'' then 1
      else is_dir_empty_loop entries)"

definition is_dir_empty :: "(string \<times> bool) list option \<Rightarrow> int" where
  "is_dir_empty dirdesc = (case dirdesc of None \<Rightarrow> -1 | Some entries \<Rightarrow> is_dir_empty_loop entries)"

text \<open>The times of the parent directory: \<open>lstat\<close> gives the directory flag, atime and mtime of a path.\<close>

definition get_parent_dir_time_attrib ::
    "(string \<Rightarrow> (bool \<times> int \<times> int) option) \<Rightarrow> nat \<Rightarrow> string \<Rightarrow> (string \<times> (int \<times> int) \<times> (int \<times> int)) option" where
  "get_parent_dir_time_attrib lstat bufsize filepath =
     (let parentdirbuf = extract_dirpath filepath bufsize
      in case lstat parentdirbuf of
           None \<Rightarrow> None
         | Some (isdir, st_atime, st_mtime) \<Rightarrow>
             if \<not> isdir then None else Some (parentdirbuf, (st_atime, 0), (st_mtime, 0)))"

section \<open>Lemmas on paths\<close>

lemma copy_path_eq:
  "copy_path p = (if p \<noteq> [] \<and> last p = CHR ''/'' then butlast p else p)"
  by (induction p) auto

lemma strlcatf_Nil: "0 < n \<Longrightarrow> strlcatf n [] s = take (n - 1) s"
  by (simp add: strlcatf_take)

lemma concatenate_paths_eq:
  assumes "0 < n"
  shows "concatenate_paths n p1 p2 =
    (let q2 = dropWhile (\<lambda>c. c = CHR ''/'') p2
     in if length (copy_path p1) + min (length q2) (n - 1) + 2 \<le> n
        then Some (copy_path p1 @ CHR ''/'' # q2) else None)"
  using assms by (auto simp: concatenate_paths_def strlcatf_Nil Let_def min_def)

lemma basename_scan_props:
  "i \<le> length p \<Longrightarrow> CHR ''/'' \<notin> set (drop i p) \<Longrightarrow>
   basename_scan p i \<le> i \<and> CHR ''/'' \<notin> set (drop (basename_scan p i) p) \<and>
   (basename_scan p i = 0 \<or> p ! (basename_scan p i - 1) = CHR ''/'')"
proof (induction i)
  case (Suc i)
  have notin: "p ! i = CHR ''/'' \<or> CHR ''/'' \<notin> set (drop i p)"
    using Suc.prems by (auto simp: Cons_nth_drop_Suc [symmetric])
  have no: "\<not> (Suc i < length p \<and> p ! Suc i = CHR ''/'')"
    using Suc.prems by (metis Cons_nth_drop_Suc list.set_intros(1))
  show ?case
  proof (cases "p ! i = CHR ''/''")
    case True
    then show ?thesis using Suc.prems by simp
  next
    case False
    then have "basename_scan p (Suc i) = basename_scan p i" using no by auto
    then show ?thesis using Suc notin False by auto
  qed
qed simp

text \<open>The position of the last slash decides both scans.\<close>

lemma after_last_slash:
  assumes "CHR ''/'' \<notin> set base" and "length dir < i" and "i < length (dir @ CHR ''/'' # base)"
  shows "(dir @ CHR ''/'' # base) ! i \<noteq> CHR ''/''"
proof -
  obtain k where k: "i = Suc (length dir) + k" using assms(2) less_iff_Suc_add by auto
  then have "(dir @ CHR ''/'' # base) ! i = base ! k" "k < length base"
    using assms(3) by (simp_all add: nth_append)
  then show ?thesis using assms(1) nth_mem by metis
qed

lemma basename_scan_split:
  assumes "CHR ''/'' \<notin> set base"
  shows "basename_scan (dir @ CHR ''/'' # base) (length (dir @ CHR ''/'' # base)) = Suc (length dir)"
proof -
  let ?p = "dir @ CHR ''/'' # base" and ?k = "basename_scan (dir @ CHR ''/'' # base) (length (dir @ CHR ''/'' # base))"
  have k: "?k \<le> length ?p" "CHR ''/'' \<notin> set (drop ?k ?p)" "?k = 0 \<or> ?p ! (?k - 1) = CHR ''/''"
    using basename_scan_props [of "length ?p" ?p] by auto
  have "\<not> ?k \<le> length dir"
  proof
    assume "?k \<le> length dir"
    then have "CHR ''/'' \<in> set (drop ?k ?p)" by simp
    then show False using k(2) by simp
  qed
  moreover have "\<not> Suc (length dir) < ?k"
  proof
    assume lt: "Suc (length dir) < ?k"
    then have "?p ! (?k - 1) \<noteq> CHR ''/''"
      using k(1) assms by (intro after_last_slash) linarith+
    then show False using k(3) lt by simp
  qed
  ultimately show ?thesis by simp
qed

lemma dirpath_scan_drop_tail:
  "CHR ''/'' \<notin> set base \<Longrightarrow> length dir < i \<Longrightarrow>
   dirpath_scan (dir @ CHR ''/'' # base) i = dirpath_scan (dir @ CHR ''/'' # base) (length dir)"
proof (induction i)
  case (Suc i)
  have "\<not> (Suc i < length (dir @ CHR ''/'' # base) \<and> (dir @ CHR ''/'' # base) ! Suc i = CHR ''/'')"
    using after_last_slash [of base dir "Suc i"] Suc.prems by blast
  then have "dirpath_scan (dir @ CHR ''/'' # base) (Suc i) = dirpath_scan (dir @ CHR ''/'' # base) i"
    by (simp only: dirpath_scan.simps if_False)
  then show ?case using Suc by (cases "i = length dir") auto
qed simp

lemma dirpath_basename_cut:
  assumes "CHR ''/'' \<notin> set base" and "length (dir @ CHR ''/'' # base) < n" and "length base < m"
  shows "extract_dirpath (dir @ CHR ''/'' # base) n = (if dir = [] then ''/'' else dir)"
    and "extract_basename (dir @ CHR ''/'' # base) m = base"
proof -
  have "dirpath_scan (dir @ CHR ''/'' # base) (length dir) = (if dir = [] then ''/'' else dir)"
    by (cases dir) (auto simp: nth_append)
  then show "extract_dirpath (dir @ CHR ''/'' # base) n = (if dir = [] then ''/'' else dir)"
    using assms(1,2) by (simp add: extract_dirpath_def Let_def snprintf_s_id dirpath_scan_drop_tail
        del: dirpath_scan.simps)
  show "extract_basename (dir @ CHR ''/'' # base) m = base"
    unfolding extract_basename_def basename_scan_split [OF assms(1)]
    using assms(3) by (simp add: snprintf_s_id)
qed

lemma length_dec_digits: "n < 10 ^ Suc k \<Longrightarrow> length (dec_digits n) \<le> Suc k"
proof (induction k arbitrary: n)
  case (Suc k)
  show ?case
  proof (cases "n < 10")
    case False
    have "n div 10 < 10 ^ Suc k" using Suc.prems by (simp add: div_less_iff_less_mult mult.commute)
    then show ?thesis using Suc.IH [of "n div 10"] False by (subst dec_digits.simps) simp
  qed (subst dec_digits.simps, simp)
qed (subst dec_digits.simps, simp)

lemma length_dec_pad: "n < 2 ^ 32 \<Longrightarrow> length (dec_pad 2 n) \<le> 10"
  using length_dec_digits [of n 9] by (auto simp: dec_pad_def Let_def)

lemma dec_pad_nonempty: "dec_pad w n \<noteq> []"
  by (simp add: dec_pad_def Let_def) (subst dec_digits.simps, simp)

definition ends_in_digit :: "string \<Rightarrow> bool" where
  "ends_in_digit s \<longleftrightarrow> s \<noteq> [] \<and> last s \<in> set ''0123456789''"

lemma ends_in_digit_dec_pad: "ends_in_digit (p @ dec_pad w n)"
  unfolding ends_in_digit_def last_appendR [OF dec_pad_nonempty]
  using subsetD [OF dec_pad_chars last_in_set [OF dec_pad_nonempty]] dec_pad_nonempty by auto

lemma volume_path_numbered:
  assumes "0 < v" and "v < 2 ^ 32" and "4 \<le> length basepath" and "length basepath + 10 < n"
  shows "get_path_to_volume realpath n basepath v =
    Some (take (length basepath - 2) basepath @ dec_pad 2 v)"
  using assms length_dec_pad [of v] by (simp add: get_path_to_volume_def Let_def snprintf_s_id)

section \<open>Properties\<close>

text \<open>Extract_dirpath and extract_basename cut a path at its last slash: together they give the path
  back, for every path that fits the buffers.\<close>

theorem dirpath_basename_roundtrip:
  assumes "CHR ''/'' \<in> set path" and "length path < n" and "length path < m"
  shows "\<exists>dir base. path = dir @ CHR ''/'' # base \<and> CHR ''/'' \<notin> set base \<and>
    extract_basename path m = base \<and> extract_dirpath path n = (if dir = [] then ''/'' else dir)"
proof -
  obtain dir base where p: "path = dir @ CHR ''/'' # base" "CHR ''/'' \<notin> set base"
    using split_list_last [OF assms(1)] by blast
  then have "length base < m" using assms(3) by simp
  then show ?thesis using dirpath_basename_cut [of base dir n m] p assms(2) by blast
qed

lemma dirpath_basename_roundtrip_witness:
  "\<exists>dir base. ''/usr/bin/ls'' = dir @ CHR ''/'' # base \<and> CHR ''/'' \<notin> set base \<and>
    extract_basename ''/usr/bin/ls'' 4096 = base \<and>
    extract_dirpath ''/usr/bin/ls'' 4096 = (if dir = [] then ''/'' else dir)"
  by (rule dirpath_basename_roundtrip) simp_all



section \<open>Directories\<close>

text \<open>The directories of a file system in which nothing else is in the way: those of the root (True) and those of the
  working directory, each by the names that lead to it. As POSIX has it, slashes that follow one another count as
  one, the empty path does not exist, and mkdir fails when the directory above is missing.\<close>

type_synonym cdirs = "(bool \<times> string list) set"

fun split_names :: "string \<Rightarrow> string \<Rightarrow> string list" where
  "split_names cur [] = (if cur = [] then [] else [cur])"
| "split_names cur (c # cs) =
     (if c = CHR ''/'' then (if cur = [] then [] else [cur]) @ split_names [] cs else split_names (cur @ [c]) cs)"

definition is_absolute :: "string \<Rightarrow> bool" where
  "is_absolute path \<longleftrightarrow> path \<noteq> [] \<and> hd path = CHR ''/''"

definition dir_missing :: "cdirs \<Rightarrow> string \<Rightarrow> bool" where
  "dir_missing fs path \<longleftrightarrow> path = [] \<or> (is_absolute path, split_names [] path) \<notin> fs"

definition dir_mkdir :: "cdirs \<Rightarrow> string \<Rightarrow> cdirs" where
  "dir_mkdir fs path =
     (let names = split_names [] path
      in if names \<noteq> [] \<and> (is_absolute path, butlast names) \<in> fs then insert (is_absolute path, names) fs else fs)"

lemma split_names_slash: "split_names cur (xs @ CHR ''/'' # t) = split_names cur xs @ split_names [] t"
  by (induction xs arbitrary: cur) simp_all

lemma split_names_name: "CHR ''/'' \<notin> set t \<Longrightarrow> split_names cur t = (if cur @ t = [] then [] else [cur @ t])"
  by (induction t arbitrary: cur) auto

lemma split_names_end:
  assumes "xs = [] \<or> last xs = CHR ''/''" and "CHR ''/'' \<notin> set t"
  shows "split_names [] (xs @ t) = split_names [] xs @ (if t = [] then [] else [t])"
proof (cases "xs = []")
  case False
  then obtain ys where xs: "xs = ys @ [CHR ''/'']" using assms(1) by (metis append_butlast_last_id)
  show ?thesis
    using split_names_slash [of "[]" ys t] split_names_slash [of "[]" ys "[]"] split_names_name [OF assms(2), of "[]"]
    by (simp add: xs)
qed (simp add: split_names_name [OF assms(2)])

lemma mkdir_loop_append:
  "mkdir_recursive_loop missing mkdir fs path (ps @ qs) =
   mkdir_recursive_loop missing mkdir (mkdir_recursive_loop missing mkdir fs path ps) path qs"
  by (induction ps arbitrary: fs) (simp_all add: Let_def)

text \<open>The directories on the way, up to the last slash.\<close>

definition way :: "bool \<Rightarrow> string list \<Rightarrow> cdirs" where
  "way fromroot names = (\<lambda>n. (fromroot, take n names)) ` {..length names}"

lemma way_mem: "(fromroot, names) \<in> way fromroot names"
  unfolding way_def by (rule image_eqI [of _ _ "length names"]) simp_all

lemma way_snoc: "way fromroot (names @ [t]) = insert (fromroot, names @ [t]) (way fromroot names)"
proof -
  have "way fromroot (names @ [t]) =
      insert (fromroot, names @ [t]) ((\<lambda>n. (fromroot, take n (names @ [t]))) ` {..length names})"
    by (simp add: way_def atMost_Suc)
  also have "(\<lambda>n. (fromroot, take n (names @ [t]))) ` {..length names} = way fromroot names"
    unfolding way_def by (rule image_cong) simp_all
  finally show ?thesis .
qed

text \<open>What is there after the positions before \<open>k\<close>: the way up to the last slash in front of \<open>k\<close>.\<close>

definition way_made :: "cdirs \<Rightarrow> string \<Rightarrow> nat \<Rightarrow> cdirs \<Rightarrow> bool" where
  "way_made fs path k fs' \<longleftrightarrow>
     (\<exists>xs t. take k path = xs @ t \<and> CHR ''/'' \<notin> set t \<and> (xs = [] \<or> last xs = CHR ''/'') \<and>
        fs' = fs \<union> way (is_absolute path) (split_names [] xs))"

lemma mkdir_at_cut:
  assumes "way_made fs path k fs'" and "k \<le> length path"
  shows "(if dir_missing fs' (take k path) then dir_mkdir fs' (take k path) else fs') =
    fs \<union> way (is_absolute path) (split_names [] (take k path))"
proof -
  obtain xs t where k: "take k path = xs @ t" "CHR ''/'' \<notin> set t" "xs = [] \<or> last xs = CHR ''/''"
    "fs' = fs \<union> way (is_absolute path) (split_names [] xs)"
    using assms(1) by (auto simp: way_made_def)
  note n = split_names_end [OF k(3,2)]
  have a: "is_absolute (take k path) = is_absolute path" if "take k path \<noteq> []"
    using that by (cases path; cases k) (simp_all add: is_absolute_def)
  have m: "(is_absolute path, split_names [] xs) \<in> fs'" by (simp add: k(4) way_mem)
  consider "take k path = []" | "take k path \<noteq> []" "t = []" | "take k path \<noteq> []" "t \<noteq> []" by blast
  then show ?thesis
  proof cases
    case 1
    then show ?thesis using k(1,4) by (simp only: 1) (simp add: dir_missing_def dir_mkdir_def)
  next
    case 2
    then show ?thesis using m a k(1,4) by (simp add: dir_missing_def)
  next
    case 3
    then show ?thesis using m a k(1,4) n by (auto simp: dir_missing_def dir_mkdir_def way_snoc)
  qed
qed

lemma mkdir_loop_way:
  assumes "way_made fs path 0 fs" and "k \<le> length path"
  shows "way_made fs path k (mkdir_recursive_loop dir_missing dir_mkdir fs path [0..<k])"
  using assms(2)
proof (induction k)
  case 0 then show ?case using assms(1) by simp
next
  case (Suc k)
  let ?L = "mkdir_recursive_loop dir_missing dir_mkdir fs path [0..<k]"
  have m: "way_made fs path k ?L" using Suc by simp
  then obtain xs t where k: "take k path = xs @ t" "CHR ''/'' \<notin> set t" "xs = [] \<or> last xs = CHR ''/''"
    "?L = fs \<union> way (is_absolute path) (split_names [] xs)"
    by (auto simp: way_made_def)
  have t: "take (Suc k) path = take k path @ [path ! k]" using Suc.prems by (simp add: take_Suc_conv_app_nth)
  show ?case
  proof (cases "path ! k = CHR ''/''")
    case True
    have "mkdir_recursive_loop dir_missing dir_mkdir fs path [0..<Suc k] =
        fs \<union> way (is_absolute path) (split_names [] (take k path))"
      using mkdir_at_cut [OF m] Suc.prems True by (simp add: mkdir_loop_append Let_def)
    also have "split_names [] (take k path) = split_names [] (take (Suc k) path)"
      using split_names_slash [of "[]" "take k path" "[]"] by (simp add: t True)
    finally show ?thesis
      unfolding way_made_def using t True by (intro exI [of _ "take (Suc k) path"] exI [of _ "[]"]) simp
  next
    case False
    then have "mkdir_recursive_loop dir_missing dir_mkdir fs path [0..<Suc k] = ?L"
      using Suc.prems by (simp add: mkdir_loop_append)
    then show ?thesis
      unfolding way_made_def using k t False by (intro exI [of _ xs] exI [of _ "t @ [path ! k]"]) simp
  qed
qed

text \<open>C30: mkdir_recursive makes exactly the directories on the way to the path that are missing, and the path: with a mkdir
  that fails when the directory above is missing, so that the order counts. Nothing else is made and nothing is removed.
  The names . and .. do not occur in the path.\<close>

theorem mkdir_recursive_all_prefixes:
  assumes "(is_absolute path, []) \<in> fs" and "''.'' \<notin> set (split_names [] path)" and "''..'' \<notin> set (split_names [] path)"
  shows "mkdir_recursive dir_missing dir_mkdir fs path =
    fs \<union> {(is_absolute path, take n (split_names [] path)) | n. n \<le> length (split_names [] path)}"
proof -
  have "way_made fs path 0 fs"
    unfolding way_made_def using assms(1) by (intro exI [of _ "[]"]) (auto simp: way_def)
  from mkdir_loop_way [OF this, of "length path"]
  have "mkdir_recursive dir_missing dir_mkdir fs path = fs \<union> way (is_absolute path) (split_names [] path)"
    using mkdir_at_cut [of fs path "length path" "mkdir_recursive_loop dir_missing dir_mkdir fs path [0..<length path]"]
    by (simp add: mkdir_recursive_def mkdir_loop_append Let_def split: if_splits)
  moreover have "way (is_absolute path) (split_names [] path) =
      {(is_absolute path, take n (split_names [] path)) | n. n \<le> length (split_names [] path)}"
    unfolding way_def by auto
  ultimately show ?thesis by simp
qed

lemma mkdir_recursive_all_prefixes_witness:
  "mkdir_recursive dir_missing dir_mkdir {(True, [])} ''/a//b'' =
     {(True, [])} \<union> {(True, take n [''a'', ''b'']) | n. n \<le> 2}"
  using mkdir_recursive_all_prefixes [of "''/a//b''" "{(True, [])}"] by (simp add: is_absolute_def numeral_2_eq_2)

end
