(* ===== verification/Store.thy ===== *)
theory Store
  imports Prelude
begin

text \<open>The interface of the tables in which the program keeps values under a key and where adding a key
  twice is an error: the dictionaries of dico.c and the hard-link table of dichl.c. \<open>insert_new\<close>
  returns the C return code with the new table.\<close>

locale unique_store =
  fixes s_new :: 's
    and insert_new :: "'s \<Rightarrow> 'k \<Rightarrow> 'v \<Rightarrow> int \<times> 's"
    and find_key :: "'s \<Rightarrow> 'k \<Rightarrow> 'v option"
    and invar :: "'s \<Rightarrow> bool"
    and valid :: "'v \<Rightarrow> bool"
  assumes new_law: "invar s_new" "find_key s_new k = None"
    and insert_invar: "invar s \<Longrightarrow> valid v \<Longrightarrow> invar (snd (insert_new s k v))"
    and insert_ok: "invar s \<Longrightarrow> valid v \<Longrightarrow> find_key s k = None \<Longrightarrow> fst (insert_new s k v) = 0"
    and insert_find: "invar s \<Longrightarrow> valid v \<Longrightarrow> find_key s k = None \<Longrightarrow>
      find_key (snd (insert_new s k v)) j = (if j = k then Some v else find_key s j)"
    and insert_dup: "invar s \<Longrightarrow> valid v \<Longrightarrow> find_key s k \<noteq> None \<Longrightarrow>
      fst (insert_new s k v) \<noteq> 0 \<and> snd (insert_new s k v) = s"
begin

lemma insert_find_same: "invar s \<Longrightarrow> valid v \<Longrightarrow> fst (insert_new s k v) = 0 \<Longrightarrow>
    find_key (snd (insert_new s k v)) k = Some v"
  by (metis insert_dup insert_find)

lemma insert_find_other: "invar s \<Longrightarrow> valid v \<Longrightarrow> j \<noteq> k \<Longrightarrow>
    find_key (snd (insert_new s k v)) j = find_key s j"
  by (metis insert_dup insert_find)

text \<open>A value that was stored stays, whatever is added later.\<close>

fun insert_all :: "'s \<Rightarrow> ('k \<times> 'v) list \<Rightarrow> int \<times> 's" where
  "insert_all s [] = (0, s)"
| "insert_all s ((k, v) # kvs) =
     (let (r, s) = insert_new s k v in if r \<noteq> 0 then (r, s) else insert_all s kvs)"

lemma insert_all_invar:
  "invar s \<Longrightarrow> (\<forall>(k, v) \<in> set kvs. valid v) \<Longrightarrow> invar (snd (insert_all s kvs))"
proof (induction s kvs rule: insert_all.induct)
  case (2 s k v kvs)
  then show ?case using insert_invar [of s v k] by (auto simp: Let_def split: prod.splits)
qed simp

lemma insert_all_keeps:
  "invar s \<Longrightarrow> (\<forall>(k, v) \<in> set kvs. valid v) \<Longrightarrow> find_key s j = Some w \<Longrightarrow>
   find_key (snd (insert_all s kvs)) j = Some w"
proof (induction s kvs rule: insert_all.induct)
  case (2 s k v kvs)
  have v: "valid v" using 2 by simp
  have "find_key (snd (insert_new s k v)) j = Some w"
    using insert_find [OF 2(2) v] insert_dup [OF 2(2) v] 2(4) by (cases "find_key s k") auto
  then show ?case using 2 insert_invar [of s v k] by (auto simp: Let_def split: prod.splits)
qed simp

lemma insert_all_find:
  "invar s \<Longrightarrow> (\<forall>(k, v) \<in> set kvs. valid v) \<Longrightarrow> distinct (map fst kvs) \<Longrightarrow>
   (\<forall>k \<in> fst ` set kvs. find_key s k = None) \<Longrightarrow>
   fst (insert_all s kvs) = 0 \<and>
   (\<forall>j. find_key (snd (insert_all s kvs)) j =
      (case map_of kvs j of Some v \<Rightarrow> Some v | None \<Rightarrow> find_key s j))"
proof (induction kvs arbitrary: s)
  case (Cons kv kvs)
  obtain k v where kv: "kv = (k, v)" by (cases kv)
  obtain r s' where s': "insert_new s k v = (r, s')" by (cases "insert_new s k v")
  have v: "valid v" and none: "find_key s k = None" using Cons.prems kv by auto
  have r: "r = 0" and inv: "invar s'"
    and fk: "\<And>j. find_key s' j = (if j = k then Some v else find_key s j)"
    using insert_ok [OF Cons.prems(1) v none] insert_invar [OF Cons.prems(1) v, of k]
      insert_find [OF Cons.prems(1) v none] s' by auto
  have "\<forall>k \<in> fst ` set kvs. find_key s' k = None" using Cons.prems kv fk by auto
  with Cons.IH [OF inv] Cons.prems kv r fk s' show ?case
    by (auto split: option.splits dest!: map_of_SomeD)
qed simp

end

text \<open>The interface of the queue for the threads around it: items come out in the order in which they
  went in, and only when they are finished (\<open>fin\<close>).\<close>

locale work_queue =
  fixes contents :: "'q \<Rightarrow> 'i list"
    and invar :: "'q \<Rightarrow> bool"
    and enq :: "'q \<Rightarrow> 'i \<Rightarrow> 'q option"
    and deq :: "'q \<Rightarrow> ('i \<times> 'q) option"
    and fin :: "'i \<Rightarrow> bool"
  assumes enq_law: "invar q \<Longrightarrow> enq q x = Some q' \<Longrightarrow> invar q' \<and> contents q' = contents q @ [x]"
    and deq_law: "invar q \<Longrightarrow> deq q = Some (x, q') \<Longrightarrow> invar q' \<and> contents q = x # contents q' \<and> fin x"
    and deq_ready: "invar q \<Longrightarrow> contents q = x # xs \<Longrightarrow> fin x \<Longrightarrow> \<exists>q'. deq q = Some (x, q')"
begin

lemma deq_waits_iff:
  assumes "invar q"
  shows "deq q = None \<longleftrightarrow> (case contents q of [] \<Rightarrow> True | x # _ \<Rightarrow> \<not> fin x)"
proof (cases "deq q")
  case None
  then show ?thesis using deq_ready [OF assms] by (cases "contents q") auto
next
  case (Some p)
  obtain x q' where p: "p = (x, q')" by (cases p)
  have "contents q = x # contents q' \<and> fin x" using deq_law [OF assms, of x q'] Some p by simp
  then show ?thesis using Some by simp
qed

text \<open>A consumer that takes items until there is none.\<close>

fun drain :: "nat \<Rightarrow> 'q \<Rightarrow> 'i list \<times> 'q" where
  "drain 0 q = ([], q)"
| "drain (Suc n) q =
     (case deq q of
        None \<Rightarrow> ([], q)
      | Some (x, q) \<Rightarrow> (let (xs, q) = drain n q in (x # xs, q)))"

lemma drain_prefix:
  "invar q \<Longrightarrow> drain n q = (xs, q') \<Longrightarrow> invar q' \<and> contents q = xs @ contents q' \<and> (\<forall>x \<in> set xs. fin x)"
proof (induction n arbitrary: q xs q')
  case (Suc n)
  show ?case
  proof (cases "deq q")
    case None
    then show ?thesis using Suc.prems by simp
  next
    case (Some p)
    obtain x q1 where p: "p = (x, q1)" by (cases p)
    obtain ys q2 where d: "drain n q1 = (ys, q2)" by fastforce
    have 1: "invar q1" "contents q = x # contents q1" "fin x" using deq_law [OF Suc.prems(1), of x q1] Some p by auto
    have 2: "xs = x # ys" "q' = q2" using Suc.prems(2) Some p d by auto
    show ?thesis using Suc.IH [OF 1(1) d] 1 2 by simp
  qed
qed simp

lemma drain_all:
  "invar q \<Longrightarrow> (\<forall>x \<in> set (contents q). fin x) \<Longrightarrow> length (contents q) \<le> n \<Longrightarrow>
   fst (drain n q) = contents q \<and> contents (snd (drain n q)) = []"
proof (induction n arbitrary: q)
  case (Suc n)
  show ?case
  proof (cases "contents q")
    case Nil
    then have "deq q = None" using deq_waits_iff [OF Suc.prems(1)] by simp
    then show ?thesis using Nil by simp
  next
    case (Cons x xs)
    then obtain q' where q': "deq q = Some (x, q')" using deq_ready [OF Suc.prems(1) Cons] Suc.prems(2) by auto
    then have "invar q'" "contents q' = xs" using deq_law [OF Suc.prems(1) q'] Cons by auto
    then show ?thesis using Suc.IH [of q'] Suc.prems Cons q' by (auto split: prod.splits)
  qed
qed simp

text \<open>What was added to an empty queue and finished comes out in order.\<close>

fun enq_all :: "'q \<Rightarrow> 'i list \<Rightarrow> 'q option" where
  "enq_all q [] = Some q"
| "enq_all q (x # xs) = (case enq q x of None \<Rightarrow> None | Some q \<Rightarrow> enq_all q xs)"

lemma enq_all_contents:
  "invar q \<Longrightarrow> enq_all q xs = Some q' \<Longrightarrow> invar q' \<and> contents q' = contents q @ xs"
proof (induction xs arbitrary: q)
  case (Cons x xs)
  then obtain q1 where "enq q x = Some q1" "enq_all q1 xs = Some q'" by (auto split: option.splits)
  then show ?case using Cons.IH [of q1] Cons.prems enq_law [of q x q1] by auto
qed simp

end

end
