(* ===== verification/Dico.thy ===== *)
theory Dico
  imports Fsa_Const Cstring Store
begin

text \<open>dico.c: the dictionaries in which all the headers of an archive are kept. A dictionary is the list
  of its items in the order in which they were added; the data pointer of an item is NULL (None) when
  the item has no data.\<close>

section \<open>Data\<close>

record cdicoitem =
  dtype :: u8
  dsection :: u8
  dkey :: u16
  dsize :: u16
  ddata :: "u8 list option"

type_synonym cdico = "cdicoitem list"

definition DICTYPE_U8 :: u8 where [fsa_const]: "DICTYPE_U8 = 1"
definition DICTYPE_U16 :: u8 where [fsa_const]: "DICTYPE_U16 = 2"
definition DICTYPE_U32 :: u8 where [fsa_const]: "DICTYPE_U32 = 3"
definition DICTYPE_U64 :: u8 where [fsa_const]: "DICTYPE_U64 = 4"
definition DICTYPE_DATA :: u8 where [fsa_const]: "DICTYPE_DATA = 5"
definition DICTYPE_STRING :: u8 where [fsa_const]: "DICTYPE_STRING = 6"

definition sizeof_cdico :: nat where
  "sizeof_cdico = 8"

definition sizeof_cdicoitem :: nat where
  "sizeof_cdicoitem = 24"

section \<open>Operations\<close>

definition dico_alloc :: "malloc \<Rightarrow> cdico option" where
  "dico_alloc mem = (if mem sizeof_cdico then Some [] else None)"

fun dico_has :: "cdico \<Rightarrow> u8 \<Rightarrow> u16 \<Rightarrow> bool" where
  "dico_has [] section key = False"
| "dico_has (item # items) section key =
     (if dsection item = section \<and> dkey item = key then True else dico_has items section key)"

text \<open>The new item is linked before its data are allocated, so it stays in the dictionary, with a
  size but no data, when that allocation fails.\<close>

definition dico_add_generic ::
    "malloc \<Rightarrow> cdico \<Rightarrow> u8 \<Rightarrow> u16 \<Rightarrow> u8 list \<Rightarrow> u16 \<Rightarrow> u8 \<Rightarrow> int \<times> cdico" where
  "dico_add_generic mem d section key data sz typ =
     (if \<not> mem sizeof_cdicoitem then (-3, d)
      else if dico_has d section key then (-3, d)
      else
        (let lnew = \<lparr>dtype = typ, dsection = section, dkey = key, dsize = sz, ddata = None\<rparr>
         in if sz > 0 then
              (if \<not> mem (unat sz) then (-3, d @ [lnew])
               else (0, d @ [lnew\<lparr>ddata := Some (take (unat sz) data)\<rparr>]))
            else (0, d @ [lnew])))"

definition dico_add_data :: "malloc \<Rightarrow> cdico \<Rightarrow> u8 \<Rightarrow> u16 \<Rightarrow> u8 list \<Rightarrow> u16 \<Rightarrow> int \<times> cdico" where
  "dico_add_data mem d section key data sz = dico_add_generic mem d section key data sz DICTYPE_DATA"

definition dico_add_u16 :: "malloc \<Rightarrow> cdico \<Rightarrow> u8 \<Rightarrow> u16 \<Rightarrow> u16 \<Rightarrow> int \<times> cdico" where
  "dico_add_u16 mem d section key data =
     (let ledata = cpu_to_le16 data in dico_add_generic mem d section key ledata 2 DICTYPE_U16)"

definition dico_add_u32 :: "malloc \<Rightarrow> cdico \<Rightarrow> u8 \<Rightarrow> u16 \<Rightarrow> u32 \<Rightarrow> int \<times> cdico" where
  "dico_add_u32 mem d section key data =
     (let ledata = cpu_to_le32 data in dico_add_generic mem d section key ledata 4 DICTYPE_U32)"

definition dico_add_u64 :: "malloc \<Rightarrow> cdico \<Rightarrow> u8 \<Rightarrow> u16 \<Rightarrow> u64 \<Rightarrow> int \<times> cdico" where
  "dico_add_u64 mem d section key data =
     (let ledata = cpu_to_le64 data in dico_add_generic mem d section key ledata 8 DICTYPE_U64)"

text \<open>The length of a string is kept in 16 bits, and so is the length with the NUL.\<close>

definition dico_add_string :: "malloc \<Rightarrow> cdico \<Rightarrow> u8 \<Rightarrow> u16 \<Rightarrow> string \<Rightarrow> int \<times> cdico" where
  "dico_add_string mem d section key szstring =
     (let len = (of_nat (length szstring) :: u16)
      in dico_add_generic mem d section key (bytes_of_string szstring @ [0]) (len + 1) DICTYPE_STRING)"

text \<open>Copying bytes to the beginning of a buffer.\<close>

definition memcpy :: "u8 list \<Rightarrow> u8 list \<Rightarrow> u8 list" where
  "memcpy buf bytes = bytes @ drop (length bytes) buf"

fun dico_get_loop :: "cdico \<Rightarrow> u8 \<Rightarrow> u16 \<Rightarrow> u8 list \<Rightarrow> u16 \<Rightarrow> int \<times> u8 list \<times> u16" where
  "dico_get_loop [] section key data maxsize = (-5, data, 0)"
| "dico_get_loop (item # items) section key data maxsize =
     (if dkey item = key \<and> dsection item = section then
        (if dsize item > maxsize then (-4, data, 0)
         else (0,
               case ddata item of
                 Some bytes \<Rightarrow> if dsize item > 0 then memcpy data (take (unat (dsize item)) bytes) else data
               | None \<Rightarrow> data,
               dsize item))
      else dico_get_loop items section key data maxsize)"

text \<open>The result is the return code, the caller's buffer and the size.\<close>

definition dico_get_generic :: "cdico \<Rightarrow> u8 \<Rightarrow> u16 \<Rightarrow> u8 list \<Rightarrow> u16 \<Rightarrow> int \<times> u8 list \<times> u16" where
  "dico_get_generic d section key data maxsize =
     (if d = [] then (-1, data, 0)
      else if maxsize < 1 then (-3, data, 0)
      else dico_get_loop d section key data maxsize)"

definition dico_get_data :: "cdico \<Rightarrow> u8 \<Rightarrow> u16 \<Rightarrow> u8 list \<Rightarrow> u16 \<Rightarrow> int \<times> u8 list \<times> u16" where
  "dico_get_data d section key data maxsize = dico_get_generic d section key data maxsize"

text \<open>The local variable that receives the number is not initialised: its bytes are the argument
  \<open>ledata\<close>.\<close>

definition dico_get_u16 :: "cdico \<Rightarrow> u8 \<Rightarrow> u16 \<Rightarrow> u8 list \<Rightarrow> int \<times> u16" where
  "dico_get_u16 d section key ledata =
     (let (r, ledata, sz) = dico_get_data d section key ledata 2
      in if r \<noteq> 0 then (-1, 0) else (0, le16_to_cpu ledata))"

definition dico_get_u32 :: "cdico \<Rightarrow> u8 \<Rightarrow> u16 \<Rightarrow> u8 list \<Rightarrow> int \<times> u32" where
  "dico_get_u32 d section key ledata =
     (let (r, ledata, sz) = dico_get_data d section key ledata 4
      in if r \<noteq> 0 then (-1, 0) else (0, le32_to_cpu ledata))"

definition dico_get_u64 :: "cdico \<Rightarrow> u8 \<Rightarrow> u16 \<Rightarrow> u8 list \<Rightarrow> int \<times> u64" where
  "dico_get_u64 d section key ledata =
     (let (r, ledata, sz) = dico_get_data d section key ledata 8
      in if r \<noteq> 0 then (-1, 0) else (0, le64_to_cpu ledata))"

definition dico_get_string :: "cdico \<Rightarrow> u8 \<Rightarrow> u16 \<Rightarrow> u16 \<Rightarrow> int \<times> u8 list" where
  "dico_get_string d section key bufsize =
     (let buffer = replicate (unat bufsize) 0;
          (r, buffer, sz) = dico_get_data d section key buffer bufsize
      in (r, buffer))"

fun dico_count_one_section_loop :: "cdico \<Rightarrow> u8 \<Rightarrow> int \<Rightarrow> int" where
  "dico_count_one_section_loop [] section count = count"
| "dico_count_one_section_loop (item # items) section count =
     dico_count_one_section_loop items section (if dsection item = section then count + 1 else count)"

definition dico_count_one_section :: "cdico \<Rightarrow> u8 \<Rightarrow> int" where
  "dico_count_one_section d section = dico_count_one_section_loop d section 0"

fun dico_count_all_loop :: "cdico \<Rightarrow> int \<Rightarrow> int" where
  "dico_count_all_loop [] count = count"
| "dico_count_all_loop (item # items) count = dico_count_all_loop items (count + 1)"

definition dico_count_all_sections :: "cdico \<Rightarrow> int" where
  "dico_count_all_sections d = dico_count_all_loop d 0"

section \<open>Well-formed dictionaries\<close>

definition item_bytes :: "cdicoitem \<Rightarrow> u8 list" where
  "item_bytes item = (case ddata item of None \<Rightarrow> [] | Some bytes \<Rightarrow> bytes)"

definition item_wf :: "cdicoitem \<Rightarrow> bool" where
  "item_wf item \<longleftrightarrow> (case ddata item of
     None \<Rightarrow> dsize item = 0
   | Some bytes \<Rightarrow> dsize item > 0 \<and> length bytes = unat (dsize item))"

definition dico_keys :: "cdico \<Rightarrow> (u8 \<times> u16) list" where
  "dico_keys d = map (\<lambda>item. (dsection item, dkey item)) d"

definition dico_wf :: "cdico \<Rightarrow> bool" where
  "dico_wf d \<longleftrightarrow> distinct (dico_keys d) \<and> (\<forall>item \<in> set d. item_wf item)"

definition dico_find :: "cdico \<Rightarrow> u8 \<Rightarrow> u16 \<Rightarrow> cdicoitem option" where
  "dico_find d section key = find (\<lambda>item. dkey item = key \<and> dsection item = section) d"

lemma dico_keys_simps [simp]:
  "dico_keys [] = []" "dico_keys (item # d) = (dsection item, dkey item) # dico_keys d"
  "dico_keys (d @ e) = dico_keys d @ dico_keys e"
  by (simp_all add: dico_keys_def)

lemma dico_wf_Nil [simp]: "dico_wf []"
  by (simp add: dico_wf_def)

lemma dico_has_iff: "dico_has d section key \<longleftrightarrow> (section, key) \<in> set (dico_keys d)"
  by (induction d) auto

lemma dico_find_None: "dico_find d section key = None \<longleftrightarrow> (section, key) \<notin> set (dico_keys d)"
  by (induction d) (auto simp: dico_find_def)

lemma dico_find_snoc:
  "dico_find (d @ [item]) section key =
     (case dico_find d section key of
        None \<Rightarrow> if dkey item = key \<and> dsection item = section then Some item else None
      | Some i \<Rightarrow> Some i)"
  by (simp add: dico_find_def find_append split: option.split)

lemma dico_find_SomeD: "dico_find d section key = Some item \<Longrightarrow>
    item \<in> set d \<and> dkey item = key \<and> dsection item = section"
  by (auto simp: dico_find_def dest: find_SomeD)

lemma item_wf_bytes: "item_wf item \<Longrightarrow> length (item_bytes item) = unat (dsize item)"
  by (auto simp: item_wf_def item_bytes_def split: option.splits)

text \<open>A new item with its data, as dico_add_generic links it when the allocations succeed.\<close>

definition new_item :: "u8 \<Rightarrow> u16 \<Rightarrow> u8 list \<Rightarrow> u16 \<Rightarrow> u8 \<Rightarrow> cdicoitem" where
  "new_item section key data sz typ =
     \<lparr>dtype = typ, dsection = section, dkey = key, dsize = sz,
      ddata = (if sz > 0 then Some (take (unat sz) data) else None)\<rparr>"

lemma new_item_simps [simp]:
  "dtype (new_item section key data sz typ) = typ"
  "dsection (new_item section key data sz typ) = section"
  "dkey (new_item section key data sz typ) = key"
  "dsize (new_item section key data sz typ) = sz"
  by (simp_all add: new_item_def)

lemma new_item_bytes: "item_bytes (new_item section key data sz typ) = take (unat sz) data"
  by (auto simp: item_bytes_def new_item_def word_greater_zero_iff)

lemma new_item_wf: "unat sz \<le> length data \<Longrightarrow> item_wf (new_item section key data sz typ)"
  by (auto simp: item_wf_def new_item_def word_greater_zero_iff)

lemma dico_add_generic_ok:
  "(section, key) \<notin> set (dico_keys d) \<Longrightarrow>
   dico_add_generic mem_ok d section key data sz typ = (0, d @ [new_item section key data sz typ])"
  by (simp add: dico_add_generic_def dico_has_iff new_item_def Let_def)

lemma dico_add_generic_dup:
  "(section, key) \<in> set (dico_keys d) \<Longrightarrow> dico_add_generic mem d section key data sz typ = (-3, d)"
  by (simp add: dico_add_generic_def dico_has_iff)

lemma dico_add_generic_wf:
  "dico_wf d \<Longrightarrow> unat sz \<le> length data \<Longrightarrow>
   dico_wf (snd (dico_add_generic mem_ok d section key data sz typ))"
  by (cases "(section, key) \<in> set (dico_keys d)")
    (auto simp: dico_add_generic_dup dico_add_generic_ok dico_wf_def new_item_wf)

text \<open>Whatever allocation fails, the keys stay distinct.\<close>

lemma dico_add_generic_distinct:
  "distinct (dico_keys d) \<Longrightarrow> distinct (dico_keys (snd (dico_add_generic mem d section key data sz typ)))"
  by (simp add: dico_add_generic_def dico_has_iff Let_def)

lemma memcpy_Nil [simp]: "memcpy buf [] = buf"
  by (simp add: memcpy_def)

lemma memcpy_full: "length bytes = length buf \<Longrightarrow> memcpy buf bytes = bytes"
  by (simp add: memcpy_def)

lemma dico_get_loop_find:
  "\<forall>item \<in> set d. item_wf item \<Longrightarrow>
   dico_get_loop d section key data maxsize =
     (case dico_find d section key of
        None \<Rightarrow> (-5, data, 0)
      | Some item \<Rightarrow> if dsize item > maxsize then (-4, data, 0)
                     else (0, memcpy data (item_bytes item), dsize item))"
proof (induction d)
  case (Cons item d)
  have "item_wf item" using Cons.prems by simp
  then show ?case
    using Cons by (auto simp: dico_find_def item_bytes_def item_wf_def split: option.splits)
qed (simp add: dico_find_def)

lemma dico_get_generic_find:
  assumes "dico_wf d" and "0 < maxsize"
  shows "dico_get_generic d section key data maxsize =
     (if d = [] then (-1, data, 0)
      else case dico_find d section key of
        None \<Rightarrow> (-5, data, 0)
      | Some item \<Rightarrow> if dsize item > maxsize then (-4, data, 0)
                     else (0, memcpy data (item_bytes item), dsize item))"
proof -
  have "\<not> maxsize < 1" using assms(2) by (metis not_less_iff_gr_or_eq word_less_1 less_trans)
  then show ?thesis using assms(1) by (simp add: dico_get_generic_def dico_get_loop_find dico_wf_def)
qed

lemma dico_get_data_Some:
  assumes "dico_wf d" and "dico_find d section key = Some item" and "dsize item \<le> maxsize" and "0 < maxsize"
  shows "dico_get_data d section key data maxsize = (0, memcpy data (item_bytes item), dsize item)"
proof -
  have "d \<noteq> []" using assms(2) by (auto simp: dico_find_def)
  then show ?thesis using assms by (simp add: dico_get_data_def dico_get_generic_find)
qed

section \<open>The dictionary as a table\<close>

definition dico_insert :: "cdico \<Rightarrow> u8 \<times> u16 \<Rightarrow> u8 \<times> u8 list \<Rightarrow> int \<times> cdico" where
  "dico_insert d = (\<lambda>(section, key) (typ, data).
     dico_add_generic mem_ok d section key data (of_nat (length data)) typ)"

definition dico_lookup :: "cdico \<Rightarrow> u8 \<times> u16 \<Rightarrow> (u8 \<times> u8 list) option" where
  "dico_lookup d = (\<lambda>(section, key).
     map_option (\<lambda>item. (dtype item, item_bytes item)) (dico_find d section key))"

definition dico_value_ok :: "u8 \<times> u8 list \<Rightarrow> bool" where
  "dico_value_ok v \<longleftrightarrow> length (snd v) < 65536"

lemma dico_lookup_None: "dico_lookup d (section, key) = None \<longleftrightarrow> (section, key) \<notin> set (dico_keys d)"
  by (simp add: dico_lookup_def dico_find_None)

lemma unat_of_nat_u16: "n < 65536 \<Longrightarrow> unat (of_nat n :: u16) = n"
  by (simp add: unsigned_of_nat take_bit_nat_eq_self)

interpretation dico: unique_store "[]" dico_insert dico_lookup dico_wf dico_value_ok
proof
  show "dico_wf []" by simp
  show "dico_lookup [] k = None" for k
    by (simp add: dico_lookup_def dico_find_def split: prod.splits)
next
  fix d :: cdico and v :: "u8 \<times> u8 list" and k j :: "u8 \<times> u16"
  assume wf: "dico_wf d" and ok: "dico_value_ok v"
  obtain sect key where k: "k = (sect, key)" by (cases k)
  obtain ty data where v: "v = (ty, data)" by (cases v)
  have len: "unat (of_nat (length data) :: u16) = length data"
    using ok v by (simp add: dico_value_ok_def unat_of_nat_u16)
  show "dico_wf (snd (dico_insert d k v))"
    using wf len by (simp add: dico_insert_def k v dico_add_generic_wf)
  show "dico_lookup d k = None \<Longrightarrow> fst (dico_insert d k v) = 0"
    by (simp add: dico_insert_def k v dico_lookup_None dico_add_generic_ok)
  show "dico_lookup d k = None \<Longrightarrow>
      dico_lookup (snd (dico_insert d k v)) j = (if j = k then Some v else dico_lookup d j)"
    using len by (cases j)
      (auto simp: dico_insert_def k v dico_lookup_None dico_add_generic_ok dico_lookup_def
        dico_find_snoc dico_find_None [symmetric] new_item_bytes split: option.splits)
  show "dico_lookup d k \<noteq> None \<Longrightarrow> fst (dico_insert d k v) \<noteq> 0 \<and> snd (dico_insert d k v) = d"
    by (simp add: dico_insert_def k v dico_lookup_None dico_add_generic_dup)
qed

section \<open>Numbers and strings\<close>

lemma dico_find_added:
  "(section, key) \<notin> set (dico_keys d) \<Longrightarrow>
   dico_find (snd (dico_add_generic mem_ok d section key data sz typ)) section key =
     Some (new_item section key data sz typ)"
  by (simp add: dico_add_generic_ok dico_find_snoc dico_find_None [symmetric])

lemma dico_get_added:
  assumes "dico_wf d" and "(section, key) \<notin> set (dico_keys d)"
    and "unat sz \<le> length data" and "sz \<le> maxsize" and "0 < maxsize"
  shows "dico_get_data (snd (dico_add_generic mem_ok d section key data sz typ)) section key buf maxsize
    = (0, memcpy buf (take (unat sz) data), sz)"
  using dico_get_data_Some [OF dico_add_generic_wf [OF assms(1,3)] dico_find_added [OF assms(2)], where maxsize = maxsize]
    assms(4,5) by (simp add: new_item_bytes)

lemma dico_get_data_item:
  "dico_get_data (item # items) s k buf n =
     (if n < 1 then (-3, buf, 0)
      else if dkey item = k \<and> dsection item = s then
        (if dsize item > n then (-4, buf, 0)
         else (0, case ddata item of
                    Some bytes \<Rightarrow> if dsize item > 0 then memcpy buf (take (unat (dsize item)) bytes) else buf
                  | None \<Rightarrow> buf, dsize item))
      else dico_get_loop items s k buf n)"
  by (simp add: dico_get_data_def dico_get_generic_def)

lemma dico_get_u32_short:
  assumes "dico_wf d" and "(section, key) \<notin> set (dico_keys d)"
  shows "dico_get_u32 (snd (dico_add_u16 mem_ok d section key v)) section key ledata =
    (0, le32_to_cpu (cpu_to_le16 v @ drop 2 ledata))"
  using dico_get_added [OF assms, of 2 "cpu_to_le16 v" 4 DICTYPE_U16 ledata]
  by (simp add: dico_get_u32_def dico_add_u16_def memcpy_def)

lemma le32_of_two_le16:
  "le32_to_cpu (cpu_to_le16 lo @ cpu_to_le16 hi) = ucast lo OR push_bit 16 (ucast hi)"
proof -
  have "ucast (le16_to_cpu (cpu_to_le16 v)) = (le_val (cpu_to_le16 v) :: u32)" for v
    unfolding le16_to_cpu_def by (rule ucast_le_val) simp
  then show ?thesis
    unfolding le32_to_cpu_def le_val_append by simp
qed

lemma unat_len_u16: "length s < 65535 \<Longrightarrow> unat (of_nat (length s) + 1 :: u16) = Suc (length s)"
  using unat_of_nat_u16 [of "Suc (length s)"] by (simp add: add.commute)

lemma dico_get_string_added:
  assumes "dico_wf d" and "(section, key) \<notin> set (dico_keys d)" and "length s < unat bufsize"
  shows "dico_get_string (snd (dico_add_string mem_ok d section key s)) section key bufsize =
    (0, bytes_of_string s @ replicate (unat bufsize - length s) 0)"
proof -
  have "unat bufsize < 2 ^ LENGTH(16)" by (rule unsigned_less)
  then have len: "length s < 65535" using assms(3) by simp
  have "unat (0 :: u16) < unat bufsize" using assms(3) by simp
  then have pos: "0 < bufsize" by (simp add: word_less_nat_alt)
  have le: "(of_nat (length s) + 1 :: u16) \<le> bufsize"
    using assms(3) by (simp add: word_le_nat_alt unat_len_u16 [OF len])
  have "unat (of_nat (length s) + 1 :: u16) \<le> length (bytes_of_string s @ [0])"
    using len by (simp add: unat_len_u16 bytes_of_string_def)
  from dico_get_added [OF assms(1,2) this le pos, of DICTYPE_STRING "replicate (unat bufsize) 0"]
  have "dico_get_string (snd (dico_add_string mem_ok d section key s)) section key bufsize =
     (0, bytes_of_string s @ 0 # replicate (unat bufsize - Suc (length s)) 0)"
    using len by (simp add: dico_get_string_def dico_add_string_def Let_def unat_len_u16 memcpy_def
        bytes_of_string_def)
  moreover have "0 # replicate (unat bufsize - Suc (length s)) (0 :: u8) = replicate (unat bufsize - length s) 0"
    using assms(3) by (metis Suc_diff_Suc replicate_Suc)
  ultimately show ?thesis by simp
qed

section \<open>Properties\<close>

text \<open>C31: a number of 16, 32 or 64 bits that was added to a dictionary is read back with the same value whatever the
  stack held before, and each of the three additions leaves every other entry as it was.\<close>

theorem dico_numbers_roundtrip:
  assumes "dico_wf d" and "(s, k) \<notin> set (dico_keys d)"
    and "length stk2 = 2" and "length stk4 = 4" and "length stk8 = 8"
  shows "dico_get_u16 (snd (dico_add_u16 mem_ok d s k v16)) s k stk2 = (0, v16) \<and>
    dico_get_u32 (snd (dico_add_u32 mem_ok d s k v32)) s k stk4 = (0, v32) \<and>
    dico_get_u64 (snd (dico_add_u64 mem_ok d s k v64)) s k stk8 = (0, v64) \<and>
    ((s', k') = (s, k) \<or>
     dico_lookup (snd (dico_add_u16 mem_ok d s k v16)) (s', k') = dico_lookup d (s', k') \<and>
     dico_lookup (snd (dico_add_u32 mem_ok d s k v32)) (s', k') = dico_lookup d (s', k') \<and>
     dico_lookup (snd (dico_add_u64 mem_ok d s k v64)) (s', k') = dico_lookup d (s', k'))"
  using assms dico.insert_find_other [OF assms(1), of "(DICTYPE_U16, cpu_to_le16 v16)" "(s', k')" "(s, k)"]
    dico.insert_find_other [OF assms(1), of "(DICTYPE_U32, cpu_to_le32 v32)" "(s', k')" "(s, k)"]
    dico.insert_find_other [OF assms(1), of "(DICTYPE_U64, cpu_to_le64 v64)" "(s', k')" "(s, k)"]
  by (auto simp: dico_get_u16_def dico_add_u16_def dico_get_u32_def dico_add_u32_def dico_get_u64_def
      dico_add_u64_def dico_get_added memcpy_full dico_value_ok_def dico_insert_def)

lemma dico_numbers_roundtrip_witness:
  "dico_get_u16 (snd (dico_add_u16 mem_ok [] 0 6 513)) 0 6 [9, 9] = (0, 513) \<and>
   dico_get_u32 (snd (dico_add_u32 mem_ok [] 0 6 70000)) 0 6 [9, 9, 9, 9] = (0, 70000)"
  using dico_numbers_roundtrip [of "[]" 0 6 "[9, 9]" "[9, 9, 9, 9]" "[0, 0, 0, 0, 0, 0, 0, 0]" 513 70000 1 0 0]
  by simp

text \<open>C32: a string that fits the reader's buffer with its NUL is read back followed by zero bytes only.\<close>

theorem dico_string_roundtrip:
  assumes "dico_wf d" and "(s, k) \<notin> set (dico_keys d)"
    and "length str < unat bufsize" and "CHR 0x00 \<notin> set str"
  shows "fst (dico_add_string mem_ok d s k str) = 0 \<and>
    fst (dico_get_string (snd (dico_add_string mem_ok d s k str)) s k bufsize) = 0 \<and>
    cstr (string_of_bytes (snd (dico_get_string (snd (dico_add_string mem_ok d s k str)) s k bufsize))) = str"
proof -
  have "string_of_bytes (bytes_of_string str @ replicate n 0) = str @ replicate n (CHR 0x00)" for n
    using string_of_bytes_of_string [of str]
    by (simp add: string_of_bytes_def) (simp add: char_of_def)
  moreover have "0 < unat bufsize - length str" using assms(3) by simp
  ultimately show ?thesis
    using assms dico_get_string_added [OF assms(1-3)]
    by (simp add: dico_add_string_def Let_def dico_add_generic_ok cstr_def takeWhile_append)
qed

lemma dico_string_roundtrip_witness:
  "fst (dico_add_string mem_ok [] 0 2 ''/etc'') = 0 \<and>
   fst (dico_get_string (snd (dico_add_string mem_ok [] 0 2 ''/etc'')) 0 2 4096) = 0 \<and>
   cstr (string_of_bytes (snd (dico_get_string (snd (dico_add_string mem_ok [] 0 2 ''/etc'')) 0 2 4096))) = ''/etc''"
  by (rule dico_string_roundtrip) simp_all

text \<open>the reader of a 32-bit number accepts an entry that holds only two bytes: the upper half of the
  value it reports is what its uninitialised local variable held.\<close>

theorem dico_get_u32_uninitialised:
  assumes "dico_wf d" and "(s, k) \<notin> set (dico_keys d)" and "length lo = 2"
  shows "dico_get_u32 (snd (dico_add_u16 mem_ok d s k v)) s k (lo @ cpu_to_le16 hi) =
    (0, ucast v OR push_bit 16 (ucast hi))"
  using dico_get_u32_short [OF assms(1,2), of v "lo @ cpu_to_le16 hi"] assms(3)
  by (simp add: le32_of_two_le16)

lemma dico_get_u32_uninitialised_witness:
  "dico_get_u32 (snd (dico_add_u16 mem_ok [] 0 1 5)) 0 1 ([7, 7] @ cpu_to_le16 3) = (0, ucast (5 :: u16) OR push_bit 16 (ucast (3 :: u16)))"
  by (rule dico_get_u32_uninitialised) simp_all

end
