(* ===== verification/Writebuf.thy ===== *)
theory Writebuf
  imports Checksum Dico
begin

text \<open>writebuf.c: the memory buffer in which a header or a block is laid out before it goes to the
  archive, with the records of queue.h that describe a block and a header.\<close>

section \<open>Data\<close>

record cblockinfo =
  blkdata :: "u8 list"
  blkrealsize :: u32
  blkoffset :: u64
  blkarcsum :: u32
  blkarsize :: u32
  blkcompalgo :: u16
  blkcompsize :: u32
  blkcryptalgo :: u16
  blkfsid :: u16
  blklocked :: bool

record cheadinfo =
  hmagic :: "u8 list"
  hfsid :: u16
  hdico :: cdico

text \<open>The structs after memset 0.\<close>

definition zero_blockinfo :: cblockinfo where
  "zero_blockinfo =
     \<lparr>blkdata = [], blkrealsize = 0, blkoffset = 0, blkarcsum = 0, blkarsize = 0, blkcompalgo = 0,
      blkcompsize = 0, blkcryptalgo = 0, blkfsid = 0, blklocked = False\<rparr>"

definition zero_headinfo :: cheadinfo where
  "zero_headinfo = \<lparr>hmagic = [0, 0, 0, 0], hfsid = 0, hdico = []\<rparr>"

record cwritebuf =
  wdata :: "u8 list"
  wsize :: nat

section \<open>Operations\<close>

definition writebuf_alloc :: "malloc \<Rightarrow> cwritebuf option" where
  "writebuf_alloc mem = (if mem 16 then Some \<lparr>wdata = [], wsize = 0\<rparr> else None)"

text \<open>When realloc fails the data pointer is NULL and the size keeps its value.\<close>

definition writebuf_add_data :: "malloc \<Rightarrow> cwritebuf \<Rightarrow> u8 list \<Rightarrow> nat \<Rightarrow> int \<times> cwritebuf" where
  "writebuf_add_data mem wb data sz =
     (if sz = 0 then (-1, wb)
      else
        (let newsize = wsize wb + sz
         in if \<not> mem (newsize + 4) then (-1, wb\<lparr>wdata := []\<rparr>)
            else (0, \<lparr>wdata = take (wsize wb) (wdata wb) @ take sz data, wsize = newsize\<rparr>)))"

fun dico_headerlen :: "cdico \<Rightarrow> u32 \<Rightarrow> u32" where
  "dico_headerlen [] headerlen = headerlen"
| "dico_headerlen (item # items) headerlen =
     dico_headerlen items (headerlen + 1 + 1 + 2 + 2 + ucast (dsize item))"

fun dico_serialise :: "cdico \<Rightarrow> u8 list" where
  "dico_serialise [] = []"
| "dico_serialise (item # items) =
     [dtype item] @ [dsection item] @ cpu_to_le16 (dkey item) @ cpu_to_le16 (dsize item)
     @ (if dsize item > 0 then item_bytes item else []) @ dico_serialise items"

definition writebuf_add_dico :: "malloc \<Rightarrow> cwritebuf \<Rightarrow> cdico \<Rightarrow> u8 list \<Rightarrow> int \<times> cwritebuf" where
  "writebuf_add_dico mem wb d magic =
     (let count = (of_int (dico_count_all_sections d) :: u16);
          headerlen = dico_headerlen d 2
      in if \<not> mem (unat headerlen) then (-1, wb)
         else
           (let buffer = cpu_to_le16 count @ dico_serialise d;
                (r, wb) = writebuf_add_data mem wb (cpu_to_le32 headerlen) 4
            in if r \<noteq> 0 then (-1, wb)
               else
                 (let (r, wb) = writebuf_add_data mem wb buffer (unat headerlen)
                  in if r \<noteq> 0 then (-1, wb)
                     else
                       (let checksum = fletcher32 (take (unat headerlen) buffer);
                            (r, wb) = writebuf_add_data mem wb (cpu_to_le32 checksum) 4
                        in if r \<noteq> 0 then (-1, wb) else (0, wb)))))"

definition writebuf_add_header ::
    "malloc \<Rightarrow> cwritebuf \<Rightarrow> cdico \<Rightarrow> u8 list \<Rightarrow> u32 \<Rightarrow> u16 \<Rightarrow> int \<times> cwritebuf" where
  "writebuf_add_header mem wb d magic archid fsid =
     (let (r, wb) = writebuf_add_data mem wb magic FSA_SIZEOF_MAGIC
      in if r \<noteq> 0 then (-2, wb)
         else
           (let (r, wb) = writebuf_add_data mem wb (cpu_to_le32 archid) 4
            in if r \<noteq> 0 then (-3, wb)
               else
                 (let (r, wb) = writebuf_add_data mem wb (cpu_to_le16 fsid) 2
                  in if r \<noteq> 0 then (-3, wb)
                     else
                       (let (r, wb) = writebuf_add_dico mem wb d magic
                        in if r \<noteq> 0 then (-4, wb) else (0, wb)))))"

text \<open>The header of a block; the return codes of the additions are not looked at.\<close>

definition block_dico :: "malloc \<Rightarrow> cblockinfo \<Rightarrow> cdico" where
  "block_dico mem blkinfo =
     (let d = [];
          d = snd (dico_add_u64 mem d 0 BLOCKHEADITEMKEY_BLOCKOFFSET (blkoffset blkinfo));
          d = snd (dico_add_u32 mem d 0 BLOCKHEADITEMKEY_REALSIZE (blkrealsize blkinfo));
          d = snd (dico_add_u32 mem d 0 BLOCKHEADITEMKEY_ARSIZE (blkarsize blkinfo));
          d = snd (dico_add_u32 mem d 0 BLOCKHEADITEMKEY_COMPSIZE (blkcompsize blkinfo));
          d = snd (dico_add_u32 mem d 0 BLOCKHEADITEMKEY_ARCSUM (blkarcsum blkinfo));
          d = snd (dico_add_u16 mem d 0 BLOCKHEADITEMKEY_COMPRESSALGO (blkcompalgo blkinfo));
          d = snd (dico_add_u16 mem d 0 BLOCKHEADITEMKEY_ENCRYPTALGO (blkcryptalgo blkinfo))
      in d)"

definition writebuf_add_block ::
    "malloc \<Rightarrow> cwritebuf \<Rightarrow> cblockinfo \<Rightarrow> u32 \<Rightarrow> u16 \<Rightarrow> int \<times> cwritebuf" where
  "writebuf_add_block mem wb blkinfo archid fsid =
     (case dico_alloc mem of
        None \<Rightarrow> (-1, wb)
      | Some _ \<Rightarrow>
          if blkarsize blkinfo = 0 then (-1, wb)
          else
            (let (r, wb) = writebuf_add_header mem wb (block_dico mem blkinfo) FSA_MAGIC_BLKH archid fsid
             in if r \<noteq> 0 then (-1, wb)
                else
                  (let (r, wb) = writebuf_add_data mem wb (blkdata blkinfo) (unat (blkarsize blkinfo))
                   in if r \<noteq> 0 then (-1, wb) else (0, wb))))"

section \<open>What is in the buffer\<close>

definition wb_wf :: "cwritebuf \<Rightarrow> bool" where
  "wb_wf wb \<longleftrightarrow> wsize wb = length (wdata wb)"

definition wb_of :: "u8 list \<Rightarrow> cwritebuf" where
  "wb_of bytes = \<lparr>wdata = bytes, wsize = length bytes\<rparr>"

lemma wb_wf_iff: "wb_wf wb \<longleftrightarrow> wb = wb_of (wdata wb)"
  by (cases wb) (auto simp: wb_wf_def wb_of_def)

lemma wdata_wb_of [simp]: "wdata (wb_of bs) = bs" "wsize (wb_of bs) = length bs"
  by (simp_all add: wb_of_def)

lemma writebuf_add_data_ok:
  "sz = length data \<Longrightarrow> data \<noteq> [] \<Longrightarrow> writebuf_add_data mem_ok (wb_of bs) data sz = (0, wb_of (bs @ data))"
  by (simp add: writebuf_add_data_def wb_of_def)

text \<open>The bytes of a header, and the condition that its 16-bit count and 32-bit length are exact.\<close>

definition dico_len :: "cdico \<Rightarrow> nat" where
  "dico_len d = 2 + (\<Sum>item\<leftarrow>d. 6 + unat (dsize item))"

definition dico_small :: "cdico \<Rightarrow> bool" where
  "dico_small d \<longleftrightarrow> length d < 65536 \<and> dico_len d < 2 ^ 32"

definition dico_payload :: "cdico \<Rightarrow> u8 list" where
  "dico_payload d = cpu_to_le16 (of_nat (length d)) @ dico_serialise d"

definition dico_bytes :: "cdico \<Rightarrow> u8 list" where
  "dico_bytes d =
     cpu_to_le32 (of_nat (length (dico_payload d))) @ dico_payload d
     @ cpu_to_le32 (fletcher32 (dico_payload d))"

definition header_bytes :: "u8 list \<Rightarrow> u32 \<Rightarrow> u16 \<Rightarrow> cdico \<Rightarrow> u8 list" where
  "header_bytes magic archid fsid d = magic @ cpu_to_le32 archid @ cpu_to_le16 fsid @ dico_bytes d"

lemma dico_count_all_eq: "dico_count_all_sections d = int (length d)"
proof -
  have "dico_count_all_loop d c = c + int (length d)" for c
    by (induction d arbitrary: c) auto
  then show ?thesis by (simp add: dico_count_all_sections_def)
qed

lemma unat_ucast_u16 [simp]: "unat (ucast (x :: u16) :: u32) = unat x"
proof -
  have "unat x < 2 ^ LENGTH(16)" by (rule unsigned_less)
  then show ?thesis by (simp add: unsigned_ucast_eq take_bit_nat_eq_self)
qed

lemma dico_headerlen_eq: "dico_headerlen d n = n + of_nat (\<Sum>item\<leftarrow>d. 6 + unat (dsize item))"
  by (induction d arbitrary: n) (auto simp: add.assoc)

lemma unat_dico_headerlen: "dico_small d \<Longrightarrow> unat (dico_headerlen d 2) = dico_len d"
proof -
  assume "dico_small d"
  moreover have "dico_headerlen d 2 = of_nat (dico_len d)"
    by (simp add: dico_headerlen_eq dico_len_def)
  ultimately show ?thesis by (simp add: dico_small_def unsigned_of_nat take_bit_nat_eq_self)
qed

lemma length_dico_serialise:
  "\<forall>item \<in> set d. item_wf item \<Longrightarrow> length (dico_serialise d) = (\<Sum>item\<leftarrow>d. 6 + unat (dsize item))"
  by (induction d) (auto simp: item_wf_bytes word_greater_zero_iff)

lemma length_dico_payload: "\<forall>item \<in> set d. item_wf item \<Longrightarrow> length (dico_payload d) = dico_len d"
  by (simp add: dico_payload_def dico_len_def length_dico_serialise)

lemma writebuf_add_dico_ok:
  assumes wf: "\<forall>item \<in> set d. item_wf item" and small: "dico_small d"
  shows "writebuf_add_dico mem_ok (wb_of bs) d magic = (0, wb_of (bs @ dico_bytes d))"
proof -
  have hl: "dico_headerlen d 2 = of_nat (length (dico_payload d))"
    by (simp add: length_dico_payload [OF wf] dico_len_def dico_headerlen_eq)
  have len: "unat (of_nat (length (dico_payload d)) :: u32) = length (dico_payload d)"
    using small by (simp add: length_dico_payload [OF wf] dico_small_def unsigned_of_nat take_bit_nat_eq_self)
  have ne: "dico_payload d \<noteq> []" "cpu_to_le32 v \<noteq> []" for v
    using le16.enc_len le32.enc_len by (auto simp: dico_payload_def simp flip: length_0_conv)
  show ?thesis
    unfolding writebuf_add_dico_def hl dico_count_all_eq of_int_of_nat_eq Let_def dico_payload_def [symmetric]
    by (simp add: len ne writebuf_add_data_ok dico_bytes_def)
qed

lemma writebuf_add_header_ok:
  assumes "length magic = 4" and "\<forall>item \<in> set d. item_wf item" and "dico_small d"
  shows "writebuf_add_header mem_ok (wb_of bs) d magic archid fsid =
    (0, wb_of (bs @ header_bytes magic archid fsid d))"
proof -
  have ne: "magic \<noteq> []" "cpu_to_le32 a \<noteq> []" "cpu_to_le16 f \<noteq> []" for a f
    using assms(1) le16.enc_len le32.enc_len by (auto simp flip: length_0_conv)
  show ?thesis
    using assms by (simp add: writebuf_add_header_def FSA_SIZEOF_MAGIC_def writebuf_add_data_ok ne
        writebuf_add_dico_ok header_bytes_def)
qed

section \<open>The header of a block\<close>

lemma dico_add_number_ok:
  "(s, k) \<notin> set (dico_keys d) \<Longrightarrow>
   dico_add_u16 mem_ok d s k v16 = (0, d @ [new_item s k (cpu_to_le16 v16) 2 DICTYPE_U16])"
  "(s, k) \<notin> set (dico_keys d) \<Longrightarrow>
   dico_add_u32 mem_ok d s k v32 = (0, d @ [new_item s k (cpu_to_le32 v32) 4 DICTYPE_U32])"
  "(s, k) \<notin> set (dico_keys d) \<Longrightarrow>
   dico_add_u64 mem_ok d s k v64 = (0, d @ [new_item s k (cpu_to_le64 v64) 8 DICTYPE_U64])"
  by (simp_all add: dico_add_u16_def dico_add_u32_def dico_add_u64_def dico_add_generic_ok)

definition block_items :: "cblockinfo \<Rightarrow> cdico" where
  "block_items b =
     [new_item 0 BLOCKHEADITEMKEY_BLOCKOFFSET (cpu_to_le64 (blkoffset b)) 8 DICTYPE_U64,
      new_item 0 BLOCKHEADITEMKEY_REALSIZE (cpu_to_le32 (blkrealsize b)) 4 DICTYPE_U32,
      new_item 0 BLOCKHEADITEMKEY_ARSIZE (cpu_to_le32 (blkarsize b)) 4 DICTYPE_U32,
      new_item 0 BLOCKHEADITEMKEY_COMPSIZE (cpu_to_le32 (blkcompsize b)) 4 DICTYPE_U32,
      new_item 0 BLOCKHEADITEMKEY_ARCSUM (cpu_to_le32 (blkarcsum b)) 4 DICTYPE_U32,
      new_item 0 BLOCKHEADITEMKEY_COMPRESSALGO (cpu_to_le16 (blkcompalgo b)) 2 DICTYPE_U16,
      new_item 0 BLOCKHEADITEMKEY_ENCRYPTALGO (cpu_to_le16 (blkcryptalgo b)) 2 DICTYPE_U16]"

lemma block_dico_ok: "block_dico mem_ok b = block_items b"
  by (simp add: block_dico_def block_items_def Let_def dico_add_number_ok fsa_const)

lemma block_items_wf: "dico_wf (block_items b)"
  by (simp add: dico_wf_def block_items_def fsa_const new_item_wf)

lemma block_items_small: "dico_small (block_items b)"
  by (simp add: dico_small_def dico_len_def block_items_def)

definition block_bytes :: "cblockinfo \<Rightarrow> u32 \<Rightarrow> u16 \<Rightarrow> u8 list" where
  "block_bytes b archid fsid = header_bytes FSA_MAGIC_BLKH archid fsid (block_items b) @ blkdata b"

lemma writebuf_add_block_ok:
  assumes "length (blkdata b) = unat (blkarsize b)" and "blkarsize b \<noteq> 0"
  shows "writebuf_add_block mem_ok (wb_of bs) b archid fsid = (0, wb_of (bs @ block_bytes b archid fsid))"
proof -
  have "blkdata b \<noteq> []" using assms by (auto simp flip: length_0_conv simp: unat_eq_0)
  moreover have "\<forall>item \<in> set (block_items b). item_wf item" using block_items_wf by (simp add: dico_wf_def)
  ultimately show ?thesis
    using assms by (simp add: writebuf_add_block_def dico_alloc_def block_dico_ok
        writebuf_add_header_ok block_items_small writebuf_add_data_ok block_bytes_def)
qed

end
