(* ===== verification/Archreader.thy ===== *)
theory Archreader
  imports Writebuf Paths
begin

text \<open>archreader.c: reading volumes, headers and blocks of an archive. The open volume is the bytes of
  the file with the offset of its descriptor; a read of a regular file returns the bytes that are there,
  at most as many as asked for. The result None of a function is a read outside an allocated
  buffer, which C leaves undefined. Local variables that the C code does not initialise have their bytes
  in the argument \<open>stk\<close>, one entry for each key that is looked up.\<close>

section \<open>State\<close>

record carchreader =
  archfd :: int
  archid :: u32
  fscount :: u64
  archtype :: u32
  curvol :: u32
  compalgo :: u32
  cryptalgo :: u32
  complevel :: u32
  fsacomp :: u32
  creattime :: u64
  minfsaver :: u64
  hasdirsinfohead :: u32
  filefmtver :: int
  filefmt :: "u8 list"
  creatver :: "u8 list"
  label :: "u8 list"
  basepath :: string
  volpath :: string
  afile :: "u8 list"
  apos :: nat

definition archreader_init :: carchreader where
  "archreader_init =
     \<lparr>archfd = -1, archid = 0, fscount = 0, archtype = 0, curvol = 0,
      compalgo = ucast COMPRESS_NULL, cryptalgo = ucast ENCRYPT_NULL, complevel = -1, fsacomp = -1,
      creattime = 0, minfsaver = 0, hasdirsinfohead = 0, filefmtver = 0,
      filefmt = replicate FSA_MAX_FILEFMTLEN 0, creatver = replicate FSA_MAX_PROGVERLEN 0,
      label = replicate FSA_MAX_LABELLEN 0, basepath = [], volpath = [], afile = [], apos = 0\<rparr>"

section \<open>Files\<close>

text \<open>read and lseek64 on the descriptor of the volume.\<close>

definition sys_read :: "carchreader \<Rightarrow> nat \<Rightarrow> u8 list \<times> carchreader" where
  "sys_read ai n =
     (let data = take n (drop (apos ai) (afile ai)) in (data, ai\<lparr>apos := apos ai + length data\<rparr>))"

definition sys_seek :: "carchreader \<Rightarrow> int \<Rightarrow> int \<times> carchreader" where
  "sys_seek ai pos = (if pos < 0 then (-1, ai) else (pos, ai\<lparr>apos := nat pos\<rparr>))"

text \<open>Opening a volume: the parameter \<open>open64\<close> gives the descriptor, whether the path is a regular file and
  its bytes, or None when open64 fails; \<open>fstat_ok\<close> is the success of fstat64.\<close>

definition FSA_FILEFORMAT :: string where
  "FSA_FILEFORMAT = ''FsArCh_002''"

definition archreader_open ::
    "(string \<Rightarrow> (int \<times> bool \<times> u8 list) option) \<Rightarrow> (string \<Rightarrow> bool) \<Rightarrow> carchreader \<Rightarrow> int \<times> carchreader" where
  "archreader_open open64 fstat_ok ai =
     (case open64 (volpath ai) of
        None \<Rightarrow> (-1, ai\<lparr>archfd := -1\<rparr>)
      | Some (fd, isreg, bytes) \<Rightarrow>
          (let ai = ai\<lparr>archfd := fd, afile := bytes, apos := 0\<rparr>
           in if \<not> fstat_ok (volpath ai) then (-1, ai)
              else if \<not> isreg then (-1, ai)
              else
                (let (volhead, ai) = sys_read ai 64
                 in if length volhead \<noteq> 64 then (-1, ai)
                    else
                      (let (pos, ai) = sys_seek ai 0;
                           magiclen = length FSA_FILEFORMAT;
                           has = (\<lambda>off s. take magiclen (drop off volhead) = take magiclen (bytes_of_string s))
                       in if pos \<noteq> 0 then (-1, ai)
                          else if has 40 ''FsArCh_001'' \<or> has 40 ''FsArCh_00Y'' then (0, ai\<lparr>filefmtver := 1\<rparr>)
                          else if has 42 ''FsArCh_002'' then (0, ai\<lparr>filefmtver := 2\<rparr>)
                          else (-1, ai)))))"

definition archreader_close :: "carchreader \<Rightarrow> int \<times> carchreader" where
  "archreader_close ai = (if archfd ai < 0 then (-1, ai) else (0, ai\<lparr>archfd := -1\<rparr>))"

definition archreader_volpath :: "(string \<Rightarrow> string option) \<Rightarrow> carchreader \<Rightarrow> int \<times> carchreader" where
  "archreader_volpath realpath ai =
     (case get_path_to_volume realpath PATH_MAX (basepath ai) (unat (curvol ai)) of
        Some p \<Rightarrow> (0, ai\<lparr>volpath := p\<rparr>)
      | None \<Rightarrow> (-1, ai))"

definition archreader_incvolume :: "(string \<Rightarrow> string option) \<Rightarrow> carchreader \<Rightarrow> int \<times> carchreader" where
  "archreader_incvolume realpath ai = archreader_volpath realpath (ai\<lparr>curvol := curvol ai + 1\<rparr>)"

text \<open>The return code, the bytes that were read and the reader.\<close>

definition archreader_read_data :: "carchreader \<Rightarrow> nat \<Rightarrow> int \<times> u8 list \<times> carchreader" where
  "archreader_read_data ai sz =
     (let (data, ai) = sys_read ai sz in if length data \<noteq> sz then (-1, data, ai) else (0, data, ai))"

section \<open>Dictionaries\<close>

fun read_dico_items :: "malloc \<Rightarrow> cdico \<Rightarrow> u8 list \<Rightarrow> nat \<Rightarrow> (int \<times> cdico) option" where
  "read_dico_items mem d bufpos 0 = Some (FSAERR_SUCCESS, d)"
| "read_dico_items mem d bufpos (Suc n) =
     (if length bufpos < 6 then None
      else
        (let typ = bufpos ! 0;
             section = bufpos ! 1;
             key = le16_to_cpu (take 2 (drop 2 bufpos));
             sz = le16_to_cpu (take 2 (drop 4 bufpos));
             bufpos = drop 6 bufpos;
             (r, d) = dico_add_generic mem d section key bufpos sz typ
         in if r \<noteq> 0 then Some (OLDERR_FATAL, d)
            else if length bufpos < unat sz then None
            else read_dico_items mem d (drop (unat sz) bufpos) n))"

definition parse_dico :: "malloc \<Rightarrow> cdico \<Rightarrow> u8 list \<Rightarrow> (int \<times> cdico) option" where
  "parse_dico mem d buffer =
     (if length buffer < 2 then None
      else read_dico_items mem d (drop 2 buffer) (unat (le16_to_cpu (take 2 buffer))))"

definition read_headerlen :: "carchreader \<Rightarrow> nat option \<times> carchreader" where
  "read_headerlen ai =
     (if filefmtver ai = 1 then
        (let (r, temp16, ai) = archreader_read_data ai 2
         in (if r \<noteq> 0 then None else Some (unat (le16_to_cpu temp16)), ai))
      else if filefmtver ai = 2 then
        (let (r, temp32, ai) = archreader_read_data ai 4
         in (if r \<noteq> 0 then None else Some (unat (le32_to_cpu temp32)), ai))
      else (None, ai))"

definition archreader_read_dico :: "malloc \<Rightarrow> carchreader \<Rightarrow> cdico \<Rightarrow> (int \<times> carchreader \<times> cdico) option" where
  "archreader_read_dico mem ai d =
     (case read_headerlen ai of
        (None, ai) \<Rightarrow> Some (OLDERR_FATAL, ai, d)
      | (Some headerlen, ai) \<Rightarrow>
          if \<not> mem headerlen then Some (FSAERR_ENOMEM, ai, d)
          else
            (let (r, buffer, ai) = archreader_read_data ai headerlen
             in if r \<noteq> 0 then Some (OLDERR_FATAL, ai, d)
                else
                  (let (r, temp32, ai) = archreader_read_data ai 4
                   in if r \<noteq> 0 then Some (OLDERR_FATAL, ai, d)
                      else if fletcher32 buffer \<noteq> le32_to_cpu temp32 then Some (OLDERR_MINOR, ai, d)
                      else map_option (\<lambda>(r, d). (r, ai, d)) (parse_dico mem d buffer))))"

section \<open>Headers\<close>

text \<open>The search for the next magic: \<open>curpos\<close> is where the next attempt is made.\<close>

function header_search :: "carchreader \<Rightarrow> nat \<Rightarrow> u8 list \<Rightarrow> int \<times> carchreader \<times> u8 list" where
  "header_search ai curpos magic =
     (if is_magic_valid magic then (FSAERR_SUCCESS, ai, magic)
      else
        (let ai = snd (sys_seek ai (int curpos));
             (r, data, ai') = archreader_read_data ai FSA_SIZEOF_MAGIC
         in if r \<noteq> 0 then (OLDERR_FATAL, ai', memcpy magic data)
            else header_search ai' (curpos + 1) data))"
  by pat_completeness auto
termination
  by (relation "measure (\<lambda>(ai, curpos, magic). length (afile ai) - curpos)")
    (auto simp: sys_seek_def archreader_read_data_def sys_read_def Let_def FSA_SIZEOF_MAGIC_def split: if_splits)

declare header_search.simps [simp del]

text \<open>After the magic: archive id, filesystem id and dictionary.\<close>

definition read_after_magic ::
    "malloc \<Rightarrow> carchreader \<Rightarrow> u8 list \<Rightarrow> cdico \<Rightarrow> (int \<times> carchreader \<times> u8 list \<times> cdico \<times> u16) option" where
  "read_after_magic mem ai magic d =
     (let fsid = FSA_FILESYSID_NULL; (r, temp32, ai) = archreader_read_data ai 4
      in if r \<noteq> 0 then Some (OLDERR_FATAL, ai, magic, d, fsid)
         else if archid ai \<noteq> 0 \<and> le32_to_cpu temp32 \<noteq> archid ai
         then Some (OLDERR_MINOR, ai, magic, d, fsid)
         else
           (let (r, temp16, ai) = archreader_read_data ai 2
            in if r \<noteq> 0 then Some (OLDERR_FATAL, ai, magic, d, fsid)
               else
                 (let fsid = le16_to_cpu temp16
                  in map_option (\<lambda>(r, ai, d). (r, ai, magic, d, fsid)) (archreader_read_dico mem ai d))))"

definition archreader_read_header ::
    "malloc \<Rightarrow> carchreader \<Rightarrow> bool \<Rightarrow> (int \<times> carchreader \<times> u8 list \<times> cdico \<times> u16) option" where
  "archreader_read_header mem ai allowseek =
     (let magic = replicate FSA_SIZEOF_MAGIC 0; fsid = FSA_FILESYSID_NULL
      in case dico_alloc mem of
           None \<Rightarrow> Some (OLDERR_FATAL, ai, magic, [], fsid)
         | Some d \<Rightarrow>
             (let curpos = apos ai;
                  (r, data, ai) = archreader_read_data ai FSA_SIZEOF_MAGIC;
                  magic = memcpy magic data
              in if r \<noteq> 0 then Some (OLDERR_FATAL, ai, magic, d, fsid)
                 else if \<not> is_magic_valid magic \<and> \<not> allowseek then Some (OLDERR_FATAL, ai, magic, d, fsid)
                 else
                   (let (r, ai, magic) = header_search ai curpos magic
                    in if r \<noteq> 0 then Some (OLDERR_FATAL, ai, magic, d, fsid)
                       else read_after_magic mem ai magic d)))"

section \<open>Volume header\<close>

text \<open>strncmp on buffers of bytes: the strings up to their NUL, at most \<open>n\<close> bytes.\<close>

definition strncmp_eq :: "nat \<Rightarrow> u8 list \<Rightarrow> u8 list \<Rightarrow> bool" where
  "strncmp_eq n a b = (takeWhile (\<lambda>c. c \<noteq> 0) (take n a) = takeWhile (\<lambda>c. c \<noteq> 0) (take n b))"

definition check_volheader :: "(u16 \<Rightarrow> u8 list) \<Rightarrow> carchreader \<Rightarrow> u8 list \<Rightarrow> cdico \<Rightarrow> int \<times> carchreader" where
  "check_volheader stk ai magic d =
     (if \<not> strncmp_eq FSA_SIZEOF_MAGIC magic FSA_MAGIC_VOLH then (-1, ai)
      else
        (let (r, readid) = dico_get_u32 d 0 VOLUMEHEADKEY_ARCHID (stk VOLUMEHEADKEY_ARCHID)
         in if r \<noteq> 0 then (-1, ai)
            else if archid ai \<noteq> 0 \<and> readid \<noteq> archid ai then (-1, ai)
            else
              (let ai = (if archid ai = 0 then ai\<lparr>archid := readid\<rparr> else ai);
                   (r, volnum) = dico_get_u32 d 0 VOLUMEHEADKEY_VOLNUM (stk VOLUMEHEADKEY_VOLNUM)
               in if r \<noteq> 0 then (-1, ai)
                  else if volnum \<noteq> curvol ai then (-1, ai)
                  else
                    (let (r, fmt, n) = dico_get_data d 0 VOLUMEHEADKEY_FILEFORMATVER
                           (stk VOLUMEHEADKEY_FILEFORMATVER) (of_nat FSA_MAX_FILEFMTLEN)
                     in if r \<noteq> 0 then (-1, ai)
                        else if hd (filefmt ai) \<noteq> 0 \<and> \<not> strncmp_eq FSA_MAX_FILEFMTLEN fmt (filefmt ai)
                        then (-1, ai)
                        else
                          (let ai = (if hd (filefmt ai) = 0 then ai\<lparr>filefmt := take FSA_MAX_FILEFMTLEN fmt\<rparr> else ai);
                               (r, ver, n) = dico_get_data d 0 VOLUMEHEADKEY_PROGVERCREAT
                                 (stk VOLUMEHEADKEY_PROGVERCREAT) (of_nat FSA_MAX_PROGVERLEN)
                           in if r \<noteq> 0 then (-1, ai)
                              else (0, if hd (creatver ai) = 0
                                       then ai\<lparr>creatver := take FSA_MAX_PROGVERLEN ver\<rparr> else ai))))))"

definition archreader_read_volheader ::
    "malloc \<Rightarrow> (u16 \<Rightarrow> u8 list) \<Rightarrow> carchreader \<Rightarrow> (int \<times> carchreader) option" where
  "archreader_read_volheader mem stk ai =
     (case archreader_read_header mem ai False of
        None \<Rightarrow> None
      | Some (r, ai, magic, d, fsid) \<Rightarrow>
          if r \<noteq> FSAERR_SUCCESS then Some (-1, ai) else Some (check_volheader stk ai magic d))"

section \<open>Blocks\<close>

text \<open>The fields of a block header, read one after the other, or None when one is missing or the real
  size is above the limit. \<open>blkdata\<close> is set when the data are read.\<close>

definition read_blockinfo :: "(u16 \<Rightarrow> u8 list) \<Rightarrow> cdico \<Rightarrow> cblockinfo option" where
  "read_blockinfo stk d =
     (let (r, blockoffset) = dico_get_u64 d 0 BLOCKHEADITEMKEY_BLOCKOFFSET (stk BLOCKHEADITEMKEY_BLOCKOFFSET)
      in if r \<noteq> 0 then None else
     (let (r, curblocksize) = dico_get_u32 d 0 BLOCKHEADITEMKEY_REALSIZE (stk BLOCKHEADITEMKEY_REALSIZE)
      in if r \<noteq> 0 \<or> unat curblocksize > FSA_MAX_BLKSIZE then None else
     (let (r, calgo) = dico_get_u16 d 0 BLOCKHEADITEMKEY_COMPRESSALGO (stk BLOCKHEADITEMKEY_COMPRESSALGO)
      in if r \<noteq> 0 then None else
     (let (r, ealgo) = dico_get_u16 d 0 BLOCKHEADITEMKEY_ENCRYPTALGO (stk BLOCKHEADITEMKEY_ENCRYPTALGO)
      in if r \<noteq> 0 then None else
     (let (r, finalsize) = dico_get_u32 d 0 BLOCKHEADITEMKEY_ARSIZE (stk BLOCKHEADITEMKEY_ARSIZE)
      in if r \<noteq> 0 then None else
     (let (r, compsize) = dico_get_u32 d 0 BLOCKHEADITEMKEY_COMPSIZE (stk BLOCKHEADITEMKEY_COMPSIZE)
      in if r \<noteq> 0 then None else
     (let (r, arcsum) = dico_get_u32 d 0 BLOCKHEADITEMKEY_ARCSUM (stk BLOCKHEADITEMKEY_ARCSUM)
      in if r \<noteq> 0 then None else
      Some (zero_blockinfo\<lparr>blkrealsize := curblocksize, blkoffset := blockoffset, blkarcsum := arcsum,
              blkcompalgo := calgo, blkcryptalgo := ealgo, blkarsize := finalsize,
              blkcompsize := compsize\<rparr>))))))))"

text \<open>The results are the return code, the reader, \<open>out_sumok\<close> (-1 unknown, 0 bad, 1 good) and the block.\<close>

definition archreader_read_block ::
    "malloc \<Rightarrow> (u16 \<Rightarrow> u8 list) \<Rightarrow> carchreader \<Rightarrow> cdico \<Rightarrow> bool \<Rightarrow> int \<times> carchreader \<times> int \<times> cblockinfo" where
  "archreader_read_block mem stk ai in_blkdico in_skipblock =
     (case read_blockinfo stk in_blkdico of
        None \<Rightarrow> (-1, ai, -1, zero_blockinfo)
      | Some info \<Rightarrow>
          (let finalsize = unat (blkarsize info)
           in if in_skipblock then (0, snd (sys_seek ai (int (apos ai) + int finalsize)), -1, zero_blockinfo)
              else if \<not> mem finalsize then (FSAERR_ENOMEM, ai, -1, zero_blockinfo)
              else
                (let (buffer, ai) = sys_read ai finalsize
                 in if length buffer \<noteq> finalsize then (-1, ai, -1, zero_blockinfo)
                    else if fletcher32 buffer \<noteq> blkarcsum info then
                      (if \<not> mem (unat (blkrealsize info)) then (FSAERR_ENOMEM, ai, -1, info)
                       else (0, snd (sys_seek ai (int (apos ai) - int finalsize)), 0,
                             info\<lparr>blkdata := replicate (unat (blkrealsize info)) 0\<rparr>))
                    else (0, ai, 1, info\<lparr>blkdata := buffer\<rparr>))))"

section \<open>Reading what was written\<close>

text \<open>The reader stands before \<open>bytes\<close>.\<close>

definition ahead :: "carchreader \<Rightarrow> u8 list" where
  "ahead ai = drop (apos ai) (afile ai)"

definition advance :: "nat \<Rightarrow> carchreader \<Rightarrow> carchreader" where
  "advance n ai = ai\<lparr>apos := apos ai + n\<rparr>"

lemma advance_simps [simp]:
  "afile (advance n ai) = afile ai" "apos (advance n ai) = apos ai + n"
  "archid (advance n ai) = archid ai" "filefmtver (advance n ai) = filefmtver ai"
  "advance m (advance n ai) = advance (n + m) ai" "advance 0 ai = ai"
  by (simp_all add: advance_def add.assoc)

lemma ahead_advance: "ahead (advance n ai) = drop n (ahead ai)"
  by (simp add: ahead_def add.commute)

lemma archreader_read_data_ok:
  "ahead ai = data @ rest \<Longrightarrow> length data = n \<Longrightarrow> archreader_read_data ai n = (0, data, advance n ai)"
  by (simp add: archreader_read_data_def sys_read_def ahead_def advance_def)

lemma archreader_read_data_short:
  "length (ahead ai) < n \<Longrightarrow> archreader_read_data ai n = (-1, ahead ai, advance (length (ahead ai)) ai)"
  by (simp add: archreader_read_data_def sys_read_def ahead_def advance_def)

lemma archreader_read_data_prefix:
  "n \<le> length (ahead ai) \<Longrightarrow> archreader_read_data ai n = (0, take n (ahead ai), advance n ai)"
  using archreader_read_data_ok [of ai "take n (ahead ai)" "drop n (ahead ai)"] by simp

lemma new_item_of_item:
  "item_wf item \<Longrightarrow>
   new_item (dsection item) (dkey item) (item_bytes item @ rest) (dsize item) (dtype item) = item"
  by (cases item) (auto simp: new_item_def item_wf_def item_bytes_def word_greater_zero_iff split: option.splits)

lemma list_of_two: "length xs = 2 \<Longrightarrow> \<exists>a b. xs = [a, b]"
  by (auto simp: numeral_2_eq_2 length_Suc_conv)

lemma item_head_fields:
  assumes "length kk = 2" and "length zz = 2"
  shows "\<not> length ([t] @ [s] @ kk @ zz @ rest) < 6" "([t] @ [s] @ kk @ zz @ rest) ! 0 = t"
    "([t] @ [s] @ kk @ zz @ rest) ! 1 = s" "take 2 (drop 2 ([t] @ [s] @ kk @ zz @ rest)) = kk"
    "take 2 (drop 4 ([t] @ [s] @ kk @ zz @ rest)) = zz" "drop 6 ([t] @ [s] @ kk @ zz @ rest) = rest"
  using list_of_two [OF assms(1)] list_of_two [OF assms(2)] by auto

lemma read_dico_items_step:
  assumes "length kk = 2" and "length zz = 2"
  shows "read_dico_items mem d ([t] @ [s] @ kk @ zz @ rest) (Suc n) =
    (let (r, d) = dico_add_generic mem d s (le16_to_cpu kk) rest (le16_to_cpu zz) t
     in if r \<noteq> 0 then Some (OLDERR_FATAL, d)
        else if length rest < unat (le16_to_cpu zz) then None
        else read_dico_items mem d (drop (unat (le16_to_cpu zz)) rest) n)"
  unfolding read_dico_items.simps Let_def item_head_fields [OF assms] using assms by simp

lemma read_dico_items_serialise:
  "distinct (dico_keys (d0 @ d)) \<Longrightarrow> \<forall>item \<in> set d. item_wf item \<Longrightarrow>
   read_dico_items mem_ok d0 (dico_serialise d @ rest) (length d) = Some (FSAERR_SUCCESS, d0 @ d)"
proof (induction d arbitrary: d0)
  case (Cons item d)
  have wf: "item_wf item" using Cons.prems by simp
  have bytes: "(if 0 < dsize item then item_bytes item else []) = item_bytes item"
    using item_wf_bytes [OF wf] by (auto simp: word_greater_zero_iff)
  have notin: "(dsection item, dkey item) \<notin> set (dico_keys d0)" using Cons.prems by auto
  have IH: "read_dico_items mem_ok (d0 @ [item]) (dico_serialise d @ rest) (length d)
      = Some (FSAERR_SUCCESS, d0 @ item # d)"
    using Cons.IH [of "d0 @ [item]"] Cons.prems by simp
  have ser: "dico_serialise (item # d) @ rest =
      [dtype item] @ [dsection item] @ cpu_to_le16 (dkey item) @ cpu_to_le16 (dsize item)
        @ (item_bytes item @ dico_serialise d @ rest)"
    by (simp add: bytes)
  show ?case
    unfolding ser list.size add_Suc_right add_0_right
      read_dico_items_step [OF le16.enc_len le16.enc_len] le16.dec_enc dico_add_generic_ok [OF notin]
    using IH item_wf_bytes [OF wf] by (simp add: new_item_of_item [OF wf])
qed simp

lemma parse_dico_payload:
  "dico_wf d \<Longrightarrow> length d < 65536 \<Longrightarrow> parse_dico mem_ok [] (dico_payload d) = Some (FSAERR_SUCCESS, d)"
  using read_dico_items_serialise [of "[]" d "[]"] unfolding dico_wf_def
  by (simp add: parse_dico_def dico_payload_def le16.take_enc le16.drop_enc unat_of_nat_u16)

lemma headerlen_ok:
  "filefmtver ai = 2 \<Longrightarrow> ahead ai = cpu_to_le32 v @ rest \<Longrightarrow>
   read_headerlen ai = (Some (unat v), advance 4 ai)"
  by (simp add: read_headerlen_def archreader_read_data_ok)

text \<open>One equation for a dictionary whose bytes are all there: the checksum decides whether they are
  parsed.\<close>

lemma archreader_read_dico_eq:
  assumes fmt: "filefmtver ai = 2"
    and bytes: "ahead ai = cpu_to_le32 (of_nat (length payload)) @ payload @ cpu_to_le32 csum @ rest"
    and small: "length payload < 2 ^ 32"
  shows "archreader_read_dico mem_ok ai d =
    (let ai' = advance (8 + length payload) ai
     in if fletcher32 payload \<noteq> csum then Some (OLDERR_MINOR, ai', d)
        else map_option (\<lambda>(r, d). (r, ai', d)) (parse_dico mem_ok d payload))"
proof -
  have n: "unat (of_nat (length payload) :: u32) = length payload"
    using small by (simp add: unsigned_of_nat take_bit_nat_eq_self)
  have a1: "ahead (advance 4 ai) = payload @ cpu_to_le32 csum @ rest"
    by (simp add: ahead_advance bytes)
  then have a2: "ahead (advance (length payload + 4) ai) = cpu_to_le32 csum @ rest"
    using ahead_advance [of "length payload" "advance 4 ai"] by (simp add: add.commute)
  show ?thesis
    unfolding archreader_read_dico_def headerlen_ok [OF fmt bytes] n
    by (simp add: archreader_read_data_ok [OF a1] archreader_read_data_ok [OF a2] Let_def add.commute)
qed

lemma archreader_read_dico_written:
  assumes "filefmtver ai = 2" and "ahead ai = dico_bytes d @ rest" and "dico_wf d" and "dico_small d"
  shows "archreader_read_dico mem_ok ai [] = Some (FSAERR_SUCCESS, advance (length (dico_bytes d)) ai, d)"
proof -
  have len: "length (dico_payload d) < 2 ^ 32"
    using assms(3,4) by (simp add: length_dico_payload dico_wf_def dico_small_def)
  have "ahead ai = cpu_to_le32 (of_nat (length (dico_payload d))) @ dico_payload d
      @ cpu_to_le32 (fletcher32 (dico_payload d)) @ rest"
    using assms(2) by (simp add: dico_bytes_def)
  from archreader_read_dico_eq [OF assms(1) this len] show ?thesis
    using assms(3,4) by (simp add: parse_dico_payload dico_small_def dico_bytes_def Let_def)
qed

section \<open>The search\<close>

lemma sys_seek_ok: "sys_seek ai (int n) = (int n, ai\<lparr>apos := n\<rparr>)"
  by (simp add: sys_seek_def)

definition at_pos :: "carchreader \<Rightarrow> nat \<Rightarrow> carchreader" where
  "at_pos ai n = ai\<lparr>apos := n\<rparr>"

lemma at_pos_simps [simp]:
  "ahead (at_pos ai n) = drop n (afile ai)" "afile (at_pos ai n) = afile ai" "apos (at_pos ai n) = n"
  "archid (at_pos ai n) = archid ai" "filefmtver (at_pos ai n) = filefmtver ai"
  "at_pos (at_pos ai m) n = at_pos ai n" "advance k (at_pos ai n) = at_pos ai (n + k)"
  by (simp_all add: at_pos_def ahead_def advance_def)

lemma header_search_found:
  "is_magic_valid magic \<Longrightarrow> header_search ai curpos magic = (FSAERR_SUCCESS, ai, magic)"
  by (simp add: header_search.simps)

lemma header_search_step:
  "\<not> is_magic_valid magic \<Longrightarrow> curpos + 4 \<le> length (afile ai) \<Longrightarrow>
   header_search ai curpos magic =
     header_search (at_pos ai (curpos + 4)) (curpos + 1) (take 4 (drop curpos (afile ai)))"
  using archreader_read_data_prefix [of 4 "at_pos ai curpos"]
  by (subst header_search.simps) (simp add: sys_seek_ok FSA_SIZEOF_MAGIC_def at_pos_def [symmetric])

lemma header_search_end:
  "\<not> is_magic_valid magic \<Longrightarrow> length (afile ai) < curpos + 4 \<Longrightarrow>
   fst (header_search ai curpos magic) = OLDERR_FATAL"
  using archreader_read_data_short [of "at_pos ai curpos" 4]
  by (subst header_search.simps) (simp add: sys_seek_ok FSA_SIZEOF_MAGIC_def at_pos_def [symmetric])

text \<open>The search finds the first position at which a valid magic stands.\<close>

lemma header_search_first:
  assumes "\<not> is_magic_valid magic" and "curpos \<le> p" and "p + 4 \<le> length (afile ai)"
    and "is_magic_valid (take 4 (drop p (afile ai)))"
    and "\<And>q. curpos \<le> q \<Longrightarrow> q < p \<Longrightarrow> \<not> is_magic_valid (take 4 (drop q (afile ai)))"
  shows "header_search ai curpos magic = (FSAERR_SUCCESS, at_pos ai (p + 4), take 4 (drop p (afile ai)))"
  using assms
proof (induction "p - curpos" arbitrary: ai curpos magic)
  case 0
  then have "p = curpos" by simp
  then show ?case using 0 by (simp add: header_search_step header_search_found)
next
  case (Suc n)
  have "header_search (at_pos ai (curpos + 4)) (curpos + 1) (take 4 (drop curpos (afile ai)))
      = (FSAERR_SUCCESS, at_pos (at_pos ai (curpos + 4)) (p + 4), take 4 (drop p (afile (at_pos ai (curpos + 4)))))"
    using Suc.prems Suc.hyps(2) by (intro Suc.hyps(1)) auto
  then show ?case using Suc.prems by (simp add: header_search_step)
qed

lemma read_at_pos:
  "drop n (afile ai) = data @ rest \<Longrightarrow> length data = k \<Longrightarrow>
   archreader_read_data (at_pos ai n) k = (0, data, at_pos ai (n + k))"
  using archreader_read_data_ok [of "at_pos ai n" data rest k] by simp

lemma archreader_read_header_found:
  assumes "4 \<le> length (ahead ai)" and "allowseek \<or> is_magic_valid (take 4 (ahead ai))"
    and "header_search (advance 4 ai) (apos ai) (take 4 (ahead ai)) = (FSAERR_SUCCESS, ai', magic)"
  shows "archreader_read_header mem_ok ai allowseek = read_after_magic mem_ok ai' magic []"
proof -
  have m: "memcpy (replicate 4 0) (take 4 (ahead ai)) = take 4 (ahead ai)"
    using assms(1) by (simp add: memcpy_full)
  show ?thesis
    using assms(2,3) archreader_read_data_prefix [OF assms(1)]
    unfolding archreader_read_header_def dico_alloc_def FSA_SIZEOF_MAGIC_def
    by (auto simp: m Let_def FSAERR_SUCCESS_def)
qed

lemma read_after_magic_ok:
  assumes "filefmtver ai = 2" and "archid ai = 0 \<or> archid ai = ident"
    and "drop n (afile ai) = cpu_to_le32 ident @ cpu_to_le16 fsid @ dico_bytes d @ rest"
    and "dico_wf d" and "dico_small d"
  shows "read_after_magic mem_ok (at_pos ai n) magic [] =
    Some (FSAERR_SUCCESS, at_pos ai (n + 6 + length (dico_bytes d)), magic, d, fsid)"
proof -
  have d1: "drop (n + 4) (afile ai) = cpu_to_le16 fsid @ dico_bytes d @ rest"
    using arg_cong [OF assms(3), of "drop 4"] by (simp add: add.commute)
  have d2: "drop (n + 6) (afile ai) = dico_bytes d @ rest"
    using arg_cong [OF d1, of "drop 2"] by (simp add: add.commute)
  have "archreader_read_dico mem_ok (at_pos ai (n + 6)) [] =
      Some (FSAERR_SUCCESS, at_pos ai (n + 6 + length (dico_bytes d)), d)"
    using archreader_read_dico_written [of "at_pos ai (n + 6)" d rest] assms(1,4,5) d2 by simp
  then show ?thesis
    using assms(2)
    by (auto simp: read_after_magic_def Let_def read_at_pos [OF assms(3)] read_at_pos [OF d1] add.assoc add.commute [of 6 n])
qed

lemma length_header_bytes: "length magic = 4 \<Longrightarrow> length (header_bytes magic ident fsid d) = 10 + length (dico_bytes d)"
  by (simp add: header_bytes_def)

lemma archreader_read_header_resync:
  assumes content: "ahead ai = junk @ header_bytes magic ident fsid d @ rest"
    and fmt: "filefmtver ai = 2" and ids: "archid ai = 0 \<or> archid ai = ident"
    and magic: "magic \<in> set valid_magic" and d: "dico_wf d" "dico_small d"
    and junk: "\<And>q. q < length junk \<Longrightarrow> \<not> is_magic_valid (take 4 (drop q (junk @ magic)))"
    and seek: "allowseek \<or> junk = []"
  shows "archreader_read_header mem_ok ai allowseek =
    Some (FSAERR_SUCCESS, advance (length junk + length (header_bytes magic ident fsid d)) ai, magic, d, fsid)"
proof -
  have len: "length magic = 4" using magic by (auto simp: valid_magic_def)
  let ?p = "apos ai + length junk" and ?tail = "cpu_to_le32 ident @ cpu_to_le16 fsid @ dico_bytes d @ rest"
  have afile: "drop (apos ai) (afile ai) = junk @ magic @ ?tail"
    using content by (simp add: ahead_def header_bytes_def)
  then have dq: "drop (apos ai + q) (afile ai) = drop q (junk @ magic @ ?tail)" for q
    by (metis add.commute drop_drop)
  have take4: "take 4 (drop (apos ai + q) (afile ai)) = take 4 (drop q (junk @ magic))" if "q \<le> length junk" for q
    unfolding dq using that len by simp
  have at_p: "take 4 (drop ?p (afile ai)) = magic"
    using take4 [of "length junk"] len by simp
  have valid: "is_magic_valid magic" using magic len by (simp add: is_magic_valid_iff FSA_SIZEOF_MAGIC_def)
  have plen: "?p + 4 \<le> length (afile ai)"
  proof -
    have "length (drop ?p (afile ai)) \<ge> 4" unfolding dq using len by simp
    then show ?thesis by simp
  qed
  have ahead4: "take 4 (ahead ai) = take 4 (junk @ magic)" using take4 [of 0] by (simp add: ahead_def)
  have search: "header_search (advance 4 ai) (apos ai) (take 4 (ahead ai)) = (FSAERR_SUCCESS, at_pos ai (?p + 4), magic)"
  proof (cases "junk = []")
    case True
    then have m: "take 4 (ahead ai) = magic" using ahead4 len by simp
    show ?thesis unfolding m using valid True by (simp add: header_search_found advance_def at_pos_def)
  next
    case False
    have "\<not> is_magic_valid (take 4 (ahead ai))" using junk [of 0] False ahead4 by simp
    moreover have "\<not> is_magic_valid (take 4 (drop q (afile (advance 4 ai))))" if "apos ai \<le> q" "q < ?p" for q
      using that junk [of "q - apos ai"] take4 [of "q - apos ai"] by simp
    ultimately have "header_search (advance 4 ai) (apos ai) (take 4 (ahead ai)) =
        (FSAERR_SUCCESS, at_pos (advance 4 ai) (?p + 4), take 4 (drop ?p (afile (advance 4 ai))))"
      using valid at_p plen by (intro header_search_first) auto
    then show ?thesis using at_p by (simp add: at_pos_def advance_def)
  qed
  have tail: "drop (?p + 4) (afile ai) = ?tail"
    using dq [of "length junk + 4"] len by (simp add: add.assoc)
  have "4 \<le> length (ahead ai)" using content len by (simp add: header_bytes_def)
  moreover have "allowseek \<or> is_magic_valid (take 4 (ahead ai))"
    using seek valid len unfolding ahead4 by auto
  ultimately have "archreader_read_header mem_ok ai allowseek = read_after_magic mem_ok (at_pos ai (?p + 4)) magic []"
    using search by (intro archreader_read_header_found)
  also have "\<dots> = Some (FSAERR_SUCCESS, at_pos ai (?p + 4 + 6 + length (dico_bytes d)), magic, d, fsid)"
    by (rule read_after_magic_ok [OF fmt ids tail d])
  finally show ?thesis
    by (simp add: length_header_bytes [OF len] advance_def at_pos_def add.assoc)
qed

section \<open>Blocks that were written\<close>

text \<open>The stack variables have the size of their types.\<close>

definition stk_ok :: "(u16 \<Rightarrow> u8 list) \<Rightarrow> bool" where
  "stk_ok stk \<longleftrightarrow>
     length (stk BLOCKHEADITEMKEY_BLOCKOFFSET) = 8 \<and> length (stk BLOCKHEADITEMKEY_REALSIZE) = 4 \<and>
     length (stk BLOCKHEADITEMKEY_COMPRESSALGO) = 2 \<and> length (stk BLOCKHEADITEMKEY_ENCRYPTALGO) = 2 \<and>
     length (stk BLOCKHEADITEMKEY_ARSIZE) = 4 \<and> length (stk BLOCKHEADITEMKEY_COMPSIZE) = 4 \<and>
     length (stk BLOCKHEADITEMKEY_ARCSUM) = 4"

definition block_info_of :: "cblockinfo \<Rightarrow> cblockinfo" where
  "block_info_of b = b\<lparr>blkdata := [], blkfsid := 0, blklocked := False\<rparr>"

lemma read_blockinfo_written:
  assumes "stk_ok stk" and "unat (blkrealsize b) \<le> FSA_MAX_BLKSIZE"
  shows "read_blockinfo stk (block_items b) = Some (block_info_of b)"
  using assms
  by (simp add: read_blockinfo_def block_items_def dico_get_u16_def dico_get_u32_def dico_get_u64_def
      dico_get_data_item new_item_def fsa_const stk_ok_def memcpy_full Let_def block_info_of_def
      zero_blockinfo_def)

lemma archreader_read_block_eq:
  assumes "stk_ok stk" and "unat (blkrealsize b) \<le> FSA_MAX_BLKSIZE"
    and bytes: "ahead ai = data @ rest" and len: "length data = unat (blkarsize b)"
  shows "archreader_read_block mem_ok stk ai (block_items b) False =
    (if fletcher32 data \<noteq> blkarcsum b
     then (0, ai, 0, (block_info_of b)\<lparr>blkdata := replicate (unat (blkrealsize b)) 0\<rparr>)
     else (0, advance (length data) ai, 1, (block_info_of b)\<lparr>blkdata := data\<rparr>))"
proof -
  have r: "sys_read ai (unat (blkarsize b)) = (data, advance (length data) ai)"
    using bytes len by (simp add: sys_read_def ahead_def advance_def)
  have "sys_seek (advance (length data) ai) (int (apos (advance (length data) ai)) - int (unat (blkarsize b)))
      = (int (apos ai), ai)"
    using len by (simp add: sys_seek_def advance_def)
  then show ?thesis
    using len by (simp add: archreader_read_block_def read_blockinfo_written [OF assms(1,2)] block_info_of_def r)
qed

section \<open>Properties\<close>

text \<open>C21: what writebuf_add_header lays out, archreader_read_header reads back, entry by entry and in the
  same order. When the bytes before it are damaged the reader passes over them and stops at the first
  valid magic, so a header is found again after a corruption.\<close>

theorem header_write_read:
  assumes "magic \<in> set valid_magic" and "dico_wf d" and "dico_small d"
    and "ahead ai = junk @ wdata (snd (writebuf_add_header mem_ok (wb_of []) d magic ident fsid)) @ rest"
    and "filefmtver ai = 2" and "archid ai = 0 \<or> archid ai = ident"
    and "\<And>q. q < length junk \<Longrightarrow> \<not> is_magic_valid (take 4 (drop q (junk @ magic)))"
    and "allowseek \<or> junk = []"
  shows "\<exists>n. fst (writebuf_add_header mem_ok (wb_of []) d magic ident fsid) = 0 \<and>
    archreader_read_header mem_ok ai allowseek = Some (FSAERR_SUCCESS, advance n ai, magic, d, fsid) \<and>
    ahead (advance n ai) = rest"
proof -
  have "length magic = 4" using assms(1) by (auto simp: valid_magic_def)
  then have w: "writebuf_add_header mem_ok (wb_of []) d magic ident fsid =
      (0, wb_of (header_bytes magic ident fsid d))"
    using assms(2,3) by (simp add: writebuf_add_header_ok dico_wf_def)
  then have "ahead ai = junk @ header_bytes magic ident fsid d @ rest" using assms(4) by simp
  with archreader_read_header_resync [OF this assms(5,6,1,2,3,7,8)] show ?thesis
    using w by (auto simp: ahead_advance)
qed

definition demo_reader :: "u8 list \<Rightarrow> carchreader" where
  "demo_reader bytes = archreader_init\<lparr>afile := bytes, filefmtver := 2\<rparr>"

lemma header_write_read_witness:
  "\<exists>n. fst (writebuf_add_header mem_ok (wb_of []) (block_items zero_blockinfo) FSA_MAGIC_BLKH 7 0) = 0 \<and>
    archreader_read_header mem_ok (demo_reader ([1, 2] @ wdata (snd (writebuf_add_header mem_ok (wb_of [])
       (block_items zero_blockinfo) FSA_MAGIC_BLKH 7 0)) @ [9])) True =
      Some (FSAERR_SUCCESS, advance n (demo_reader ([1, 2] @ wdata (snd (writebuf_add_header mem_ok (wb_of [])
       (block_items zero_blockinfo) FSA_MAGIC_BLKH 7 0)) @ [9])), FSA_MAGIC_BLKH, block_items zero_blockinfo, 0) \<and>
    ahead (advance n (demo_reader ([1, 2] @ wdata (snd (writebuf_add_header mem_ok (wb_of [])
       (block_items zero_blockinfo) FSA_MAGIC_BLKH 7 0)) @ [9]))) = [9]"
proof (rule header_write_read [OF _ block_items_wf block_items_small])
  fix q :: nat assume "q < length [1, 2 :: u8]"
  then consider "q = 0" | "q = 1" by fastforce
  then show "\<not> is_magic_valid (take 4 (drop q ([1, 2] @ FSA_MAGIC_BLKH)))"
    by cases (simp_all add: is_magic_valid_iff FSA_SIZEOF_MAGIC_def valid_magic_def magic_defs bytes_of_string_def)
qed (simp_all add: demo_reader_def archreader_init_def ahead_def)

text \<open>C33: when one byte of the stored entries of a dictionary was changed, the reader reports a minor error,
  adds nothing to the dictionary, and stands behind the header, so the next one can be read.\<close>

theorem corrupt_dico_is_minor:
  assumes "filefmtver ai = 2" and "dico_payload d = xs @ a # ys" and "b \<noteq> a"
    and "ahead ai = cpu_to_le32 (of_nat (length (dico_payload d))) @ (xs @ b # ys)
      @ cpu_to_le32 (fletcher32 (dico_payload d)) @ rest"
    and "length (dico_payload d) < 2 ^ 32"
  shows "archreader_read_dico mem_ok ai d0 = Some (OLDERR_MINOR, advance (8 + length (dico_payload d)) ai, d0) \<and>
    ahead (advance (8 + length (dico_payload d)) ai) = rest"
proof -
  have len: "length (xs @ b # ys) = length (dico_payload d)" by (simp add: assms(2))
  have bad: "fletcher32 (xs @ b # ys) \<noteq> fletcher32 (dico_payload d)"
    unfolding assms(2) using assms(3) by (simp add: fletcher32_byte_eq)
  have "ahead ai = cpu_to_le32 (of_nat (length (xs @ b # ys))) @ (xs @ b # ys)
      @ cpu_to_le32 (fletcher32 (dico_payload d)) @ rest"
    unfolding len by (rule assms(4))
  from archreader_read_dico_eq [OF assms(1) this, of d0]
  have "archreader_read_dico mem_ok ai d0 = Some (OLDERR_MINOR, advance (8 + length (dico_payload d)) ai, d0)"
    using assms(5) bad unfolding len by (simp add: Let_def)
  moreover have "ahead ai = (cpu_to_le32 (of_nat (length (dico_payload d))) @ (xs @ b # ys)
      @ cpu_to_le32 (fletcher32 (dico_payload d))) @ rest"
    using assms(4) by simp
  moreover have "length (cpu_to_le32 (of_nat (length (dico_payload d))) @ (xs @ b # ys)
      @ cpu_to_le32 (fletcher32 (dico_payload d))) = 8 + length (dico_payload d)"
    using len by simp
  ultimately show ?thesis by (metis ahead_advance append_eq_conv_conj)
qed

lemma corrupt_dico_is_minor_witness:
  "archreader_read_dico mem_ok (demo_reader (cpu_to_le32 2 @ [1, 0] @ cpu_to_le32 (fletcher32 [0, 0]) @ [5])) [] =
     Some (OLDERR_MINOR, advance (8 + length (dico_payload []))
       (demo_reader (cpu_to_le32 2 @ [1, 0] @ cpu_to_le32 (fletcher32 [0, 0]) @ [5])), []) \<and>
   ahead (advance (8 + length (dico_payload []))
       (demo_reader (cpu_to_le32 2 @ [1, 0] @ cpu_to_le32 (fletcher32 [0, 0]) @ [5]))) = [5]"
proof -
  have p: "dico_payload [] = [0, 0]" by (simp add: dico_payload_def cpu_to_le16_def numeral_2_eq_2)
  show ?thesis
    by (rule corrupt_dico_is_minor [where xs = "[]" and ys = "[0]" and a = 0 and b = 1])
      (simp_all add: demo_reader_def archreader_init_def ahead_def p)
qed

text \<open>C22: a block written by writebuf_add_block is read back by archreader_read_header and
  archreader_read_block: the same data and fields, and the checksum is reported good, provided the
  block's stored checksum is the one of its data.\<close>

theorem block_write_read:
  assumes "length (blkdata b) = unat (blkarsize b)" and "blkarsize b \<noteq> 0"
    and "unat (blkrealsize b) \<le> FSA_MAX_BLKSIZE" and "blkarcsum b = fletcher32 (blkdata b)"
    and "ahead ai = wdata (snd (writebuf_add_block mem_ok (wb_of []) b ident fsid)) @ rest"
    and "filefmtver ai = 2" and "archid ai = 0 \<or> archid ai = ident" and "stk_ok stk"
  shows "\<exists>m n. archreader_read_header mem_ok ai allowseek =
      Some (FSAERR_SUCCESS, advance m ai, FSA_MAGIC_BLKH, block_items b, fsid) \<and>
    archreader_read_block mem_ok stk (advance m ai) (block_items b) False =
      (0, advance n ai, 1, b\<lparr>blkfsid := 0, blklocked := False\<rparr>) \<and>
    ahead (advance n ai) = rest"
proof -
  let ?h = "header_bytes FSA_MAGIC_BLKH ident fsid (block_items b)"
  have bytes: "ahead ai = [] @ ?h @ (blkdata b @ rest)"
    using assms(5) by (simp add: writebuf_add_block_ok [OF assms(1,2)] block_bytes_def)
  have h: "archreader_read_header mem_ok ai allowseek =
      Some (FSAERR_SUCCESS, advance (length ?h) ai, FSA_MAGIC_BLKH, block_items b, fsid)"
    using archreader_read_header_resync [OF bytes assms(6,7) _ block_items_wf block_items_small] by simp
  have "ahead (advance (length ?h) ai) = blkdata b @ rest" by (simp add: ahead_advance bytes)
  from archreader_read_block_eq [OF assms(8,3) this assms(1)] h show ?thesis
    using assms(4)
    by (intro exI [of _ "length ?h"] exI [of _ "length ?h + length (blkdata b)"])
      (simp add: block_info_of_def ahead_advance bytes)
qed

definition demo_block :: cblockinfo where
  "demo_block = zero_blockinfo\<lparr>blkdata := [1, 2, 3], blkarsize := 3, blkrealsize := 3,
     blkarcsum := fletcher32 [1, 2, 3]\<rparr>"

definition demo_stk :: "u16 \<Rightarrow> u8 list" where
  "demo_stk k = replicate (if k = BLOCKHEADITEMKEY_BLOCKOFFSET then 8
     else if k = BLOCKHEADITEMKEY_COMPRESSALGO \<or> k = BLOCKHEADITEMKEY_ENCRYPTALGO then 2 else 4) 0"

lemma demo_stk_ok: "stk_ok demo_stk"
  by (simp add: stk_ok_def demo_stk_def fsa_const)

lemma block_write_read_witness:
  "\<exists>m n. archreader_read_header mem_ok (demo_reader (block_bytes demo_block 7 0)) False =
      Some (FSAERR_SUCCESS, advance m (demo_reader (block_bytes demo_block 7 0)), FSA_MAGIC_BLKH, block_items demo_block, 0) \<and>
    archreader_read_block mem_ok demo_stk (advance m (demo_reader (block_bytes demo_block 7 0))) (block_items demo_block) False =
      (0, advance n (demo_reader (block_bytes demo_block 7 0)), 1, demo_block\<lparr>blkfsid := 0, blklocked := False\<rparr>) \<and>
    ahead (advance n (demo_reader (block_bytes demo_block 7 0))) = []"
proof (rule block_write_read [OF _ _ _ _ _ _ _ demo_stk_ok])
  have "writebuf_add_block mem_ok (wb_of []) demo_block 7 0 = (0, wb_of ([] @ block_bytes demo_block 7 0))"
    by (rule writebuf_add_block_ok) (simp_all add: demo_block_def)
  then show "ahead (demo_reader (block_bytes demo_block 7 0)) =
      wdata (snd (writebuf_add_block mem_ok (wb_of []) demo_block 7 0)) @ []"
    by (simp add: demo_reader_def archreader_init_def ahead_def)
qed (simp_all add: demo_block_def zero_blockinfo_def demo_reader_def archreader_init_def FSA_MAX_BLKSIZE_def)

text \<open>C34: a block with one damaged byte is reported as bad, is replaced by zero bytes of the block's real
  size, and the reader goes back to the beginning of the data so that the next header is searched there.\<close>

theorem corrupt_block_zeroed:
  assumes "blkarcsum b = fletcher32 (xs @ a # ys)" and "c \<noteq> a"
    and "length (xs @ a # ys) = unat (blkarsize b)" and "unat (blkrealsize b) \<le> FSA_MAX_BLKSIZE"
    and "ahead ai = (xs @ c # ys) @ rest" and "stk_ok stk"
  shows "archreader_read_block mem_ok stk ai (block_items b) False =
    (0, ai, 0, b\<lparr>blkdata := replicate (unat (blkrealsize b)) 0, blkfsid := 0, blklocked := False\<rparr>)"
proof -
  have bad: "fletcher32 (xs @ c # ys) \<noteq> blkarcsum b"
    unfolding assms(1) using assms(2) by (simp add: fletcher32_byte_eq)
  have "length (xs @ c # ys) = unat (blkarsize b)" using assms(3) by simp
  from archreader_read_block_eq [OF assms(6,4,5) this] show ?thesis
    using bad by (simp add: block_info_of_def)
qed

lemma corrupt_block_zeroed_witness:
  "archreader_read_block mem_ok demo_stk (demo_reader [1, 9, 3, 4]) (block_items demo_block) False =
    (0, demo_reader [1, 9, 3, 4], 0,
     demo_block\<lparr>blkdata := replicate (unat (blkrealsize demo_block)) 0, blkfsid := 0, blklocked := False\<rparr>)"
  by (rule corrupt_block_zeroed [where xs = "[1]" and a = 2 and c = 9 and ys = "[3]" and rest = "[4]",
        OF _ _ _ _ _ demo_stk_ok])
    (simp_all add: demo_block_def FSA_MAX_BLKSIZE_def demo_reader_def archreader_init_def ahead_def)

lemma read_dico_items_overrun:
  "distinct (dico_keys (d0 @ d)) \<Longrightarrow> \<forall>item \<in> set d. item_wf item \<Longrightarrow> length tail < 6 \<Longrightarrow>
   read_dico_items mem_ok d0 (dico_serialise d @ tail) (length d + Suc k) = None"
proof (induction d arbitrary: d0)
  case (Cons item d)
  have wf: "item_wf item" using Cons.prems by simp
  have bytes: "(if 0 < dsize item then item_bytes item else []) = item_bytes item"
    using item_wf_bytes [OF wf] by (auto simp: word_greater_zero_iff)
  have notin: "(dsection item, dkey item) \<notin> set (dico_keys d0)" using Cons.prems by auto
  have IH: "read_dico_items mem_ok (d0 @ [item]) (dico_serialise d @ tail) (length d + Suc k) = None"
    using Cons.IH [of "d0 @ [item]"] Cons.prems by simp
  have ser: "dico_serialise (item # d) @ tail =
      [dtype item] @ [dsection item] @ cpu_to_le16 (dkey item) @ cpu_to_le16 (dsize item)
        @ (item_bytes item @ dico_serialise d @ tail)"
    by (simp add: bytes)
  have n: "length (item # d) + Suc k = Suc (length d + Suc k)" by simp
  show ?case
    unfolding ser n read_dico_items_step [OF le16.enc_len le16.enc_len] le16.dec_enc dico_add_generic_ok [OF notin]
    using IH item_wf_bytes [OF wf] by (simp add: new_item_of_item [OF wf])
qed simp

text \<open>C35: the reader of a dictionary trusts the item count. When the bytes of a header hold proper items with different
  keys and fewer than six bytes more, which is no item, a count above the number of these items makes it read behind
  the end of its buffer, although the checksum is good.\<close>

theorem dico_count_overrun:
  assumes "dico_wf items" and "length items < n" and "n < 65536" and "length tail < 6" and "filefmtver ai = 2"
    and "payload = cpu_to_le16 (of_nat n) @ dico_serialise items @ tail" and "length payload < 2 ^ 32"
    and "ahead ai = cpu_to_le32 (of_nat (length payload)) @ payload @ cpu_to_le32 (fletcher32 payload) @ rest"
  shows "archreader_read_dico mem_ok ai [] = None"
proof -
  obtain k where n: "n = length items + Suc k" using assms(2) less_imp_Suc_add by auto
  have "parse_dico mem_ok [] payload = read_dico_items mem_ok [] (dico_serialise items @ tail) n"
    using assms(3) by (simp add: parse_dico_def assms(6) le16.take_enc le16.drop_enc unat_of_nat_u16)
  also have "\<dots> = None"
    using read_dico_items_overrun [of "[]" items tail k] assms(1,4) by (simp add: n dico_wf_def)
  finally show ?thesis using archreader_read_dico_eq [OF assms(5,8,7), of "[]"] by (simp add: Let_def)
qed

definition demo_overrun :: "u8 list" where
  "demo_overrun = cpu_to_le16 (of_nat 2) @ dico_serialise [new_item 0 6 (cpu_to_le16 513) 2 DICTYPE_U16] @ [0]"

lemma dico_count_overrun_witness:
  "archreader_read_dico mem_ok (demo_reader (cpu_to_le32 (of_nat (length demo_overrun)) @ demo_overrun
     @ cpu_to_le32 (fletcher32 demo_overrun) @ [])) [] = None"
proof (rule dico_count_overrun [where n = 2 and tail = "[0]"])
  show "demo_overrun = cpu_to_le16 (of_nat 2) @ dico_serialise [new_item 0 6 (cpu_to_le16 513) 2 DICTYPE_U16] @ [0]"
    by (rule demo_overrun_def)
qed (simp_all add: demo_reader_def archreader_init_def ahead_def dico_wf_def new_item_wf new_item_bytes demo_overrun_def)

end
