(* ===== verification/Options.thy ===== *)
theory Options
  imports Strlist
begin

text \<open>options.c and options.h: the options of the command line and the table of compression levels. Which
  compression libraries the program was built with is a parameter.\<close>

record coptions =
  opt_overwrite :: bool
  allowsaverw :: bool
  experimental :: bool
  dontcheckmountopts :: bool
  verboselevel :: int
  debuglevel :: int
  compresslevel :: int
  compressjobs :: int
  compressalgo :: u16
  datablocksize :: u32
  smallfilethresh :: u32
  splitsize :: u64
  encryptalgo :: u16
  fsacomplevel :: u16
  archlabel :: string
  encryptpass :: string
  exclude :: cstrlist

definition options_zero :: coptions where
  "options_zero =
     \<lparr>opt_overwrite = False, allowsaverw = False, experimental = False, dontcheckmountopts = False,
      verboselevel = 0, debuglevel = 0, compresslevel = 0, compressjobs = 0, compressalgo = 0,
      datablocksize = 0, smallfilethresh = 0, splitsize = 0, encryptalgo = 0, fsacomplevel = 0,
      archlabel = [], encryptpass = [], exclude = []\<rparr>"

definition options_init :: "int \<times> coptions" where
  "options_init =
     (let (r, l) = strlist_init in if r \<noteq> 0 then (-1, options_zero) else (0, options_zero\<lparr>exclude := l\<rparr>))"

definition options_destroy :: "coptions \<Rightarrow> int \<times> coptions" where
  "options_destroy opt =
     (let (r, l) = strlist_destroy (exclude opt) in if r \<noteq> 0 then (-1, opt) else (0, options_zero))"

text \<open>The libraries that were found when the program was built.\<close>

record build =
  has_lzo :: bool
  has_lzma :: bool
  has_lz4 :: bool
  has_zstd :: bool

definition options_select_compress_level :: "build \<Rightarrow> coptions \<Rightarrow> int \<Rightarrow> int \<times> coptions" where
  "options_select_compress_level bld opt level =
     (if level = 0 then
        (if has_lz4 bld then (0, opt\<lparr>compressalgo := COMPRESS_LZ4\<rparr>) else (-1, opt))
      else if level = 1 then
        (if has_lzo bld then (0, opt\<lparr>compressalgo := COMPRESS_LZO, compresslevel := 3\<rparr>) else (-1, opt))
      else if level = 2 then (0, opt\<lparr>compressalgo := COMPRESS_GZIP, compresslevel := 3\<rparr>)
      else if level = 3 then (0, opt\<lparr>compressalgo := COMPRESS_GZIP, compresslevel := 6\<rparr>)
      else if level = 4 then (0, opt\<lparr>compressalgo := COMPRESS_GZIP, compresslevel := 9\<rparr>)
      else if level = 5 then
        (0, opt\<lparr>compressalgo := COMPRESS_BZIP2, datablocksize := 262144, compresslevel := 2\<rparr>)
      else if level = 6 then
        (0, opt\<lparr>compressalgo := COMPRESS_BZIP2, datablocksize := 524288, compresslevel := 5\<rparr>)
      else if level = 7 then
        (if has_lzma bld
         then (0, opt\<lparr>compressalgo := COMPRESS_LZMA, datablocksize := 262144, compresslevel := 1\<rparr>) else (-1, opt))
      else if level = 8 then
        (if has_lzma bld
         then (0, opt\<lparr>compressalgo := COMPRESS_LZMA, datablocksize := 524288, compresslevel := 6\<rparr>) else (-1, opt))
      else if level = 9 then
        (if has_lzma bld
         then (0, opt\<lparr>compressalgo := COMPRESS_LZMA, datablocksize := of_nat FSA_MAX_BLKSIZE, compresslevel := 9\<rparr>)
         else (-1, opt))
      else (-1, opt))"

text \<open>The default algorithm of fsarchiver.h.\<close>

definition FSA_DEF_COMPRESS_ALGO :: "build \<Rightarrow> u16" where
  "FSA_DEF_COMPRESS_ALGO bld = (if has_zstd bld then COMPRESS_ZSTD else COMPRESS_GZIP)"

definition FSA_DEF_COMPRESS_LEVEL :: "build \<Rightarrow> int" where
  "FSA_DEF_COMPRESS_LEVEL bld = (if has_zstd bld then 8 else 6)"

text \<open>the levels that are accepted are those from 0 to 9 whose library is there; a level that is
  refused leaves the options as they were, and an accepted one never makes the data blocks larger than
  the limit and changes nothing but the algorithm, its level and the block size.\<close>

theorem compress_levels:
  assumes "unat (datablocksize opt) \<le> FSA_MAX_BLKSIZE"
  shows "(fst (options_select_compress_level bld opt level) = 0 \<longleftrightarrow>
      level \<in> {2..6} \<or> level = 0 \<and> has_lz4 bld \<or> level = 1 \<and> has_lzo bld \<or> level \<in> {7..9} \<and> has_lzma bld) \<and>
    (fst (options_select_compress_level bld opt level) \<noteq> 0 \<longrightarrow>
      snd (options_select_compress_level bld opt level) = opt) \<and>
    unat (datablocksize (snd (options_select_compress_level bld opt level))) \<le> FSA_MAX_BLKSIZE \<and>
    exclude (snd (options_select_compress_level bld opt level)) = exclude opt \<and>
    splitsize (snd (options_select_compress_level bld opt level)) = splitsize opt \<and>
    encryptalgo (snd (options_select_compress_level bld opt level)) = encryptalgo opt"
proof -
  have "(level < 0 \<or> 9 < level) \<or> level = 0 \<or> level = 1 \<or> level = 2 \<or> level = 3 \<or> level = 4
      \<or> level = 5 \<or> level = 6 \<or> level = 7 \<or> level = 8 \<or> level = 9"
    by presburger
  then show ?thesis
    using assms by (elim disjE) (auto simp: options_select_compress_level_def FSA_MAX_BLKSIZE_def)
qed

lemma compress_levels_witness:
  "fst (options_select_compress_level \<lparr>has_lzo = True, has_lzma = True, has_lz4 = False, has_zstd = True\<rparr>
     options_zero 9) = 0"
  using compress_levels [of options_zero "\<lparr>has_lzo = True, has_lzma = True, has_lz4 = False, has_zstd = True\<rparr>" 9]
  by (simp add: options_zero_def)

end
