(* ===== verification/Archwriter.thy ===== *)
theory Archwriter
  imports Archreader Options
begin

text \<open>archwriter.c: writing the volumes of an archive. The disk maps paths to the bytes of regular files;
  the open volume is the path that was opened, and writing appends to it. What the operating system
  answers is the record \<open>wenv\<close>: \<open>e_write\<close> is the return value of write for a path, the offset and the
  number of bytes, \<open>e_special\<close> says that a path exists and is not a regular file.\<close>

section \<open>State\<close>

type_synonym disk = "string \<Rightarrow> u8 list option"

text \<open>The struct without its fields filefmt, creatver and label, which no function of archwriter.c uses;
  \<open>w_fdpath\<close> is the file behind the descriptor.\<close>

record carchwriter =
  w_archfd :: int
  w_archid :: u32
  w_curvol :: u32
  w_newarch :: bool
  w_basepath :: string
  w_volpath :: string
  w_vollist :: cstrlist
  w_fdpath :: string

record wenv =
  e_mem :: malloc
  e_realpath :: "string \<Rightarrow> string option"
  e_special :: "string \<Rightarrow> bool"
  e_open :: "string \<Rightarrow> int"
  e_write :: "string \<Rightarrow> nat \<Rightarrow> nat \<Rightarrow> int"
  e_unlink :: "string \<Rightarrow> bool"

definition FSA_VERSION :: string where
  "FSA_VERSION = ''0.8.10-git''"

section \<open>Operations\<close>

definition archwriter_init :: carchwriter where
  "archwriter_init =
     \<lparr>w_archfd = -1, w_archid = 0, w_curvol = 0, w_newarch = False, w_basepath = [], w_volpath = [],
      w_vollist = snd strlist_init, w_fdpath = []\<rparr>"

definition archwriter_destroy :: "carchwriter \<Rightarrow> int \<times> carchwriter" where
  "archwriter_destroy ai = (0, ai\<lparr>w_vollist := snd (strlist_destroy (w_vollist ai))\<rparr>)"

definition archwriter_generate_id :: "(u64 \<times> u64) list \<Rightarrow> carchwriter \<Rightarrow> (int \<times> carchwriter) option" where
  "archwriter_generate_id clock ai =
     map_option (\<lambda>ident. (0, ai\<lparr>w_archid := ident\<rparr>)) (generate_random_u32_id clock)"

definition archwriter_create :: "wenv \<Rightarrow> coptions \<Rightarrow> carchwriter \<Rightarrow> disk \<Rightarrow> int \<times> carchwriter \<times> disk" where
  "archwriter_create env opt ai dsk =
     (if e_special env (w_volpath ai) then (-1, ai, dsk)
      else if \<not> opt_overwrite opt \<and> dsk (w_volpath ai) \<noteq> None then (-1, ai, dsk)
      else
        (let fd = e_open env (w_volpath ai); ai = ai\<lparr>w_archfd := fd\<rparr>
         in if fd < 0 then (-1, ai, dsk)
            else (0, ai\<lparr>w_newarch := True, w_fdpath := w_volpath ai,
                        w_vollist := snd (strlist_add (e_mem env) (w_vollist ai) (w_volpath ai))\<rparr>,
                  dsk(w_volpath ai \<mapsto> []))))"

definition archwriter_close :: "carchwriter \<Rightarrow> int \<times> carchwriter" where
  "archwriter_close ai = (if w_archfd ai < 0 then (-1, ai) else (0, ai\<lparr>w_archfd := -1\<rparr>))"

fun remove_volumes :: "wenv \<Rightarrow> cstrlist \<Rightarrow> nat \<Rightarrow> int \<Rightarrow> disk \<Rightarrow> disk" where
  "remove_volumes env vollist 0 i dsk = dsk"
| "remove_volumes env vollist (Suc n) i dsk =
     (let (r, path) = strlist_getitem vollist i [] (int PATH_MAX)
      in remove_volumes env vollist n (i + 1)
           (if r = 0 \<and> e_unlink env path then dsk(path := None) else dsk))"

definition archwriter_remove :: "wenv \<Rightarrow> carchwriter \<Rightarrow> disk \<Rightarrow> int \<times> carchwriter \<times> disk" where
  "archwriter_remove env ai dsk =
     (let ai = (if w_archfd ai \<ge> 0 then snd (archwriter_close ai) else ai)
      in (0, ai, if w_newarch ai
                 then remove_volumes env (w_vollist ai) (nat (strlist_count (w_vollist ai))) 0 dsk
                 else dsk))"

text \<open>The bytes of the open volume, and the current position: lseek64 fails when no volume is open.\<close>

definition volume_bytes :: "carchwriter \<Rightarrow> disk \<Rightarrow> u8 list" where
  "volume_bytes ai dsk = (case dsk (w_fdpath ai) of Some bytes \<Rightarrow> bytes | None \<Rightarrow> [])"

definition archwriter_get_currentpos :: "carchwriter \<Rightarrow> disk \<Rightarrow> int" where
  "archwriter_get_currentpos ai dsk = (if w_archfd ai < 0 then -1 else int (length (volume_bytes ai dsk)))"

definition sys_write :: "wenv \<Rightarrow> carchwriter \<Rightarrow> disk \<Rightarrow> u8 list \<Rightarrow> int \<times> disk" where
  "sys_write env ai dsk data =
     (let old = volume_bytes ai dsk; lres = e_write env (w_fdpath ai) (length old) (length data)
      in if w_archfd ai < 0 then (-1, dsk)
         else (lres, dsk(w_fdpath ai \<mapsto> old @ take (nat lres) data)))"

definition archwriter_write_buffer :: "wenv \<Rightarrow> carchwriter \<Rightarrow> disk \<Rightarrow> cwritebuf \<Rightarrow> int \<times> disk" where
  "archwriter_write_buffer env ai dsk wb =
     (if wsize wb = 0 then (-1, dsk)
      else
        (let (lres, dsk) = sys_write env ai dsk (take (wsize wb) (wdata wb))
         in if lres \<noteq> int (wsize wb) then (-1, dsk) else (0, dsk)))"

definition archwriter_volpath :: "wenv \<Rightarrow> carchwriter \<Rightarrow> int \<times> carchwriter" where
  "archwriter_volpath env ai =
     (case get_path_to_volume (e_realpath env) PATH_MAX (w_basepath ai) (unat (w_curvol ai)) of
        Some p \<Rightarrow> (0, ai\<lparr>w_volpath := p\<rparr>)
      | None \<Rightarrow> (-1, ai))"

definition archwriter_is_path_to_curvol :: "carchwriter \<Rightarrow> string \<Rightarrow> bool" where
  "archwriter_is_path_to_curvol ai path \<longleftrightarrow> take PATH_MAX (w_volpath ai) = take PATH_MAX path"

definition archwriter_incvolume :: "wenv \<Rightarrow> carchwriter \<Rightarrow> int \<times> carchwriter" where
  "archwriter_incvolume env ai = archwriter_volpath env (ai\<lparr>w_curvol := w_curvol ai + 1\<rparr>)"

definition volheader_dico :: "malloc \<Rightarrow> carchwriter \<Rightarrow> cdico" where
  "volheader_dico mem ai =
     (let d = [];
          d = snd (dico_add_u32 mem d 0 VOLUMEHEADKEY_VOLNUM (w_curvol ai));
          d = snd (dico_add_u32 mem d 0 VOLUMEHEADKEY_ARCHID (w_archid ai));
          d = snd (dico_add_string mem d 0 VOLUMEHEADKEY_FILEFORMATVER FSA_FILEFORMAT);
          d = snd (dico_add_string mem d 0 VOLUMEHEADKEY_PROGVERCREAT FSA_VERSION)
      in d)"

definition archwriter_write_volheader :: "wenv \<Rightarrow> carchwriter \<Rightarrow> disk \<Rightarrow> int \<times> disk" where
  "archwriter_write_volheader env ai dsk =
     (case writebuf_alloc (e_mem env) of
        None \<Rightarrow> (-1, dsk)
      | Some wb \<Rightarrow>
          (case dico_alloc (e_mem env) of
             None \<Rightarrow> (-1, dsk)
           | Some _ \<Rightarrow>
               (let (r, wb) = writebuf_add_header (e_mem env) wb (volheader_dico (e_mem env) ai) FSA_MAGIC_VOLH
                      (w_archid ai) FSA_FILESYSID_NULL
                in if r \<noteq> 0 then (-1, dsk)
                   else
                     (let (r, dsk) = archwriter_write_buffer env ai dsk wb
                      in if r \<noteq> 0 then (-1, dsk) else (0, dsk)))))"

definition volfooter_dico :: "malloc \<Rightarrow> carchwriter \<Rightarrow> bool \<Rightarrow> cdico" where
  "volfooter_dico mem ai lastvol =
     (let d = [];
          d = snd (dico_add_u32 mem d 0 VOLUMEFOOTKEY_VOLNUM (w_curvol ai));
          d = snd (dico_add_u32 mem d 0 VOLUMEFOOTKEY_ARCHID (w_archid ai));
          d = snd (dico_add_u32 mem d 0 VOLUMEFOOTKEY_LASTVOL (if lastvol then 1 else 0))
      in d)"

definition archwriter_write_volfooter :: "wenv \<Rightarrow> carchwriter \<Rightarrow> disk \<Rightarrow> bool \<Rightarrow> int \<times> disk" where
  "archwriter_write_volfooter env ai dsk lastvol =
     (case writebuf_alloc (e_mem env) of
        None \<Rightarrow> (-1, dsk)
      | Some wb \<Rightarrow>
          (case dico_alloc (e_mem env) of
             None \<Rightarrow> (-1, dsk)
           | Some _ \<Rightarrow>
               (let (r, wb) = writebuf_add_header (e_mem env) wb (volfooter_dico (e_mem env) ai lastvol)
                      FSA_MAGIC_VOLF (w_archid ai) FSA_FILESYSID_NULL
                in if r \<noteq> 0 then (-1, dsk)
                   else
                     (let (r, dsk) = archwriter_write_buffer env ai dsk wb
                      in if r \<noteq> 0 then (-1, dsk) else (0, dsk)))))"

definition archwriter_split_check :: "coptions \<Rightarrow> carchwriter \<Rightarrow> disk \<Rightarrow> cwritebuf \<Rightarrow> bool" where
  "archwriter_split_check opt ai dsk wb \<longleftrightarrow>
     (let cursize = archwriter_get_currentpos ai dsk
      in cursize \<ge> 0 \<and> splitsize opt > 0 \<and> nat cursize + wsize wb > unat (splitsize opt))"

definition archwriter_split_if_necessary ::
    "wenv \<Rightarrow> coptions \<Rightarrow> carchwriter \<Rightarrow> disk \<Rightarrow> cwritebuf \<Rightarrow> int \<times> carchwriter \<times> disk" where
  "archwriter_split_if_necessary env opt ai dsk wb =
     (if archwriter_split_check opt ai dsk wb then
        (let (r, dsk) = archwriter_write_volfooter env ai dsk False
         in if r \<noteq> 0 then (-1, ai, dsk)
            else
              (let ai = snd (archwriter_close ai);
                   ai = snd (archwriter_incvolume env ai);
                   (r, ai, dsk) = archwriter_create env opt ai dsk
               in if r \<noteq> 0 then (-1, ai, dsk)
                  else
                    (let (r, dsk) = archwriter_write_volheader env ai dsk
                     in if r \<noteq> 0 then (-1, ai, dsk) else (0, ai, dsk))))
      else (0, ai, dsk))"

text \<open>The common end of the two functions that write an item.\<close>

definition dowrite_buffer ::
    "wenv \<Rightarrow> coptions \<Rightarrow> carchwriter \<Rightarrow> disk \<Rightarrow> cwritebuf \<Rightarrow> int \<times> carchwriter \<times> disk" where
  "dowrite_buffer env opt ai dsk wb =
     (let (r, ai, dsk) = archwriter_split_if_necessary env opt ai dsk wb
      in if r \<noteq> 0 then (-1, ai, dsk)
         else
           (let (r, dsk) = archwriter_write_buffer env ai dsk wb
            in if r \<noteq> 0 then (-1, ai, dsk) else (0, ai, dsk)))"

definition archwriter_dowrite_block ::
    "wenv \<Rightarrow> coptions \<Rightarrow> carchwriter \<Rightarrow> disk \<Rightarrow> cblockinfo \<Rightarrow> int \<times> carchwriter \<times> disk" where
  "archwriter_dowrite_block env opt ai dsk blkinfo =
     (case writebuf_alloc (e_mem env) of
        None \<Rightarrow> (-1, ai, dsk)
      | Some wb \<Rightarrow>
          (let (r, wb) = writebuf_add_block (e_mem env) wb blkinfo (w_archid ai) (blkfsid blkinfo)
           in if r \<noteq> 0 then (-1, ai, dsk) else dowrite_buffer env opt ai dsk wb))"

definition archwriter_dowrite_header ::
    "wenv \<Rightarrow> coptions \<Rightarrow> carchwriter \<Rightarrow> disk \<Rightarrow> cheadinfo \<Rightarrow> int \<times> carchwriter \<times> disk" where
  "archwriter_dowrite_header env opt ai dsk headinfo =
     (case writebuf_alloc (e_mem env) of
        None \<Rightarrow> (-1, ai, dsk)
      | Some wb \<Rightarrow>
          (let (r, wb) = writebuf_add_header (e_mem env) wb (hdico headinfo) (hmagic headinfo)
                 (w_archid ai) (hfsid headinfo)
           in if r \<noteq> 0 then (-1, ai, dsk) else dowrite_buffer env opt ai dsk wb))"

section \<open>An environment in which nothing fails\<close>

definition env_good :: "wenv \<Rightarrow> bool" where
  "env_good env \<longleftrightarrow> e_mem env = mem_ok \<and> (\<forall>p pos n. e_write env p pos n = int n) \<and>
     (\<forall>p. 0 \<le> e_open env p) \<and> (\<forall>p. \<not> e_special env p)"

definition volume_open :: "carchwriter \<Rightarrow> disk \<Rightarrow> bool" where
  "volume_open ai dsk \<longleftrightarrow> 0 \<le> w_archfd ai \<and> dsk (w_fdpath ai) \<noteq> None"

lemma write_buffer_ok:
  assumes "env_good env" and "0 \<le> w_archfd ai" and "bytes \<noteq> []"
  shows "archwriter_write_buffer env ai dsk (wb_of bytes) = (0, dsk(w_fdpath ai \<mapsto> volume_bytes ai dsk @ bytes))"
  using assms by (simp add: archwriter_write_buffer_def sys_write_def env_good_def Let_def)

lemma header_bytes_ne: "header_bytes magic ident fsid d \<noteq> []"
  using le32.enc_len [of ident] by (auto simp: header_bytes_def simp flip: length_0_conv)

lemma wb_of_Nil: "\<lparr>wdata = [], wsize = 0\<rparr> = wb_of []"
  by (simp add: wb_of_def)

subsection \<open>Volume header and footer\<close>

definition volheader_items :: "carchwriter \<Rightarrow> cdico" where
  "volheader_items ai =
     [new_item 0 VOLUMEHEADKEY_VOLNUM (cpu_to_le32 (w_curvol ai)) 4 DICTYPE_U32,
      new_item 0 VOLUMEHEADKEY_ARCHID (cpu_to_le32 (w_archid ai)) 4 DICTYPE_U32,
      new_item 0 VOLUMEHEADKEY_FILEFORMATVER (bytes_of_string FSA_FILEFORMAT @ [0]) 11 DICTYPE_STRING,
      new_item 0 VOLUMEHEADKEY_PROGVERCREAT (bytes_of_string FSA_VERSION @ [0]) 11 DICTYPE_STRING]"

definition volfooter_items :: "carchwriter \<Rightarrow> bool \<Rightarrow> cdico" where
  "volfooter_items ai lastvol =
     [new_item 0 VOLUMEFOOTKEY_VOLNUM (cpu_to_le32 (w_curvol ai)) 4 DICTYPE_U32,
      new_item 0 VOLUMEFOOTKEY_ARCHID (cpu_to_le32 (w_archid ai)) 4 DICTYPE_U32,
      new_item 0 VOLUMEFOOTKEY_LASTVOL (cpu_to_le32 (if lastvol then 1 else 0)) 4 DICTYPE_U32]"

lemma volheader_dico_ok: "volheader_dico mem_ok ai = volheader_items ai"
  by (simp add: volheader_dico_def volheader_items_def Let_def dico_add_number_ok dico_add_string_def
      dico_add_generic_ok fsa_const FSA_FILEFORMAT_def FSA_VERSION_def)

lemma volfooter_dico_ok: "volfooter_dico mem_ok ai lastvol = volfooter_items ai lastvol"
  by (simp add: volfooter_dico_def volfooter_items_def Let_def dico_add_number_ok fsa_const)

lemma volheader_items_wf: "dico_wf (volheader_items ai)" "dico_small (volheader_items ai)"
  by (simp_all add: dico_wf_def volheader_items_def fsa_const new_item_wf bytes_of_string_def
      FSA_FILEFORMAT_def FSA_VERSION_def dico_small_def dico_len_def)

lemma volfooter_items_wf: "dico_wf (volfooter_items ai l)" "dico_small (volfooter_items ai l)"
  by (simp_all add: dico_wf_def volfooter_items_def fsa_const new_item_wf dico_small_def dico_len_def)

definition volheader_bytes :: "carchwriter \<Rightarrow> u8 list" where
  "volheader_bytes ai = header_bytes FSA_MAGIC_VOLH (w_archid ai) FSA_FILESYSID_NULL (volheader_items ai)"

definition volfooter_bytes :: "carchwriter \<Rightarrow> bool \<Rightarrow> u8 list" where
  "volfooter_bytes ai l = header_bytes FSA_MAGIC_VOLF (w_archid ai) FSA_FILESYSID_NULL (volfooter_items ai l)"

lemma length_volfooter_bytes: "length (volfooter_bytes ai l) = 50"
  using length_dico_payload [of "volfooter_items ai l"] volfooter_items_wf(1) [of ai l]
  by (simp add: volfooter_bytes_def header_bytes_def dico_bytes_def dico_wf_def dico_len_def volfooter_items_def)

lemma write_volheader_ok:
  assumes "env_good env" and "0 \<le> w_archfd ai"
  shows "archwriter_write_volheader env ai dsk = (0, dsk(w_fdpath ai \<mapsto> volume_bytes ai dsk @ volheader_bytes ai))"
proof -
  have mem: "e_mem env = mem_ok" using assms(1) by (simp add: env_good_def)
  have "writebuf_add_header mem_ok (wb_of []) (volheader_items ai) FSA_MAGIC_VOLH (w_archid ai) FSA_FILESYSID_NULL
      = (0, wb_of (volheader_bytes ai))"
    using writebuf_add_header_ok [of FSA_MAGIC_VOLH "volheader_items ai" "[]"] volheader_items_wf [of ai]
    by (simp add: dico_wf_def volheader_bytes_def)
  then show ?thesis
    by (simp add: archwriter_write_volheader_def mem writebuf_alloc_def dico_alloc_def wb_of_Nil volheader_dico_ok
        write_buffer_ok [OF assms] volheader_bytes_def header_bytes_ne)
qed

lemma write_volfooter_ok:
  assumes "env_good env" and "0 \<le> w_archfd ai"
  shows "archwriter_write_volfooter env ai dsk l = (0, dsk(w_fdpath ai \<mapsto> volume_bytes ai dsk @ volfooter_bytes ai l))"
proof -
  have mem: "e_mem env = mem_ok" using assms(1) by (simp add: env_good_def)
  have "writebuf_add_header mem_ok (wb_of []) (volfooter_items ai l) FSA_MAGIC_VOLF (w_archid ai) FSA_FILESYSID_NULL
      = (0, wb_of (volfooter_bytes ai l))"
    using writebuf_add_header_ok [of FSA_MAGIC_VOLF "volfooter_items ai l" "[]"] volfooter_items_wf [of ai l]
    by (simp add: dico_wf_def volfooter_bytes_def)
  then show ?thesis
    by (simp add: archwriter_write_volfooter_def mem writebuf_alloc_def dico_alloc_def wb_of_Nil volfooter_dico_ok
        write_buffer_ok [OF assms] volfooter_bytes_def header_bytes_ne)
qed

subsection \<open>Splitting\<close>

text \<open>The writer after it has gone to the next volume at path \<open>p\<close>.\<close>

definition next_volume :: "wenv \<Rightarrow> carchwriter \<Rightarrow> string \<Rightarrow> carchwriter" where
  "next_volume env ai p =
     ai\<lparr>w_curvol := w_curvol ai + 1, w_volpath := p, w_archfd := e_open env p, w_newarch := True,
        w_fdpath := p, w_vollist := snd (strlist_add mem_ok (w_vollist ai) p)\<rparr>"

lemma split_ok:
  assumes env: "env_good env" and vol: "volume_open ai dsk" and split: "archwriter_split_check opt ai dsk wb"
    and path: "get_path_to_volume (e_realpath env) PATH_MAX (w_basepath ai) (unat (w_curvol ai + 1)) = Some p"
    and new: "p \<noteq> w_fdpath ai" "opt_overwrite opt \<or> dsk p = None"
  shows "archwriter_split_if_necessary env opt ai dsk wb =
    (0, next_volume env ai p,
     dsk(w_fdpath ai \<mapsto> volume_bytes ai dsk @ volfooter_bytes ai False, p \<mapsto> volheader_bytes (next_volume env ai p)))"
proof -
  have fd: "0 \<le> w_archfd ai" using vol by (simp add: volume_open_def)
  have c: "archwriter_create env opt (ai\<lparr>w_archfd := -1, w_curvol := w_curvol ai + 1, w_volpath := p\<rparr>) d =
      (0, next_volume env ai p, d(p \<mapsto> []))" if "opt_overwrite opt \<or> d p = None" for d
    using env that by (auto simp: archwriter_create_def env_good_def next_volume_def Let_def not_less)
  have nfd: "0 \<le> w_archfd (next_volume env ai p)" "w_fdpath (next_volume env ai p) = p"
    using env by (simp_all add: next_volume_def env_good_def)
  show ?thesis
    using split fd new
    by (simp add: archwriter_split_if_necessary_def write_volfooter_ok [OF env fd] archwriter_close_def
        archwriter_incvolume_def archwriter_volpath_def path c Let_def
        write_volheader_ok [OF env nfd(1)] nfd volume_bytes_def fun_upd_twist [of p])
qed

subsection \<open>Writing an item\<close>

lemma dowrite_buffer_ok:
  assumes env: "env_good env" and vol: "volume_open ai dsk" and ne: "bytes \<noteq> []"
    and path: "get_path_to_volume (e_realpath env) PATH_MAX (w_basepath ai) (unat (w_curvol ai + 1)) = Some p"
    and new: "p \<noteq> w_fdpath ai" "opt_overwrite opt \<or> dsk p = None"
  shows "dowrite_buffer env opt ai dsk (wb_of bytes) =
    (if archwriter_split_check opt ai dsk (wb_of bytes)
     then (0, next_volume env ai p,
           dsk(w_fdpath ai \<mapsto> volume_bytes ai dsk @ volfooter_bytes ai False,
               p \<mapsto> volheader_bytes (next_volume env ai p) @ bytes))
     else (0, ai, dsk(w_fdpath ai \<mapsto> volume_bytes ai dsk @ bytes)))"
proof (cases "archwriter_split_check opt ai dsk (wb_of bytes)")
  case True
  have n: "0 \<le> w_archfd (next_volume env ai p)" "w_fdpath (next_volume env ai p) = p"
    using env by (simp_all add: next_volume_def env_good_def)
  show ?thesis
    using True by (simp add: dowrite_buffer_def split_ok [OF env vol True path new] Let_def
        write_buffer_ok [OF env n(1) ne] n(2) volume_bytes_def)
next
  case False
  then have "archwriter_split_if_necessary env opt ai dsk (wb_of bytes) = (0, ai, dsk)"
    by (simp add: archwriter_split_if_necessary_def)
  with False vol show ?thesis
    by (simp add: dowrite_buffer_def write_buffer_ok [OF env _ ne] volume_open_def)
qed

lemma split_check_iff:
  assumes "volume_open ai dsk"
  shows "archwriter_split_check opt ai dsk (wb_of bytes) \<longleftrightarrow>
    0 < unat (splitsize opt) \<and> unat (splitsize opt) < length (volume_bytes ai dsk) + length bytes"
proof -
  have "(splitsize opt > 0) = (0 < unat (splitsize opt))" by (simp add: word_gt_0 unat_gt_0)
  then show ?thesis
    using assms by (simp add: archwriter_split_check_def archwriter_get_currentpos_def volume_open_def)
qed

text \<open>The three outcomes of writing an item: nothing to split, or the old volume is closed with its footer
  and the item begins the next volume.\<close>

definition item_written :: "wenv \<Rightarrow> coptions \<Rightarrow> carchwriter \<Rightarrow> disk \<Rightarrow> string \<Rightarrow> u8 list \<Rightarrow> int \<times> carchwriter \<times> disk" where
  "item_written env opt ai dsk p bytes =
     (if 0 < unat (splitsize opt) \<and> unat (splitsize opt) < length (volume_bytes ai dsk) + length bytes
      then (0, next_volume env ai p,
            dsk(w_fdpath ai \<mapsto> volume_bytes ai dsk @ volfooter_bytes ai False,
                p \<mapsto> volheader_bytes (next_volume env ai p) @ bytes))
      else (0, ai, dsk(w_fdpath ai \<mapsto> volume_bytes ai dsk @ bytes)))"

lemma dowrite_block_eq:
  assumes "env_good env" and "volume_open ai dsk"
    and "get_path_to_volume (e_realpath env) PATH_MAX (w_basepath ai) (unat (w_curvol ai + 1)) = Some p"
    and "p \<noteq> w_fdpath ai" and "opt_overwrite opt \<or> dsk p = None"
    and "length (blkdata b) = unat (blkarsize b)" and "blkarsize b \<noteq> 0"
  shows "archwriter_dowrite_block env opt ai dsk b =
    item_written env opt ai dsk p (block_bytes b (w_archid ai) (blkfsid b))"
proof -
  have mem: "e_mem env = mem_ok" using assms(1) by (simp add: env_good_def)
  have w: "writebuf_add_block mem_ok (wb_of []) b (w_archid ai) (blkfsid b) =
      (0, wb_of (block_bytes b (w_archid ai) (blkfsid b)))"
    using writebuf_add_block_ok [OF assms(6,7), of "[]"] by simp
  have ne: "block_bytes b (w_archid ai) (blkfsid b) \<noteq> []" by (simp add: block_bytes_def header_bytes_ne)
  show ?thesis
    by (simp add: archwriter_dowrite_block_def mem writebuf_alloc_def wb_of_Nil w item_written_def
        dowrite_buffer_ok [OF assms(1,2) ne assms(3-5)] split_check_iff [OF assms(2)])
qed

lemma dowrite_header_eq:
  assumes "env_good env" and "volume_open ai dsk"
    and "get_path_to_volume (e_realpath env) PATH_MAX (w_basepath ai) (unat (w_curvol ai + 1)) = Some p"
    and "p \<noteq> w_fdpath ai" and "opt_overwrite opt \<or> dsk p = None"
    and "length (hmagic h) = 4" and "dico_wf (hdico h)" and "dico_small (hdico h)"
  shows "archwriter_dowrite_header env opt ai dsk h =
    item_written env opt ai dsk p (header_bytes (hmagic h) (w_archid ai) (hfsid h) (hdico h))"
proof -
  have mem: "e_mem env = mem_ok" using assms(1) by (simp add: env_good_def)
  have w: "writebuf_add_header mem_ok (wb_of []) (hdico h) (hmagic h) (w_archid ai) (hfsid h) =
      (0, wb_of (header_bytes (hmagic h) (w_archid ai) (hfsid h) (hdico h)))"
    using writebuf_add_header_ok [OF assms(6) _ assms(8), of "[]"] assms(7) by (simp add: dico_wf_def)
  show ?thesis
    by (simp add: archwriter_dowrite_header_def mem writebuf_alloc_def wb_of_Nil w item_written_def
        dowrite_buffer_ok [OF assms(1,2) header_bytes_ne assms(3-5)] split_check_iff [OF assms(2)])
qed

end
