(* ===== verification/Volumes.thy ===== *)
theory Volumes
  imports Archwriter
begin

text \<open>What the writer promises, without its buffers and descriptors: an archive is a list of volumes, a
  volume is a list of items, and writing an item appends it to the last volume or to a new one. The lemmas
  show that archwriter.c implements this on the disk.\<close>

section \<open>Archives as lists of volumes\<close>

text \<open>Header and footer of volume \<open>k\<close> of the archive \<open>ident\<close>.\<close>

definition volume_writer :: "u32 \<Rightarrow> nat \<Rightarrow> carchwriter" where
  "volume_writer ident k = archwriter_init\<lparr>w_archid := ident, w_curvol := of_nat k\<rparr>"

definition head_bytes :: "u32 \<Rightarrow> nat \<Rightarrow> u8 list" where
  "head_bytes ident k = volheader_bytes (volume_writer ident k)"

definition foot_bytes :: "u32 \<Rightarrow> nat \<Rightarrow> bool \<Rightarrow> u8 list" where
  "foot_bytes ident k l = volfooter_bytes (volume_writer ident k) l"

text \<open>Volume \<open>k\<close> of the volumes \<open>vs\<close>: the last one has a footer only when the archive is complete.\<close>

definition volume_image :: "u32 \<Rightarrow> u8 list list list \<Rightarrow> bool \<Rightarrow> nat \<Rightarrow> u8 list" where
  "volume_image ident vs final k =
     head_bytes ident k @ concat (vs ! k) @
     (if Suc k < length vs then foot_bytes ident k False else if final then foot_bytes ident k True else [])"

definition archive_on_disk :: "u32 \<Rightarrow> (nat \<Rightarrow> string) \<Rightarrow> u8 list list list \<Rightarrow> bool \<Rightarrow> disk \<Rightarrow> bool" where
  "archive_on_disk ident vp vs final dsk \<longleftrightarrow>
     vs \<noteq> [] \<and> (\<forall>k < length vs. dsk (vp k) = Some (volume_image ident vs final k))"

definition add_item :: "nat \<Rightarrow> u8 list list list \<Rightarrow> u8 list \<Rightarrow> u8 list list list" where
  "add_item limit vs bytes =
     (if 0 < limit \<and> limit < 74 + length (concat (last vs)) + length bytes
      then vs @ [[bytes]] else butlast vs @ [last vs @ [bytes]])"

definition add_items :: "nat \<Rightarrow> u8 list list list \<Rightarrow> u8 list list \<Rightarrow> u8 list list list" where
  "add_items limit vs items = foldl (add_item limit) vs items"

lemma add_item_Nil [simp]: "add_item limit vs bytes \<noteq> []"
  by (simp add: add_item_def)

lemma concat_add_item: "vs \<noteq> [] \<Longrightarrow> concat (add_item limit vs bytes) = concat vs @ [bytes]"
  by (cases vs rule: rev_cases) (simp_all add: add_item_def)

lemma length_add_item: "vs \<noteq> [] \<Longrightarrow> length (add_item limit vs bytes) \<in> {length vs, Suc (length vs)}"
  by (simp add: add_item_def)

lemma add_items_Nil: "vs \<noteq> [] \<Longrightarrow> add_items limit vs items \<noteq> []"
  by (induction items arbitrary: vs) (simp_all add: add_items_def)

lemma concat_add_items: "vs \<noteq> [] \<Longrightarrow> concat (add_items limit vs items) = concat vs @ items"
  by (induction items arbitrary: vs) (simp_all add: add_items_def concat_add_item)

lemma length_add_items:
  "vs \<noteq> [] \<Longrightarrow> length vs \<le> length (add_items limit vs items) \<and>
     length (add_items limit vs items) \<le> length vs + length items"
proof (induction items arbitrary: vs)
  case (Cons i items)
  have "length vs \<le> length (add_item limit vs i)" "length (add_item limit vs i) \<le> Suc (length vs)"
    using length_add_item [OF Cons.prems, of limit i] by auto
  with Cons.IH [of "add_item limit vs i"] show ?case by (simp add: add_items_def)
qed (simp add: add_items_def)

text \<open>The size of a volume without its footer: at most the limit, unless it holds a single item.\<close>

definition sizes_ok :: "nat \<Rightarrow> u8 list list list \<Rightarrow> bool" where
  "sizes_ok limit vs \<longleftrightarrow> (\<forall>v \<in> set vs. limit = 0 \<or> 74 + length (concat v) \<le> limit \<or> length v \<le> 1)"

lemma sizes_ok_add_item:
  assumes "vs \<noteq> []" and "sizes_ok limit vs"
  shows "sizes_ok limit (add_item limit vs bytes)"
proof -
  obtain ws w where "vs = ws @ [w]" using assms(1) by (cases vs rule: rev_cases) auto
  then show ?thesis using assms(2) by (auto simp: sizes_ok_def add_item_def not_less)
qed

lemma sizes_ok_add_items: "vs \<noteq> [] \<Longrightarrow> sizes_ok limit vs \<Longrightarrow> sizes_ok limit (add_items limit vs items)"
  by (induction items arbitrary: vs) (simp_all add: add_items_def sizes_ok_add_item)

section \<open>Headers and footers\<close>

lemma volheader_bytes_head: "w_curvol ai = of_nat k \<Longrightarrow> volheader_bytes ai = head_bytes (w_archid ai) k"
  by (simp add: head_bytes_def volume_writer_def volheader_bytes_def volheader_items_def)

lemma volfooter_bytes_foot: "w_curvol ai = of_nat k \<Longrightarrow> volfooter_bytes ai l = foot_bytes (w_archid ai) k l"
  by (simp add: foot_bytes_def volume_writer_def volfooter_bytes_def volfooter_items_def)

lemma length_head_bytes: "length (head_bytes ident k) = 74"
  using length_dico_payload [of "volheader_items (volume_writer ident k)"] volheader_items_wf(1) [of "volume_writer ident k"]
  by (simp add: head_bytes_def volheader_bytes_def header_bytes_def dico_bytes_def dico_wf_def dico_len_def volheader_items_def)

section \<open>Refinement\<close>

text \<open>The writer has written the volumes \<open>vs\<close> and has the last one open.\<close>

definition writer_rep :: "u32 \<Rightarrow> (nat \<Rightarrow> string) \<Rightarrow> carchwriter \<Rightarrow> disk \<Rightarrow> u8 list list list \<Rightarrow> bool" where
  "writer_rep ident vp ai dsk vs \<longleftrightarrow>
     archive_on_disk ident vp vs False dsk \<and> w_archid ai = ident \<and> w_curvol ai = of_nat (length vs - 1) \<and>
     0 \<le> w_archfd ai \<and> w_fdpath ai = vp (length vs - 1)"

text \<open>The paths of the volumes up to \<open>n\<close> are there, are distinct, and may be written.\<close>

definition paths_ok :: "wenv \<Rightarrow> string \<Rightarrow> (nat \<Rightarrow> string) \<Rightarrow> nat \<Rightarrow> bool" where
  "paths_ok env base vp n \<longleftrightarrow>
     (\<forall>k \<le> n. get_path_to_volume (e_realpath env) PATH_MAX base k = Some (vp k)) \<and> inj_on vp {..n} \<and> n < 2 ^ 32"

definition paths_free :: "coptions \<Rightarrow> (nat \<Rightarrow> string) \<Rightarrow> nat \<Rightarrow> nat \<Rightarrow> disk \<Rightarrow> bool" where
  "paths_free opt vp m n dsk \<longleftrightarrow> opt_overwrite opt \<or> (\<forall>k. m \<le> k \<and> k \<le> n \<longrightarrow> dsk (vp k) = None)"

lemma paths_distinct: "paths_ok env base vp n \<Longrightarrow> i \<le> n \<Longrightarrow> j \<le> n \<Longrightarrow> vp i = vp j \<longleftrightarrow> i = j"
  by (auto simp: paths_ok_def inj_on_def)

lemma writer_rep_volume:
  assumes "writer_rep ident vp ai dsk vs"
  shows "volume_bytes ai dsk = head_bytes ident (length vs - 1) @ concat (last vs)" and "volume_open ai dsk"
  using assms by (auto simp: writer_rep_def archive_on_disk_def volume_bytes_def volume_image_def volume_open_def
      last_conv_nth)

lemma volume_image_snoc:
  "k < length vs \<Longrightarrow> volume_image ident (vs @ [v]) final k =
     head_bytes ident k @ concat (vs ! k) @ foot_bytes ident k False"
  "volume_image ident (vs @ [v]) final (length vs) =
     head_bytes ident (length vs) @ concat v @ (if final then foot_bytes ident (length vs) True else [])"
  by (simp_all add: volume_image_def nth_append)

lemma item_written_rep:
  assumes env: "env_good env" and rep: "writer_rep ident vp ai dsk vs" and paths: "paths_ok env (w_basepath ai) vp n"
    and free: "paths_free opt vp (length vs) n dsk" and room: "length vs \<le> n"
  shows "\<exists>ai' dsk'. item_written env opt ai dsk (vp (length vs)) bytes = (0, ai', dsk') \<and>
    writer_rep ident vp ai' dsk' (add_item (unat (splitsize opt)) vs bytes) \<and> w_basepath ai' = w_basepath ai \<and>
    paths_free opt vp (length (add_item (unat (splitsize opt)) vs bytes)) n dsk'"
proof -
  obtain ws w where vs: "vs = ws @ [w]"
    using rep by (cases vs rule: rev_cases) (auto simp: writer_rep_def archive_on_disk_def)
  have vol: "volume_bytes ai dsk = head_bytes ident (length ws) @ concat w"
    using writer_rep_volume(1) [OF rep] vs by simp
  have cur: "w_archid ai = ident" "w_curvol ai = of_nat (length ws)" "w_fdpath ai = vp (length ws)" "0 \<le> w_archfd ai"
    using rep vs by (simp_all add: writer_rep_def)
  have old: "dsk (vp k) = Some (head_bytes ident k @ concat (ws ! k) @ foot_bytes ident k False)" if "k < length ws" for k
    using rep that vs by (simp add: writer_rep_def archive_on_disk_def volume_image_snoc)
  have dist: "vp i = vp j \<longleftrightarrow> i = j" if "i \<le> n" "j \<le> n" for i j
    using paths_distinct [OF paths that] .
  let ?full = "0 < unat (splitsize opt) \<and> unat (splitsize opt) < 74 + length (concat w) + length bytes"
  show ?thesis
  proof (cases ?full)
    case True
    let ?ai = "next_volume env ai (vp (Suc (length ws)))"
    let ?d = "dsk(vp (length ws) \<mapsto> head_bytes ident (length ws) @ concat w @ foot_bytes ident (length ws) False,
      vp (Suc (length ws)) \<mapsto> head_bytes ident (Suc (length ws)) @ bytes)"
    have nv: "w_curvol ?ai = of_nat (Suc (length ws))" "w_archid ?ai = ident" "w_fdpath ?ai = vp (Suc (length ws))"
      "0 \<le> w_archfd ?ai" "w_basepath ?ai = w_basepath ai"
      using cur env by (simp_all add: next_volume_def env_good_def add.commute)
    have w: "item_written env opt ai dsk (vp (length vs)) bytes = (0, ?ai, ?d)"
      using True volheader_bytes_head [OF nv(1)] volfooter_bytes_foot [OF cur(2)]
      by (simp add: item_written_def vs vol cur nv length_head_bytes)
    have a: "add_item (unat (splitsize opt)) vs bytes = vs @ [[bytes]]"
      using True by (simp add: add_item_def vs)
    have "archive_on_disk ident vp (vs @ [[bytes]]) False ?d"
      unfolding archive_on_disk_def
    proof (intro conjI allI impI)
      fix k assume "k < length (vs @ [[bytes]])"
      then consider "k < length ws" | "k = length ws" | "k = Suc (length ws)" using vs by fastforce
      then show "?d (vp k) = Some (volume_image ident (vs @ [[bytes]]) False k)"
        using room vs by cases (simp_all add: dist old volume_image_def nth_append)
    qed simp
    moreover have "paths_free opt vp (length (vs @ [[bytes]])) n ?d"
      using free vs room by (auto simp: paths_free_def dist)
    ultimately show ?thesis using w a nv vs by (simp add: writer_rep_def)
  next
    case False
    let ?d = "dsk(vp (length ws) \<mapsto> head_bytes ident (length ws) @ concat w @ bytes)"
    have w: "item_written env opt ai dsk (vp (length vs)) bytes = (0, ai, ?d)"
      using False by (auto simp add: item_written_def vol cur length_head_bytes)
    have a: "add_item (unat (splitsize opt)) vs bytes = ws @ [w @ [bytes]]"
      using False by (auto simp: add_item_def vs)
    have "archive_on_disk ident vp (ws @ [w @ [bytes]]) False ?d"
      unfolding archive_on_disk_def
    proof (intro conjI allI impI)
      fix k assume "k < length (ws @ [w @ [bytes]])"
      then consider "k < length ws" | "k = length ws" by fastforce
      then show "?d (vp k) = Some (volume_image ident (ws @ [w @ [bytes]]) False k)"
        using room vs by cases (simp_all add: dist old volume_image_def nth_append)
    qed simp
    moreover have "paths_free opt vp (length (ws @ [w @ [bytes]])) n ?d"
      using free vs room by (auto simp: paths_free_def dist)
    ultimately show ?thesis using w a cur vs by (simp add: writer_rep_def)
  qed
qed

end
