(* ===== verification/Queue.thy ===== *)
theory Queue
  imports Writebuf
begin

text \<open>queue.c: the queue between the thread that produces headers and blocks, the compression threads
  and the thread that consumes them. Every function runs with the queue's mutex held, so it is a function
  from the queue to its result and the new queue. A function that waits on the condition variable is
  modelled by what it does when it holds the mutex: the result None says that its loop condition
  makes it wait, with the queue unchanged, and it is tried again after a wake-up. Counters are unbounded
  integers: they count items in memory.\<close>

section \<open>State\<close>

datatype qstatus = QITEM_STATUS_NULL | QITEM_STATUS_TODO | QITEM_STATUS_PROGRESS | QITEM_STATUS_DONE

text \<open>The numbers that the enumeration gives to the states, and their order: the state of an item only grows.\<close>

fun status_number :: "qstatus \<Rightarrow> nat" where
  "status_number QITEM_STATUS_NULL = 0"
| "status_number QITEM_STATUS_TODO = 1"
| "status_number QITEM_STATUS_PROGRESS = 2"
| "status_number QITEM_STATUS_DONE = 3"

lemma status_number_inj: "status_number a = status_number b \<Longrightarrow> a = b"
  by (cases a; cases b) simp_all

instantiation qstatus :: linorder
begin

definition less_eq_qstatus :: "qstatus \<Rightarrow> qstatus \<Rightarrow> bool" where
  "a \<le> b \<longleftrightarrow> status_number a \<le> status_number b"

definition less_qstatus :: "qstatus \<Rightarrow> qstatus \<Rightarrow> bool" where
  "a < b \<longleftrightarrow> status_number a < status_number b"

instance
  by intro_classes (auto simp: less_eq_qstatus_def less_qstatus_def intro: status_number_inj)

end

lemma status_le_done [simp]: "a \<le> QITEM_STATUS_DONE"
  by (cases a) (simp_all add: less_eq_qstatus_def)

datatype qtype = QITEM_TYPE_NULL | QITEM_TYPE_BLOCK | QITEM_TYPE_HEADER

record cqueueitem =
  itype :: qtype
  istatus :: qstatus
  itemnum :: int
  iblkinfo :: cblockinfo
  iheadinfo :: cheadinfo

record cqueue =
  qhead :: "cqueueitem list"
  curitemnum :: int
  itemcount :: int
  blkcount :: int
  blkmax :: int
  endofqueue :: bool

section \<open>Operations\<close>

definition queue_init :: "int \<Rightarrow> cqueue" where
  "queue_init maxblk =
     \<lparr>qhead = [], curitemnum = 1, itemcount = 0, blkcount = 0, blkmax = maxblk, endofqueue = False\<rparr>"

definition queue_destroy :: "cqueue \<Rightarrow> int \<times> cqueue" where
  "queue_destroy q = (FSAERR_SUCCESS, q\<lparr>qhead := [], itemcount := 0\<rparr>)"

definition queue_set_end_of_queue :: "cqueue \<Rightarrow> bool \<Rightarrow> int \<times> cqueue" where
  "queue_set_end_of_queue q state = (FSAERR_SUCCESS, q\<lparr>endofqueue := state\<rparr>)"

definition queuelocked_get_end_of_queue :: "cqueue \<Rightarrow> bool" where
  "queuelocked_get_end_of_queue q \<longleftrightarrow> itemcount q < 1 \<and> endofqueue q"

definition queue_get_end_of_queue :: "cqueue \<Rightarrow> bool" where
  "queue_get_end_of_queue q \<longleftrightarrow> itemcount q < 1 \<and> endofqueue q"

definition queue_count :: "cqueue \<Rightarrow> int" where
  "queue_count q = itemcount q"

fun count_status_loop :: "cqueueitem list \<Rightarrow> qstatus \<Rightarrow> int \<Rightarrow> int" where
  "count_status_loop [] status count = count"
| "count_status_loop (cur # items) status count =
     count_status_loop items status
       (if status = QITEM_STATUS_NULL \<or> istatus cur = status then count + 1 else count)"

definition queue_count_status :: "cqueue \<Rightarrow> qstatus \<Rightarrow> int" where
  "queue_count_status q status = count_status_loop (qhead q) status 0"

definition sizeof_cqueueitem :: nat where
  "sizeof_cqueueitem = 104"

text \<open>The end-of-queue test at the beginning of the two add functions, and what they do once the queue is
  not full: other threads may run between the two.\<close>

definition queue_add_enter :: "malloc \<Rightarrow> cqueue \<Rightarrow> int" where
  "queue_add_enter mem q =
     (if \<not> mem sizeof_cqueueitem then FSAERR_ENOMEM
      else if endofqueue q then FSAERR_ENDOFFILE
      else FSAERR_SUCCESS)"

definition queue_add_block_link :: "cqueue \<Rightarrow> cblockinfo \<Rightarrow> qstatus \<Rightarrow> cqueue option" where
  "queue_add_block_link q blkinfo status =
     (if blkcount q > blkmax q then None
      else
        (let item = \<lparr>itype = QITEM_TYPE_BLOCK, istatus = status, itemnum = curitemnum q,
                     iblkinfo = blkinfo, iheadinfo = zero_headinfo\<rparr>
         in Some (q\<lparr>qhead := qhead q @ [item], blkcount := blkcount q + 1, itemcount := itemcount q + 1,
                    curitemnum := curitemnum q + 1\<rparr>)))"

definition queue_add_block :: "malloc \<Rightarrow> cqueue \<Rightarrow> cblockinfo \<Rightarrow> qstatus \<Rightarrow> (int \<times> cqueue) option" where
  "queue_add_block mem q blkinfo status =
     (let r = queue_add_enter mem q
      in if r \<noteq> FSAERR_SUCCESS then Some (r, q)
         else map_option (\<lambda>q. (FSAERR_SUCCESS, q)) (queue_add_block_link q blkinfo status))"

definition queue_add_header_link :: "cqueue \<Rightarrow> cheadinfo \<Rightarrow> cqueue option" where
  "queue_add_header_link q headinfo =
     (if blkcount q > blkmax q then None
      else
        (let item = \<lparr>itype = QITEM_TYPE_HEADER, istatus = QITEM_STATUS_DONE, itemnum = curitemnum q,
                     iblkinfo = zero_blockinfo, iheadinfo = headinfo\<rparr>
         in Some (q\<lparr>curitemnum := curitemnum q + 1, qhead := qhead q @ [item], itemcount := itemcount q + 1\<rparr>)))"

definition queue_add_header_internal :: "malloc \<Rightarrow> cqueue \<Rightarrow> cheadinfo \<Rightarrow> (int \<times> cqueue) option" where
  "queue_add_header_internal mem q headinfo =
     (let r = queue_add_enter mem q
      in if r \<noteq> FSAERR_SUCCESS then Some (r, q)
         else map_option (\<lambda>q. (FSAERR_SUCCESS, q)) (queue_add_header_link q headinfo))"

definition queue_add_header ::
    "malloc \<Rightarrow> cqueue \<Rightarrow> cdico \<Rightarrow> u8 list \<Rightarrow> u16 \<Rightarrow> (int \<times> cqueue) option" where
  "queue_add_header mem q d magic fsid =
     queue_add_header_internal mem q \<lparr>hmagic = take FSA_SIZEOF_MAGIC magic, hfsid = fsid, hdico = d\<rparr>"

fun replace_item :: "cqueueitem list \<Rightarrow> int \<Rightarrow> cblockinfo \<Rightarrow> qstatus \<Rightarrow> cqueueitem list option" where
  "replace_item [] num blkinfo newstatus = None"
| "replace_item (cur # items) num blkinfo newstatus =
     (if itemnum cur = num then Some (cur\<lparr>istatus := newstatus, iblkinfo := blkinfo\<rparr> # items)
      else map_option ((#) cur) (replace_item items num blkinfo newstatus))"

definition queue_replace_block :: "cqueue \<Rightarrow> int \<Rightarrow> cblockinfo \<Rightarrow> qstatus \<Rightarrow> int \<times> cqueue" where
  "queue_replace_block q num blkinfo newstatus =
     (if qhead q = [] then (FSAERR_ENOENT, q)
      else case replace_item (qhead q) num blkinfo newstatus of
        Some items \<Rightarrow> (FSAERR_SUCCESS, q\<lparr>qhead := items\<rparr>)
      | None \<Rightarrow> (FSAERR_ENOENT, q))"

fun count_todo_loop :: "cqueueitem list \<Rightarrow> int \<Rightarrow> int" where
  "count_todo_loop [] count = count"
| "count_todo_loop (cur # items) count =
     count_todo_loop items (if itype cur = QITEM_TYPE_BLOCK \<and> istatus cur \<noteq> QITEM_STATUS_DONE then count + 1 else count)"

definition queue_count_items_todo :: "cqueue \<Rightarrow> int" where
  "queue_count_items_todo q = count_todo_loop (qhead q) 0"

fun first_todo :: "cqueueitem list \<Rightarrow> (int \<times> cblockinfo \<times> cqueueitem list) option" where
  "first_todo [] = None"
| "first_todo (cur # items) =
     (if itype cur = QITEM_TYPE_BLOCK \<and> istatus cur = QITEM_STATUS_TODO
      then Some (itemnum cur, iblkinfo cur, cur\<lparr>istatus := QITEM_STATUS_PROGRESS\<rparr> # items)
      else map_option (\<lambda>(n, b, items). (n, b, cur # items)) (first_todo items))"

text \<open>\<open>wait_ok\<close> says that pthread_cond_timedwait ends without an error other than the timeout.\<close>

definition queue_get_first_block_todo :: "bool \<Rightarrow> cqueue \<Rightarrow> (int \<times> cblockinfo \<times> cqueue) option" where
  "queue_get_first_block_todo wait_ok q =
     (if queuelocked_get_end_of_queue q then Some (FSAERR_ENDOFFILE, zero_blockinfo, q)
      else case first_todo (qhead q) of
        Some (itemfound, blkinfo, items) \<Rightarrow> Some (itemfound, blkinfo, q\<lparr>qhead := items\<rparr>)
      | None \<Rightarrow> if wait_ok then None else Some (FSAERR_UNKNOWN, zero_blockinfo, q))"

text \<open>What a consumer takes from the queue.\<close>

datatype qinfo = Qblock cblockinfo | Qheader cheadinfo | Qnone

definition queue_dequeue_first :: "cqueue \<Rightarrow> (int \<times> qinfo \<times> cqueue) option" where
  "queue_dequeue_first q =
     (if queuelocked_get_end_of_queue q then Some (FSAERR_ENDOFFILE, Qnone, q)
      else case qhead q of
        [] \<Rightarrow> None
      | cur # items \<Rightarrow>
          if istatus cur \<noteq> QITEM_STATUS_DONE then None
          else (case itype cur of
              QITEM_TYPE_BLOCK \<Rightarrow>
                Some (itemnum cur, Qblock (iblkinfo cur),
                      q\<lparr>blkcount := blkcount q - 1, qhead := items, itemcount := itemcount q - 1\<rparr>)
            | QITEM_TYPE_HEADER \<Rightarrow>
                Some (itemnum cur, Qheader (iheadinfo cur), q\<lparr>qhead := items, itemcount := itemcount q - 1\<rparr>)
            | QITEM_TYPE_NULL \<Rightarrow> Some (FSAERR_EINVAL, Qnone, q)))"

text \<open>The loop condition of the three functions of the extracting side.\<close>

definition first_not_ready :: "cqueue \<Rightarrow> bool" where
  "first_not_ready q \<longleftrightarrow> (case qhead q of [] \<Rightarrow> True | cur # _ \<Rightarrow> istatus cur \<noteq> QITEM_STATUS_DONE)"

definition queue_dequeue_block :: "cqueue \<Rightarrow> (int \<times> qinfo \<times> cqueue) option" where
  "queue_dequeue_block q =
     (if first_not_ready q \<and> \<not> queuelocked_get_end_of_queue q then None
      else if queuelocked_get_end_of_queue q then Some (FSAERR_ENDOFFILE, Qnone, q)
      else case qhead q of
        [] \<Rightarrow> None
      | cur # items \<Rightarrow>
          if itype cur = QITEM_TYPE_BLOCK \<and> istatus cur = QITEM_STATUS_DONE
          then Some (itemnum cur, Qblock (iblkinfo cur),
                     q\<lparr>qhead := items, blkcount := blkcount q - 1, itemcount := itemcount q - 1\<rparr>)
          else Some (FSAERR_WRONGTYPE, Qnone, q))"

definition queue_dequeue_header_internal :: "cqueue \<Rightarrow> (int \<times> qinfo \<times> cqueue) option" where
  "queue_dequeue_header_internal q =
     (if first_not_ready q \<and> \<not> queuelocked_get_end_of_queue q then None
      else if queuelocked_get_end_of_queue q then Some (FSAERR_ENDOFFILE, Qnone, q)
      else case qhead q of
        [] \<Rightarrow> None
      | cur # items \<Rightarrow>
          (case itype cur of
             QITEM_TYPE_HEADER \<Rightarrow>
               Some (itemnum cur, Qheader (iheadinfo cur), q\<lparr>qhead := items, itemcount := itemcount q - 1\<rparr>)
           | QITEM_TYPE_BLOCK \<Rightarrow> Some (FSAERR_WRONGTYPE, Qnone, q)
           | QITEM_TYPE_NULL \<Rightarrow> Some (FSAERR_WRONGTYPE, Qnone, q)))"

text \<open>The return code, the dictionary, the magic and the filesystem id.\<close>

definition queue_dequeue_header :: "cqueue \<Rightarrow> (int \<times> (cdico \<times> u8 list \<times> u16) option \<times> cqueue) option" where
  "queue_dequeue_header q =
     map_option (\<lambda>(lres, info, q).
        (lres, case info of
                 Qheader h \<Rightarrow> if lres \<le> 0 then None
                              else Some (hdico h, take FSA_SIZEOF_MAGIC (hmagic h), hfsid h)
               | _ \<Rightarrow> None, q))
       (queue_dequeue_header_internal q)"

definition queuelocked_is_first_item_ready :: "cqueue \<Rightarrow> bool" where
  "queuelocked_is_first_item_ready q =
     (case qhead q of
        [] \<Rightarrow> False
      | cur # _ \<Rightarrow>
          if itype cur = QITEM_TYPE_HEADER then True
          else if itype cur = QITEM_TYPE_BLOCK \<and> istatus cur = QITEM_STATUS_DONE then True
          else False)"

definition queue_check_next_item :: "cqueue \<Rightarrow> (int \<times> qtype \<times> u8 list) option" where
  "queue_check_next_item q =
     (let magic = replicate FSA_SIZEOF_MAGIC 0
      in if first_not_ready q \<and> \<not> queuelocked_get_end_of_queue q then None
         else if queuelocked_get_end_of_queue q then Some (FSAERR_ENDOFFILE, QITEM_TYPE_NULL, magic)
         else case qhead q of
           [] \<Rightarrow> Some (FSAERR_ENOENT, QITEM_TYPE_NULL, magic)
         | cur # _ \<Rightarrow>
             (case itype cur of
                QITEM_TYPE_BLOCK \<Rightarrow> Some (FSAERR_SUCCESS, QITEM_TYPE_BLOCK, magic)
              | QITEM_TYPE_HEADER \<Rightarrow>
                  Some (FSAERR_SUCCESS, QITEM_TYPE_HEADER, take FSA_SIZEOF_MAGIC (hmagic (iheadinfo cur)))
              | QITEM_TYPE_NULL \<Rightarrow> Some (FSAERR_EINVAL, QITEM_TYPE_NULL, magic)))"

definition queue_destroy_first_item :: "cqueue \<Rightarrow> (int \<times> cqueue) option" where
  "queue_destroy_first_item q =
     (if (case qhead q of [] \<Rightarrow> True | cur # _ \<Rightarrow> istatus cur = QITEM_STATUS_PROGRESS)
         \<and> \<not> queuelocked_get_end_of_queue q then None
      else if queuelocked_get_end_of_queue q then Some (FSAERR_ENDOFFILE, q)
      else case qhead q of
        [] \<Rightarrow> None
      | cur # items \<Rightarrow>
          (let q = (if itype cur = QITEM_TYPE_BLOCK then q\<lparr>blkcount := blkcount q - 1\<rparr> else q)
           in Some (FSAERR_SUCCESS, q\<lparr>qhead := items, itemcount := itemcount q - 1\<rparr>)))"

section \<open>Invariant\<close>

definition is_block :: "cqueueitem \<Rightarrow> bool" where
  "is_block i \<longleftrightarrow> itype i = QITEM_TYPE_BLOCK"

definition item_ok :: "cqueueitem \<Rightarrow> bool" where
  "item_ok i \<longleftrightarrow> itype i \<noteq> QITEM_TYPE_NULL \<and>
     (itype i = QITEM_TYPE_HEADER \<longrightarrow> istatus i = QITEM_STATUS_DONE)"

definition queue_inv :: "cqueue \<Rightarrow> bool" where
  "queue_inv q \<longleftrightarrow>
     itemcount q = int (length (qhead q)) \<and>
     blkcount q = int (length (filter is_block (qhead q))) \<and>
     sorted_wrt (<) (map itemnum (qhead q)) \<and>
     (\<forall>i \<in> set (qhead q). 0 < itemnum i \<and> itemnum i < curitemnum q \<and> item_ok i) \<and>
     0 < curitemnum q \<and> 0 \<le> blkmax q \<and> blkcount q \<le> blkmax q + 1"

named_theorems queue_defs \<open>the queue's operations\<close>

declare queue_add_block_link_def [queue_defs] queue_add_header_link_def [queue_defs]
  queue_dequeue_first_def [queue_defs] queue_dequeue_block_def [queue_defs]
  queue_dequeue_header_internal_def [queue_defs] queue_destroy_first_item_def [queue_defs]
  queuelocked_get_end_of_queue_def [queue_defs] first_not_ready_def [queue_defs]

lemma queue_init_inv: "0 \<le> n \<Longrightarrow> queue_inv (queue_init n)"
  by (simp add: queue_inv_def queue_init_def)

lemma queue_inv_snoc:
  assumes "queue_inv q" and "item_ok item" and "itemnum item = curitemnum q" and "blkcount q \<le> blkmax q"
    and "qhead q' = qhead q @ [item]" "itemcount q' = itemcount q + 1" "curitemnum q' = curitemnum q + 1"
      "blkmax q' = blkmax q" "blkcount q' = (if is_block item then blkcount q + 1 else blkcount q)"
  shows "queue_inv q'"
proof -
  have "0 < itemnum i \<and> itemnum i < curitemnum q + 1 \<and> item_ok i" if "i \<in> set (qhead q @ [item])" for i
    using that assms(1-3) by (fastforce simp: queue_inv_def)
  then show ?thesis
    using assms by (auto simp: queue_inv_def sorted_wrt_append)
qed

lemma add_block_link_inv:
  "queue_inv q \<Longrightarrow> queue_add_block_link q b st = Some q' \<Longrightarrow> queue_inv q'"
  by (rule queue_inv_snoc [of q "\<lparr>itype = QITEM_TYPE_BLOCK, istatus = st, itemnum = curitemnum q,
        iblkinfo = b, iheadinfo = zero_headinfo\<rparr>"])
    (auto simp: queue_add_block_link_def Let_def is_block_def item_ok_def split: if_splits)

lemma add_header_link_inv:
  "queue_inv q \<Longrightarrow> queue_add_header_link q h = Some q' \<Longrightarrow> queue_inv q'"
  by (rule queue_inv_snoc [of q "\<lparr>itype = QITEM_TYPE_HEADER, istatus = QITEM_STATUS_DONE,
        itemnum = curitemnum q, iblkinfo = zero_blockinfo, iheadinfo = h\<rparr>"])
    (auto simp: queue_add_header_link_def Let_def is_block_def item_ok_def split: if_splits)

lemma queue_inv_tl:
  assumes "queue_inv q" and "qhead q = cur # items"
    and "qhead q' = items" "itemcount q' = itemcount q - 1" "curitemnum q' = curitemnum q" "blkmax q' = blkmax q"
    and "blkcount q' = (if is_block cur then blkcount q - 1 else blkcount q)"
  shows "queue_inv q'"
  using assms by (auto simp: queue_inv_def split: if_splits)

lemma dequeue_first_inv: "queue_inv q \<Longrightarrow> queue_dequeue_first q = Some (n, info, q') \<Longrightarrow> queue_inv q'"
  by (auto simp: queue_dequeue_first_def is_block_def split: if_splits list.splits qtype.splits
      intro: queue_inv_tl)

lemma dequeue_block_inv: "queue_inv q \<Longrightarrow> queue_dequeue_block q = Some (n, info, q') \<Longrightarrow> queue_inv q'"
  by (auto simp: queue_dequeue_block_def is_block_def split: if_splits list.splits intro: queue_inv_tl)

lemma dequeue_header_inv: "queue_inv q \<Longrightarrow> queue_dequeue_header_internal q = Some (n, info, q') \<Longrightarrow> queue_inv q'"
  by (auto simp: queue_dequeue_header_internal_def is_block_def split: if_splits list.splits qtype.splits
      intro: queue_inv_tl)

lemma destroy_first_inv: "queue_inv q \<Longrightarrow> queue_destroy_first_item q = Some (n, q') \<Longrightarrow> queue_inv q'"
  by (auto simp: queue_destroy_first_item_def is_block_def Let_def split: if_splits list.splits
      intro: queue_inv_tl)

text \<open>Replacing or marking a block changes neither the order nor the numbers.\<close>

definition same_shape :: "cqueueitem \<Rightarrow> cqueueitem \<Rightarrow> bool" where
  "same_shape i j \<longleftrightarrow> itemnum i = itemnum j \<and> itype i = itype j \<and> (item_ok i \<longrightarrow> item_ok j)"

lemma same_shape_refl [simp]: "same_shape i i"
  by (simp add: same_shape_def)

lemma queue_inv_shape:
  assumes "queue_inv q" and "list_all2 same_shape (qhead q) items"
  shows "queue_inv (q\<lparr>qhead := items\<rparr>)"
proof -
  have "map itemnum items = map itemnum (qhead q) \<and> length (filter is_block items) = length (filter is_block (qhead q))"
    using assms(2) by (induction rule: list_all2_induct) (auto simp: same_shape_def is_block_def)
  moreover have "\<forall>j \<in> set items. \<exists>i \<in> set (qhead q). same_shape i j"
    using assms(2) by (induction rule: list_all2_induct) auto
  ultimately show ?thesis
    using assms list_all2_lengthD [OF assms(2)]
    by (auto simp: queue_inv_def same_shape_def) metis+
qed

lemma first_todo_split:
  "first_todo items = Some (n, b, items') \<Longrightarrow>
   \<exists>xs cur ys. items = xs @ cur # ys \<and> items' = xs @ cur\<lparr>istatus := QITEM_STATUS_PROGRESS\<rparr> # ys \<and>
     itype cur = QITEM_TYPE_BLOCK \<and> istatus cur = QITEM_STATUS_TODO \<and> itemnum cur = n \<and> iblkinfo cur = b \<and>
     (\<forall>i \<in> set xs. \<not> (itype i = QITEM_TYPE_BLOCK \<and> istatus i = QITEM_STATUS_TODO))"
proof (induction items arbitrary: items')
  case (Cons cur items)
  show ?case
  proof (cases "itype cur = QITEM_TYPE_BLOCK \<and> istatus cur = QITEM_STATUS_TODO")
    case True
    then show ?thesis using Cons.prems by (intro exI [of _ "[]"]) auto
  next
    case False
    then obtain items'' where i: "first_todo items = Some (n, b, items'')" "items' = cur # items''"
      using Cons.prems by auto
    from Cons.IH [OF i(1)] obtain xs c ys where c:
      "items = xs @ c # ys" "items'' = xs @ c\<lparr>istatus := QITEM_STATUS_PROGRESS\<rparr> # ys"
      "itype c = QITEM_TYPE_BLOCK" "istatus c = QITEM_STATUS_TODO" "itemnum c = n" "iblkinfo c = b"
      "\<forall>i \<in> set xs. \<not> (itype i = QITEM_TYPE_BLOCK \<and> istatus i = QITEM_STATUS_TODO)" by blast
    then show ?thesis using False i by (intro exI [of _ "cur # xs"] exI [of _ c] exI [of _ ys]) auto
  qed
qed simp

lemma first_todo_None:
  "first_todo items = None \<longleftrightarrow> (\<forall>i \<in> set items. \<not> (itype i = QITEM_TYPE_BLOCK \<and> istatus i = QITEM_STATUS_TODO))"
  by (induction items) auto

lemma replace_item_split:
  "replace_item items num b st = Some items' \<Longrightarrow>
   \<exists>xs cur ys. items = xs @ cur # ys \<and> items' = xs @ cur\<lparr>istatus := st, iblkinfo := b\<rparr> # ys \<and>
     itemnum cur = num \<and> (\<forall>i \<in> set xs. itemnum i \<noteq> num)"
proof (induction items arbitrary: items')
  case (Cons cur items)
  show ?case
  proof (cases "itemnum cur = num")
    case True
    then show ?thesis using Cons.prems by (intro exI [of _ "[]"]) auto
  next
    case False
    then obtain items'' where i: "replace_item items num b st = Some items''" "items' = cur # items''"
      using Cons.prems by auto
    from Cons.IH [OF i(1)] obtain xs c ys where c:
      "items = xs @ c # ys" "items'' = xs @ c\<lparr>istatus := st, iblkinfo := b\<rparr> # ys" "itemnum c = num"
      "\<forall>i \<in> set xs. itemnum i \<noteq> num" by blast
    then show ?thesis using False i by (intro exI [of _ "cur # xs"] exI [of _ c] exI [of _ ys]) auto
  qed
qed simp

lemma replace_item_None: "replace_item items num b st = None \<longleftrightarrow> num \<notin> itemnum ` set items"
  by (induction items) auto

lemma list_all2_same_shape_mid:
  "same_shape x y \<Longrightarrow> list_all2 same_shape (xs @ x # ys) (xs @ y # ys)"
  by (intro list_all2_appendI) (auto intro: list_all2_refl)

lemma get_todo_inv:
  assumes "queue_inv q" and "queue_get_first_block_todo w q = Some (n, b, q')"
  shows "queue_inv q'"
proof (cases "queuelocked_get_end_of_queue q \<or> first_todo (qhead q) = None")
  case True
  then show ?thesis using assms by (auto simp: queue_get_first_block_todo_def split: if_splits)
next
  case False
  then obtain items where i: "first_todo (qhead q) = Some (n, b, items)" "q' = q\<lparr>qhead := items\<rparr>"
    using assms(2) by (auto simp: queue_get_first_block_todo_def)
  from first_todo_split [OF i(1)] have "list_all2 same_shape (qhead q) items"
    by (elim exE conjE) (simp, intro list_all2_same_shape_mid, simp add: same_shape_def item_ok_def)
  then show ?thesis using queue_inv_shape [OF assms(1)] i(2) by simp
qed

text \<open>Taking a block to work on it and putting it back only let the state of an item grow; all items stay.\<close>

definition item_forward :: "cqueueitem \<Rightarrow> cqueueitem \<Rightarrow> bool" where
  "item_forward i j \<longleftrightarrow> itemnum j = itemnum i \<and> itype j = itype i \<and> istatus i \<le> istatus j"

lemma item_forward_refl [simp]: "item_forward i i"
  by (simp add: item_forward_def)

lemma list_all2_forward_mid: "item_forward x y \<Longrightarrow> list_all2 item_forward (xs @ x # ys) (xs @ y # ys)"
  by (intro list_all2_appendI) (auto intro: list_all2_refl)

lemma get_todo_forward:
  assumes "queue_get_first_block_todo w q = Some (n, b, q')"
  shows "list_all2 item_forward (qhead q) (qhead q')"
proof (cases "q' = q")
  case False
  then obtain items where "first_todo (qhead q) = Some (n, b, items)" "q' = q\<lparr>qhead := items\<rparr>"
    using assms by (auto simp: queue_get_first_block_todo_def split: if_splits option.splits)
  with first_todo_split [OF this(1)] show ?thesis
    by (elim exE conjE) (simp, intro list_all2_forward_mid, simp add: item_forward_def less_eq_qstatus_def)
qed (simp add: list_all2_refl)

lemma replace_block_forward:
  assumes "queue_replace_block q num b QITEM_STATUS_DONE = (r, q')"
  shows "list_all2 item_forward (qhead q) (qhead q')"
proof (cases "q' = q")
  case False
  then obtain items where "replace_item (qhead q) num b QITEM_STATUS_DONE = Some items" "q' = q\<lparr>qhead := items\<rparr>"
    using assms by (auto simp: queue_replace_block_def split: if_splits option.splits)
  with replace_item_split [OF this(1)] show ?thesis
    by (elim exE conjE) (simp, intro list_all2_forward_mid, simp add: item_forward_def)
qed (simp add: list_all2_refl)

lemma replace_block_inv:
  assumes inv: "queue_inv q" and r: "queue_replace_block q num b st = (r, q')"
    and blk: "\<And>i. i \<in> set (qhead q) \<Longrightarrow> itemnum i = num \<Longrightarrow> itype i = QITEM_TYPE_BLOCK"
  shows "queue_inv q'"
proof (cases "replace_item (qhead q) num b st")
  case None
  then show ?thesis using inv r by (auto simp: queue_replace_block_def split: if_splits)
next
  case (Some items)
  then have q': "q' = q\<lparr>qhead := items\<rparr>" using r by (auto simp: queue_replace_block_def split: if_splits)
  obtain xs cur ys where s: "qhead q = xs @ cur # ys" "items = xs @ cur\<lparr>istatus := st, iblkinfo := b\<rparr> # ys"
    "itemnum cur = num" using replace_item_split [OF Some] by blast
  have "list_all2 same_shape (qhead q) items"
    unfolding s using blk [of cur] s by (intro list_all2_same_shape_mid) (simp add: same_shape_def item_ok_def)
  then show ?thesis using queue_inv_shape [OF inv] q' by simp
qed

section \<open>The queue as a work queue\<close>

definition item_view :: "cqueueitem \<Rightarrow> qstatus \<times> qinfo" where
  "item_view i = (istatus i, if itype i = QITEM_TYPE_BLOCK then Qblock (iblkinfo i) else Qheader (iheadinfo i))"

definition queue_contents :: "cqueue \<Rightarrow> (qstatus \<times> qinfo) list" where
  "queue_contents q = map item_view (qhead q)"

text \<open>Adding a block with a status or a header, and taking the first item: None when the caller waits or
  the queue is at its end.\<close>

definition queue_enq :: "cqueue \<Rightarrow> qstatus \<times> qinfo \<Rightarrow> cqueue option" where
  "queue_enq q = (\<lambda>(st, info). case info of
     Qblock b \<Rightarrow> queue_add_block_link q b st
   | Qheader h \<Rightarrow> if st = QITEM_STATUS_DONE then queue_add_header_link q h else None
   | Qnone \<Rightarrow> None)"

definition queue_deq :: "cqueue \<Rightarrow> ((qstatus \<times> qinfo) \<times> cqueue) option" where
  "queue_deq q = (case queue_dequeue_first q of
     None \<Rightarrow> None
   | Some (n, info, q') \<Rightarrow> if n > 0 then Some ((QITEM_STATUS_DONE, info), q') else None)"

lemma not_end_if_item: "queue_inv q \<Longrightarrow> qhead q = cur # items \<Longrightarrow> \<not> queuelocked_get_end_of_queue q"
  by (simp add: queue_inv_def queuelocked_get_end_of_queue_def)

lemma dequeue_first_Cons:
  assumes inv: "queue_inv q" and q: "qhead q = cur # items" and ready: "istatus cur = QITEM_STATUS_DONE"
  shows "\<exists>q'. queue_dequeue_first q = Some (itemnum cur, snd (item_view cur), q') \<and> qhead q' = items \<and>
    endofqueue q' = endofqueue q"
proof -
  have "itype cur = QITEM_TYPE_BLOCK \<or> itype cur = QITEM_TYPE_HEADER"
    using inv q by (cases "itype cur") (auto simp: queue_inv_def item_ok_def)
  then show ?thesis
    using not_end_if_item [OF inv q] q ready
    by (auto simp: queue_dequeue_first_def item_view_def)
qed

lemma queue_deq_iff:
  assumes inv: "queue_inv q"
  shows "queue_deq q = Some (x, q') \<longleftrightarrow>
    (\<exists>cur items. qhead q = cur # items \<and> istatus cur = QITEM_STATUS_DONE \<and> x = item_view cur \<and>
      queue_dequeue_first q = Some (itemnum cur, snd x, q') \<and> qhead q' = items)"
proof (cases "qhead q")
  case Nil
  then show ?thesis by (auto simp: queue_deq_def queue_dequeue_first_def FSAERR_ENDOFFILE_def)
next
  case (Cons cur items)
  have pos: "0 < itemnum cur" using inv Cons by (simp add: queue_inv_def)
  show ?thesis
  proof (cases "istatus cur = QITEM_STATUS_DONE")
    case True
    then show ?thesis
      using dequeue_first_Cons [OF inv Cons True] Cons pos by (auto simp: queue_deq_def item_view_def)
  next
    case False
    then show ?thesis
      using Cons not_end_if_item [OF inv Cons] by (simp add: queue_deq_def queue_dequeue_first_def)
  qed
qed

interpretation wq: work_queue queue_contents queue_inv queue_enq queue_deq "\<lambda>x. fst x = QITEM_STATUS_DONE"
proof
  fix q q' :: cqueue and x :: "qstatus \<times> qinfo" and xs
  assume inv: "queue_inv q"
  show "queue_enq q x = Some q' \<Longrightarrow> queue_inv q' \<and> queue_contents q' = queue_contents q @ [x]"
    using inv add_block_link_inv [OF inv] add_header_link_inv [OF inv]
    by (cases x; cases "snd x")
      (auto simp: queue_enq_def queue_contents_def queue_add_block_link_def queue_add_header_link_def
        item_view_def Let_def split: if_splits)
  show "queue_deq q = Some (x, q') \<Longrightarrow>
      queue_inv q' \<and> queue_contents q = x # queue_contents q' \<and> fst x = QITEM_STATUS_DONE"
    using inv dequeue_first_inv [OF inv]
    by (auto simp: queue_deq_iff queue_contents_def item_view_def)
  show "queue_contents q = x # xs \<Longrightarrow> fst x = QITEM_STATUS_DONE \<Longrightarrow> \<exists>q'. queue_deq q = Some (x, q')"
    using dequeue_first_Cons [OF inv]
    by (cases "qhead q") (auto simp: queue_deq_iff [OF inv] queue_contents_def item_view_def)
qed

text \<open>What matters of an item to the consumer on the restoring side.\<close>

fun content_of :: "qinfo \<Rightarrow> qinfo" where
  "content_of (Qblock b) =
     Qblock (zero_blockinfo\<lparr>blkdata := blkdata b, blkrealsize := blkrealsize b, blkoffset := blkoffset b\<rparr>)"
| "content_of info = info"

end
