(* ===== verification/Pipeline.thy ===== *)
theory Pipeline
  imports Queue
begin

text \<open>The threads around the queue as a step relation: one thread adds headers and blocks, any number of
  compression threads take a block, work on a copy and put the result back, and one thread takes the
  finished items from the front (thread_comp.c and thread_archio.c). \<open>f\<close> is the work of a compression
  thread: None is the error that makes the thread exit without putting the block back. What was added and
  what was taken is kept as a history. \<open>pipe_step\<close> is the run of these threads as long as the consumer takes
  finished items; \<open>run_step\<close>, below, adds everything else that removes items, in particular the emptying of
  the queue after an error.\<close>

record pipeline =
  pq :: cqueue
  pjobs :: "(int \<times> cblockinfo) set"
  pdead :: "(int \<times> cblockinfo) set"
  padded :: "(qstatus \<times> qinfo) list"
  ptaken :: "qinfo list"

definition pipe_init :: "int \<Rightarrow> pipeline" where
  "pipe_init maxblk = \<lparr>pq = queue_init maxblk, pjobs = {}, pdead = {}, padded = [], ptaken = []\<rparr>"

inductive pipe_step :: "(cblockinfo \<Rightarrow> cblockinfo option) \<Rightarrow> pipeline \<Rightarrow> pipeline \<Rightarrow> bool"
  for f :: "cblockinfo \<Rightarrow> cblockinfo option" where
  step_add_block:
    "queue_add_block_link (pq s) b st = Some q \<Longrightarrow> st = QITEM_STATUS_TODO \<or> st = QITEM_STATUS_DONE \<Longrightarrow>
     pipe_step f s (s\<lparr>pq := q, padded := padded s @ [(st, Qblock b)]\<rparr>)"
| step_add_header:
    "queue_add_header_link (pq s) h = Some q \<Longrightarrow>
     pipe_step f s (s\<lparr>pq := q, padded := padded s @ [(QITEM_STATUS_DONE, Qheader h)]\<rparr>)"
| step_take_job:
    "queue_get_first_block_todo True (pq s) = Some (n, b, q) \<Longrightarrow> n > 0 \<Longrightarrow>
     pipe_step f s (s\<lparr>pq := q, pjobs := insert (n, b) (pjobs s)\<rparr>)"
| step_finish_job:
    "(n, b) \<in> pjobs s \<Longrightarrow> f b = Some b' \<Longrightarrow>
     queue_replace_block (pq s) n b' QITEM_STATUS_DONE = (r, q) \<Longrightarrow>
     pipe_step f s (s\<lparr>pq := q, pjobs := pjobs s - {(n, b)}\<rparr>)"
| step_fail_job:
    "(n, b) \<in> pjobs s \<Longrightarrow> f b = None \<Longrightarrow>
     pipe_step f s (s\<lparr>pjobs := pjobs s - {(n, b)}, pdead := insert (n, b) (pdead s)\<rparr>)"
| step_dequeue:
    "queue_deq (pq s) = Some (x, q) \<Longrightarrow>
     pipe_step f s (s\<lparr>pq := q, ptaken := ptaken s @ [snd x]\<rparr>)"
| step_end_of_queue:
    "queue_set_end_of_queue (pq s) e = (r, q) \<Longrightarrow> pipe_step f s (s\<lparr>pq := q\<rparr>)"

inductive pipe_reach :: "(cblockinfo \<Rightarrow> cblockinfo option) \<Rightarrow> pipeline \<Rightarrow> pipeline \<Rightarrow> bool"
  for f :: "cblockinfo \<Rightarrow> cblockinfo option" where
  reach_refl: "pipe_reach f s s"
| reach_step: "pipe_reach f s t \<Longrightarrow> pipe_step f t u \<Longrightarrow> pipe_reach f s u"

text \<open>What a consumer gets for an item that was added with a status.\<close>

definition processed :: "(cblockinfo \<Rightarrow> cblockinfo option) \<Rightarrow> qstatus \<times> qinfo \<Rightarrow> qinfo" where
  "processed f x = (case x of
     (QITEM_STATUS_TODO, Qblock b) \<Rightarrow> (case f b of Some b' \<Rightarrow> Qblock b' | None \<Rightarrow> Qnone)
   | (_, info) \<Rightarrow> info)"

lemma processed_simps [simp]:
  "processed f (QITEM_STATUS_DONE, info) = info"
  "processed f (QITEM_STATUS_TODO, Qblock b) = (case f b of Some b' \<Rightarrow> Qblock b' | None \<Rightarrow> Qnone)"
  by (simp_all add: processed_def)

section \<open>Invariant\<close>

definition in_progress :: "cqueue \<Rightarrow> int \<times> cblockinfo \<Rightarrow> bool" where
  "in_progress q j \<longleftrightarrow> (\<exists>i \<in> set (qhead q). itemnum i = fst j \<and> iblkinfo i = snd j \<and>
     itype i = QITEM_TYPE_BLOCK \<and> istatus i = QITEM_STATUS_PROGRESS)"

definition item_rel ::
    "(cblockinfo \<Rightarrow> cblockinfo option) \<Rightarrow> (int \<times> cblockinfo) set \<Rightarrow> qstatus \<times> qinfo \<Rightarrow> cqueueitem \<Rightarrow> bool" where
  "item_rel f jobs x i \<longleftrightarrow>
     (case istatus i of
        QITEM_STATUS_TODO \<Rightarrow> itype i = QITEM_TYPE_BLOCK \<and> x = (QITEM_STATUS_TODO, Qblock (iblkinfo i))
      | QITEM_STATUS_PROGRESS \<Rightarrow> itype i = QITEM_TYPE_BLOCK \<and> x = (QITEM_STATUS_TODO, Qblock (iblkinfo i))
          \<and> (itemnum i, iblkinfo i) \<in> jobs
      | QITEM_STATUS_DONE \<Rightarrow> snd (item_view i) = processed f x
      | QITEM_STATUS_NULL \<Rightarrow> False)"

definition pipe_inv :: "(cblockinfo \<Rightarrow> cblockinfo option) \<Rightarrow> pipeline \<Rightarrow> bool" where
  "pipe_inv f s \<longleftrightarrow> queue_inv (pq s) \<and>
     (\<forall>j \<in> pjobs s \<union> pdead s. in_progress (pq s) j) \<and> (\<forall>(n, b) \<in> pdead s. f b = None) \<and>
     (\<exists>old new. padded s = old @ new \<and> ptaken s = map (processed f) old \<and>
        list_all2 (item_rel f (pjobs s \<union> pdead s)) new (qhead (pq s)))"

lemma pipe_invI:
  assumes "queue_inv (pq s)" and "\<And>j. j \<in> pjobs s \<union> pdead s \<Longrightarrow> in_progress (pq s) j"
    and "\<And>n b. (n, b) \<in> pdead s \<Longrightarrow> f b = None"
    and "padded s = old @ new" and "ptaken s = map (processed f) old"
    and "list_all2 (item_rel f (pjobs s \<union> pdead s)) new (qhead (pq s))"
  shows "pipe_inv f s"
  using assms unfolding pipe_inv_def by blast

lemma itemnum_inj:
  assumes "queue_inv q" and "i \<in> set (qhead q)" and "j \<in> set (qhead q)" and "itemnum i = itemnum j"
  shows "i = j"
proof -
  have "distinct (map itemnum (qhead q))"
    using assms(1) by (auto simp: queue_inv_def strict_sorted_iff)
  then show ?thesis using assms(2-4) by (auto simp: distinct_map dest: inj_onD)
qed

lemma item_rel_mono: "item_rel f J x i \<Longrightarrow> J \<subseteq> K \<Longrightarrow> item_rel f K x i"
  by (auto simp: item_rel_def split: qstatus.splits)

lemma in_progress_mono: "in_progress q j \<Longrightarrow> set (qhead q) \<subseteq> set (qhead q') \<Longrightarrow> in_progress q' j"
  by (auto simp: in_progress_def)

lemma pipe_inv_init: "0 \<le> n \<Longrightarrow> pipe_inv f (pipe_init n)"
  by (rule pipe_invI [where old = "[]" and new = "[]"])
    (simp_all add: pipe_init_def queue_init_inv, simp add: queue_init_def)

text \<open>One lemma for each kind of step.\<close>

lemma pipe_inv_snoc:
  assumes inv: "pipe_inv f s" and q: "queue_inv q" "qhead q = qhead (pq s) @ [item]"
    and rel: "item_rel f {} x item"
  shows "pipe_inv f (s\<lparr>pq := q, padded := padded s @ [x]\<rparr>)"
proof -
  obtain old new where h: "padded s = old @ new" "ptaken s = map (processed f) old"
    "list_all2 (item_rel f (pjobs s \<union> pdead s)) new (qhead (pq s))"
    using inv by (auto simp: pipe_inv_def)
  have "list_all2 (item_rel f (pjobs s \<union> pdead s)) (new @ [x]) (qhead q)"
    unfolding q(2) using h(3) item_rel_mono [OF rel] by (simp add: list_all2_appendI)
  moreover have "in_progress q j" if "j \<in> pjobs s \<union> pdead s" for j
    using inv that q(2) by (auto simp: pipe_inv_def intro: in_progress_mono [of "pq s"])
  ultimately show ?thesis
    using inv q h by (intro pipe_invI [where old = old and new = "new @ [x]"]) (auto simp: pipe_inv_def)
qed

text \<open>Exchanging one item: \<open>jobs\<close> is the set of jobs and failed jobs afterwards.\<close>

lemma list_all2_exchange:
  assumes "list_all2 P new (xs @ i # ys)"
    and "\<And>x. P x i \<Longrightarrow> Q x i'"
    and "\<And>x j. j \<in> set xs \<union> set ys \<Longrightarrow> P x j \<Longrightarrow> Q x j"
  shows "list_all2 Q new (xs @ i' # ys)"
proof -
  obtain as x bs where n: "new = as @ x # bs" "list_all2 P as xs" "P x i" "list_all2 P bs ys"
    using assms(1) by (auto simp: list_all2_append2 list_all2_Cons2)
  have "list_all2 Q as xs" by (rule list.rel_mono_strong [OF n(2)]) (simp add: assms(3))
  moreover have "list_all2 Q bs ys" by (rule list.rel_mono_strong [OF n(4)]) (simp add: assms(3))
  ultimately show ?thesis using n assms(2) by (simp add: list_all2_appendI)
qed

lemma pipe_inv_take_job:
  assumes inv: "pipe_inv f s" and take: "queue_get_first_block_todo True (pq s) = Some (n, b, q)" "n > 0"
  shows "pipe_inv f (s\<lparr>pq := q, pjobs := insert (n, b) (pjobs s)\<rparr>)"
proof -
  have qi: "queue_inv (pq s)" using inv by (simp add: pipe_inv_def)
  obtain items where ft: "first_todo (qhead (pq s)) = Some (n, b, items)" "q = (pq s)\<lparr>qhead := items\<rparr>"
    using take by (auto simp: queue_get_first_block_todo_def FSAERR_ENDOFFILE_def split: if_splits option.splits)
  from first_todo_split [OF ft(1)] obtain xs cur ys where c: "qhead (pq s) = xs @ cur # ys"
    "items = xs @ cur\<lparr>istatus := QITEM_STATUS_PROGRESS\<rparr> # ys" "itype cur = QITEM_TYPE_BLOCK"
    "istatus cur = QITEM_STATUS_TODO" "itemnum cur = n" "iblkinfo cur = b" by blast
  obtain old new where h: "padded s = old @ new" "ptaken s = map (processed f) old"
    "list_all2 (item_rel f (pjobs s \<union> pdead s)) new (xs @ cur # ys)"
    using inv c by (auto simp: pipe_inv_def)
  have "list_all2 (item_rel f (insert (n, b) (pjobs s) \<union> pdead s)) new items"
    unfolding c(2) using c(3-6)
    by (intro list_all2_exchange [OF h(3)]) (auto simp: item_rel_def split: qstatus.splits)
  moreover have "in_progress q j" if "j \<in> insert (n, b) (pjobs s) \<union> pdead s" for j
  proof (cases "j = (n, b)")
    case True
    then show ?thesis using c ft(2) by (auto simp: in_progress_def)
  next
    case False
    then have "in_progress (pq s) j" using inv that by (auto simp: pipe_inv_def)
    then obtain i where "i \<in> set (xs @ cur # ys)" "itemnum i = fst j" "iblkinfo i = snd j"
      "itype i = QITEM_TYPE_BLOCK" "istatus i = QITEM_STATUS_PROGRESS" using c(1) by (auto simp: in_progress_def)
    moreover from this have "i \<noteq> cur" using c(4) by auto
    ultimately show ?thesis using c(2) ft(2) by (auto simp: in_progress_def)
  qed
  ultimately show ?thesis
    using inv h get_todo_inv [OF qi take(1)] ft(2)
    by (intro pipe_invI [where old = old and new = new]) (auto simp: pipe_inv_def)
qed

lemma pipe_inv_finish_job:
  assumes inv: "pipe_inv f s" and job: "(n, b) \<in> pjobs s" and b': "f b = Some b'"
    and rep: "queue_replace_block (pq s) n b' QITEM_STATUS_DONE = (r, q)"
  shows "r = FSAERR_SUCCESS \<and> pipe_inv f (s\<lparr>pq := q, pjobs := pjobs s - {(n, b)}\<rparr>)"
proof -
  have qi: "queue_inv (pq s)" using inv by (simp add: pipe_inv_def)
  have "in_progress (pq s) (n, b)" using inv job by (auto simp: pipe_inv_def)
  then obtain i where i: "i \<in> set (qhead (pq s))" "itemnum i = n" "iblkinfo i = b" "itype i = QITEM_TYPE_BLOCK"
    "istatus i = QITEM_STATUS_PROGRESS" by (auto simp: in_progress_def)
  have "replace_item (qhead (pq s)) n b' QITEM_STATUS_DONE \<noteq> None"
    using i by (auto simp: replace_item_None)
  then obtain items where it: "replace_item (qhead (pq s)) n b' QITEM_STATUS_DONE = Some items" by auto
  have ne: "qhead (pq s) \<noteq> []" using i by auto
  have q: "r = FSAERR_SUCCESS" "q = (pq s)\<lparr>qhead := items\<rparr>"
    using rep it ne by (auto simp: queue_replace_block_def)
  obtain xs cur ys where c: "qhead (pq s) = xs @ cur # ys"
    "items = xs @ cur\<lparr>istatus := QITEM_STATUS_DONE, iblkinfo := b'\<rparr> # ys" "itemnum cur = n"
    using replace_item_split [OF it] by blast
  have cur: "cur = i" using itemnum_inj [OF qi, of cur i] i c by simp
  have others: "itemnum j \<noteq> n" if "j \<in> set xs \<union> set ys" for j
  proof -
    have "distinct (map itemnum (xs @ cur # ys))" using qi c(1) by (auto simp: queue_inv_def strict_sorted_iff)
    then show ?thesis using that c(3) by (auto simp: image_iff)
  qed
  have qinv: "queue_inv q"
    by (rule replace_block_inv [OF qi rep]) (use itemnum_inj [OF qi _ i(1)] i in auto)
  obtain old new where h: "padded s = old @ new" "ptaken s = map (processed f) old"
    "list_all2 (item_rel f (pjobs s \<union> pdead s)) new (xs @ cur # ys)"
    using inv c by (auto simp: pipe_inv_def)
  have "list_all2 (item_rel f (pjobs s - {(n, b)} \<union> pdead s)) new items"
    unfolding c(2)
  proof (rule list_all2_exchange [OF h(3)])
    show "item_rel f (pjobs s \<union> pdead s) x cur \<Longrightarrow>
        item_rel f (pjobs s - {(n, b)} \<union> pdead s) x (cur\<lparr>istatus := QITEM_STATUS_DONE, iblkinfo := b'\<rparr>)" for x
      using i b' cur by (auto simp: item_rel_def item_view_def)
    show "j \<in> set xs \<union> set ys \<Longrightarrow> item_rel f (pjobs s \<union> pdead s) x j \<Longrightarrow>
        item_rel f (pjobs s - {(n, b)} \<union> pdead s) x j" for x j
      using others [of j] by (auto simp: item_rel_def split: qstatus.splits)
  qed
  moreover have "in_progress q j" if j: "j \<in> pjobs s - {(n, b)} \<union> pdead s" for j
  proof -
    have "in_progress (pq s) j" using inv j by (auto simp: pipe_inv_def)
    then obtain k where k: "k \<in> set (qhead (pq s))" "itemnum k = fst j" "iblkinfo k = snd j"
      "itype k = QITEM_TYPE_BLOCK" "istatus k = QITEM_STATUS_PROGRESS" by (auto simp: in_progress_def)
    have "j \<noteq> (n, b)" using j inv b' by (auto simp: pipe_inv_def)
    then have "k \<noteq> cur" using k i cur by auto
    then show ?thesis using k c q(2) by (auto simp: in_progress_def)
  qed
  ultimately have "pipe_inv f (s\<lparr>pq := q, pjobs := pjobs s - {(n, b)}\<rparr>)"
    using inv h qinv q(2)
    by (intro pipe_invI [where old = old and new = new]) (auto simp: pipe_inv_def)
  then show ?thesis using q(1) by simp
qed

lemma pipe_inv_fail_job:
  assumes "pipe_inv f s" and "(n, b) \<in> pjobs s" and "f b = None"
  shows "pipe_inv f (s\<lparr>pjobs := pjobs s - {(n, b)}, pdead := insert (n, b) (pdead s)\<rparr>)"
proof -
  have "pjobs s - {(n, b)} \<union> insert (n, b) (pdead s) = pjobs s \<union> pdead s" using assms(2) by auto
  then show ?thesis using assms by (auto simp: pipe_inv_def)
qed

lemma pipe_inv_dequeue:
  assumes inv: "pipe_inv f s" and deq: "queue_deq (pq s) = Some (x, q)"
  shows "pipe_inv f (s\<lparr>pq := q, ptaken := ptaken s @ [snd x]\<rparr>)"
proof -
  have qi: "queue_inv (pq s)" using inv by (simp add: pipe_inv_def)
  obtain cur where c: "qhead (pq s) = cur # qhead q" "istatus cur = QITEM_STATUS_DONE" "x = item_view cur"
    using deq by (auto simp: queue_deq_iff [OF qi])
  obtain old new where h: "padded s = old @ new" "ptaken s = map (processed f) old"
    "list_all2 (item_rel f (pjobs s \<union> pdead s)) new (cur # qhead q)"
    using inv c by (auto simp: pipe_inv_def)
  then obtain y ys where y: "new = y # ys" "item_rel f (pjobs s \<union> pdead s) y cur"
    "list_all2 (item_rel f (pjobs s \<union> pdead s)) ys (qhead q)" by (auto simp: list_all2_Cons2)
  have "in_progress q j" if "j \<in> pjobs s \<union> pdead s" for j
  proof -
    have "in_progress (pq s) j" using inv that by (auto simp: pipe_inv_def)
    then show ?thesis using c by (auto simp: in_progress_def)
  qed
  moreover have "snd x = processed f y" using y(2) c by (simp add: item_rel_def)
  ultimately show ?thesis
    using inv h y wq.deq_law [OF qi deq]
    by (intro pipe_invI [where old = "old @ [y]" and new = ys]) (auto simp: pipe_inv_def)
qed

lemma pipe_inv_set_end:
  "pipe_inv f s \<Longrightarrow> queue_set_end_of_queue (pq s) e = (r, q) \<Longrightarrow> pipe_inv f (s\<lparr>pq := q\<rparr>)"
proof -
  assume inv: "pipe_inv f s" and "queue_set_end_of_queue (pq s) e = (r, q)"
  then have q: "q = (pq s)\<lparr>endofqueue := e\<rparr>" by (simp add: queue_set_end_of_queue_def)
  have "queue_inv q \<longleftrightarrow> queue_inv (pq s)" "in_progress q j \<longleftrightarrow> in_progress (pq s) j" "qhead q = qhead (pq s)" for j
    by (simp_all add: q queue_inv_def in_progress_def)
  then show ?thesis using inv by (simp add: pipe_inv_def)
qed

lemma pipe_step_inv: "pipe_step f s t \<Longrightarrow> pipe_inv f s \<Longrightarrow> pipe_inv f t"
proof (induction rule: pipe_step.induct)
  case (step_add_block s b st q)
  have "queue_inv q" using step_add_block add_block_link_inv by (auto simp: pipe_inv_def)
  then show ?case
    using step_add_block
    by (intro pipe_inv_snoc [of f s q "\<lparr>itype = QITEM_TYPE_BLOCK, istatus = st, itemnum = curitemnum (pq s),
          iblkinfo = b, iheadinfo = zero_headinfo\<rparr>"])
      (auto simp: queue_add_block_link_def item_rel_def item_view_def split: if_splits)
next
  case (step_add_header s h q)
  have "queue_inv q" using step_add_header add_header_link_inv by (auto simp: pipe_inv_def)
  then show ?case
    using step_add_header
    by (intro pipe_inv_snoc [of f s q "\<lparr>itype = QITEM_TYPE_HEADER, istatus = QITEM_STATUS_DONE,
          itemnum = curitemnum (pq s), iblkinfo = zero_blockinfo, iheadinfo = h\<rparr>"])
      (auto simp: queue_add_header_link_def item_rel_def item_view_def split: if_splits)
qed (simp_all add: pipe_inv_take_job pipe_inv_finish_job pipe_inv_fail_job pipe_inv_dequeue pipe_inv_set_end)

lemma pipe_reach_inv: "pipe_reach f s t \<Longrightarrow> pipe_inv f s \<Longrightarrow> pipe_inv f t"
  by (induction rule: pipe_reach.induct) (auto intro: pipe_step_inv)

section \<open>Properties\<close>

text \<open>C4: whatever the interleaving of the threads, the consumer gets the items in the order in which they
  were added, every block exactly once and after exactly one compression of its own data.\<close>

theorem pipeline_order:
  assumes "0 \<le> maxblk" and "pipe_reach f (pipe_init maxblk) s"
  shows "ptaken s = map (processed f) (take (length (ptaken s)) (padded s)) \<and>
    length (padded s) = length (ptaken s) + length (qhead (pq s))"
proof -
  have "pipe_inv f s" using pipe_reach_inv [OF assms(2) pipe_inv_init [OF assms(1)]] .
  then obtain old new where "padded s = old @ new" "ptaken s = map (processed f) old"
    "list_all2 (item_rel f (pjobs s \<union> pdead s)) new (qhead (pq s))" by (auto simp: pipe_inv_def)
  then show ?thesis by (simp add: list_all2_lengthD)
qed

lemma pipe_reach1: "pipe_step f s t \<Longrightarrow> pipe_reach f s t"
  using reach_refl reach_step by blast

definition demo_item :: cqueueitem where
  "demo_item = \<lparr>itype = QITEM_TYPE_HEADER, istatus = QITEM_STATUS_DONE, itemnum = 1,
     iblkinfo = zero_blockinfo, iheadinfo = zero_headinfo\<rparr>"

definition demo_queue :: cqueue where
  "demo_queue = (queue_init 4)\<lparr>curitemnum := 2, qhead := [demo_item], itemcount := 1\<rparr>"

definition demo_state :: pipeline where
  "demo_state = (pipe_init 4)\<lparr>pq := demo_queue, padded := [(QITEM_STATUS_DONE, Qheader zero_headinfo)]\<rparr>"

lemma demo_reach: "pipe_reach f (pipe_init 4) demo_state"
proof -
  have "queue_add_header_link (pq (pipe_init 4)) zero_headinfo = Some demo_queue"
    by (simp add: pipe_init_def queue_init_def queue_add_header_link_def demo_queue_def demo_item_def)
  from pipe_reach1 [OF step_add_header [OF this]] show ?thesis
    by (simp add: demo_state_def pipe_init_def)
qed

lemma pipeline_order_witness:
  "ptaken demo_state = map (processed Some) (take (length (ptaken demo_state)) (padded demo_state)) \<and>
    length (padded demo_state) = length (ptaken demo_state) + length (qhead (pq demo_state))"
  by (rule pipeline_order [of 4 Some]) (simp_all add: demo_reach)

text \<open>C19: the counters of the queue are exact in every reachable state, the item numbers increase from the
  front to the end, and there is never more than one block above the configured maximum.\<close>

theorem pipeline_queue_counters:
  assumes "0 \<le> maxblk" and "pipe_reach f (pipe_init maxblk) s"
  shows "queue_count (pq s) = int (length (qhead (pq s))) \<and>
    blkcount (pq s) = int (length (filter is_block (qhead (pq s)))) \<and>
    sorted_wrt (<) (map itemnum (qhead (pq s))) \<and> blkcount (pq s) \<le> blkmax (pq s) + 1"
  using pipe_reach_inv [OF assms(2) pipe_inv_init [OF assms(1)]]
  by (simp add: pipe_inv_def queue_inv_def queue_count_def)

lemma pipeline_queue_counters_witness:
  "queue_count (pq demo_state) = int (length (qhead (pq demo_state))) \<and>
    blkcount (pq demo_state) = int (length (filter is_block (qhead (pq demo_state)))) \<and>
    sorted_wrt (<) (map itemnum (qhead (pq demo_state))) \<and> blkcount (pq demo_state) \<le> blkmax (pq demo_state) + 1"
  by (rule pipeline_queue_counters [of 4 Some]) (simp_all add: demo_reach)

lemma reach_trans: "pipe_reach f t u \<Longrightarrow> pipe_reach f s t \<Longrightarrow> pipe_reach f s u"
  by (induction rule: pipe_reach.induct) (auto intro: reach_step)

text \<open>A measure of the work that is left for the compression and the consuming threads.\<close>

fun status_work :: "qstatus \<Rightarrow> nat" where
  "status_work QITEM_STATUS_TODO = 3"
| "status_work QITEM_STATUS_PROGRESS = 2"
| "status_work _ = 1"

definition pipe_work :: "pipeline \<Rightarrow> nat" where
  "pipe_work s = (\<Sum>i\<leftarrow>qhead (pq s). status_work (istatus i))"

text \<open>The work on the blocks that were added does not fail.\<close>

definition work_ok :: "(cblockinfo \<Rightarrow> cblockinfo option) \<Rightarrow> pipeline \<Rightarrow> bool" where
  "work_ok f s \<longleftrightarrow> (\<forall>b. (QITEM_STATUS_TODO, Qblock b) \<in> set (padded s) \<longrightarrow> f b \<noteq> None)"

lemma item_rel_added:
  assumes "list_all2 (item_rel f J) new items" and "i \<in> set items" and "istatus i = QITEM_STATUS_PROGRESS"
  shows "(QITEM_STATUS_TODO, Qblock (iblkinfo i)) \<in> set new"
proof -
  obtain k where k: "k < length items" "i = items ! k" using assms(2) by (auto simp: in_set_conv_nth)
  then have "item_rel f J (new ! k) i" "k < length new"
    using assms(1) by (auto simp: list_all2_conv_all_nth)
  then show ?thesis using assms(3) by (auto simp: item_rel_def in_set_conv_nth intro!: exI [of _ k])
qed

lemma pipe_work_step:
  assumes inv: "pipe_inv f s" and total: "work_ok f s" and ne: "qhead (pq s) \<noteq> []"
  shows "\<exists>t. pipe_step f s t \<and> pipe_work t < pipe_work s \<and> padded t = padded s"
proof -
  have qi: "queue_inv (pq s)" using inv by (simp add: pipe_inv_def)
  obtain cur items where c: "qhead (pq s) = cur # items" using ne by (cases "qhead (pq s)") auto
  obtain new where new: "list_all2 (item_rel f (pjobs s \<union> pdead s)) new (cur # items)" "set new \<subseteq> set (padded s)"
    using inv c by (auto simp: pipe_inv_def)
  then obtain x where rel: "item_rel f (pjobs s \<union> pdead s) x cur" by (auto simp: list_all2_Cons2)
  have f: "f (iblkinfo i) \<noteq> None" if "i \<in> set (cur # items)" "istatus i = QITEM_STATUS_PROGRESS" for i
    using item_rel_added [OF new(1) that] new(2) total by (auto simp: work_ok_def)
  have dead: "pdead s = {}"
  proof (rule ccontr)
    assume "pdead s \<noteq> {}"
    then obtain n b where "(n, b) \<in> pdead s" by auto
    then have none: "f b = None" and "in_progress (pq s) (n, b)" using inv by (auto simp: pipe_inv_def)
    then obtain i where "i \<in> set (cur # items)" "istatus i = QITEM_STATUS_PROGRESS" "iblkinfo i = b"
      using c by (auto simp: in_progress_def)
    then show False using f [of i] none by simp
  qed
  show ?thesis
  proof (cases "istatus cur")
    case QITEM_STATUS_DONE
    then obtain q where q: "queue_deq (pq s) = Some (item_view cur, q)"
      using wq.deq_ready [OF qi, of "item_view cur"] c by (auto simp: queue_contents_def item_view_def)
    then have "qhead q = items" using c by (auto simp: queue_deq_iff [OF qi])
    then show ?thesis
      using step_dequeue [OF q, of f] c QITEM_STATUS_DONE
      by (intro exI [of _ "s\<lparr>pq := q, ptaken := ptaken s @ [snd (item_view cur)]\<rparr>"]) (simp add: pipe_work_def)
  next
    case QITEM_STATUS_TODO
    then have "first_todo (qhead (pq s)) =
        Some (itemnum cur, iblkinfo cur, cur\<lparr>istatus := QITEM_STATUS_PROGRESS\<rparr> # items)"
      using rel c by (simp add: item_rel_def)
    then have "queue_get_first_block_todo True (pq s) = Some (itemnum cur, iblkinfo cur,
        (pq s)\<lparr>qhead := cur\<lparr>istatus := QITEM_STATUS_PROGRESS\<rparr> # items\<rparr>)"
      using not_end_if_item [OF qi c] by (simp add: queue_get_first_block_todo_def)
    moreover have "0 < itemnum cur" using qi c by (simp add: queue_inv_def)
    ultimately show ?thesis
      using step_take_job [of s "itemnum cur" "iblkinfo cur" "(pq s)\<lparr>qhead := cur\<lparr>istatus := QITEM_STATUS_PROGRESS\<rparr> # items\<rparr>" f]
        c QITEM_STATUS_TODO
      by (intro exI [of _ "s\<lparr>pq := (pq s)\<lparr>qhead := cur\<lparr>istatus := QITEM_STATUS_PROGRESS\<rparr> # items\<rparr>,
            pjobs := insert (itemnum cur, iblkinfo cur) (pjobs s)\<rparr>"]) (simp add: pipe_work_def)
  next
    case QITEM_STATUS_PROGRESS
    then have job: "(itemnum cur, iblkinfo cur) \<in> pjobs s" using rel dead by (simp add: item_rel_def)
    obtain b' where b': "f (iblkinfo cur) = Some b'" using f [of cur] QITEM_STATUS_PROGRESS by auto
    have "queue_replace_block (pq s) (itemnum cur) b' QITEM_STATUS_DONE = (FSAERR_SUCCESS,
        (pq s)\<lparr>qhead := cur\<lparr>istatus := QITEM_STATUS_DONE, iblkinfo := b'\<rparr> # items\<rparr>)"
      using c by (simp add: queue_replace_block_def)
    from step_finish_job [of "itemnum cur" "iblkinfo cur" s f, OF job b' this] show ?thesis
      using c QITEM_STATUS_PROGRESS
      by (intro exI [of _ "s\<lparr>pq := (pq s)\<lparr>qhead := cur\<lparr>istatus := QITEM_STATUS_DONE, iblkinfo := b'\<rparr> # items\<rparr>,
            pjobs := pjobs s - {(itemnum cur, iblkinfo cur)}\<rparr>"]) (simp add: pipe_work_def)
  next
    case QITEM_STATUS_NULL
    then show ?thesis using rel by (simp add: item_rel_def)
  qed
qed

lemma pipe_drains:
  "pipe_inv f s \<Longrightarrow> work_ok f s \<Longrightarrow>
   \<exists>t. pipe_reach f s t \<and> padded t = padded s \<and> qhead (pq t) = []"
proof (induction "pipe_work s" arbitrary: s rule: less_induct)
  case less
  show ?case
  proof (cases "qhead (pq s) = []")
    case True
    then show ?thesis using reach_refl by blast
  next
    case False
    then obtain t where t: "pipe_step f s t" "pipe_work t < pipe_work s" "padded t = padded s"
      using pipe_work_step [OF less.prems] by blast
    then obtain u where u: "pipe_reach f t u" "padded u = padded t" "qhead (pq u) = []"
      using less.hyps [OF t(2) pipe_step_inv [OF t(1) less.prems(1)]] less.prems(2) by (auto simp: work_ok_def)
    then show ?thesis using t reach_trans [OF u(1) pipe_reach1 [OF t(1)]] by auto
  qed
qed

text \<open>C18: the threads cannot deadlock as long as the compression of no block that was added fails: from every
  reachable state the compression threads and the consumer alone can empty the queue, and the
  consumer has then received everything that was added, in order.\<close>

theorem pipeline_drains:
  assumes "0 \<le> maxblk" and "pipe_reach f (pipe_init maxblk) s" and "work_ok f s"
  shows "\<exists>t. pipe_reach f s t \<and> padded t = padded s \<and> qhead (pq t) = [] \<and>
    ptaken t = map (processed f) (padded s)"
proof -
  have inv: "pipe_inv f s" using pipe_reach_inv [OF assms(2) pipe_inv_init [OF assms(1)]] .
  obtain t where t: "pipe_reach f s t" "padded t = padded s" "qhead (pq t) = []"
    using pipe_drains [OF inv assms(3)] by blast
  then have "pipe_inv f t" using pipe_reach_inv inv by blast
  then have "ptaken t = map (processed f) (padded s)" using t by (auto simp: pipe_inv_def)
  then show ?thesis using t by blast
qed

lemma pipeline_drains_witness:
  "\<exists>t. pipe_reach Some demo_state t \<and> padded t = padded demo_state \<and> qhead (pq t) = [] \<and>
    ptaken t = map (processed Some) (padded demo_state)"
  by (rule pipeline_drains [of 4 Some]) (simp_all add: demo_reach work_ok_def)

text \<open>A state in which a compression thread holds the only block.\<close>

definition busy_state :: pipeline where
  "busy_state = (pipe_init 4)\<lparr>
     pq := (queue_init 4)\<lparr>qhead := [\<lparr>itype = QITEM_TYPE_BLOCK, istatus = QITEM_STATUS_PROGRESS, itemnum = 1,
              iblkinfo = zero_blockinfo, iheadinfo = zero_headinfo\<rparr>],
            blkcount := 1, itemcount := 1, curitemnum := 2\<rparr>,
     padded := [(QITEM_STATUS_TODO, Qblock zero_blockinfo)], pjobs := {(1, zero_blockinfo)}\<rparr>"

lemma busy_reach: "pipe_reach f (pipe_init 4) busy_state"
proof -
  let ?i = "\<lparr>itype = QITEM_TYPE_BLOCK, istatus = QITEM_STATUS_TODO, itemnum = 1,
    iblkinfo = zero_blockinfo, iheadinfo = zero_headinfo\<rparr>"
  let ?q = "(queue_init 4)\<lparr>qhead := [?i], blkcount := 1, itemcount := 1, curitemnum := 2\<rparr>"
  let ?s = "(pipe_init 4)\<lparr>pq := ?q, padded := [(QITEM_STATUS_TODO, Qblock zero_blockinfo)]\<rparr>"
  have "queue_add_block_link (pq (pipe_init 4)) zero_blockinfo QITEM_STATUS_TODO = Some ?q"
    by (simp add: pipe_init_def queue_init_def queue_add_block_link_def)
  from pipe_reach1 [OF step_add_block [OF this]] have 1: "pipe_reach f (pipe_init 4) ?s"
    by (simp add: pipe_init_def)
  have "queue_get_first_block_todo True (pq ?s) = Some (1, zero_blockinfo,
      ?q\<lparr>qhead := [?i\<lparr>istatus := QITEM_STATUS_PROGRESS\<rparr>]\<rparr>)"
    by (simp add: queue_get_first_block_todo_def queuelocked_get_end_of_queue_def)
  from reach_step [OF 1 step_take_job [OF this]] show ?thesis
    by (simp add: busy_state_def pipe_init_def queue_init_def)
qed

lemma pdead_grows: "pipe_reach f s t \<Longrightarrow> pdead s \<subseteq> pdead t"
proof (induction rule: pipe_reach.induct)
  case (reach_step s t u)
  have "pdead t \<subseteq> pdead u" using reach_step(2) by (cases rule: pipe_step.cases) auto
  then show ?case using reach_step by blast
qed simp

text \<open>C37: when the work on a block fails, the thread leaves the block in progress: from then on the queue
  never becomes empty and its end is never reached, so the consumer's loop cannot end normally.\<close>

theorem failed_block_blocks_queue:
  assumes "0 \<le> maxblk" and "pipe_reach f (pipe_init maxblk) s" and "(n, b) \<in> pdead s"
    and "pipe_reach f s t"
  shows "in_progress (pq t) (n, b) \<and> \<not> queue_get_end_of_queue (pq t)"
proof -
  have inv: "pipe_inv f t"
    using pipe_reach_inv [OF assms(4) pipe_reach_inv [OF assms(2) pipe_inv_init [OF assms(1)]]] .
  have "in_progress (pq t) (n, b)" using inv pdead_grows [OF assms(4)] assms(3) by (auto simp: pipe_inv_def)
  moreover from this have "0 < itemcount (pq t)"
    using inv by (auto simp: pipe_inv_def queue_inv_def in_progress_def)
  ultimately show ?thesis by (simp add: queue_get_end_of_queue_def)
qed

lemma failed_block_blocks_queue_witness:
  "in_progress (pq busy_state) (1, zero_blockinfo) \<and> \<not> queue_get_end_of_queue (pq busy_state)"
proof -
  let ?t = "busy_state\<lparr>pjobs := {}, pdead := {(1, zero_blockinfo)}\<rparr>"
  have "pipe_step (\<lambda>b. None) busy_state (busy_state\<lparr>pjobs := pjobs busy_state - {(1, zero_blockinfo)},
      pdead := insert (1, zero_blockinfo) (pdead busy_state)\<rparr>)"
    by (rule step_fail_job) (simp_all add: busy_state_def)
  then have "pipe_reach (\<lambda>b. None) (pipe_init 4) ?t"
    using reach_step [OF busy_reach] by (simp add: busy_state_def pipe_init_def)
  from failed_block_blocks_queue [OF _ this, of 1 zero_blockinfo ?t] show ?thesis
    by (simp add: reach_refl)
qed


section \<open>Every step of a run, its end included\<close>

text \<open>\<open>pipe_step\<close> is a run in which the consumer takes finished items. \<open>run_step\<close> has every function that
  changes the queue: in addition the two functions with which the restoring side takes a block or a header,
  queue_destroy_first_item, with which the writer thread and the restoring thread empty the queue after an
  error and extractar_filesystem_extract skips what it does not expect, whatever the state of the item in
  front, and the queue_destroy of the main thread, which runs when no thread works on a block any more.\<close>

inductive run_step :: "(cblockinfo \<Rightarrow> cblockinfo option) \<Rightarrow> pipeline \<Rightarrow> pipeline \<Rightarrow> bool"
  for f :: "cblockinfo \<Rightarrow> cblockinfo option" where
  run_pipe: "pipe_step f s t \<Longrightarrow> run_step f s t"
| run_dequeue_block:
    "queue_dequeue_block (pq s) = Some (n, info, q) \<Longrightarrow> n > 0 \<Longrightarrow>
     run_step f s (s\<lparr>pq := q, ptaken := ptaken s @ [info]\<rparr>)"
| run_dequeue_header:
    "queue_dequeue_header_internal (pq s) = Some (n, info, q) \<Longrightarrow> n > 0 \<Longrightarrow>
     run_step f s (s\<lparr>pq := q, ptaken := ptaken s @ [info]\<rparr>)"
| run_destroy_first:
    "queue_destroy_first_item (pq s) = Some (r, q) \<Longrightarrow> run_step f s (s\<lparr>pq := q\<rparr>)"
| run_destroy:
    "pjobs s = {} \<Longrightarrow> queue_destroy (pq s) = (r, q) \<Longrightarrow> run_step f s (s\<lparr>pq := q, pdead := {}\<rparr>)"

inductive run_reach :: "(cblockinfo \<Rightarrow> cblockinfo option) \<Rightarrow> pipeline \<Rightarrow> pipeline \<Rightarrow> bool"
  for f :: "cblockinfo \<Rightarrow> cblockinfo option" where
  run_refl: "run_reach f s s"
| run_more: "run_reach f s t \<Longrightarrow> run_step f t u \<Longrightarrow> run_reach f s u"

lemma pipe_reach_run: "pipe_reach f s t \<Longrightarrow> run_reach f s t"
  by (induction rule: pipe_reach.induct) (auto intro: run_refl run_more run_pipe)

text \<open>What a step does to the items of the queue: one is added behind, the states go forward, the one in
  front leaves, or all are gone with the queue.\<close>

inductive items_change :: "pipeline \<Rightarrow> pipeline \<Rightarrow> bool" where
  change_add: "qhead (pq t) = qhead (pq s) @ [i] \<Longrightarrow> itemnum i = curitemnum (pq s) \<Longrightarrow>
     curitemnum (pq t) = curitemnum (pq s) + 1 \<Longrightarrow> items_change s t"
| change_forward: "list_all2 item_forward (qhead (pq s)) (qhead (pq t)) \<Longrightarrow>
     curitemnum (pq t) = curitemnum (pq s) \<Longrightarrow> items_change s t"
| change_leave: "qhead (pq s) = i # qhead (pq t) \<Longrightarrow> curitemnum (pq t) = curitemnum (pq s) \<Longrightarrow>
     istatus i = QITEM_STATUS_DONE \<or> istatus i \<noteq> QITEM_STATUS_PROGRESS \<and>
       queue_destroy_first_item (pq s) = Some (FSAERR_SUCCESS, pq t) \<Longrightarrow> items_change s t"
| change_destroy: "qhead (pq t) = [] \<Longrightarrow> curitemnum (pq t) = curitemnum (pq s) \<Longrightarrow> pjobs s = {} \<Longrightarrow>
     pq t = snd (queue_destroy (pq s)) \<Longrightarrow> items_change s t"

lemma change_same: "qhead (pq t) = qhead (pq s) \<Longrightarrow> curitemnum (pq t) = curitemnum (pq s) \<Longrightarrow> items_change s t"
  by (rule change_forward) (simp_all add: list_all2_refl)

lemma add_block_joins:
  "queue_add_block_link q b st = Some q' \<Longrightarrow>
   \<exists>i. qhead q' = qhead q @ [i] \<and> itemnum i = curitemnum q \<and> curitemnum q' = curitemnum q + 1"
  by (auto simp: queue_add_block_link_def Let_def split: if_splits)

lemma add_header_joins:
  "queue_add_header_link q h = Some q' \<Longrightarrow>
   \<exists>i. qhead q' = qhead q @ [i] \<and> itemnum i = curitemnum q \<and> curitemnum q' = curitemnum q + 1"
  by (auto simp: queue_add_header_link_def Let_def split: if_splits)

lemma queue_deq_leaves:
  "queue_deq q = Some (x, q') \<Longrightarrow>
   \<exists>i. qhead q = i # qhead q' \<and> istatus i = QITEM_STATUS_DONE \<and> curitemnum q' = curitemnum q"
  by (auto simp: queue_deq_def queue_dequeue_first_def FSAERR_ENDOFFILE_def FSAERR_EINVAL_def
      split: option.splits if_splits list.splits qtype.splits prod.splits)

lemma dequeue_block_leaves:
  "queue_dequeue_block q = Some (n, info, q') \<Longrightarrow> n > 0 \<Longrightarrow>
   \<exists>i. qhead q = i # qhead q' \<and> istatus i = QITEM_STATUS_DONE \<and> curitemnum q' = curitemnum q"
  by (auto simp: queue_dequeue_block_def FSAERR_ENDOFFILE_def FSAERR_WRONGTYPE_def
      split: if_splits list.splits)

lemma dequeue_header_leaves:
  "queue_dequeue_header_internal q = Some (n, info, q') \<Longrightarrow> n > 0 \<Longrightarrow>
   \<exists>i. qhead q = i # qhead q' \<and> istatus i = QITEM_STATUS_DONE \<and> curitemnum q' = curitemnum q"
  by (auto simp: queue_dequeue_header_internal_def first_not_ready_def FSAERR_ENDOFFILE_def FSAERR_WRONGTYPE_def
      split: if_splits list.splits qtype.splits)

lemma destroy_first_leaves:
  "queue_destroy_first_item q = Some (r, q') \<Longrightarrow>
   q' = q \<or> r = FSAERR_SUCCESS \<and> curitemnum q' = curitemnum q \<and>
     (\<exists>i. qhead q = i # qhead q' \<and> istatus i \<noteq> QITEM_STATUS_PROGRESS)"
  by (auto simp: queue_destroy_first_item_def Let_def split: if_splits list.splits)

lemma get_todo_num: "queue_get_first_block_todo w q = Some (n, b, q') \<Longrightarrow> curitemnum q' = curitemnum q"
  by (auto simp: queue_get_first_block_todo_def split: if_splits option.splits)

lemma replace_block_num: "queue_replace_block q n b st = (r, q') \<Longrightarrow> curitemnum q' = curitemnum q"
  by (auto simp: queue_replace_block_def split: if_splits option.splits)

lemma pipe_step_change: "pipe_step f s t \<Longrightarrow> items_change s t"
proof (induction rule: pipe_step.induct)
  case step_add_block
  then show ?case by (auto dest!: add_block_joins intro!: change_add)
next
  case step_add_header
  then show ?case by (auto dest!: add_header_joins intro!: change_add)
next
  case step_take_job
  then show ?case by (intro change_forward) (auto dest: get_todo_forward get_todo_num)
next
  case step_finish_job
  then show ?case by (intro change_forward) (auto dest: replace_block_forward replace_block_num)
next
  case step_dequeue
  then show ?case by (auto dest!: queue_deq_leaves intro!: change_leave)
qed (auto simp: queue_set_end_of_queue_def intro!: change_same)

lemma run_step_change: "run_step f s t \<Longrightarrow> items_change s t"
proof (induction rule: run_step.induct)
  case run_dequeue_block
  then show ?case by (auto dest!: dequeue_block_leaves intro!: change_leave)
next
  case run_dequeue_header
  then show ?case by (auto dest!: dequeue_header_leaves intro!: change_leave)
next
  case (run_destroy_first s r q)
  from destroy_first_leaves [OF this] run_destroy_first show ?case
    by (auto intro: change_same change_leave)
next
  case run_destroy
  then show ?case by (intro change_destroy) (auto simp: queue_destroy_def)
qed (rule pipe_step_change)

text \<open>In every state the item numbers increase and every block on which a thread works, or on which a thread
  gave up, is in the queue and in progress.\<close>

definition run_inv :: "(cblockinfo \<Rightarrow> cblockinfo option) \<Rightarrow> pipeline \<Rightarrow> bool" where
  "run_inv f s \<longleftrightarrow> sorted_wrt (<) (map itemnum (qhead (pq s))) \<and>
     (\<forall>i \<in> set (qhead (pq s)). itemnum i < curitemnum (pq s)) \<and>
     (\<forall>j \<in> pjobs s \<union> pdead s. in_progress (pq s) j) \<and> (\<forall>(n, b) \<in> pdead s. f b = None)"

lemma forward_nums: "list_all2 item_forward xs ys \<Longrightarrow> map itemnum ys = map itemnum xs"
  by (induction rule: list_all2_induct) (auto simp: item_forward_def)

lemma run_nums:
  assumes "items_change s t" and "run_inv f s"
  shows "sorted_wrt (<) (map itemnum (qhead (pq t))) \<and> (\<forall>n \<in> set (map itemnum (qhead (pq t))). n < curitemnum (pq t))"
proof -
  have inv: "sorted_wrt (<) (map itemnum (qhead (pq s)))" "\<forall>n \<in> set (map itemnum (qhead (pq s))). n < curitemnum (pq s)"
    using assms(2) by (auto simp: run_inv_def)
  show ?thesis using assms(1)
  proof (cases rule: items_change.cases)
    case (change_add i)
    then show ?thesis using inv by (fastforce simp: sorted_wrt_append)
  next
    case change_forward
    then show ?thesis unfolding forward_nums [OF change_forward(1)] using inv by simp
  qed (use inv in auto)
qed

lemma in_progress_change:
  assumes "in_progress (pq s) j" and "qhead (pq t) = qhead (pq s) @ new \<or>
    (\<exists>i. qhead (pq s) = i # qhead (pq t) \<and> istatus i \<noteq> QITEM_STATUS_PROGRESS)"
  shows "in_progress (pq t) j"
  using assms by (auto simp: in_progress_def)

lemma run_itemnum_inj:
  assumes "run_inv f s" and "i \<in> set (qhead (pq s))" and "j \<in> set (qhead (pq s))" and "itemnum i = itemnum j"
  shows "i = j"
proof -
  have "distinct (map itemnum (qhead (pq s)))" using assms(1) by (auto simp: run_inv_def strict_sorted_iff)
  then show ?thesis using assms(2-4) by (auto simp: distinct_map dest: inj_onD)
qed

lemma run_idle_item:
  assumes "run_inv f s" and "i \<in> set (qhead (pq s))" and "istatus i \<noteq> QITEM_STATUS_PROGRESS"
  shows "(itemnum i, iblkinfo i) \<notin> pjobs s"
proof
  assume "(itemnum i, iblkinfo i) \<in> pjobs s"
  then have "in_progress (pq s) (itemnum i, iblkinfo i)" using assms(1) by (simp add: run_inv_def)
  then obtain k where "k \<in> set (qhead (pq s))" "itemnum k = itemnum i" "istatus k = QITEM_STATUS_PROGRESS"
    by (auto simp: in_progress_def)
  then show False using run_itemnum_inj [OF assms(1), of k i] assms(2,3) by auto
qed

lemma run_put_back:
  assumes "run_inv f s" and "(n, b) \<in> pjobs s" and "queue_replace_block (pq s) n b' QITEM_STATUS_DONE = (r, q)"
  shows "r = FSAERR_SUCCESS \<and> (\<forall>j. in_progress (pq s) j \<longrightarrow> fst j \<noteq> n \<longrightarrow> in_progress q j)"
proof -
  have "in_progress (pq s) (n, b)" using assms(1,2) by (simp add: run_inv_def)
  then obtain i where "i \<in> set (qhead (pq s))" "itemnum i = n" by (auto simp: in_progress_def)
  then have "replace_item (qhead (pq s)) n b' QITEM_STATUS_DONE \<noteq> None" "qhead (pq s) \<noteq> []"
    by (auto simp: replace_item_None)
  then obtain items where it: "replace_item (qhead (pq s)) n b' QITEM_STATUS_DONE = Some items"
    "r = FSAERR_SUCCESS" "q = (pq s)\<lparr>qhead := items\<rparr>"
    using assms(3) by (auto simp: queue_replace_block_def)
  from replace_item_split [OF it(1)] show ?thesis using it(2,3) by (auto simp: in_progress_def)
qed

lemma run_step_jobs:
  assumes "run_step f s t" and inv: "run_inv f s"
  shows "(\<forall>j \<in> pjobs t \<union> pdead t. in_progress (pq t) j) \<and> (\<forall>(n, b) \<in> pdead t. f b = None)"
proof -
  have jobs: "in_progress (pq s) j" if "j \<in> pjobs s \<union> pdead s" for j using inv that by (simp add: run_inv_def)
  have dead: "f b = None" if "(n, b) \<in> pdead s" for n b using inv that by (auto simp: run_inv_def)
  have same: ?thesis if "pjobs t = pjobs s" "pdead t = pdead s"
    "(\<exists>new. qhead (pq t) = qhead (pq s) @ new) \<or>
     (\<exists>i. qhead (pq s) = i # qhead (pq t) \<and> istatus i \<noteq> QITEM_STATUS_PROGRESS)"
    using that jobs dead in_progress_change by blast
  from assms(1) show ?thesis
  proof (cases rule: run_step.cases)
    case run_pipe
    then show ?thesis
    proof (cases rule: pipe_step.cases)
      case step_add_block
      then show ?thesis by (intro same) (auto dest!: add_block_joins)
    next
      case step_add_header
      then show ?thesis by (intro same) (auto dest!: add_header_joins)
    next
      case (step_take_job n b q)
      obtain items where ft: "first_todo (qhead (pq s)) = Some (n, b, items)" "q = (pq s)\<lparr>qhead := items\<rparr>"
        using step_take_job by (auto simp: queue_get_first_block_todo_def FSAERR_ENDOFFILE_def split: if_splits option.splits)
      have "in_progress q (n, b) \<and> (\<forall>j. in_progress (pq s) j \<longrightarrow> in_progress q j)"
        using first_todo_split [OF ft(1)] ft(2) by (auto simp: in_progress_def)
      then show ?thesis using step_take_job jobs dead by auto
    next
      case (step_finish_job n b b' r q)
      have "fst j \<noteq> n" if j: "j \<in> pjobs s - {(n, b)} \<union> pdead s" for j
      proof
        assume "fst j = n"
        moreover obtain i k where "i \<in> set (qhead (pq s))" "itemnum i = fst j" "iblkinfo i = snd j"
          "k \<in> set (qhead (pq s))" "itemnum k = n" "iblkinfo k = b"
          using jobs [of j] jobs [of "(n, b)"] j step_finish_job by (auto simp: in_progress_def)
        ultimately have "j = (n, b)" using run_itemnum_inj [OF inv, of i k] by (auto simp: prod_eq_iff)
        then show False using j dead [of n b] step_finish_job by auto
      qed
      then have "in_progress q j" if "j \<in> pjobs s - {(n, b)} \<union> pdead s" for j
        using that jobs [of j] run_put_back [OF inv step_finish_job(2,4)] by blast
      then show ?thesis using step_finish_job(1) dead by (simp; blast)
    next
      case step_fail_job
      then show ?thesis using jobs dead by auto
    next
      case step_dequeue
      then show ?thesis by (intro same) (auto dest!: queue_deq_leaves)
    next
      case step_end_of_queue
      then show ?thesis by (intro same) (auto simp: queue_set_end_of_queue_def)
    qed
  next
    case run_dequeue_block
    then show ?thesis by (intro same) (auto dest!: dequeue_block_leaves)
  next
    case run_dequeue_header
    then show ?thesis by (intro same) (auto dest!: dequeue_header_leaves)
  next
    case run_destroy_first
    then show ?thesis by (intro same) (auto dest!: destroy_first_leaves)
  next
    case run_destroy
    then show ?thesis by auto
  qed
qed

lemma run_step_inv: "run_step f s t \<Longrightarrow> run_inv f s \<Longrightarrow> run_inv f t"
  using run_nums [OF run_step_change] run_step_jobs unfolding run_inv_def [of f t] by (metis (no_types, lifting) image_eqI list.set_map)

lemma run_reach_inv: "run_reach f (pipe_init maxblk) s \<Longrightarrow> run_inv f s"
proof (induction "pipe_init maxblk" s rule: run_reach.induct)
  case run_refl
  show ?case by (simp add: run_inv_def pipe_init_def queue_init_def)
qed (rule run_step_inv)





end
