(* ===== verification/Archio.thy ===== *)
theory Archio
  imports Volumes Pipeline
begin

text \<open>thread_archio.c and the flag and bitmap of syncthread.c: the thread that writes the archive and the
  thread that reads it. The results that queue_dequeue_first gives to the writer until the end of the queue,
  and the answers of the queue to the reader, are arguments: the theory Pipeline says which they are.\<close>

section \<open>The writer thread\<close>

definition write_item :: "wenv \<Rightarrow> coptions \<Rightarrow> carchwriter \<Rightarrow> disk \<Rightarrow> qinfo \<Rightarrow> int \<times> carchwriter \<times> disk" where
  "write_item env opt ai dsk info =
     (case info of
        Qblock blkinfo \<Rightarrow> archwriter_dowrite_block env opt ai dsk blkinfo
      | Qheader headinfo \<Rightarrow> archwriter_dowrite_header env opt ai dsk headinfo
      | Qnone \<Rightarrow> (0, ai, dsk))"

text \<open>The loop over the queue; the boolean says that it was left by an error.\<close>

fun writer_loop ::
    "wenv \<Rightarrow> coptions \<Rightarrow> carchwriter \<Rightarrow> disk \<Rightarrow> (int \<times> qinfo) list \<Rightarrow> bool \<times> carchwriter \<times> disk" where
  "writer_loop env opt ai dsk [] = (False, ai, dsk)"
| "writer_loop env opt ai dsk ((blknum, info) # deqs) =
     (if blknum < 0 \<and> blknum \<noteq> FSAERR_ENDOFFILE then (True, ai, dsk)
      else if blknum > 0 then
        (let (r, ai, dsk) = write_item env opt ai dsk info
         in if r \<noteq> 0 then (True, ai, dsk) else writer_loop env opt ai dsk deqs)
      else writer_loop env opt ai dsk deqs)"

text \<open>The body up to the end or the error label: the result is whether an error occurred.\<close>

definition writer_body ::
    "wenv \<Rightarrow> coptions \<Rightarrow> carchwriter \<Rightarrow> disk \<Rightarrow> (int \<times> qinfo) list \<Rightarrow> bool \<times> carchwriter \<times> disk" where
  "writer_body env opt ai dsk deqs =
     (let (r, ai) = archwriter_volpath env ai
      in if r \<noteq> 0 then (True, ai, dsk)
         else
           (let (r, ai, dsk) = archwriter_create env opt ai dsk
            in if r \<noteq> 0 then (True, ai, dsk)
               else
                 (let (r, dsk) = archwriter_write_volheader env ai dsk
                  in if r \<noteq> 0 then (True, ai, dsk)
                     else
                       (let (err, ai, dsk) = writer_loop env opt ai dsk deqs
                        in if err then (True, ai, dsk)
                           else
                             (let (r, dsk) = archwriter_write_volfooter env ai dsk True
                              in (r \<noteq> 0, ai, dsk))))))"

text \<open>On both ways out the archive is closed. The first result is the flag g_stopfillqueue that the error
  path sets.\<close>

definition thread_writer_fct ::
    "wenv \<Rightarrow> coptions \<Rightarrow> carchwriter \<Rightarrow> disk \<Rightarrow> (int \<times> qinfo) list \<Rightarrow> bool \<times> carchwriter \<times> disk" where
  "thread_writer_fct env opt ai dsk deqs =
     (let (err, ai, dsk) = writer_body env opt ai dsk deqs in (err, snd (archwriter_close ai), dsk))"

section \<open>What the writer thread leaves on the disk\<close>

fun qinfo_bytes :: "u32 \<Rightarrow> qinfo \<Rightarrow> u8 list" where
  "qinfo_bytes ident (Qblock b) = block_bytes b ident (blkfsid b)"
| "qinfo_bytes ident (Qheader h) = header_bytes (hmagic h) ident (hfsid h) (hdico h)"
| "qinfo_bytes ident Qnone = []"

fun item_writable :: "qinfo \<Rightarrow> bool" where
  "item_writable (Qblock b) \<longleftrightarrow> length (blkdata b) = unat (blkarsize b) \<and> blkarsize b \<noteq> 0"
| "item_writable (Qheader h) \<longleftrightarrow> length (hmagic h) = 4 \<and> dico_wf (hdico h) \<and> dico_small (hdico h)"
| "item_writable Qnone \<longleftrightarrow> False"

lemma write_item_eq:
  assumes env: "env_good env" and rep: "writer_rep ident vp ai dsk vs" and paths: "paths_ok env (w_basepath ai) vp n"
    and free: "paths_free opt vp (length vs) n dsk" and room: "length vs \<le> n" and item: "item_writable info"
  shows "write_item env opt ai dsk info = item_written env opt ai dsk (vp (length vs)) (qinfo_bytes ident info)"
proof -
  have ne: "vs \<noteq> []" using rep by (auto simp: writer_rep_def archive_on_disk_def)
  then have l: "length vs - 1 \<le> n" "length vs - 1 \<noteq> length vs" "Suc (length vs - 1) = length vs"
    using room by (cases vs; simp)+
  have "w_curvol ai + 1 = of_nat (Suc (length vs - 1))" using rep by (simp add: writer_rep_def add.commute)
  then have cur: "w_curvol ai + 1 = of_nat (length vs)" unfolding l(3) .
  have "unat (of_nat (length vs) :: u32) = length vs"
    using room paths by (simp add: paths_ok_def unsigned_of_nat take_bit_nat_eq_self)
  then have p: "get_path_to_volume (e_realpath env) PATH_MAX (w_basepath ai) (unat (w_curvol ai + 1)) = Some (vp (length vs))"
    using paths room unfolding cur by (simp add: paths_ok_def)
  have new: "vp (length vs) \<noteq> w_fdpath ai"
    using rep paths_distinct [OF paths room l(1)] l(2) by (auto simp: writer_rep_def)
  have ow: "opt_overwrite opt \<or> dsk (vp (length vs)) = None" using free room by (auto simp: paths_free_def)
  have id: "w_archid ai = ident" using rep by (simp add: writer_rep_def)
  note vol = writer_rep_volume(2) [OF rep]
  show ?thesis
    using item dowrite_block_eq [OF env vol p new ow] dowrite_header_eq [OF env vol p new ow]
    by (cases info) (simp_all add: write_item_def id)
qed

lemma writer_loop_rep:
  assumes "env_good env" and "writer_rep ident vp ai dsk vs" and "paths_ok env (w_basepath ai) vp n"
    and "paths_free opt vp (length vs) n dsk" and "length vs + length deqs \<le> Suc n"
    and "\<forall>(num, info) \<in> set deqs. 0 < num \<and> item_writable info"
  shows "\<exists>ai' dsk'. writer_loop env opt ai dsk deqs = (False, ai', dsk') \<and>
    writer_rep ident vp ai' dsk' (add_items (unat (splitsize opt)) vs (map (\<lambda>d. qinfo_bytes ident (snd d)) deqs))"
  using assms(2-6)
proof (induction deqs arbitrary: ai dsk vs)
  case Nil
  then show ?case by (simp add: add_items_def)
next
  case (Cons d deqs)
  obtain num info where d: "d = (num, info)" by force
  have ne: "vs \<noteq> []" using Cons.prems(1) by (auto simp: writer_rep_def archive_on_disk_def)
  have room: "length vs \<le> n" using Cons.prems(4) by simp
  have item: "item_writable info" "0 < num" using Cons.prems(5) d by auto
  let ?vs = "add_item (unat (splitsize opt)) vs (qinfo_bytes ident info)"
  obtain ai' dsk' where s: "item_written env opt ai dsk (vp (length vs)) (qinfo_bytes ident info) = (0, ai', dsk')"
    "writer_rep ident vp ai' dsk' ?vs" "w_basepath ai' = w_basepath ai" "paths_free opt vp (length ?vs) n dsk'"
    using item_written_rep [OF assms(1) Cons.prems(1,2,3) room] by blast
  have w: "write_item env opt ai dsk info = (0, ai', dsk')"
    using write_item_eq [OF assms(1) Cons.prems(1,2,3) room item(1)] s(1) by simp
  have "length ?vs + length deqs \<le> Suc n"
    using length_add_item [OF ne, of "unat (splitsize opt)" "qinfo_bytes ident info"] Cons.prems(4) by auto
  then obtain ai'' dsk'' where "writer_loop env opt ai' dsk' deqs = (False, ai'', dsk'')"
    "writer_rep ident vp ai'' dsk'' (add_items (unat (splitsize opt)) ?vs (map (\<lambda>d. qinfo_bytes ident (snd d)) deqs))"
    using Cons.IH [OF s(2)] Cons.prems(2,5) s(3,4) by fastforce
  then show ?case using item w by (simp add: d add_items_def)
qed

lemma writer_start:
  assumes env: "env_good env" and paths: "paths_ok env (w_basepath ai) vp n" and free: "paths_free opt vp 0 n dsk"
    and ai: "w_curvol ai = 0"
  shows "\<exists>ai1 ai2 dsk1 dsk2. archwriter_volpath env ai = (0, ai1) \<and> archwriter_create env opt ai1 dsk = (0, ai2, dsk1) \<and>
    archwriter_write_volheader env ai2 dsk1 = (0, dsk2) \<and> writer_rep (w_archid ai) vp ai2 dsk2 [[]] \<and>
    w_basepath ai2 = w_basepath ai \<and> paths_free opt vp 1 n dsk2"
proof -
  have p: "get_path_to_volume (e_realpath env) PATH_MAX (w_basepath ai) 0 = Some (vp 0)"
    using paths by (simp add: paths_ok_def)
  have ow: "opt_overwrite opt \<or> dsk (vp 0) = None" using free by (auto simp: paths_free_def)
  let ?ai1 = "ai\<lparr>w_volpath := vp 0\<rparr>"
  let ?ai2 = "?ai1\<lparr>w_archfd := e_open env (vp 0), w_newarch := True, w_fdpath := vp 0,
    w_vollist := snd (strlist_add mem_ok (w_vollist ai) (vp 0))\<rparr>"
  have fd: "0 \<le> w_archfd ?ai2" using env by (simp add: env_good_def)
  have c: "archwriter_create env opt ?ai1 dsk = (0, ?ai2, dsk(vp 0 \<mapsto> []))"
    using env ow by (auto simp: archwriter_create_def env_good_def Let_def not_less)
  have h: "archwriter_write_volheader env ?ai2 (dsk(vp 0 \<mapsto> [])) = (0, dsk(vp 0 \<mapsto> head_bytes (w_archid ai) 0))"
    using write_volheader_ok [OF env fd] volheader_bytes_head [of ?ai2 0] ai by (simp add: volume_bytes_def)
  have "writer_rep (w_archid ai) vp ?ai2 (dsk(vp 0 \<mapsto> head_bytes (w_archid ai) 0)) [[]]"
    using ai fd by (simp add: writer_rep_def archive_on_disk_def volume_image_def)
  moreover have "paths_free opt vp 1 n (dsk(vp 0 \<mapsto> head_bytes (w_archid ai) 0))"
    using free paths_distinct [OF paths, of _ 0] by (auto simp: paths_free_def)
  ultimately show ?thesis
    using p c h ai by (simp add: archwriter_volpath_def)
qed

lemma writer_finish:
  assumes env: "env_good env" and rep: "writer_rep ident vp ai dsk vs" and paths: "paths_ok env base vp n"
    and room: "length vs \<le> Suc n"
  shows "\<exists>dsk'. archwriter_write_volfooter env ai dsk True = (0, dsk') \<and> archive_on_disk ident vp vs True dsk'"
proof -
  obtain ws w where vs: "vs = ws @ [w]"
    using rep by (cases vs rule: rev_cases) (auto simp: writer_rep_def archive_on_disk_def)
  have cur: "w_archid ai = ident" "w_curvol ai = of_nat (length ws)" "w_fdpath ai = vp (length ws)" "0 \<le> w_archfd ai"
    using rep vs by (simp_all add: writer_rep_def)
  have vol: "volume_bytes ai dsk = head_bytes ident (length ws) @ concat w"
    using writer_rep_volume(1) [OF rep] vs by simp
  let ?d = "dsk(vp (length ws) \<mapsto> head_bytes ident (length ws) @ concat w @ foot_bytes ident (length ws) True)"
  have "archwriter_write_volfooter env ai dsk True = (0, ?d)"
    using write_volfooter_ok [OF env cur(4)] volfooter_bytes_foot [OF cur(2)] by (simp add: vol cur)
  moreover have "archive_on_disk ident vp vs True ?d"
    unfolding archive_on_disk_def
  proof (intro conjI allI impI)
    fix k assume k: "k < length vs"
    then have d: "vp k = vp (length ws) \<longleftrightarrow> k = length ws"
      using paths_distinct [OF paths, of k "length ws"] room vs by auto
    have "dsk (vp k) = Some (volume_image ident vs False k)" using rep k by (simp add: writer_rep_def archive_on_disk_def)
    with k show "?d (vp k) = Some (volume_image ident vs True k)"
      by (cases "k = length ws") (auto simp: d volume_image_def vs)
  qed (simp add: vs)
  ultimately show ?thesis by blast
qed

lemma thread_writer_ok:
  assumes env: "env_good env" and paths: "paths_ok env (w_basepath ai) vp n" and free: "paths_free opt vp 0 n dsk"
    and ai: "w_curvol ai = 0" and room: "length deqs \<le> n"
    and items: "\<forall>(num, info) \<in> set deqs. 0 < num \<and> item_writable info"
  shows "\<exists>ai' dsk'. thread_writer_fct env opt ai dsk deqs = (False, ai', dsk') \<and>
    archive_on_disk (w_archid ai) vp
      (add_items (unat (splitsize opt)) [[]] (map (\<lambda>d. qinfo_bytes (w_archid ai) (snd d)) deqs)) True dsk'"
proof -
  obtain ai1 ai2 dsk1 dsk2 where s: "archwriter_volpath env ai = (0, ai1)" "archwriter_create env opt ai1 dsk = (0, ai2, dsk1)"
    "archwriter_write_volheader env ai2 dsk1 = (0, dsk2)" "writer_rep (w_archid ai) vp ai2 dsk2 [[]]"
    "w_basepath ai2 = w_basepath ai" "paths_free opt vp 1 n dsk2"
    using writer_start [OF env paths free ai] by blast
  let ?vs = "add_items (unat (splitsize opt)) [[]] (map (\<lambda>d. qinfo_bytes (w_archid ai) (snd d)) deqs)"
  obtain ai3 dsk3 where l: "writer_loop env opt ai2 dsk2 deqs = (False, ai3, dsk3)" "writer_rep (w_archid ai) vp ai3 dsk3 ?vs"
    using writer_loop_rep [OF env s(4), of n opt deqs] paths s(5,6) room items by auto
  have "length ?vs \<le> Suc n"
    using length_add_items [of "[[]]" "unat (splitsize opt)" "map (\<lambda>d. qinfo_bytes (w_archid ai) (snd d)) deqs"] room by simp
  then obtain dsk4 where "archwriter_write_volfooter env ai3 dsk3 True = (0, dsk4)"
    "archive_on_disk (w_archid ai) vp ?vs True dsk4"
    using writer_finish [OF env l(2) paths] by blast
  then show ?thesis using s l by (simp add: thread_writer_fct_def writer_body_def)
qed

section \<open>The reader thread\<close>

text \<open>What the thread finds outside: the results of the system calls, the bytes of the uninitialised
  variables when a volume header, a block header and one more number are read, the bitmap of the filesystems that are
  wanted, the flag g_stopfillqueue at the start of the \<open>n\<close>-th turn of the loop, and the result of the \<open>n\<close>-th
  addition to the queue.\<close>

record renv =
  v_mem :: malloc
  v_realpath :: "string \<Rightarrow> string option"
  v_open64 :: "string \<Rightarrow> (int \<times> bool \<times> u8 list) option"
  v_fstat :: "string \<Rightarrow> bool"
  v_exists :: "string \<Rightarrow> bool"
  v_stkvol :: "u16 \<Rightarrow> u8 list"
  v_stkblk :: "u16 \<Rightarrow> u8 list"
  v_stk32 :: "u8 list"
  v_bitmap :: "u8 list"
  v_stop :: "nat \<Rightarrow> bool"
  v_queue :: "nat \<Rightarrow> int"

record rstate =
  r_ai :: carchreader
  r_end :: u32
  r_added :: "(qstatus \<times> qinfo) list"
  r_errors :: nat
  r_inputs :: "string list"
  r_turn :: nat

text \<open>A turn of the loop goes on, leaves the loop by an error, reads outside an object, or waits for ever for
  a path that the user does not type.\<close>

datatype rresult = Rnext rstate | Rexit rstate | Rundefined | Rwaiting

definition g_fsbitmap :: "renv \<Rightarrow> u16 \<Rightarrow> u8 option" where
  "g_fsbitmap env fsid = (if unat fsid < length (v_bitmap env) then Some (v_bitmap env ! unat fsid) else None)"

text \<open>The question for the path of the next volume: scanf reads one word of at most 256 characters.\<close>

fun ask_volume :: "(string \<Rightarrow> bool) \<Rightarrow> string \<Rightarrow> string list \<Rightarrow> (string \<times> string list) option" where
  "ask_volume exist path [] = (if exist path then Some (path, []) else None)"
| "ask_volume exist path (word # inputs) =
     (if exist path then Some (path, word # inputs) else ask_volume exist (take 256 word) inputs)"

text \<open>Opening a volume and reading its header.\<close>

definition reader_open_volume :: "renv \<Rightarrow> carchreader \<Rightarrow> (int \<times> carchreader) option" where
  "reader_open_volume env ai =
     (let (r, ai) = archreader_open (v_open64 env) (v_fstat env) ai
      in if r \<noteq> 0 then Some (-1, ai) else archreader_read_volheader (v_mem env) (v_stkvol env) ai)"

text \<open>The end of a volume.\<close>

definition reader_volfoot :: "renv \<Rightarrow> rstate \<Rightarrow> cdico \<Rightarrow> rresult" where
  "reader_volfoot env s d =
     (let ai = snd (archreader_close (r_ai s));
          (r, endofarchive) = dico_get_u32 d 0 VOLUMEFOOTKEY_LASTVOL (v_stk32 env);
          s = s\<lparr>r_ai := ai, r_end := endofarchive\<rparr>
      in if r \<noteq> 0 then Rexit s
         else if endofarchive = 1 then Rnext s
         else
           (let ai = snd (archreader_incvolume (v_realpath env) ai)
            in case ask_volume (v_exists env) (volpath ai) (r_inputs s) of
                 None \<Rightarrow> Rwaiting
               | Some (path, inputs) \<Rightarrow>
                   (case reader_open_volume env (ai\<lparr>volpath := path\<rparr>) of
                      None \<Rightarrow> Rundefined
                    | Some (r, ai) \<Rightarrow>
                        (let s = s\<lparr>r_ai := ai, r_inputs := inputs\<rparr>
                         in if r \<noteq> 0 then Rexit s else Rnext s))))"

text \<open>Additions to the queue.\<close>

definition reader_add :: "renv \<Rightarrow> rstate \<Rightarrow> qstatus \<times> qinfo \<Rightarrow> rresult" where
  "reader_add env s x =
     (if v_queue env (length (r_added s)) \<noteq> FSAERR_SUCCESS then Rexit s
      else Rnext (s\<lparr>r_added := r_added s @ [x]\<rparr>))"

definition reader_block :: "renv \<Rightarrow> rstate \<Rightarrow> cdico \<Rightarrow> u16 \<Rightarrow> rresult" where
  "reader_block env s d fsid =
     (case g_fsbitmap env fsid of
        None \<Rightarrow> Rundefined
      | Some wanted \<Rightarrow>
          (let skipblock = (wanted = 0);
               (r, ai, sumok, blkinfo) = archreader_read_block (v_mem env) (v_stkblk env) (r_ai s) d skipblock;
               s = s\<lparr>r_ai := ai\<rparr>
           in if r \<noteq> 0 then Rexit s
              else if skipblock then Rnext s
              else
                (let status = (if sumok = 1 then QITEM_STATUS_TODO else QITEM_STATUS_DONE)
                 in case reader_add env s (status, Qblock blkinfo) of
                      Rnext s \<Rightarrow> Rnext (if sumok = 0 then s\<lparr>r_errors := r_errors s + 1\<rparr> else s)
                    | res \<Rightarrow> res)))"

definition reader_header :: "renv \<Rightarrow> rstate \<Rightarrow> u8 list \<Rightarrow> cdico \<Rightarrow> u16 \<Rightarrow> rresult" where
  "reader_header env s magic d fsid =
     (let add = reader_add env s
            (QITEM_STATUS_DONE, Qheader \<lparr>hmagic = take FSA_SIZEOF_MAGIC magic, hfsid = fsid, hdico = d\<rparr>)
      in if fsid = FSA_FILESYSID_NULL then add
         else case g_fsbitmap env fsid of
           None \<Rightarrow> Rundefined
         | Some wanted \<Rightarrow> if wanted = 1 then add else Rnext s)"

definition reader_turn :: "renv \<Rightarrow> rstate \<Rightarrow> rresult" where
  "reader_turn env s =
     (case archreader_read_header (v_mem env) (r_ai s) True of
        None \<Rightarrow> Rundefined
      | Some (r, ai, magic, d, fsid) \<Rightarrow>
          (let s = s\<lparr>r_ai := ai, r_turn := r_turn s + 1\<rparr>
           in if r \<noteq> FSAERR_SUCCESS then
                (if r = OLDERR_MINOR then Rnext (s\<lparr>r_errors := r_errors s + 1\<rparr>) else Rexit s)
              else if strncmp_eq FSA_SIZEOF_MAGIC magic FSA_MAGIC_VOLF then reader_volfoot env s d
              else if strncmp_eq FSA_SIZEOF_MAGIC magic FSA_MAGIC_BLKH then reader_block env s d fsid
              else reader_header env s magic d fsid))"

text \<open>The loop need not end: the result None is a run that never leaves it.\<close>

partial_function (option) reader_loop :: "renv \<Rightarrow> rstate \<Rightarrow> rresult option" where
  "reader_loop env s =
     (if r_end s \<noteq> 0 \<or> v_stop env (r_turn s) then Some (Rexit s)
      else case reader_turn env s of
        Rnext s \<Rightarrow> reader_loop env s
      | res \<Rightarrow> Some res)"

text \<open>The main archive header, which is required.\<close>

definition reader_start :: "renv \<Rightarrow> rstate \<Rightarrow> rresult" where
  "reader_start env s =
     (let (r, ai) = archreader_volpath (v_realpath env) (r_ai s)
      in if r \<noteq> 0 then Rexit (s\<lparr>r_ai := ai\<rparr>)
         else case reader_open_volume env ai of
           None \<Rightarrow> Rundefined
         | Some (r, ai) \<Rightarrow>
             if r \<noteq> 0 then Rexit (s\<lparr>r_ai := ai\<rparr>)
             else
               (case archreader_read_header (v_mem env) ai False of
                  None \<Rightarrow> Rundefined
                | Some (r, ai, magic, d, fsid) \<Rightarrow>
                    if r \<noteq> FSAERR_SUCCESS then Rexit (s\<lparr>r_ai := ai\<rparr>)
                    else
                      (let (r, ident) = dico_get_u32 d 0 MAINHEADKEY_ARCHIVEID (v_stk32 env);
                           s = s\<lparr>r_ai := ai\<lparr>archid := ident\<rparr>\<rparr>
                       in if r \<noteq> 0 then Rexit s
                          else reader_add env s (QITEM_STATUS_DONE,
                            Qheader \<lparr>hmagic = take FSA_SIZEOF_MAGIC magic, hfsid = fsid, hdico = d\<rparr>))))"

definition thread_reader_fct :: "renv \<Rightarrow> carchreader \<Rightarrow> string list \<Rightarrow> rresult option" where
  "thread_reader_fct env ai inputs =
     (case reader_start env \<lparr>r_ai = ai, r_end = 0, r_added = [], r_errors = 0, r_inputs = inputs, r_turn = 0\<rparr> of
        Rnext s \<Rightarrow> reader_loop env s
      | res \<Rightarrow> Some res)"

end
