(* ===== verification/Archive.thy ===== *)
theory Archive
  imports Archio
begin

text \<open>The writer and the reader thread together: what the writer thread leaves on the disk, in as many
  volumes as the size limit asks for, the reader thread hands to the queue again.\<close>

section \<open>Opening a volume\<close>

lemma dico_serialise_new:
  "unat sz = length data \<Longrightarrow> data \<noteq> [] \<Longrightarrow> dico_serialise (new_item s k data sz t # items) =
     [t] @ [s] @ cpu_to_le16 k @ cpu_to_le16 sz @ data @ dico_serialise items"
  by (auto simp: new_item_bytes word_greater_zero_iff)

lemma le_bytes_ne: "cpu_to_le16 a \<noteq> []" "cpu_to_le32 b \<noteq> []"
  using le16.enc_len le32.enc_len by (auto simp flip: length_0_conv)

lemma head_bytes_format:
  "\<exists>p q. head_bytes ident k = p @ [11, 0] @ bytes_of_string FSA_FILEFORMAT @ q \<and> length p = 40 \<and> length q = 22"
proof -
  let ?ai = "volume_writer ident k"
  let ?i = "[DICTYPE_U32] @ [0] @ cpu_to_le16 VOLUMEHEADKEY_VOLNUM @ cpu_to_le16 4 @ cpu_to_le32 (w_curvol ?ai)"
  let ?j = "[DICTYPE_U32] @ [0] @ cpu_to_le16 VOLUMEHEADKEY_ARCHID @ cpu_to_le16 4 @ cpu_to_le32 (w_archid ?ai)"
  let ?f = "[DICTYPE_STRING] @ [0] @ cpu_to_le16 VOLUMEHEADKEY_FILEFORMATVER @ cpu_to_le16 11"
  let ?v = "[DICTYPE_STRING] @ [0] @ cpu_to_le16 VOLUMEHEADKEY_PROGVERCREAT @ cpu_to_le16 11 @ bytes_of_string FSA_VERSION @ [0]"
  let ?h = "FSA_MAGIC_VOLH @ cpu_to_le32 (w_archid ?ai) @ cpu_to_le16 FSA_FILESYSID_NULL
    @ cpu_to_le32 (of_nat (length (dico_payload (volheader_items ?ai))))"
  let ?c = "cpu_to_le32 (fletcher32 (dico_payload (volheader_items ?ai)))"
  let ?p = "?h @ cpu_to_le16 4 @ ?i @ ?j @ [DICTYPE_STRING] @ [0] @ cpu_to_le16 VOLUMEHEADKEY_FILEFORMATVER"
  have lens: "length (bytes_of_string FSA_FILEFORMAT @ [0]) = 11" "length (bytes_of_string FSA_VERSION @ [0]) = 11"
    by (simp_all add: bytes_of_string_def FSA_FILEFORMAT_def FSA_VERSION_def)
  have "dico_serialise (volheader_items ?ai) = ?i @ ?j @ ?f @ (bytes_of_string FSA_FILEFORMAT @ [0]) @ ?v"
    unfolding volheader_items_def using lens by (simp add: dico_serialise_new le_bytes_ne del: dico_serialise.simps(2))
  then have "dico_payload (volheader_items ?ai) = cpu_to_le16 4 @ ?i @ ?j @ ?f @ bytes_of_string FSA_FILEFORMAT @ [0] @ ?v"
    by (simp add: dico_payload_def volheader_items_def)
  then have "head_bytes ident k =
      ?h @ (cpu_to_le16 4 @ ?i @ ?j @ ?f @ bytes_of_string FSA_FILEFORMAT @ [0] @ ?v) @ ?c"
    unfolding head_bytes_def volheader_bytes_def header_bytes_def dico_bytes_def by simp
  moreover have "cpu_to_le16 11 = [11, 0]" by code_simp
  ultimately have "head_bytes ident k = ?p @ [11, 0] @ bytes_of_string FSA_FILEFORMAT @ [0] @ ?v @ ?c" by simp
  moreover have "length ?p = 40" by simp
  moreover have "length ([0] @ ?v @ ?c) = 22" using lens(2) by simp
  ultimately show ?thesis by blast
qed

lemma archreader_open_eq:
  assumes "open64 (volpath ai) = Some (fd, True, bytes)" and "fstat_ok (volpath ai)" and "64 \<le> length bytes"
    and "take 10 (drop 42 (take 64 bytes)) = bytes_of_string FSA_FILEFORMAT"
    and "hd (drop 40 (take 64 bytes)) = 11"
  shows "archreader_open open64 fstat_ok ai = (0, ai\<lparr>archfd := fd, afile := bytes, apos := 0, filefmtver := 2\<rparr>)"
proof -
  have l: "length FSA_FILEFORMAT = 10" "take 10 (bytes_of_string ''FsArCh_002'') = bytes_of_string FSA_FILEFORMAT"
    by (simp_all add: FSA_FILEFORMAT_def bytes_of_string_def)
  have n: "take 10 (drop 40 (take 64 bytes)) \<noteq> take 10 (bytes_of_string s)" if "s \<noteq> []" "hd s = CHR ''F''" for s
  proof
    assume "take 10 (drop 40 (take 64 bytes)) = take 10 (bytes_of_string s)"
    then have "hd (take 10 (drop 40 (take 64 bytes))) = hd (take 10 (bytes_of_string s))" by simp
    then show False using that assms(3,5) by (cases s) (simp_all add: bytes_of_string_def)
  qed
  have len: "length (take 64 bytes) = 64" using assms(3) by simp
  show ?thesis
    unfolding archreader_open_def assms(1) sys_read_def sys_seek_def
    using assms(2,4) len n [of "''FsArCh_001''"] n [of "''FsArCh_00Y''"]
    by (simp add: Let_def l del: take_drop drop_take length_take)
qed

lemma archreader_open_head:
  assumes "open64 (volpath ai) = Some (fd, True, head_bytes ident k @ rest)" and "fstat_ok (volpath ai)"
  shows "archreader_open open64 fstat_ok ai =
    (0, ai\<lparr>archfd := fd, afile := head_bytes ident k @ rest, apos := 0, filefmtver := 2\<rparr>)"
proof -
  obtain p q where h: "head_bytes ident k = p @ [11, 0] @ bytes_of_string FSA_FILEFORMAT @ q" "length p = 40" "length q = 22"
    using head_bytes_format by blast
  have l: "length (bytes_of_string FSA_FILEFORMAT) = 10" by (simp add: bytes_of_string_def FSA_FILEFORMAT_def)
  show ?thesis
    by (rule archreader_open_eq) (use assms h l in simp_all)
qed

section \<open>The volume header\<close>

text \<open>What the reader has read so far belongs to the archive \<open>ident\<close>.\<close>

definition format_name :: "u8 list" where
  "format_name = bytes_of_string FSA_FILEFORMAT @ [0]"

definition reads_archive :: "u32 \<Rightarrow> carchreader \<Rightarrow> bool" where
  "reads_archive ident ai \<longleftrightarrow>
     (archid ai = 0 \<or> archid ai = ident) \<and>
     (hd (filefmt ai) = 0 \<or> strncmp_eq FSA_MAX_FILEFMTLEN format_name (filefmt ai))"

lemma reads_archive_init: "reads_archive ident archreader_init"
  by (simp add: reads_archive_def archreader_init_def FSA_MAX_FILEFMTLEN_def)

lemma strncmp_format:
  "strncmp_eq FSA_MAX_FILEFMTLEN (memcpy buf format_name) b \<longleftrightarrow> strncmp_eq FSA_MAX_FILEFMTLEN format_name b"
  "strncmp_eq FSA_MAX_FILEFMTLEN format_name (take FSA_MAX_FILEFMTLEN (memcpy buf format_name))"
  by (simp_all add: strncmp_eq_def memcpy_def format_name_def FSA_MAX_FILEFMTLEN_def bytes_of_string_def FSA_FILEFORMAT_def)

lemma volheader_lookups:
  assumes "length (stk VOLUMEHEADKEY_ARCHID) = 4" and "length (stk VOLUMEHEADKEY_VOLNUM) = 4"
  shows "dico_get_u32 (volheader_items w) 0 VOLUMEHEADKEY_ARCHID (stk VOLUMEHEADKEY_ARCHID) = (0, w_archid w)"
    "dico_get_u32 (volheader_items w) 0 VOLUMEHEADKEY_VOLNUM (stk VOLUMEHEADKEY_VOLNUM) = (0, w_curvol w)"
    "dico_get_data (volheader_items w) 0 VOLUMEHEADKEY_FILEFORMATVER buf (of_nat FSA_MAX_FILEFMTLEN) =
      (0, memcpy buf format_name, 11)"
    "\<exists>ver. dico_get_data (volheader_items w) 0 VOLUMEHEADKEY_PROGVERCREAT buf (of_nat FSA_MAX_PROGVERLEN) = (0, ver, 11)"
  using assms
  by (simp_all add: dico_get_u32_def dico_get_data_item volheader_items_def new_item_def fsa_const memcpy_full Let_def
      format_name_def bytes_of_string_def FSA_FILEFORMAT_def FSA_VERSION_def)

lemma check_volheader_ok:
  assumes "length (stk VOLUMEHEADKEY_ARCHID) = 4" and "length (stk VOLUMEHEADKEY_VOLNUM) = 4"
    and "reads_archive (w_archid w) ai" and "curvol ai = w_curvol w"
  shows "\<exists>ai'. check_volheader stk ai FSA_MAGIC_VOLH (volheader_items w) = (0, ai') \<and>
    reads_archive (w_archid w) ai' \<and> archid ai' = w_archid w \<and> ahead ai' = ahead ai \<and> filefmtver ai' = filefmtver ai \<and>
    curvol ai' = curvol ai \<and> basepath ai' = basepath ai"
proof -
  obtain ver where v: "dico_get_data (volheader_items w) 0 VOLUMEHEADKEY_PROGVERCREAT (stk VOLUMEHEADKEY_PROGVERCREAT)
      (of_nat FSA_MAX_PROGVERLEN) = (0, ver, 11)"
    using volheader_lookups(4) [OF assms(1,2)] by blast
  have m: "strncmp_eq FSA_SIZEOF_MAGIC FSA_MAGIC_VOLH FSA_MAGIC_VOLH" by (simp add: strncmp_eq_def)
  define ai1 where "ai1 = (if archid ai = 0 then ai\<lparr>archid := w_archid w\<rparr> else ai)"
  define fmt where "fmt = memcpy (stk VOLUMEHEADKEY_FILEFORMATVER) format_name"
  define ai2 where "ai2 = (if hd (filefmt ai1) = 0 then ai1\<lparr>filefmt := take FSA_MAX_FILEFMTLEN fmt\<rparr> else ai1)"
  define ai3 where "ai3 = (if hd (creatver ai2) = 0 then ai2\<lparr>creatver := take FSA_MAX_PROGVERLEN ver\<rparr> else ai2)"
  have a1: "archid ai1 = w_archid w" "filefmt ai1 = filefmt ai" "curvol ai1 = w_curvol w"
    "\<not> (archid ai \<noteq> 0 \<and> w_archid w \<noteq> archid ai)"
    using assms(3,4) by (auto simp: ai1_def reads_archive_def)
  have f: "\<not> (hd (filefmt ai1) \<noteq> 0 \<and> \<not> strncmp_eq FSA_MAX_FILEFMTLEN fmt (filefmt ai1))"
    using assms(3) by (auto simp: fmt_def strncmp_format a1(2) reads_archive_def)
  have c: "check_volheader stk ai FSA_MAGIC_VOLH (volheader_items w) = (0, ai3)"
    unfolding check_volheader_def volheader_lookups [OF assms(1,2)] v prod.case Let_def fmt_def [symmetric] ai1_def [symmetric]
      ai2_def [symmetric] ai3_def [symmetric]
    using m a1 f by simp
  have "hd (filefmt ai2) = 0 \<or> strncmp_eq FSA_MAX_FILEFMTLEN format_name (filefmt ai2)"
    using assms(3) strncmp_format(2) by (auto simp: ai2_def a1(2) fmt_def reads_archive_def)
  then have "reads_archive (w_archid w) ai3"
    using a1(1) by (simp add: reads_archive_def ai3_def ai2_def)
  moreover have "archid ai3 = w_archid w" using a1(1) by (simp add: ai3_def ai2_def)
  moreover have "ahead ai3 = ahead ai" "filefmtver ai3 = filefmtver ai" "curvol ai3 = curvol ai" "basepath ai3 = basepath ai"
    by (simp_all add: ai3_def ai2_def ai1_def ahead_def)
  ultimately show ?thesis using c by blast
qed

section \<open>Turns of the reader\<close>

text \<open>The reader of archive \<open>ident\<close> stands in volume \<open>k\<close> before the bytes \<open>rest\<close>.\<close>

definition at_item :: "u32 \<Rightarrow> string \<Rightarrow> nat \<Rightarrow> carchreader \<Rightarrow> u8 list \<Rightarrow> bool" where
  "at_item ident base k ai rest \<longleftrightarrow>
     reads_archive ident ai \<and> filefmtver ai = 2 \<and> curvol ai = of_nat k \<and> basepath ai = base \<and> ahead ai = rest"

lemma at_item_advance: "at_item ident base k ai (xs @ rest) \<Longrightarrow> at_item ident base k (advance (length xs) ai) rest"
  by (simp add: at_item_def ahead_advance reads_archive_def) (simp add: advance_def)

text \<open>The reader's environment when nothing fails: the disk is the writer's.\<close>

definition renv_good :: "renv \<Rightarrow> disk \<Rightarrow> bool" where
  "renv_good env dsk \<longleftrightarrow>
     v_mem env = mem_ok \<and> (\<forall>p. v_open64 env p = map_option (\<lambda>bytes. (3, True, bytes)) (dsk p)) \<and>
     (\<forall>p. v_fstat env p) \<and> (\<forall>p. v_exists env p \<longleftrightarrow> dsk p \<noteq> None) \<and>
     length (v_stkvol env VOLUMEHEADKEY_ARCHID) = 4 \<and> length (v_stkvol env VOLUMEHEADKEY_VOLNUM) = 4 \<and>
     stk_ok (v_stkblk env) \<and> length (v_stk32 env) = 4 \<and>
     (\<forall>n. \<not> v_stop env n) \<and> (\<forall>n. v_queue env n = FSAERR_SUCCESS)"

fun item_readable :: "renv \<Rightarrow> qinfo \<Rightarrow> bool" where
  "item_readable env (Qblock b) \<longleftrightarrow>
     unat (blkrealsize b) \<le> FSA_MAX_BLKSIZE \<and> blkarcsum b = fletcher32 (blkdata b) \<and>
     unat (blkfsid b) < length (v_bitmap env)"
| "item_readable env (Qheader h) \<longleftrightarrow>
     hmagic h \<in> set valid_magic \<and> hmagic h \<noteq> FSA_MAGIC_VOLF \<and> hmagic h \<noteq> FSA_MAGIC_BLKH \<and>
     (hfsid h = FSA_FILESYSID_NULL \<or> unat (hfsid h) < length (v_bitmap env))"
| "item_readable env Qnone \<longleftrightarrow> False"

text \<open>What the reader hands to the queue for an item: nothing when its filesystem is not wanted.\<close>

fun handed_over :: "renv \<Rightarrow> qinfo \<Rightarrow> (qstatus \<times> qinfo) list" where
  "handed_over env (Qblock b) =
     (if v_bitmap env ! unat (blkfsid b) = 0 then []
      else [(QITEM_STATUS_TODO, Qblock (b\<lparr>blkfsid := 0, blklocked := False\<rparr>))])"
| "handed_over env (Qheader h) =
     (if hfsid h = FSA_FILESYSID_NULL \<or> v_bitmap env ! unat (hfsid h) = 1
      then [(QITEM_STATUS_DONE, Qheader h)] else [])"
| "handed_over env Qnone = []"

lemma strncmp_magic:
  "magic \<in> set valid_magic \<Longrightarrow> strncmp_eq FSA_SIZEOF_MAGIC magic FSA_MAGIC_VOLF \<longleftrightarrow> magic = FSA_MAGIC_VOLF"
  "magic \<in> set valid_magic \<Longrightarrow> strncmp_eq FSA_SIZEOF_MAGIC magic FSA_MAGIC_BLKH \<longleftrightarrow> magic = FSA_MAGIC_BLKH"
  by (auto simp: valid_magic_def strncmp_eq_def FSA_SIZEOF_MAGIC_def magic_defs bytes_of_string_def)

lemma magics_valid: "FSA_MAGIC_VOLH \<in> set valid_magic" "FSA_MAGIC_VOLF \<in> set valid_magic" "FSA_MAGIC_BLKH \<in> set valid_magic"
    "FSA_MAGIC_BLKH \<noteq> FSA_MAGIC_VOLF"
  by (simp_all add: valid_magic_def magic_defs bytes_of_string_def)

lemma read_header_at_item:
  assumes "at_item ident base k ai (header_bytes magic ident fsid d @ rest)"
    and "magic \<in> set valid_magic" and "dico_wf d" and "dico_small d"
  shows "archreader_read_header mem_ok ai allowseek =
    Some (FSAERR_SUCCESS, advance (length (header_bytes magic ident fsid d)) ai, magic, d, fsid)"
  using archreader_read_header_resync [of ai "[]" magic ident fsid d rest allowseek] assms
  by (simp add: at_item_def reads_archive_def)

lemma skip_block_eq:
  assumes "stk_ok stk" and "unat (blkrealsize b) \<le> FSA_MAX_BLKSIZE"
  shows "archreader_read_block mem_ok stk ai (block_items b) True =
    (0, advance (unat (blkarsize b)) ai, -1, zero_blockinfo)"
  by (simp add: archreader_read_block_def read_blockinfo_written [OF assms] block_info_of_def sys_seek_def advance_def
      nat_add_distrib)

lemma reader_turn_item:
  assumes env: "renv_good env dsk" and info: "item_writable info" "item_readable env info"
    and ai: "at_item ident base k (r_ai s) (qinfo_bytes ident info @ rest)"
  shows "\<exists>ai'. reader_turn env s = Rnext (s\<lparr>r_ai := ai', r_added := r_added s @ handed_over env info, r_turn := r_turn s + 1\<rparr>) \<and>
    at_item ident base k ai' rest"
proof (cases info)
  case (Qheader h)
  let ?ai = "advance (length (qinfo_bytes ident info)) (r_ai s)"
  have m: "hmagic h \<in> set valid_magic" "take FSA_SIZEOF_MAGIC (hmagic h) = hmagic h"
    using info Qheader by (auto simp: FSA_SIZEOF_MAGIC_def)
  have "archreader_read_header mem_ok (r_ai s) True = Some (FSAERR_SUCCESS, ?ai, hmagic h, hdico h, hfsid h)"
    using read_header_at_item [of ident base k "r_ai s" "hmagic h" "hfsid h" "hdico h" rest True] ai info m Qheader by simp
  then have "reader_turn env s = reader_header env (s\<lparr>r_ai := ?ai, r_turn := r_turn s + 1\<rparr>) (hmagic h) (hdico h) (hfsid h)"
    using env info Qheader by (simp add: reader_turn_def renv_good_def strncmp_magic Let_def)
  also have "\<dots> = Rnext (s\<lparr>r_ai := ?ai, r_added := r_added s @ handed_over env info, r_turn := r_turn s + 1\<rparr>)"
    using env info Qheader m by (auto simp: reader_header_def reader_add_def renv_good_def g_fsbitmap_def Let_def)
  finally show ?thesis using at_item_advance [OF ai] by blast
next
  case (Qblock b)
  let ?h = "header_bytes FSA_MAGIC_BLKH ident (blkfsid b) (block_items b)"
  let ?ai = "advance (length (qinfo_bytes ident info)) (r_ai s)"
  have bytes: "qinfo_bytes ident info = ?h @ blkdata b" using Qblock by (simp add: block_bytes_def)
  have ai1: "at_item ident base k (r_ai s) (?h @ (blkdata b @ rest))" using ai bytes by simp
  have a: "ahead (advance (length ?h) (r_ai s)) = blkdata b @ rest"
    using at_item_advance [OF ai1] by (simp add: at_item_def)
  have stk: "stk_ok (v_stkblk env)" "unat (blkrealsize b) \<le> FSA_MAX_BLKSIZE" "length (blkdata b) = unat (blkarsize b)"
    using env info Qblock by (simp_all add: renv_good_def)
  have "archreader_read_header mem_ok (r_ai s) True =
      Some (FSAERR_SUCCESS, advance (length ?h) (r_ai s), FSA_MAGIC_BLKH, block_items b, blkfsid b)"
    by (rule read_header_at_item [OF ai1 magics_valid(3) block_items_wf block_items_small])
  then have "reader_turn env s = reader_block env (s\<lparr>r_ai := advance (length ?h) (r_ai s), r_turn := r_turn s + 1\<rparr>)
      (block_items b) (blkfsid b)"
    using env by (simp add: reader_turn_def renv_good_def strncmp_magic magics_valid Let_def)
  also have "\<dots> = Rnext (s\<lparr>r_ai := ?ai, r_added := r_added s @ handed_over env info, r_turn := r_turn s + 1\<rparr>)"
    using env info Qblock bytes archreader_read_block_eq [OF stk(1,2) a stk(3)] skip_block_eq [OF stk(1,2)]
    by (simp add: reader_block_def reader_add_def renv_good_def g_fsbitmap_def Let_def block_info_of_def)
  finally show ?thesis using at_item_advance [OF ai] by blast
qed (use info in simp)

lemma reader_loop_turn:
  "r_end s = 0 \<Longrightarrow> renv_good env dsk \<Longrightarrow> reader_turn env s = Rnext s' \<Longrightarrow> reader_loop env s = reader_loop env s'"
  by (subst reader_loop.simps) (simp add: renv_good_def)

lemma reader_loop_items:
  assumes env: "renv_good env dsk" and "\<forall>info \<in> set infos. item_writable info \<and> item_readable env info"
    and "at_item ident base k (r_ai s) (concat (map (qinfo_bytes ident) infos) @ rest)" and "r_end s = 0"
  shows "\<exists>s'. reader_loop env s = reader_loop env s' \<and> at_item ident base k (r_ai s') rest \<and> r_end s' = 0 \<and>
    r_added s' = r_added s @ concat (map (handed_over env) infos) \<and> r_errors s' = r_errors s \<and> r_inputs s' = r_inputs s"
  using assms(2-4)
proof (induction infos arbitrary: s)
  case Nil
  then show ?case by auto
next
  case (Cons info infos)
  have item: "at_item ident base k (r_ai s) (qinfo_bytes ident info @ concat (map (qinfo_bytes ident) infos) @ rest)"
    using Cons.prems(2) by simp
  obtain ai' where t: "reader_turn env s =
      Rnext (s\<lparr>r_ai := ai', r_added := r_added s @ handed_over env info, r_turn := r_turn s + 1\<rparr>)"
    "at_item ident base k ai' (concat (map (qinfo_bytes ident) infos) @ rest)"
    using reader_turn_item [OF env _ _ item] Cons.prems(1) by auto
  let ?s = "s\<lparr>r_ai := ai', r_added := r_added s @ handed_over env info, r_turn := r_turn s + 1\<rparr>"
  obtain s' where "reader_loop env ?s = reader_loop env s'" "at_item ident base k (r_ai s') rest" "r_end s' = 0"
    "r_added s' = r_added ?s @ concat (map (handed_over env) infos)" "r_errors s' = r_errors ?s" "r_inputs s' = r_inputs ?s"
    using Cons.IH [of ?s] Cons.prems(1,3) t(2) by auto
  then show ?case using reader_loop_turn [OF Cons.prems(3) env t(1)] by auto
qed

subsection \<open>From one volume to the next\<close>

lemma reader_open_volume_ok:
  assumes env: "renv_good env dsk" and dsk: "dsk (volpath ai) = Some (head_bytes ident k @ rest)"
    and ai: "reads_archive ident ai" "curvol ai = of_nat k" "basepath ai = base"
  shows "\<exists>ai'. reader_open_volume env ai = Some (0, ai') \<and> at_item ident base k ai' rest"
proof -
  let ?w = "volume_writer ident k"
  let ?ai = "ai\<lparr>archfd := 3, afile := head_bytes ident k @ rest, apos := 0, filefmtver := 2\<rparr>"
  have o: "archreader_open (v_open64 env) (v_fstat env) ai = (0, ?ai)"
    by (rule archreader_open_head) (use env dsk in \<open>simp_all add: renv_good_def\<close>)
  have id: "w_archid ?w = ident" "w_curvol ?w = of_nat k" by (simp_all add: volume_writer_def)
  have at: "at_item ident base k ?ai (head_bytes ident k @ rest)"
    using ai by (simp add: at_item_def reads_archive_def ahead_def)
  have h: "archreader_read_header mem_ok ?ai False =
      Some (FSAERR_SUCCESS, advance (length (head_bytes ident k)) ?ai, FSA_MAGIC_VOLH, volheader_items ?w, FSA_FILESYSID_NULL)"
    using read_header_at_item [OF _ magics_valid(1) volheader_items_wf] at
    unfolding head_bytes_def volheader_bytes_def id(1) by blast
  let ?b = "advance (length (head_bytes ident k)) ?ai"
  have b: "at_item ident base k ?b rest" by (rule at_item_advance [OF at])
  obtain ai' where "check_volheader (v_stkvol env) ?b FSA_MAGIC_VOLH (volheader_items ?w) = (0, ai')"
    "reads_archive ident ai'" "ahead ai' = ahead ?b" "filefmtver ai' = filefmtver ?b" "curvol ai' = curvol ?b"
    "basepath ai' = basepath ?b"
    using check_volheader_ok [of "v_stkvol env" ?w ?b] env b by (auto simp: renv_good_def at_item_def id)
  then show ?thesis
    using o h b env by (simp add: reader_open_volume_def archreader_read_volheader_def renv_good_def at_item_def)
qed

lemma lastvol_lookup:
  "length buf = 4 \<Longrightarrow> dico_get_u32 (volfooter_items w l) 0 VOLUMEFOOTKEY_LASTVOL buf = (0, if l then 1 else 0)"
  by (simp add: dico_get_u32_def dico_get_data_item volfooter_items_def new_item_def fsa_const memcpy_full Let_def)

lemma reader_turn_foot:
  assumes env: "renv_good env dsk" and ai: "at_item ident base k (r_ai s) (foot_bytes ident k l @ rest)"
  shows "\<exists>ai'. reader_turn env s = reader_volfoot env (s\<lparr>r_ai := ai', r_turn := r_turn s + 1\<rparr>)
      (volfooter_items (volume_writer ident k) l) \<and> at_item ident base k ai' rest"
proof -
  let ?w = "volume_writer ident k" and ?ai = "advance (length (foot_bytes ident k l)) (r_ai s)"
  have id: "w_archid ?w = ident" by (simp add: volume_writer_def)
  have "archreader_read_header mem_ok (r_ai s) True =
      Some (FSAERR_SUCCESS, ?ai, FSA_MAGIC_VOLF, volfooter_items ?w l, FSA_FILESYSID_NULL)"
    using read_header_at_item [OF _ magics_valid(2) volfooter_items_wf] ai
    unfolding foot_bytes_def volfooter_bytes_def id by blast
  then have "reader_turn env s = reader_volfoot env (s\<lparr>r_ai := ?ai, r_turn := r_turn s + 1\<rparr>) (volfooter_items ?w l)"
    using env by (simp add: reader_turn_def renv_good_def strncmp_magic magics_valid Let_def)
  then show ?thesis using at_item_advance [OF ai] by blast
qed

lemma reader_loop_last:
  assumes env: "renv_good env dsk" and "r_end s = 0" and ai: "at_item ident base k (r_ai s) (foot_bytes ident k True)"
  shows "\<exists>s'. reader_loop env s = Some (Rexit s') \<and> r_added s' = r_added s \<and> r_errors s' = r_errors s \<and> r_end s' = 1"
proof -
  have "at_item ident base k (r_ai s) (foot_bytes ident k True @ [])" using ai by simp
  then obtain ai' where t: "reader_turn env s = reader_volfoot env (s\<lparr>r_ai := ai', r_turn := r_turn s + 1\<rparr>)
      (volfooter_items (volume_writer ident k) True)"
    using reader_turn_foot [OF env] by blast
  let ?s = "s\<lparr>r_ai := snd (archreader_close ai'), r_turn := r_turn s + 1, r_end := 1\<rparr>"
  have "reader_turn env s = Rnext ?s"
    using env by (simp add: t reader_volfoot_def lastvol_lookup renv_good_def Let_def)
  then have "reader_loop env s = reader_loop env ?s" by (rule reader_loop_turn [OF assms(2) env])
  then show ?thesis by (subst (asm) (2) reader_loop.simps) auto
qed

lemma reader_loop_next:
  assumes env: "renv_good env dsk" and "r_end s = 0" and ai: "at_item ident base k (r_ai s) (foot_bytes ident k False)"
    and path: "get_path_to_volume (v_realpath env) PATH_MAX base (Suc k) = Some p" "Suc k < 2 ^ 32"
    and dsk: "dsk p = Some (head_bytes ident (Suc k) @ rest)"
  shows "\<exists>s'. reader_loop env s = reader_loop env s' \<and> at_item ident base (Suc k) (r_ai s') rest \<and> r_end s' = 0 \<and>
    r_added s' = r_added s \<and> r_errors s' = r_errors s \<and> r_inputs s' = r_inputs s"
proof -
  have "at_item ident base k (r_ai s) (foot_bytes ident k False @ [])" using ai by simp
  then obtain ai' where t: "reader_turn env s = reader_volfoot env (s\<lparr>r_ai := ai', r_turn := r_turn s + 1\<rparr>)
      (volfooter_items (volume_writer ident k) False)" "at_item ident base k ai' []"
    using reader_turn_foot [OF env] by blast
  let ?a = "snd (archreader_incvolume (v_realpath env) (snd (archreader_close ai')))"
  have k: "curvol ai' + 1 = of_nat (Suc k)" "unat (of_nat (Suc k) :: u32) = Suc k"
    using t(2) path(2) by (simp_all add: at_item_def unsigned_of_nat take_bit_nat_eq_self del: of_nat_Suc)
      (simp add: add.commute)
  have a: "volpath ?a = p" "reads_archive ident ?a" "curvol ?a = of_nat (Suc k)" "basepath ?a = base"
    using t(2) path(1) k
    by (simp_all add: archreader_incvolume_def archreader_volpath_def archreader_close_def at_item_def reads_archive_def
        del: of_nat_Suc)
  have id: "?a\<lparr>volpath := p\<rparr> = ?a" using a(1) by (metis carchreader.surjective carchreader.update_convs(18))
  have ex: "ask_volume (v_exists env) p (r_inputs s) = Some (p, r_inputs s)"
    using env dsk by (cases "r_inputs s") (simp_all add: renv_good_def)
  obtain b where b: "reader_open_volume env ?a = Some (0, b)" "at_item ident base (Suc k) b rest"
    using reader_open_volume_ok [OF env, of ?a ident "Suc k" rest base] dsk a by auto
  let ?s = "s\<lparr>r_ai := b, r_turn := r_turn s + 1\<rparr>"
  have "reader_turn env s = Rnext ?s"
    using env b(1) assms(2) by (simp add: t(1) reader_volfoot_def lastvol_lookup renv_good_def Let_def a(1) id ex)
  then have "reader_loop env s = reader_loop env ?s" by (rule reader_loop_turn [OF assms(2) env])
  then show ?thesis using b(2) assms(2) by (intro exI [of _ ?s]) simp
qed

section \<open>A whole archive\<close>

lemma split_like:
  "map f xs = concat vs \<Longrightarrow> \<exists>xss. concat xss = xs \<and> map (map f) xss = vs"
proof (induction vs arbitrary: xs)
  case (Cons v vs)
  then have "map f (take (length v) xs) = v" "map f (drop (length v) xs) = concat vs"
    by (simp_all flip: take_map drop_map)
  moreover from Cons.IH [OF this(2)] obtain xss where "concat xss = drop (length v) xs" "map (map f) xss = vs" by blast
  ultimately show ?case by (intro exI [of _ "take (length v) xs # xss"]) simp
qed simp

lemma reader_loop_volumes:
  assumes env: "renv_good env dsk" and disk: "archive_on_disk ident vp vs True dsk"
    and paths: "\<forall>k < length vs. get_path_to_volume (v_realpath env) PATH_MAX base k = Some (vp k)" "length vs \<le> 2 ^ 32"
    and "\<forall>info \<in> set (infos @ concat iss). item_writable info \<and> item_readable env info"
    and "map (map (qinfo_bytes ident)) iss = drop (Suc k) vs" and "k < length vs" and "r_end s = 0"
    and "at_item ident base k (r_ai s) (concat (map (qinfo_bytes ident) infos) @ foot_bytes ident k (Suc k = length vs))"
  shows "\<exists>s'. reader_loop env s = Some (Rexit s') \<and> r_end s' = 1 \<and> r_errors s' = r_errors s \<and>
    r_added s' = r_added s @ concat (map (handed_over env) (infos @ concat iss))"
  using assms(5-9)
proof (induction iss arbitrary: k infos s)
  case Nil
  then have last: "Suc k = length vs" by simp
  obtain s1 where s1: "reader_loop env s = reader_loop env s1" "at_item ident base k (r_ai s1) (foot_bytes ident k True)"
    "r_end s1 = 0" "r_added s1 = r_added s @ concat (map (handed_over env) infos)" "r_errors s1 = r_errors s"
    using reader_loop_items [OF env _ Nil.prems(5) Nil.prems(4)] Nil.prems(1) last by auto
  then show ?case using reader_loop_last [OF env s1(3,2)] by auto
next
  case (Cons us iss)
  have k: "Suc k < length vs" using Cons.prems(2) by (cases "Suc k < length vs") auto
  then have dk: "drop (Suc k) vs = vs ! Suc k # drop (Suc (Suc k)) vs" by (rule Cons_nth_drop_Suc [symmetric])
  then have vs: "vs ! Suc k = map (qinfo_bytes ident) us" "map (map (qinfo_bytes ident)) iss = drop (Suc (Suc k)) vs"
    using Cons.prems(2) by simp_all
  obtain s1 where s1: "reader_loop env s = reader_loop env s1" "at_item ident base k (r_ai s1) (foot_bytes ident k False)"
    "r_end s1 = 0" "r_added s1 = r_added s @ concat (map (handed_over env) infos)" "r_errors s1 = r_errors s"
    using reader_loop_items [OF env _ Cons.prems(5) Cons.prems(4)] Cons.prems(1) k by auto
  have "dsk (vp (Suc k)) = Some (head_bytes ident (Suc k) @ concat (map (qinfo_bytes ident) us)
      @ foot_bytes ident (Suc k) (Suc (Suc k) = length vs))"
    using disk k by (auto simp: archive_on_disk_def volume_image_def vs(1))
  moreover have "get_path_to_volume (v_realpath env) PATH_MAX base (Suc k) = Some (vp (Suc k))" "Suc k < 2 ^ 32"
    using paths k by auto
  ultimately obtain s2 where s2: "reader_loop env s1 = reader_loop env s2"
    "at_item ident base (Suc k) (r_ai s2) (concat (map (qinfo_bytes ident) us)
      @ foot_bytes ident (Suc k) (Suc (Suc k) = length vs))"
    "r_end s2 = 0" "r_added s2 = r_added s1" "r_errors s2 = r_errors s1"
    using reader_loop_next [OF env s1(3,2)] by metis
  show ?case
    using Cons.IH [OF _ vs(2) k s2(3,2)] Cons.prems(1) s1 s2 by auto
qed

lemma add_items_first: "vs \<noteq> [] \<Longrightarrow> \<exists>t. hd (add_items limit vs items) = hd vs @ t"
proof (induction items arbitrary: vs)
  case (Cons i items)
  have "\<exists>t. hd (add_item limit vs i) = hd vs @ t"
    using Cons.prems by (cases vs; cases "tl vs") (auto simp: add_item_def)
  moreover obtain t where "hd (add_items limit (add_item limit vs i) items) = hd (add_item limit vs i) @ t"
    using Cons.IH [of "add_item limit vs i"] by auto
  ultimately show ?case by (auto simp: add_items_def)
qed (simp add: add_items_def)

lemma archive_read_ok:
  assumes env: "renv_good env dsk" and disk: "archive_on_disk ident vp vs True dsk"
    and paths: "\<forall>k < length vs. get_path_to_volume (v_realpath env) PATH_MAX (basepath ai) k = Some (vp k)" "length vs \<le> 2 ^ 32"
    and ai: "reads_archive ident ai" "curvol ai = 0"
    and vs: "concat vs = map (qinfo_bytes ident) (Qheader h # infos)" "hd vs \<noteq> []"
    and items: "\<forall>info \<in> set (Qheader h # infos). item_writable info \<and> item_readable env info"
    and main: "dico_get_u32 (hdico h) 0 MAINHEADKEY_ARCHIVEID (v_stk32 env) = (0, ident)"
  shows "\<exists>s. thread_reader_fct env ai inputs = Some (Rexit s) \<and> r_end s = 1 \<and> r_errors s = 0 \<and>
    r_added s = (QITEM_STATUS_DONE, Qheader h) # concat (map (handed_over env) infos)"
proof -
  obtain xss where xss: "concat xss = Qheader h # infos" "map (map (qinfo_bytes ident)) xss = vs"
    using split_like [OF vs(1) [symmetric]] by blast
  obtain ws yss where "xss = ws # yss" using xss(1) by (cases xss) auto
  moreover obtain w us where w: "ws = w # us" using vs(2) xss(2) calculation by (cases ws) auto
  ultimately have x: "w = Qheader h" "infos = us @ concat yss" "map (map (qinfo_bytes ident)) yss = drop (Suc 0) vs"
    "vs ! 0 = qinfo_bytes ident (Qheader h) # map (qinfo_bytes ident) us" "0 < length vs"
    using xss by auto
  let ?tail = "concat (map (qinfo_bytes ident) us) @ foot_bytes ident 0 (Suc 0 = length vs)"
  have p: "get_path_to_volume (v_realpath env) PATH_MAX (basepath ai) 0 = Some (vp 0)" using paths x(5) by blast
  let ?a = "ai\<lparr>volpath := vp 0\<rparr>"
  have one: "Suc 0 = length vs \<longleftrightarrow> \<not> Suc 0 < length vs" using x(5) by linarith
  have d: "dsk (volpath ?a) = Some (head_bytes ident 0 @ qinfo_bytes ident (Qheader h) @ ?tail)"
    using disk x(4,5) unfolding one by (simp add: archive_on_disk_def volume_image_def)
  obtain b where b: "reader_open_volume env ?a = Some (0, b)"
    "at_item ident (basepath ai) 0 b (qinfo_bytes ident (Qheader h) @ ?tail)"
    using reader_open_volume_ok [OF env d, of "basepath ai"] ai by (auto simp: reads_archive_def)
  have hm: "hmagic h \<in> set valid_magic" "dico_wf (hdico h)" "dico_small (hdico h)" "take FSA_SIZEOF_MAGIC (hmagic h) = hmagic h"
    using items by (auto simp: FSA_SIZEOF_MAGIC_def)
  let ?c = "advance (length (qinfo_bytes ident (Qheader h))) b"
  have h: "archreader_read_header mem_ok b False = Some (FSAERR_SUCCESS, ?c, hmagic h, hdico h, hfsid h)"
    using read_header_at_item [OF _ hm(1-3)] b(2) by simp
  have c: "at_item ident (basepath ai) 0 (?c\<lparr>archid := ident\<rparr>) ?tail"
    using at_item_advance [OF b(2)] by (simp add: at_item_def reads_archive_def ahead_def)
  define s0 where "s0 = \<lparr>r_ai = ai, r_end = 0, r_added = [], r_errors = 0, r_inputs = inputs, r_turn = 0\<rparr>"
  let ?s = "s0\<lparr>r_ai := ?c\<lparr>archid := ident\<rparr>, r_added := [(QITEM_STATUS_DONE, Qheader h)]\<rparr>"
  have start: "reader_start env s0 = Rnext ?s"
    using env ai(2) p b(1) h main hm(4)
    by (simp add: reader_start_def archreader_volpath_def renv_good_def reader_add_def s0_def)
  have "\<exists>s'. reader_loop env ?s = Some (Rexit s') \<and> r_end s' = 1 \<and> r_errors s' = r_errors ?s \<and>
    r_added s' = r_added ?s @ concat (map (handed_over env) (us @ concat yss))"
    by (rule reader_loop_volumes [OF env disk paths _ x(3,5)]) (use c items x(2) in \<open>auto simp: s0_def\<close>)
  then show ?thesis using start x(2) by (auto simp: thread_reader_fct_def s0_def)
qed

section \<open>Properties\<close>

text \<open>C3: the writer thread makes from the items of the queue a complete archive: all volumes are on the disk
  with their headers and footers, their contents are the items in the order of the queue, no item is
  cut at the end of a volume. A volume is at most the 50 bytes of its footer longer than the limit, but for one that
  is over the limit with a single item, because this item and the header of the volume are longer than the
  limit (or, below a limit of 74 bytes, with none): such a volume has exactly its header, the item and its footer.\<close>

theorem writer_thread_archive:
  assumes "env_good env" and "paths_ok env (w_basepath ai) vp n" and "paths_free opt vp 0 n dsk"
    and "w_curvol ai = 0" and "length deqs \<le> n" and "\<forall>(num, info) \<in> set deqs. 0 < num \<and> item_writable info"
  shows "\<exists>ai' dsk' vs. thread_writer_fct env opt ai dsk deqs = (False, ai', dsk') \<and>
    archive_on_disk (w_archid ai) vp vs True dsk' \<and> concat vs = map (\<lambda>d. qinfo_bytes (w_archid ai) (snd d)) deqs \<and>
    (\<forall>k < length vs. splitsize opt = 0 \<or> length (the (dsk' (vp k))) \<le> unat (splitsize opt) + 50 \<or>
       length (vs ! k) \<le> 1 \<and> unat (splitsize opt) < 74 + length (concat (vs ! k)) \<and>
       length (the (dsk' (vp k))) = 74 + length (concat (vs ! k)) + 50)"
proof -
  let ?items = "map (\<lambda>d. qinfo_bytes (w_archid ai) (snd d)) deqs"
  let ?vs = "add_items (unat (splitsize opt)) [[]] ?items"
  obtain ai' dsk' where w: "thread_writer_fct env opt ai dsk deqs = (False, ai', dsk')"
    "archive_on_disk (w_archid ai) vp ?vs True dsk'"
    using thread_writer_ok [OF assms] by blast
  have ok: "sizes_ok (unat (splitsize opt)) ?vs" by (rule sizes_ok_add_items) (simp_all add: sizes_ok_def)
  have "splitsize opt = 0 \<or> length (the (dsk' (vp k))) \<le> unat (splitsize opt) + 50 \<or>
      length (?vs ! k) \<le> 1 \<and> unat (splitsize opt) < 74 + length (concat (?vs ! k)) \<and>
      length (the (dsk' (vp k))) = 74 + length (concat (?vs ! k)) + 50"
    if "k < length ?vs" for k
  proof -
    have "length (the (dsk' (vp k))) = 74 + length (concat (?vs ! k)) + 50"
      using w(2) that
      by (simp add: archive_on_disk_def volume_image_def length_head_bytes foot_bytes_def length_volfooter_bytes)
    moreover have "?vs ! k \<in> set ?vs" using that by (rule nth_mem)
    ultimately show ?thesis using ok by (auto simp: sizes_ok_def unat_eq_0 not_le)
  qed
  then show ?thesis using w concat_add_items [of "[[]]" "unat (splitsize opt)" ?items] by auto
qed

text \<open>An example: a disk without files, and the volumes of \<open>/tmp/backup.fsa\<close>.\<close>

definition demo_wenv :: wenv where
  "demo_wenv = \<lparr>e_mem = mem_ok, e_realpath = (\<lambda>p. None), e_special = (\<lambda>p. False), e_open = (\<lambda>p. 3),
     e_write = (\<lambda>p pos n. int n), e_unlink = (\<lambda>p. True)\<rparr>"

definition demo_writer :: carchwriter where
  "demo_writer = archwriter_init\<lparr>w_archid := 7, w_basepath := ''/tmp/backup.fsa''\<rparr>"

definition demo_path :: "nat \<Rightarrow> string" where
  "demo_path k = (if k = 0 then ''/tmp/backup.fsa'' else if k = 1 then ''/tmp/backup.f01'' else ''/tmp/backup.f02'')"

definition demo_main :: cheadinfo where
  "demo_main = \<lparr>hmagic = FSA_MAGIC_MAIN, hfsid = FSA_FILESYSID_NULL,
     hdico = [new_item 0 MAINHEADKEY_ARCHIVEID (cpu_to_le32 7) 4 DICTYPE_U32]\<rparr>"

definition demo_deqs :: "(int \<times> qinfo) list" where
  "demo_deqs = [(1, Qheader demo_main), (2, Qblock demo_block)]"

lemma demo_wenv_good: "env_good demo_wenv"
  by (simp add: env_good_def demo_wenv_def)

lemma demo_paths_ok: "paths_ok demo_wenv ''/tmp/backup.fsa'' demo_path 2"
proof -
  let ?g = "get_path_to_volume (\<lambda>p. None) PATH_MAX ''/tmp/backup.fsa''"
  have d: "dec_pad 2 1 = ''01''" "dec_pad 2 2 = ''02''" by code_simp+
  have "?g 0 = Some (demo_path 0)"
    by (simp add: demo_path_def get_path_to_volume_def snprintf_s_id PATH_MAX_def)
  moreover have "?g 1 = Some (demo_path 1)" "?g 2 = Some (demo_path 2)"
    using volume_path_numbered [of 1 "''/tmp/backup.fsa''" PATH_MAX "\<lambda>p. None"]
      volume_path_numbered [of 2 "''/tmp/backup.fsa''" PATH_MAX "\<lambda>p. None"]
    by (simp_all add: demo_path_def d PATH_MAX_def del: One_nat_def)
  moreover have "k = 0 \<or> k = 1 \<or> k = 2" if "k \<le> 2" for k :: nat using that by linarith
  ultimately have "\<forall>k \<le> 2. ?g k = Some (demo_path k)" by metis
  moreover have "inj_on demo_path {..2}"
  proof (rule inj_onI)
    fix i j :: nat assume "i \<in> {..2}" "j \<in> {..2}" "demo_path i = demo_path j"
    then show "i = j" by (auto simp: demo_path_def le_Suc_eq numeral_2_eq_2 split: if_splits)
  qed
  ultimately show ?thesis by (simp add: paths_ok_def demo_wenv_def)
qed

lemma demo_items:
  "\<forall>(num, info) \<in> set demo_deqs. 0 < num \<and> item_writable info"
  by (simp add: demo_deqs_def demo_main_def demo_block_def dico_wf_def dico_small_def dico_len_def new_item_wf)

lemma writer_thread_archive_witness:
  "\<exists>ai' dsk' vs. thread_writer_fct demo_wenv (options_zero\<lparr>splitsize := 150\<rparr>) demo_writer (\<lambda>p. None) demo_deqs = (False, ai', dsk') \<and>
    archive_on_disk (w_archid demo_writer) demo_path vs True dsk' \<and>
    concat vs = map (\<lambda>d. qinfo_bytes (w_archid demo_writer) (snd d)) demo_deqs \<and>
    (\<forall>k < length vs. splitsize (options_zero\<lparr>splitsize := 150\<rparr>) = 0 \<or>
       length (the (dsk' (demo_path k))) \<le> unat (splitsize (options_zero\<lparr>splitsize := 150\<rparr>)) + 50 \<or>
       length (vs ! k) \<le> 1 \<and> unat (splitsize (options_zero\<lparr>splitsize := 150\<rparr>)) < 74 + length (concat (vs ! k)) \<and>
       length (the (dsk' (demo_path k))) = 74 + length (concat (vs ! k)) + 50)"
  by (rule writer_thread_archive [OF demo_wenv_good, where n = 2])
    (use demo_paths_ok demo_items in \<open>simp_all add: demo_writer_def archwriter_init_def paths_free_def demo_deqs_def\<close>)

lemma archive_write_read_core:
  assumes "env_good env" and "paths_ok env (w_basepath ai) vp n" and "paths_free opt vp 0 n dsk"
    and "w_curvol ai = 0" and "length deqs \<le> n" and "\<forall>(num, info) \<in> set deqs. 0 < num \<and> item_writable info"
    and "map snd deqs = Qheader h # infos" and "\<forall>info \<in> set (Qheader h # infos). item_readable renv info"
    and "dico_get_u32 (hdico h) 0 MAINHEADKEY_ARCHIVEID (v_stk32 renv) = (0, w_archid ai)"
    and "splitsize opt = 0 \<or> 74 + length (qinfo_bytes (w_archid ai) (Qheader h)) \<le> unat (splitsize opt)"
    and "renv_good renv (snd (snd (thread_writer_fct env opt ai dsk deqs)))" and "v_realpath renv = e_realpath env"
  shows "\<exists>s. thread_reader_fct renv (archreader_init\<lparr>basepath := w_basepath ai\<rparr>) inputs = Some (Rexit s) \<and>
    r_end s = 1 \<and> r_errors s = 0 \<and>
    r_added s = (QITEM_STATUS_DONE, Qheader h) # concat (map (handed_over renv) infos)"
proof -
  let ?items = "map (\<lambda>d. qinfo_bytes (w_archid ai) (snd d)) deqs"
  let ?lim = "unat (splitsize opt)"
  let ?vs = "add_items ?lim [[]] ?items"
  obtain ai' dsk' where w: "thread_writer_fct env opt ai dsk deqs = (False, ai', dsk')"
    "archive_on_disk (w_archid ai) vp ?vs True dsk'"
    using thread_writer_ok [OF assms(1-6)] by blast
  have it: "?items = map (qinfo_bytes (w_archid ai)) (Qheader h # infos)"
    using assms(7) by (metis (no_types, lifting) comp_apply map_eq_conv map_map)
  then have "?vs = add_items ?lim (add_item ?lim [[]] (qinfo_bytes (w_archid ai) (Qheader h)))
      (map (qinfo_bytes (w_archid ai)) infos)"
    by (simp add: add_items_def)
  moreover have "add_item ?lim [[]] (qinfo_bytes (w_archid ai) (Qheader h)) = [[qinfo_bytes (w_archid ai) (Qheader h)]]"
    using assms(10) by (auto simp: add_item_def)
  ultimately have "hd ?vs \<noteq> []"
    using add_items_first [of "[[qinfo_bytes (w_archid ai) (Qheader h)]]" ?lim "map (qinfo_bytes (w_archid ai)) infos"]
    by auto
  moreover have "concat ?vs = map (qinfo_bytes (w_archid ai)) (Qheader h # infos)"
    using concat_add_items [of "[[]]" ?lim ?items] it by simp
  moreover have len: "length ?vs \<le> Suc n"
    using length_add_items [of "[[]]" ?lim ?items] assms(5) by simp
  moreover have "\<forall>k < length ?vs. get_path_to_volume (v_realpath renv) PATH_MAX (w_basepath ai) k = Some (vp k)"
    using assms(2,12) len by (auto simp: paths_ok_def)
  moreover have "length ?vs \<le> 2 ^ 32" using len assms(2) by (auto simp: paths_ok_def)
  moreover have "item_writable info" if "info \<in> set (Qheader h # infos)" for info
    using assms(6) that unfolding assms(7) [symmetric] by auto
  moreover have "renv_good renv dsk'" using assms(11) w(1) by simp
  ultimately show ?thesis
    using archive_read_ok [of renv dsk' "w_archid ai" vp ?vs "archreader_init\<lparr>basepath := w_basepath ai\<rparr>" h infos inputs]
      w(2) assms(8,9) reads_archive_init [of "w_archid ai"]
    by (simp add: reads_archive_def archreader_init_def)
qed

text \<open>C2: write and read: what the reader thread hands to the queue, when it reads the volumes that the writer
  thread has written, is the sequence of items that the writer took from its queue, whatever the limit for
  the volumes is: every block with the same data and a good checksum, every header with the same
  entries, and nothing for filesystems that are not wanted. The reader stops at the footer of the last
  volume and counts no error.\<close>

theorem archive_write_read:
  assumes "env_good env" and "paths_ok env (w_basepath ai) vp n" and "paths_free opt vp 0 n dsk"
    and "w_curvol ai = 0" and "length deqs \<le> n" and "\<forall>(num, info) \<in> set deqs. 0 < num \<and> item_writable info"
    and "map snd deqs = Qheader h # infos" and "\<forall>info \<in> set (Qheader h # infos). item_readable renv info"
    and "dico_get_u32 (hdico h) 0 MAINHEADKEY_ARCHIVEID (v_stk32 renv) = (0, w_archid ai)"
    and "splitsize opt = 0 \<or> 74 + length (qinfo_bytes (w_archid ai) (Qheader h)) \<le> unat (splitsize opt)"
    and "renv_good renv (snd (snd (thread_writer_fct env opt ai dsk deqs)))" and "v_realpath renv = e_realpath env"
  shows "\<exists>s. thread_reader_fct renv (archreader_init\<lparr>basepath := w_basepath ai\<rparr>) inputs = Some (Rexit s) \<and>
    r_end s = 1 \<and> r_errors s = 0 \<and>
    r_added s = (QITEM_STATUS_DONE, Qheader h) # concat (map (handed_over renv) infos)"
  by (rule archive_write_read_core [OF assms])

definition demo_renv :: "disk \<Rightarrow> renv" where
  "demo_renv dsk = \<lparr>v_mem = mem_ok, v_realpath = (\<lambda>p. None), v_open64 = (\<lambda>p. map_option (\<lambda>bytes. (3, True, bytes)) (dsk p)),
     v_fstat = (\<lambda>p. True), v_exists = (\<lambda>p. dsk p \<noteq> None), v_stkvol = (\<lambda>k. [0, 0, 0, 0]), v_stkblk = demo_stk,
     v_stk32 = [0, 0, 0, 0], v_bitmap = replicate FSA_MAX_FSPERARCH 1, v_stop = (\<lambda>n. False),
     v_queue = (\<lambda>n. FSAERR_SUCCESS)\<rparr>"

definition demo_split :: coptions where
  "demo_split = options_zero\<lparr>splitsize := 150\<rparr>"

lemma demo_main_length: "length (qinfo_bytes ident (Qheader demo_main)) = 30"
proof -
  have "dico_wf (hdico demo_main)" by (simp add: demo_main_def dico_wf_def new_item_wf)
  then show ?thesis
    using length_dico_payload [of "hdico demo_main"]
    by (simp add: dico_wf_def demo_main_def header_bytes_def dico_bytes_def dico_len_def)
qed

lemma archive_write_read_witness:
  "\<exists>s. thread_reader_fct (demo_renv (snd (snd (thread_writer_fct demo_wenv demo_split demo_writer (\<lambda>p. None) demo_deqs))))
      (archreader_init\<lparr>basepath := w_basepath demo_writer\<rparr>) [] = Some (Rexit s) \<and>
    r_end s = 1 \<and> r_errors s = 0 \<and>
    r_added s = (QITEM_STATUS_DONE, Qheader demo_main) # concat (map (handed_over (demo_renv
      (snd (snd (thread_writer_fct demo_wenv demo_split demo_writer (\<lambda>p. None) demo_deqs))))) [Qblock demo_block])"
proof (rule archive_write_read [OF demo_wenv_good, where vp = demo_path and n = 2])
  show "\<forall>info \<in> set [Qheader demo_main, Qblock demo_block]. item_readable (demo_renv
      (snd (snd (thread_writer_fct demo_wenv demo_split demo_writer (\<lambda>p. None) demo_deqs)))) info"
    by (simp add: demo_main_def demo_block_def zero_blockinfo_def demo_renv_def FSA_MAX_BLKSIZE_def FSA_MAX_FSPERARCH_def
        valid_magic_def magic_defs bytes_of_string_def)
  show "dico_get_u32 (hdico demo_main) 0 MAINHEADKEY_ARCHIVEID (v_stk32 (demo_renv
      (snd (snd (thread_writer_fct demo_wenv demo_split demo_writer (\<lambda>p. None) demo_deqs))))) = (0, w_archid demo_writer)"
    by (simp add: demo_main_def demo_renv_def demo_writer_def dico_get_u32_def dico_get_data_item new_item_def memcpy_full)
  show "renv_good (demo_renv (snd (snd (thread_writer_fct demo_wenv demo_split demo_writer (\<lambda>p. None) demo_deqs))))
      (snd (snd (thread_writer_fct demo_wenv demo_split demo_writer (\<lambda>p. None) demo_deqs)))"
    by (simp add: renv_good_def demo_renv_def demo_stk_ok)
  show "splitsize demo_split = 0 \<or> 74 + length (qinfo_bytes (w_archid demo_writer) (Qheader demo_main)) \<le> unat (splitsize demo_split)"
    unfolding demo_main_length by (simp add: demo_split_def)
qed (use demo_paths_ok demo_items in \<open>simp_all add: demo_writer_def archwriter_init_def paths_free_def demo_deqs_def
  demo_wenv_def demo_renv_def\<close>)

text \<open>a volume that is closed by a split gets its footer after the comparison with the limit: it ends up 50
  bytes longer than it was, so a volume that was filled up to the limit is above it.\<close>

theorem split_adds_footer:
  assumes "env_good env" and "volume_open ai dsk" and "archwriter_split_check opt ai dsk wb"
    and "get_path_to_volume (e_realpath env) PATH_MAX (w_basepath ai) (unat (w_curvol ai + 1)) = Some p"
    and "p \<noteq> w_fdpath ai" and "opt_overwrite opt \<or> dsk p = None"
  shows "\<exists>ai' dsk'. archwriter_split_if_necessary env opt ai dsk wb = (0, ai', dsk') \<and>
    w_curvol ai' = w_curvol ai + 1 \<and> length (volume_bytes ai dsk') = length (volume_bytes ai dsk) + 50 \<and>
    length (volume_bytes ai' dsk') = 74"
proof -
  have n: "volheader_bytes (next_volume env ai p) = head_bytes (w_archid ai) (unat (w_curvol ai + 1))"
    using volheader_bytes_head [of "next_volume env ai p" "unat (w_curvol ai + 1)"] by (simp add: next_volume_def)
  show ?thesis
    using split_ok [OF assms] assms(5)
    by (simp add: volume_bytes_def length_volfooter_bytes n length_head_bytes) (simp add: next_volume_def)
qed

lemma split_adds_footer_witness:
  "\<exists>ai' dsk'. archwriter_split_if_necessary demo_wenv (options_zero\<lparr>splitsize := 3\<rparr>)
      (demo_writer\<lparr>w_archfd := 3, w_fdpath := demo_path 0\<rparr>) [demo_path 0 \<mapsto> [1, 2, 3]] (wb_of [4]) = (0, ai', dsk') \<and>
    w_curvol ai' = w_curvol (demo_writer\<lparr>w_archfd := 3, w_fdpath := demo_path 0\<rparr>) + 1 \<and>
    length (volume_bytes (demo_writer\<lparr>w_archfd := 3, w_fdpath := demo_path 0\<rparr>) dsk') =
      length (volume_bytes (demo_writer\<lparr>w_archfd := 3, w_fdpath := demo_path 0\<rparr>) [demo_path 0 \<mapsto> [1, 2, 3]]) + 50 \<and>
    length (volume_bytes ai' dsk') = 74"
proof (rule split_adds_footer [OF demo_wenv_good, where p = "demo_path 1"])
  have "\<forall>k \<le> 2. get_path_to_volume (e_realpath demo_wenv) PATH_MAX ''/tmp/backup.fsa'' k = Some (demo_path k)"
    using demo_paths_ok by (simp add: paths_ok_def)
  then have "get_path_to_volume (e_realpath demo_wenv) PATH_MAX ''/tmp/backup.fsa'' 1 = Some (demo_path 1)" by simp
  then show "get_path_to_volume (e_realpath demo_wenv) PATH_MAX
      (w_basepath (demo_writer\<lparr>w_archfd := 3, w_fdpath := demo_path 0\<rparr>))
      (unat (w_curvol (demo_writer\<lparr>w_archfd := 3, w_fdpath := demo_path 0\<rparr>) + 1)) = Some (demo_path 1)"
    by (simp add: demo_writer_def archwriter_init_def)
qed (simp_all add: demo_writer_def archwriter_init_def demo_path_def volume_open_def archwriter_split_check_def
  archwriter_get_currentpos_def volume_bytes_def options_zero_def)

end
