(* ===== verification/Comp.thy ===== *)
theory Comp
  imports Options Pipeline
begin

text \<open>thread_comp.c: compression, encryption and their reverse for one block, with the wrappers around the
  compression libraries (comp_*.c) and libgcrypt (crypto.c). The libraries are a record of functions. A
  function gets the bytes of its input and the size of the output buffer and returns its result with the
  bytes it has written. The result None of a definition is an access outside a buffer.\<close>

section \<open>The libraries\<close>

datatype libret = Lib_ok | Lib_mem | Lib_other

datatype lzmaret = LZMA_OK | LZMA_STREAM_END | LZMA_MEM_ERROR | LZMA_MEMLIMIT_ERROR | LZMA_OTHER

text \<open>For lzma the functions after the initialisation get what the stream was initialised with; the decoder
  also gets the memory limit. For gcrypt the arguments are the password and the input.\<close>

record complib =
  zlib_compress2 :: "u8 list \<Rightarrow> nat \<Rightarrow> int \<Rightarrow> libret \<times> u8 list"
  zlib_uncompress :: "u8 list \<Rightarrow> nat \<Rightarrow> libret \<times> u8 list"
  bz2_compress :: "u8 list \<Rightarrow> nat \<Rightarrow> int \<Rightarrow> libret \<times> u8 list"
  bz2_decompress :: "u8 list \<Rightarrow> nat \<Rightarrow> libret \<times> u8 list"
  lzo1x_1_compress :: "u8 list \<Rightarrow> libret \<times> u8 list"
  lzo1x_decompress_safe :: "u8 list \<Rightarrow> nat \<Rightarrow> libret \<times> u8 list"
  lz4_compress_default :: "u8 list \<Rightarrow> nat \<Rightarrow> int \<times> u8 list"
  lz4_decompress_safe :: "u8 list \<Rightarrow> nat \<Rightarrow> int \<times> u8 list"
  zstd_compress :: "u8 list \<Rightarrow> nat \<Rightarrow> int \<Rightarrow> bool \<times> u8 list"
  zstd_decompress :: "u8 list \<Rightarrow> nat \<Rightarrow> bool \<times> u8 list"
  lzma_easy_encoder :: "int \<Rightarrow> lzmaret"
  lzma_run :: "u8 list \<Rightarrow> nat \<Rightarrow> int \<Rightarrow> lzmaret"
  lzma_finish :: "u8 list \<Rightarrow> nat \<Rightarrow> int \<Rightarrow> lzmaret \<times> u8 list"
  lzma_auto_decoder :: lzmaret
  lzma_decode :: "u8 list \<Rightarrow> nat \<Rightarrow> nat \<Rightarrow> lzmaret \<times> u8 list"
  gcry_open :: int
  gcry_setkey :: "string \<Rightarrow> int"
  gcry_setiv :: "string \<Rightarrow> int"
  gcry_encrypt :: "string \<Rightarrow> u8 list \<Rightarrow> int \<times> u8 list"
  gcry_decrypt :: "string \<Rightarrow> u8 list \<Rightarrow> int \<times> u8 list"

section \<open>The wrappers\<close>

definition compress_block_gzip :: "complib \<Rightarrow> u8 list \<Rightarrow> nat \<Rightarrow> int \<Rightarrow> int \<times> u8 list" where
  "compress_block_gzip lib orig bufsize level =
     (case zlib_compress2 lib orig bufsize level of
        (Lib_ok, out) \<Rightarrow> (FSAERR_SUCCESS, out) | (Lib_mem, _) \<Rightarrow> (FSAERR_ENOMEM, []) | (Lib_other, _) \<Rightarrow> (FSAERR_UNKNOWN, []))"

definition uncompress_block_gzip :: "complib \<Rightarrow> u8 list \<Rightarrow> nat \<Rightarrow> int \<times> u8 list" where
  "uncompress_block_gzip lib packed origsize =
     (case zlib_uncompress lib packed origsize of
        (Lib_ok, out) \<Rightarrow> (FSAERR_SUCCESS, out) | (Lib_mem, _) \<Rightarrow> (FSAERR_ENOMEM, []) | (Lib_other, _) \<Rightarrow> (FSAERR_UNKNOWN, []))"

text \<open>The level is not passed on: bzip2 always works with 9.\<close>

definition compress_block_bzip2 :: "complib \<Rightarrow> u8 list \<Rightarrow> nat \<Rightarrow> int \<Rightarrow> int \<times> u8 list" where
  "compress_block_bzip2 lib orig bufsize level =
     (case bz2_compress lib orig bufsize 9 of
        (Lib_ok, out) \<Rightarrow> (FSAERR_SUCCESS, out) | (Lib_mem, _) \<Rightarrow> (FSAERR_ENOMEM, []) | (Lib_other, _) \<Rightarrow> (FSAERR_UNKNOWN, []))"

definition uncompress_block_bzip2 :: "complib \<Rightarrow> u8 list \<Rightarrow> nat \<Rightarrow> int \<times> u8 list" where
  "uncompress_block_bzip2 lib packed origsize =
     (case bz2_decompress lib packed origsize of
        (Lib_ok, out) \<Rightarrow> (FSAERR_SUCCESS, out) | (Lib_mem, _) \<Rightarrow> (FSAERR_UNKNOWN, []) | (Lib_other, _) \<Rightarrow> (FSAERR_UNKNOWN, []))"

definition compress_block_lzo :: "complib \<Rightarrow> u8 list \<Rightarrow> nat \<Rightarrow> int \<Rightarrow> int \<times> u8 list" where
  "compress_block_lzo lib orig bufsize level =
     (case lzo1x_1_compress lib orig of
        (Lib_ok, out) \<Rightarrow> (FSAERR_SUCCESS, out) | (Lib_mem, _) \<Rightarrow> (FSAERR_ENOMEM, []) | (Lib_other, _) \<Rightarrow> (FSAERR_UNKNOWN, []))"

definition uncompress_block_lzo :: "complib \<Rightarrow> u8 list \<Rightarrow> nat \<Rightarrow> int \<times> u8 list" where
  "uncompress_block_lzo lib packed origsize =
     (case lzo1x_decompress_safe lib packed origsize of
        (Lib_ok, out) \<Rightarrow> (FSAERR_SUCCESS, out) | (Lib_mem, _) \<Rightarrow> (FSAERR_ENOMEM, []) | (Lib_other, _) \<Rightarrow> (FSAERR_UNKNOWN, []))"

text \<open>LZ4 returns the number of bytes: 0 and negative numbers are failures.\<close>

definition compress_block_lz4 :: "complib \<Rightarrow> u8 list \<Rightarrow> nat \<Rightarrow> int \<Rightarrow> int \<times> u8 list" where
  "compress_block_lz4 lib orig bufsize level =
     (let (res, out) = lz4_compress_default lib orig bufsize
      in if res = 0 then (FSAERR_UNKNOWN, [])
         else if res > 0 then (FSAERR_SUCCESS, take (nat res) out) else (FSAERR_UNKNOWN, []))"

definition uncompress_block_lz4 :: "complib \<Rightarrow> u8 list \<Rightarrow> nat \<Rightarrow> int \<times> u8 list" where
  "uncompress_block_lz4 lib packed origsize =
     (let (res, out) = lz4_decompress_safe lib packed origsize
      in if res > 0 then (FSAERR_SUCCESS, take (nat res) out) else (FSAERR_UNKNOWN, []))"

text \<open>The boolean of the zstd functions is ZSTD_isError.\<close>

definition compress_block_zstd :: "complib \<Rightarrow> u8 list \<Rightarrow> nat \<Rightarrow> int \<Rightarrow> int \<times> u8 list" where
  "compress_block_zstd lib orig bufsize level =
     (let (err, out) = zstd_compress lib orig bufsize level
      in if err then (FSAERR_UNKNOWN, []) else (FSAERR_SUCCESS, out))"

definition uncompress_block_zstd :: "complib \<Rightarrow> u8 list \<Rightarrow> nat \<Rightarrow> int \<times> u8 list" where
  "uncompress_block_zstd lib packed origsize =
     (let (err, out) = zstd_decompress lib packed origsize
      in if err then (FSAERR_UNKNOWN, []) else (FSAERR_SUCCESS, out))"

definition compress_block_lzma :: "complib \<Rightarrow> u8 list \<Rightarrow> nat \<Rightarrow> int \<Rightarrow> int \<times> u8 list" where
  "compress_block_lzma lib orig bufsize level =
     (let res = lzma_easy_encoder lib level
      in if res \<noteq> LZMA_OK then (if res = LZMA_MEM_ERROR then FSAERR_ENOMEM else FSAERR_UNKNOWN, [])
         else if lzma_run lib orig bufsize level \<noteq> LZMA_OK then (FSAERR_UNKNOWN, [])
         else
           (let (res, out) = lzma_finish lib orig bufsize level
            in if res \<noteq> LZMA_STREAM_END \<and> res \<noteq> LZMA_OK then (FSAERR_UNKNOWN, []) else (FSAERR_SUCCESS, out)))"

text \<open>The loop that raises the memory limit from 96 MB in steps of 64 MB up to 3 GB.\<close>

definition lzma_maxmemlimit :: nat where
  "lzma_maxmemlimit = 3 * 1024 * 1024 * 1024"

function lzma_decode_loop :: "complib \<Rightarrow> u8 list \<Rightarrow> nat \<Rightarrow> nat \<Rightarrow> int \<times> u8 list" where
  "lzma_decode_loop lib packed origsize memlimit =
     (let (res, out) = lzma_decode lib packed origsize memlimit
      in if res = LZMA_STREAM_END then (FSAERR_SUCCESS, out)
         else if res = LZMA_MEMLIMIT_ERROR then
           (let memlimit = memlimit + 64 * 1024 * 1024
            in if memlimit < lzma_maxmemlimit then lzma_decode_loop lib packed origsize memlimit else (FSAERR_ENOMEM, []))
         else (FSAERR_UNKNOWN, []))"
  by pat_completeness auto
termination
  by (relation "measure (\<lambda>(lib, packed, origsize, memlimit). lzma_maxmemlimit - memlimit)") auto

declare lzma_decode_loop.simps [simp del]

definition uncompress_block_lzma :: "complib \<Rightarrow> u8 list \<Rightarrow> nat \<Rightarrow> int \<times> u8 list" where
  "uncompress_block_lzma lib packed origsize =
     (if lzma_auto_decoder lib \<noteq> LZMA_OK then (FSAERR_UNKNOWN, [])
      else lzma_decode_loop lib packed origsize (96 * 1024 * 1024))"

text \<open>Encryption keeps the size. None is a write behind the output buffer.\<close>

definition crypto_blowfish :: "complib \<Rightarrow> u8 list \<Rightarrow> nat \<Rightarrow> string \<Rightarrow> bool \<Rightarrow> (int \<times> u8 list) option" where
  "crypto_blowfish lib inbuf outsize password enc =
     (if password = [] then Some (-1, [])
      else if gcry_open lib \<noteq> 0 then Some (-1, [])
      else if gcry_setkey lib password \<noteq> 0 then Some (-1, [])
      else if gcry_setiv lib ''fsarchiv'' \<noteq> 0 then Some (-1, [])
      else if outsize < length inbuf then None
      else
        (let (res, out) = (if enc then gcry_encrypt lib password inbuf else gcry_decrypt lib password inbuf)
         in Some (if res = 0 then 0 else -1, out)))"

section \<open>Compression of a block\<close>

definition compress_with ::
    "complib \<Rightarrow> build \<Rightarrow> u16 \<Rightarrow> int \<Rightarrow> u8 list \<Rightarrow> nat \<Rightarrow> (int \<times> u8 list) option" where
  "compress_with lib bld algo level orig bufsize =
     (if algo = COMPRESS_LZO \<and> has_lzo bld then Some (compress_block_lzo lib orig bufsize level)
      else if algo = COMPRESS_GZIP then Some (compress_block_gzip lib orig bufsize level)
      else if algo = COMPRESS_BZIP2 then Some (compress_block_bzip2 lib orig bufsize level)
      else if algo = COMPRESS_LZMA \<and> has_lzma bld then Some (compress_block_lzma lib orig bufsize level)
      else if algo = COMPRESS_LZ4 \<and> has_lz4 bld then Some (compress_block_lz4 lib orig bufsize level)
      else if algo = COMPRESS_ZSTD \<and> has_zstd bld then Some (compress_block_zstd lib orig bufsize level)
      else None)"

definition retry_algo :: "build \<Rightarrow> u16 \<times> int \<Rightarrow> u16 \<times> int" where
  "retry_algo bld = (\<lambda>(algo, level).
     if (algo = COMPRESS_ZSTD \<and> level > FSA_DEF_COMPRESS_LEVEL bld) \<or> algo \<noteq> FSA_DEF_COMPRESS_ALGO bld
     then (FSA_DEF_COMPRESS_ALGO bld, FSA_DEF_COMPRESS_LEVEL bld) else (algo, level))"

text \<open>The loop with at most one retry: None is an unsupported algorithm, else the result of the last
  attempt and its algorithm.\<close>

definition compress_attempts ::
    "complib \<Rightarrow> build \<Rightarrow> u16 \<Rightarrow> int \<Rightarrow> u8 list \<Rightarrow> nat \<Rightarrow> (int \<times> u8 list \<times> u16) option" where
  "compress_attempts lib bld algo level orig bufsize =
     (case compress_with lib bld algo level orig bufsize of
        None \<Rightarrow> None
      | Some (res, out) \<Rightarrow>
          if res \<noteq> FSAERR_ENOMEM then Some (res, out, algo)
          else
            (let (algo, level) = retry_algo bld (algo, level)
             in map_option (\<lambda>(res, out). (res, out, algo)) (compress_with lib bld algo level orig bufsize)))"

definition compress_bufsize :: "u32 \<Rightarrow> u32" where
  "compress_bufsize realsize = realsize + realsize div 16 + 64 + 3"

definition compress_block_generic ::
    "complib \<Rightarrow> build \<Rightarrow> coptions \<Rightarrow> malloc \<Rightarrow> cblockinfo \<Rightarrow> (int \<times> cblockinfo) option" where
  "compress_block_generic lib bld opt mem blkinfo =
     (let realsize = unat (blkrealsize blkinfo);
          bufsize = unat (compress_bufsize (blkrealsize blkinfo));
          orig = take realsize (blkdata blkinfo)
      in if \<not> mem bufsize then Some (-1, blkinfo)
         else if length (blkdata blkinfo) < realsize then None
         else case compress_attempts lib bld (compressalgo opt) (compresslevel opt) orig bufsize of
           None \<Rightarrow> Some (-1, blkinfo)
         | Some (res, out, algo) \<Rightarrow>
             if \<not> (res = FSAERR_SUCCESS \<and> length out < realsize) \<and> bufsize < realsize then None
             else
               (let blkinfo =
                      (if res = FSAERR_SUCCESS \<and> length out < realsize
                       then blkinfo\<lparr>blkdata := out, blkcompsize := of_nat (length out), blkarsize := of_nat (length out),
                              blkcompalgo := algo\<rparr>
                       else blkinfo\<lparr>blkdata := orig, blkcompsize := blkrealsize blkinfo,
                              blkarsize := blkrealsize blkinfo, blkcompalgo := COMPRESS_NONE\<rparr>)
                in if encryptalgo opt = ENCRYPT_BLOWFISH then
                     (if \<not> mem (bufsize + 8) then Some (-1, blkinfo)
                      else case crypto_blowfish lib (blkdata blkinfo) (bufsize + 8) (encryptpass opt) True of
                        None \<Rightarrow> None
                      | Some (res, crypt) \<Rightarrow>
                          if res \<noteq> 0 then Some (-1, blkinfo)
                          else Some (0, blkinfo\<lparr>blkdata := crypt, blkarsize := blkcompsize blkinfo,
                                 blkcryptalgo := ENCRYPT_BLOWFISH, blkarcsum := fletcher32 crypt\<rparr>))
                   else Some (0, blkinfo\<lparr>blkcryptalgo := ENCRYPT_NONE, blkarcsum := fletcher32 (blkdata blkinfo)\<rparr>)))"

section \<open>Decompression of a block\<close>

definition uncompress_with :: "complib \<Rightarrow> build \<Rightarrow> u16 \<Rightarrow> u8 list \<Rightarrow> nat \<Rightarrow> (int \<times> u8 list) option" where
  "uncompress_with lib bld algo packed origsize =
     (if algo = COMPRESS_LZO \<and> has_lzo bld then Some (uncompress_block_lzo lib packed origsize)
      else if algo = COMPRESS_GZIP then Some (uncompress_block_gzip lib packed origsize)
      else if algo = COMPRESS_BZIP2 then Some (uncompress_block_bzip2 lib packed origsize)
      else if algo = COMPRESS_LZMA \<and> has_lzma bld then Some (uncompress_block_lzma lib packed origsize)
      else if algo = COMPRESS_LZ4 \<and> has_lz4 bld then Some (uncompress_block_lz4 lib packed origsize)
      else if algo = COMPRESS_ZSTD \<and> has_zstd bld then Some (uncompress_block_zstd lib packed origsize)
      else None)"

text \<open>The part that decrypts: None is a write behind the buffer of the real size and 8 bytes.\<close>

definition decrypt_block ::
    "complib \<Rightarrow> coptions \<Rightarrow> malloc \<Rightarrow> cblockinfo \<Rightarrow> (int \<times> cblockinfo) option" where
  "decrypt_block lib opt mem blkinfo =
     (if blkcryptalgo blkinfo \<noteq> ENCRYPT_BLOWFISH then Some (0, blkinfo)
      else
        (let cryptsize = unat (blkrealsize blkinfo) + 8; arsize = unat (blkarsize blkinfo)
         in if \<not> mem cryptsize then Some (-1, blkinfo)
            else case crypto_blowfish lib (take arsize (blkdata blkinfo)) cryptsize (encryptpass opt) False of
              None \<Rightarrow> None
            | Some (res, clear) \<Rightarrow>
                if res \<noteq> 0 then Some (-1, blkinfo)
                else if blkarsize blkinfo \<noteq> blkcompsize blkinfo then Some (-1, blkinfo)
                else Some (0, blkinfo\<lparr>blkdata := clear\<rparr>)))"

text \<open>\<open>fresh\<close> is what malloc leaves in the new buffer. A failed decompression gives zeros and is no error. When
  the checksum is wrong the zeroed buffer is not put in the block: the block keeps its data.\<close>

definition decompress_block_generic ::
    "complib \<Rightarrow> build \<Rightarrow> coptions \<Rightarrow> malloc \<Rightarrow> u8 list \<Rightarrow> cblockinfo \<Rightarrow> (int \<times> cblockinfo) option" where
  "decompress_block_generic lib bld opt mem fresh blkinfo =
     (let realsize = unat (blkrealsize blkinfo); arsize = unat (blkarsize blkinfo); compsize = unat (blkcompsize blkinfo)
      in if \<not> mem realsize then Some (-1, blkinfo)
         else if length (blkdata blkinfo) < arsize then None
         else if fletcher32 (take arsize (blkdata blkinfo)) \<noteq> blkarcsum blkinfo then Some (0, blkinfo)
         else if blkcryptalgo blkinfo \<noteq> ENCRYPT_NONE \<and> encryptalgo opt \<noteq> ENCRYPT_BLOWFISH then Some (-1, blkinfo)
         else case decrypt_block lib opt mem blkinfo of
           None \<Rightarrow> None
         | Some (res, blkinfo) \<Rightarrow>
             if res \<noteq> 0 then Some (-1, blkinfo)
             else if blkcompalgo blkinfo = COMPRESS_NONE then
               (if realsize < arsize then None
                else Some (0, blkinfo\<lparr>blkdata := memcpy fresh (take arsize (blkdata blkinfo))\<rparr>))
             else if length (blkdata blkinfo) < compsize then None
             else case uncompress_with lib bld (blkcompalgo blkinfo) (take compsize (blkdata blkinfo)) realsize of
               None \<Rightarrow> Some (-1, blkinfo)
             | Some (res, out) \<Rightarrow>
                 Some (0, blkinfo\<lparr>blkdata := if res \<noteq> 0 then replicate realsize 0 else memcpy fresh out\<rparr>))"

section \<open>The threads\<close>

datatype compoper = COMPTHR_COMPRESS | COMPTHR_DECOMPRESS

definition comp_work ::
    "complib \<Rightarrow> build \<Rightarrow> coptions \<Rightarrow> malloc \<Rightarrow> u8 list \<Rightarrow> compoper \<Rightarrow> cblockinfo \<Rightarrow> (int \<times> cblockinfo) option" where
  "comp_work lib bld opt mem fresh oper blkinfo =
     (case oper of
        COMPTHR_COMPRESS \<Rightarrow> compress_block_generic lib bld opt mem blkinfo
      | COMPTHR_DECOMPRESS \<Rightarrow> decompress_block_generic lib bld opt mem fresh blkinfo)"

text \<open>The loop of a thread over what queue_get_first_block_todo gives it until the end of the queue: the
  blocks it puts back, and whether it left the loop by the error label. There it calls get_stopfillqueue,
  which changes nothing.\<close>

fun compression_function ::
    "(cblockinfo \<Rightarrow> (int \<times> cblockinfo) option) \<Rightarrow> (int \<times> cblockinfo) list \<Rightarrow> (int \<times> cblockinfo) list \<Rightarrow>
     ((int \<times> cblockinfo) list \<times> bool) option" where
  "compression_function work [] put = Some (put, False)"
| "compression_function work ((blknum, blkinfo) # todo) put =
     (if blknum > 0 then
        (case work blkinfo of
           None \<Rightarrow> None
         | Some (res, blkinfo) \<Rightarrow>
             if res \<noteq> 0 then Some (put, True) else compression_function work todo (put @ [(blknum, blkinfo)]))
      else compression_function work todo put)"

text \<open>The work as the parameter of the pipeline: no result when the thread gives up.\<close>

definition pipe_work_of :: "(cblockinfo \<Rightarrow> (int \<times> cblockinfo) option) \<Rightarrow> cblockinfo \<Rightarrow> cblockinfo option" where
  "pipe_work_of work b = (case work b of Some (r, b') \<Rightarrow> if r = 0 then Some b' else None | None \<Rightarrow> None)"

section \<open>What the libraries promise\<close>

text \<open>The documented behaviour of the libraries: what was compressed into the given buffer decompresses into
  a buffer of the original size to the original bytes, and decryption with the same password undoes
  encryption and keeps the length.\<close>

definition codec_ok :: "(u8 list \<Rightarrow> nat \<Rightarrow> int \<Rightarrow> int \<times> u8 list) \<Rightarrow> (u8 list \<Rightarrow> nat \<Rightarrow> int \<times> u8 list) \<Rightarrow> bool" where
  "codec_ok pack unpack \<longleftrightarrow>
     (\<forall>x n level y. pack x n level = (FSAERR_SUCCESS, y) \<longrightarrow> length y < length x \<longrightarrow> unpack y (length x) = (FSAERR_SUCCESS, x))"

definition lib_ok :: "complib \<Rightarrow> bool" where
  "lib_ok lib \<longleftrightarrow>
     codec_ok (compress_block_gzip lib) (uncompress_block_gzip lib) \<and>
     codec_ok (compress_block_bzip2 lib) (uncompress_block_bzip2 lib) \<and>
     codec_ok (compress_block_lzo lib) (uncompress_block_lzo lib) \<and>
     codec_ok (compress_block_lz4 lib) (uncompress_block_lz4 lib) \<and>
     codec_ok (compress_block_zstd lib) (uncompress_block_zstd lib) \<and>
     codec_ok (compress_block_lzma lib) (uncompress_block_lzma lib) \<and>
     (\<forall>pass x y. gcry_encrypt lib pass x = (0, y) \<longrightarrow> length y = length x \<and> gcry_decrypt lib pass y = (0, x))"

lemma codec_with:
  assumes "lib_ok lib" and "compress_with lib bld algo level x n = Some (FSAERR_SUCCESS, y)" and "length y < length x"
  shows "uncompress_with lib bld algo y (length x) = Some (FSAERR_SUCCESS, x) \<and> algo \<noteq> COMPRESS_NONE"
proof -
  have "codec_ok f g \<Longrightarrow> f x n level = (FSAERR_SUCCESS, y) \<Longrightarrow> g y (length x) = (FSAERR_SUCCESS, x)" for f g
    using assms(3) by (auto simp: codec_ok_def)
  then show ?thesis
    using assms(1,2)
    by (auto simp: compress_with_def uncompress_with_def lib_ok_def fsa_const split: if_splits)
qed

lemma compress_attempts_with:
  assumes "compress_attempts lib bld algo level x n = Some (res, y, algo')"
  shows "\<exists>level'. compress_with lib bld algo' level' x n = Some (res, y) \<and>
    (algo' = algo \<or> algo' = FSA_DEF_COMPRESS_ALGO bld)"
  using assms
  by (auto simp: compress_attempts_def retry_algo_def Let_def split: option.splits prod.splits if_splits)

section \<open>Properties\<close>

lemma compress_bufsize_room:
  assumes "unat realsize \<le> FSA_MAX_BLKSIZE"
  shows "unat (compress_bufsize realsize) = unat realsize + unat realsize div 16 + 67"
proof -
  have d: "unat (realsize div 16) = unat realsize div 16" by (simp add: unat_div_distrib)
  have small: "unat realsize \<le> 921600" using assms by (simp add: FSA_MAX_BLKSIZE_def)
  then have "unat realsize div 16 \<le> 921600" by simp
  then show ?thesis
    using small d unfolding compress_bufsize_def
    by (simp add: unat_add_lem [THEN iffD1] add.assoc)
qed

text \<open>The block before encryption: either the output of an algorithm, smaller than the data, or the data.\<close>

definition stored_block :: "cblockinfo \<Rightarrow> int \<times> u8 list \<times> u16 \<Rightarrow> cblockinfo" where
  "stored_block b = (\<lambda>(res, out, algo).
     if res = FSAERR_SUCCESS \<and> length out < unat (blkrealsize b)
     then b\<lparr>blkdata := out, blkcompsize := of_nat (length out), blkarsize := of_nat (length out), blkcompalgo := algo\<rparr>
     else b\<lparr>blkdata := blkdata b, blkcompsize := blkrealsize b, blkarsize := blkrealsize b, blkcompalgo := COMPRESS_NONE\<rparr>)"

text \<open>The encryption of that block.\<close>

definition sealed_block :: "complib \<Rightarrow> coptions \<Rightarrow> nat \<Rightarrow> cblockinfo \<Rightarrow> (int \<times> cblockinfo) option" where
  "sealed_block lib opt bufsize c =
     (if encryptalgo opt = ENCRYPT_BLOWFISH then
        (case crypto_blowfish lib (blkdata c) (bufsize + 8) (encryptpass opt) True of
           None \<Rightarrow> None
         | Some (res, crypt) \<Rightarrow>
             if res \<noteq> 0 then Some (-1, c)
             else Some (0, c\<lparr>blkdata := crypt, blkarsize := blkcompsize c,
                    blkcryptalgo := ENCRYPT_BLOWFISH, blkarcsum := fletcher32 crypt\<rparr>))
      else Some (0, c\<lparr>blkcryptalgo := ENCRYPT_NONE, blkarcsum := fletcher32 (blkdata c)\<rparr>))"

lemma compress_block_eq:
  assumes "length (blkdata b) = unat (blkrealsize b)" and "unat (blkrealsize b) \<le> FSA_MAX_BLKSIZE"
  shows "compress_block_generic lib bld opt mem_ok b =
    (case compress_attempts lib bld (compressalgo opt) (compresslevel opt) (blkdata b) (unat (compress_bufsize (blkrealsize b))) of
       None \<Rightarrow> Some (-1, b)
     | Some r \<Rightarrow> sealed_block lib opt (unat (compress_bufsize (blkrealsize b))) (stored_block b r))"
  using assms compress_bufsize_room [OF assms(2)]
  by (auto simp: compress_block_generic_def stored_block_def sealed_block_def Let_def split: option.splits prod.splits)

lemma stored_block_fields:
  assumes "length (blkdata b) = unat (blkrealsize b)"
  shows "length (blkdata (stored_block b r)) = unat (blkarsize (stored_block b r))"
    and "blkcompsize (stored_block b r) = blkarsize (stored_block b r)"
    and "unat (blkarsize (stored_block b r)) \<le> unat (blkrealsize b)"
    and "blkrealsize (stored_block b r) = blkrealsize b" and "blkoffset (stored_block b r) = blkoffset b"
    and "blkfsid (stored_block b r) = blkfsid b"
    and "blkcompalgo (stored_block b r) \<noteq> COMPRESS_NONE \<Longrightarrow> unat (blkarsize (stored_block b r)) < unat (blkrealsize b)"
proof -
  have "unat (of_nat n :: u32) = n" if "n < unat (blkrealsize b)" for n
    using that unsigned_less [of "blkrealsize b", where ?'a = nat] by (simp add: unsigned_of_nat take_bit_nat_eq_self)
  then show "length (blkdata (stored_block b r)) = unat (blkarsize (stored_block b r))"
    "unat (blkarsize (stored_block b r)) \<le> unat (blkrealsize b)"
    "blkcompalgo (stored_block b r) \<noteq> COMPRESS_NONE \<Longrightarrow> unat (blkarsize (stored_block b r)) < unat (blkrealsize b)"
    using assms by (auto simp: stored_block_def split: prod.splits)
qed (auto simp: stored_block_def split: prod.splits)

lemma sealed_block_result:
  assumes "sealed_block lib opt n c = Some (0, c')" and "lib_ok lib" and "length (blkdata c) = unat (blkarsize c)"
    and "blkcompsize c = blkarsize c"
  shows "length (blkdata c') = unat (blkarsize c')" "blkarsize c' = blkarsize c" "blkcompsize c' = blkcompsize c"
    "blkarcsum c' = fletcher32 (blkdata c')" "blkrealsize c' = blkrealsize c" "blkoffset c' = blkoffset c"
    "blkfsid c' = blkfsid c" "blkcompalgo c' = blkcompalgo c"
    "encryptalgo opt = ENCRYPT_BLOWFISH \<and> blkcryptalgo c' = ENCRYPT_BLOWFISH \<and>
       crypto_blowfish lib (blkdata c) (n + 8) (encryptpass opt) True = Some (0, blkdata c') \<or>
     encryptalgo opt \<noteq> ENCRYPT_BLOWFISH \<and> blkcryptalgo c' = ENCRYPT_NONE \<and> blkdata c' = blkdata c"
  using assms
  by (auto simp: sealed_block_def crypto_blowfish_def lib_ok_def Let_def split: if_splits option.splits prod.splits)

text \<open>C23: compression of a block whose algorithm was built in and that is not encrypted always succeeds, also
  when the library fails: the block then holds its own data. It is never larger than the data, a compressed
  block is smaller, at most the chosen algorithm and the default are tried, and the checksum is the one of
  the bytes that go to the archive.\<close>

theorem compress_block_result:
  assumes "length (blkdata b) = unat (blkrealsize b)" and "unat (blkrealsize b) \<le> FSA_MAX_BLKSIZE"
    and "compress_with lib bld (compressalgo opt) (compresslevel opt) (blkdata b) (unat (compress_bufsize (blkrealsize b))) \<noteq> None"
    and "encryptalgo opt \<noteq> ENCRYPT_BLOWFISH"
  shows "\<exists>b'. compress_block_generic lib bld opt mem_ok b = Some (0, b') \<and>
    unat (blkarsize b') \<le> unat (blkrealsize b) \<and> length (blkdata b') = unat (blkarsize b') \<and>
    blkcompsize b' = blkarsize b' \<and> blkarcsum b' = fletcher32 (blkdata b') \<and>
    blkrealsize b' = blkrealsize b \<and> blkoffset b' = blkoffset b \<and> blkfsid b' = blkfsid b \<and>
    blkcompalgo b' \<in> {compressalgo opt, FSA_DEF_COMPRESS_ALGO bld, COMPRESS_NONE} \<and>
    (blkcompalgo b' = COMPRESS_NONE \<longrightarrow> blkdata b' = blkdata b) \<and>
    (blkcompalgo b' \<noteq> COMPRESS_NONE \<longrightarrow> unat (blkarsize b') < unat (blkrealsize b))"
proof -
  let ?n = "unat (compress_bufsize (blkrealsize b))"
  have def: "compress_with lib bld (FSA_DEF_COMPRESS_ALGO bld) l x n \<noteq> None" for l x n
    by (simp add: compress_with_def FSA_DEF_COMPRESS_ALGO_def fsa_const)
  have def': "compress_with lib bld (compressalgo opt) l x n \<noteq> None" for l x n
    using assms(3) by (auto simp: compress_with_def split: if_splits)
  obtain r where r: "compress_attempts lib bld (compressalgo opt) (compresslevel opt) (blkdata b) ?n = Some r"
    using def def' by (fastforce simp: compress_attempts_def retry_algo_def Let_def split: option.splits)
  obtain res out algo where res: "r = (res, out, algo)" by (cases r)
  have algo: "algo = compressalgo opt \<or> algo = FSA_DEF_COMPRESS_ALGO bld"
    using compress_attempts_with [OF r [unfolded res]] by blast
  let ?c = "stored_block b r"
  have "compress_block_generic lib bld opt mem_ok b =
      Some (0, ?c\<lparr>blkcryptalgo := ENCRYPT_NONE, blkarcsum := fletcher32 (blkdata ?c)\<rparr>)"
    using assms(4) by (simp add: compress_block_eq [OF assms(1,2)] r sealed_block_def)
  moreover have "blkcompalgo ?c \<in> {compressalgo opt, FSA_DEF_COMPRESS_ALGO bld, COMPRESS_NONE}"
    using algo by (auto simp: stored_block_def res)
  moreover have "algo \<noteq> COMPRESS_NONE"
    using algo assms(3) by (auto simp: compress_with_def FSA_DEF_COMPRESS_ALGO_def fsa_const split: if_splits)
  then have "blkcompalgo ?c = COMPRESS_NONE \<longrightarrow> blkdata ?c = blkdata b"
    by (auto simp: stored_block_def res)
  ultimately show ?thesis using stored_block_fields [OF assms(1), of r] by auto
qed

lemma compress_decompress_core:
  assumes "lib_ok lib" and "length (blkdata b) = unat (blkrealsize b)" and "unat (blkrealsize b) \<le> FSA_MAX_BLKSIZE"
    and "compress_block_generic lib bld opt mem_ok b = Some (0, b')" and "length fresh = unat (blkrealsize b)"
  shows "\<exists>b''. decompress_block_generic lib bld opt mem_ok fresh (b'\<lparr>blkfsid := fs, blklocked := lck\<rparr>) = Some (0, b'') \<and> blkdata b'' = blkdata b \<and>
    blkrealsize b'' = blkrealsize b \<and> blkoffset b'' = blkoffset b"
proof -
  let ?n = "unat (compress_bufsize (blkrealsize b))"
  obtain r where r: "compress_attempts lib bld (compressalgo opt) (compresslevel opt) (blkdata b) ?n = Some r"
    "sealed_block lib opt ?n (stored_block b r) = Some (0, b')"
    using assms(4) by (auto simp: compress_block_eq [OF assms(2,3)] split: option.splits)
  let ?c = "stored_block b r" and ?b = "b'\<lparr>blkfsid := fs, blklocked := lck\<rparr>"
  note f = stored_block_fields [OF assms(2), of r]
  note s = sealed_block_result [OF r(2) assms(1) f(1,2)]
  obtain res out algo where res: "r = (res, out, algo)" by (cases r)
  have dec: "decrypt_block lib opt mem_ok ?b = Some (0, ?b\<lparr>blkdata := blkdata ?c\<rparr>)"
  proof (cases "encryptalgo opt = ENCRYPT_BLOWFISH")
    case True
    have e: "crypto_blowfish lib (blkdata ?c) (?n + 8) (encryptpass opt) True = Some (0, blkdata b')"
      "blkcryptalgo b' = ENCRYPT_BLOWFISH"
      using s(9) True by auto
    then have "gcry_encrypt lib (encryptpass opt) (blkdata ?c) = (0, blkdata b')" "encryptpass opt \<noteq> []"
      "gcry_open lib = 0" "gcry_setkey lib (encryptpass opt) = 0" "gcry_setiv lib ''fsarchiv'' = 0"
      by (auto simp: crypto_blowfish_def split: if_splits prod.splits)
    moreover from this have "gcry_decrypt lib (encryptpass opt) (blkdata b') = (0, blkdata ?c)"
      using assms(1) by (auto simp: lib_ok_def)
    moreover have "length (blkdata b') \<le> unat (blkrealsize b') + 8" using s(1,2,5) f(3,4) by simp
    ultimately show ?thesis
      using e(2) s(1,2,3) f(2) by (simp add: decrypt_block_def crypto_blowfish_def)
  next
    case False
    then have "blkcryptalgo b' = ENCRYPT_NONE" "blkdata b' = blkdata ?c" using s(9) by auto
    then show ?thesis by (simp add: decrypt_block_def fsa_const)
  qed
  have sum: "\<not> length (blkdata b') < unat (blkarsize b')" "fletcher32 (take (unat (blkarsize b')) (blkdata b')) = blkarcsum b'"
    "\<not> (blkcryptalgo b' \<noteq> ENCRYPT_NONE \<and> encryptalgo opt \<noteq> ENCRYPT_BLOWFISH)"
    using s(1,4,9) by auto
  have sizes: "blkrealsize b' = blkrealsize b" "unat (blkarsize b') = length (blkdata ?c)" "blkcompsize b' = blkarsize b'"
    "length (blkdata ?c) \<le> unat (blkrealsize b)"
    using s f by simp_all
  show ?thesis
  proof (cases "res = FSAERR_SUCCESS \<and> length out < unat (blkrealsize b)")
    case True
    then have c: "blkdata ?c = out" "blkcompalgo ?c = algo" by (simp_all add: stored_block_def res)
    obtain level where "compress_with lib bld algo level (blkdata b) ?n = Some (FSAERR_SUCCESS, out)"
      using compress_attempts_with [OF r(1) [unfolded res]] True by auto
    from codec_with [OF assms(1) this] True assms(2)
    have u: "uncompress_with lib bld algo out (unat (blkrealsize b)) = Some (FSAERR_SUCCESS, blkdata b)" "algo \<noteq> COMPRESS_NONE"
      by simp_all
    have "decompress_block_generic lib bld opt mem_ok fresh ?b =
        Some (0, ?b\<lparr>blkdata := memcpy fresh (blkdata b)\<rparr>)"
      using dec sum sizes c s(8) u by (simp add: decompress_block_generic_def FSAERR_SUCCESS_def Let_def)
    then show ?thesis using sizes(1) s(6) f(5) assms(2,5) by (simp add: memcpy_full)
  next
    case False
    then have c: "blkdata ?c = blkdata b" "blkcompalgo ?c = COMPRESS_NONE" by (auto simp: stored_block_def res)
    have "decompress_block_generic lib bld opt mem_ok fresh ?b =
        Some (0, ?b\<lparr>blkdata := memcpy fresh (blkdata b)\<rparr>)"
      using dec sum sizes c s(8) assms(2) by (simp add: decompress_block_generic_def Let_def)
    then show ?thesis using sizes(1) s(6) f(5) assms(2,5) by (simp add: memcpy_full)
  qed
qed

text \<open>C5: decompression undoes compression and encryption: with the same options a block comes back with its
  own bytes, whichever algorithm was used in the end and whatever malloc left in the new buffer.\<close>

theorem compress_decompress:
  assumes "lib_ok lib" and "length (blkdata b) = unat (blkrealsize b)" and "unat (blkrealsize b) \<le> FSA_MAX_BLKSIZE"
    and "compress_block_generic lib bld opt mem_ok b = Some (0, b')" and "length fresh = unat (blkrealsize b)"
  shows "\<exists>b''. decompress_block_generic lib bld opt mem_ok fresh b' = Some (0, b'') \<and> blkdata b'' = blkdata b \<and>
    blkrealsize b'' = blkrealsize b \<and> blkoffset b'' = blkoffset b"
  using compress_decompress_core [where fs = "blkfsid b'" and lck = "blklocked b'", OF assms] by simp

text \<open>An example: a library that packs a sequence of equal bytes to one byte and knows nothing else, and a
  cipher that complements every byte.\<close>

definition demo_pack :: "u8 list \<Rightarrow> libret \<times> u8 list" where
  "demo_pack x = (if x \<noteq> [] \<and> x = replicate (length x) (hd x) then (Lib_ok, [hd x]) else (Lib_other, []))"

definition demo_unpack :: "u8 list \<Rightarrow> nat \<Rightarrow> libret \<times> u8 list" where
  "demo_unpack y n = (if length y = 1 then (Lib_ok, replicate n (hd y)) else (Lib_other, []))"

definition demo_lib :: complib where
  "demo_lib = \<lparr>zlib_compress2 = (\<lambda>x n l. demo_pack x), zlib_uncompress = demo_unpack,
     bz2_compress = (\<lambda>x n l. (Lib_mem, [])), bz2_decompress = demo_unpack,
     lzo1x_1_compress = demo_pack, lzo1x_decompress_safe = demo_unpack,
     lz4_compress_default = (\<lambda>x n. (0, [])), lz4_decompress_safe = (\<lambda>y n. (0, [])),
     zstd_compress = (\<lambda>x n l. (True, [])), zstd_decompress = (\<lambda>y n. (True, [])),
     lzma_easy_encoder = (\<lambda>l. LZMA_MEM_ERROR), lzma_run = (\<lambda>x n l. LZMA_OK), lzma_finish = (\<lambda>x n l. (LZMA_OTHER, [])),
     lzma_auto_decoder = LZMA_OK, lzma_decode = (\<lambda>y n m. (LZMA_OTHER, [])),
     gcry_open = 0, gcry_setkey = (\<lambda>p. 0), gcry_setiv = (\<lambda>v. 0),
     gcry_encrypt = (\<lambda>p x. (0, map (\<lambda>b. NOT b) x)), gcry_decrypt = (\<lambda>p y. (0, map (\<lambda>b. NOT b) y))\<rparr>"

lemma demo_lib_ok: "lib_ok demo_lib"
  by (auto simp: lib_ok_def codec_ok_def demo_lib_def compress_block_gzip_def uncompress_block_gzip_def
      compress_block_bzip2_def compress_block_lzo_def uncompress_block_lzo_def compress_block_lz4_def
      compress_block_zstd_def compress_block_lzma_def demo_pack_def demo_unpack_def fsa_const FSAERR_SUCCESS_def
      FSAERR_UNKNOWN_def FSAERR_ENOMEM_def comp_def split: if_splits libret.splits)

definition demo_data :: cblockinfo where
  "demo_data = zero_blockinfo\<lparr>blkdata := [5, 5, 5], blkrealsize := 3\<rparr>"

definition demo_build :: build where
  "demo_build = \<lparr>has_lzo = True, has_lzma = False, has_lz4 = False, has_zstd = False\<rparr>"

definition demo_crypt :: coptions where
  "demo_crypt = options_zero\<lparr>compressalgo := COMPRESS_GZIP, encryptalgo := ENCRYPT_BLOWFISH, encryptpass := ''secret''\<rparr>"

lemma compress_block_result_witness:
  "\<exists>b'. compress_block_generic demo_lib demo_build (options_zero\<lparr>compressalgo := COMPRESS_BZIP2\<rparr>) mem_ok demo_data = Some (0, b') \<and>
    unat (blkarsize b') \<le> unat (blkrealsize demo_data) \<and> length (blkdata b') = unat (blkarsize b') \<and>
    blkcompsize b' = blkarsize b' \<and> blkarcsum b' = fletcher32 (blkdata b') \<and>
    blkrealsize b' = blkrealsize demo_data \<and> blkoffset b' = blkoffset demo_data \<and> blkfsid b' = blkfsid demo_data \<and>
    blkcompalgo b' \<in> {compressalgo (options_zero\<lparr>compressalgo := COMPRESS_BZIP2\<rparr>), FSA_DEF_COMPRESS_ALGO demo_build, COMPRESS_NONE} \<and>
    (blkcompalgo b' = COMPRESS_NONE \<longrightarrow> blkdata b' = blkdata demo_data) \<and>
    (blkcompalgo b' \<noteq> COMPRESS_NONE \<longrightarrow> unat (blkarsize b') < unat (blkrealsize demo_data))"
  by (rule compress_block_result)
    (simp_all add: demo_data_def FSA_MAX_BLKSIZE_def compress_with_def fsa_const options_zero_def)

lemma compress_decompress_witness:
  "\<exists>b''. decompress_block_generic demo_lib demo_build demo_crypt mem_ok [9, 9, 9]
      (snd (the (compress_block_generic demo_lib demo_build demo_crypt mem_ok demo_data))) = Some (0, b'') \<and>
    blkdata b'' = blkdata demo_data \<and> blkrealsize b'' = blkrealsize demo_data \<and> blkoffset b'' = blkoffset demo_data"
proof (rule compress_decompress [OF demo_lib_ok])
  have "fst (the (compress_block_generic demo_lib demo_build demo_crypt mem_ok demo_data)) = 0"
    "compress_block_generic demo_lib demo_build demo_crypt mem_ok demo_data \<noteq> None"
    by (simp_all add: compress_block_generic_def demo_data_def demo_crypt_def options_zero_def compress_attempts_def
        compress_with_def compress_block_gzip_def demo_lib_def demo_pack_def fsa_const compress_bufsize_def
        FSAERR_SUCCESS_def FSAERR_ENOMEM_def crypto_blowfish_def Let_def)
  then show "compress_block_generic demo_lib demo_build demo_crypt mem_ok demo_data =
      Some (0, snd (the (compress_block_generic demo_lib demo_build demo_crypt mem_ok demo_data)))"
    by (metis option.collapse prod.collapse)
qed (simp_all add: demo_data_def FSA_MAX_BLKSIZE_def)

text \<open>C39: decompression trusts the sizes of the archive: a block that is stored without compression and whose
  size in the archive is larger than its real size, both with a good checksum, is copied behind the end of
  the buffer of the real size.\<close>

theorem decompress_none_overflow:
  assumes "blkcompalgo b = COMPRESS_NONE" and "blkcryptalgo b = ENCRYPT_NONE"
    and "length (blkdata b) = unat (blkarsize b)" and "blkarcsum b = fletcher32 (blkdata b)"
    and "unat (blkrealsize b) < unat (blkarsize b)"
  shows "decompress_block_generic lib bld opt mem_ok fresh b = None"
  using assms by (simp add: decompress_block_generic_def decrypt_block_def fsa_const Let_def)

lemma decompress_none_overflow_witness:
  "decompress_block_generic demo_lib demo_build options_zero mem_ok []
     (zero_blockinfo\<lparr>blkdata := [1, 2], blkarsize := 2, blkrealsize := 1, blkcompalgo := COMPRESS_NONE,
        blkcryptalgo := ENCRYPT_NONE, blkarcsum := fletcher32 [1, 2]\<rparr>) = None"
  by (rule decompress_none_overflow) simp_all

text \<open>C40: a block of which one byte has changed since its checksum was made is not decompressed, but it is not
  replaced by zeros either: it is returned as a success with its damaged data of the size in the archive.\<close>

theorem decompress_corrupt_unchanged:
  assumes "blkarcsum b = fletcher32 (xs @ a # ys)" and "c \<noteq> a" and "blkdata b = xs @ c # ys"
    and "length (blkdata b) = unat (blkarsize b)"
  shows "decompress_block_generic lib bld opt mem_ok fresh b = Some (0, b)"
proof -
  have "fletcher32 (xs @ c # ys) \<noteq> blkarcsum b" using assms(1,2) by (simp add: fletcher32_byte_eq)
  then show ?thesis using assms(3,4) by (simp add: decompress_block_generic_def Let_def)
qed

lemma decompress_corrupt_unchanged_witness:
  "decompress_block_generic demo_lib demo_build options_zero mem_ok [0, 0, 0, 0]
     (zero_blockinfo\<lparr>blkdata := [1, 7], blkarsize := 2, blkrealsize := 4, blkarcsum := fletcher32 [1, 2]\<rparr>) =
   Some (0, zero_blockinfo\<lparr>blkdata := [1, 7], blkarsize := 2, blkrealsize := 4, blkarcsum := fletcher32 [1, 2]\<rparr>)"
  by (rule decompress_corrupt_unchanged [where xs = "[1]" and a = 2 and c = 7 and ys = "[]"]) simp_all

end
