(* ===== verification/Regmulti.thy ===== *)
theory Regmulti
  imports Queue
begin

text \<open>regmulti.c: small files packed together in one block. The block is the static array of the struct, so a
  copy that does not fit in it, a read outside it, or a use of a missing header is the result None, which C
  leaves undefined. The answers of the queue to the additions are an argument, as in Archio.\<close>

section \<open>Data and operations\<close>

record cregmulti =
  rcount :: u32
  maxitems :: u32
  maxblksize :: u32
  objhead :: "cdico option list"
  rdata :: "u8 list"
  usedsize :: u32

definition regmulti_empty :: "cregmulti \<Rightarrow> int \<times> cregmulti" where
  "regmulti_empty m =
     (0, m\<lparr>rcount := 0, usedsize := 0,
           objhead := replicate (unat (maxitems m)) None @ drop (unat (maxitems m)) (objhead m)\<rparr>)"

definition regmulti_init :: "cregmulti \<Rightarrow> u32 \<Rightarrow> int \<times> cregmulti" where
  "regmulti_init m maxblk =
     regmulti_empty (m\<lparr>maxitems := of_nat FSA_MAX_SMALLFILECOUNT, maxblksize := min maxblk (of_nat FSA_MAX_BLKSIZE)\<rparr>)"

definition regmulti_count :: "cregmulti \<Rightarrow> int" where
  "regmulti_count m = uint (rcount m)"

definition regmulti_save_enough_space_for_new_file :: "cregmulti \<Rightarrow> u32 \<Rightarrow> bool" where
  "regmulti_save_enough_space_for_new_file m filesize =
     (if rcount m \<ge> maxitems m then False
      else if usedsize m + filesize > maxblksize m then False
      else True)"

text \<open>memcpy of \<open>n\<close> bytes from a buffer to an offset of the array.\<close>

definition block_copy :: "u8 list \<Rightarrow> nat \<Rightarrow> u8 list \<Rightarrow> nat \<Rightarrow> u8 list option" where
  "block_copy block off src n =
     (if length block < off + n \<or> length src < n then None
      else Some (take off block @ take n src @ drop (off + n) block))"

definition regmulti_save_addfile :: "cregmulti \<Rightarrow> cdico \<Rightarrow> u8 list \<Rightarrow> u32 \<Rightarrow> (int \<times> cregmulti) option" where
  "regmulti_save_addfile m header data datsize =
     (if rcount m \<ge> maxitems m then Some (-1, m)
      else if usedsize m + datsize > maxblksize m then Some (-1, m)
      else if length (objhead m) \<le> unat (rcount m) then None
      else map_option (\<lambda>block. (0, m\<lparr>objhead := (objhead m)[unat (rcount m) := Some header], rdata := block,
               usedsize := usedsize m + datsize, rcount := rcount m + 1\<rparr>))
             (block_copy (rdata m) (unat (usedsize m)) data (unat datsize)))"

text \<open>The loop of regmulti_save_enqueue: the item \<open>i\<close>, the offset, and what was added to the queue. The
  argument \<open>stk\<close> is the uninitialised variable of dico_get_u64.\<close>

fun enqueue_loop ::
    "malloc \<Rightarrow> u8 list \<Rightarrow> (nat \<Rightarrow> int) \<Rightarrow> u16 \<Rightarrow> u32 \<Rightarrow> cdico option list \<Rightarrow> u32 \<Rightarrow> (qstatus \<times> qinfo) list \<Rightarrow>
     int \<times> cdico option list \<times> (qstatus \<times> qinfo) list" where
  "enqueue_loop mem stk addq fsid count [] offset added = (0, [], added)"
| "enqueue_loop mem stk addq fsid count (None # heads) offset added = (-1, None # heads, added)"
| "enqueue_loop mem stk addq fsid count (Some h # heads) offset added =
     (let (r, filesize) = dico_get_u64 h DICO_OBJ_SECTION_STDATTR DISKITEMKEY_SIZE stk
      in if r \<noteq> 0 then (-1, Some h # heads, added)
         else
           (let (r, h) = dico_add_u32 mem h DICO_OBJ_SECTION_STDATTR DISKITEMKEY_MULTIFILESCOUNT count
            in if r \<noteq> 0 then (-1, Some h # heads, added)
               else
                 (let (r, h) = dico_add_u32 mem h DICO_OBJ_SECTION_STDATTR DISKITEMKEY_MULTIFILESOFFSET offset
                  in if r \<noteq> 0 then (-1, Some h # heads, added)
                     else if addq (length added) \<noteq> 0 then (-1, Some h # heads, added)
                     else
                       (let (r, heads, added) = enqueue_loop mem stk addq fsid count heads (offset + ucast filesize)
                              (added @ [(QITEM_STATUS_DONE, Qheader \<lparr>hmagic = FSA_MAGIC_OBJT, hfsid = fsid, hdico = h\<rparr>)])
                        in (r, Some h # heads, added)))))"

definition regmulti_save_enqueue ::
    "malloc \<Rightarrow> u8 list \<Rightarrow> (nat \<Rightarrow> int) \<Rightarrow> cregmulti \<Rightarrow> u16 \<Rightarrow> (qstatus \<times> qinfo) list \<Rightarrow>
     int \<times> cregmulti \<times> (qstatus \<times> qinfo) list" where
  "regmulti_save_enqueue mem stk addq m fsid added =
     (if rcount m = 0 then (0, m, added)
      else
        (let n = unat (rcount m);
             (r, heads, added) = enqueue_loop mem stk addq fsid (rcount m) (take n (objhead m)) 0 added;
             m = m\<lparr>objhead := heads @ drop n (objhead m)\<rparr>
         in if r \<noteq> 0 then (-1, m, added)
            else if \<not> mem (unat (usedsize m)) then (-1, m, added)
            else
              (let blkinfo = zero_blockinfo\<lparr>blkrealsize := usedsize m, blkdata := take (unat (usedsize m)) (rdata m),
                     blkoffset := 0, blkfsid := fsid\<rparr>
               in if addq (length added) \<noteq> 0 then (-1, m, added)
                  else (0, m, added @ [(QITEM_STATUS_TODO, Qblock blkinfo)]))))"

definition regmulti_rest_addheader :: "cregmulti \<Rightarrow> cdico \<Rightarrow> (int \<times> cregmulti) option" where
  "regmulti_rest_addheader m header =
     (if rcount m \<ge> maxitems m then Some (-1, m)
      else if length (objhead m) \<le> unat (rcount m) then None
      else Some (0, m\<lparr>objhead := (objhead m)[unat (rcount m) := Some header], rcount := rcount m + 1\<rparr>))"

definition regmulti_rest_setdatablock :: "cregmulti \<Rightarrow> u8 list \<Rightarrow> u32 \<Rightarrow> (int \<times> cregmulti) option" where
  "regmulti_rest_setdatablock m data datsize =
     (if usedsize m + datsize > maxblksize m then Some (-1, m)
      else map_option (\<lambda>block. (0, m\<lparr>rdata := block, usedsize := datsize\<rparr>))
             (block_copy (rdata m) 0 data (unat datsize)))"

text \<open>The header and the data of a file; \<open>bufsize\<close> is the size of the caller's buffer, which the function does
  not look at. The index is compared as an unsigned number, so a negative one is out of scope too.\<close>

definition regmulti_rest_getfile ::
    "u8 list \<Rightarrow> u8 list \<Rightarrow> cregmulti \<Rightarrow> int \<Rightarrow> nat \<Rightarrow> (int \<times> (cdico \<times> u8 list) option) option" where
  "regmulti_rest_getfile stk64 stk32 m index bufsize =
     (if rcount m \<le> word_of_int index then Some (-1, None)
      else if index < 0 \<or> length (objhead m) \<le> nat index then None
      else case objhead m ! nat index of
        None \<Rightarrow> None
      | Some h \<Rightarrow>
          (let (r, filesize) = dico_get_u64 h DICO_OBJ_SECTION_STDATTR DISKITEMKEY_SIZE stk64
           in if r \<noteq> 0 then Some (-1, None)
              else
                (let (r, offset) = dico_get_u32 h DICO_OBJ_SECTION_STDATTR DISKITEMKEY_MULTIFILESOFFSET stk32
                 in if r \<noteq> 0 then Some (-1, None)
                    else if length (rdata m) < unat offset + unat filesize \<or> bufsize < unat filesize then None
                    else Some (0, Some (h, take (unat filesize) (drop (unat offset) (rdata m)))))))"

section \<open>Invariant\<close>

text \<open>The struct as it is declared, and what every operation keeps of it.\<close>

definition regmulti_inv :: "cregmulti \<Rightarrow> bool" where
  "regmulti_inv m \<longleftrightarrow>
     length (objhead m) = FSA_MAX_SMALLFILECOUNT \<and> length (rdata m) = FSA_MAX_BLKSIZE \<and>
     maxitems m = of_nat FSA_MAX_SMALLFILECOUNT \<and> unat (maxblksize m) \<le> FSA_MAX_BLKSIZE \<and>
     unat (rcount m) \<le> FSA_MAX_SMALLFILECOUNT \<and> unat (usedsize m) \<le> unat (maxblksize m) \<and>
     (\<forall>i < unat (rcount m). objhead m ! i \<noteq> None)"

lemma unat_maxitems: "unat (of_nat FSA_MAX_SMALLFILECOUNT :: u32) = 512"
  by (simp add: FSA_MAX_SMALLFILECOUNT_def)

lemma block_copy_length: "block_copy block off src n = Some b \<Longrightarrow> length b = length block"
  by (auto simp: block_copy_def split: if_splits)

lemma regmulti_init_inv:
  assumes "length (objhead m) = FSA_MAX_SMALLFILECOUNT" and "length (rdata m) = FSA_MAX_BLKSIZE"
  shows "regmulti_inv (snd (regmulti_init m maxblk))"
proof -
  have "unat (min maxblk (of_nat FSA_MAX_BLKSIZE)) \<le> FSA_MAX_BLKSIZE"
    by (simp add: FSA_MAX_BLKSIZE_def min_def word_le_nat_alt)
  then show ?thesis
    using assms by (simp add: regmulti_init_def regmulti_empty_def regmulti_inv_def unat_maxitems FSA_MAX_SMALLFILECOUNT_def)
qed

lemma addfile_inv:
  assumes inv: "regmulti_inv m" and small: "unat datsize < 2 ^ 31" and src: "length data = unat datsize"
  shows "\<exists>r m'. regmulti_save_addfile m header data datsize = Some (r, m') \<and> regmulti_inv m' \<and>
    (r = 0 \<longleftrightarrow> unat (rcount m) < 512 \<and> unat (usedsize m) + unat datsize \<le> unat (maxblksize m)) \<and>
    (r = 0 \<longrightarrow> rcount m' = rcount m + 1 \<and> unat (rcount m') = unat (rcount m) + 1 \<and>
      unat (usedsize m') = unat (usedsize m) + unat datsize \<and> maxblksize m' = maxblksize m \<and>
      objhead m' = (objhead m)[unat (rcount m) := Some header] \<and>
      take (unat (usedsize m')) (rdata m') = take (unat (usedsize m)) (rdata m) @ data)"
proof (cases "unat (rcount m) < 512 \<and> unat (usedsize m) + unat datsize \<le> unat (maxblksize m)")
  case True
  have blk: "unat (maxblksize m) \<le> 921600" using inv by (simp add: regmulti_inv_def FSA_MAX_BLKSIZE_def)
  have u: "unat (usedsize m + datsize) = unat (usedsize m) + unat datsize"
    using True blk by (intro unat_add_lem [THEN iffD1]) simp
  have c: "unat (rcount m + 1) = unat (rcount m) + 1"
    using True by (subst unat_add_lem [THEN iffD1]) simp_all
  let ?b = "take (unat (usedsize m)) (rdata m) @ data @ drop (unat (usedsize m) + unat datsize) (rdata m)"
  have b: "block_copy (rdata m) (unat (usedsize m)) data (unat datsize) = Some ?b"
    using inv True src by (simp add: block_copy_def regmulti_inv_def FSA_MAX_BLKSIZE_def)
  have g: "\<not> maxitems m \<le> rcount m" "\<not> maxblksize m < usedsize m + datsize" "\<not> length (objhead m) \<le> unat (rcount m)"
    using inv True u by (simp_all add: regmulti_inv_def word_le_nat_alt word_less_nat_alt unat_maxitems FSA_MAX_SMALLFILECOUNT_def)
  have ub: "unat (usedsize m) \<le> length (rdata m)" using inv by (simp add: regmulti_inv_def FSA_MAX_BLKSIZE_def)
  have "regmulti_inv (m\<lparr>objhead := (objhead m)[unat (rcount m) := Some header], rdata := ?b,
      usedsize := usedsize m + datsize, rcount := rcount m + 1\<rparr>)"
    using inv True u c src block_copy_length [OF b]
    by (auto simp: regmulti_inv_def FSA_MAX_SMALLFILECOUNT_def nth_list_update)
  then show ?thesis
    using True g u c src ub by (simp add: regmulti_save_addfile_def b)
next
  case False
  have blk: "unat (maxblksize m) \<le> 921600" "unat (usedsize m) \<le> 921600"
    using inv by (simp_all add: regmulti_inv_def FSA_MAX_BLKSIZE_def)
  then have u: "unat (usedsize m + datsize) = unat (usedsize m) + unat datsize"
    using small by (intro unat_add_lem [THEN iffD1]) simp
  have "maxitems m \<le> rcount m \<or> maxblksize m < usedsize m + datsize"
    using inv False u by (auto simp: regmulti_inv_def word_le_nat_alt word_less_nat_alt unat_maxitems FSA_MAX_SMALLFILECOUNT_def)
  then have "regmulti_save_addfile m header data datsize = Some (-1, m)"
    by (auto simp: regmulti_save_addfile_def)
  then show ?thesis using inv False by simp
qed

section \<open>Files in, files out\<close>

text \<open>Saving files one after the other, and giving the headers and the block to the restoring side.\<close>

fun save_files :: "cregmulti \<Rightarrow> (cdico \<times> u8 list) list \<Rightarrow> (int \<times> cregmulti) option" where
  "save_files m [] = Some (0, m)"
| "save_files m ((h, d) # files) =
     (case regmulti_save_addfile m h d (of_nat (length d)) of
        None \<Rightarrow> None
      | Some (r, m) \<Rightarrow> if r \<noteq> 0 then Some (r, m) else save_files m files)"

fun rest_headers :: "cregmulti \<Rightarrow> cdico list \<Rightarrow> (int \<times> cregmulti) option" where
  "rest_headers m [] = Some (0, m)"
| "rest_headers m (h # hs) =
     (case regmulti_rest_addheader m h of
        None \<Rightarrow> None
      | Some (r, m) \<Rightarrow> if r \<noteq> 0 then Some (r, m) else rest_headers m hs)"

definition file_ok :: "cdico \<times> u8 list \<Rightarrow> bool" where
  "file_ok f \<longleftrightarrow> dico_wf (fst f) \<and>
     (DICO_OBJ_SECTION_STDATTR, DISKITEMKEY_MULTIFILESCOUNT) \<notin> set (dico_keys (fst f)) \<and>
     (DICO_OBJ_SECTION_STDATTR, DISKITEMKEY_MULTIFILESOFFSET) \<notin> set (dico_keys (fst f)) \<and>
     dico_find (fst f) DICO_OBJ_SECTION_STDATTR DISKITEMKEY_SIZE =
       Some (new_item DICO_OBJ_SECTION_STDATTR DISKITEMKEY_SIZE (cpu_to_le64 (of_nat (length (snd f)))) 8 DICTYPE_U64)"

definition packed_header :: "u32 \<Rightarrow> u32 \<Rightarrow> cdico \<Rightarrow> cdico" where
  "packed_header count offset h =
     h @ [new_item DICO_OBJ_SECTION_STDATTR DISKITEMKEY_MULTIFILESCOUNT (cpu_to_le32 count) 4 DICTYPE_U32,
          new_item DICO_OBJ_SECTION_STDATTR DISKITEMKEY_MULTIFILESOFFSET (cpu_to_le32 offset) 4 DICTYPE_U32]"

fun packed_headers :: "u32 \<Rightarrow> nat \<Rightarrow> (cdico \<times> u8 list) list \<Rightarrow> cdico list" where
  "packed_headers count offset [] = []"
| "packed_headers count offset ((h, d) # files) =
     packed_header count (of_nat offset) h # packed_headers count (offset + length d) files"

definition header_added :: "u16 \<Rightarrow> cdico \<Rightarrow> qstatus \<times> qinfo" where
  "header_added fsid h = (QITEM_STATUS_DONE, Qheader \<lparr>hmagic = FSA_MAGIC_OBJT, hfsid = fsid, hdico = h\<rparr>)"

lemma dico_get_u64_find:
  assumes "dico_wf d" and "dico_find d s k = Some (new_item s k (cpu_to_le64 v) 8 t)" and "length stk = 8"
  shows "dico_get_u64 d s k stk = (0, v)"
  using dico_get_data_Some [OF assms(1,2), of 8 stk] assms(3)
  by (simp add: dico_get_u64_def new_item_bytes memcpy_full)

lemma dico_get_u32_find:
  assumes "dico_wf d" and "dico_find d s k = Some (new_item s k (cpu_to_le32 v) 4 t)" and "length stk = 4"
  shows "dico_get_u32 d s k stk = (0, v)"
  using dico_get_data_Some [OF assms(1,2), of 4 stk] assms(3)
  by (simp add: dico_get_u32_def new_item_bytes memcpy_full)

lemma packed_header_props:
  assumes "file_ok (h, d)"
  shows "dico_wf (packed_header count offset h)"
    and "dico_find (packed_header count offset h) DICO_OBJ_SECTION_STDATTR DISKITEMKEY_SIZE =
      Some (new_item DICO_OBJ_SECTION_STDATTR DISKITEMKEY_SIZE (cpu_to_le64 (of_nat (length d))) 8 DICTYPE_U64)"
    and "dico_find (packed_header count offset h) DICO_OBJ_SECTION_STDATTR DISKITEMKEY_MULTIFILESOFFSET =
      Some (new_item DICO_OBJ_SECTION_STDATTR DISKITEMKEY_MULTIFILESOFFSET (cpu_to_le32 offset) 4 DICTYPE_U32)"
proof -
  let ?c = "new_item DICO_OBJ_SECTION_STDATTR DISKITEMKEY_MULTIFILESCOUNT (cpu_to_le32 count) 4 DICTYPE_U32"
  have p: "packed_header count offset h = (h @ [?c]) @
      [new_item DICO_OBJ_SECTION_STDATTR DISKITEMKEY_MULTIFILESOFFSET (cpu_to_le32 offset) 4 DICTYPE_U32]"
    by (simp add: packed_header_def)
  have n: "dico_find h DICO_OBJ_SECTION_STDATTR DISKITEMKEY_MULTIFILESOFFSET = None"
    using assms by (simp add: dico_find_None file_ok_def)
  show "dico_wf (packed_header count offset h)"
    using assms by (auto simp: packed_header_def file_ok_def dico_wf_def new_item_wf fsa_const)
  show "dico_find (packed_header count offset h) DICO_OBJ_SECTION_STDATTR DISKITEMKEY_SIZE =
      Some (new_item DICO_OBJ_SECTION_STDATTR DISKITEMKEY_SIZE (cpu_to_le64 (of_nat (length d))) 8 DICTYPE_U64)"
    using assms unfolding p dico_find_snoc by (simp add: file_ok_def)
  show "dico_find (packed_header count offset h) DICO_OBJ_SECTION_STDATTR DISKITEMKEY_MULTIFILESOFFSET =
      Some (new_item DICO_OBJ_SECTION_STDATTR DISKITEMKEY_MULTIFILESOFFSET (cpu_to_le32 offset) 4 DICTYPE_U32)"
    using n unfolding p dico_find_snoc by (simp add: new_item_def fsa_const)
qed

lemma enqueue_loop_ok:
  assumes "\<forall>f \<in> set files. file_ok f" and "\<forall>n. addq n = 0" and "length stk = 8"
  shows "enqueue_loop mem_ok stk addq fsid count (map (Some \<circ> fst) files) (of_nat offset) added =
    (0, map Some (packed_headers count offset files), added @ map (header_added fsid) (packed_headers count offset files))"
  using assms(1)
proof (induction files arbitrary: offset added)
  case (Cons f files)
  obtain h d where f: "f = (h, d)" by force
  have ok: "file_ok (h, d)" using Cons.prems f by simp
  have g: "dico_get_u64 h DICO_OBJ_SECTION_STDATTR DISKITEMKEY_SIZE stk = (0, of_nat (length d))"
    using ok assms(3) by (intro dico_get_u64_find) (auto simp: file_ok_def)
  have a: "dico_add_u32 mem_ok h DICO_OBJ_SECTION_STDATTR DISKITEMKEY_MULTIFILESCOUNT count =
      (0, h @ [new_item DICO_OBJ_SECTION_STDATTR DISKITEMKEY_MULTIFILESCOUNT (cpu_to_le32 count) 4 DICTYPE_U32])"
    using ok by (simp add: dico_add_number_ok file_ok_def)
  have b: "dico_add_u32 mem_ok (h @ [new_item DICO_OBJ_SECTION_STDATTR DISKITEMKEY_MULTIFILESCOUNT (cpu_to_le32 count) 4 DICTYPE_U32])
      DICO_OBJ_SECTION_STDATTR DISKITEMKEY_MULTIFILESOFFSET (of_nat offset) = (0, packed_header count (of_nat offset) h)"
    using ok by (subst dico_add_number_ok) (auto simp: file_ok_def packed_header_def fsa_const)
  have "ucast (of_nat (length d) :: u64) = (of_nat (length d) :: u32)"
    by (rule bit_word_eqI) (auto simp: bit_simps)
  then have o: "of_nat offset + ucast (of_nat (length d) :: u64) = (of_nat (offset + length d) :: u32)"
    by simp
  show ?case
    using Cons.IH [of "offset + length d"] Cons.prems assms(2)
    by (simp add: f g a b o header_added_def)
qed simp

definition total_size :: "(cdico \<times> u8 list) list \<Rightarrow> nat" where
  "total_size files = length (concat (map snd files))"

lemma save_files_ok:
  assumes "regmulti_inv m" and "unat (rcount m) + length files \<le> 512"
    and "unat (usedsize m) + total_size files \<le> unat (maxblksize m)"
  shows "\<exists>m'. save_files m files = Some (0, m') \<and> regmulti_inv m' \<and>
    unat (rcount m') = unat (rcount m) + length files \<and> unat (usedsize m') = unat (usedsize m) + total_size files \<and>
    take (unat (rcount m')) (objhead m') = take (unat (rcount m)) (objhead m) @ map (Some \<circ> fst) files \<and>
    take (unat (usedsize m')) (rdata m') = take (unat (usedsize m)) (rdata m) @ concat (map snd files)"
  using assms
proof (induction files arbitrary: m)
  case Nil
  then show ?case by (simp add: total_size_def)
next
  case (Cons f files)
  obtain h d where f: "f = (h, d)" by force
  have blk: "unat (maxblksize m) \<le> 921600" using Cons.prems(1) by (simp add: regmulti_inv_def FSA_MAX_BLKSIZE_def)
  have sz: "unat (usedsize m) + (length d + total_size files) \<le> unat (maxblksize m)"
    using Cons.prems(3) f by (simp add: total_size_def)
  then have ld: "unat (of_nat (length d) :: u32) = length d"
    using blk by (simp add: unsigned_of_nat take_bit_nat_eq_self)
  have small: "unat (of_nat (length d) :: u32) < 2 ^ 31" unfolding ld using sz blk by simp
  obtain r m1 where m1: "regmulti_save_addfile m h d (of_nat (length d)) = Some (r, m1)" "regmulti_inv m1"
    "r = 0 \<longleftrightarrow> unat (rcount m) < 512 \<and> unat (usedsize m) + length d \<le> unat (maxblksize m)"
    "r = 0 \<longrightarrow> rcount m1 = rcount m + 1 \<and> unat (rcount m1) = unat (rcount m) + 1 \<and>
      unat (usedsize m1) = unat (usedsize m) + length d \<and> maxblksize m1 = maxblksize m \<and>
      objhead m1 = (objhead m)[unat (rcount m) := Some h] \<and>
      take (unat (usedsize m1)) (rdata m1) = take (unat (usedsize m)) (rdata m) @ d"
    using addfile_inv [OF Cons.prems(1) small ld [symmetric], of h] unfolding ld by blast
  have r: "r = 0" using m1(3) sz Cons.prems(2) by simp
  then have m1': "unat (rcount m1) = unat (rcount m) + 1" "unat (usedsize m1) = unat (usedsize m) + length d"
    "maxblksize m1 = maxblksize m" "objhead m1 = (objhead m)[unat (rcount m) := Some h]"
    "take (unat (usedsize m1)) (rdata m1) = take (unat (usedsize m)) (rdata m) @ d"
    using m1(4) by auto
  have "unat (rcount m) < length (objhead m)"
    using Cons.prems(1,2) by (simp add: regmulti_inv_def FSA_MAX_SMALLFILECOUNT_def)
  then have t: "take (unat (rcount m1)) (objhead m1) = take (unat (rcount m)) (objhead m) @ [Some h]"
    unfolding m1'(1,4) by (simp add: take_Suc_conv_app_nth)
  obtain m2 where "save_files m1 files = Some (0, m2)" "regmulti_inv m2"
    "unat (rcount m2) = unat (rcount m1) + length files" "unat (usedsize m2) = unat (usedsize m1) + total_size files"
    "take (unat (rcount m2)) (objhead m2) = take (unat (rcount m1)) (objhead m1) @ map (Some \<circ> fst) files"
    "take (unat (usedsize m2)) (rdata m2) = take (unat (usedsize m1)) (rdata m1) @ concat (map snd files)"
    using Cons.IH [OF m1(2)] Cons.prems(2) sz m1' by auto
  then show ?case using m1(1) r m1' t f by (simp add: total_size_def)
qed

lemma rest_headers_ok:
  assumes "regmulti_inv m" and "unat (rcount m) + length hs \<le> 512"
  shows "\<exists>m'. rest_headers m hs = Some (0, m') \<and> regmulti_inv m' \<and> unat (rcount m') = unat (rcount m) + length hs \<and>
    take (unat (rcount m')) (objhead m') = take (unat (rcount m)) (objhead m) @ map Some hs \<and>
    usedsize m' = usedsize m \<and> maxblksize m' = maxblksize m"
  using assms
proof (induction hs arbitrary: m)
  case (Cons h hs)
  have c: "unat (rcount m + 1) = unat (rcount m) + 1"
    using Cons.prems(2) by (subst unat_add_lem [THEN iffD1]) simp_all
  have l: "unat (rcount m) < length (objhead m)" "\<not> maxitems m \<le> rcount m"
    using Cons.prems by (simp_all add: regmulti_inv_def FSA_MAX_SMALLFILECOUNT_def word_le_nat_alt)
  let ?m = "m\<lparr>objhead := (objhead m)[unat (rcount m) := Some h], rcount := rcount m + 1\<rparr>"
  have s: "regmulti_rest_addheader m h = Some (0, ?m)" using l by (simp add: regmulti_rest_addheader_def)
  have "regmulti_inv ?m" using Cons.prems c by (auto simp: regmulti_inv_def nth_list_update FSA_MAX_SMALLFILECOUNT_def)
  moreover have "take (unat (rcount ?m)) (objhead ?m) = take (unat (rcount m)) (objhead m) @ [Some h]"
    using l(1) by (simp add: c take_Suc_conv_app_nth)
  moreover have "unat (rcount ?m) + length hs \<le> 512" using Cons.prems(2) c by simp
  ultimately show ?case using Cons.IH [of ?m] s c by auto
qed simp

lemma length_packed_headers [simp]: "length (packed_headers count offset files) = length files"
  by (induction files arbitrary: offset) auto

lemma packed_headers_nth:
  "i < length files \<Longrightarrow> packed_headers count offset files ! i =
     packed_header count (of_nat (offset + total_size (take i files))) (fst (files ! i))"
proof (induction files arbitrary: offset i)
  case (Cons f files)
  then show ?case by (cases f; cases i) (simp_all add: total_size_def add.assoc del: of_nat_add)
qed simp

lemma concat_nth_slice:
  "i < length files \<Longrightarrow> total_size (take i files) + length (snd (files ! i)) \<le> total_size files \<and>
     take (length (snd (files ! i))) (drop (total_size (take i files)) (concat (map snd files) @ rest)) = snd (files ! i)"
proof (induction files arbitrary: i)
  case (Cons f files)
  then show ?case by (cases i) (auto simp: total_size_def)
qed simp

lemma regmulti_rest_ok:
  assumes inv: "regmulti_inv m" and ok: "\<forall>f \<in> set files. file_ok f" and n: "unat (rcount m) = length files"
    and heads: "take (length files) (objhead m) = map Some (packed_headers count 0 files)"
    and data: "rdata m = concat (map snd files) @ rest" and i: "i < length files"
    and stk: "length stk64 = 8" "length stk32 = 4" and buf: "length (snd (files ! i)) \<le> bufsize"
  shows "regmulti_rest_getfile stk64 stk32 m (int i) bufsize = Some (0, Some (packed_headers count 0 files ! i, snd (files ! i)))"
proof -
  obtain h d where f: "files ! i = (h, d)" by force
  have ok: "file_ok (h, d)" using ok i f by (metis nth_mem)
  let ?off = "total_size (take i files)"
  have len: "length (rdata m) = 921600" using inv by (simp add: regmulti_inv_def FSA_MAX_BLKSIZE_def)
  note slice = concat_nth_slice [OF i, of rest]
  have small: "?off + length d \<le> 921600" using slice len data f by (simp add: total_size_def)
  have u: "unat (of_nat ?off :: u32) = ?off" "unat (of_nat (length d) :: u64) = length d"
    using small by (simp_all add: unsigned_of_nat take_bit_nat_eq_self)
  have hd: "packed_headers count 0 files ! i = packed_header count (of_nat ?off) h"
    using packed_headers_nth [OF i, of count 0] f by simp
  have "objhead m ! i = take (length files) (objhead m) ! i" using i by simp
  then have o: "objhead m ! i = Some (packed_header count (of_nat ?off) h)" unfolding heads using i hd by simp
  have g: "dico_get_u64 (packed_header count (of_nat ?off) h) DICO_OBJ_SECTION_STDATTR DISKITEMKEY_SIZE stk64 = (0, of_nat (length d))"
    "dico_get_u32 (packed_header count (of_nat ?off) h) DICO_OBJ_SECTION_STDATTR DISKITEMKEY_MULTIFILESOFFSET stk32 = (0, of_nat ?off)"
    using packed_header_props [OF ok] stk by (simp_all add: dico_get_u64_find dico_get_u32_find)
  have "unat (word_of_nat i :: u32) = i"
    using i n unsigned_less [of "rcount m", where ?'a = nat] by (simp add: unsigned_of_nat take_bit_nat_eq_self)
  then have c: "\<not> rcount m \<le> word_of_int (int i)" "i < length (objhead m)"
    using i n inv by (simp_all add: regmulti_inv_def FSA_MAX_SMALLFILECOUNT_def word_le_nat_alt)
  then show ?thesis
    using slice small buf len by (simp add: regmulti_rest_getfile_def o g u f hd data)
qed

section \<open>Properties\<close>

text \<open>C16: small files that are packed in one block come out as they went in: after the headers and the block
  that regmulti_save_enqueue hands to the queue have been given to the restoring side, regmulti_rest_getfile
  returns every file's own bytes, for up to 512 files that fit the block together.\<close>

theorem small_files_roundtrip:
  assumes "length (objhead m0) = FSA_MAX_SMALLFILECOUNT" and "length (rdata m0) = FSA_MAX_BLKSIZE"
    and "length (objhead r0) = FSA_MAX_SMALLFILECOUNT" and "length (rdata r0) = FSA_MAX_BLKSIZE"
    and "\<forall>f \<in> set files. file_ok f" and "files \<noteq> []" and "length files \<le> FSA_MAX_SMALLFILECOUNT"
    and "total_size files \<le> unat (min maxblk (of_nat FSA_MAX_BLKSIZE))"
    and "\<forall>n. addq n = 0" and "length stk64 = 8" and "length stk32 = 4"
  shows "\<exists>m hs blk m' r r'. save_files (snd (regmulti_init m0 maxblk)) files = Some (0, m) \<and>
    regmulti_save_enqueue mem_ok stk64 addq m fsid [] = (0, m', map (header_added fsid) hs @ [(QITEM_STATUS_TODO, Qblock blk)]) \<and>
    length hs = length files \<and> blkfsid blk = fsid \<and> unat (blkrealsize blk) = length (blkdata blk) \<and>
    rest_headers (snd (regmulti_init r0 (of_nat FSA_MAX_BLKSIZE))) hs = Some (0, r) \<and>
    regmulti_rest_setdatablock r (blkdata blk) (blkrealsize blk) = Some (0, r') \<and>
    (\<forall>i < length files. \<forall>bufsize \<ge> length (snd (files ! i)).
       regmulti_rest_getfile stk64 stk32 r' (int i) bufsize = Some (0, Some (hs ! i, snd (files ! i))))"
proof -
  let ?m0 = "snd (regmulti_init m0 maxblk)" and ?r0 = "snd (regmulti_init r0 (of_nat FSA_MAX_BLKSIZE))"
  have z: "rcount ?m0 = 0" "usedsize ?m0 = 0" "maxblksize ?m0 = min maxblk (of_nat FSA_MAX_BLKSIZE)"
    "rcount ?r0 = 0" "usedsize ?r0 = 0" "maxblksize ?r0 = of_nat FSA_MAX_BLKSIZE"
    by (simp_all add: regmulti_init_def regmulti_empty_def)
  obtain m where m: "save_files ?m0 files = Some (0, m)" "regmulti_inv m" "unat (rcount m) = length files"
    "unat (usedsize m) = total_size files" "take (length files) (objhead m) = map (Some \<circ> fst) files"
    "take (total_size files) (rdata m) = concat (map snd files)"
    using save_files_ok [OF regmulti_init_inv [OF assms(1,2), of maxblk], of files] assms(7,8) z
    by (auto simp: FSA_MAX_SMALLFILECOUNT_def)
  let ?hs = "packed_headers (rcount m) 0 files"
  let ?blk = "zero_blockinfo\<lparr>blkrealsize := usedsize m, blkdata := concat (map snd files), blkoffset := 0, blkfsid := fsid\<rparr>"
  have loop: "enqueue_loop mem_ok stk64 addq fsid (rcount m) (take (unat (rcount m)) (objhead m)) 0 [] =
      (0, map Some ?hs, map (header_added fsid) ?hs)"
    using enqueue_loop_ok [OF assms(5,9,10), of fsid "rcount m" 0 "[]"] m(3,5) by simp
  have c: "rcount m \<noteq> 0" using m(3) assms(6) by (auto simp: unat_eq_0)
  have enq: "regmulti_save_enqueue mem_ok stk64 addq m fsid [] =
      (0, m\<lparr>objhead := map Some ?hs @ drop (length files) (objhead m)\<rparr>,
       map (header_added fsid) ?hs @ [(QITEM_STATUS_TODO, Qblock ?blk)])"
    using c loop assms(9) m(3,4,6) by (simp add: regmulti_save_enqueue_def Let_def)
  obtain r where r: "rest_headers ?r0 ?hs = Some (0, r)" "regmulti_inv r" "unat (rcount r) = length files"
    "take (length files) (objhead r) = map Some ?hs" "usedsize r = 0" "maxblksize r = of_nat FSA_MAX_BLKSIZE"
    using rest_headers_ok [OF regmulti_init_inv [OF assms(3,4), of "of_nat FSA_MAX_BLKSIZE"], of ?hs] assms(7) z
    by (auto simp: FSA_MAX_SMALLFILECOUNT_def)
  have tot: "total_size files \<le> 921600" "length (concat (map snd files)) = total_size files"
    using m(2,4) by (auto simp: regmulti_inv_def FSA_MAX_BLKSIZE_def total_size_def)
  have used: "\<not> maxblksize r < usedsize r + usedsize m" "length (rdata r) = 921600"
    using r(2,5,6) m(4) tot by (simp_all add: word_less_nat_alt FSA_MAX_BLKSIZE_def regmulti_inv_def)
  let ?r' = "r\<lparr>rdata := concat (map snd files) @ drop (total_size files) (rdata r), usedsize := usedsize m\<rparr>"
  have set: "regmulti_rest_setdatablock r (blkdata ?blk) (blkrealsize ?blk) = Some (0, ?r')"
    using used tot m(4) by (simp add: regmulti_rest_setdatablock_def block_copy_def)
  have "regmulti_inv ?r'" using r(2,6) used tot m(4) by (simp add: regmulti_inv_def FSA_MAX_BLKSIZE_def)
  then have "regmulti_rest_getfile stk64 stk32 ?r' (int i) bufsize = Some (0, Some (?hs ! i, snd (files ! i)))"
    if "i < length files" "length (snd (files ! i)) \<le> bufsize" for i bufsize
    using regmulti_rest_ok [of ?r' files "rcount m" "drop (total_size files) (rdata r)"] r(3,4) assms(5,10,11) that by simp
  moreover have "unat (usedsize m) = length (concat (map snd files))" using m(4) tot(2) by simp
  ultimately show ?thesis using m(1) enq r(1) set
    by (intro exI [of _ m] exI [of _ ?hs] exI [of _ ?blk] exI [of _ "m\<lparr>objhead := map Some ?hs @ drop (length files) (objhead m)\<rparr>"]
        exI [of _ r] exI [of _ ?r']) simp
qed

definition demo_regmulti :: cregmulti where
  "demo_regmulti = \<lparr>rcount = 0, maxitems = 0, maxblksize = 0, objhead = replicate FSA_MAX_SMALLFILECOUNT None,
     rdata = replicate FSA_MAX_BLKSIZE 0, usedsize = 0\<rparr>"

definition demo_files :: "(cdico \<times> u8 list) list" where
  "demo_files = [([new_item DICO_OBJ_SECTION_STDATTR DISKITEMKEY_SIZE (cpu_to_le64 3) 8 DICTYPE_U64], [1, 2, 3]),
     ([new_item DICO_OBJ_SECTION_STDATTR DISKITEMKEY_SIZE (cpu_to_le64 1) 8 DICTYPE_U64], [4])]"

lemma small_files_roundtrip_witness:
  "\<exists>m hs blk m' r r'. save_files (snd (regmulti_init demo_regmulti 100)) demo_files = Some (0, m) \<and>
    regmulti_save_enqueue mem_ok (replicate 8 0) (\<lambda>n. 0) m 0 [] =
      (0, m', map (header_added 0) hs @ [(QITEM_STATUS_TODO, Qblock blk)]) \<and>
    length hs = length demo_files \<and> blkfsid blk = 0 \<and> unat (blkrealsize blk) = length (blkdata blk) \<and>
    rest_headers (snd (regmulti_init demo_regmulti (of_nat FSA_MAX_BLKSIZE))) hs = Some (0, r) \<and>
    regmulti_rest_setdatablock r (blkdata blk) (blkrealsize blk) = Some (0, r') \<and>
    (\<forall>i < length demo_files. \<forall>bufsize \<ge> length (snd (demo_files ! i)).
       regmulti_rest_getfile (replicate 8 0) (replicate 4 0) r' (int i) bufsize = Some (0, Some (hs ! i, snd (demo_files ! i))))"
proof (rule small_files_roundtrip)
  show "\<forall>f \<in> set demo_files. file_ok f"
    by (simp add: demo_files_def file_ok_def dico_wf_def new_item_wf dico_find_def fsa_const)
  show "total_size demo_files \<le> unat (min (100 :: u32) (of_nat FSA_MAX_BLKSIZE))"
    by (simp add: total_size_def demo_files_def FSA_MAX_BLKSIZE_def min_def)
qed (simp_all add: demo_regmulti_def demo_files_def FSA_MAX_SMALLFILECOUNT_def)

text \<open>C38: the restoring side trusts the size and the offset of a header: whatever header of the archive has been
  added, a size above the caller's buffer, or an offset and size outside the block, makes
  regmulti_rest_getfile copy outside its buffers.\<close>

theorem regmulti_getfile_unchecked:
  assumes "regmulti_inv m" and "unat (rcount m) < FSA_MAX_SMALLFILECOUNT"
    and "dico_get_u64 h DICO_OBJ_SECTION_STDATTR DISKITEMKEY_SIZE stk64 = (0, filesize)"
    and "dico_get_u32 h DICO_OBJ_SECTION_STDATTR DISKITEMKEY_MULTIFILESOFFSET stk32 = (0, offset)"
    and "bufsize < unat filesize \<or> FSA_MAX_BLKSIZE < unat offset + unat filesize"
  shows "\<exists>m'. regmulti_rest_addheader m h = Some (0, m') \<and>
    regmulti_rest_getfile stk64 stk32 m' (int (unat (rcount m))) bufsize = None"
proof -
  have c: "unat (rcount m + 1) = unat (rcount m) + 1"
    using assms(2) by (subst unat_add_lem [THEN iffD1]) (simp_all add: FSA_MAX_SMALLFILECOUNT_def)
  have l: "unat (rcount m) < length (objhead m)" "\<not> maxitems m \<le> rcount m" "length (rdata m) = FSA_MAX_BLKSIZE"
    using assms(1,2) by (simp_all add: regmulti_inv_def FSA_MAX_SMALLFILECOUNT_def word_le_nat_alt)
  let ?m = "m\<lparr>objhead := (objhead m)[unat (rcount m) := Some h], rcount := rcount m + 1\<rparr>"
  have "regmulti_rest_addheader m h = Some (0, ?m)" using l by (simp add: regmulti_rest_addheader_def)
  moreover have "\<not> rcount m + 1 \<le> word_of_int (int (unat (rcount m)))" by (simp add: word_le_nat_alt c)
  then have "regmulti_rest_getfile stk64 stk32 ?m (int (unat (rcount m))) bufsize = None"
    using l(1,3) assms(5) by (auto simp: regmulti_rest_getfile_def assms(3,4))
  ultimately show ?thesis by blast
qed

lemma regmulti_getfile_unchecked_witness:
  "\<exists>m'. regmulti_rest_addheader (snd (regmulti_init demo_regmulti 100))
      (packed_header 1 0 [new_item DICO_OBJ_SECTION_STDATTR DISKITEMKEY_SIZE (cpu_to_le64 5000) 8 DICTYPE_U64]) = Some (0, m') \<and>
    regmulti_rest_getfile (replicate 8 0) (replicate 4 0) m' (int (unat (rcount (snd (regmulti_init demo_regmulti 100))))) 4096 = None"
proof (rule regmulti_getfile_unchecked [where filesize = 5000 and offset = 0])
  show "regmulti_inv (snd (regmulti_init demo_regmulti 100))"
    by (rule regmulti_init_inv) (simp_all add: demo_regmulti_def)
qed (simp_all add: regmulti_init_def regmulti_empty_def FSA_MAX_SMALLFILECOUNT_def packed_header_def dico_get_u64_def
  dico_get_u32_def dico_get_data_item new_item_def fsa_const memcpy_full)

end
