(* ===== verification/Strdico.thy ===== *)
theory Strdico
  imports Cstring
begin

text \<open>strdico.c: dictionaries of strings for the parameters of the command line, such as
  \<open>id=0,dest=/dev/sda1\<close>. The list has the newest item first. A value is None after the allocation of its
  new text has failed.\<close>

section \<open>Data and operations\<close>

record cstrdico =
  sitems :: "(string \<times> string option) list"
  validkeys :: "string option"

definition strdico_alloc :: "malloc \<Rightarrow> cstrdico option" where
  "strdico_alloc mem = (if mem 16 then Some \<lparr>sitems = [], validkeys = None\<rparr> else None)"

definition strdico_set_valid_keys :: "malloc \<Rightarrow> cstrdico \<Rightarrow> string \<Rightarrow> int \<times> cstrdico" where
  "strdico_set_valid_keys mem d keys =
     (if \<not> mem (length keys + 1) then (FSAERR_ENOMEM, d\<lparr>validkeys := None\<rparr>)
      else (FSAERR_SUCCESS, d\<lparr>validkeys := Some keys\<rparr>))"

definition strdico_delims :: string where
  "strdico_delims = [CHR '','', CHR '';'', CHR 0x09, CHR 0x0A]"

fun item_exists :: "(string \<times> string option) list \<Rightarrow> string \<Rightarrow> bool" where
  "item_exists [] key = False"
| "item_exists ((k, v) # items) key = (k = key \<or> item_exists items key)"

text \<open>The first item with the key gets the new value.\<close>

fun item_modify :: "(string \<times> string option) list \<Rightarrow> string \<Rightarrow> string option \<Rightarrow> (string \<times> string option) list" where
  "item_modify [] key newval = []"
| "item_modify ((k, v) # items) key newval =
     (if k = key then (k, newval) # items else (k, v) # item_modify items key newval)"

definition strdico_key_allowed :: "cstrdico \<Rightarrow> string \<Rightarrow> bool" where
  "strdico_key_allowed d key =
     (case validkeys d of None \<Rightarrow> True | Some keys \<Rightarrow> list_ex (\<lambda>tok. tok = key) (strtok_all strdico_delims keys))"

definition strdico_set_value :: "malloc \<Rightarrow> cstrdico \<Rightarrow> string \<Rightarrow> string \<Rightarrow> int \<times> cstrdico" where
  "strdico_set_value mem d key newval =
     (let keylen = length key; vallen = length newval
      in if (case validkeys d of Some keys \<Rightarrow> \<not> mem (length keys + 1) | None \<Rightarrow> False) then (FSAERR_ENOMEM, d)
         else if \<not> strdico_key_allowed d key then (FSAERR_EINVAL, d)
         else if item_exists (sitems d) key then
           (if \<not> mem (vallen + 1) then (- FSAERR_ENOMEM, d\<lparr>sitems := item_modify (sitems d) key None\<rparr>)
            else (FSAERR_SUCCESS, d\<lparr>sitems := item_modify (sitems d) key (Some newval)\<rparr>))
         else if \<not> mem 24 \<or> \<not> mem (keylen + 1) \<or> \<not> mem (vallen + 1) then (- FSAERR_ENOMEM, d)
         else (FSAERR_SUCCESS, d\<lparr>sitems := (key, Some newval) # sitems d\<rparr>))"

text \<open>One definition \<open>key=value\<close>: the buffers of key and value have 1024 bytes.\<close>

definition parse_definition :: "string \<Rightarrow> (string \<times> string) option" where
  "parse_definition result =
     (let key = take 1023 (takeWhile (\<lambda>c. c \<noteq> CHR ''='') result); i = length key
      in if i < length result \<and> result ! i = CHR ''='' then Some (key, take 1023 (drop (i + 1) result)) else None)"

fun parse_tokens :: "malloc \<Rightarrow> cstrdico \<Rightarrow> string list \<Rightarrow> int \<times> cstrdico" where
  "parse_tokens mem d [] = (FSAERR_SUCCESS, d)"
| "parse_tokens mem d (result # tokens) =
     (case parse_definition result of
        None \<Rightarrow> (FSAERR_EINVAL, d)
      | Some (key, newval) \<Rightarrow>
          (let (res, d) = strdico_set_value mem d key newval
           in if res \<noteq> 0 then (res, d) else parse_tokens mem d tokens))"

definition strdico_parse_string :: "malloc \<Rightarrow> cstrdico \<Rightarrow> string \<Rightarrow> int \<times> cstrdico" where
  "strdico_parse_string mem d strdefs =
     (if \<not> mem (length strdefs + 1) then (FSAERR_ENOMEM, d)
      else parse_tokens mem d (strtok_all strdico_delims strdefs))"

fun strdico_get_loop :: "(string \<times> string option) list \<Rightarrow> nat \<Rightarrow> string \<Rightarrow> int \<times> string" where
  "strdico_get_loop [] outbufsize key = (FSAERR_ENOENT, [])"
| "strdico_get_loop ((k, v) # items) outbufsize key =
     (if k = key then (FSAERR_SUCCESS, case v of Some s \<Rightarrow> snprintf_s outbufsize s | None \<Rightarrow> [])
      else strdico_get_loop items outbufsize key)"

definition strdico_get_string :: "cstrdico \<Rightarrow> nat \<Rightarrow> string \<Rightarrow> int \<times> string" where
  "strdico_get_string d outbufsize key = strdico_get_loop (sitems d) outbufsize key"

text \<open>strtoll in base 10: the value, whether it was in range, and the rest of the text. Without a digit the
  rest is the whole text.\<close>

definition is_space :: "char \<Rightarrow> bool" where
  "is_space c \<longleftrightarrow> c \<in> set [CHR '' '', CHR 0x09, CHR 0x0A, CHR 0x0B, CHR 0x0C, CHR 0x0D]"

definition strtoll10 :: "string \<Rightarrow> int \<times> bool \<times> string" where
  "strtoll10 str =
     (let s = dropWhile is_space str;
          neg = (s \<noteq> [] \<and> hd s = CHR ''-'');
          s = (if s \<noteq> [] \<and> hd s \<in> set ''+-'' then tl s else s);
          digits = takeWhile (\<lambda>c. c \<in> set ''0123456789'') s;
          v = (if neg then - int (dec_value digits) else int (dec_value digits))
      in if digits = [] then (0, True, str)
         else if v > 2 ^ 63 - 1 then (2 ^ 63 - 1, False, drop (length digits) s)
         else if v < - (2 ^ 63) then (- (2 ^ 63), False, drop (length digits) s)
         else (v, True, drop (length digits) s))"

definition strdico_get_s64 :: "cstrdico \<Rightarrow> string \<Rightarrow> int \<times> int" where
  "strdico_get_s64 d key =
     (let (res, buffer) = strdico_get_string d 1024 key
      in if res \<noteq> 0 then (res, -1)
         else if length buffer = 0 then (FSAERR_EINVAL, -1)
         else
           (let (v, inrange, rest) = strtoll10 buffer
            in if \<not> inrange \<or> rest \<noteq> [] then (FSAERR_EINVAL, v) else (FSAERR_SUCCESS, v)))"

section \<open>Items as a map\<close>

definition strdico_map :: "cstrdico \<Rightarrow> string \<Rightarrow> string option option" where
  "strdico_map d = map_of (sitems d)"

lemma item_exists_iff: "item_exists items key \<longleftrightarrow> map_of items key \<noteq> None"
  by (induction items) auto

lemma map_of_modify: "item_exists items key \<Longrightarrow> map_of (item_modify items key v) = (map_of items)(key \<mapsto> v)"
  by (induction items) (auto simp: fun_upd_twist)

lemma strdico_get_map:
  "strdico_get_string d n key =
     (case strdico_map d key of None \<Rightarrow> (FSAERR_ENOENT, [])
      | Some None \<Rightarrow> (FSAERR_SUCCESS, []) | Some (Some s) \<Rightarrow> (FSAERR_SUCCESS, snprintf_s n s))"
proof -
  have "strdico_get_loop items n key =
     (case map_of items key of None \<Rightarrow> (FSAERR_ENOENT, [])
      | Some None \<Rightarrow> (FSAERR_SUCCESS, []) | Some (Some s) \<Rightarrow> (FSAERR_SUCCESS, snprintf_s n s))" for items
    by (induction items) (auto split: option.splits)
  then show ?thesis by (simp add: strdico_get_string_def strdico_map_def)
qed

lemma strdico_set_ok:
  assumes "strdico_key_allowed d key"
  shows "\<exists>d'. strdico_set_value mem_ok d key v = (FSAERR_SUCCESS, d') \<and>
    strdico_map d' = (strdico_map d)(key \<mapsto> Some v) \<and> validkeys d' = validkeys d"
  using assms
  by (auto simp: strdico_set_value_def strdico_map_def map_of_modify Let_def split: option.splits)

section \<open>Parsing\<close>

text \<open>Definitions that are parsed as they are written.\<close>

definition definition_ok :: "string \<times> string \<Rightarrow> bool" where
  "definition_ok kv \<longleftrightarrow> length (fst kv) < 1024 \<and> length (snd kv) < 1024 \<and> CHR ''='' \<notin> set (fst kv) \<and>
     set (fst kv) \<inter> set strdico_delims = {} \<and> set (snd kv) \<inter> set strdico_delims = {}"

definition show_definition :: "string \<times> string \<Rightarrow> string" where
  "show_definition kv = fst kv @ CHR ''='' # snd kv"

lemma parse_show: "definition_ok kv \<Longrightarrow> parse_definition (show_definition kv) = Some kv"
proof -
  assume ok: "definition_ok kv"
  have "takeWhile (\<lambda>c. c \<noteq> CHR ''='') (fst kv @ CHR ''='' # snd kv) = fst kv"
    using ok by (auto simp: definition_ok_def takeWhile_append)
  then show ?thesis using ok by (simp add: parse_definition_def show_definition_def definition_ok_def)
qed

lemma show_definition_token:
  "definition_ok kv \<Longrightarrow> show_definition kv \<noteq> [] \<and> set (show_definition kv) \<inter> set strdico_delims = {}"
  by (auto simp: definition_ok_def show_definition_def strdico_delims_def)

lemma parse_tokens_ok:
  "\<forall>kv \<in> set kvs. definition_ok kv \<and> strdico_key_allowed d (fst kv) \<Longrightarrow>
   \<exists>d'. parse_tokens mem_ok d (map show_definition kvs) = (FSAERR_SUCCESS, d') \<and>
     strdico_map d' = strdico_map d ++ map_of (rev (map (\<lambda>kv. (fst kv, Some (snd kv))) kvs))"
proof (induction kvs arbitrary: d)
  case (Cons kv kvs)
  obtain d1 where d1: "strdico_set_value mem_ok d (fst kv) (snd kv) = (FSAERR_SUCCESS, d1)"
    "strdico_map d1 = (strdico_map d)(fst kv \<mapsto> Some (snd kv))" "validkeys d1 = validkeys d"
    using strdico_set_ok Cons.prems by (metis list.set_intros(1))
  then have "\<forall>kv \<in> set kvs. definition_ok kv \<and> strdico_key_allowed d1 (fst kv)"
    using Cons.prems by (simp add: strdico_key_allowed_def)
  from Cons.IH [OF this] obtain d2 where d2: "parse_tokens mem_ok d1 (map show_definition kvs) = (FSAERR_SUCCESS, d2)"
    "strdico_map d2 = strdico_map d1 ++ map_of (rev (map (\<lambda>kv. (fst kv, Some (snd kv))) kvs))" by blast
  have "parse_definition (show_definition kv) = Some kv" using parse_show Cons.prems by simp
  then show ?case using d1 d2 by (cases kv) (auto simp: FSAERR_SUCCESS_def map_add_def fun_eq_iff split: option.splits)
qed simp

text \<open>C25: a list of definitions key=value separated by commas is parsed to the map that gives every key its
  last value: strdico_get_string then returns it, and FSAERR_ENOENT for all other keys.\<close>

theorem strdico_parse_get:
  assumes "\<forall>kv \<in> set kvs. definition_ok kv \<and> strdico_key_allowed \<lparr>sitems = [], validkeys = keys\<rparr> (fst kv)"
    and "1024 \<le> n"
  shows "\<exists>d. strdico_parse_string mem_ok \<lparr>sitems = [], validkeys = keys\<rparr> (join_sep (CHR '','') (map show_definition kvs)) =
      (FSAERR_SUCCESS, d) \<and>
    strdico_get_string d n key =
      (case map_of (rev kvs) key of Some v \<Rightarrow> (FSAERR_SUCCESS, v) | None \<Rightarrow> (FSAERR_ENOENT, []))"
proof -
  let ?kvs = "map (\<lambda>kv. (fst kv, Some (snd kv))) kvs"
  have "strtok_all strdico_delims (join_sep (CHR '','') (map show_definition kvs)) = map show_definition kvs"
    by (rule strtok_all_join_set)
      (use assms(1) show_definition_token in \<open>auto simp: strdico_delims_def\<close>)
  moreover obtain d where "parse_tokens mem_ok \<lparr>sitems = [], validkeys = keys\<rparr> (map show_definition kvs) = (FSAERR_SUCCESS, d)"
    and d: "strdico_map d = Map.empty ++ map_of (rev ?kvs)"
    using parse_tokens_ok [OF assms(1)] by (auto simp: strdico_map_def)
  moreover have "map_of (rev ?kvs) key = map_option Some (map_of (rev kvs) key)"
    using map_of_map [of Some "rev kvs"] by (simp add: rev_map case_prod_unfold)
  moreover have "snprintf_s n v = v" if "map_of (rev kvs) key = Some v" for v
    using map_of_SomeD [OF that] assms by (auto simp: definition_ok_def snprintf_s_id)
  ultimately show ?thesis
    by (auto simp: strdico_parse_string_def strdico_get_map split: option.splits)
qed

lemma strdico_parse_get_witness:
  "\<exists>d. strdico_parse_string mem_ok \<lparr>sitems = [], validkeys = Some ''id,dest,mkfs''\<rparr>
      (join_sep (CHR '','') (map show_definition [(''id'', ''0''), (''dest'', ''/dev/sda1''), (''id'', ''1'')])) = (FSAERR_SUCCESS, d) \<and>
    strdico_get_string d 1024 ''id'' =
      (case map_of (rev [(''id'', ''0''), (''dest'', ''/dev/sda1''), (''id'', ''1'')]) ''id'' of
         Some v \<Rightarrow> (FSAERR_SUCCESS, v) | None \<Rightarrow> (FSAERR_ENOENT, []))"
proof (rule strdico_parse_get)
  have "strtok_all strdico_delims ''id,dest,mkfs'' = [''id'', ''dest'', ''mkfs'']" by code_simp
  then show "\<forall>kv \<in> set [(''id'', ''0''), (''dest'', ''/dev/sda1''), (''id'', ''1'')]. definition_ok kv \<and>
      strdico_key_allowed \<lparr>sitems = [], validkeys = Some ''id,dest,mkfs''\<rparr> (fst kv)"
    by (simp add: definition_ok_def strdico_key_allowed_def strdico_delims_def)
qed simp

text \<open>An unexpected key or a definition without an equals sign is refused, and what was defined before it stays.\<close>

theorem strdico_parse_stops:
  assumes "\<forall>kv \<in> set kvs. definition_ok kv \<and> strdico_key_allowed \<lparr>sitems = [], validkeys = keys\<rparr> (fst kv)"
    and "bad \<noteq> []" and "set bad \<inter> set strdico_delims = {}"
    and "CHR ''='' \<notin> set bad \<or> definition_ok kv \<and> bad = show_definition kv \<and>
      \<not> strdico_key_allowed \<lparr>sitems = [], validkeys = keys\<rparr> (fst kv)"
  shows "fst (strdico_parse_string mem_ok \<lparr>sitems = [], validkeys = keys\<rparr>
      (join_sep (CHR '','') (map show_definition kvs @ [bad]))) = FSAERR_EINVAL"
proof -
  have tok: "strtok_all strdico_delims (join_sep (CHR '','') (map show_definition kvs @ [bad])) = map show_definition kvs @ [bad]"
    by (rule strtok_all_join_set)
      (use assms(1-3) show_definition_token in \<open>auto simp: strdico_delims_def\<close>)
  have bad: "fst (parse_tokens mem_ok d [bad]) = FSAERR_EINVAL" if "validkeys d = keys" for d
  proof (cases "CHR ''='' \<in> set bad")
    case True
    then have "parse_definition bad = Some kv" "\<not> strdico_key_allowed d (fst kv)"
      using assms(4) that parse_show by (auto simp: strdico_key_allowed_def)
    then show ?thesis
      by (cases kv) (simp add: strdico_set_value_def Let_def FSAERR_EINVAL_def split: option.splits)
  next
    case False
    then have "takeWhile (\<lambda>c. c \<noteq> CHR ''='') bad = bad" by (auto simp: takeWhile_eq_all_conv)
    then have "parse_definition bad = None"
      using False nth_mem [of "length (take 1023 bad)" bad] by (auto simp: parse_definition_def Let_def)
    then show ?thesis by simp
  qed
  have "fst (parse_tokens mem_ok d (map show_definition kvs @ [bad])) = FSAERR_EINVAL"
    if "\<forall>kv \<in> set kvs. definition_ok kv \<and> strdico_key_allowed d (fst kv)" "validkeys d = keys" for d
    using that
  proof (induction kvs arbitrary: d)
    case Nil
    then show ?case using bad by simp
  next
    case (Cons kv kvs)
    obtain d1 where d1: "strdico_set_value mem_ok d (fst kv) (snd kv) = (FSAERR_SUCCESS, d1)" "validkeys d1 = validkeys d"
      using strdico_set_ok Cons.prems by (metis list.set_intros(1))
    moreover have "parse_definition (show_definition kv) = Some kv" using parse_show Cons.prems by simp
    ultimately show ?case
      using Cons.IH [of d1] Cons.prems by (cases kv) (simp add: strdico_key_allowed_def FSAERR_SUCCESS_def)
  qed
  then show ?thesis using assms(1) by (simp add: strdico_parse_string_def tok)
qed

lemma strdico_parse_stops_witness:
  "fst (strdico_parse_string mem_ok \<lparr>sitems = [], validkeys = None\<rparr>
      (join_sep (CHR '','') (map show_definition [(''id'', ''0'')] @ [''dest'']))) = FSAERR_EINVAL"
  by (rule strdico_parse_stops) (simp_all add: definition_ok_def strdico_key_allowed_def strdico_delims_def)

lemma strtoll10_digits:
  assumes "s \<noteq> []" and "set s \<subseteq> set ''0123456789''"
  shows "strtoll10 s = (let v = int (dec_value s) in if v > 2 ^ 63 - 1 then (2 ^ 63 - 1, False, []) else (v, True, []))"
proof -
  have c: "\<not> is_space c \<and> c \<notin> set ''+-''" if "c \<in> set ''0123456789''" for c
    using that by (auto simp: is_space_def)
  have "hd s \<in> set ''0123456789''" using assms by (cases s) auto
  note hd = c [OF this]
  have d: "dropWhile is_space s = s" using assms(1) hd by (cases s) auto
  have t: "takeWhile (\<lambda>c. c \<in> set ''0123456789'') s = s"
    using assms(2) unfolding takeWhile_eq_all_conv by blast
  have n: "hd s \<noteq> CHR ''-''" "hd s \<notin> set ''+-''" using hd by auto
  have "\<not> int (dec_value s) < - (2 ^ 63)" by simp
  with assms(1) n show ?thesis
    unfolding strtoll10_def Let_def d by (simp only: n t if_False simp_thms drop_all order_refl)
qed

lemma dec_digits_ne: "dec_digits n \<noteq> []"
  by (subst dec_digits.simps) simp

text \<open>A number in decimal that fits 64 bits is read exactly, and a larger one is refused, not cut.\<close>

theorem strdico_s64_decimal:
  assumes "strdico_map d key = Some (Some (dec_digits n))" and "length (dec_digits n) < 1024"
  shows "strdico_get_s64 d key = (if n < 2 ^ 63 then (FSAERR_SUCCESS, int n) else (FSAERR_EINVAL, 2 ^ 63 - 1))"
proof -
  have "dec_value (dec_digits n) = n" by (simp add: dec_value_def dec_value_digits)
  then have s: "strtoll10 (dec_digits n) = (if int n > 2 ^ 63 - 1 then (2 ^ 63 - 1, False, []) else (int n, True, []))"
    using strtoll10_digits [OF dec_digits_ne dec_digits_chars, of n] by (simp add: Let_def)
  have g: "strdico_get_string d 1024 key = (FSAERR_SUCCESS, dec_digits n)"
    using assms by (simp add: strdico_get_map snprintf_s_id)
  have "n < 2 ^ 63 \<longleftrightarrow> \<not> int n > 2 ^ 63 - 1" by auto
  then show ?thesis
    using dec_digits_ne [of n] by (simp add: strdico_get_s64_def g s FSAERR_SUCCESS_def)
qed

lemma strdico_s64_decimal_witness:
  "strdico_get_s64 \<lparr>sitems = [(''id'', Some (dec_digits 42))], validkeys = None\<rparr> ''id'' =
     (if (42 :: nat) < 2 ^ 63 then (FSAERR_SUCCESS, int 42) else (FSAERR_EINVAL, 2 ^ 63 - 1))"
proof (rule strdico_s64_decimal)
  have "length (dec_digits 42) = 2" by code_simp
  then show "length (dec_digits 42) < 1024" by simp
qed (simp add: strdico_map_def)

end
