(* ===== verification/Dichl.thy ===== *)
theory Dichl
  imports Store Fsa_Const
begin

text \<open>dichl.c: the table that remembers where the first link of a file with several hard links is: two
  64-bit keys, the device and the inode, and the path.\<close>

section \<open>Data and operations\<close>

record cdichlitem =
  key1 :: u64
  key2 :: u64
  dstr :: string

type_synonym cdichl = "cdichlitem list"

definition dichl_alloc :: "malloc \<Rightarrow> cdichl option" where
  "dichl_alloc mem = (if mem 8 then Some [] else None)"

fun dichl_has :: "cdichl \<Rightarrow> u64 \<Rightarrow> u64 \<Rightarrow> bool" where
  "dichl_has [] k1 k2 = False"
| "dichl_has (item # items) k1 k2 = (if key1 item = k1 \<and> key2 item = k2 then True else dichl_has items k1 k2)"

definition dichl_add :: "malloc \<Rightarrow> cdichl \<Rightarrow> u64 \<Rightarrow> u64 \<Rightarrow> string \<Rightarrow> int \<times> cdichl" where
  "dichl_add mem d k1 k2 str =
     (if \<not> mem 32 then (-1, d)
      else if \<not> mem (length str + 1) then (-1, d)
      else if dichl_has d k1 k2 then (-1, d)
      else (0, d @ [\<lparr>key1 = k1, key2 = k2, dstr = str\<rparr>]))"

text \<open>The return code and, when it is 0, the contents of the buffer.\<close>

fun dichl_get :: "cdichl \<Rightarrow> u64 \<Rightarrow> u64 \<Rightarrow> int \<Rightarrow> int \<times> string option" where
  "dichl_get [] k1 k2 bufsize = (-3, None)"
| "dichl_get (item # items) k1 k2 bufsize =
     (if key1 item = k1 \<and> key2 item = k2 then
        (let len = int (length (dstr item))
         in if bufsize < len + 1 then (-2, None) else (0, Some (snprintf_s (nat bufsize) (dstr item))))
      else dichl_get items k1 k2 bufsize)"

section \<open>The table as a store\<close>

definition dichl_insert :: "cdichl \<Rightarrow> u64 \<times> u64 \<Rightarrow> string \<Rightarrow> int \<times> cdichl" where
  "dichl_insert d k str = dichl_add mem_ok d (fst k) (snd k) str"

definition dichl_find :: "cdichl \<Rightarrow> u64 \<times> u64 \<Rightarrow> string option" where
  "dichl_find d k = map_option dstr (find (\<lambda>item. key1 item = fst k \<and> key2 item = snd k) d)"

lemma dichl_has_iff: "dichl_has d k1 k2 \<longleftrightarrow> dichl_find d (k1, k2) \<noteq> None"
  by (induction d) (auto simp: dichl_find_def)

lemma dichl_find_Nil [simp]: "dichl_find [] k = None"
  by (simp add: dichl_find_def)

lemma dichl_find_snoc:
  "dichl_find (d @ [item]) k =
     (case dichl_find d k of Some s \<Rightarrow> Some s
      | None \<Rightarrow> if key1 item = fst k \<and> key2 item = snd k then Some (dstr item) else None)"
  by (induction d) (auto simp: dichl_find_def)

lemma dichl_get_find:
  "dichl_get d k1 k2 bufsize =
     (case dichl_find d (k1, k2) of None \<Rightarrow> (-3, None)
      | Some s \<Rightarrow> if bufsize < int (length s) + 1 then (-2, None) else (0, Some s))"
  by (induction d) (auto simp: dichl_find_def snprintf_s_id)

interpretation dichl: unique_store "[]" dichl_insert dichl_find "\<lambda>d. True" "\<lambda>s. True"
  by unfold_locales
    (auto simp: dichl_insert_def dichl_add_def dichl_has_iff dichl_find_snoc split: option.splits)

section \<open>Properties\<close>

text \<open>C24: the first path that is recorded for a device and inode stays, whatever is recorded later: it is
  found with exactly its characters when the buffer has room for them and the NUL, other keys are not
  touched, and a second path for the same inode is refused.\<close>

theorem dichl_first_link:
  assumes "dichl_find d (k1, k2) = None" and "int (length str) < bufsize"
  shows "fst (dichl_add mem_ok d k1 k2 str) = 0 \<and>
    dichl_get (snd (dichl.insert_all (snd (dichl_add mem_ok d k1 k2 str)) later)) k1 k2 bufsize = (0, Some str) \<and>
    (\<forall>j1 j2. (j1, j2) \<noteq> (k1, k2) \<longrightarrow>
       dichl_get (snd (dichl_add mem_ok d k1 k2 str)) j1 j2 bufsize = dichl_get d j1 j2 bufsize) \<and>
    (\<forall>str2. dichl_add mem_ok (snd (dichl_add mem_ok d k1 k2 str)) k1 k2 str2 = (-1, snd (dichl_add mem_ok d k1 k2 str)))"
proof -
  have ins: "dichl_insert d (k1, k2) str = dichl_add mem_ok d k1 k2 str" by (simp add: dichl_insert_def)
  let ?d = "snd (dichl_add mem_ok d k1 k2 str)"
  have ok: "fst (dichl_add mem_ok d k1 k2 str) = 0"
    using dichl.insert_ok [where s = d and v = str and k = "(k1, k2)"] assms(1) ins by simp
  have f: "dichl_find ?d j = (if j = (k1, k2) then Some str else dichl_find d j)" for j
    using dichl.insert_find [where s = d and v = str and k = "(k1, k2)"] assms(1) ins by simp
  have "dichl_find (snd (dichl.insert_all ?d later)) (k1, k2) = Some str"
    by (rule dichl.insert_all_keeps) (auto simp: f)
  then show ?thesis using ok f assms(2) by (simp add: dichl_get_find dichl_add_def dichl_has_iff)
qed

lemma dichl_first_link_witness:
  "fst (dichl_add mem_ok [] 5 6 ''/etc/x'') = 0 \<and>
    dichl_get (snd (dichl.insert_all (snd (dichl_add mem_ok [] 5 6 ''/etc/x'')) [((5, 7), ''/y'')])) 5 6 4096 = (0, Some ''/etc/x'') \<and>
    dichl_add mem_ok (snd (dichl_add mem_ok [] 5 6 ''/etc/x'')) 5 6 ''/z'' = (-1, snd (dichl_add mem_ok [] 5 6 ''/etc/x''))"
  using dichl_first_link [of "[]" 5 6 "''/etc/x''" 4096 "[((5, 7), ''/y'')]"] by simp

end
