(* ===== verification/Datafile.thy ===== *)
theory Datafile
  imports Paths Queue
begin

text \<open>datafile.c: the file that the extraction writes. The calls of the operating system that change the file
  system are recorded: the state is the list of the calls that were made, and the answer to a call is a
  parameter that may depend on all the calls before it. libgcrypt's MD5 is a parameter too.\<close>

section \<open>System calls\<close>

datatype syscall =
    Sys_open string
  | Sys_write "u8 list"
  | Sys_seek nat
  | Sys_ftruncate int
  | Sys_close
  | Sys_unlink string
  | Sys_truncate string
  | Sys_mkdir string
  | Sys_lchown string u32 u32
  | Sys_chmod string u32
  | Sys_utimes string "int \<times> int"
  | Sys_lutimes string "int \<times> int"
  | Sys_lsetxattr string string "u8 list"
  | Sys_symlink string string
  | Sys_link string string
  | Sys_mknod string u32 u64
  | Sys_creat string
  | Sys_rmdir string

type_synonym strace = "syscall list"

type_synonym sysos = "strace \<Rightarrow> syscall \<Rightarrow> int"

text \<open>A call with its answer. The answer of open, seek and write is their result, or the negated errno; the
  other calls answer 0 when they work.\<close>

definition sys_call :: "sysos \<Rightarrow> syscall \<Rightarrow> strace \<Rightarrow> int \<times> strace" where
  "sys_call os c tr = (os tr c, tr @ [c])"

definition ENOSPC :: int where "ENOSPC = 28"

record gcry =
  md5_open_ok :: bool
  md5_read_ok :: bool
  md5_hash :: "u8 list \<Rightarrow> u8 list"

section \<open>Operations\<close>

text \<open>The digest context is the list of the bytes that were written to it.\<close>

record cdatafile =
  df_fd :: int
  df_simul :: bool
  df_open :: bool
  df_sparse :: bool
  df_path :: string
  df_md5ctx :: "u8 list"

definition datafile_alloc :: "malloc \<Rightarrow> cdatafile option" where
  "datafile_alloc mem =
     (if mem (PATH_MAX + 16)
      then Some \<lparr>df_fd = -1, df_simul = False, df_open = False, df_sparse = False, df_path = [], df_md5ctx = []\<rparr>
      else None)"

definition datafile_open_write ::
    "sysos \<Rightarrow> gcry \<Rightarrow> cdatafile \<Rightarrow> string \<Rightarrow> bool \<Rightarrow> bool \<Rightarrow> strace \<Rightarrow> int \<times> cdatafile \<times> strace" where
  "datafile_open_write os gc f path simul sparse tr =
     (if df_open f then (-1, f, tr)
      else
        (let (fd, tr) = (if \<not> simul then sys_call os (Sys_open path) tr else (df_fd f, tr))
         in if \<not> simul \<and> fd < 0 then (-1, f\<lparr>df_fd := fd\<rparr>, tr)
            else if \<not> md5_open_ok gc then (-1, f\<lparr>df_fd := fd\<rparr>, tr)
            else (0, f\<lparr>df_fd := fd, df_md5ctx := [], df_path := snprintf_s PATH_MAX path, df_simul := simul,
                       df_open := True, df_sparse := sparse\<rparr>, tr)))"

fun datafile_is_block_zero :: "u8 list \<Rightarrow> bool" where
  "datafile_is_block_zero [] = True"
| "datafile_is_block_zero (b # bs) = (if b \<noteq> 0 then False else datafile_is_block_zero bs)"

definition datafile_write ::
    "sysos \<Rightarrow> cdatafile \<Rightarrow> u8 list \<Rightarrow> strace \<Rightarrow> int \<times> cdatafile \<times> strace" where
  "datafile_write os f data tr =
     (let len = int (length data); hashed = f\<lparr>df_md5ctx := df_md5ctx f @ data\<rparr>
      in if \<not> df_open f then (FSAERR_NOTOPEN, f, tr)
         else if \<not> df_simul f then
           (if df_sparse f \<and> datafile_is_block_zero data then
              (let (r, tr) = sys_call os (Sys_seek (length data)) tr
               in if r < 0 then (FSAERR_SEEK, f, tr) else (FSAERR_SUCCESS, hashed, tr))
            else
              (let (lres, tr) = sys_call os (Sys_write data) tr
               in if lres \<noteq> len then
                    (if lres = - ENOSPC \<or> 0 < lres \<and> lres < len then (FSAERR_ENOSPC, f, tr)
                     else (FSAERR_WRITE, f, tr))
                  else (FSAERR_SUCCESS, hashed, tr)))
         else (FSAERR_SUCCESS, hashed, tr))"

text \<open>The caller's buffer for the digest is its size, or None for NULL; the digest is the second result.\<close>

definition datafile_close ::
    "sysos \<Rightarrow> gcry \<Rightarrow> cdatafile \<Rightarrow> int option \<Rightarrow> strace \<Rightarrow> int \<times> u8 list option \<times> cdatafile \<times> strace" where
  "datafile_close os gc f md5buf tr =
     (if \<not> df_open f then (-1, None, f, tr)
      else if \<not> md5_read_ok gc then (-1, None, f, tr)
      else
        (let md5store = take 16 (md5_hash gc (df_md5ctx f));
             md5bufdat = (case md5buf of None \<Rightarrow> None | Some n \<Rightarrow> Some md5store)
         in if (case md5buf of None \<Rightarrow> False | Some n \<Rightarrow> n < 16) then (-1, None, f, tr)
            else
              (let closed = f\<lparr>df_open := False, df_path := [], df_fd := -1\<rparr>
               in if \<not> df_simul f then
                    (let (res, tr) =
                           (if df_sparse f then
                              (let (pos, tr) = sys_call os (Sys_seek 0) tr;
                                   (r, tr) = sys_call os (Sys_ftruncate pos) tr
                               in (if r < 0 then -1 else 0, tr))
                            else (0, tr));
                         (r, tr) = sys_call os Sys_close tr
                     in (min r res, md5bufdat, closed, tr))
                  else (0, md5bufdat, closed, tr))))"

definition datafile_destroy :: "sysos \<Rightarrow> gcry \<Rightarrow> cdatafile \<Rightarrow> strace \<Rightarrow> int \<times> strace" where
  "datafile_destroy os gc f tr =
     (if df_open f then (let (r, d, f, tr) = datafile_close os gc f None tr in (0, tr)) else (0, tr))"

section \<open>The bytes of the file\<close>

text \<open>What a POSIX file system makes of the calls: the bytes of the file that is open and the position. A
  write behind the end and a larger length fill up with zeros.\<close>

type_synonym fstate = "u8 list \<times> nat"

definition file_resize :: "nat \<Rightarrow> u8 list \<Rightarrow> u8 list" where
  "file_resize n bs = take n bs @ replicate (n - length bs) 0"

fun file_step :: "syscall \<Rightarrow> fstate \<Rightarrow> fstate" where
  "file_step (Sys_open p) (bs, pos) = ([], 0)"
| "file_step (Sys_write d) (bs, pos) =
     (if d = [] then (bs, pos) else (file_resize pos bs @ d @ drop (pos + length d) bs, pos + length d))"
| "file_step (Sys_seek n) (bs, pos) = (bs, pos + n)"
| "file_step (Sys_ftruncate n) (bs, pos) = (file_resize (nat n) bs, pos)"
| "file_step c s = s"

definition file_of :: "strace \<Rightarrow> fstate" where
  "file_of tr = fold file_step tr ([], 0)"

lemma file_of_append [simp]: "file_of (tr @ cs) = fold file_step cs (file_of tr)"
  by (simp add: file_of_def)

text \<open>An operating system in which the calls on an open file work: open answers a descriptor, write the number
  of bytes, seek the new position.\<close>

definition os_file_ok :: "sysos \<Rightarrow> bool" where
  "os_file_ok os \<longleftrightarrow>
     (\<forall>tr p. os tr (Sys_open p) \<ge> 0) \<and>
     (\<forall>tr d. os tr (Sys_write d) = int (length d)) \<and>
     (\<forall>tr n. os tr (Sys_seek n) = int (snd (file_of tr) + n)) \<and>
     (\<forall>tr n. os tr (Sys_ftruncate n) = 0) \<and>
     (\<forall>tr. os tr Sys_close = 0)"

lemma os_file_okD:
  assumes "os_file_ok os"
  shows "0 \<le> os tr (Sys_open p)" "os tr (Sys_write d) = int (length d)"
    "os tr (Sys_seek n) = int (snd (file_of tr) + n)" "os tr (Sys_ftruncate i) = 0" "os tr Sys_close = 0"
  using assms by (simp_all add: os_file_ok_def)

text \<open>Writing several blocks, as the extraction of a large file does.\<close>

fun datafile_writes ::
    "sysos \<Rightarrow> cdatafile \<Rightarrow> u8 list list \<Rightarrow> strace \<Rightarrow> int \<times> cdatafile \<times> strace" where
  "datafile_writes os f [] tr = (FSAERR_SUCCESS, f, tr)"
| "datafile_writes os f (d # ds) tr =
     (let (r, f, tr) = datafile_write os f d tr
      in if r \<noteq> FSAERR_SUCCESS then (r, f, tr) else datafile_writes os f ds tr)"

lemma block_zero_replicate: "datafile_is_block_zero d \<longleftrightarrow> d = replicate (length d) 0"
  by (induction d) auto

lemma file_resize_length [simp]: "length (file_resize n bs) = n"
  by (simp add: file_resize_def)

lemma file_resize_id: "length bs = n \<Longrightarrow> file_resize n bs = bs"
  by (simp add: file_resize_def)

text \<open>While a file is written, what it holds is the written bytes with the zeros at their end perhaps missing, and
  the position is their number.\<close>

definition written :: "bool \<Rightarrow> u8 list \<Rightarrow> fstate \<Rightarrow> bool" where
  "written sparse data s \<longleftrightarrow> snd s = length data \<and> length (fst s) \<le> length data \<and>
     file_resize (length data) (fst s) = data \<and> (sparse \<or> fst s = data)"

lemma written_Nil: "written sparse [] ([], 0)"
  by (simp add: written_def file_resize_def)

lemma written_open: "written sparse [] (file_step (Sys_open p) s)"
  by (cases s) (simp add: written_def file_resize_def)

lemma written_write:
  assumes "written sparse data s"
  shows "written sparse (data @ d) (file_step (Sys_write d) s)"
proof (cases "d = []")
  case True
  then show ?thesis using assms by (cases s) simp
next
  case False
  obtain bs where s: "s = (bs, length data)" "length bs \<le> length data" "file_resize (length data) bs = data"
    using assms by (cases s) (auto simp: written_def)
  have "file_step (Sys_write d) s = (data @ d, length (data @ d))"
    using s False by simp
  then show ?thesis by (simp add: written_def file_resize_id)
qed

lemma written_seek:
  assumes "written True data s" and "datafile_is_block_zero d"
  shows "written True (data @ d) (file_step (Sys_seek (length d)) s)"
proof -
  obtain bs where s: "s = (bs, length data)" "length bs \<le> length data" "file_resize (length data) bs = data"
    using assms by (cases s) (auto simp: written_def)
  have d: "d = replicate (length d) 0" using assms(2) block_zero_replicate by blast
  have n: "length data + length d - length bs = (length data - length bs) + length d"
    using s(2) by simp
  have "file_resize (length data + length d) bs = file_resize (length data) bs @ replicate (length d) 0"
    unfolding file_resize_def n replicate_add using s(2) by simp
  then have "file_resize (length data + length d) bs = data @ d"
    using s(3) d by metis
  then show ?thesis
    using s(1,2) by (simp add: written_def)
qed

lemma datafile_write_simul:
  "df_open f \<Longrightarrow> df_simul f \<Longrightarrow> datafile_write os f d tr = (FSAERR_SUCCESS, f\<lparr>df_md5ctx := df_md5ctx f @ d\<rparr>, tr)"
  by (simp add: datafile_write_def Let_def)

lemma datafile_write_written:
  assumes "os_file_ok os" and "df_open f" and "\<not> df_simul f" and "written (df_sparse f) data (file_of tr)"
  shows "\<exists>tr'. datafile_write os f d tr = (FSAERR_SUCCESS, f\<lparr>df_md5ctx := df_md5ctx f @ d\<rparr>, tr') \<and>
    written (df_sparse f) (data @ d) (file_of tr')"
proof (cases "df_sparse f \<and> datafile_is_block_zero d")
  case True
  have "datafile_write os f d tr = (FSAERR_SUCCESS, f\<lparr>df_md5ctx := df_md5ctx f @ d\<rparr>, tr @ [Sys_seek (length d)])"
    using True assms(2,3) os_file_okD(3) [OF assms(1)] by (simp add: datafile_write_def Let_def sys_call_def)
  moreover have "written (df_sparse f) (data @ d) (file_of (tr @ [Sys_seek (length d)]))"
    using written_seek [of data "file_of tr" d] True assms(4) by simp
  ultimately show ?thesis by blast
next
  case False
  have "datafile_write os f d tr = (FSAERR_SUCCESS, f\<lparr>df_md5ctx := df_md5ctx f @ d\<rparr>, tr @ [Sys_write d])"
    using False assms(2,3) os_file_okD(2) [OF assms(1)] by (auto simp: datafile_write_def Let_def sys_call_def)
  moreover have "written (df_sparse f) (data @ d) (file_of (tr @ [Sys_write d]))"
    using written_write [OF assms(4), of d] by simp
  ultimately show ?thesis by blast
qed

lemma datafile_writes_written:
  assumes "os_file_ok os" and "df_open f" and "\<not> df_simul f" and "written (df_sparse f) data (file_of tr)"
  shows "\<exists>tr'. datafile_writes os f ds tr = (FSAERR_SUCCESS, f\<lparr>df_md5ctx := df_md5ctx f @ concat ds\<rparr>, tr') \<and>
    written (df_sparse f) (data @ concat ds) (file_of tr')"
  using assms(2-4)
proof (induction ds arbitrary: f data tr)
  case (Cons d ds)
  obtain tr1 where w: "datafile_write os f d tr = (FSAERR_SUCCESS, f\<lparr>df_md5ctx := df_md5ctx f @ d\<rparr>, tr1)"
    "written (df_sparse f) (data @ d) (file_of tr1)"
    using datafile_write_written [OF assms(1) Cons.prems] by blast
  obtain tr2 where "datafile_writes os (f\<lparr>df_md5ctx := df_md5ctx f @ d\<rparr>) ds tr1 =
      (FSAERR_SUCCESS, f\<lparr>df_md5ctx := (df_md5ctx f @ d) @ concat ds\<rparr>, tr2)"
    "written (df_sparse f) ((data @ d) @ concat ds) (file_of tr2)"
    using Cons.IH [of "f\<lparr>df_md5ctx := df_md5ctx f @ d\<rparr>" "data @ d" tr1] Cons.prems w(2) by auto
  then show ?case by (intro exI [of _ tr2]) (simp add: w(1))
qed simp

lemma datafile_open_ok:
  assumes "os_file_ok os" and "md5_open_ok gc" and "\<not> df_open f"
  shows "\<exists>f'. datafile_open_write os gc f path False sparse tr = (0, f', tr @ [Sys_open path]) \<and>
    df_open f' \<and> \<not> df_simul f' \<and> df_sparse f' = sparse \<and> df_md5ctx f' = [] \<and>
    written sparse [] (file_of (tr @ [Sys_open path]))"
  using assms(2,3) os_file_okD(1) [OF assms(1), of tr path] written_open [of sparse path "file_of tr"]
  by (auto simp: datafile_open_write_def sys_call_def)

lemma datafile_close_ok:
  assumes "os_file_ok os" and "md5_read_ok gc" and "df_open f" and "\<not> df_simul f"
    and "written (df_sparse f) data (file_of tr)" and "16 \<le> n"
  shows "\<exists>f' tr'. datafile_close os gc f (Some n) tr = (0, Some (take 16 (md5_hash gc (df_md5ctx f))), f', tr') \<and>
    \<not> df_open f' \<and> fst (file_of tr') = data"
  using assms by (cases "file_of tr"; cases "df_sparse f")
    (auto simp: datafile_close_def Let_def sys_call_def os_file_okD written_def not_less)

section \<open>The file that was written\<close>

text \<open>C15: A file that is opened, written block by block and closed on a working operating system holds exactly the
  blocks one after the other, also when it is written as a sparse file in which blocks of zeros are skipped, and the
  digest is that of these bytes.\<close>

theorem datafile_content:
  assumes "os_file_ok os" and "md5_open_ok gc" and "md5_read_ok gc" and "\<not> df_open f" and "16 \<le> n"
  shows "\<exists>f1 tr1 f2 tr2 f3 tr3.
    datafile_open_write os gc f path False sparse tr = (0, f1, tr1) \<and>
    datafile_writes os f1 blocks tr1 = (FSAERR_SUCCESS, f2, tr2) \<and>
    datafile_close os gc f2 (Some n) tr2 = (0, Some (take 16 (md5_hash gc (concat blocks))), f3, tr3) \<and>
    \<not> df_open f3 \<and> fst (file_of tr3) = concat blocks"
proof -
  obtain f1 where 1: "datafile_open_write os gc f path False sparse tr = (0, f1, tr @ [Sys_open path])"
    "df_open f1" "\<not> df_simul f1" "df_sparse f1 = sparse" "df_md5ctx f1 = []"
    "written (df_sparse f1) [] (file_of (tr @ [Sys_open path]))"
    using datafile_open_ok [OF assms(1,2,4), of path sparse tr] by auto
  let ?f2 = "f1\<lparr>df_md5ctx := concat blocks\<rparr>"
  obtain tr2 where 2: "datafile_writes os f1 blocks (tr @ [Sys_open path]) = (FSAERR_SUCCESS, ?f2, tr2)"
    "written (df_sparse f1) (concat blocks) (file_of tr2)"
    using datafile_writes_written [OF assms(1) 1(2,3,6), of blocks] 1(5) by auto
  show ?thesis
    using datafile_close_ok [of os gc ?f2 "concat blocks" tr2 n] assms 1 2 by fastforce
qed

text \<open>An operating system in which every call works.\<close>

definition demo_os :: sysos where
  "demo_os tr c = (case c of
     Sys_open p \<Rightarrow> 3
   | Sys_write d \<Rightarrow> int (length d)
   | Sys_seek n \<Rightarrow> int (snd (file_of tr) + n)
   | _ \<Rightarrow> 0)"

definition demo_gcry :: gcry where
  "demo_gcry = \<lparr>md5_open_ok = True, md5_read_ok = True, md5_hash = (\<lambda>bs. replicate 15 0 @ [sum_list bs])\<rparr>"

definition demo_datafile :: cdatafile where
  "demo_datafile = \<lparr>df_fd = -1, df_simul = False, df_open = False, df_sparse = False, df_path = [], df_md5ctx = []\<rparr>"

lemma demo_os_ok: "os_file_ok demo_os"
  by (simp add: os_file_ok_def demo_os_def)

lemma datafile_content_witness:
  "\<exists>f1 tr1 f2 tr2 f3 tr3.
    datafile_open_write demo_os demo_gcry demo_datafile ''/f'' False True [] = (0, f1, tr1) \<and>
    datafile_writes demo_os f1 [[1, 2], [0, 0, 0], [7], [0]] tr1 = (FSAERR_SUCCESS, f2, tr2) \<and>
    datafile_close demo_os demo_gcry f2 (Some 16) tr2 =
      (0, Some (take 16 (md5_hash demo_gcry (concat [[1, 2], [0, 0, 0], [7], [0]]))), f3, tr3) \<and>
    \<not> df_open f3 \<and> fst (file_of tr3) = concat [[1, 2], [0, 0, 0], [7], [0]]"
  by (rule datafile_content [OF demo_os_ok]) (simp_all add: demo_gcry_def demo_datafile_def)

end
