(* ===== verification/Filesys.thy ===== *)
theory Filesys
  imports Paths Strdico
begin

text \<open>filesys.c: the table of the filesystems and the search of a device in the mount tables. The files of
  /proc and the answers of stat and statfs are parameters. Of the table the names and the flags are kept; the
  functions of the back ends are not part of the entries here.\<close>

section \<open>The table\<close>

record cfilesys =
  fs_name :: string
  support_for_xattr :: bool
  support_for_acls :: bool
  winattr :: bool
  savesymtargettype :: bool
  stable :: bool

definition filesys :: "cfilesys list" where
  "filesys =
     [\<lparr>fs_name = ''ext2'', support_for_xattr = True, support_for_acls = True, winattr = False,
       savesymtargettype = False, stable = True\<rparr>,
      \<lparr>fs_name = ''ext3'', support_for_xattr = True, support_for_acls = True, winattr = False,
       savesymtargettype = False, stable = True\<rparr>,
      \<lparr>fs_name = ''ext4'', support_for_xattr = True, support_for_acls = True, winattr = False,
       savesymtargettype = False, stable = True\<rparr>,
      \<lparr>fs_name = ''reiserfs'', support_for_xattr = True, support_for_acls = True, winattr = False,
       savesymtargettype = False, stable = True\<rparr>,
      \<lparr>fs_name = ''reiser4'', support_for_xattr = True, support_for_acls = True, winattr = False,
       savesymtargettype = False, stable = True\<rparr>,
      \<lparr>fs_name = ''btrfs'', support_for_xattr = True, support_for_acls = True, winattr = False,
       savesymtargettype = False, stable = True\<rparr>,
      \<lparr>fs_name = ''xfs'', support_for_xattr = True, support_for_acls = True, winattr = False,
       savesymtargettype = False, stable = True\<rparr>,
      \<lparr>fs_name = ''jfs'', support_for_xattr = True, support_for_acls = True, winattr = False,
       savesymtargettype = False, stable = True\<rparr>,
      \<lparr>fs_name = ''ntfs'', support_for_xattr = False, support_for_acls = False, winattr = True,
       savesymtargettype = True, stable = False\<rparr>,
      \<lparr>fs_name = ''vfat'', support_for_xattr = False, support_for_acls = False, winattr = False,
       savesymtargettype = False, stable = True\<rparr>]"

fun fstype_loop :: "cfilesys list \<Rightarrow> int \<Rightarrow> string \<Rightarrow> int \<times> int" where
  "fstype_loop [] i fsname = (-1, -1)"
| "fstype_loop (f # fs) i fsname = (if fs_name f = fsname then (0, i) else fstype_loop fs (i + 1) fsname)"

definition generic_get_fstype :: "string \<Rightarrow> int \<times> int" where
  "generic_get_fstype fsname = fstype_loop filesys 0 fsname"

section \<open>Mount options and devices\<close>

fun fsrw_loop :: "string list \<Rightarrow> int" where
  "fsrw_loop [] = 0"
| "fsrw_loop (result # results) = (if result = ''rw'' then 1 else fsrw_loop results)"

definition generic_get_fsrwstatus :: "string \<Rightarrow> int" where
  "generic_get_fsrwstatus options =
     (let temp = snprintf_s FSA_MAX_FSNAMELEN options in fsrw_loop (strtok_all '','' temp))"

text \<open>What stat says of a path: block device, st_rdev, st_dev.\<close>

record cdevstat =
  st_isblk :: bool
  st_rdev :: u64
  st_dev :: u64

record fsenv =
  f_stat :: "string \<Rightarrow> cdevstat option"
  f_statfs :: "string \<Rightarrow> bool"
  f_open :: "string \<Rightarrow> string option"

definition generic_get_spacestats :: "fsenv \<Rightarrow> string \<Rightarrow> string \<Rightarrow> int" where
  "generic_get_spacestats env dev mnt =
     (case f_stat env dev of
        None \<Rightarrow> -1
      | Some st \<Rightarrow> if \<not> f_statfs env dev then -1 else if \<not> st_isblk st then -1 else 0)"

text \<open>In both turns of the loop the first device is tested for being a block device.\<close>

definition devcmp :: "fsenv \<Rightarrow> string \<Rightarrow> string \<Rightarrow> int" where
  "devcmp env dev1 dev2 =
     (if take 5 dev1 \<noteq> ''/dev/'' then -1
      else case f_stat env dev1 of
        None \<Rightarrow> -1
      | Some st1 \<Rightarrow>
          if \<not> st_isblk st1 then -1
          else if take 5 dev2 \<noteq> ''/dev/'' then -1
          else (case f_stat env dev2 of
              None \<Rightarrow> -1
            | Some st2 \<Rightarrow>
                if \<not> st_isblk st1 then -1
                else if st_rdev st1 = st_rdev st2 then 0 else 1))"

text \<open>The macros major and minor of the C library.\<close>

definition dev_major :: "u64 \<Rightarrow> u32" where
  "dev_major dev = ucast (and (drop_bit 8 dev) 0xFFF) OR ucast (and (drop_bit 32 dev) (NOT 0xFFF))"

definition dev_minor :: "u64 \<Rightarrow> u32" where
  "dev_minor dev = ucast (and dev 0xFF) OR ucast (and (drop_bit 12 dev) (NOT 0xFF))"

definition atol :: "string \<Rightarrow> int" where
  "atol s = fst (strtoll10 s)"

section \<open>The mount tables\<close>

definition mnt_delims :: string where
  "mnt_delims = [CHR '' '', CHR 0x09, CHR 0x0A, CHR '':'']"

record cmntinfo =
  mi_major :: int
  mi_minor :: int
  mi_sep :: int
  mi_mnt :: string
  mi_fs :: string
  mi_opt :: string

text \<open>The words of a line of /proc/self/mountinfo.\<close>

definition mountinfo_word :: "string \<Rightarrow> int \<Rightarrow> cmntinfo \<Rightarrow> cmntinfo" where
  "mountinfo_word result i m =
     (let m = (if result = ''-'' then m\<lparr>mi_sep := i\<rparr> else m);
          m = (if i = 2 then m\<lparr>mi_major := atol result\<rparr>
               else if i = 3 then m\<lparr>mi_minor := atol result\<rparr>
               else if i = 5 then m\<lparr>mi_mnt := snprintf_s 128 result\<rparr>
               else m);
          m = (if mi_sep m \<noteq> -1 \<and> i = mi_sep m + 1 then m\<lparr>mi_fs := snprintf_s FSA_MAX_FSNAMELEN result\<rparr> else m)
      in if mi_sep m \<noteq> -1 \<and> i = mi_sep m + 3 then m\<lparr>mi_opt := snprintf_s 128 result\<rparr> else m)"

fun mountinfo_words :: "string list \<Rightarrow> int \<Rightarrow> cmntinfo \<Rightarrow> cmntinfo" where
  "mountinfo_words [] i m = m"
| "mountinfo_words (result # results) i m = mountinfo_words results (i + 1) (mountinfo_word result i m)"

definition mountinfo_line :: "string \<Rightarrow> cmntinfo" where
  "mountinfo_line line =
     mountinfo_words (strtok_all mnt_delims line) 0
       \<lparr>mi_major = -1, mi_minor = -1, mi_sep = -1, mi_mnt = [], mi_fs = [], mi_opt = []\<rparr>"

text \<open>A line of /proc/mounts: device, mount point, filesystem and options.\<close>

definition word_at :: "string list \<Rightarrow> nat \<Rightarrow> nat \<Rightarrow> string" where
  "word_at ws i n = (if i < length ws then snprintf_s n (ws ! i) else [])"

definition mounts_line :: "string \<Rightarrow> string \<times> string \<times> string \<times> string" where
  "mounts_line line =
     (let ws = strtok_all mnt_delims line
      in (word_at ws 0 128, word_at ws 1 128, word_at ws 2 FSA_MAX_FSNAMELEN, word_at ws 3 128))"

text \<open>What a search returns: read-write flag, mount point, options, filesystem.\<close>

type_synonym mntres = "int \<times> string \<times> string \<times> string"

definition mount_found :: "nat \<Rightarrow> nat \<Rightarrow> nat \<Rightarrow> string \<Rightarrow> string \<Rightarrow> string \<Rightarrow> mntres" where
  "mount_found maxmnt maxopt maxfs col_mnt col_opt col_fs =
     (generic_get_fsrwstatus col_opt, snprintf_s maxmnt col_mnt, snprintf_s maxopt col_opt, snprintf_s maxfs col_fs)"

lemma stream_readline_loop_shorter:
  "length (fdata (snd (stream_readline_loop f n i buf))) \<le> length (fdata f) \<and>
   (feof f \<longrightarrow> feof (snd (stream_readline_loop f n i buf)))"
proof (induction f n i buf rule: stream_readline_loop.induct)
  case (1 f buflen i buf)
  show ?case
  proof (cases "fdata f")
    case (Cons c cs)
    then show ?thesis
      using 1 [of c cs "f\<lparr>fdata := cs\<rparr>"]
      by (auto simp: Let_def stream_readline_loop.simps [of f buflen i buf])
  qed (simp add: stream_readline_loop.simps [of f buflen i buf])
qed

definition stream_left :: "cfile \<Rightarrow> nat" where
  "stream_left f = length (fdata f) + (if feof f then 0 else 1)"

lemma stream_readline_less:
  assumes "\<not> feof f" and "stream_readline f n = ((i, line), f')"
  shows "stream_left f' < stream_left f"
proof (cases "fdata f")
  case Nil
  then show ?thesis
    using assms by (subst (asm) stream_readline_def, subst (asm) stream_readline_loop.simps)
      (auto simp: stream_left_def)
next
  case (Cons c cs)
  show ?thesis
  proof (cases "c = CHR 0x0A \<or> \<not> 0 < n")
    case True
    then show ?thesis
      using assms Cons by (subst (asm) stream_readline_def, subst (asm) stream_readline_loop.simps)
        (auto simp: stream_left_def Let_def)
  next
    case False
    then have "f' = snd (stream_readline_loop (f\<lparr>fdata := cs\<rparr>) n 1 [c])"
      using assms Cons by (subst (asm) stream_readline_def, subst (asm) stream_readline_loop.simps)
        (auto simp: Let_def)
    then show ?thesis
      using assms(1) Cons stream_readline_loop_shorter [of "f\<lparr>fdata := cs\<rparr>" n 1 "[c]"]
      by (auto simp: stream_left_def)
  qed
qed

lemma stream_readline_less': "\<not> feof f \<Longrightarrow> x = stream_readline f n \<Longrightarrow> (p, f') = x \<Longrightarrow> stream_left f' < stream_left f"
  using stream_readline_less [of f n "fst p" "snd p" f'] by simp

text \<open>The two loops over the lines. The buffer of a line has 1024 bytes: a line of that length leaves it without a
  NUL, and the result None is the read behind it.\<close>

function mountinfo_loop :: "fsenv \<Rightarrow> string \<Rightarrow> cdevstat \<Rightarrow> cfile \<Rightarrow> (nat \<times> nat \<times> nat) \<Rightarrow> mntres option option" where
  "mountinfo_loop env devname devstat f maxs =
     (if feof f then Some None
      else
        (let (nline, f') = stream_readline f 1024; n = fst nline; line = snd nline
         in if n > 1 then
              (if n \<ge> 1024 then None
               else
                 (let m = mountinfo_line line
                  in if mi_major m = uint (dev_major (st_rdev devstat)) \<and> mi_minor m = uint (dev_minor (st_rdev devstat))
                        \<and> generic_get_spacestats env devname (mi_mnt m) = 0
                     then Some (Some (mount_found (fst maxs) (fst (snd maxs)) (snd (snd maxs)) (mi_mnt m) (mi_opt m) (mi_fs m)))
                     else mountinfo_loop env devname devstat f' maxs))
            else mountinfo_loop env devname devstat f' maxs))"
  by pat_completeness auto
termination
  by (relation "measure (\<lambda>(env, devname, devstat, f, maxs). stream_left f)")
    (rule wf_measure, unfold in_measure prod.case, (erule (2) stream_readline_less')+)

function mounts_loop :: "fsenv \<Rightarrow> string \<Rightarrow> bool \<Rightarrow> cfile \<Rightarrow> (nat \<times> nat \<times> nat) \<Rightarrow> mntres option option" where
  "mounts_loop env devname devisroot f maxs =
     (if feof f then Some None
      else
        (let (nline, f') = stream_readline f 1024; n = fst nline; line = snd nline
         in if n > 1 then
              (if n \<ge> 1024 then None
               else
                 (let (col_dev, col_mnt, col_fs, col_opt) = mounts_line line;
                      col_dev = (if devisroot \<and> col_mnt = ''/'' \<and> col_fs \<noteq> ''rootfs'' then snprintf_s 128 devname else col_dev)
                  in if devcmp env col_dev devname = 0 \<and> generic_get_spacestats env col_dev col_mnt = 0
                     then Some (Some (mount_found (fst maxs) (fst (snd maxs)) (snd (snd maxs)) col_mnt col_opt col_fs))
                     else mounts_loop env devname devisroot f' maxs))
            else mounts_loop env devname devisroot f' maxs))"
  by pat_completeness auto
termination
  by (relation "measure (\<lambda>(env, devname, devisroot, f, maxs). stream_left f)")
    (rule wf_measure, unfold in_measure prod.case, (erule (2) stream_readline_less')+)

declare mountinfo_loop.simps [simp del] mounts_loop.simps [simp del]

text \<open>The return code with the read-write flag, the mount point, the options and the filesystem; the buffers of the
  first two are cleared first, the last one keeps what the caller had in it.\<close>

definition generic_get_mntinfo :: "fsenv \<Rightarrow> string \<Rightarrow> (nat \<times> nat \<times> nat) \<Rightarrow> string \<Rightarrow> (int \<times> mntres) option" where
  "generic_get_mntinfo env devname maxs fsbuf =
     (let notfound = (-1, [], [], fsbuf);
          first = (case (f_stat env devname, f_open env ''/proc/self/mountinfo'') of
                     (Some devstat, Some table) \<Rightarrow>
                       mountinfo_loop env devname devstat \<lparr>fdata = table, feof = False\<rparr> maxs
                   | _ \<Rightarrow> Some None)
      in case first of
           None \<Rightarrow> None
         | Some (Some res) \<Rightarrow> Some (0, res)
         | Some None \<Rightarrow>
             (let devisroot = (case (f_stat env devname, f_stat env ''/'') of
                                 (Some devstat, Some rootstat) \<Rightarrow> st_rdev devstat = st_dev rootstat
                               | _ \<Rightarrow> False)
              in case f_open env ''/proc/mounts'' of
                   None \<Rightarrow> Some (1, notfound)
                 | Some table \<Rightarrow>
                     (case mounts_loop env devname devisroot \<lparr>fdata = table, feof = False\<rparr> maxs of
                        None \<Rightarrow> None
                      | Some (Some res) \<Rightarrow> Some (0, res)
                      | Some None \<Rightarrow> Some (-1, notfound))))"

section \<open>Mounting\<close>

definition MS_NOATIME :: u32 where "MS_NOATIME = 1024"
definition MS_NODIRATIME :: u32 where "MS_NODIRATIME = 2048"

text \<open>\<open>mount\<close> gets device, mount point, filesystem, flags and options.\<close>

definition generic_mount ::
    "(string \<Rightarrow> string \<Rightarrow> string \<Rightarrow> u32 \<Rightarrow> string option \<Rightarrow> int) \<Rightarrow>
     string \<Rightarrow> string \<Rightarrow> string \<Rightarrow> string option \<Rightarrow> u32 \<Rightarrow> int" where
  "generic_mount mount part mntbuf fsbuf mntopt flags =
     (if fsbuf = [] then -1
      else
        (let flags = flags OR (MS_NOATIME OR MS_NODIRATIME)
         in if mount part mntbuf fsbuf flags mntopt \<noteq> 0 then -1 else 0))"

text \<open>umount2 is tried four times while the filesystem is busy: the argument gives the answers of the calls, whether
  they failed and whether with EBUSY. The result of the comparison is kept, not that of the call.\<close>

fun umount_loop :: "(bool \<times> bool) list \<Rightarrow> nat \<Rightarrow> int \<Rightarrow> int \<times> nat" where
  "umount_loop answers 0 res = (res, 0)"
| "umount_loop [] (Suc n) res = (res, 0)"
| "umount_loop ((failed, busy) # answers) (Suc n) res =
     (let res = (if failed then 1 else 0)
      in if failed \<and> busy then (let (r, k) = umount_loop answers n res in (r, k + 1)) else (res, 1))"

definition generic_umount :: "(bool \<times> bool) list \<Rightarrow> int \<times> nat" where
  "generic_umount answers = umount_loop answers 4 0"

definition format_prog_version :: "u64 \<Rightarrow> nat \<Rightarrow> string" where
  "format_prog_version version buflen =
     snprintf_s buflen
       (dec_digits (unat (and (drop_bit 16 version) 0xFF)) @ ''.'' @
        dec_digits (unat (and (drop_bit 8 version) 0xFF)) @ ''.'' @
        dec_digits (unat (and version 0xFF)))"

section \<open>Lemmas\<close>

lemma fstype_loop_nth:
  assumes "n < length fs" and "\<And>k. k < n \<Longrightarrow> fs_name (fs ! k) \<noteq> fs_name (fs ! n)"
  shows "fstype_loop fs i (fs_name (fs ! n)) = (0, i + int n)"
  using assms
proof (induction fs arbitrary: i n)
  case (Cons f fs)
  show ?case
  proof (cases n)
    case (Suc m)
    have "fs_name f \<noteq> fs_name (fs ! m)" using Cons.prems(2) [of 0] Suc by simp
    moreover have "fs_name (fs ! k) \<noteq> fs_name (fs ! m)" if "k < m" for k
      using Cons.prems(2) [of "Suc k"] Suc that by simp
    ultimately show ?thesis using Cons Suc by simp
  qed simp
qed simp

end
