(* ===== verification/Exclude.thy ===== *)
theory Exclude
  imports Paths Options
begin

text \<open>The exclusion of files at the extraction: is_filedir_excluded of oper_restore.c, which walks up the
  directories of a path in a buffer that it shortens in place. fnmatch is a parameter.\<close>

section \<open>The walk\<close>

text \<open>The buffer is the string up to its NUL. Clearing the last byte of the string cuts it.\<close>

definition buf_at :: "string \<Rightarrow> int \<Rightarrow> char" where
  "buf_at buf pos = (if pos < int (length buf) then buf ! nat pos else CHR 0x00)"

function clear_to_slash :: "string \<Rightarrow> int \<Rightarrow> string \<times> int" where
  "clear_to_slash dirpath pos =
     (if pos \<ge> 0 \<and> buf_at dirpath pos \<noteq> CHR ''/'' then clear_to_slash (take (nat pos) dirpath) (pos - 1)
      else (dirpath, pos))"
  by pat_completeness auto
termination
  by (relation "measure (\<lambda>(dirpath, pos). nat (pos + 1))") auto

declare clear_to_slash.simps [simp del]

definition parent_step :: "string \<Rightarrow> int \<Rightarrow> string \<times> int" where
  "parent_step dirpath pos =
     (let (dirpath, pos) = clear_to_slash dirpath pos
      in if pos > 0 \<and> buf_at dirpath pos = CHR ''/'' then (take (nat pos) dirpath, pos) else (dirpath, pos))"

definition name_or_path_excluded :: "(string \<Rightarrow> string \<Rightarrow> bool) \<Rightarrow> coptions \<Rightarrow> string \<Rightarrow> bool" where
  "name_or_path_excluded fnmatch opt path \<longleftrightarrow>
     exclude_check fnmatch (exclude opt) (extract_basename path PATH_MAX) \<or> exclude_check fnmatch (exclude opt) path"

text \<open>The position moves down, or stays while the slash under it is cleared.\<close>

definition slash_under :: "string \<Rightarrow> int \<Rightarrow> nat" where
  "slash_under buf pos = (if buf_at buf pos = CHR ''/'' then 1 else 0)"

lemma clear_to_slash_le: "clear_to_slash buf pos = (buf', pos') \<Longrightarrow> pos' \<le> pos"
proof (induction buf pos rule: clear_to_slash.induct)
  case (1 buf pos)
  then show ?case
    by (cases "pos \<ge> 0 \<and> buf_at buf pos \<noteq> CHR ''/''") (force simp: clear_to_slash.simps [of buf pos])+
qed

lemma clear_to_slash_less:
  "pos \<ge> 0 \<Longrightarrow> buf_at buf pos \<noteq> CHR ''/'' \<Longrightarrow> clear_to_slash buf pos = (buf', pos') \<Longrightarrow> pos' < pos"
  using clear_to_slash_le [of "take (nat pos) buf" "pos - 1"] by (force simp: clear_to_slash.simps [of buf pos])

lemma parent_step_decreases:
  assumes "0 < pos" and "parent_step buf pos = (buf', pos')" and "0 < pos'"
  shows "2 * nat pos' + slash_under buf' pos' < 2 * nat pos + slash_under buf pos"
proof -
  obtain b p where bp: "clear_to_slash buf pos = (b, p)" by force
  have p: "pos' = p" using assms(2) by (auto simp: parent_step_def bp split: if_splits)
  have s: "slash_under buf' pos' = 0"
    using assms(2,3) by (auto simp: parent_step_def bp slash_under_def buf_at_def split: if_splits)
  show ?thesis
  proof (cases "buf_at buf pos = CHR ''/''")
    case True
    then have "clear_to_slash buf pos = (buf, pos)" by (simp add: clear_to_slash.simps)
    then show ?thesis using True bp p s by (simp add: slash_under_def)
  next
    case False
    then show ?thesis using clear_to_slash_less [OF _ False bp] assms(1,3) p s by linarith
  qed
qed

function parents_excluded :: "(string \<Rightarrow> string \<Rightarrow> bool) \<Rightarrow> coptions \<Rightarrow> string \<Rightarrow> int \<Rightarrow> bool" where
  "parents_excluded fnmatch opt dirpath pos =
     (if pos > 0 then
        (let (dirpath, pos) = parent_step dirpath pos
         in if length dirpath > 1 \<and> length (extract_basename dirpath PATH_MAX) > 0 \<and>
               name_or_path_excluded fnmatch opt dirpath
            then True else parents_excluded fnmatch opt dirpath pos)
      else False)"
  by pat_completeness auto
termination
proof (relation "measure (\<lambda>(fnmatch, opt, buf, pos). if pos > 0 then 2 * nat pos + slash_under buf pos + 1 else 0)")
  show "wf (measure (\<lambda>(fnmatch :: string \<Rightarrow> string \<Rightarrow> bool, opt :: coptions, buf, pos).
      if pos > 0 then 2 * nat pos + slash_under buf pos + 1 else 0))" by simp
next
  fix fnmatch :: "string \<Rightarrow> string \<Rightarrow> bool" and opt :: coptions and dirpath dirpath' :: string and pos pos' :: int and x
  assume pos: "pos > 0" and x: "x = parent_step dirpath pos" "(dirpath', pos') = x"
  show "((fnmatch, opt, dirpath', pos'), fnmatch, opt, dirpath, pos)
    \<in> measure (\<lambda>(fnmatch, opt, buf, pos). if pos > 0 then 2 * nat pos + slash_under buf pos + 1 else 0)"
    using pos parent_step_decreases [OF pos, of dirpath dirpath' pos'] x by (cases "parent_step dirpath pos") auto
qed

declare parents_excluded.simps [simp del]

definition is_filedir_excluded :: "(string \<Rightarrow> string \<Rightarrow> bool) \<Rightarrow> coptions \<Rightarrow> string \<Rightarrow> bool" where
  "is_filedir_excluded fnmatch opt relpath =
     (if name_or_path_excluded fnmatch opt relpath then True
      else
        (let dirpath = snprintf_s PATH_MAX relpath
         in parents_excluded fnmatch opt dirpath (int (length dirpath))))"

section \<open>The directories above a path\<close>

text \<open>The prefixes that end before a slash, which are not empty.\<close>

definition parents :: "string \<Rightarrow> string set" where
  "parents path = {take i path | i. 0 < i \<and> i < length path \<and> path ! i = CHR ''/''}"

lemma clear_to_slash_split:
  assumes "CHR ''/'' \<notin> set b" and "a = [] \<or> last a = CHR ''/''"
  shows "clear_to_slash (a @ b) (int (length (a @ b)) - 1) = (a, int (length a) - 1)"
  using assms(1)
proof (induction b rule: rev_induct)
  case Nil
  have "buf_at a (int (length a) - 1) = last a" if "a \<noteq> []"
    using that by (cases a rule: rev_cases) (simp_all add: buf_at_def)
  then show ?case using assms(2) by (subst clear_to_slash.simps) auto
next
  case (snoc c b)
  have p: "int (length (a @ b @ [c])) - 1 = int (length (a @ b))" by simp
  have "buf_at (a @ b @ [c]) (int (length (a @ b))) = c"
    using nth_append_length [of "a @ b" c "[]"] by (simp add: buf_at_def nat_add_distrib)
  then have "clear_to_slash (a @ b @ [c]) (int (length (a @ b))) = clear_to_slash (a @ b) (int (length (a @ b)) - 1)"
    using snoc.prems by (subst clear_to_slash.simps) auto
  then show ?case unfolding p using snoc by simp
qed

lemma clear_to_slash_end: "clear_to_slash path (int (length path)) = clear_to_slash path (int (length path) - 1)"
  by (subst clear_to_slash.simps) (simp add: buf_at_def)

lemma last_slash_split:
  obtains a b where "path = a @ b" "CHR ''/'' \<notin> set b" "a = [] \<or> last a = CHR ''/''"
proof
  let ?P = "\<lambda>c. c \<noteq> CHR ''/''"
  show "path = rev (dropWhile ?P (rev path)) @ rev (takeWhile ?P (rev path))"
    using takeWhile_dropWhile_id [of ?P "rev path"] by (metis rev_append rev_rev_ident)
  show "CHR ''/'' \<notin> set (rev (takeWhile ?P (rev path)))"
    using set_takeWhileD by fastforce
  show "rev (dropWhile ?P (rev path)) = [] \<or> last (rev (dropWhile ?P (rev path))) = CHR ''/''"
    using hd_dropWhile [of ?P "rev path"] by (auto simp: last_rev)
qed

lemma parents_append: "CHR ''/'' \<notin> set b \<Longrightarrow> parents (a @ b) = parents a"
proof -
  assume b: "CHR ''/'' \<notin> set b"
  have "i < length a" if "i < length (a @ b)" "(a @ b) ! i = CHR ''/''" for i
  proof (rule ccontr)
    assume "\<not> i < length a"
    then have "(a @ b) ! i \<in> set b" using that(1) by (simp add: nth_append)
    then show False using b that(2) by simp
  qed
  show ?thesis
  proof (intro set_eqI iffI)
    fix x
    assume "x \<in> parents (a @ b)"
    then obtain i where i: "x = take i (a @ b)" "0 < i" "i < length (a @ b)" "(a @ b) ! i = CHR ''/''"
      unfolding parents_def by blast
    then have "i < length a" using \<open>\<And>i. i < length (a @ b) \<Longrightarrow> (a @ b) ! i = CHR ''/'' \<Longrightarrow> i < length a\<close> by blast
    then show "x \<in> parents a" using i by (auto simp: parents_def nth_append intro!: exI [of _ i])
  next
    fix x
    assume "x \<in> parents a"
    then obtain i where "x = take i a" "0 < i" "i < length a" "a ! i = CHR ''/''"
      unfolding parents_def by blast
    then show "x \<in> parents (a @ b)" by (auto simp: parents_def nth_append intro!: exI [of _ i])
  qed
qed

lemma parents_slash: "parents (a @ [CHR ''/'']) = (if a = [] then {} else insert a (parents a))"
proof (cases "a = []")
  case False
  have "x \<in> parents (a @ [CHR ''/'']) \<longleftrightarrow> x = a \<or> x \<in> parents a" for x
  proof
    assume "x \<in> parents (a @ [CHR ''/''])"
    then obtain i where i: "x = take i (a @ [CHR ''/''])" "0 < i" "i < Suc (length a)" "(a @ [CHR ''/'']) ! i = CHR ''/''"
      by (auto simp: parents_def)
    then show "x = a \<or> x \<in> parents a"
      by (cases "i = length a") (auto simp: parents_def nth_append)
  next
    assume "x = a \<or> x \<in> parents a"
    then show "x \<in> parents (a @ [CHR ''/''])"
    proof
      assume "x = a"
      then show ?thesis using False by (auto simp: parents_def intro!: exI [of _ "length a"])
    next
      assume "x \<in> parents a"
      then obtain i where "x = take i a" "0 < i" "i < length a" "a ! i = CHR ''/''" by (auto simp: parents_def)
      then show ?thesis by (auto simp: parents_def nth_append intro!: exI [of _ i])
    qed
  qed
  then show ?thesis using False by auto
qed (auto simp: parents_def)

lemma parent_step_parents:
  assumes "parent_step path (int (length path)) = (path', pos')"
  shows "pos' > 0 \<and> pos' = int (length path') \<and> length path' < length path \<and> parents path = insert path' (parents path') \<or>
    pos' \<le> 0 \<and> length path' \<le> 1 \<and> parents path = {}"
proof -
  obtain a b where p: "path = a @ b" "CHR ''/'' \<notin> set b" "a = [] \<or> last a = CHR ''/''"
    by (rule last_slash_split)
  have c: "clear_to_slash path (int (length path)) = (a, int (length a) - 1)"
    using clear_to_slash_split [OF p(2,3)] p(1) clear_to_slash_end by metis
  show ?thesis
  proof (cases a rule: rev_cases)
    case Nil
    then have "parents path = {}" using p(1) parents_append [OF p(2), of a] by (simp add: parents_def)
    then show ?thesis using assms Nil c by (simp add: parent_step_def)
  next
    case (snoc a' d)
    then have a: "a = a' @ [CHR ''/'']" using p(3) by simp
    then have e: "parents path = (if a' = [] then {} else insert a' (parents a'))"
      using p(1) parents_append [OF p(2), of a] parents_slash [of a'] by simp
    show ?thesis
      using assms c e p(1) unfolding a by (cases "a' = []") (auto simp: parent_step_def buf_at_def)
  qed
qed

definition parent_excluded :: "(string \<Rightarrow> string \<Rightarrow> bool) \<Rightarrow> coptions \<Rightarrow> string \<Rightarrow> bool" where
  "parent_excluded fnmatch opt p \<longleftrightarrow>
     length p > 1 \<and> extract_basename p PATH_MAX \<noteq> [] \<and> name_or_path_excluded fnmatch opt p"

lemma parents_excluded_eq:
  "parents_excluded fnmatch opt path (int (length path)) \<longleftrightarrow> (\<exists>p \<in> parents path. parent_excluded fnmatch opt p)"
proof (induction path rule: length_induct)
  case (1 path)
  obtain path' pos' where s: "parent_step path (int (length path)) = (path', pos')" by force
  show ?case
  proof (cases "path = []")
    case True
    then show ?thesis by (simp add: parents_excluded.simps [of fnmatch opt "[]"] parents_def)
  next
    case False
    have e: "parents_excluded fnmatch opt path (int (length path)) \<longleftrightarrow>
        parent_excluded fnmatch opt path' \<or> parents_excluded fnmatch opt path' pos'"
      using False by (subst parents_excluded.simps) (auto simp: s parent_excluded_def)
    show ?thesis
      using parent_step_parents [OF s]
    proof
      assume "pos' > 0 \<and> pos' = int (length path') \<and> length path' < length path \<and>
          parents path = insert path' (parents path')"
      then show ?thesis using 1 e by simp
    next
      assume "pos' \<le> 0 \<and> length path' \<le> 1 \<and> parents path = {}"
      then show ?thesis using e by (simp add: parent_excluded_def parents_excluded.simps [of fnmatch opt path' pos'])
    qed
  qed
qed

text \<open>C17: At the extraction a path that fits the buffer is excluded exactly if a pattern matches its own name or path, or
  the name or path of a directory above it; the walk up the directories always ends.\<close>

theorem filedir_excluded_spec:
  assumes "length relpath < PATH_MAX"
  shows "is_filedir_excluded fnmatch opt relpath \<longleftrightarrow>
    name_or_path_excluded fnmatch opt relpath \<or>
    (\<exists>i < length relpath. 1 < i \<and> relpath ! i = CHR ''/'' \<and> extract_basename (take i relpath) PATH_MAX \<noteq> [] \<and>
       name_or_path_excluded fnmatch opt (take i relpath))"
proof -
  have "snprintf_s PATH_MAX relpath = relpath" using assms by (simp add: snprintf_s_def)
  then have "is_filedir_excluded fnmatch opt relpath \<longleftrightarrow>
      name_or_path_excluded fnmatch opt relpath \<or> (\<exists>p \<in> parents relpath. parent_excluded fnmatch opt p)"
    by (simp add: is_filedir_excluded_def parents_excluded_eq)
  moreover have "(\<exists>p \<in> parents relpath. parent_excluded fnmatch opt p) \<longleftrightarrow>
      (\<exists>i < length relpath. 1 < i \<and> relpath ! i = CHR ''/'' \<and> extract_basename (take i relpath) PATH_MAX \<noteq> [] \<and>
       name_or_path_excluded fnmatch opt (take i relpath))"
    (is "?l \<longleftrightarrow> ?r")
  proof
    assume ?l
    then show ?r by (auto simp: parents_def parent_excluded_def)
  next
    assume ?r
    then obtain i where "i < length relpath" "1 < i" "relpath ! i = CHR ''/''"
      "extract_basename (take i relpath) PATH_MAX \<noteq> []" "name_or_path_excluded fnmatch opt (take i relpath)"
      by blast
    then show ?l by (intro bexI [of _ "take i relpath"]) (auto simp: parents_def parent_excluded_def)
  qed
  ultimately show ?thesis by simp
qed

lemma filedir_excluded_spec_witness:
  "is_filedir_excluded (=) (options_zero\<lparr>exclude := [''tmp'']\<rparr>) ''/tmp/x'' \<longleftrightarrow>
    name_or_path_excluded (=) (options_zero\<lparr>exclude := [''tmp'']\<rparr>) ''/tmp/x'' \<or>
    (\<exists>i < length ''/tmp/x''. 1 < i \<and> ''/tmp/x'' ! i = CHR ''/'' \<and> extract_basename (take i ''/tmp/x'') PATH_MAX \<noteq> [] \<and>
       name_or_path_excluded (=) (options_zero\<lparr>exclude := [''tmp'']\<rparr>) (take i ''/tmp/x''))"
  by (rule filedir_excluded_spec) (simp add: PATH_MAX_def)

end
