(* ===== verification/Savear.thy ===== *)
theory Savear
  imports Datafile Filesys Exclude Regmulti Dichl Archwriter
begin

text \<open>oper_save.c, the part that walks through a directory tree and turns its objects into items of the queue. What
  the operating system says of the source tree, libgcrypt, fnmatch, the other threads (the answers of the queue to
  the additions, an interruption) are fields of an environment. The queue is the list of the items that
  were added. None is a write outside a buffer, or a loop that does not end.\<close>

section \<open>State and environment\<close>

definition S_IFMT :: u32 where "S_IFMT = 0xF000"
definition S_IFDIR :: u32 where "S_IFDIR = 0x4000"
definition S_IFLNK :: u32 where "S_IFLNK = 0xA000"
definition S_IFREG :: u32 where "S_IFREG = 0x8000"
definition S_IFCHR :: u32 where "S_IFCHR = 0x2000"
definition S_IFBLK :: u32 where "S_IFBLK = 0x6000"
definition S_IFIFO :: u32 where "S_IFIFO = 0x1000"
definition S_IFSOCK :: u32 where "S_IFSOCK = 0xC000"

lemmas s_if_defs = S_IFMT_def S_IFDIR_def S_IFLNK_def S_IFREG_def S_IFCHR_def S_IFBLK_def S_IFIFO_def S_IFSOCK_def

definition DEV_BSIZE :: u64 where "DEV_BSIZE = 512"

text \<open>The fields of struct stat64 that are used; sizes and times are signed.\<close>

record cstat =
  t_mode :: u32
  t_size :: int
  t_uid :: u32
  t_gid :: u32
  t_atime :: int
  t_mtime :: int
  t_nlink :: nat
  t_rdev :: u64
  t_ino :: u64
  t_blocks :: u64

text \<open>The functions of the environment get paths. \<open>s_read\<close> gets path, position and number of bytes and gives the
  result of read with the bytes; \<open>s_listxattr\<close> gives the result of llistxattr with the buffer; \<open>s_getxattr\<close> gets path,
  name and buffer size and gives the result of lgetxattr, whether errno is ENOATTR, and the bytes.\<close>

record senv =
  s_mem :: malloc
  s_addq :: "nat \<Rightarrow> int"
  s_interrupted :: "nat \<Rightarrow> bool"
  s_junk :: "u8 list"
  s_opt :: coptions
  s_fnmatch :: "string \<Rightarrow> string \<Rightarrow> bool"
  s_gcry :: gcry
  s_cwd :: string
  s_lstat :: "string \<Rightarrow> cstat option"
  s_opendir :: "string \<Rightarrow> string list option"
  s_readlink :: "string \<Rightarrow> string option"
  s_open :: "string \<Rightarrow> bool"
  s_read :: "string \<Rightarrow> nat \<Rightarrow> nat \<Rightarrow> int \<times> u8 list"
  s_listxattr :: "string \<Rightarrow> int \<times> string"
  s_getxattr :: "string \<Rightarrow> string \<Rightarrow> nat \<Rightarrow> int \<times> bool \<times> u8 list"

record csavear =
  sv_ai :: carchwriter
  sv_regmulti :: cregmulti
  sv_hardlinks :: cdichl
  sv_stats :: cstats
  sv_fstype :: nat
  sv_fsid :: u16
  sv_objectid :: u64
  sv_cost_global :: u64
  sv_cost_current :: u64
  sv_added :: "(qstatus \<times> qinfo) list"

definition g_queue_add :: "senv \<Rightarrow> qstatus \<times> qinfo \<Rightarrow> csavear \<Rightarrow> int \<times> csavear" where
  "g_queue_add env item save =
     (let r = s_addq env (length (sv_added save))
      in (r, if r = 0 then save\<lparr>sv_added := sv_added save @ [item]\<rparr> else save))"

definition header_item :: "cdico \<Rightarrow> u8 list \<Rightarrow> u16 \<Rightarrow> qstatus \<times> qinfo" where
  "header_item d magic fsid = (QITEM_STATUS_DONE, Qheader \<lparr>hmagic = magic, hfsid = fsid, hdico = d\<rparr>)"

definition save_interrupted :: "senv \<Rightarrow> csavear \<Rightarrow> bool" where
  "save_interrupted env save = s_interrupted env (length (sv_added save))"

section \<open>Contents of files\<close>

text \<open>The buffer after read returned \<open>res\<close>, filled up with zeros.\<close>

definition padded_block :: "int \<Rightarrow> u8 list \<Rightarrow> nat \<Rightarrow> u8 list" where
  "padded_block res bytes n = take n (take (nat res) bytes @ replicate (n - nat res) 0)"

definition createar_obj_regfile_multi ::
    "senv \<Rightarrow> csavear \<Rightarrow> cdico \<Rightarrow> string \<Rightarrow> u64 \<Rightarrow> (int \<times> csavear) option" where
  "createar_obj_regfile_multi env save header fullpath filesize =
     (if \<not> s_open env fullpath then Some (-1, save)
      else if unat filesize > FSA_MAX_SMALLFILESIZE then None
      else
        (let (res, bytes) = s_read env fullpath 0 (unat filesize);
             ret = (if res \<noteq> uint filesize then -1 else 0)
         in if res \<noteq> uint filesize \<and> \<not> (0 \<le> res \<and> res < uint filesize) then Some (-1, save)
            else
              (let databuf = padded_block res bytes (unat filesize);
                   md5sum = take 16 (md5_hash (s_gcry env) databuf);
                   header = snd (dico_add_data (s_mem env) header 0 DISKITEMKEY_MD5SUM md5sum 16);
                   (r, save) =
                     (if \<not> regmulti_save_enough_space_for_new_file (sv_regmulti save) (ucast filesize) then
                        (let (r, m, added) = regmulti_save_enqueue (s_mem env) (s_junk env) (s_addq env)
                               (sv_regmulti save) (sv_fsid save) (sv_added save)
                         in if r \<noteq> 0 then (-1 :: int, save\<lparr>sv_regmulti := m, sv_added := added\<rparr>)
                            else (0, save\<lparr>sv_regmulti := snd (regmulti_empty m), sv_added := added\<rparr>))
                      else (0, save))
               in if r \<noteq> 0 then Some (-1, save)
                  else map_option (\<lambda>(r, m). (if r \<noteq> 0 then -1 else ret, save\<lparr>sv_regmulti := m\<rparr>))
                         (regmulti_save_addfile (sv_regmulti save) header databuf (ucast filesize)))))"

text \<open>The loop over the blocks of a large file. Its state is the position, whether the file turned out to be
  shorter, the bytes given to the digest, and the result so far; the last flag of the result says that the loop
  was left by an error.\<close>

partial_function (option) regfile_blocks ::
    "senv \<Rightarrow> string \<Rightarrow> nat \<Rightarrow> nat \<Rightarrow> bool \<Rightarrow> u8 list \<Rightarrow> int \<Rightarrow> csavear \<Rightarrow> (int \<times> bool \<times> u8 list \<times> csavear) option" where
  "regfile_blocks env fullpath filesize filepos eof md5ctx ret save =
     (if filesize > 0 \<and> filepos < filesize \<and> \<not> save_interrupted env save then
        (let curblocksize = min (filesize - filepos) (unat (datablocksize (s_opt env)))
         in if \<not> s_mem env curblocksize then Some (-1, True, md5ctx, save)
            else
              (let (res, bytes) = (if eof then (0, []) else s_read env fullpath filepos curblocksize);
                   short = (\<not> eof \<and> res \<noteq> int curblocksize);
                   ret = (if short then -1 else ret)
               in if short \<and> res < 0 then Some (-1, True, md5ctx, save)
                  else
                    (let eof = (eof \<or> short \<and> res < int curblocksize);
                         origblock = padded_block res bytes curblocksize;
                         blkinfo = zero_blockinfo\<lparr>blkrealsize := of_nat curblocksize, blkdata := origblock,
                                                  blkoffset := of_nat filepos, blkfsid := sv_fsid save\<rparr>;
                         (r, save) = g_queue_add env (QITEM_STATUS_TODO, Qblock blkinfo) save
                     in if r \<noteq> 0 then Some (-1, True, md5ctx @ origblock, save)
                        else regfile_blocks env fullpath filesize (filepos + curblocksize) eof (md5ctx @ origblock) ret save)))
      else Some (ret, False, md5ctx, save))"

definition createar_obj_regfile_unique ::
    "senv \<Rightarrow> csavear \<Rightarrow> cdico \<Rightarrow> string \<Rightarrow> u64 \<Rightarrow> (int \<times> csavear) option" where
  "createar_obj_regfile_unique env save header fullpath filesize =
     (if \<not> md5_open_ok (s_gcry env) then Some (-1, save)
      else if \<not> s_open env fullpath then Some (-1, save)
      else
        (let save = snd (g_queue_add env (header_item header FSA_MAGIC_OBJT (sv_fsid save)) save)
         in case regfile_blocks env fullpath (unat filesize) 0 False [] 0 save of
              None \<Rightarrow> None
            | Some (ret, failed, md5ctx, save) \<Rightarrow>
                if failed then Some (ret, save)
                else if save_interrupted env save then Some (-1, save)
                else if \<not> md5_read_ok (s_gcry env) then Some (-1, save)
                else
                  (let md5sum = take 16 (md5_hash (s_gcry env) md5ctx)
                   in if filesize > 0 then
                        (case dico_alloc (s_mem env) of
                           None \<Rightarrow> Some (-1, save)
                         | Some footerdico \<Rightarrow>
                             (let footerdico = snd (dico_add_data (s_mem env) footerdico 0 BLOCKFOOTITEMKEY_MD5SUM md5sum 16);
                                  (r, save) = g_queue_add env (header_item footerdico FSA_MAGIC_FILF (sv_fsid save)) save
                              in if r \<noteq> 0 then Some (-1, save) else Some (ret, save)))
                      else Some (ret, save))))"

section \<open>Attributes\<close>

text \<open>One extended attribute, added under the next two keys. The result is whether it was added, and whether there
  was an error; \<open>strict\<close> says that a negative size is tested, as for the windows attributes.\<close>

definition xattr_value ::
    "senv \<Rightarrow> string \<Rightarrow> string \<Rightarrow> bool \<Rightarrow> u64 \<Rightarrow> cdico \<Rightarrow> ((bool \<times> bool) \<times> cdico) option" where
  "xattr_value env fullpath name strict attrcnt d =
     (let section = (if strict then DICO_OBJ_SECTION_WINATTR else DICO_OBJ_SECTION_XATTR);
          (attrsize, enoattr, _) = s_getxattr env fullpath name 0
      in if strict \<and> attrsize < 0 then Some ((False, \<not> enoattr), d)
         else if attrsize > 65535 then Some ((False, True), d)
         else if \<not> s_mem env (nat (attrsize + 1)) then Some ((False, True), d)
         else
           (let (valsize, enoattr, valbuf) =
                  s_getxattr env fullpath name (if attrsize < 0 then 2 ^ 64 - 1 else nat attrsize)
            in if valsize \<ge> 0 then
                 (if valsize > max 0 (attrsize + 1) then None
                  else
                    (let d = snd (dico_add_string (s_mem env) d section (ucast (2 * attrcnt)) name);
                         d = snd (dico_add_data (s_mem env) d section (ucast (2 * attrcnt + 1)) valbuf (of_int valsize))
                     in Some ((True, False), d)))
               else Some ((False, \<not> enoattr), d)))"

text \<open>The names of the attributes stand in the buffer one after the other, each with its NUL.\<close>

function xattr_loop ::
    "senv \<Rightarrow> string \<Rightarrow> string \<Rightarrow> int \<Rightarrow> nat \<Rightarrow> u64 \<Rightarrow> int \<Rightarrow> cdico \<Rightarrow> (int \<times> cdico) option" where
  "xattr_loop env fullpath buffer listlen pos attrcnt ret d =
     (if int pos < listlen \<and> pos < 4096 then
        (let name = cstr (drop pos buffer)
         in case xattr_value env fullpath name False attrcnt d of
              None \<Rightarrow> None
            | Some ((added, failed), d) \<Rightarrow>
                xattr_loop env fullpath buffer listlen (pos + (length name + 1))
                  (if added then attrcnt + 1 else attrcnt) (if failed then -1 else ret) d)
      else Some (ret, d))"
  by pat_completeness auto
termination
  by (relation "measure (\<lambda>(env, fullpath, buffer, listlen, pos, attrcnt, ret, d). nat (listlen - int pos))") auto

declare xattr_loop.simps [simp del]

definition createar_item_xattr :: "senv \<Rightarrow> string \<Rightarrow> cdico \<Rightarrow> (int \<times> cdico) option" where
  "createar_item_xattr env fullpath d =
     (let (listlen, bytes) = s_listxattr env fullpath;
          buffer = take 4095 (bytes @ replicate 4095 (CHR 0x00)) @ [CHR 0x00]
      in xattr_loop env fullpath buffer listlen 0 0 0 d)"

definition winattr_names :: "string list" where
  "winattr_names =
     [''system.ntfs_acl'', ''system.ntfs_attrib'', ''system.ntfs_reparse_data'', ''system.ntfs_times'',
      ''system.ntfs_dos_name'']"

fun winattr_loop :: "senv \<Rightarrow> string \<Rightarrow> string \<Rightarrow> string list \<Rightarrow> u64 \<Rightarrow> int \<Rightarrow> cdico \<Rightarrow> (int \<times> cdico) option" where
  "winattr_loop env fullpath relpath [] attrcnt ret d = Some (ret, d)"
| "winattr_loop env fullpath relpath (name # names) attrcnt ret d =
     (if relpath = ''/'' \<and> name = ''system.ntfs_dos_name'' then winattr_loop env fullpath relpath names attrcnt ret d
      else case xattr_value env fullpath name True attrcnt d of
        None \<Rightarrow> None
      | Some ((added, failed), d) \<Rightarrow>
          winattr_loop env fullpath relpath names (if added then attrcnt + 1 else attrcnt) (if failed then -1 else ret) d)"

definition createar_item_winattr :: "senv \<Rightarrow> string \<Rightarrow> string \<Rightarrow> cdico \<Rightarrow> (int \<times> cdico) option" where
  "createar_item_winattr env fullpath relpath d = winattr_loop env fullpath relpath winattr_names 0 0 d"

text \<open>Additions one after the other up to the first that fails.\<close>

fun run_adds :: "(cdico \<Rightarrow> int \<times> cdico) list \<Rightarrow> cdico \<Rightarrow> int \<times> cdico" where
  "run_adds [] d = (0, d)"
| "run_adds (add # adds) d = (let (r, d) = add d in if r \<noteq> 0 then (-1, d) else run_adds adds d)"

text \<open>A target below /tmp/fsa/ loses its first three names.\<close>

definition skip_name :: "string \<Rightarrow> string" where
  "skip_name s = dropWhile (\<lambda>c. c \<noteq> CHR ''/'') (if s \<noteq> [] \<and> hd s = CHR ''/'' then tl s else s)"

definition fix_linktarget :: "string \<Rightarrow> string" where
  "fix_linktarget buffer =
     (if take 9 buffer = ''/tmp/fsa/'' then skip_name (skip_name (skip_name buffer)) else buffer)"

definition file_type :: "u32 \<Rightarrow> u32" where
  "file_type mode = and mode S_IFMT"

text \<open>The type of the target of a symbolic link, for ntfs.\<close>

definition save_targettype :: "senv \<Rightarrow> string \<Rightarrow> string \<Rightarrow> string \<Rightarrow> cdico \<Rightarrow> cdico option" where
  "save_targettype env fullpath buffer linktarget d =
     (case (if linktarget \<noteq> [] \<and> hd linktarget = CHR ''/'' then Some (snprintf_s PATH_MAX buffer)
            else concatenate_paths PATH_MAX (extract_dirpath fullpath PATH_MAX) linktarget) of
        None \<Rightarrow> None
      | Some buffer2 \<Rightarrow>
          Some (case s_lstat env buffer2 of
             None \<Rightarrow> d
           | Some stattarget \<Rightarrow>
               if file_type (t_mode stattarget) = S_IFDIR then
                 snd (dico_add_u64 (s_mem env) d DICO_OBJ_SECTION_STDATTR DISKITEMKEY_LINKTARGETTYPE (ucast OBJTYPE_DIR))
               else if file_type (t_mode stattarget) = S_IFREG then
                 snd (dico_add_u64 (s_mem env) d DICO_OBJ_SECTION_STDATTR DISKITEMKEY_LINKTARGETTYPE
                        (ucast OBJTYPE_REGFILEUNIQUE))
               else d))"

definition stdattr_adds :: "senv \<Rightarrow> csavear \<Rightarrow> string \<Rightarrow> cstat \<Rightarrow> (cdico \<Rightarrow> int \<times> cdico) list" where
  "stdattr_adds env save relpath statbuf =
     (let sec = DICO_OBJ_SECTION_STDATTR; mem = s_mem env
      in [\<lambda>d. dico_add_u64 mem d sec DISKITEMKEY_OBJECTID (sv_objectid save),
          \<lambda>d. dico_add_string mem d sec DISKITEMKEY_PATH relpath,
          \<lambda>d. dico_add_u64 mem d sec DISKITEMKEY_SIZE (of_int (t_size statbuf)),
          \<lambda>d. dico_add_u32 mem d sec DISKITEMKEY_MODE (t_mode statbuf),
          \<lambda>d. dico_add_u32 mem d sec DISKITEMKEY_UID (t_uid statbuf),
          \<lambda>d. dico_add_u32 mem d sec DISKITEMKEY_GID (t_gid statbuf),
          \<lambda>d. dico_add_u64 mem d sec DISKITEMKEY_ATIME (ucast (of_int (t_atime statbuf) :: u32)),
          \<lambda>d. dico_add_u64 mem d sec DISKITEMKEY_MTIME (ucast (of_int (t_mtime statbuf) :: u32))])"

text \<open>The switch over the type of the object: the result is the return code, the object type, the cost, the flags,
  the dictionary and the state.\<close>

definition stdattr_regfile ::
    "senv \<Rightarrow> csavear \<Rightarrow> string \<Rightarrow> cstat \<Rightarrow> cdico \<Rightarrow> u64 \<Rightarrow> (int \<times> u32 \<times> u64 \<times> u64 \<times> cdico \<times> csavear)" where
  "stdattr_regfile env save relpath statbuf d filecost =
     (let (objtype, d, save) =
            (if t_nlink statbuf > 1 then
               (case dichl_get (sv_hardlinks save) (t_rdev statbuf) (t_ino statbuf) (int PATH_MAX) of
                  (res, buffer) \<Rightarrow>
                    if res = 0 then
                      (OBJTYPE_HARDLINK,
                       snd (dico_add_string (s_mem env) d DICO_OBJ_SECTION_STDATTR DISKITEMKEY_HARDLINK
                              (case buffer of Some str \<Rightarrow> str | None \<Rightarrow> [])), save)
                    else (OBJTYPE_NULL, d,
                          save\<lparr>sv_hardlinks :=
                            snd (dichl_add (s_mem env) (sv_hardlinks save) (t_rdev statbuf) (t_ino statbuf) relpath)\<rparr>))
             else (OBJTYPE_NULL, d, save));
          (objtype, filecost) =
            (if objtype = OBJTYPE_NULL then
               (if t_size statbuf > 0 \<and> t_size statbuf < uint (smallfilethresh (s_opt env)) \<and> t_nlink statbuf = 1
                then OBJTYPE_REGFILEMULTI else OBJTYPE_REGFILEUNIQUE, filecost + of_int (t_size statbuf))
             else (objtype, filecost));
          flags =
            (if (objtype = OBJTYPE_REGFILEUNIQUE \<or> objtype = OBJTYPE_REGFILEMULTI) \<and>
                t_blocks statbuf * DEV_BSIZE < of_int (t_size statbuf)
             then FSA_FILEFLAGS_SPARSE else 0)
      in (0, objtype, filecost, flags, d, save))"

definition stdattr_switch ::
    "senv \<Rightarrow> csavear \<Rightarrow> string \<Rightarrow> string \<Rightarrow> cstat \<Rightarrow> cdico \<Rightarrow> u64 \<Rightarrow>
     (int \<times> u32 \<times> u64 \<times> u64 \<times> cdico \<times> csavear) option" where
  "stdattr_switch env save fullpath relpath statbuf d filecost =
     (let typ = file_type (t_mode statbuf);
          rdev = snd (dico_add_u64 (s_mem env) d DICO_OBJ_SECTION_STDATTR DISKITEMKEY_RDEV (t_rdev statbuf))
      in if typ = S_IFDIR then Some (0, OBJTYPE_DIR, filecost, 0, d, save)
         else if typ = S_IFLNK then
           (case s_readlink env fullpath of
              None \<Rightarrow> Some (-1, OBJTYPE_SYMLINK, filecost, 0, d, save)
            | Some buffer \<Rightarrow>
                if length buffer \<ge> PATH_MAX \<or> length filesys \<le> sv_fstype save then None
                else
                  (let linktarget = fix_linktarget buffer;
                       d = snd (dico_add_string (s_mem env) d DICO_OBJ_SECTION_STDATTR DISKITEMKEY_SYMLINK linktarget)
                   in map_option (\<lambda>d. (0, OBJTYPE_SYMLINK, filecost, 0, d, save))
                        (if savesymtargettype (filesys ! sv_fstype save)
                         then save_targettype env fullpath buffer linktarget d else Some d)))
         else if typ = S_IFREG then Some (stdattr_regfile env save relpath statbuf d filecost)
         else if typ = S_IFCHR then Some (0, OBJTYPE_CHARDEV, filecost, 0, rdev, save)
         else if typ = S_IFBLK then Some (0, OBJTYPE_BLOCKDEV, filecost, 0, rdev, save)
         else if typ = S_IFIFO then Some (0, OBJTYPE_FIFO, filecost, 0, rdev, save)
         else if typ = S_IFSOCK then Some (0, OBJTYPE_SOCKET, filecost, 0, rdev, save)
         else Some (-1, OBJTYPE_NULL, filecost, 0, d, save))"

definition createar_item_stdattr ::
    "senv \<Rightarrow> csavear \<Rightarrow> string \<Rightarrow> string \<Rightarrow> cstat \<Rightarrow> cdico \<Rightarrow> (int \<times> u32 \<times> u64 \<times> cdico \<times> csavear) option" where
  "createar_item_stdattr env save fullpath relpath statbuf d =
     (let filecost = of_nat FSA_COST_PER_FILE;
          (r, d) = run_adds (stdattr_adds env save relpath statbuf) d;
          save = save\<lparr>sv_objectid := sv_objectid save + 1\<rparr>
      in if r \<noteq> 0 then Some (-1, OBJTYPE_NULL, filecost, d, save)
         else case stdattr_switch env save fullpath relpath statbuf d filecost of
           None \<Rightarrow> None
         | Some (r, objtype, filecost, flags, d, save) \<Rightarrow>
             if r \<noteq> 0 then Some (-1, objtype, filecost, d, save)
             else
               (let d = snd (dico_add_u32 (s_mem env) d DICO_OBJ_SECTION_STDATTR DISKITEMKEY_OBJTYPE objtype);
                    d = (if flags \<noteq> 0
                         then snd (dico_add_u64 (s_mem env) d DICO_OBJ_SECTION_STDATTR DISKITEMKEY_FLAGS flags) else d)
                in Some (0, objtype, filecost, d, save)))"

section \<open>Objects\<close>

definition count_ok :: "u32 \<Rightarrow> cstats \<Rightarrow> cstats" where
  "count_ok objtype st =
     (if objtype = OBJTYPE_DIR then st\<lparr>cnt_dir := cnt_dir st + 1\<rparr>
      else if objtype = OBJTYPE_SYMLINK then st\<lparr>cnt_symlink := cnt_symlink st + 1\<rparr>
      else if objtype = OBJTYPE_HARDLINK then st\<lparr>cnt_hardlink := cnt_hardlink st + 1\<rparr>
      else if objtype \<in> {OBJTYPE_REGFILEUNIQUE, OBJTYPE_REGFILEMULTI} then st\<lparr>cnt_regfile := cnt_regfile st + 1\<rparr>
      else st\<lparr>cnt_special := cnt_special st + 1\<rparr>)"

definition count_err :: "u32 \<Rightarrow> cstats \<Rightarrow> cstats" where
  "count_err objtype st =
     (if objtype = OBJTYPE_DIR then st\<lparr>err_dir := err_dir st + 1\<rparr>
      else if objtype = OBJTYPE_SYMLINK then st\<lparr>err_symlink := err_symlink st + 1\<rparr>
      else if objtype = OBJTYPE_HARDLINK then st\<lparr>err_hardlink := err_hardlink st + 1\<rparr>
      else if objtype \<in> {OBJTYPE_REGFILEUNIQUE, OBJTYPE_REGFILEMULTI} then st\<lparr>err_regfile := err_regfile st + 1\<rparr>
      else st\<lparr>err_special := err_special st + 1\<rparr>)"

definition header_only_types :: "u32 set" where
  "header_only_types =
     {OBJTYPE_DIR, OBJTYPE_SYMLINK, OBJTYPE_HARDLINK, OBJTYPE_CHARDEV, OBJTYPE_BLOCKDEV, OBJTYPE_FIFO, OBJTYPE_SOCKET}"

text \<open>The switch at the end of createar_save_file.\<close>

definition save_contents ::
    "senv \<Rightarrow> csavear \<Rightarrow> u32 \<Rightarrow> cdico \<Rightarrow> string \<Rightarrow> cstat \<Rightarrow> int \<Rightarrow> (int \<times> csavear) option" where
  "save_contents env save objtype dicoattr fullpath statbuf attrerrors =
     (if objtype \<notin> header_only_types \<and> objtype \<notin> {OBJTYPE_REGFILEUNIQUE, OBJTYPE_REGFILEMULTI} then Some (-1, save)
      else if attrerrors > 0 then Some (0, save\<lparr>sv_stats := count_err objtype (sv_stats save)\<rparr>)
      else if objtype \<in> header_only_types then
        (let (r, save) = g_queue_add env (header_item dicoattr FSA_MAGIC_OBJT (sv_fsid save)) save
         in if r \<noteq> 0 then Some (-1, save)
            else Some (0, save\<lparr>sv_stats := count_ok objtype (sv_stats save)\<rparr>))
      else
        (case (if objtype = OBJTYPE_REGFILEUNIQUE
               then createar_obj_regfile_unique env save dicoattr fullpath (of_int (t_size statbuf))
               else createar_obj_regfile_multi env save dicoattr fullpath (of_int (t_size statbuf))) of
           None \<Rightarrow> None
         | Some (res, save) \<Rightarrow>
             Some (0, save\<lparr>sv_stats := (if res \<noteq> 0 then count_err else count_ok) objtype (sv_stats save)\<rparr>)))"

text \<open>\<open>costeval\<close> is the counter of the evaluation, or None when the objects are saved.\<close>

definition createar_save_file ::
    "senv \<Rightarrow> csavear \<Rightarrow> string \<Rightarrow> string \<Rightarrow> cstat \<Rightarrow> u64 option \<Rightarrow> (int \<times> u64 option \<times> csavear) option" where
  "createar_save_file env save fsroot relpath statbuf costeval =
     (case concatenate_paths PATH_MAX fsroot relpath of
        None \<Rightarrow> None
      | Some fullpath \<Rightarrow>
          if archwriter_is_path_to_curvol (sv_ai save) fullpath
          then Some (0, costeval, save\<lparr>sv_stats := count_err OBJTYPE_REGFILEUNIQUE (sv_stats save)\<rparr>)
          else case dico_alloc (s_mem env) of
            None \<Rightarrow> Some (-1, costeval, save)
          | Some dicoattr \<Rightarrow>
              (case createar_item_stdattr env save fullpath relpath statbuf dicoattr of
                 None \<Rightarrow> None
               | Some (r, objtype, filecost, dicoattr, save) \<Rightarrow>
                   (case costeval of
                      Some cost \<Rightarrow> Some (0, Some (cost + filecost), save)
                    | None \<Rightarrow>
                        if length filesys \<le> sv_fstype save then None
                        else
                          (case (if support_for_xattr (filesys ! sv_fstype save)
                                 then createar_item_xattr env fullpath dicoattr else Some (0, dicoattr)) of
                             None \<Rightarrow> None
                           | Some (rx, dicoattr) \<Rightarrow>
                               (case (if winattr (filesys ! sv_fstype save)
                                      then createar_item_winattr env fullpath relpath dicoattr else Some (0, dicoattr)) of
                                  None \<Rightarrow> None
                                | Some (rw, dicoattr) \<Rightarrow>
                                    (let attrerrors = (if r \<noteq> 0 then 1 else 0) + (if rx \<noteq> 0 then 1 else 0) +
                                                      (if rw \<noteq> 0 then 1 else (0::int));
                                         save = (if \<not> save_interrupted env save \<and> sv_cost_global save > 0
                                                 then save\<lparr>sv_cost_current := sv_cost_current save + filecost\<rparr> else save)
                                     in map_option (\<lambda>(r, save). (r, None, save))
                                          (save_contents env save objtype dicoattr fullpath statbuf attrerrors)))))))"

section \<open>Directories\<close>

text \<open>The beginning of createar_save_directory: either its result, or the full path and the names in the directory.\<close>

definition save_directory_begin ::
    "senv \<Rightarrow> csavear \<Rightarrow> string \<Rightarrow> string \<Rightarrow> u64 option \<Rightarrow>
     (int option \<times> string \<times> string list \<times> u64 option \<times> csavear) option" where
  "save_directory_begin env save fsroot path costeval =
     (case concatenate_paths PATH_MAX fsroot path of
        None \<Rightarrow> None
      | Some fulldirpath \<Rightarrow>
          (case s_opendir env fulldirpath of
             None \<Rightarrow> Some (Some 0, fulldirpath, [], costeval, save)
           | Some names \<Rightarrow>
               (case s_lstat env fulldirpath of
                  None \<Rightarrow> Some (Some (-1), fulldirpath, [], costeval, save)
                | Some statbuf \<Rightarrow>
                    (case createar_save_file env save fsroot path statbuf costeval of
                       None \<Rightarrow> None
                     | Some (r, costeval, save) \<Rightarrow>
                         Some (if r \<noteq> 0 then Some (-1) else None, fulldirpath, names, costeval, save)))))"

definition entry_excluded :: "senv \<Rightarrow> string \<Rightarrow> string \<Rightarrow> bool" where
  "entry_excluded env d_name relpath \<longleftrightarrow>
     exclude_check (s_fnmatch env) (exclude (s_opt env)) d_name \<or>
     exclude_check (s_fnmatch env) (exclude (s_opt env)) relpath"

text \<open>What happens with one name of a directory, up to the recursion.\<close>

datatype entry_action = Entry_skip | Entry_fail | Entry_dir string | Entry_file string cstat

definition entry_action :: "senv \<Rightarrow> string \<Rightarrow> string \<Rightarrow> string \<Rightarrow> entry_action option" where
  "entry_action env fulldirpath path d_name =
     (if d_name = ''.'' \<or> d_name = ''..'' then Some Entry_skip
      else case (concatenate_paths PATH_MAX path d_name, concatenate_paths PATH_MAX fulldirpath d_name) of
        (Some relpath, Some fullpath) \<Rightarrow>
          Some (case s_lstat env fullpath of
             None \<Rightarrow> if \<not> allowsaverw (s_opt env) then Entry_fail else Entry_skip
           | Some statbuf \<Rightarrow>
               if entry_excluded env d_name relpath then Entry_skip
               else if file_type (t_mode statbuf) = S_IFDIR then Entry_dir relpath
               else Entry_file relpath statbuf)
      | _ \<Rightarrow> None)"

partial_function (option) save_directory_entries ::
    "senv \<Rightarrow> string \<Rightarrow> string \<Rightarrow> string \<Rightarrow> string list \<Rightarrow> u64 option \<Rightarrow> csavear \<Rightarrow>
     (int \<times> u64 option \<times> csavear) option" where
  "save_directory_entries env fsroot fulldirpath path entries costeval save =
     (case entries of
        [] \<Rightarrow> Some (0, costeval, save)
      | d_name # entries \<Rightarrow>
          if save_interrupted env save then Some (0, costeval, save)
          else Option.bind (entry_action env fulldirpath path d_name) (\<lambda>action.
            case action of
              Entry_skip \<Rightarrow> save_directory_entries env fsroot fulldirpath path entries costeval save
            | Entry_fail \<Rightarrow> Some (-1, costeval, save)
            | Entry_dir relpath \<Rightarrow>
                Option.bind (save_directory_begin env save fsroot relpath costeval) (\<lambda>(early, fulldir, names, costeval, save).
                Option.bind (case early of
                    Some r \<Rightarrow> Some (r, costeval, save)
                  | None \<Rightarrow> save_directory_entries env fsroot fulldir relpath names costeval save)
                  (\<lambda>(r, costeval, save).
                if r \<noteq> 0 then Some (-1, costeval, save)
                else save_directory_entries env fsroot fulldirpath path entries costeval save))
            | Entry_file relpath statbuf \<Rightarrow>
                Option.bind (createar_save_file env save fsroot relpath statbuf costeval) (\<lambda>(r, costeval, save).
                if r \<noteq> 0 then Some (-1, costeval, save)
                else save_directory_entries env fsroot fulldirpath path entries costeval save)))"

definition createar_save_directory ::
    "senv \<Rightarrow> csavear \<Rightarrow> string \<Rightarrow> string \<Rightarrow> u64 option \<Rightarrow> (int \<times> u64 option \<times> csavear) option" where
  "createar_save_directory env save fsroot path costeval =
     Option.bind (save_directory_begin env save fsroot path costeval) (\<lambda>(early, fulldirpath, names, costeval, save).
       case early of
         Some r \<Rightarrow> Some (r, costeval, save)
       | None \<Rightarrow> save_directory_entries env fsroot fulldirpath path names costeval save)"

definition createar_save_directory_wrapper ::
    "senv \<Rightarrow> csavear \<Rightarrow> string \<Rightarrow> string \<Rightarrow> u64 option \<Rightarrow> (int \<times> u64 option \<times> csavear) option" where
  "createar_save_directory_wrapper env save fsroot path costeval =
     (case dichl_alloc (s_mem env) of
        None \<Rightarrow> Some (-1, costeval, save)
      | Some dichardlinks \<Rightarrow>
          (let save = save\<lparr>sv_hardlinks := dichardlinks\<rparr>;
               (r, m) = regmulti_init (sv_regmulti save) (datablocksize (s_opt env));
               save = save\<lparr>sv_regmulti := m\<rparr>
           in if r \<noteq> 0 then Some (-1, costeval, save)
              else map_option (\<lambda>(ret, costeval, save).
                     (let (r, m, added) = regmulti_save_enqueue (s_mem env) (s_junk env) (s_addq env)
                            (sv_regmulti save) (sv_fsid save) (sv_added save);
                          save = save\<lparr>sv_regmulti := m, sv_added := added\<rparr>
                      in (if r \<noteq> 0 then -1 else ret, costeval, save)))
                (createar_save_directory env save fsroot path costeval)))"

definition createar_oper_savefs :: "senv \<Rightarrow> csavear \<Rightarrow> string \<Rightarrow> nat \<Rightarrow> (int \<times> csavear) option" where
  "createar_oper_savefs env save partmount fstype =
     (case dico_alloc (s_mem env) of
        None \<Rightarrow> Some (-1, save)
      | Some dicobegin \<Rightarrow>
          (let save = snd (g_queue_add env (header_item dicobegin FSA_MAGIC_FSYB (sv_fsid save)) save);
               save = save\<lparr>sv_fstype := fstype\<rparr>
           in map_option (\<lambda>(ret, _, save).
                (case dico_alloc (s_mem env) of
                   None \<Rightarrow> (-1, save)
                 | Some dicoend \<Rightarrow>
                     (ret, snd (g_queue_add env (header_item dicoend FSA_MAGIC_DATF (sv_fsid save)) save))))
              (createar_save_directory_wrapper env save partmount ''/'' None)))"

text \<open>The result of the wrapper is not looked at.\<close>

definition createar_oper_savedir :: "senv \<Rightarrow> csavear \<Rightarrow> string \<Rightarrow> (int \<times> csavear) option" where
  "createar_oper_savedir env save rootdir =
     (if rootdir \<noteq> [] \<and> hd rootdir = CHR ''/''
      then map_option (\<lambda>(_, _, save). (0, save))
             (createar_save_directory_wrapper env save ''/'' (snprintf_s PATH_MAX rootdir) None)
      else case concatenate_paths PATH_MAX (s_cwd env) rootdir of
        None \<Rightarrow> None
      | Some _ \<Rightarrow>
          map_option (\<lambda>(_, _, save). (0, save)) (createar_save_directory_wrapper env save ''.'' rootdir None))"

end
