(* ===== verification/Saveok.thy ===== *)
theory Saveok
  imports Savear
begin

text \<open>What the walk through a tree keeps: it ends without an access outside a buffer, and what it adds to the
  queue is well-formed.\<close>

section \<open>Well-formed environments and states\<close>

text \<open>Documented behaviour of the system calls: read and lgetxattr do not return more than they were asked for, a path
  that can be opened is shorter than PATH_MAX, and the names in a directory are names of at most NAME_MAX bytes. The
  options are as process_cmdline leaves them.\<close>

definition senv_ok :: "senv \<Rightarrow> bool" where
  "senv_ok env \<longleftrightarrow>
     s_mem env = mem_ok \<and> length (s_junk env) = 8 \<and>
     0 < datablocksize (s_opt env) \<and> unat (datablocksize (s_opt env)) \<le> FSA_MAX_BLKSIZE \<and>
     unat (smallfilethresh (s_opt env)) \<le> FSA_MAX_SMALLFILESIZE \<and>
     (\<forall>bs. 16 \<le> length (md5_hash (s_gcry env) bs)) \<and>
     (\<forall>p st. s_lstat env p = Some st \<longrightarrow> 0 \<le> t_size st \<and> t_size st < 2 ^ 63) \<and>
     (\<forall>p pos n. fst (s_read env p pos n) \<le> int n \<and> int (length (snd (s_read env p pos n))) = max 0 (fst (s_read env p pos n))) \<and>
     (\<forall>p name n. 0 < n \<longrightarrow> fst (s_getxattr env p name n) \<le> int n) \<and>
     (\<forall>p name n. int (length (snd (snd (s_getxattr env p name n)))) = max 0 (fst (s_getxattr env p name n))) \<and>
     (\<forall>p name. fst (s_getxattr env p name 0) < 0 \<longrightarrow> fst (s_getxattr env p name (2 ^ 64 - 1)) < 0) \<and>
     (\<forall>p names. s_opendir env p = Some names \<longrightarrow> length p < PATH_MAX \<and>
        (\<forall>name \<in> set names. name \<noteq> [] \<and> length name \<le> 255 \<and> CHR ''/'' \<notin> set name))"

text \<open>A precondition on the tree that is saved, which the system does not guarantee: the paths that concatenate_paths makes
  of a directory and a name in it, and of a symbolic link and its target, fit in a buffer of PATH_MAX bytes. Without
  it the function writes outside its buffer.\<close>

definition tree_fits :: "senv \<Rightarrow> bool" where
  "tree_fits env \<longleftrightarrow>
     (\<forall>p t. s_readlink env p = Some t \<longrightarrow> length p + length t + 2 \<le> PATH_MAX) \<and>
     (\<forall>p names. s_opendir env p = Some names \<longrightarrow> (\<forall>name \<in> set names. length p + length name + 2 \<le> PATH_MAX))"

lemma tree_fitsD:
  assumes "tree_fits env"
  shows "s_readlink env p = Some t \<Longrightarrow> length p + length t + 2 \<le> PATH_MAX"
    "s_opendir env p = Some names \<Longrightarrow> name \<in> set names \<Longrightarrow> length p + length name + 2 \<le> PATH_MAX"
  using assms unfolding tree_fits_def by blast+

lemma senv_okD:
  assumes "senv_ok env"
  shows "s_mem env = mem_ok" "length (s_junk env) = 8"
    "0 < datablocksize (s_opt env)" "unat (datablocksize (s_opt env)) \<le> FSA_MAX_BLKSIZE"
    "unat (smallfilethresh (s_opt env)) \<le> FSA_MAX_SMALLFILESIZE"
    "16 \<le> length (md5_hash (s_gcry env) bs)"
    "s_lstat env p = Some st \<Longrightarrow> 0 \<le> t_size st \<and> t_size st < 2 ^ 63"
    "s_read env p pos n = (res, bytes) \<Longrightarrow> res \<le> int n \<and> int (length bytes) = max 0 res"
    "s_getxattr env p name n = (valsize, e, valbuf) \<Longrightarrow> (0 < n \<longrightarrow> valsize \<le> int n) \<and> int (length valbuf) = max 0 valsize"
    "s_getxattr env p name 0 = (v0, e0, b0) \<Longrightarrow> v0 < 0 \<Longrightarrow>
      s_getxattr env p name (2 ^ 64 - 1) = (valsize, e, valbuf) \<Longrightarrow> valsize < 0"
    "s_opendir env p = Some names \<Longrightarrow> length p < PATH_MAX \<and>
      (\<forall>name \<in> set names. name \<noteq> [] \<and> length name \<le> 255 \<and> CHR ''/'' \<notin> set name)"
proof -
  note d = assms [unfolded senv_ok_def]
  note d1 = d [THEN conjunct1]
  note d2 = d [THEN conjunct2, THEN conjunct1]
  note d3 = d [THEN conjunct2, THEN conjunct2, THEN conjunct1]
  note d4 = d [THEN conjunct2, THEN conjunct2, THEN conjunct2, THEN conjunct1]
  note d5 = d [THEN conjunct2, THEN conjunct2, THEN conjunct2, THEN conjunct2, THEN conjunct1]
  note d6 = d [THEN conjunct2, THEN conjunct2, THEN conjunct2, THEN conjunct2, THEN conjunct2, THEN conjunct1]
  note d7 = d [THEN conjunct2, THEN conjunct2, THEN conjunct2, THEN conjunct2, THEN conjunct2, THEN conjunct2, THEN conjunct1]
  note d8 = d [THEN conjunct2, THEN conjunct2, THEN conjunct2, THEN conjunct2, THEN conjunct2, THEN conjunct2, THEN conjunct2, THEN conjunct1]
  note d9 = d [THEN conjunct2, THEN conjunct2, THEN conjunct2, THEN conjunct2, THEN conjunct2, THEN conjunct2, THEN conjunct2, THEN conjunct2, THEN conjunct1]
  note d10 = d [THEN conjunct2, THEN conjunct2, THEN conjunct2, THEN conjunct2, THEN conjunct2, THEN conjunct2, THEN conjunct2, THEN conjunct2, THEN conjunct2, THEN conjunct1]
  note d11 = d [THEN conjunct2, THEN conjunct2, THEN conjunct2, THEN conjunct2, THEN conjunct2, THEN conjunct2, THEN conjunct2, THEN conjunct2, THEN conjunct2, THEN conjunct2, THEN conjunct1]
  note d12 = d [THEN conjunct2, THEN conjunct2, THEN conjunct2, THEN conjunct2, THEN conjunct2, THEN conjunct2, THEN conjunct2, THEN conjunct2, THEN conjunct2, THEN conjunct2, THEN conjunct2]
  show "s_mem env = mem_ok" "length (s_junk env) = 8" "0 < datablocksize (s_opt env)"
    "unat (datablocksize (s_opt env)) \<le> FSA_MAX_BLKSIZE" "unat (smallfilethresh (s_opt env)) \<le> FSA_MAX_SMALLFILESIZE"
    "16 \<le> length (md5_hash (s_gcry env) bs)"
    by (rule d1 d2 d3 d4 d5 d6 [rule_format])+
  show "s_lstat env p = Some st \<Longrightarrow> 0 \<le> t_size st \<and> t_size st < 2 ^ 63"
    by (rule d7 [rule_format])
  show "s_opendir env p = Some names \<Longrightarrow> length p < PATH_MAX \<and>
      (\<forall>name \<in> set names. name \<noteq> [] \<and> length name \<le> 255 \<and> CHR ''/'' \<notin> set name)"
    by (rule d12 [THEN spec, THEN spec, THEN mp])
  show "s_read env p pos n = (res, bytes) \<Longrightarrow> res \<le> int n \<and> int (length bytes) = max 0 res"
    using d8 [rule_format, of p pos n] by simp
  show "s_getxattr env p name n = (valsize, e, valbuf) \<Longrightarrow> (0 < n \<longrightarrow> valsize \<le> int n) \<and> int (length valbuf) = max 0 valsize"
    using d9 [rule_format, of n p name] d10 [rule_format, of p name n] by simp
  show "s_getxattr env p name 0 = (v0, e0, b0) \<Longrightarrow> v0 < 0 \<Longrightarrow>
      s_getxattr env p name (2 ^ 64 - 1) = (valsize, e, valbuf) \<Longrightarrow> valsize < 0"
    using d11 [rule_format, of p name] by (metis fst_conv)
qed

definition saved_item_ok :: "u16 \<Rightarrow> qstatus \<times> qinfo \<Rightarrow> bool" where
  "saved_item_ok fsid item \<longleftrightarrow>
     (case item of
        (QITEM_STATUS_TODO, Qblock b) \<Rightarrow>
          length (blkdata b) = unat (blkrealsize b) \<and> unat (blkrealsize b) \<le> FSA_MAX_BLKSIZE \<and> blkfsid b = fsid
      | (QITEM_STATUS_DONE, Qheader h) \<Rightarrow>
          hmagic h \<in> {FSA_MAGIC_OBJT, FSA_MAGIC_FILF} \<and> hfsid h = fsid \<and> dico_wf (hdico h)
      | _ \<Rightarrow> False)"

definition regm_ok :: "cregmulti \<Rightarrow> bool" where
  "regm_ok m \<longleftrightarrow> regmulti_inv m \<and> (\<forall>h. Some h \<in> set (take (unat (rcount m)) (objhead m)) \<longrightarrow> dico_wf h)"

definition save_ok :: "csavear \<Rightarrow> bool" where
  "save_ok save \<longleftrightarrow> regm_ok (sv_regmulti save) \<and> sv_fstype save < length filesys"

text \<open>What a step of the walk may change of the rest.\<close>

definition save_grows :: "csavear \<Rightarrow> csavear \<Rightarrow> bool" where
  "save_grows save save' \<longleftrightarrow> sv_fstype save' = sv_fstype save \<and> sv_fsid save' = sv_fsid save \<and>
     (\<exists>items. sv_added save' = sv_added save @ items \<and> (\<forall>i \<in> set items. saved_item_ok (sv_fsid save) i))"

lemma save_grows_refl [simp]: "save_grows save save"
  by (simp add: save_grows_def)

lemma save_grows_trans [trans]: "save_grows a b \<Longrightarrow> save_grows b c \<Longrightarrow> save_grows a c"
  unfolding save_grows_def by (elim conjE exE) (simp, metis UnE)

lemma save_grows_update:
  "save_grows a b \<Longrightarrow> sv_fstype c = sv_fstype b \<Longrightarrow> sv_fsid c = sv_fsid b \<Longrightarrow> sv_added c = sv_added b \<Longrightarrow> save_grows a c"
  by (simp add: save_grows_def)

lemma g_queue_add_grows:
  assumes "saved_item_ok (sv_fsid save) item" and "g_queue_add env item save = (r, save')"
  shows "save_grows save save' \<and> (save_ok save \<longrightarrow> save_ok save') \<and> sv_regmulti save' = sv_regmulti save"
  using assms by (auto simp: g_queue_add_def save_grows_def save_ok_def Let_def split: if_splits)

section \<open>Dictionaries\<close>

lemma unat_of_nat_le: "unat (of_nat n :: 'a :: len word) \<le> n"
  by (simp add: unsigned_of_nat take_bit_nat_less_eq_self)

lemma dico_add_wf:
  assumes "dico_wf d"
  shows "dico_wf (snd (dico_add_u32 mem_ok d s k v32))" "dico_wf (snd (dico_add_u64 mem_ok d s k v64))"
    "dico_wf (snd (dico_add_string mem_ok d s k str))"
    "unat sz \<le> length data \<Longrightarrow> dico_wf (snd (dico_add_data mem_ok d s k data sz))"
proof -
  have "unat (of_nat (length str) + 1 :: u16) \<le> length str + 1"
    using unat_of_nat_le [of "length str + 1", where 'a = 16] by (simp add: add.commute)
  then show "dico_wf (snd (dico_add_string mem_ok d s k str))"
    unfolding dico_add_string_def Let_def
    by (intro dico_add_generic_wf assms) (simp add: bytes_of_string_def)
qed (use assms in \<open>auto simp: dico_add_u32_def dico_add_u64_def dico_add_data_def Let_def intro!: dico_add_generic_wf\<close>)

lemma run_adds_wf:
  "(\<And>add d. add \<in> set adds \<Longrightarrow> dico_wf d \<Longrightarrow> dico_wf (snd (add d))) \<Longrightarrow> dico_wf d \<Longrightarrow> dico_wf (snd (run_adds adds d))"
proof (induction adds arbitrary: d)
  case (Cons add adds)
  then show ?case by (cases "add d") (force simp: split: prod.split)
qed simp

lemma xattr_value_ok:
  assumes "senv_ok env" and "dico_wf d"
  shows "xattr_value env p name strict n d \<noteq> None \<and> (\<forall>a d'. xattr_value env p name strict n d = Some (a, d') \<longrightarrow> dico_wf d')"
proof -
  obtain attrsize e b where g: "s_getxattr env p name 0 = (attrsize, e, b)" by (cases "s_getxattr env p name 0")
  define k where "k = (if attrsize < 0 then 2 ^ 64 - 1 else nat attrsize)"
  obtain valsize e2 valbuf where v: "s_getxattr env p name k = (valsize, e2, valbuf)"
    by (cases "s_getxattr env p name k")
  have len: "int (length valbuf) = max 0 valsize"
    using senv_okD(9) [OF assms(1) v] by simp
  have neg: "valsize < 0" if "attrsize < 0"
    using senv_okD(10) [OF assms(1) g that] v that by (simp add: k_def)
  have le: "valsize \<le> int k" if "0 < k"
    using senv_okD(9) [OF assms(1) v] that by simp
  have zero: "valsize = 0" if "attrsize = 0"
    using v g that by (simp add: k_def)
  have "\<not> valsize > max 0 (attrsize + 1)"
    using neg le zero by (cases "attrsize < 0"; cases "attrsize = 0") (auto simp: k_def)
  moreover have "unat (of_int valsize :: u16) \<le> length valbuf" if "0 \<le> valsize"
  proof -
    have "length valbuf = nat valsize" using len that by simp
    then show ?thesis using unat_of_nat_le [of "nat valsize", where 'a = 16] that by simp
  qed
  moreover note senv_okD(1) [OF assms(1)]
  ultimately show ?thesis
    using assms(2) by (auto simp: xattr_value_def g v k_def [symmetric] Let_def dico_add_wf)
qed

lemma xattr_loop_ok:
  "senv_ok env \<Longrightarrow> dico_wf d \<Longrightarrow> \<exists>r d'. xattr_loop env p buffer listlen pos n ret d = Some (r, d') \<and> dico_wf d'"
proof (induction env p buffer listlen pos n ret d rule: xattr_loop.induct)
  case (1 env p buffer listlen pos n ret d)
  show ?case
  proof (cases "int pos < listlen \<and> pos < 4096")
    case True
    obtain a f d' where x: "xattr_value env p (cstr (drop pos buffer)) False n d = Some ((a, f), d')" "dico_wf d'"
      using xattr_value_ok [OF 1(2,3), of p "cstr (drop pos buffer)" False n] by fastforce
    show ?thesis
      using 1(1) [OF True refl x(1) refl refl 1(2) x(2)] True x(1)
      by (simp add: xattr_loop.simps [of env p buffer listlen pos] Let_def)
  next
    case False
    then show ?thesis using 1(3) by (auto simp: xattr_loop.simps [of env p buffer listlen pos])
  qed
qed

lemma winattr_loop_ok:
  "senv_ok env \<Longrightarrow> dico_wf d \<Longrightarrow> \<exists>r d'. winattr_loop env p relpath names n ret d = Some (r, d') \<and> dico_wf d'"
proof (induction names arbitrary: n ret d)
  case (Cons name names)
  obtain a f d' where x: "xattr_value env p name True n d = Some ((a, f), d')" "dico_wf d'"
    using xattr_value_ok [OF Cons.prems, of p name True n] by fastforce
  show ?case using Cons x by auto
qed simp

lemma objtype_multi [simp]:
  "OBJTYPE_NULL \<noteq> OBJTYPE_REGFILEMULTI" "OBJTYPE_DIR \<noteq> OBJTYPE_REGFILEMULTI" "OBJTYPE_SYMLINK \<noteq> OBJTYPE_REGFILEMULTI"
  "OBJTYPE_HARDLINK \<noteq> OBJTYPE_REGFILEMULTI" "OBJTYPE_CHARDEV \<noteq> OBJTYPE_REGFILEMULTI" "OBJTYPE_BLOCKDEV \<noteq> OBJTYPE_REGFILEMULTI"
  "OBJTYPE_FIFO \<noteq> OBJTYPE_REGFILEMULTI" "OBJTYPE_SOCKET \<noteq> OBJTYPE_REGFILEMULTI" "OBJTYPE_REGFILEUNIQUE \<noteq> OBJTYPE_REGFILEMULTI"
  by (simp_all add: fsa_const)

lemma dirpath_scan_length: "length (dirpath_scan buf i) \<le> length buf"
  by (induction i) (auto simp: Suc_le_eq)

lemma extract_dirpath_length: "length (extract_dirpath path n) \<le> length path"
  using dirpath_scan_length [of "snprintf_s n path" "length (snprintf_s n path)"]
  by (simp add: extract_dirpath_def snprintf_s_def Let_def)

lemma copy_path_length: "length (copy_path p) \<le> length p"
  by (simp add: copy_path_eq)

lemma concatenate_paths_strip:
  assumes "length (copy_path p1) + length (dropWhile (\<lambda>c. c = CHR ''/'') p2) + 2 \<le> PATH_MAX"
  shows "concatenate_paths PATH_MAX p1 p2 = Some (copy_path p1 @ CHR ''/'' # dropWhile (\<lambda>c. c = CHR ''/'') p2)"
proof -
  have "length (copy_path p1) + min (length (dropWhile (\<lambda>c. c = CHR ''/'') p2)) (PATH_MAX - 1) + 2 \<le> PATH_MAX"
    using assms by linarith
  then show ?thesis by (simp add: concatenate_paths_eq PATH_MAX_def Let_def)
qed

lemma concatenate_paths_ok:
  assumes "length p1 + length p2 + 2 \<le> PATH_MAX"
  shows "concatenate_paths PATH_MAX p1 p2 = Some (copy_path p1 @ CHR ''/'' # dropWhile (\<lambda>c. c = CHR ''/'') p2)"
  by (rule concatenate_paths_strip)
    (use assms copy_path_length [of p1] length_dropWhile_le [of "\<lambda>c. c = CHR ''/''" p2] in linarith)

lemma skip_name_length: "length (skip_name s) \<le> length s"
  using length_dropWhile_le [of "\<lambda>c. c \<noteq> CHR ''/''" "if s \<noteq> [] \<and> hd s = CHR ''/'' then tl s else s"]
  by (auto simp: skip_name_def split: if_splits)

lemma fix_linktarget_length: "length (fix_linktarget s) \<le> length s"
  using skip_name_length [of s] skip_name_length [of "skip_name s"] skip_name_length [of "skip_name (skip_name s)"]
  by (simp add: fix_linktarget_def)

lemma save_targettype_ok:
  assumes "senv_ok env" and "dico_wf d" and "length fullpath + length linktarget + 2 \<le> PATH_MAX"
  shows "\<exists>d'. save_targettype env fullpath buffer linktarget d = Some d' \<and> dico_wf d'"
proof -
  have "length (extract_dirpath fullpath PATH_MAX) + length linktarget + 2 \<le> PATH_MAX"
    using extract_dirpath_length [of fullpath PATH_MAX] assms(3) by simp
  then show ?thesis
    using assms(2) senv_okD(1) [OF assms(1)]
    by (auto simp: save_targettype_def concatenate_paths_ok dico_add_wf split: option.splits)
qed

lemma stdattr_regfile_ok:
  assumes "senv_ok env" and "dico_wf d" and "stdattr_regfile env save relpath st d cost = (r, ty, cost', flags, d', save')"
  shows "dico_wf d' \<and> save_grows save save' \<and> sv_regmulti save' = sv_regmulti save \<and>
    (ty = OBJTYPE_REGFILEMULTI \<longrightarrow> t_size st < uint (smallfilethresh (s_opt env)))"
  using assms(2,3) senv_okD(1) [OF assms(1)]
  by (auto simp: stdattr_regfile_def Let_def dico_add_wf save_grows_def split: if_splits prod.splits)

lemma stdattr_switch_ok:
  assumes "senv_ok env" and "save_ok save" and "dico_wf d" and fits: "tree_fits env"
  shows "stdattr_switch env save fullpath relpath st d cost \<noteq> None \<and>
    (\<forall>r ty cost' flags d' save'. stdattr_switch env save fullpath relpath st d cost = Some (r, ty, cost', flags, d', save') \<longrightarrow>
      dico_wf d' \<and> save_grows save save' \<and> sv_regmulti save' = sv_regmulti save \<and>
      (ty = OBJTYPE_REGFILEMULTI \<longrightarrow> t_size st < uint (smallfilethresh (s_opt env))))"
proof (cases "file_type (t_mode st) = S_IFLNK")
  case True
  show ?thesis
  proof (cases "s_readlink env fullpath")
    case None
    then show ?thesis using True assms(3) by (auto simp: stdattr_switch_def s_if_defs)
  next
    case (Some buffer)
    have len: "length fullpath + length buffer + 2 \<le> PATH_MAX" using tree_fitsD(1) [OF fits Some] .
    define d1 where "d1 = snd (dico_add_string (s_mem env) d DICO_OBJ_SECTION_STDATTR DISKITEMKEY_SYMLINK (fix_linktarget buffer))"
    have d1: "dico_wf d1" using assms(3) senv_okD(1) [OF assms(1)] by (simp add: d1_def dico_add_wf)
    obtain d2 where d2: "save_targettype env fullpath buffer (fix_linktarget buffer) d1 = Some d2" "dico_wf d2"
      using save_targettype_ok [OF assms(1) d1, of fullpath "fix_linktarget buffer" buffer]
        fix_linktarget_length [of buffer] len by auto
    have "sv_fstype save < length filesys" using assms(2) by (simp add: save_ok_def)
    then show ?thesis
      using True Some len d1 d2
      by (auto simp: stdattr_switch_def Let_def s_if_defs d1_def [symmetric])
  qed
next
  case False
  note wf = dico_add_wf(2) [OF assms(3)]
  obtain r ty c f d' save' where x: "stdattr_regfile env save relpath st d cost = (r, ty, c, f, d', save')"
    by (cases "stdattr_regfile env save relpath st d cost") force
  show ?thesis
    using False assms(3) wf senv_okD(1) [OF assms(1)] stdattr_regfile_ok [OF assms(1,3) x] x
    by (auto simp: stdattr_switch_def Let_def)
qed

lemma stdattr_ok:
  assumes "senv_ok env" and "save_ok save" and "dico_wf d" and fits: "tree_fits env"
  shows "createar_item_stdattr env save fullpath relpath st d \<noteq> None \<and>
    (\<forall>r ty cost d' save'. createar_item_stdattr env save fullpath relpath st d = Some (r, ty, cost, d', save') \<longrightarrow>
      dico_wf d' \<and> save_grows save save' \<and> sv_regmulti save' = sv_regmulti save \<and>
      (ty = OBJTYPE_REGFILEMULTI \<longrightarrow> t_size st < uint (smallfilethresh (s_opt env))))"
proof -
  obtain r d1 where a: "run_adds (stdattr_adds env save relpath st) d = (r, d1)" by force
  have "dico_wf (snd (run_adds (stdattr_adds env save relpath st) d))"
    using assms(3) senv_okD(1) [OF assms(1)]
    by (intro run_adds_wf) (auto simp: stdattr_adds_def Let_def dico_add_wf)
  then have d1: "dico_wf d1" by (simp add: a)
  let ?s = "save\<lparr>sv_objectid := sv_objectid save + 1\<rparr>"
  have s: "save_ok ?s" "save_grows save ?s" using assms(2) by (auto simp: save_ok_def save_grows_def)
  note w = stdattr_switch_ok [OF assms(1) s(1) d1 fits, of fullpath relpath st "of_nat FSA_COST_PER_FILE"]
  obtain r2 ty c f d2 save2 where x:
    "stdattr_switch env ?s fullpath relpath st d1 (of_nat FSA_COST_PER_FILE) = Some (r2, ty, c, f, d2, save2)"
    using w by (cases "stdattr_switch env ?s fullpath relpath st d1 (of_nat FSA_COST_PER_FILE)") force+
  have x2: "dico_wf d2" "save_grows ?s save2" "sv_regmulti save2 = sv_regmulti ?s"
    "ty = OBJTYPE_REGFILEMULTI \<longrightarrow> t_size st < uint (smallfilethresh (s_opt env))"
    using w x by blast+
  have g: "save_grows save save2" using s(2) x2(2) by (rule save_grows_trans)
  show ?thesis
    using d1 x2 g s(2) senv_okD(1) [OF assms(1)]
    by (auto simp: createar_item_stdattr_def Let_def a x dico_add_wf split: if_splits)
qed

section \<open>Contents of files\<close>

lemma padded_block_length: "res \<le> int n \<Longrightarrow> int (length bytes) = max 0 res \<Longrightarrow> length (padded_block res bytes n) = n"
  by (simp add: padded_block_def)

lemma enqueue_loop_wf:
  assumes "\<forall>x \<in> set heads. \<exists>h. x = Some h \<and> dico_wf h"
    and "enqueue_loop mem_ok stk addq fsid count heads offset added = (r, heads', added')"
  shows "length heads' = length heads \<and> (\<forall>x \<in> set heads'. \<exists>h. x = Some h \<and> dico_wf h) \<and>
    (\<exists>items. added' = added @ items \<and> (\<forall>i \<in> set items. saved_item_ok fsid i))"
  using assms
proof (induction heads arbitrary: offset added r heads' added')
  case (Cons x heads)
  obtain h where h: "x = Some h" "dico_wf h" using Cons.prems(1) by auto
  have hs: "\<forall>x \<in> set heads. \<exists>h. x = Some h \<and> dico_wf h" using Cons.prems(1) by simp
  obtain r1 filesize where 1: "dico_get_u64 h DICO_OBJ_SECTION_STDATTR DISKITEMKEY_SIZE stk = (r1, filesize)" by force
  obtain r2 h2 where 2: "dico_add_u32 mem_ok h DICO_OBJ_SECTION_STDATTR DISKITEMKEY_MULTIFILESCOUNT count = (r2, h2)" by force
  obtain r3 h3 where 3: "dico_add_u32 mem_ok h2 DICO_OBJ_SECTION_STDATTR DISKITEMKEY_MULTIFILESOFFSET offset = (r3, h3)" by force
  have wf2: "dico_wf h2" using dico_add_wf(1) [OF h(2)] 2 by (metis snd_conv)
  have wf3: "dico_wf h3" using dico_add_wf(1) [OF wf2] 3 by (metis snd_conv)
  let ?i = "(QITEM_STATUS_DONE, Qheader \<lparr>hmagic = FSA_MAGIC_OBJT, hfsid = fsid, hdico = h3\<rparr>)"
  obtain r4 heads4 added4 where 4:
    "enqueue_loop mem_ok stk addq fsid count heads (offset + ucast filesize) (added @ [?i]) = (r4, heads4, added4)"
    by (metis prod_cases3)
  have i: "saved_item_ok fsid ?i" using wf3 by (simp add: saved_item_ok_def)
  obtain items where rest: "length heads4 = length heads" "\<forall>x \<in> set heads4. \<exists>h. x = Some h \<and> dico_wf h"
    "added4 = (added @ [?i]) @ items" "\<forall>i \<in> set items. saved_item_ok fsid i"
    using Cons.IH [OF hs 4] by blast
  have e: "(r, heads', added') =
      (if r1 \<noteq> 0 then (-1, Some h # heads, added) else if r2 \<noteq> 0 then (-1, Some h2 # heads, added)
       else if r3 \<noteq> 0 \<or> addq (length added) \<noteq> 0 then (-1, Some h3 # heads, added) else (r4, Some h3 # heads4, added4))"
    using Cons.prems(2) 4 by (auto simp: h(1) 1 2 3 split: if_splits)
  consider "heads' = Some h # heads" "added' = added" | "heads' = Some h2 # heads" "added' = added"
    | "heads' = Some h3 # heads" "added' = added" | "heads' = Some h3 # heads4" "added' = added4"
    using e by (auto split: if_splits)
  then show ?case
  proof cases
    case 4
    then show ?thesis using rest wf3 i by (auto intro!: exI [of _ "?i # items"])
  qed (use h(2) hs wf2 wf3 in auto)
qed simp

lemma regm_ok_headers:
  "regm_ok m \<Longrightarrow> \<forall>x \<in> set (take (unat (rcount m)) (objhead m)). \<exists>h. x = Some h \<and> dico_wf h"
proof
  fix x
  assume m: "regm_ok m" and x: "x \<in> set (take (unat (rcount m)) (objhead m))"
  then obtain i where "i < unat (rcount m)" "x = objhead m ! i" by (auto simp: in_set_conv_nth)
  then have "x \<noteq> None" using m by (simp add: regm_ok_def regmulti_inv_def)
  then show "\<exists>h. x = Some h \<and> dico_wf h" using m x by (auto simp: regm_ok_def)
qed

lemma regm_ok_intro:
  assumes "regmulti_inv m" and "heads = take (unat (rcount m)) (objhead m)"
    and "length heads' = length heads" and "\<forall>x \<in> set heads'. \<exists>h. x = Some h \<and> dico_wf h"
  shows "regm_ok (m\<lparr>objhead := heads' @ drop (unat (rcount m)) (objhead m)\<rparr>)"
proof -
  have l: "length heads' = unat (rcount m)" using assms(1-3) by (simp add: regmulti_inv_def)
  have "heads' ! i \<noteq> None" if "i < unat (rcount m)" for i
    using assms(4) l that by (metis nth_mem option.distinct(1))
  then show ?thesis
    using assms(1,4) l by (auto simp: regm_ok_def regmulti_inv_def nth_append)
qed

lemma regmulti_enqueue_ok:
  assumes "regm_ok m" and "regmulti_save_enqueue mem_ok stk addq m fsid added = (r, m', added')"
  shows "regm_ok m' \<and> (\<exists>items. added' = added @ items \<and> (\<forall>i \<in> set items. saved_item_ok fsid i))"
proof (cases "rcount m = 0")
  case True
  then show ?thesis using assms by (simp add: regmulti_save_enqueue_def)
next
  case False
  let ?heads = "take (unat (rcount m)) (objhead m)"
  obtain r1 heads1 added1 where 1:
    "enqueue_loop mem_ok stk addq fsid (rcount m) ?heads 0 added = (r1, heads1, added1)" by (metis prod_cases3)
  obtain items where w: "length heads1 = length ?heads" "\<forall>x \<in> set heads1. \<exists>h. x = Some h \<and> dico_wf h"
    "added1 = added @ items" "\<forall>i \<in> set items. saved_item_ok fsid i"
    using enqueue_loop_wf [OF regm_ok_headers [OF assms(1)] 1] by blast
  let ?m = "m\<lparr>objhead := heads1 @ drop (unat (rcount m)) (objhead m)\<rparr>"
  have m: "regm_ok ?m" using assms(1) w(1,2) by (intro regm_ok_intro [OF _ refl]) (simp_all add: regm_ok_def)
  let ?b = "zero_blockinfo\<lparr>blkrealsize := usedsize m, blkdata := take (unat (usedsize m)) (rdata m), blkoffset := 0, blkfsid := fsid\<rparr>"
  have "unat (usedsize m) \<le> FSA_MAX_BLKSIZE" "unat (usedsize m) \<le> length (rdata m)"
    using assms(1) by (auto simp: regm_ok_def regmulti_inv_def)
  then have b: "saved_item_ok fsid (QITEM_STATUS_TODO, Qblock ?b)" by (simp add: saved_item_ok_def)
  have "(r, m', added') = (if r1 \<noteq> 0 \<or> addq (length added1) \<noteq> 0 then (-1, ?m, added1)
      else (0, ?m, added1 @ [(QITEM_STATUS_TODO, Qblock ?b)]))"
    using assms(2) False by (simp add: regmulti_save_enqueue_def 1 Let_def split: if_splits)
  then show ?thesis using m w(3,4) b by (auto split: if_splits)
qed

lemma regmulti_empty_ok: "regm_ok m \<Longrightarrow> regm_ok (snd (regmulti_empty m))"
  by (auto simp: regm_ok_def regmulti_inv_def regmulti_empty_def unat_maxitems FSA_MAX_SMALLFILECOUNT_def)

lemma regmulti_addfile_ok:
  assumes "regm_ok m" and "dico_wf h" and "unat n < 2 ^ 31" and "length data = unat n"
  shows "\<exists>r m'. regmulti_save_addfile m h data n = Some (r, m') \<and> regm_ok m'"
proof -
  have inv: "regmulti_inv m" using assms(1) by (simp add: regm_ok_def)
  obtain r m' where a: "regmulti_save_addfile m h data n = Some (r, m')" "regmulti_inv m'"
    "r = 0 \<longrightarrow> unat (rcount m') = unat (rcount m) + 1 \<and> objhead m' = (objhead m)[unat (rcount m) := Some h]"
    "r = 0 \<longleftrightarrow> unat (rcount m) < 512 \<and> unat (usedsize m) + unat n \<le> unat (maxblksize m)"
    using addfile_inv [OF inv assms(3,4), of h] by blast
  show ?thesis
  proof (cases "r = 0")
    case True
    have "unat (rcount m) < length (objhead m)" using True a(4) inv by (simp add: regmulti_inv_def FSA_MAX_SMALLFILECOUNT_def)
    then have "set (take (unat (rcount m')) (objhead m')) = insert (Some h) (set (take (unat (rcount m)) (objhead m)))"
      using True a(3) by (simp add: take_Suc_conv_app_nth)
    then show ?thesis using a(1,2) assms(1,2) by (auto simp: regm_ok_def)
  next
    case False
    have "m' = m" using a(1) False by (auto simp: regmulti_save_addfile_def split: if_splits)
    then show ?thesis using a(1) assms(1) by auto
  qed
qed

lemma regfile_multi_ok:
  assumes env: "senv_ok env" and ok: "save_ok save" and wf: "dico_wf h" and size: "unat filesize \<le> FSA_MAX_SMALLFILESIZE"
  shows "\<exists>r save'. createar_obj_regfile_multi env save h p filesize = Some (r, save') \<and> save_ok save' \<and> save_grows save save'"
proof -
  obtain res bytes where rd: "s_read env p 0 (unat filesize) = (res, bytes)" by force
  have r: "res \<le> int (unat filesize)" "int (length bytes) = max 0 res" using senv_okD(8) [OF env rd] by auto
  define databuf where "databuf = padded_block res bytes (unat filesize)"
  have len: "length databuf = unat filesize" using padded_block_length r by (simp add: databuf_def)
  have small: "unat (ucast filesize :: u32) = unat filesize" "unat (ucast filesize :: u32) < 2 ^ 31"
    using size by (simp_all add: FSA_MAX_SMALLFILESIZE_def unsigned_ucast_eq take_bit_nat_eq_self)
  define h2 where "h2 = snd (dico_add_data (s_mem env) h 0 DISKITEMKEY_MD5SUM (take 16 (md5_hash (s_gcry env) databuf)) 16)"
  have h2: "dico_wf h2"
    using dico_add_wf(4) [OF wf] senv_okD(1) [OF env] senv_okD(6) [OF env, of databuf] by (simp add: h2_def)
  obtain r1 m1 added1 where q: "regmulti_save_enqueue (s_mem env) (s_junk env) (s_addq env)
      (sv_regmulti save) (sv_fsid save) (sv_added save) = (r1, m1, added1)" by (metis prod_cases3)
  have m: "regm_ok (sv_regmulti save)" using ok by (simp add: save_ok_def)
  obtain items where q1: "regm_ok m1" "added1 = sv_added save @ items" "\<forall>i \<in> set items. saved_item_ok (sv_fsid save) i"
    using regmulti_enqueue_ok [OF m] q senv_okD(1) [OF env] by metis
  define full where "full \<longleftrightarrow> \<not> regmulti_save_enough_space_for_new_file (sv_regmulti save) (ucast filesize)"
  define save1 where "save1 = (if full then save\<lparr>sv_regmulti := (if r1 \<noteq> 0 then m1 else snd (regmulti_empty m1)), sv_added := added1\<rparr> else save)"
  have s1: "save_ok save1" "save_grows save save1"
    using ok q1 regmulti_empty_ok [OF q1(1)] by (auto simp: save1_def save_ok_def save_grows_def)
  obtain r2 m2 where a: "regmulti_save_addfile (sv_regmulti save1) h2 databuf (ucast filesize) = Some (r2, m2)" "regm_ok m2"
    using regmulti_addfile_ok [of "sv_regmulti save1" h2 "ucast filesize" databuf] s1(1) h2 small len
    by (auto simp: save_ok_def)
  let ?save2 = "save1\<lparr>sv_regmulti := m2\<rparr>"
  have s2: "save_ok ?save2" "save_grows save ?save2"
    using s1 a(2) by (auto simp: save_ok_def save_grows_def)
  have "createar_obj_regfile_multi env save h p filesize =
      (if \<not> s_open env p \<or> res \<noteq> uint filesize \<and> \<not> (0 \<le> res \<and> res < uint filesize) then Some (-1, save)
       else if full \<and> r1 \<noteq> 0 then Some (-1, save1)
       else Some (if r2 \<noteq> 0 then -1 else if res \<noteq> uint filesize then -1 else 0, ?save2))"
    using size a(1) unfolding createar_obj_regfile_multi_def save1_def
    by (auto simp: rd q Let_def full_def [symmetric] databuf_def [symmetric] h2_def [symmetric] split: if_splits)
  then show ?thesis using s1 s2 ok by (auto split: if_splits)
qed

lemma regfile_blocks_ok:
  assumes "senv_ok env" and "save_ok save"
  shows "\<exists>r failed md5 save'. regfile_blocks env p filesize filepos eof md5ctx ret save = Some (r, failed, md5, save') \<and>
    save_ok save' \<and> save_grows save save'"
  using assms(2)
proof (induction "filesize - filepos" arbitrary: filepos eof md5ctx ret save rule: less_induct)
  case less
  show ?case
  proof (cases "filesize > 0 \<and> filepos < filesize \<and> \<not> save_interrupted env save")
    case False
    then have "regfile_blocks env p filesize filepos eof md5ctx ret save = Some (ret, False, md5ctx, save)"
      by (subst regfile_blocks.simps) auto
    then show ?thesis using less.prems by auto
  next
    case True
    define cur where "cur = min (filesize - filepos) (unat (datablocksize (s_opt env)))"
    have cur: "0 < cur" "cur \<le> FSA_MAX_BLKSIZE"
      using True senv_okD(3,4) [OF assms(1)] by (auto simp: cur_def word_less_nat_alt)
    obtain res bytes where rd: "(if eof then (0, []) else s_read env p filepos cur) = (res, bytes)" by force
    have r: "res \<le> int cur" "int (length bytes) = max 0 res"
      using rd senv_okD(8) [OF assms(1), of p filepos cur] cur by (auto split: if_splits)
    define blk where "blk = padded_block res bytes cur"
    have len: "length blk = cur" using padded_block_length r by (simp add: blk_def)
    let ?b = "zero_blockinfo\<lparr>blkrealsize := of_nat cur, blkdata := blk, blkoffset := of_nat filepos, blkfsid := sv_fsid save\<rparr>"
    have u: "unat (of_nat cur :: u32) = cur"
      using cur(2) by (simp add: FSA_MAX_BLKSIZE_def unsigned_of_nat take_bit_nat_eq_self)
    have i: "saved_item_ok (sv_fsid save) (QITEM_STATUS_TODO, Qblock ?b)"
      using len cur(2) u by (simp add: saved_item_ok_def)
    obtain r1 save1 where q: "g_queue_add env (QITEM_STATUS_TODO, Qblock ?b) save = (r1, save1)" by force
    have s1: "save_ok save1" "save_grows save save1" using g_queue_add_grows [OF i q] less.prems by auto
    define short where "short \<longleftrightarrow> \<not> eof \<and> res \<noteq> int cur"
    let ?rest = "regfile_blocks env p filesize (filepos + cur) (eof \<or> short \<and> res < int cur) (md5ctx @ blk)
        (if short then -1 else ret) save1"
    have e: "regfile_blocks env p filesize filepos eof md5ctx ret save =
        (if short \<and> res < 0 then Some (-1, True, md5ctx, save)
         else if r1 \<noteq> 0 then Some (-1, True, md5ctx @ blk, save1) else ?rest)"
    proof -
      have "regfile_blocks env p filesize filepos eof md5ctx ret save =
        (let short = (\<not> eof \<and> res \<noteq> int cur); ret = (if short then -1 else ret)
         in if short \<and> res < 0 then Some (-1, True, md5ctx, save)
            else if r1 \<noteq> 0 then Some (-1, True, md5ctx @ blk, save1)
            else regfile_blocks env p filesize (filepos + cur) (eof \<or> short \<and> res < int cur) (md5ctx @ blk) ret save1)"
        using True senv_okD(1) [OF assms(1)]
        by (subst regfile_blocks.simps, unfold Let_def cur_def [symmetric] rd prod.case blk_def [symmetric] q) simp
      then show ?thesis by (simp add: short_def Let_def)
    qed
    have "filesize - (filepos + cur) < filesize - filepos"
      using True [THEN conjunct2, THEN conjunct1] cur(1) by linarith
    from less.hyps [OF this s1(1)] obtain r2 f2 m2 save2 where
      "?rest = Some (r2, f2, m2, save2)" "save_ok save2" "save_grows save1 save2" by blast
    then show ?thesis using e s1 less.prems save_grows_trans [OF s1(2)] by auto
  qed
qed

lemma regfile_unique_ok:
  assumes env: "senv_ok env" and ok: "save_ok save" and wf: "dico_wf h"
  shows "\<exists>r save'. createar_obj_regfile_unique env save h p filesize = Some (r, save') \<and> save_ok save' \<and> save_grows save save'"
proof -
  obtain r1 save1 where q: "g_queue_add env (header_item h FSA_MAGIC_OBJT (sv_fsid save)) save = (r1, save1)" by force
  have "saved_item_ok (sv_fsid save) (header_item h FSA_MAGIC_OBJT (sv_fsid save))"
    using wf by (simp add: saved_item_ok_def header_item_def)
  then have s1: "save_ok save1" "save_grows save save1" using g_queue_add_grows [OF _ q] ok by auto
  obtain r2 failed md5 save2 where b: "regfile_blocks env p (unat filesize) 0 False [] 0 save1 = Some (r2, failed, md5, save2)"
    "save_ok save2" "save_grows save1 save2"
    using regfile_blocks_ok [OF env s1(1)] by blast
  have g2: "save_grows save save2" using s1(2) b(3) by (rule save_grows_trans)
  define f where "f = snd (dico_add_data mem_ok [] 0 BLOCKFOOTITEMKEY_MD5SUM (take 16 (md5_hash (s_gcry env) md5)) 16)"
  have f: "dico_wf f"
    using dico_add_wf(4) [OF dico_wf_Nil] senv_okD(6) [OF env, of md5] by (simp add: f_def)
  obtain r3 save3 where q3: "g_queue_add env (header_item f FSA_MAGIC_FILF (sv_fsid save2)) save2 = (r3, save3)" by force
  have "saved_item_ok (sv_fsid save2) (header_item f FSA_MAGIC_FILF (sv_fsid save2))"
    using f by (simp add: saved_item_ok_def header_item_def)
  then have s3: "save_ok save3" "save_grows save2 save3" using g_queue_add_grows [OF _ q3] b(2) by auto
  have g3: "save_grows save save3" using g2 s3(2) by (rule save_grows_trans)
  have "createar_obj_regfile_unique env save h p filesize =
      (if \<not> md5_open_ok (s_gcry env) \<or> \<not> s_open env p then Some (-1, save)
       else if failed then Some (r2, save2)
       else if save_interrupted env save2 \<or> \<not> md5_read_ok (s_gcry env) then Some (-1, save2)
       else if filesize > 0 then Some (if r3 \<noteq> 0 then -1 else r2, save3) else Some (r2, save2))"
    using senv_okD(1) [OF env]
    by (simp add: createar_obj_regfile_unique_def q b(1) dico_alloc_def f_def [symmetric] q3 Let_def)
  then show ?thesis using ok b(2) g2 s3(1) g3 by (auto split: if_splits)
qed

section \<open>Objects and directories\<close>

lemma save_contents_ok:
  assumes "senv_ok env" and "save_ok save" and "dico_wf d"
    and "objtype = OBJTYPE_REGFILEMULTI \<longrightarrow> unat (of_int (t_size st) :: u64) \<le> FSA_MAX_SMALLFILESIZE"
  shows "\<exists>r save'. save_contents env save objtype d p st n = Some (r, save') \<and> save_ok save' \<and> save_grows save save'"
proof -
  have stats: "save_ok (s\<lparr>sv_stats := x\<rparr>) \<and> save_grows save (s\<lparr>sv_stats := x\<rparr>)"
    if "save_ok s" "save_grows save s" for s x
    using that by (auto simp: save_ok_def save_grows_def)
  have "saved_item_ok (sv_fsid save) (header_item d FSA_MAGIC_OBJT (sv_fsid save))"
    using assms(3) by (simp add: saved_item_ok_def header_item_def)
  then have q: "\<exists>r save'. g_queue_add env (header_item d FSA_MAGIC_OBJT (sv_fsid save)) save = (r, save') \<and>
      save_ok save' \<and> save_grows save save'"
    using g_queue_add_grows assms(2) by (metis surj_pair)
  consider "objtype \<notin> header_only_types" "objtype \<notin> {OBJTYPE_REGFILEUNIQUE, OBJTYPE_REGFILEMULTI}"
    | "objtype \<in> header_only_types" | "objtype = OBJTYPE_REGFILEUNIQUE" "objtype \<notin> header_only_types"
    | "objtype = OBJTYPE_REGFILEMULTI" "objtype \<notin> header_only_types" "objtype \<noteq> OBJTYPE_REGFILEUNIQUE"
    by blast
  then show ?thesis
  proof cases
    case 1
    then show ?thesis using assms(2) by (simp add: save_contents_def)
  next
    case 2
    then show ?thesis using q stats assms(2) by (auto simp: save_contents_def)
  next
    case 3
    then show ?thesis
      using regfile_unique_ok [OF assms(1-3), of p "of_int (t_size st)"] stats assms(2) by (auto simp: save_contents_def)
  next
    case 4
    then show ?thesis
      using regfile_multi_ok [OF assms(1-3), of "of_int (t_size st)" p] assms(4) stats assms(2)
      by (auto simp: save_contents_def)
  qed
qed

lemma save_file_ok:
  assumes env: "senv_ok env" and fits: "tree_fits env" and ok: "save_ok save" and path: "concatenate_paths PATH_MAX fsroot relpath = Some fullpath"
    and size: "0 \<le> t_size st"
  shows "\<exists>r c save'. createar_save_file env save fsroot relpath st costeval = Some (r, c, save') \<and>
    save_ok save' \<and> save_grows save save'"
proof (cases "archwriter_is_path_to_curvol (sv_ai save) fullpath")
  case True
  then show ?thesis using ok path by (auto simp: createar_save_file_def save_ok_def save_grows_def)
next
  case False
  have al: "dico_alloc (s_mem env) = Some []" using senv_okD(1) [OF env] by (simp add: dico_alloc_def)
  note s = stdattr_ok [OF env ok dico_wf_Nil fits, of fullpath relpath st]
  then obtain r1 ty cost d1 save1 where 1:
    "createar_item_stdattr env save fullpath relpath st [] = Some (r1, ty, cost, d1, save1)"
    by (cases "createar_item_stdattr env save fullpath relpath st []") force+
  have 2: "dico_wf d1" "save_grows save save1" "sv_regmulti save1 = sv_regmulti save"
    "ty = OBJTYPE_REGFILEMULTI \<longrightarrow> t_size st < uint (smallfilethresh (s_opt env))"
    using s 1 by blast+
  have ok1: "save_ok save1" using ok 2(2,3) by (simp add: save_ok_def save_grows_def)
  have multi: "ty = OBJTYPE_REGFILEMULTI \<longrightarrow> unat (of_int (t_size st) :: u64) \<le> FSA_MAX_SMALLFILESIZE"
  proof
    assume "ty = OBJTYPE_REGFILEMULTI"
    then have "nat (t_size st) \<le> FSA_MAX_SMALLFILESIZE"
      using 2(4) senv_okD(5) [OF env] size uint_nat [of "smallfilethresh (s_opt env)"] by linarith
    moreover have "(of_int (t_size st) :: u64) = of_nat (nat (t_size st))" using size by simp
    ultimately show "unat (of_int (t_size st) :: u64) \<le> FSA_MAX_SMALLFILESIZE"
      using unat_of_nat_le [of "nat (t_size st)", where 'a = 64] by simp
  qed
  have "\<exists>rx d2. createar_item_xattr env fullpath d1 = Some (rx, d2) \<and> dico_wf d2"
    using xattr_loop_ok [OF env 2(1)] by (simp add: createar_item_xattr_def split: prod.split)
  then obtain rx d2 where x: "(if support_for_xattr (filesys ! sv_fstype save1)
      then createar_item_xattr env fullpath d1 else Some (0, d1)) = Some (rx, d2)" "dico_wf d2"
    using 2(1) by (cases "support_for_xattr (filesys ! sv_fstype save1)") auto
  have "\<exists>rw d3. createar_item_winattr env fullpath relpath d2 = Some (rw, d3) \<and> dico_wf d3"
    using winattr_loop_ok [OF env x(2)] by (simp add: createar_item_winattr_def)
  then obtain rw d3 where w: "(if winattr (filesys ! sv_fstype save1)
      then createar_item_winattr env fullpath relpath d2 else Some (0, d2)) = Some (rw, d3)" "dico_wf d3"
    using x(2) by (cases "winattr (filesys ! sv_fstype save1)") auto
  let ?save2 = "if \<not> save_interrupted env save1 \<and> sv_cost_global save1 > 0
    then save1\<lparr>sv_cost_current := sv_cost_current save1 + cost\<rparr> else save1"
  have s2: "save_ok ?save2" "save_grows save ?save2" using ok1 2(2) by (auto simp: save_ok_def save_grows_def)
  obtain r3 save3 where 3: "save_contents env ?save2 ty d3 fullpath st
      ((if r1 \<noteq> 0 then 1 else 0) + (if rx \<noteq> 0 then 1 else 0) + (if rw \<noteq> 0 then 1 else 0)) = Some (r3, save3)"
    "save_ok save3" "save_grows ?save2 save3"
    using save_contents_ok [OF env s2(1) w(2) multi] by blast
  have fst: "\<not> length filesys \<le> sv_fstype save1" using ok1 by (simp add: save_ok_def)
  have "createar_save_file env save fsroot relpath st costeval =
      (case costeval of Some c \<Rightarrow> Some (0, Some (c + cost), save1) | None \<Rightarrow> Some (r3, None, save3))"
    unfolding createar_save_file_def path option.case al 1 prod.case x(1) w(1) Let_def
    using False fst 3(1) by (simp del: if_split_asm split del: if_split split: option.split)
  moreover have "save_grows save save3" using s2(2) 3(3) by (rule save_grows_trans)
  ultimately show ?thesis using ok1 2(2) 3(2) by (cases costeval) auto
qed

text \<open>Paths: the relative one begins with at most one slash, the full one is the root, a slash and the rest.\<close>

abbreviation strip :: "string \<Rightarrow> string" where
  "strip p \<equiv> dropWhile (\<lambda>c. c = CHR ''/'') p"

definition path_ok :: "string \<Rightarrow> bool" where
  "path_ok path \<longleftrightarrow> length path \<le> length (strip path) + 1"

definition name_ok :: "string \<Rightarrow> bool" where
  "name_ok name \<longleftrightarrow> name \<noteq> [] \<and> length name \<le> 255 \<and> CHR ''/'' \<notin> set name"

definition full_of :: "string \<Rightarrow> string \<Rightarrow> string" where
  "full_of fsroot path = copy_path fsroot @ CHR ''/'' # strip path"

lemma strip_append: "strip (x @ y) = (if strip x = [] then strip y else strip x @ y)"
  by (induction x) auto

lemma strip_name: "name_ok name \<Longrightarrow> strip name = name"
  unfolding name_ok_def by (cases name) auto

lemma copy_path_append: "y \<noteq> [] \<Longrightarrow> copy_path (x @ y) = x @ copy_path y"
  by (simp add: copy_path_eq butlast_append)

lemma strip_copy_path:
  assumes "path_ok path" and "name_ok name"
  shows "strip (copy_path path @ CHR ''/'' # name) =
      (if strip path = [] then name else copy_path (strip path) @ CHR ''/'' # name)"
    "path_ok (copy_path path @ CHR ''/'' # name)"
proof -
  obtain pre where pre: "path = pre @ strip path" "length pre \<le> 1" "set pre \<subseteq> {CHR ''/''}"
  proof
    show "path = takeWhile (\<lambda>c. c = CHR ''/'') path @ strip path" by simp
    have "length path = length (takeWhile (\<lambda>c. c = CHR ''/'') path) + length (strip path)"
      using takeWhile_dropWhile_id [of "\<lambda>c. c = CHR ''/''" path] by (metis length_append)
    then show "length (takeWhile (\<lambda>c. c = CHR ''/'') path) \<le> 1" using assms(1) by (simp add: path_ok_def)
    show "set (takeWhile (\<lambda>c. c = CHR ''/'') path) \<subseteq> {CHR ''/''}" using set_takeWhileD by fastforce
  qed
  have n: "strip name = name" using strip_name [OF assms(2)] .
  have sp: "strip pre = []" using pre(3) by (induction pre) auto
  show e: "strip (copy_path path @ CHR ''/'' # name) =
      (if strip path = [] then name else copy_path (strip path) @ CHR ''/'' # name)"
  proof (cases "strip path = []")
    case True
    then have "path = pre" using pre(1) by (metis append_Nil2)
    then have "copy_path path = []" using pre(2,3) by (cases pre) auto
    then show ?thesis using True n by simp
  next
    case False
    have h: "hd (strip path) \<noteq> CHR ''/''" using hd_dropWhile [OF False] .
    have c: "copy_path path = pre @ copy_path (strip path)"
      using copy_path_append [OF False, of pre] pre(1) by simp
    have "copy_path (strip path) \<noteq> []" "hd (copy_path (strip path)) = hd (strip path)"
      using False h by (cases "strip path"; simp)+
    then have "strip (copy_path (strip path)) = copy_path (strip path)"
      using h by (cases "copy_path (strip path)") simp_all
    then show ?thesis using False c sp \<open>copy_path (strip path) \<noteq> []\<close> by (simp add: strip_append)
  qed
  show "path_ok (copy_path path @ CHR ''/'' # name)"
  proof (cases "strip path = []")
    case True
    then have "path = pre" using pre(1) by (metis append_Nil2)
    then have "copy_path path = []" using pre(2,3) by (cases pre) auto
    then show ?thesis using n by (simp add: path_ok_def)
  next
    case False
    have "copy_path path = pre @ copy_path (strip path)"
      using copy_path_append [OF False, of pre] pre(1) by simp
    then show ?thesis unfolding path_ok_def e using False pre(2) by auto
  qed
qed

lemma child_paths:
  assumes "path_ok path" and "name_ok name" and "length (full_of fsroot path) + length name + 2 \<le> PATH_MAX"
  shows "\<exists>relpath fullpath. concatenate_paths PATH_MAX path name = Some relpath \<and>
    concatenate_paths PATH_MAX (full_of fsroot path) name = Some fullpath \<and> path_ok relpath \<and>
    concatenate_paths PATH_MAX fsroot relpath = Some (full_of fsroot relpath) \<and>
    length (full_of fsroot path) < length (full_of fsroot relpath)"
proof -
  let ?rel = "copy_path path @ CHR ''/'' # name"
  note s = strip_copy_path [OF assms(1,2)]
  have n: "0 < length name" "length name \<le> 255" using assms(2) by (auto simp: name_ok_def)
  have cl: "length (copy_path (strip path)) \<le> length (strip path)"
    "length (strip path) \<le> length (copy_path (strip path)) + 1"
    by (auto simp: copy_path_eq)
  have p: "length path \<le> length (strip path) + 1" using assms(1) by (simp add: path_ok_def)
  have f: "length (copy_path fsroot) + length (strip path) + length name + 3 \<le> PATH_MAX"
    using assms(3) by (simp add: full_of_def)
  have "length path + length name + 2 \<le> PATH_MAX" using p f n by linarith
  then have 1: "concatenate_paths PATH_MAX path name = Some ?rel"
    using concatenate_paths_ok strip_name [OF assms(2)] by auto
  have 2: "concatenate_paths PATH_MAX (full_of fsroot path) name = Some (copy_path (full_of fsroot path) @ CHR ''/'' # name)"
    using concatenate_paths_ok [of "full_of fsroot path" name] assms(3) n strip_name [OF assms(2)] by auto
  have "length (strip path) < length (strip ?rel) \<and> length (strip ?rel) \<le> length (strip path) + length name + 1"
  proof (cases "strip path = []")
    case True
    then have "length (strip path) = 0" "strip ?rel = name" using s(1) by (simp_all only: if_True list.size simp_thms)
    then have "length (strip path) = 0" "length (strip ?rel) = length name" by (simp_all only:)
    then show ?thesis using n by (intro conjI; linarith)
  next
    case False
    then have "strip ?rel = copy_path (strip path) @ CHR ''/'' # name" using s(1) by (simp only: if_False)
    then have "length (strip ?rel) = length (copy_path (strip path)) + 1 + length name"
      by (simp only: length_append list.size)
    then show ?thesis using n cl by (intro conjI; linarith)
  qed
  then have l: "length (strip path) < length (strip ?rel)" "length (strip ?rel) \<le> length (strip path) + length name + 1"
    by blast+
  have 3: "concatenate_paths PATH_MAX fsroot ?rel = Some (full_of fsroot ?rel)"
    unfolding full_of_def by (rule concatenate_paths_strip) (use l(2) f in linarith)
  show ?thesis using 1 2 3 s(2) l(1) by (auto simp: full_of_def)
qed

definition names_fit :: "string \<Rightarrow> string list \<Rightarrow> bool" where
  "names_fit full names \<longleftrightarrow> (\<forall>name \<in> set names. name_ok name \<and> length full + length name + 2 \<le> PATH_MAX)"

lemma names_fit_Cons [simp]:
  "names_fit full (name # names) \<longleftrightarrow> name_ok name \<and> length full + length name + 2 \<le> PATH_MAX \<and> names_fit full names"
  by (simp add: names_fit_def)

lemma directory_begin_ok:
  assumes env: "senv_ok env" and fits: "tree_fits env" and ok: "save_ok save" and path: "concatenate_paths PATH_MAX fsroot path = Some full"
  shows "\<exists>early names c save'. save_directory_begin env save fsroot path costeval = Some (early, full, names, c, save') \<and>
    save_ok save' \<and> save_grows save save' \<and>
    (early = None \<longrightarrow> length full < PATH_MAX \<and> names_fit full names)"
proof (cases "s_opendir env full")
  case None
  then show ?thesis using path ok by (simp add: save_directory_begin_def)
next
  case (Some names)
  have o: "length full < PATH_MAX \<and> names_fit full names"
    using senv_okD(11) [OF env Some] tree_fitsD(2) [OF fits Some] by (simp add: names_fit_def name_ok_def)
  show ?thesis
  proof (cases "s_lstat env full")
    case None
    then show ?thesis using path ok Some by (simp add: save_directory_begin_def)
  next
    case st: (Some st)
    have "0 \<le> t_size st" using senv_okD(7) [OF env st] by simp
    then obtain r c save' where "createar_save_file env save fsroot path st costeval = Some (r, c, save')"
      "save_ok save'" "save_grows save save'"
      using save_file_ok [OF env fits ok path] by blast
    then show ?thesis using path Some st o by (simp add: save_directory_begin_def)
  qed
qed

lemma directory_entries_ok:
  assumes env: "senv_ok env" and fits: "tree_fits env"
  shows "save_ok save \<Longrightarrow> path_ok path \<Longrightarrow> length (full_of fsroot path) < PATH_MAX \<Longrightarrow>
    names_fit (full_of fsroot path) entries \<Longrightarrow>
    \<exists>r c save'. save_directory_entries env fsroot (full_of fsroot path) path entries costeval save = Some (r, c, save') \<and>
      save_ok save' \<and> save_grows save save'"
proof (induction "(PATH_MAX - length (full_of fsroot path), length entries)" arbitrary: path entries costeval save
    rule: wf_induct_rule [OF wf_lex_prod [OF wf_less_than wf_less_than]])
  case (1 path entries costeval save)
  note ih = 1(1) and ok = 1(2) and path = 1(3) and full = 1(4) and names = 1(5)
  show ?case
  proof (cases entries)
    case Nil
    then have "save_directory_entries env fsroot (full_of fsroot path) path entries costeval save = Some (0, costeval, save)"
      by (subst save_directory_entries.simps) simp
    then show ?thesis using ok by simp
  next
    case (Cons name names')
    have rest: "\<exists>r c save'. save_directory_entries env fsroot (full_of fsroot path) path names' cost s = Some (r, c, save') \<and>
        save_ok save' \<and> save_grows save save'" if "save_ok s" "save_grows save s" for s cost
    proof -
      have "\<exists>r c save'. save_directory_entries env fsroot (full_of fsroot path) path names' cost s = Some (r, c, save') \<and>
          save_ok save' \<and> save_grows s save'"
        using ih [of path names' s cost] that(1) path full names Cons by simp
      then show ?thesis using save_grows_trans [OF that(2)] by blast
    qed
    have n: "name_ok name" "length (full_of fsroot path) + length name + 2 \<le> PATH_MAX" using names Cons by simp_all
    obtain relpath fullpath where cp: "concatenate_paths PATH_MAX path name = Some relpath"
      "concatenate_paths PATH_MAX (full_of fsroot path) name = Some fullpath" "path_ok relpath"
      "concatenate_paths PATH_MAX fsroot relpath = Some (full_of fsroot relpath)"
      "length (full_of fsroot path) < length (full_of fsroot relpath)"
      using child_paths [OF path n] by blast
    define act where "act = entry_action env (full_of fsroot path) path name"
    note simps = save_directory_entries.simps [of env fsroot "full_of fsroot path" path entries costeval save]
    consider "save_interrupted env save" | "\<not> save_interrupted env save" "act = Some Entry_skip"
      | "\<not> save_interrupted env save" "act = Some Entry_fail"
      | "\<not> save_interrupted env save" "act = Some (Entry_dir relpath)"
      | st where "\<not> save_interrupted env save" "act = Some (Entry_file relpath st)" "0 \<le> t_size st"
    proof -
      have "act \<in> {Some Entry_skip, Some Entry_fail, Some (Entry_dir relpath)} \<or>
          (\<exists>st. act = Some (Entry_file relpath st) \<and> s_lstat env fullpath = Some st)"
        by (auto simp: act_def entry_action_def cp(1,2) split: option.split)
      then show thesis using that senv_okD(7) [OF env, of fullpath] by blast
    qed
    then show ?thesis
    proof cases
      case 1
      then show ?thesis using simps Cons ok by simp
    next
      case 2
      then show ?thesis using simps Cons rest [OF ok save_grows_refl] by (simp add: act_def)
    next
      case 3
      then show ?thesis using simps Cons ok by (simp add: act_def)
    next
      case 4
      obtain early names2 c2 save2 where b:
        "save_directory_begin env save fsroot relpath costeval = Some (early, full_of fsroot relpath, names2, c2, save2)"
        "save_ok save2" "save_grows save save2"
        "early = None \<longrightarrow> length (full_of fsroot relpath) < PATH_MAX \<and> names_fit (full_of fsroot relpath) names2"
        using directory_begin_ok [OF env fits ok cp(4)] by blast
      have "\<exists>r c save3. (case early of Some r \<Rightarrow> Some (r, c2, save2)
          | None \<Rightarrow> save_directory_entries env fsroot (full_of fsroot relpath) relpath names2 c2 save2) = Some (r, c, save3) \<and>
          save_ok save3 \<and> save_grows save2 save3"
      proof (cases early)
        case None
        have "PATH_MAX - length (full_of fsroot relpath) < PATH_MAX - length (full_of fsroot path)"
          using cp(5) full by linarith
        then show ?thesis using ih [of relpath names2 save2 c2] None b(2,4) cp(3) by simp
      qed (use b in simp)
      then obtain r3 c3 save3 where s: "(case early of Some r \<Rightarrow> Some (r, c2, save2)
          | None \<Rightarrow> save_directory_entries env fsroot (full_of fsroot relpath) relpath names2 c2 save2) = Some (r3, c3, save3)"
        "save_ok save3" "save_grows save2 save3" by blast
      have g: "save_grows save save3" using b(3) s(3) by (rule save_grows_trans)
      have "save_directory_entries env fsroot (full_of fsroot path) path entries costeval save =
          (if r3 \<noteq> 0 then Some (-1, c3, save3)
           else save_directory_entries env fsroot (full_of fsroot path) path names' c3 save3)"
        using simps 4 Cons s(1) by (simp add: act_def [symmetric] b(1))
      then show ?thesis using rest [OF s(2) g] s(2) g by auto
    next
      case 5
      obtain r2 c2 save2 where f: "createar_save_file env save fsroot relpath st costeval = Some (r2, c2, save2)"
        "save_ok save2" "save_grows save save2"
        using save_file_ok [OF env fits ok cp(4) 5(3)] by blast
      have "save_directory_entries env fsroot (full_of fsroot path) path entries costeval save =
          (if r2 \<noteq> 0 then Some (-1, c2, save2)
           else save_directory_entries env fsroot (full_of fsroot path) path names' c2 save2)"
        using simps 5 Cons by (simp add: act_def [symmetric] f(1))
      then show ?thesis using rest [OF f(2,3)] f(2,3) by auto
    qed
  qed
qed

lemma save_directory_ok:
  assumes "senv_ok env" and "tree_fits env" and "save_ok save" and "path_ok path"
    and "concatenate_paths PATH_MAX fsroot path = Some (full_of fsroot path)"
  shows "\<exists>r c save'. createar_save_directory env save fsroot path costeval = Some (r, c, save') \<and>
    save_ok save' \<and> save_grows save save'"
proof -
  obtain early names c2 save2 where b:
    "save_directory_begin env save fsroot path costeval = Some (early, full_of fsroot path, names, c2, save2)"
    "save_ok save2" "save_grows save save2"
    "early = None \<longrightarrow> length (full_of fsroot path) < PATH_MAX \<and> names_fit (full_of fsroot path) names"
    using directory_begin_ok [OF assms(1-3,5)] by blast
  show ?thesis
  proof (cases early)
    case None
    obtain r c save3 where "save_directory_entries env fsroot (full_of fsroot path) path names c2 save2 = Some (r, c, save3)"
      "save_ok save3" "save_grows save2 save3"
      using directory_entries_ok [OF assms(1,2) b(2) assms(4), of fsroot names c2] b(4) None by blast
    then show ?thesis using b None save_grows_trans [OF b(3)] by (auto simp: createar_save_directory_def)
  qed (use b in \<open>auto simp: createar_save_directory_def\<close>)
qed

section \<open>Properties\<close>

text \<open>The structure that the walk starts with.\<close>

definition save_start_ok :: "csavear \<Rightarrow> bool" where
  "save_start_ok save \<longleftrightarrow> sv_fstype save < length filesys \<and>
     length (objhead (sv_regmulti save)) = FSA_MAX_SMALLFILECOUNT \<and> length (rdata (sv_regmulti save)) = FSA_MAX_BLKSIZE"

lemma save_wrapper_ok:
  assumes "senv_ok env" and "tree_fits env" and "save_start_ok save" and "path_ok path"
    and "concatenate_paths PATH_MAX fsroot path = Some (full_of fsroot path)"
  shows "\<exists>r c save'. createar_save_directory_wrapper env save fsroot path costeval = Some (r, c, save') \<and> save_grows save save'"
proof -
  obtain m where m: "regmulti_init (sv_regmulti save) (datablocksize (s_opt env)) = (0, m)"
    by (simp add: regmulti_init_def regmulti_empty_def)
  have "regmulti_inv m"
    using regmulti_init_inv [of "sv_regmulti save" "datablocksize (s_opt env)"] assms(3) m by (simp add: save_start_ok_def)
  moreover have "rcount m = 0" using m by (auto simp: regmulti_init_def regmulti_empty_def)
  ultimately have "regm_ok m" by (simp add: regm_ok_def)
  let ?s = "save\<lparr>sv_hardlinks := [], sv_regmulti := m\<rparr>"
  have s: "save_ok ?s" "save_grows save ?s"
    using assms(3) \<open>regm_ok m\<close> by (auto simp: save_ok_def save_start_ok_def save_grows_def)
  obtain r c save2 where d: "createar_save_directory env ?s fsroot path costeval = Some (r, c, save2)"
    "save_ok save2" "save_grows ?s save2"
    using save_directory_ok [OF assms(1,2) s(1) assms(4,5)] by blast
  obtain r3 m3 added3 where q: "regmulti_save_enqueue (s_mem env) (s_junk env) (s_addq env)
      (sv_regmulti save2) (sv_fsid save2) (sv_added save2) = (r3, m3, added3)" by (metis prod_cases3)
  have "save_grows save2 (save2\<lparr>sv_regmulti := m3, sv_added := added3\<rparr>)"
    using regmulti_enqueue_ok [of "sv_regmulti save2"] d(2) q senv_okD(1) [OF assms(1)]
    by (simp add: save_ok_def save_grows_def)
  then have g: "save_grows save (save2\<lparr>sv_regmulti := m3, sv_added := added3\<rparr>)"
    using s(2) d(3) save_grows_trans by blast
  have "dichl_alloc (s_mem env) = Some []" using senv_okD(1) [OF assms(1)] by (simp add: dichl_alloc_def)
  then show ?thesis using g d(1) q by (simp add: createar_save_directory_wrapper_def m Let_def)
qed


text \<open>C8: Everything that saving a filesystem adds to the queue is well-formed, for every tree whose joined paths fit in
  PATH_MAX bytes: its beginning and its end, each of them if the queue took it, between them blocks as long as they
  say and within the limit, and object headers and footers with proper dictionaries, all with the id of the
  filesystem. The queue may refuse any of the items.\<close>

theorem savefs_items_typed:
  assumes "senv_ok env" and "tree_fits env" and "save_start_ok save" and "fstype < length filesys"
    and "concatenate_paths PATH_MAX partmount ''/'' = Some (full_of partmount ''/'')"
  shows "\<exists>r save' first items final. createar_oper_savefs env save partmount fstype = Some (r, save') \<and>
    sv_added save' = sv_added save @ first @ items @ final \<and>
    first = (if s_addq env (length (sv_added save)) = 0 then [header_item [] FSA_MAGIC_FSYB (sv_fsid save)] else []) \<and>
    final = (if s_addq env (length (sv_added save @ first @ items)) = 0
      then [header_item [] FSA_MAGIC_DATF (sv_fsid save)] else []) \<and>
    (\<forall>i \<in> set items. saved_item_ok (sv_fsid save) i)"
proof -
  have a: "dico_alloc (s_mem env) = Some []" using senv_okD(1) [OF assms(1)] by (simp add: dico_alloc_def)
  define first where "first = (if s_addq env (length (sv_added save)) = 0 then [header_item [] FSA_MAGIC_FSYB (sv_fsid save)] else [])"
  let ?s = "save\<lparr>sv_added := sv_added save @ first, sv_fstype := fstype\<rparr>"
  have q: "snd (g_queue_add env (header_item [] FSA_MAGIC_FSYB (sv_fsid save)) save)\<lparr>sv_fstype := fstype\<rparr> = ?s"
    by (simp add: g_queue_add_def first_def Let_def)
  have "path_ok ''/''" "save_start_ok ?s" using assms(3,4) by (simp_all add: path_ok_def save_start_ok_def)
  from save_wrapper_ok [OF assms(1,2) this(2,1) assms(5), of None]
  obtain r c save2 where w: "createar_save_directory_wrapper env ?s partmount ''/'' None = Some (r, c, save2)"
    "save_grows ?s save2" by blast
  obtain items where items: "sv_added save2 = sv_added save @ first @ items" "sv_fsid save2 = sv_fsid save"
    "\<forall>i \<in> set items. saved_item_ok (sv_fsid save) i" using w(2) by (auto simp: save_grows_def)
  have "createar_oper_savefs env save partmount fstype =
      Some (r, snd (g_queue_add env (header_item [] FSA_MAGIC_DATF (sv_fsid save)) save2))"
    by (simp add: createar_oper_savefs_def a q w(1) items(2) Let_def)
  then show ?thesis
    by (intro exI conjI, assumption, simp_all only: first_def [symmetric])
      (use items in \<open>auto simp: g_queue_add_def Let_def first_def [symmetric]\<close>)
qed

text \<open>A source tree: a directory with a small file, a large file that has become shorter, a directory with a
  symbolic link, and a name that lstat does not find.\<close>

definition demo_stat :: "u32 \<Rightarrow> int \<Rightarrow> cstat" where
  "demo_stat mode sz = \<lparr>t_mode = mode, t_size = sz, t_uid = 0, t_gid = 0, t_atime = 5, t_mtime = 6, t_nlink = 1,
     t_rdev = 0, t_ino = 1, t_blocks = 8\<rparr>"

definition demo_senv :: senv where
  "demo_senv = \<lparr>s_mem = mem_ok, s_addq = (\<lambda>n. 0), s_interrupted = (\<lambda>n. False), s_junk = replicate 8 0,
     s_opt = options_zero\<lparr>datablocksize := 4, smallfilethresh := 3, allowsaverw := True\<rparr>, s_fnmatch = (=),
     s_gcry = demo_gcry, s_cwd = ''/'',
     s_lstat = map_of [(''/m/'', demo_stat S_IFDIR 0), (''/m/s'', demo_stat S_IFREG 2), (''/m/l'', demo_stat S_IFREG 6),
       (''/m/d'', demo_stat S_IFDIR 0), (''/m/d/y'', demo_stat S_IFLNK 1)],
     s_opendir = map_of [(''/m/'', [''.'', ''s'', ''l'', ''d'', ''x'']), (''/m/d'', [''y''])],
     s_readlink = map_of [(''/m/d/y'', ''s'')],
     s_open = (\<lambda>p. True),
     s_read = (\<lambda>p pos n. (int (min n (5 - pos)), replicate (min n (5 - pos)) 7)),
     s_listxattr = (\<lambda>p. (0, [])), s_getxattr = (\<lambda>p name n. (-1, True, []))\<rparr>"

definition demo_savear :: csavear where
  "demo_savear = \<lparr>sv_ai = archwriter_init\<lparr>w_basepath := ''/a.fsa'', w_volpath := ''/a.fsa''\<rparr>,
     sv_regmulti = demo_regmulti, sv_hardlinks = [],
     sv_stats = \<lparr>cnt_regfile = 0, cnt_dir = 0, cnt_symlink = 0, cnt_hardlink = 0, cnt_special = 0,
       err_regfile = 0, err_dir = 0, err_symlink = 0, err_hardlink = 0, err_special = 0\<rparr>,
     sv_fstype = 2, sv_fsid = 0, sv_objectid = 0, sv_cost_global = 0, sv_cost_current = 0, sv_added = []\<rparr>"

lemma demo_senv_ok: "senv_ok demo_senv"
  by (auto simp: senv_ok_def demo_senv_def demo_stat_def demo_gcry_def FSA_MAX_BLKSIZE_def FSA_MAX_SMALLFILESIZE_def
      PATH_MAX_def options_zero_def word_less_nat_alt split: if_splits)

lemma demo_tree_fits: "tree_fits demo_senv"
  by (auto simp: tree_fits_def demo_senv_def PATH_MAX_def split: if_splits)

lemma demo_start_ok: "save_start_ok demo_savear"
  by (simp add: save_start_ok_def demo_savear_def demo_regmulti_def filesys_def)


lemma savefs_items_typed_witness:
  "\<exists>r save' items. createar_oper_savefs demo_senv demo_savear ''/m'' 2 = Some (r, save') \<and>
    sv_added save' = sv_added demo_savear @ [header_item [] FSA_MAGIC_FSYB (sv_fsid demo_savear)] @ items @
      [header_item [] FSA_MAGIC_DATF (sv_fsid demo_savear)] \<and>
    list_all (saved_item_ok (sv_fsid demo_savear)) items"
  using savefs_items_typed [OF demo_senv_ok demo_tree_fits demo_start_ok, of 2 "''/m''"]
  by (simp add: filesys_def full_of_def concatenate_paths_eq PATH_MAX_def demo_senv_def list_all_iff)

section \<open>Deviations\<close>

text \<open>A list of attribute names above 4095 bytes makes llistxattr fail: no attribute is saved, and no error counted.\<close>

lemma xattr_list_failure_ignored:
  "fst (s_listxattr env p) < 0 \<Longrightarrow> createar_item_xattr env p d = Some (0, d)"
  by (cases "s_listxattr env p") (simp add: createar_item_xattr_def xattr_loop.simps)

text \<open>The target of any symbolic link below /tmp/fsa/ is changed, also on filesystems other than ntfs.\<close>

lemma symlink_target_changed:
  assumes "CHR ''/'' \<notin> set name"
  shows "fix_linktarget (''/tmp/fsa/'' @ name @ CHR ''/'' # rest) = CHR ''/'' # rest"
proof -
  have "dropWhile (\<lambda>c. c \<noteq> CHR ''/'') (name @ CHR ''/'' # rest) = CHR ''/'' # rest"
    using assms by (induction name) auto
  then show ?thesis by (simp add: fix_linktarget_def skip_name_def)
qed

text \<open>Times before 1970 or after 2106 are cut to 32 bits.\<close>

lemma mtime_truncated:
  assumes "t_mtime st = -1"
  shows "last (stdattr_adds env save relpath st) d =
    dico_add_u64 (s_mem env) d DICO_OBJ_SECTION_STDATTR DISKITEMKEY_MTIME 4294967295"
proof -
  have "(ucast (- 1 :: u32) :: u64) = 4294967295"
    by code_simp
  then show ?thesis using assms by (simp add: stdattr_adds_def Let_def)
qed

text \<open>savedir reports success whatever happened to the directory.\<close>

lemma savedir_result: "createar_oper_savedir env save rootdir = Some (r, save') \<Longrightarrow> r = 0"
  by (auto simp: createar_oper_savedir_def split: if_splits option.splits)

end
