(* ===== verification/Headitem.thy ===== *)
theory Headitem
  imports Dico
begin

text \<open>Entries of a dictionary in the section 0 that headers use: adding several of them, what an added entry is, and
  reading it back; and buffers that are read as C strings.\<close>

section \<open>Strings and entries\<close>

text \<open>A buffer as a C string: without a NUL the string has no end.\<close>

definition buf_string :: "u8 list \<Rightarrow> string option" where
  "buf_string buf = (if 0 \<in> set buf then Some (string_of_bytes (takeWhile (\<lambda>b. b \<noteq> 0) buf)) else None)"

definition dico_steps :: "(cdico \<Rightarrow> int \<times> cdico) list \<Rightarrow> cdico \<Rightarrow> cdico" where
  "dico_steps adds d = foldl (\<lambda>d add. snd (add d)) d adds"

definition str_item :: "u16 \<Rightarrow> string \<Rightarrow> cdicoitem" where
  "str_item k s = new_item 0 k (bytes_of_string s @ [0]) (of_nat (length s) + 1) DICTYPE_STRING"

definition u32_item :: "u16 \<Rightarrow> u32 \<Rightarrow> cdicoitem" where
  "u32_item k v = new_item 0 k (cpu_to_le32 v) 4 DICTYPE_U32"

definition u64_item :: "u16 \<Rightarrow> u64 \<Rightarrow> cdicoitem" where
  "u64_item k v = new_item 0 k (cpu_to_le64 v) 8 DICTYPE_U64"

definition data_item :: "u16 \<Rightarrow> u8 list \<Rightarrow> cdicoitem" where
  "data_item k x = new_item 0 k x (of_nat (length x)) DICTYPE_DATA"

lemmas head_item_defs = str_item_def u32_item_def u64_item_def data_item_def

lemma head_item_keys [simp]:
  "dkey (str_item k s) = k" "dsection (str_item k s) = 0"
  "dkey (u32_item k v) = k" "dsection (u32_item k v) = 0"
  "dkey (u64_item k w) = k" "dsection (u64_item k w) = 0"
  "dkey (data_item k x) = k" "dsection (data_item k x) = 0"
  by (simp_all add: head_item_defs)

lemma head_item_wf:
  "length s < 65535 \<Longrightarrow> item_wf (str_item k s)" "item_wf (u32_item k v)" "item_wf (u64_item k w)"
  "length x < 65536 \<Longrightarrow> item_wf (data_item k x)"
  by (auto simp: head_item_defs unat_len_u16 unat_of_nat_u16 bytes_of_string_def intro!: new_item_wf)

lemma dico_add_new:
  assumes "(0, k) \<notin> set (dico_keys d)"
  shows "dico_add_string mem_ok d 0 k s = (0, d @ [str_item k s])"
    "dico_add_u32 mem_ok d 0 k v = (0, d @ [u32_item k v])"
    "dico_add_u64 mem_ok d 0 k w = (0, d @ [u64_item k w])"
    "dico_add_data mem_ok d 0 k x (of_nat (length x)) = (0, d @ [data_item k x])"
  using assms
  by (simp_all add: head_item_defs dico_add_string_def dico_add_u32_def dico_add_u64_def dico_add_data_def Let_def
      dico_add_generic_ok)

lemma dico_steps_simps [simp]:
  "dico_steps [] d = d" "dico_steps (add # adds) d = dico_steps adds (snd (add d))"
  by (simp_all add: dico_steps_def)

text \<open>One step: the dictionary stays well-formed, other entries are kept, and a number under a new key is there.\<close>

lemma dico_step_wf:
  assumes "dico_wf d"
  shows "dico_wf (snd (dico_add_string mem_ok d 0 k s))" "dico_wf (snd (dico_add_u64 mem_ok d 0 k w))"
proof -
  have "unat (of_nat (n + 1) :: u16) \<le> n + 1" for n
    by (simp only: unsigned_of_nat of_nat_id take_bit_nat_less_eq_self)
  then have "unat (of_nat n + 1 :: u16) \<le> n + 1" for n by (simp add: add.commute)
  then show "dico_wf (snd (dico_add_string mem_ok d 0 k s))"
    using assms by (simp add: dico_add_string_def Let_def dico_add_generic_wf bytes_of_string_def)
  show "dico_wf (snd (dico_add_u64 mem_ok d 0 k w))"
    using assms by (simp add: dico_add_u64_def Let_def dico_add_generic_wf)
qed

lemma dico_generic_find_other:
  assumes "k' \<noteq> k"
  shows "dico_find (snd (dico_add_generic mem_ok d 0 k' x sz typ)) 0 k = dico_find d 0 k"
proof (cases "(0, k') \<in> set (dico_keys d)")
  case False
  then show ?thesis using assms by (simp add: dico_add_generic_ok dico_find_snoc split: option.split)
qed (simp add: dico_add_generic_dup)

lemma dico_step_find_other:
  "k' \<noteq> k \<Longrightarrow> dico_find (snd (dico_add_string mem_ok d 0 k' s)) 0 k = dico_find d 0 k"
  "k' \<noteq> k \<Longrightarrow> dico_find (snd (dico_add_u64 mem_ok d 0 k' w)) 0 k = dico_find d 0 k"
  by (simp_all add: dico_add_string_def dico_add_u64_def Let_def dico_generic_find_other)

lemma dico_step_find_new:
  "dico_find d 0 k = None \<Longrightarrow> dico_find (snd (dico_add_u64 mem_ok d 0 k w)) 0 k = Some (u64_item k w)"
  by (frule dico_find_None [THEN iffD1]) (simp add: dico_add_new dico_find_snoc)

lemmas dico_step = dico_step_wf dico_step_find_other dico_step_find_new

section \<open>Reading an entry\<close>

lemma get_head_u32:
  "dico_wf d \<Longrightarrow> dico_find d 0 k = Some (u32_item k v) \<Longrightarrow> length junk = 4 \<Longrightarrow> dico_get_u32 d 0 k junk = (0, v)"
  using dico_get_data_Some [of d 0 k "u32_item k v" 4 junk]
  by (simp add: dico_get_u32_def u32_item_def new_item_bytes memcpy_full)

lemma get_head_u64:
  "dico_wf d \<Longrightarrow> dico_find d 0 k = Some (u64_item k v) \<Longrightarrow> length junk = 8 \<Longrightarrow> dico_get_u64 d 0 k junk = (0, v)"
  using dico_get_data_Some [of d 0 k "u64_item k v" 8 junk]
  by (simp add: dico_get_u64_def u64_item_def new_item_bytes memcpy_full)

lemma get_head_str:
  assumes "dico_wf d" and "dico_find d 0 k = Some (str_item k s)" and "length s < n" and "n < 65535"
  shows "dico_get_data d 0 k buf (of_nat n) =
    (0, bytes_of_string s @ [0] @ drop (length s + 1) buf, of_nat (length s) + 1)"
proof -
  have n: "unat (of_nat n :: u16) = n" using assms(4) by (simp add: unat_of_nat_u16)
  have l: "unat (of_nat (length s) + 1 :: u16) = Suc (length s)" using assms(3,4) by (intro unat_len_u16) simp
  have "of_nat (length s) + 1 \<le> (of_nat n :: u16)" "0 < (of_nat n :: u16)"
    using assms(3) n l by (simp_all add: word_le_nat_alt word_less_nat_alt)
  then show ?thesis
    using dico_get_data_Some [OF assms(1,2), of "of_nat n" buf] l
    by (simp add: str_item_def new_item_bytes memcpy_def bytes_of_string_def)
qed

lemma get_head_data:
  assumes "dico_wf d" and "dico_find d 0 k = Some (data_item k x)" and "length x \<le> unat n" and "0 < n"
  shows "dico_get_data d 0 k buf n = (0, memcpy buf x, of_nat (length x))"
proof -
  have "unat n < 65536" using unsigned_less [of n, where ?'a = nat] by simp
  then have l: "unat (of_nat (length x) :: u16) = length x" using assms(3) by (simp add: unat_of_nat_u16)
  then have "of_nat (length x) \<le> n" using assms(3) by (simp add: word_le_nat_alt)
  then show ?thesis
    using dico_get_data_Some [OF assms(1,2), of n buf] l assms(4) by (simp add: data_item_def new_item_bytes)
qed

lemma buf_string_app:
  assumes "CHR 0x00 \<notin> set s"
  shows "buf_string (bytes_of_string s @ 0 # rest) = Some s"
proof -
  have z: "char_of (0 :: nat) = CHR 0x00" by (simp add: char_of_def)
  have c: "char_of (unat b) \<in> set s" if "b \<in> set (bytes_of_string s)" for b
  proof -
    have "char_of (unat b) \<in> set (string_of_bytes (bytes_of_string s))"
      using that by (simp add: string_of_bytes_def)
    then show ?thesis by (simp only: string_of_bytes_of_string)
  qed
  have "b \<noteq> 0" if "b \<in> set (bytes_of_string s)" for b
  proof
    assume "b = 0"
    with c [OF that] have "CHR 0x00 \<in> set s" using z by simp
    with assms show False ..
  qed
  then have "takeWhile (\<lambda>b. b \<noteq> 0) (bytes_of_string s @ 0 # rest) = bytes_of_string s"
    by (simp add: takeWhile_append)
  then show ?thesis by (simp add: buf_string_def)
qed

end
