(* ===== verification/Restar.thy ===== *)
theory Restar
  imports Headitem Datafile Filesys Exclude Regmulti Archreader "HOL-Library.Monad_Syntax"
begin

text \<open>oper_restore.c, the part that takes the objects from the queue and recreates them. The effects on the file
  system are the list of system calls of Datafile; what the operating system answers and tells of the
  destination, fnmatch, libgcrypt, an interruption and the bytes of uninitialised variables are fields of an
  environment. The queue is that of Queue; waiting for it for ever, an access outside a buffer and an assertion that
  fails are the result None.\<close>

section \<open>State and environment\<close>

text \<open>\<open>x_lstat\<close> says of a path whether it is a directory, and its times; \<open>x_missing\<close> is stat failing with ENOENT.\<close>

record xenv =
  x_mem :: malloc
  x_opt :: coptions
  x_fnmatch :: "string \<Rightarrow> string \<Rightarrow> bool"
  x_gcry :: gcry
  x_os :: sysos
  x_lstat :: "strace \<Rightarrow> string \<Rightarrow> (bool \<times> int \<times> int) option"
  x_missing :: "strace \<Rightarrow> string \<Rightarrow> bool"
  x_interrupted :: "cqueue \<Rightarrow> bool"
  x_abort :: "cqueue \<Rightarrow> bool"
  x_lutimes :: bool
  x_junk :: "nat \<Rightarrow> u8 list"
  x_junktv :: "int \<times> int"
  x_regmulti :: cregmulti

record cextractar =
  xr_ai :: carchreader
  xr_fsid :: u16
  xr_stats :: cstats
  xr_cost_global :: u64
  xr_cost_current :: u64
  xr_queue :: cqueue
  xr_trace :: strace

definition x_sys :: "xenv \<Rightarrow> syscall \<Rightarrow> cextractar \<Rightarrow> int \<times> cextractar" where
  "x_sys env c exar = (x_os env (xr_trace exar) c, exar\<lparr>xr_trace := xr_trace exar @ [c]\<rparr>)"

definition x_cost :: "u64 \<Rightarrow> cextractar \<Rightarrow> cextractar" where
  "x_cost n exar = exar\<lparr>xr_cost_current := xr_cost_current exar + n\<rparr>"

definition x_mkdir_recursive :: "xenv \<Rightarrow> string \<Rightarrow> cextractar \<Rightarrow> cextractar" where
  "x_mkdir_recursive env path exar =
     exar\<lparr>xr_trace := mkdir_recursive (x_missing env) (\<lambda>tr p. tr @ [Sys_mkdir p]) (xr_trace exar) path\<rparr>"

text \<open>The times of the parent directory; the array keeps what it held when lstat fails.\<close>

definition x_parent_times :: "xenv \<Rightarrow> string \<Rightarrow> cextractar \<Rightarrow> int \<times> int" where
  "x_parent_times env fullpath exar =
     (case get_parent_dir_time_attrib (x_lstat env (xr_trace exar)) PATH_MAX fullpath of
        None \<Rightarrow> x_junktv env
      | Some (_, (atime, _), (mtime, _)) \<Rightarrow> (atime, mtime))"

definition x_excluded :: "xenv \<Rightarrow> string \<Rightarrow> bool" where
  "x_excluded env relpath = is_filedir_excluded (x_fnmatch env) (x_opt env) relpath"

section \<open>Attributes\<close>

text \<open>The loop over the extended attributes of a section, which come in pairs of keys.\<close>

definition restore_one_attr :: "xenv \<Rightarrow> string \<Rightarrow> cdico \<Rightarrow> u8 \<Rightarrow> nat \<Rightarrow> cextractar \<Rightarrow> (int \<times> cextractar) option" where
  "restore_one_attr env fullpath dicoattr section i exar =
     (let (r, name) = dico_get_string dicoattr section (of_nat i) 2048
      in if r \<noteq> 0 then Some (-1, exar)
         else
           (let (r, xvalue, datasize) = dico_get_data dicoattr section (of_nat (i + 1)) (replicate 65535 0) 65535
            in if r \<noteq> 0 then Some (-1, exar)
               else case buf_string name of
                 None \<Rightarrow> None
               | Some xattrname \<Rightarrow>
                   (let (res, exar) = x_sys env (Sys_lsetxattr fullpath xattrname (take (unat datasize) xvalue)) exar
                    in Some (if res \<noteq> 0 then -1 else 0, exar))))"

function restore_attrs_loop ::
    "xenv \<Rightarrow> string \<Rightarrow> cdico \<Rightarrow> u8 \<Rightarrow> nat \<Rightarrow> nat \<Rightarrow> int \<Rightarrow> cextractar \<Rightarrow> (int \<times> cextractar) option" where
  "restore_attrs_loop env fullpath dicoattr section n i ret exar =
     (if i < n then
        (case restore_one_attr env fullpath dicoattr section i exar of
           None \<Rightarrow> None
         | Some (r, exar) \<Rightarrow>
             restore_attrs_loop env fullpath dicoattr section n (i + 2) (if r \<noteq> 0 then -1 else ret) exar)
      else Some (ret, exar))"
  by pat_completeness auto
termination
  by (relation "measure (\<lambda>(env, fullpath, dicoattr, section, n, i, ret, exar). n - i)") auto

declare restore_attrs_loop.simps [simp del]

definition extractar_restore_attr_xattr ::
    "xenv \<Rightarrow> string \<Rightarrow> cdico \<Rightarrow> cextractar \<Rightarrow> (int \<times> cextractar) option" where
  "extractar_restore_attr_xattr env fullpath dicoattr exar =
     restore_attrs_loop env fullpath dicoattr DICO_OBJ_SECTION_XATTR
       (nat (dico_count_one_section dicoattr DICO_OBJ_SECTION_XATTR)) 0 0 exar"

definition extractar_restore_attr_windows ::
    "xenv \<Rightarrow> string \<Rightarrow> cdico \<Rightarrow> cextractar \<Rightarrow> (int \<times> cextractar) option" where
  "extractar_restore_attr_windows env fullpath dicoattr exar =
     restore_attrs_loop env fullpath dicoattr DICO_OBJ_SECTION_WINATTR
       (nat (dico_count_one_section dicoattr DICO_OBJ_SECTION_WINATTR)) 0 0 exar"

definition get_std32 :: "xenv \<Rightarrow> cdico \<Rightarrow> u16 \<Rightarrow> int \<times> u32" where
  "get_std32 env d key = dico_get_u32 d DICO_OBJ_SECTION_STDATTR key (x_junk env 4)"

definition get_std64 :: "xenv \<Rightarrow> cdico \<Rightarrow> u16 \<Rightarrow> int \<times> u64" where
  "get_std64 env d key = dico_get_u64 d DICO_OBJ_SECTION_STDATTR key (x_junk env 8)"

definition extractar_restore_attr_std ::
    "xenv \<Rightarrow> u32 \<Rightarrow> string \<Rightarrow> cdico \<Rightarrow> cextractar \<Rightarrow> int \<times> cextractar" where
  "extractar_restore_attr_std env objtype fullpath dicoattr exar =
     (let (r1, mode) = get_std32 env dicoattr DISKITEMKEY_MODE;
          (r2, uid) = get_std32 env dicoattr DISKITEMKEY_UID;
          (r3, gid) = get_std32 env dicoattr DISKITEMKEY_GID;
          (r4, atime) = get_std64 env dicoattr DISKITEMKEY_ATIME;
          (r5, mtime) = get_std64 env dicoattr DISKITEMKEY_MTIME
      in if r1 \<noteq> 0 then (-1, exar) else if r2 \<noteq> 0 then (-2, exar) else if r3 \<noteq> 0 then (-3, exar)
         else if r4 \<noteq> 0 then (-4, exar) else if r5 \<noteq> 0 then (-5, exar)
         else
           (let (r, exar) = x_sys env (Sys_lchown fullpath uid gid) exar
            in if r \<noteq> 0 then (-6, exar)
               else
                 (let (r, exar) = (if objtype \<noteq> OBJTYPE_SYMLINK then x_sys env (Sys_chmod fullpath mode) exar else (0, exar))
                  in if r \<noteq> 0 then (-7, exar)
                     else if objtype \<noteq> OBJTYPE_SYMLINK then
                       (let (r, exar) = x_sys env (Sys_utimes fullpath (sint atime, sint mtime)) exar
                        in if r \<noteq> 0 then (-8, exar) else (0, exar))
                     else if x_lutimes env then
                       (0, snd (x_sys env (Sys_lutimes fullpath (sint atime, sint mtime)) exar))
                     else (0, exar))))"

definition extractar_restore_attr_everything ::
    "xenv \<Rightarrow> u32 \<Rightarrow> string \<Rightarrow> cdico \<Rightarrow> cextractar \<Rightarrow> (int \<times> cextractar) option" where
  "extractar_restore_attr_everything env objtype fullpath dicoattr exar =
     (let (r1, exar) = extractar_restore_attr_std env objtype fullpath dicoattr exar
      in do {
        (r2, exar) \<leftarrow> extractar_restore_attr_xattr env fullpath dicoattr exar;
        (r3, exar) \<leftarrow> extractar_restore_attr_windows env fullpath dicoattr exar;
        Some (if r1 + r2 + r3 = 0 then 0 else -1, exar)
      })"

section \<open>Objects that are only a header\<close>

text \<open>The parent directory is made first and its times are read, and set again at the end.\<close>

definition obj_begin :: "xenv \<Rightarrow> string \<Rightarrow> cextractar \<Rightarrow> (int \<times> int) \<times> cextractar" where
  "obj_begin env fullpath exar =
     (let exar = x_mkdir_recursive env (extract_dirpath fullpath PATH_MAX) exar
      in (x_parent_times env fullpath exar, exar))"

definition obj_end ::
    "xenv \<Rightarrow> u32 \<Rightarrow> string \<Rightarrow> cdico \<Rightarrow> int \<times> int \<Rightarrow> cextractar \<Rightarrow> (bool \<times> cextractar) option" where
  "obj_end env objtype fullpath d tv exar =
     do {
       (r, exar) \<leftarrow> extractar_restore_attr_everything env objtype fullpath d exar;
       if r \<noteq> 0 then Some (False, exar)
       else
         (let (r, exar) = x_sys env (Sys_utimes (extract_dirpath fullpath PATH_MAX) tv) exar
          in Some (r = 0, exar))
     }"

text \<open>The frame of the four functions: the cost, the exclusion, and the counters of the kind of object. \<open>mk\<close>
  recreates the object and says whether it worked.\<close>

definition restore_header_object ::
    "xenv \<Rightarrow> string \<Rightarrow> string \<Rightarrow> cdico \<Rightarrow> u32 \<Rightarrow> (cstats \<Rightarrow> cstats) \<Rightarrow> (cstats \<Rightarrow> cstats) \<Rightarrow>
     (cextractar \<Rightarrow> (bool \<times> cextractar) option) \<Rightarrow> cextractar \<Rightarrow> (int \<times> cextractar) option" where
  "restore_header_object env fullpath relpath d objtype count_ok count_err mk exar =
     (let exar = x_cost (of_nat FSA_COST_PER_FILE) exar
      in do {
        (ok, exar) \<leftarrow>
          (if x_excluded env relpath then Some (False, exar)
           else
             (let (tv, exar) = obj_begin env fullpath exar
              in do {
                (ok, exar) \<leftarrow> mk exar;
                if \<not> ok then Some (False, exar) else obj_end env objtype fullpath d tv exar
              }));
        Some (0, exar\<lparr>xr_stats := (if ok then count_ok else count_err) (xr_stats exar)\<rparr>)
      })"

definition get_path_string :: "cdico \<Rightarrow> u16 \<Rightarrow> string option option" where
  "get_path_string d key =
     (let (r, buffer) = dico_get_string d DICO_OBJ_SECTION_STDATTR key (of_nat PATH_MAX)
      in if r < 0 then Some None else map_option Some (buf_string buffer))"

definition make_symlink ::
    "xenv \<Rightarrow> string \<Rightarrow> cdico \<Rightarrow> nat \<Rightarrow> cextractar \<Rightarrow> (bool \<times> cextractar) option" where
  "make_symlink env fullpath d fstype exar =
     do {
       target \<leftarrow> get_path_string d DISKITEMKEY_SYMLINK;
       (case target of
          None \<Rightarrow> Some (False, exar)
        | Some buffer \<Rightarrow>
            (let (r, targettype) = get_std64 env d DISKITEMKEY_LINKTARGETTYPE
             in if length filesys \<le> fstype then None
                else if r = 0 \<and> fs_name (filesys ! fstype) = ''ntfs'' then
                  (if targettype = ucast OBJTYPE_DIR then Some (True, x_mkdir_recursive env fullpath exar)
                   else if targettype = ucast OBJTYPE_REGFILEUNIQUE then
                     (let (fdtemp, exar) = x_sys env (Sys_creat fullpath) exar
                      in if fdtemp < 0 then Some (False, exar) else Some (True, snd (x_sys env Sys_close exar)))
                   else Some (False, exar))
                else
                  (let (r, exar) = x_sys env (Sys_symlink buffer fullpath) exar in Some (\<not> r < 0, exar))))
     }"

definition extractar_restore_obj_symlink ::
    "xenv \<Rightarrow> string \<Rightarrow> string \<Rightarrow> cdico \<Rightarrow> u32 \<Rightarrow> nat \<Rightarrow> cextractar \<Rightarrow> (int \<times> cextractar) option" where
  "extractar_restore_obj_symlink env fullpath relpath d objtype fstype =
     restore_header_object env fullpath relpath d objtype
       (\<lambda>s. s\<lparr>cnt_symlink := cnt_symlink s + 1\<rparr>) (\<lambda>s. s\<lparr>err_symlink := err_symlink s + 1\<rparr>)
       (make_symlink env fullpath d fstype)"

definition make_hardlink :: "xenv \<Rightarrow> string \<Rightarrow> string \<Rightarrow> cdico \<Rightarrow> cextractar \<Rightarrow> (bool \<times> cextractar) option" where
  "make_hardlink env fullpath destdir d exar =
     do {
       target \<leftarrow> get_path_string d DISKITEMKEY_HARDLINK;
       (case target of
          None \<Rightarrow> Some (False, exar)
        | Some buffer \<Rightarrow>
            do {
              regfile \<leftarrow> concatenate_paths PATH_MAX destdir buffer;
              let (res, exar) = x_sys env (Sys_link regfile fullpath) exar;
              Some (res = 0, exar)
            })
     }"

definition extractar_restore_obj_hardlink ::
    "xenv \<Rightarrow> string \<Rightarrow> string \<Rightarrow> string \<Rightarrow> cdico \<Rightarrow> u32 \<Rightarrow> cextractar \<Rightarrow> (int \<times> cextractar) option" where
  "extractar_restore_obj_hardlink env fullpath relpath destdir d objtype =
     restore_header_object env fullpath relpath d objtype
       (\<lambda>s. s\<lparr>cnt_hardlink := cnt_hardlink s + 1\<rparr>) (\<lambda>s. s\<lparr>err_hardlink := err_hardlink s + 1\<rparr>)
       (make_hardlink env fullpath destdir d)"

definition make_devfile :: "xenv \<Rightarrow> string \<Rightarrow> cdico \<Rightarrow> cextractar \<Rightarrow> (bool \<times> cextractar) option" where
  "make_devfile env fullpath d exar =
     (let (r1, dev) = get_std64 env d DISKITEMKEY_RDEV; (r2, mode) = get_std32 env d DISKITEMKEY_MODE
      in if r1 \<noteq> 0 \<or> r2 \<noteq> 0 then Some (False, exar)
         else (let (r, exar) = x_sys env (Sys_mknod fullpath mode dev) exar in Some (r = 0, exar)))"

definition extractar_restore_obj_devfile ::
    "xenv \<Rightarrow> string \<Rightarrow> string \<Rightarrow> cdico \<Rightarrow> u32 \<Rightarrow> cextractar \<Rightarrow> (int \<times> cextractar) option" where
  "extractar_restore_obj_devfile env fullpath relpath d objtype =
     restore_header_object env fullpath relpath d objtype
       (\<lambda>s. s\<lparr>cnt_special := cnt_special s + 1\<rparr>) (\<lambda>s. s\<lparr>err_special := err_special s + 1\<rparr>)
       (make_devfile env fullpath d)"

definition extractar_restore_obj_directory ::
    "xenv \<Rightarrow> string \<Rightarrow> string \<Rightarrow> cdico \<Rightarrow> u32 \<Rightarrow> cextractar \<Rightarrow> (int \<times> cextractar) option" where
  "extractar_restore_obj_directory env fullpath relpath d objtype =
     restore_header_object env fullpath relpath d objtype
       (\<lambda>s. s\<lparr>cnt_dir := cnt_dir s + 1\<rparr>) (\<lambda>s. s\<lparr>err_dir := err_dir s + 1\<rparr>)
       (\<lambda>exar. Some (True, x_mkdir_recursive env fullpath exar))"

section \<open>Regular files\<close>

definition x_dequeue_header :: "cextractar \<Rightarrow> (int \<times> (cdico \<times> u8 list \<times> u16) option \<times> cextractar) option" where
  "x_dequeue_header exar =
     map_option (\<lambda>(lres, head, q). (lres, head, exar\<lparr>xr_queue := q\<rparr>)) (queue_dequeue_header (xr_queue exar))"

definition x_dequeue_block :: "cextractar \<Rightarrow> (int \<times> qinfo \<times> cextractar) option" where
  "x_dequeue_block exar =
     map_option (\<lambda>(lres, info, q). (lres, info, exar\<lparr>xr_queue := q\<rparr>)) (queue_dequeue_block (xr_queue exar))"

definition x_open_write ::
    "xenv \<Rightarrow> cdatafile \<Rightarrow> string \<Rightarrow> bool \<Rightarrow> bool \<Rightarrow> cextractar \<Rightarrow> int \<times> cdatafile \<times> cextractar" where
  "x_open_write env f path simul sparse exar =
     (let (r, f, tr) = datafile_open_write (x_os env) (x_gcry env) f path simul sparse (xr_trace exar)
      in (r, f, exar\<lparr>xr_trace := tr\<rparr>))"

definition x_write :: "xenv \<Rightarrow> cdatafile \<Rightarrow> u8 list \<Rightarrow> cextractar \<Rightarrow> int \<times> cdatafile \<times> cextractar" where
  "x_write env f data exar =
     (let (r, f, tr) = datafile_write (x_os env) f data (xr_trace exar) in (r, f, exar\<lparr>xr_trace := tr\<rparr>))"

definition x_close :: "xenv \<Rightarrow> cdatafile \<Rightarrow> cextractar \<Rightarrow> int \<times> u8 list \<times> cdatafile \<times> cextractar" where
  "x_close env f exar =
     (let (r, md5, f, tr) = datafile_close (x_os env) (x_gcry env) f (Some 16) (xr_trace exar)
      in (r, case md5 of None \<Rightarrow> x_junk env 16 | Some m \<Rightarrow> m, f, exar\<lparr>xr_trace := tr\<rparr>))"

definition x_destroy :: "xenv \<Rightarrow> cdatafile \<Rightarrow> cextractar \<Rightarrow> cextractar" where
  "x_destroy env f exar =
     exar\<lparr>xr_trace := snd (datafile_destroy (x_os env) (x_gcry env) f (xr_trace exar))\<rparr>"

text \<open>How the loop over the blocks of a file ended.\<close>

datatype blocks_end = Blocks_done | Blocks_minor | Blocks_fatal

partial_function (option) restore_blocks ::
    "xenv \<Rightarrow> u64 \<Rightarrow> u64 \<Rightarrow> cdatafile \<Rightarrow> cextractar \<Rightarrow> (blocks_end \<times> cdatafile \<times> cextractar) option" where
  "restore_blocks env filesize filepos datafile exar =
     (if filesize > 0 \<and> filepos < filesize \<and> \<not> x_interrupted env (xr_queue exar) then
        Option.bind (x_dequeue_block exar) (\<lambda>(lres, info, exar).
          (case info of
             Qblock blkinfo \<Rightarrow>
               if lres \<le> 0 then Some (Blocks_minor, datafile, exar)
               else if blkoffset blkinfo \<noteq> filepos then Some (Blocks_minor, datafile, exar)
               else
                 (let (r, datafile, exar) = x_write env datafile (take (unat (blkrealsize blkinfo)) (blkdata blkinfo)) exar
                  in if r \<noteq> FSAERR_SUCCESS then Some (Blocks_fatal, datafile, exar)
                     else restore_blocks env filesize (filepos + ucast (blkrealsize blkinfo)) datafile exar)
           | _ \<Rightarrow> Some (Blocks_minor, datafile, exar)))
      else Some (Blocks_done, datafile, exar))"

text \<open>The footer of a file: whether an error is found, and whether the file is to be removed.\<close>

definition restore_footer ::
    "xenv \<Rightarrow> bool \<Rightarrow> u8 list \<Rightarrow> cextractar \<Rightarrow> ((bool \<times> bool) \<times> cextractar) option" where
  "restore_footer env excluded md5sumcalc exar =
     do {
       (lres, head, exar) \<leftarrow> x_dequeue_header exar;
       (case head of
          None \<Rightarrow> Some ((True, False), exar)
        | Some (footerdico, magic, fsid) \<Rightarrow>
            if lres \<le> 0 then Some ((True, False), exar)
            else if excluded then Some ((False, False), exar)
            else if magic \<noteq> FSA_MAGIC_FILF then Some ((True, False), exar)
            else
              (let (r, md5sumorig, _) = dico_get_data footerdico 0 BLOCKFOOTITEMKEY_MD5SUM (x_junk env 16) 16
               in if r \<noteq> 0 then Some ((True, False), exar)
                  else if md5sumcalc \<noteq> md5sumorig then Some ((True, True), exar)
                  else Some ((False, False), exar)))
     }"

definition count_regfile :: "bool \<Rightarrow> cextractar \<Rightarrow> cextractar" where
  "count_regfile ok exar =
     exar\<lparr>xr_stats := (if ok then (xr_stats exar)\<lparr>cnt_regfile := cnt_regfile (xr_stats exar) + 1\<rparr>
                       else (xr_stats exar)\<lparr>err_regfile := err_regfile (xr_stats exar) + 1\<rparr>)\<rparr>"

text \<open>The part between the loop and the footer: closing, attributes, times of the parent.\<close>

definition restore_file_end ::
    "xenv \<Rightarrow> u32 \<Rightarrow> string \<Rightarrow> cdico \<Rightarrow> int \<times> int \<Rightarrow> bool \<Rightarrow> bool \<Rightarrow> cdatafile \<Rightarrow> cextractar \<Rightarrow>
     (bool \<times> u8 list \<times> cdatafile \<times> cextractar) option" where
  "restore_file_end env objtype fullpath d tv excluded minorerr datafile exar =
     (let (minorerr, md5sumcalc, datafile, exar) =
            (if minorerr then (True, x_junk env 16, datafile, exar)
             else (let (r, md5, datafile, exar) = x_close env datafile exar in (r \<noteq> 0, md5, datafile, exar)))
      in if minorerr \<or> excluded then Some (minorerr, md5sumcalc, datafile, exar)
         else
           do {
             (r, exar) \<leftarrow> extractar_restore_attr_everything env objtype fullpath d exar;
             let (r2, exar) = x_sys env (Sys_utimes (extract_dirpath fullpath PATH_MAX) tv) exar;
             Some (r \<noteq> 0 \<or> r2 \<noteq> 0, md5sumcalc, datafile, exar)
           })"

definition extractar_restore_obj_regfile_unique ::
    "xenv \<Rightarrow> string \<Rightarrow> string \<Rightarrow> cdico \<Rightarrow> u32 \<Rightarrow> cextractar \<Rightarrow> (int \<times> cextractar) option" where
  "extractar_restore_obj_regfile_unique env fullpath relpath d objtype exar =
     do {
       datafile \<leftarrow> datafile_alloc (x_mem env);
       let (r, filesize) = get_std64 env d DISKITEMKEY_SIZE;
       let minorerr = (r \<noteq> 0);
       let (rf, flags) = get_std64 env d DISKITEMKEY_FLAGS;
       let sparse = (rf = 0 \<and> and flags FSA_FILEFLAGS_SPARSE \<noteq> 0);
       let exar = x_cost filesize (x_cost (of_nat FSA_COST_PER_FILE) exar);
       let excluded = x_excluded env relpath;
       let (tv, exar) = (if \<not> excluded \<and> \<not> minorerr then obj_begin env fullpath exar else (x_junktv env, exar));
       let (minorerr, datafile, exar) =
         (if minorerr then (True, datafile, exar)
          else (let (r, datafile, exar) = x_open_write env datafile fullpath excluded sparse exar
                in (r < 0, datafile, exar)));
       (ended, datafile, exar) \<leftarrow>
         (if minorerr then Some (Blocks_done, datafile, exar) else restore_blocks env filesize 0 datafile exar);
       let delfile = (ended \<noteq> Blocks_done);
       let minorerr = (minorerr \<or> ended \<noteq> Blocks_done);
       let fatalerr = (ended = Blocks_fatal);
       (minorerr, md5sumcalc, datafile, exar) \<leftarrow>
         restore_file_end env objtype fullpath d tv excluded minorerr datafile exar;
       ((fooerr, foodel), exar) \<leftarrow>
         (if \<not> fatalerr \<and> filesize > 0 then restore_footer env excluded md5sumcalc exar
          else Some ((False, False), exar));
       let minorerr = (minorerr \<or> fooerr);
       let delfile = (delfile \<or> foodel);
       let exar = (if delfile then snd (x_sys env (Sys_unlink fullpath) exar) else exar);
       let exar = (if \<not> excluded then count_regfile (\<not> minorerr) exar else exar);
       let exar = x_destroy env datafile exar;
       Some (if fatalerr then -1 else 0, exar)
     }"

text \<open>One of several small files: the result says whether it is restored (Some True), failed (Some False), or the whole
  operation has to stop (None).\<close>

definition restore_small_file ::
    "xenv \<Rightarrow> string \<Rightarrow> u32 \<Rightarrow> cdico \<Rightarrow> u8 list \<Rightarrow> string \<Rightarrow> string \<Rightarrow> cdatafile \<Rightarrow> cextractar \<Rightarrow>
     (bool option \<times> cdatafile \<times> cextractar) option" where
  "restore_small_file env destdir objtype filehead databuf fullpath relpath datafile exar =
     (let (tv, exar) = obj_begin env fullpath exar;
          (r, md5sumorig, _) = dico_get_data filehead DICO_OBJ_SECTION_STDATTR DISKITEMKEY_MD5SUM (x_junk env 16) 16
      in if r \<noteq> 0 then Some (Some False, datafile, exar)
         else
           (let (r, datafile, exar) = x_open_write env datafile fullpath False False exar
            in if r < 0 then Some (Some False, datafile, exar)
               else
                 (let (res, datafile, exar) = x_write env datafile databuf exar;
                      (_, md5sumcalc, datafile, exar) = x_close env datafile exar
                  in if res \<noteq> FSAERR_SUCCESS then Some (None, datafile, snd (x_sys env (Sys_unlink fullpath) exar))
                     else if md5sumcalc \<noteq> md5sumorig then
                       Some (Some False, datafile, snd (x_sys env (Sys_truncate fullpath) exar))
                     else
                       do {
                         (ok, exar) \<leftarrow> obj_end env objtype fullpath filehead tv exar;
                         Some (Some ok, datafile, exar)
                       })))"

fun restore_small_files ::
    "xenv \<Rightarrow> string \<Rightarrow> u32 \<Rightarrow> cregmulti \<Rightarrow> nat list \<Rightarrow> cdatafile \<Rightarrow> cextractar \<Rightarrow>
     (bool \<times> cdatafile \<times> cextractar) option" where
  "restore_small_files env destdir objtype m [] datafile exar = Some (True, datafile, exar)"
| "restore_small_files env destdir objtype m (i # is) datafile exar =
     do {
       (r, file) \<leftarrow> regmulti_rest_getfile (x_junk env 8) (x_junk env 4) m (int i) FSA_MAX_SMALLFILESIZE;
       (case file of
          None \<Rightarrow> restore_small_files env destdir objtype m is datafile (count_regfile False exar)
        | Some (filehead, databuf) \<Rightarrow>
            (let (r1, _) = get_std32 env filehead DISKITEMKEY_OBJTYPE;
                 (r2, pathbuf, _) = dico_get_data filehead DICO_OBJ_SECTION_STDATTR DISKITEMKEY_PATH
                     (x_junk env PATH_MAX) (of_nat PATH_MAX)
             in if r1 \<noteq> 0 \<or> r2 \<noteq> 0
                then restore_small_files env destdir objtype m is datafile (count_regfile False exar)
                else
                  do {
                    relpath \<leftarrow> buf_string pathbuf;
                    fullpath \<leftarrow> concatenate_paths PATH_MAX destdir relpath;
                    let exar = x_cost (of_nat (length databuf)) (x_cost (of_nat FSA_COST_PER_FILE) exar);
                    (if x_excluded env relpath then restore_small_files env destdir objtype m is datafile exar
                     else
                       do {
                         (ok, datafile, exar) \<leftarrow>
                           restore_small_file env destdir objtype filehead databuf fullpath relpath datafile exar;
                         (case ok of
                            None \<Rightarrow> Some (False, datafile, exar)
                          | Some ok \<Rightarrow>
                              restore_small_files env destdir objtype m is datafile (count_regfile ok exar))
                       })
                  }))
     }"

text \<open>The headers of the group after the first, \<open>n\<close> of them.\<close>

fun dequeue_group_headers :: "nat \<Rightarrow> cregmulti \<Rightarrow> cextractar \<Rightarrow> (bool \<times> cregmulti \<times> cextractar) option" where
  "dequeue_group_headers 0 m exar = Some (True, m, exar)"
| "dequeue_group_headers (Suc n) m exar =
     do {
       (lres, head, exar) \<leftarrow> x_dequeue_header exar;
       (case head of
          None \<Rightarrow> Some (False, m, exar)
        | Some (filehead, magic, _) \<Rightarrow>
            if lres \<le> 0 \<or> magic \<noteq> FSA_MAGIC_OBJT then Some (False, m, exar)
            else
              do {
                (r, m) \<leftarrow> regmulti_rest_addheader m filehead;
                if r \<noteq> 0 then Some (False, m, exar) else dequeue_group_headers n m exar
              })
     }"

definition extractar_restore_obj_regfile_multi ::
    "xenv \<Rightarrow> string \<Rightarrow> cdico \<Rightarrow> u32 \<Rightarrow> cextractar \<Rightarrow> (int \<times> cextractar) option" where
  "extractar_restore_obj_regfile_multi env destdir dicofirstfile objtype exar =
     do {
       let m = snd (regmulti_init (x_regmulti env) (of_nat FSA_MAX_BLKSIZE));
       datafile \<leftarrow> datafile_alloc (x_mem env);
       let (r, filescount) = dico_get_u32 dicofirstfile 0 DISKITEMKEY_MULTIFILESCOUNT (x_junk env 4);
       if r \<noteq> 0 then Some (-1, exar)
       else
         do {
           (r, m) \<leftarrow> regmulti_rest_addheader m dicofirstfile;
           if r \<noteq> 0 then Some (-1, exar)
           else
             do {
               (ok, m, exar) \<leftarrow> dequeue_group_headers (unat filescount - 1) m exar;
               if \<not> ok then Some (-1, exar)
               else
                 do {
                   (lres, info, exar) \<leftarrow> x_dequeue_block exar;
                   (case info of
                      Qblock blkinfo \<Rightarrow>
                        if lres \<le> 0 then Some (-1, exar)
                        else
                          do {
                            (r, m) \<leftarrow> regmulti_rest_setdatablock m (blkdata blkinfo) (blkrealsize blkinfo);
                            if r \<noteq> 0 then Some (-1, exar)
                            else
                              do {
                                (ok, datafile, exar) \<leftarrow>
                                  restore_small_files env destdir objtype m [0..<unat filescount] datafile exar;
                                if \<not> ok then Some (-1, exar) else Some (0, x_destroy env datafile exar)
                              }
                          }
                    | _ \<Rightarrow> Some (-1, exar))
                 }
             }
         }
     }"

end
