(* ===== verification/Restobj.thy ===== *)
theory Restobj
  imports Restar Strdico
begin

text \<open>oper_restore.c, what is above the single objects: the choice by the type of an object, the loop that takes the
  objects of one filesystem or directory tree from the queue, and the arguments of the command line.\<close>

section \<open>One object\<close>

definition extractar_restore_object ::
    "xenv \<Rightarrow> string \<Rightarrow> cdico \<Rightarrow> nat \<Rightarrow> cextractar \<Rightarrow> (int \<times> cextractar) option" where
  "extractar_restore_object env destdir dicoattr fstype exar =
     (let (r1, pathbuf, _) = dico_get_data dicoattr DICO_OBJ_SECTION_STDATTR DISKITEMKEY_PATH
              (x_junk env PATH_MAX) (of_nat PATH_MAX);
          (r2, objtype) = get_std32 env dicoattr DISKITEMKEY_OBJTYPE;
          (r3, _) = get_std64 env dicoattr DISKITEMKEY_SIZE
      in if r1 \<noteq> 0 then Some (-1, exar)
         else if r2 \<noteq> 0 then Some (-2, exar)
         else if r3 \<noteq> 0 then Some (-3, exar)
         else
           do {
             relpath \<leftarrow> buf_string pathbuf;
             fullpath \<leftarrow> concatenate_paths PATH_MAX destdir relpath;
             (if objtype = OBJTYPE_DIR \<or> objtype = OBJTYPE_SYMLINK \<or> objtype = OBJTYPE_HARDLINK \<or>
                 objtype = OBJTYPE_CHARDEV \<or> objtype = OBJTYPE_BLOCKDEV \<or> objtype = OBJTYPE_FIFO \<or>
                 objtype = OBJTYPE_SOCKET \<or> objtype = OBJTYPE_REGFILEUNIQUE \<or> objtype = OBJTYPE_REGFILEMULTI
              then
                do {
                  (res, exar) \<leftarrow>
                    (if objtype = OBJTYPE_DIR then
                       extractar_restore_obj_directory env fullpath relpath dicoattr objtype exar
                     else if objtype = OBJTYPE_SYMLINK then
                       extractar_restore_obj_symlink env fullpath relpath dicoattr objtype fstype exar
                     else if objtype = OBJTYPE_HARDLINK then
                       extractar_restore_obj_hardlink env fullpath relpath destdir dicoattr objtype exar
                     else if objtype = OBJTYPE_REGFILEUNIQUE then
                       extractar_restore_obj_regfile_unique env fullpath relpath dicoattr objtype exar
                     else if objtype = OBJTYPE_REGFILEMULTI then
                       extractar_restore_obj_regfile_multi env destdir dicoattr objtype exar
                     else extractar_restore_obj_devfile env fullpath relpath dicoattr objtype exar);
                  Some (if res \<noteq> 0 then -1 else 0, exar)
                }
              else Some (-3, exar))
           })"

section \<open>The objects of one tree\<close>

text \<open>Everything in front of the next header of an object or the header of the end is dropped. The result is the magic
  found, or None when the queue has come to its end.\<close>

partial_function (option) skip_garbage :: "cextractar \<Rightarrow> (u8 list option \<times> cextractar) option" where
  "skip_garbage exar =
     Option.bind (queue_check_next_item (xr_queue exar)) (\<lambda>(r, typ, magic).
       if r \<noteq> 0 then Some (None, exar)
       else if magic = FSA_MAGIC_OBJT \<or> magic = FSA_MAGIC_DATF then Some (Some magic, exar)
       else Option.bind (queue_destroy_first_item (xr_queue exar)) (\<lambda>(r, q).
         if r \<noteq> 0 then Some (None, exar\<lparr>xr_queue := q\<rparr>) else skip_garbage (exar\<lparr>xr_queue := q\<rparr>)))"

text \<open>The header of an object, asked for again until the queue gives one.\<close>

partial_function (option) dequeue_header_retry ::
    "cextractar \<Rightarrow> nat \<Rightarrow> ((cdico \<times> u16) \<times> nat \<times> cextractar) option" where
  "dequeue_header_retry exar errors =
     Option.bind (x_dequeue_header exar) (\<lambda>(lres, head, exar).
       case head of
         Some (dicoattr, magic, checkfsid) \<Rightarrow>
           if lres \<le> 0 then dequeue_header_retry exar (errors + 1) else Some ((dicoattr, checkfsid), errors, exar)
       | None \<Rightarrow> dequeue_header_retry exar (errors + 1))"

partial_function (option) read_objects_loop ::
    "xenv \<Rightarrow> string \<Rightarrow> nat \<Rightarrow> nat \<Rightarrow> cextractar \<Rightarrow> (int \<times> nat \<times> cextractar) option" where
  "read_objects_loop env destdir fstype errors exar =
     Option.bind (skip_garbage exar) (\<lambda>(found, exar).
       case found of
         None \<Rightarrow> Some (-1, errors, exar)
       | Some magic \<Rightarrow>
           if magic = FSA_MAGIC_OBJT then
             Option.bind (dequeue_header_retry exar errors) (\<lambda>((dicoattr, checkfsid), errors, exar).
               if checkfsid = xr_fsid exar then
                 Option.bind (extractar_restore_object env destdir dicoattr fstype exar) (\<lambda>(res, exar).
                   if res \<noteq> 0 then Some (-1, errors, exar)
                   else if \<not> x_abort env (xr_queue exar) then read_objects_loop env destdir fstype errors exar
                   else Some (0, errors, exar))
               else if \<not> x_abort env (xr_queue exar) then read_objects_loop env destdir fstype (errors + 1) exar
               else Some (0, errors + 1, exar))
           else Some (0, errors, exar))"

definition extractar_extract_read_objects ::
    "xenv \<Rightarrow> string \<Rightarrow> nat \<Rightarrow> cextractar \<Rightarrow> (int \<times> nat \<times> cextractar) option" where
  "extractar_extract_read_objects env destdir fstype exar = read_objects_loop env destdir fstype 0 exar"

section \<open>Arguments\<close>

text \<open>The arguments of restfs become dictionaries, at most one for every filesystem. \<open>isblk\<close> is stat64 finding a block
  device. The 64-bit id is stored in an int before it is compared.\<close>

definition convert_one_argv ::
    "malloc \<Rightarrow> (string \<Rightarrow> bool) \<Rightarrow> string \<Rightarrow> (nat \<times> cstrdico) option" where
  "convert_one_argv mem isblk arg =
     (case strdico_alloc mem of
        None \<Rightarrow> None
      | Some d \<Rightarrow>
          (let (r, d) = strdico_set_valid_keys mem d ''id,dest,mkfs,mkfsopt,uuid,label''
           in if r \<noteq> 0 then None
              else
                (let (r, d) = strdico_parse_string mem d arg
                 in if r \<noteq> 0 then None
                    else
                      (let (r, temp64) = strdico_get_s64 d ''id''
                       in if r \<noteq> 0 then None
                          else
                            (let fsid = sint (word_of_int temp64 :: 32 word)
                             in if fsid < 0 \<or> int FSA_MAX_FSPERARCH - 1 < fsid then None
                                else
                                  (let (r, buffer) = strdico_get_string d 1024 ''dest''
                                   in if r \<noteq> 0 \<or> \<not> isblk buffer then None else Some (nat fsid, d)))))))"

text \<open>The loop over the arguments; the second part of the result is the table it leaves, also after an error.\<close>

fun convert_argv_loop ::
    "malloc \<Rightarrow> (string \<Rightarrow> bool) \<Rightarrow> string option list \<Rightarrow> nat \<Rightarrow> cstrdico option list \<Rightarrow> int \<times> cstrdico option list" where
  "convert_argv_loop mem isblk [] i dicoargv = (0, dicoargv)"
| "convert_argv_loop mem isblk (None # args) i dicoargv = (0, dicoargv)"
| "convert_argv_loop mem isblk (Some arg # args) i dicoargv =
     (if i \<ge> FSA_MAX_FSPERARCH then (0, dicoargv)
      else case convert_one_argv mem isblk arg of
        None \<Rightarrow> (-1, dicoargv)
      | Some (fsid, d) \<Rightarrow>
          if dicoargv ! fsid \<noteq> None then (-1, dicoargv)
          else convert_argv_loop mem isblk args (i + 1) (dicoargv[fsid := Some d]))"

definition convert_argv_to_strdicos ::
    "malloc \<Rightarrow> (string \<Rightarrow> bool) \<Rightarrow> string option list \<Rightarrow> cstrdico option list \<Rightarrow> int \<times> cstrdico option list" where
  "convert_argv_to_strdicos mem isblk cmdargv dicoargv = convert_argv_loop mem isblk cmdargv 0 dicoargv"

lemma argv_tokens: "strtok_all strdico_delims ''id=4294967296,dest=/dev/sda1'' = [''id=4294967296'', ''dest=/dev/sda1'']"
  by code_simp

lemma valid_tokens: "strtok_all strdico_delims ''id,dest,mkfs,mkfsopt,uuid,label'' = [''id'',''dest'',''mkfs'',''mkfsopt'',''uuid'',''label'']"
  by code_simp

lemma argv_definitions: "parse_definition ''id=4294967296'' = Some (''id'', ''4294967296'')" "parse_definition ''dest=/dev/sda1'' = Some (''dest'', ''/dev/sda1'')"
  by (simp_all add: parse_definition_def Let_def)

lemma argv_value: "dec_value ''4294967296'' = 4294967296"
  by (simp add: dec_value_def char_value_def)

lemma argv_id: "strtoll10 ''4294967296'' = (4294967296, True, [])"
  by (subst strtoll10_digits) (simp_all add: argv_value Let_def)

text \<open>The id is compared only after it was cut to 32 bits.\<close>

lemma large_id_accepted:
  "map_option fst (convert_one_argv mem_ok (\<lambda>_. True) ''id=4294967296,dest=/dev/sda1'') = Some 0"
proof -
  have "snprintf_s 1024 ''4294967296'' = ''4294967296''" "snprintf_s 1024 ''/dev/sda1'' = ''/dev/sda1''"
    by (simp_all add: snprintf_s_id)
  then show ?thesis
    by (simp add: convert_one_argv_def strdico_alloc_def strdico_set_valid_keys_def strdico_parse_string_def argv_tokens valid_tokens argv_definitions
      strdico_set_value_def strdico_key_allowed_def strdico_get_s64_def argv_id strdico_get_string_def Let_def FSAERR_SUCCESS_def
      FSA_MAX_FSPERARCH_def)
qed

section \<open>An example\<close>

definition demo_xenv :: xenv where
  "demo_xenv =
     \<lparr>x_mem = mem_ok, x_opt = options_zero\<lparr>encryptpass := ''secret''\<rparr>, x_fnmatch = (\<lambda>p s. p = s), x_gcry = demo_gcry,
      x_os = demo_os, x_lstat = (\<lambda>tr p. Some (True, 10, 20)), x_missing = (\<lambda>tr p. False), x_interrupted = (\<lambda>q. False),
      x_abort = (\<lambda>q. False), x_lutimes = True, x_junk = (\<lambda>n. replicate n 0xAA), x_junktv = (0, 0),
      x_regmulti = demo_regmulti\<rparr>"

definition demo_extractar :: cextractar where
  "demo_extractar =
     \<lparr>xr_ai = archreader_init, xr_fsid = 0,
      xr_stats = \<lparr>cnt_regfile = 0, cnt_dir = 0, cnt_symlink = 0, cnt_hardlink = 0, cnt_special = 0,
        err_regfile = 0, err_dir = 0, err_symlink = 0, err_hardlink = 0, err_special = 0\<rparr>,
      xr_cost_global = 0, xr_cost_current = 0, xr_queue = queue_init 4, xr_trace = []\<rparr>"

end
