(* ===== verification/Regtrip.thy ===== *)
theory Regtrip
  imports Saveok Restobj
begin

text \<open>A large file from the source tree to the destination: what createar_obj_regfile_unique puts into the queue, and
  what extractar_restore_obj_regfile_unique makes of these items when they come out of the queue on the other
  side.\<close>

section \<open>Saving\<close>

text \<open>A source file that can be opened and whose reads give the bytes of its content, fewer at its end. The content
  need not have the length that stat told before.\<close>

definition file_reads :: "senv \<Rightarrow> string \<Rightarrow> u8 list \<Rightarrow> bool" where
  "file_reads env p content \<longleftrightarrow> s_open env p \<and>
     (\<forall>pos n. s_read env p pos n = (int (length (take n (drop pos content))), take n (drop pos content)))"

text \<open>The queue takes every item and nobody interrupts.\<close>

definition save_quiet :: "senv \<Rightarrow> bool" where
  "save_quiet env \<longleftrightarrow> (\<forall>n. s_addq env n = 0) \<and> (\<forall>n. \<not> s_interrupted env n)"

definition file_block :: "u16 \<Rightarrow> nat \<Rightarrow> u8 list \<Rightarrow> cblockinfo" where
  "file_block fsid pos bytes =
     zero_blockinfo\<lparr>blkrealsize := of_nat (length bytes), blkdata := bytes, blkoffset := of_nat pos, blkfsid := fsid\<rparr>"

function file_blocks :: "nat \<Rightarrow> u16 \<Rightarrow> nat \<Rightarrow> u8 list \<Rightarrow> cblockinfo list" where
  "file_blocks bs fsid pos bytes =
     (if bs = 0 \<or> bytes = [] then []
      else file_block fsid pos (take bs bytes) # file_blocks bs fsid (pos + length (take bs bytes)) (drop bs bytes))"
  by pat_completeness auto
termination by (relation "measure (\<lambda>(bs, fsid, pos, bytes). length bytes)") auto

declare file_blocks.simps [simp del]

lemma file_blocks_Nil [simp]: "file_blocks bs fsid pos [] = []"
  by (simp add: file_blocks.simps)

text \<open>The bytes that are saved: as many as stat told, filled up with zeros.\<close>

abbreviation saved_bytes :: "nat \<Rightarrow> u8 list \<Rightarrow> u8 list" where
  "saved_bytes \<equiv> file_resize"

lemma file_resize_nth: "i < m \<Longrightarrow> file_resize m content ! i = (if i < length content then content ! i else 0)"
  by (simp add: file_resize_def nth_append)

lemma take_drop_resize:
  assumes "pos + n \<le> m"
  shows "take n (drop pos (file_resize m content)) =
    take n (drop pos content) @ replicate (n - length (take n (drop pos content))) 0"
    (is "?l = ?r")
proof (rule nth_equalityI)
  show "length ?l = length ?r" using assms by simp
  fix i assume "i < length ?l"
  then have i: "i < n" "pos + i < m" using assms by auto
  then have l: "?l ! i = (if pos + i < length content then content ! (pos + i) else 0)"
    using assms by (simp add: file_resize_nth)
  show "?l ! i = ?r ! i"
  proof (cases "pos + i < length content")
    case True
    then have "i < length content - pos" by linarith
    then show ?thesis unfolding l using i True by (simp add: nth_append)
  next
    case False
    then have "length (take n (drop pos content)) \<le> i" by simp
    then show ?thesis unfolding l nth_append using i False by simp
  qed
qed

lemma padded_block_id: "length part \<le> n \<Longrightarrow> padded_block (int (length part)) part n = part @ replicate (n - length part) 0"
  by (simp add: padded_block_def)

lemma padded_read:
  assumes "pos + n \<le> m"
  shows "padded_block (int (length (take n (drop pos content)))) (take n (drop pos content)) n =
    take n (drop pos (file_resize m content))"
  unfolding take_drop_resize [OF assms] by (rule padded_block_id) simp

lemma regfile_blocks_saves:
  fixes env save p content filesize
  defines "bytes \<equiv> file_resize filesize content" and "bs \<equiv> unat (datablocksize (s_opt env))"
  assumes env: "s_mem env = mem_ok" "save_quiet env" "file_reads env p content" and bs: "0 < bs" and "pos \<le> filesize"
    and eof: "eof \<Longrightarrow> length content \<le> pos"
  shows "regfile_blocks env p filesize pos eof md5ctx ret save =
    Some (if \<not> eof \<and> pos < filesize \<and> length content < filesize then -1 else ret, False, md5ctx @ drop pos bytes,
      save\<lparr>sv_added := sv_added save @
        map (\<lambda>b. (QITEM_STATUS_TODO, Qblock b)) (file_blocks bs (sv_fsid save) pos (drop pos bytes))\<rparr>)"
  using assms(7,8)
proof (induction "filesize - pos" arbitrary: pos eof md5ctx ret save rule: less_induct)
  case less
  have ni: "\<not> save_interrupted env save" "s_addq env n = 0" for n
    using env(2) by (simp_all add: save_interrupted_def save_quiet_def)
  have len: "length bytes = filesize" by (simp add: bytes_def)
  show ?case
  proof (cases "pos < filesize")
    case False
    then have "drop pos bytes = []" using len by simp
    with False show ?thesis by (subst regfile_blocks.simps) simp
  next
    case True
    define cur where "cur = min (filesize - pos) bs"
    have cur: "0 < cur" "pos + cur \<le> filesize" "filesize - (pos + cur) < filesize - pos"
      using True bs by (auto simp: cur_def)
    define blk where "blk = take cur (drop pos bytes)"
    have blk: "blk = take bs (drop pos bytes)" "length blk = cur" "drop cur (drop pos bytes) = drop bs (drop pos bytes)"
      using len True by (auto simp: blk_def cur_def min_def)
    define part where "part = take cur (drop pos content)"
    have pad: "padded_block (int (length part)) part cur = blk"
      unfolding part_def blk_def bytes_def by (rule padded_read [OF cur(2)])
    have zero: "padded_block 0 [] cur = blk" if eof
    proof -
      have "part = []" using less.prems(2) [OF that] by (simp add: part_def)
      with pad show ?thesis by simp
    qed
    obtain res rd where rd: "(if eof then (0, []) else s_read env p pos cur) = (res, rd)" by force
    have res: "padded_block res rd cur = blk" "\<not> eof \<longrightarrow> res = int (length part)"
      using rd pad zero env(3) by (auto simp: file_reads_def part_def split: if_splits)
    have short: "length part < cur \<longleftrightarrow> length content < pos + cur"
      using cur(1) by (auto simp: part_def)
    define eof2 where "eof2 \<longleftrightarrow> eof \<or> length content < pos + cur"
    let ?save = "save\<lparr>sv_added := sv_added save @ [(QITEM_STATUS_TODO, Qblock (file_block (sv_fsid save) pos blk))]\<rparr>"
    let ?ret = "if \<not> eof \<and> length content < pos + cur then -1 else ret"
    have q: "g_queue_add env (QITEM_STATUS_TODO, Qblock (file_block (sv_fsid save) pos blk)) save = (0, ?save)"
      by (simp add: g_queue_add_def ni)
    have b: "zero_blockinfo\<lparr>blkrealsize := of_nat cur, blkdata := blk, blkoffset := of_nat pos, blkfsid := sv_fsid save\<rparr> =
        file_block (sv_fsid save) pos blk"
      by (simp add: file_block_def blk(2))
    have "regfile_blocks env p filesize pos eof md5ctx ret save =
        regfile_blocks env p filesize (pos + cur) eof2 (md5ctx @ blk) ?ret ?save"
    proof -
      have 1: "eof \<or> (\<not> eof \<and> res \<noteq> int cur) \<and> res < int cur \<longleftrightarrow> eof2"
        "\<not> eof \<and> res \<noteq> int cur \<longleftrightarrow> \<not> eof \<and> length content < pos + cur"
        "\<not> (\<not> eof \<and> res < 0)"
        using res(2) short by (auto simp: eof2_def part_def)
      show ?thesis
        using True ni env(1) 1
        by (subst regfile_blocks.simps, unfold Let_def bs_def [symmetric] cur_def [symmetric] rd prod.case res(1) b q) auto
    qed
    moreover have "filesize - (pos + cur) < filesize - pos" by (rule cur(3))
    moreover have "pos + cur \<le> filesize" by (rule cur(2))
    moreover have "eof2 \<Longrightarrow> length content \<le> pos + cur" using less.prems(2) by (auto simp: eof2_def)
    moreover have "file_blocks bs (sv_fsid save) pos (drop pos bytes) =
        file_block (sv_fsid save) pos blk # file_blocks bs (sv_fsid save) (pos + cur) (drop (pos + cur) bytes)"
      using True bs len blk by (subst file_blocks.simps) (simp add: add.commute)
    moreover have "blk @ drop (pos + cur) bytes = drop pos bytes"
      unfolding blk_def by (metis add.commute append_take_drop_id drop_drop)
    ultimately show ?thesis
      using less.hyps [of "pos + cur" eof2 "md5ctx @ blk" ?ret ?save] True less.prems(2)
      by (auto simp: eof2_def)
  qed
qed

lemma dico_add_md5:
  "16 \<le> length md5 \<Longrightarrow> snd (dico_add_data mem_ok [] 0 BLOCKFOOTITEMKEY_MD5SUM (take 16 md5) 16) =
     [new_item 0 BLOCKFOOTITEMKEY_MD5SUM (take 16 md5) 16 DICTYPE_DATA]"
  by (simp add: dico_add_data_def dico_add_generic_ok)

text \<open>The dictionary of the footer.\<close>

definition footer_dico :: "gcry \<Rightarrow> u8 list \<Rightarrow> cdico" where
  "footer_dico gc bytes = [new_item 0 BLOCKFOOTITEMKEY_MD5SUM (take 16 (md5_hash gc bytes)) 16 DICTYPE_DATA]"

definition file_items :: "senv \<Rightarrow> u16 \<Rightarrow> cdico \<Rightarrow> u8 list \<Rightarrow> (qstatus \<times> qinfo) list" where
  "file_items env fsid h bytes =
     header_item h FSA_MAGIC_OBJT fsid #
     map (\<lambda>b. (QITEM_STATUS_TODO, Qblock b)) (file_blocks (unat (datablocksize (s_opt env))) fsid 0 bytes) @
     (if bytes = [] then [] else [header_item (footer_dico (s_gcry env) bytes) FSA_MAGIC_FILF fsid])"

lemma regfile_unique_saves:
  assumes env: "s_mem env = mem_ok" "save_quiet env" "file_reads env p content" and "0 < datablocksize (s_opt env)"
    and md5: "md5_open_ok (s_gcry env)" "md5_read_ok (s_gcry env)" "\<And>x. 16 \<le> length (md5_hash (s_gcry env) x)"
  shows "\<exists>save'. createar_obj_regfile_unique env save h p filesize =
      Some (if length content < unat filesize then -1 else 0, save') \<and>
    sv_added save' = sv_added save @ file_items env (sv_fsid save) h (file_resize (unat filesize) content)"
proof -
  let ?bytes = "file_resize (unat filesize) content"
  let ?save1 = "save\<lparr>sv_added := sv_added save @ [header_item h FSA_MAGIC_OBJT (sv_fsid save)]\<rparr>"
  have ni: "\<not> save_interrupted env s" "s_addq env n = 0" for s n
    using env(2) by (simp_all add: save_interrupted_def save_quiet_def)
  have q: "g_queue_add env x s = (0, s\<lparr>sv_added := sv_added s @ [x]\<rparr>)" for x s
    by (simp add: g_queue_add_def ni)
  have bs: "0 < unat (datablocksize (s_opt env))" using assms(4) by (simp add: word_less_nat_alt)
  note b = regfile_blocks_saves [where save = ?save1 and pos = 0 and eof = False and md5ctx = "[]" and ret = 0,
      OF env bs, of "unat filesize"]
  have e: "?bytes = [] \<longleftrightarrow> filesize = 0"
    by (metis file_resize_length length_0_conv unat_eq_zero)
  have e2: "0 < filesize \<longleftrightarrow> filesize \<noteq> 0" "0 < unat filesize \<longleftrightarrow> filesize \<noteq> 0"
    using unat_eq_zero [of filesize] by (auto simp: word_greater_zero_iff)
  have o: "s_open env p" using env(3) by (simp add: file_reads_def)
  show ?thesis
    using b o md5(1,2) e
    by (auto simp: createar_obj_regfile_unique_def q env(1) Let_def ni dico_alloc_def dico_add_md5 [OF md5(3)]
        file_items_def footer_dico_def e2)
qed

section \<open>Taking items from the queue\<close>

lemma x_dequeue_block_Cons:
  assumes inv: "queue_inv (xr_queue exar)" and c: "queue_contents (xr_queue exar) = (QITEM_STATUS_DONE, Qblock b) # xs"
  shows "\<exists>n q. x_dequeue_block exar = Some (n, Qblock b, exar\<lparr>xr_queue := q\<rparr>) \<and> 0 < n \<and> queue_inv q \<and> queue_contents q = xs"
proof -
  obtain cur items where h: "qhead (xr_queue exar) = cur # items" "item_view cur = (QITEM_STATUS_DONE, Qblock b)"
    "map item_view items = xs" using c by (auto simp: queue_contents_def)
  have v: "istatus cur = QITEM_STATUS_DONE" "itype cur = QITEM_TYPE_BLOCK" "iblkinfo cur = b" "0 < itemnum cur"
    using h(1,2) inv by (auto simp: item_view_def queue_inv_def split: if_splits)
  let ?q = "(xr_queue exar)\<lparr>blkcount := blkcount (xr_queue exar) - 1, qhead := items, itemcount := itemcount (xr_queue exar) - 1\<rparr>"
  have "queue_dequeue_block (xr_queue exar) = Some (itemnum cur, Qblock b, ?q)"
    using not_end_if_item [OF inv h(1)] v h(1) by (simp add: queue_dequeue_block_def first_not_ready_def)
  then show ?thesis
    using dequeue_block_inv [OF inv] h(3) v(4) by (auto simp: x_dequeue_block_def queue_contents_def)
qed

lemma x_dequeue_header_Cons:
  assumes inv: "queue_inv (xr_queue exar)" and c: "queue_contents (xr_queue exar) = (QITEM_STATUS_DONE, Qheader h) # xs"
  shows "\<exists>n q. x_dequeue_header exar = Some (n, Some (hdico h, take FSA_SIZEOF_MAGIC (hmagic h), hfsid h), exar\<lparr>xr_queue := q\<rparr>) \<and>
    0 < n \<and> queue_inv q \<and> queue_contents q = xs"
proof -
  obtain cur items where h: "qhead (xr_queue exar) = cur # items" "item_view cur = (QITEM_STATUS_DONE, Qheader h)"
    "map item_view items = xs" using c by (auto simp: queue_contents_def)
  have v: "istatus cur = QITEM_STATUS_DONE" "itype cur = QITEM_TYPE_HEADER" "iheadinfo cur = h" "0 < itemnum cur"
    using h(1,2) inv by (cases "itype cur"; fastforce simp: item_view_def queue_inv_def item_ok_def)+
  let ?q = "(xr_queue exar)\<lparr>qhead := items, itemcount := itemcount (xr_queue exar) - 1\<rparr>"
  have d: "queue_dequeue_header_internal (xr_queue exar) = Some (itemnum cur, Qheader h, ?q)"
    using not_end_if_item [OF inv h(1)] v h(1) by (simp add: queue_dequeue_header_internal_def first_not_ready_def)
  then show ?thesis
    using dequeue_header_inv [OF inv d] h(3) v(4) by (auto simp: x_dequeue_header_def queue_dequeue_header_def queue_contents_def)
qed

section \<open>Writing the blocks\<close>

text \<open>The calls that write the open file, and those that only make directories or set attributes.\<close>

fun data_call :: "syscall \<Rightarrow> bool" where
  "data_call (Sys_write d) = True"
| "data_call (Sys_seek n) = True"
| "data_call (Sys_ftruncate n) = True"
| "data_call c = False"

fun meta_call :: "syscall \<Rightarrow> bool" where
  "meta_call (Sys_mkdir p) = True"
| "meta_call (Sys_lchown p u g) = True"
| "meta_call (Sys_chmod p m) = True"
| "meta_call (Sys_utimes p t) = True"
| "meta_call (Sys_lutimes p t) = True"
| "meta_call (Sys_lsetxattr p n v) = True"
| "meta_call c = False"

lemma x_write_ok:
  assumes "os_file_ok (x_os env)" and "df_open f" and "\<not> df_simul f" and "written (df_sparse f) bytes (file_of (xr_trace exar))"
  shows "\<exists>c. x_write env f d exar = (FSAERR_SUCCESS, f\<lparr>df_md5ctx := df_md5ctx f @ d\<rparr>, exar\<lparr>xr_trace := xr_trace exar @ [c]\<rparr>) \<and>
    data_call c \<and> written (df_sparse f) (bytes @ d) (file_of (xr_trace exar @ [c]))"
proof -
  obtain tr where w: "datafile_write (x_os env) f d (xr_trace exar) = (FSAERR_SUCCESS, f\<lparr>df_md5ctx := df_md5ctx f @ d\<rparr>, tr)"
    "written (df_sparse f) (bytes @ d) (file_of tr)"
    using datafile_write_written [OF assms] by blast
  have "\<exists>c. tr = xr_trace exar @ [c] \<and> data_call c"
    using w(1) assms(2,3) by (auto simp: datafile_write_def sys_call_def Let_def split: if_splits)
  then show ?thesis using w by (auto simp: x_write_def)
qed

lemma content_of_block:
  "content_of info = content_of (Qblock b) \<Longrightarrow>
    \<exists>c. info = Qblock c \<and> blkdata c = blkdata b \<and> blkrealsize c = blkrealsize b \<and> blkoffset c = blkoffset b"
  by (cases info) (auto simp: zero_blockinfo_def)

lemma restore_blocks_ok:
  fixes env bs fsid n bytes
  assumes os: "os_file_ok (x_os env)" and quiet: "\<And>q. \<not> x_interrupted env q"
    and bs: "0 < bs" "bs \<le> FSA_MAX_BLKSIZE" and n: "length bytes = n" "n < 2 ^ 64"
    and f: "df_open f" "\<not> df_simul f" "written (df_sparse f) (take pos bytes) (file_of (xr_trace exar))"
    and q: "queue_inv (xr_queue exar)" "queue_contents (xr_queue exar) = map (Pair QITEM_STATUS_DONE) infos @ rest"
    and infos: "map content_of infos = map (content_of \<circ> Qblock) (file_blocks bs fsid pos (drop pos bytes))" and "pos \<le> n"
  shows "\<exists>q cs. restore_blocks env (of_nat n) (of_nat pos) f exar =
      Some (Blocks_done, f\<lparr>df_md5ctx := df_md5ctx f @ drop pos bytes\<rparr>, exar\<lparr>xr_queue := q, xr_trace := xr_trace exar @ cs\<rparr>) \<and>
    queue_inv q \<and> queue_contents q = rest \<and> list_all data_call cs \<and>
    written (df_sparse f) bytes (file_of (xr_trace exar @ cs))"
  using f q infos assms(13)
proof (induction "n - pos" arbitrary: pos f exar infos rule: less_induct)
  case less
  show ?case
  proof (cases "pos < n")
    case False
    then have "drop pos bytes = []" "infos = []" "take pos bytes = bytes" using n(1) less.prems by auto
    moreover have "of_nat pos = (of_nat n :: u64)" using False less.prems(7) by simp
    ultimately show ?thesis
      using less.prems by (subst restore_blocks.simps) (auto intro!: exI [of _ "xr_queue exar"] exI [of _ "[]"])
  next
    case True
    define cur where "cur = min (n - pos) bs"
    define blk where "blk = take bs (drop pos bytes)"
    have blk: "length blk = cur" "blk \<noteq> []" "drop bs (drop pos bytes) = drop (pos + cur) bytes"
      "take pos bytes @ blk = take (pos + cur) bytes" "0 < cur" "cur \<le> bs" "pos + cur \<le> n"
      using True n(1) bs(1) by (auto simp: blk_def cur_def min_def take_add add.commute)
    have "file_blocks bs fsid pos (drop pos bytes) = file_block fsid pos blk # file_blocks bs fsid (pos + cur) (drop (pos + cur) bytes)"
      using True n(1) bs(1) blk by (subst file_blocks.simps) (simp add: blk_def [symmetric])
    then obtain z infos' where z: "infos = z # infos'" "content_of z = content_of (Qblock (file_block fsid pos blk))"
        "map content_of infos' = map (content_of \<circ> Qblock) (file_blocks bs fsid (pos + cur) (drop (pos + cur) bytes))"
      using less.prems(6) by (auto simp: map_eq_Cons_conv)
    obtain c where "z = Qblock c" and c: "blkdata c = blk" "blkrealsize c = of_nat cur" "blkoffset c = of_nat pos"
      using content_of_block [OF z(2)] blk(1) by (auto simp: file_block_def)
    then have i: "infos = Qblock c # infos'" using z(1) by simp
    have u: "unat (of_nat cur :: u32) = cur"
      using blk(6) bs(2) by (simp add: FSA_MAX_BLKSIZE_def unsigned_of_nat take_bit_nat_eq_self)
    have lt: "(0 :: u64) < of_nat n" "(of_nat pos :: u64) < of_nat n"
      using True n(2) less_trans [OF True n(2)]
      by (simp_all add: word_less_nat_alt unsigned_of_nat take_bit_nat_eq_self)
    obtain k q1 where d: "x_dequeue_block exar = Some (k, Qblock c, exar\<lparr>xr_queue := q1\<rparr>)" "0 < k" "queue_inv q1"
        "queue_contents q1 = map (Pair QITEM_STATUS_DONE) infos' @ rest"
      using x_dequeue_block_Cons [OF less.prems(4), of c] less.prems(5) i by auto
    obtain cl where w: "x_write env f blk (exar\<lparr>xr_queue := q1\<rparr>) =
        (FSAERR_SUCCESS, f\<lparr>df_md5ctx := df_md5ctx f @ blk\<rparr>, exar\<lparr>xr_queue := q1, xr_trace := xr_trace exar @ [cl]\<rparr>)"
        "data_call cl" "written (df_sparse f) (take (pos + cur) bytes) (file_of (xr_trace exar @ [cl]))"
      using x_write_ok [OF os less.prems(1,2), where exar = "exar\<lparr>xr_queue := q1\<rparr>"] less.prems(3) blk(4) by fastforce
    let ?exar = "exar\<lparr>xr_queue := q1, xr_trace := xr_trace exar @ [cl]\<rparr>"
    let ?f = "f\<lparr>df_md5ctx := df_md5ctx f @ blk\<rparr>"
    have "ucast (of_nat cur :: u32) = (of_nat cur :: u64)"
      using u by (metis of_nat_unat)
    then have e: "restore_blocks env (of_nat n) (of_nat pos) f exar =
        restore_blocks env (of_nat n) (of_nat (pos + cur)) ?f ?exar"
      using lt quiet d(2) c u blk(1)
      by (subst restore_blocks.simps) (simp add: d(1) w(1) not_le)
    have "n - (pos + cur) < n - pos" using True blk(5) by linarith
    from less.hyps [OF this, of ?f ?exar infos'] obtain q2 cs where
      "restore_blocks env (of_nat n) (of_nat (pos + cur)) ?f ?exar = Some (Blocks_done,
        ?f\<lparr>df_md5ctx := df_md5ctx ?f @ drop (pos + cur) bytes\<rparr>, ?exar\<lparr>xr_queue := q2, xr_trace := xr_trace ?exar @ cs\<rparr>)"
      "queue_inv q2" "queue_contents q2 = rest" "list_all data_call cs"
      "written (df_sparse f) bytes (file_of (xr_trace ?exar @ cs))"
      using less.prems(1,2) w(3) d(3,4) z(3) blk(7) by auto
    moreover have "blk @ drop (pos + cur) bytes = drop pos bytes"
      using blk(3) by (metis append_take_drop_id blk_def)
    ultimately show ?thesis
      using e w(2) by (intro exI [of _ q2] exI [of _ "cl # cs"]) simp
  qed
qed

section \<open>Attributes\<close>

text \<open>A step that only makes directories or sets attributes.\<close>

definition meta_step :: "cextractar \<Rightarrow> cextractar \<Rightarrow> bool" where
  "meta_step exar exar' \<longleftrightarrow> (\<exists>cs. exar' = exar\<lparr>xr_trace := xr_trace exar @ cs\<rparr> \<and> list_all meta_call cs)"

lemma meta_step_refl [intro]: "meta_step exar exar"
  unfolding meta_step_def by (rule exI [of _ "[]"]) simp

lemma meta_step_trans: "meta_step a b \<Longrightarrow> meta_step b c \<Longrightarrow> meta_step a c"
  unfolding meta_step_def by (elim exE conjE) (rule exI, rule conjI, simp, simp)

lemma x_sys_meta: "x_sys env c exar = (r, exar') \<Longrightarrow> meta_call c \<Longrightarrow> meta_step exar exar'"
  by (auto simp: x_sys_def meta_step_def intro!: exI [of _ "[c]"])

lemma meta_step_sysE: "x_sys env c b = (r, e) \<Longrightarrow> meta_step a b \<Longrightarrow> meta_call c \<Longrightarrow> meta_step a e"
  using meta_step_trans x_sys_meta by blast

lemma meta_step_sys: "meta_step a b \<Longrightarrow> meta_call c \<Longrightarrow> meta_step a (snd (x_sys env c b))"
  using meta_step_sysE [of env c b "fst (x_sys env c b)" "snd (x_sys env c b)" a] by simp

lemma mkdir_loop_trace:
  "\<exists>cs. mkdir_recursive_loop missing (\<lambda>tr p. tr @ [Sys_mkdir p]) tr path poss = tr @ cs \<and> list_all meta_call cs"
proof (induction poss arbitrary: tr)
  case (Cons pos poss)
  obtain cs where "mkdir_recursive_loop missing (\<lambda>tr p. tr @ [Sys_mkdir p]) (tr @ [Sys_mkdir (take pos path)]) path poss =
      (tr @ [Sys_mkdir (take pos path)]) @ cs" "list_all meta_call cs"
    using Cons.IH by blast
  then show ?case
    using Cons.IH [of tr] by (auto simp: Let_def intro: exI [of _ "Sys_mkdir (take pos path) # cs"])
qed simp

lemma mkdir_meta: "meta_step exar (x_mkdir_recursive env path exar)"
  using mkdir_loop_trace unfolding x_mkdir_recursive_def mkdir_recursive_def meta_step_def by metis

lemma obj_begin_meta: "obj_begin env fullpath exar = (tv, exar') \<Longrightarrow> meta_step exar exar'"
  by (auto simp: obj_begin_def Let_def intro: mkdir_meta)

lemma attr_std_meta: "extractar_restore_attr_std env objtype p d exar = (r, exar') \<Longrightarrow> meta_step exar exar'"
  by (auto simp: extractar_restore_attr_std_def Let_def split: if_splits prod.splits)
    (erule meta_step_sysE | rule meta_step_refl | rule meta_step_sys | simp)+

text \<open>The names of the extended attributes end with a NUL, as saving writes them.\<close>

definition attr_names_ok :: "cdico \<Rightarrow> bool" where
  "attr_names_ok d \<longleftrightarrow> (\<forall>sec i buf. dico_get_string d sec i 2048 = (0, buf) \<longrightarrow> 0 \<in> set buf)"

lemma restore_one_attr_meta:
  assumes "attr_names_ok d"
  shows "\<exists>r exar'. restore_one_attr env p d sec i exar = Some (r, exar') \<and> meta_step exar exar'"
proof -
  obtain r1 name where 1: "dico_get_string d sec (of_nat i) 2048 = (r1, name)" by force
  obtain r2 xvalue n where 2: "dico_get_data d sec (of_nat (i + 1)) (replicate 65535 0) 65535 = (r2, xvalue, n)"
    by (metis prod_cases3)
  obtain r3 exar' where 3: "x_sys env (Sys_lsetxattr p (string_of_bytes (takeWhile (\<lambda>b. b \<noteq> 0) name)) (take (unat n) xvalue)) exar =
      (r3, exar')" by force
  have "r1 = 0 \<Longrightarrow> 0 \<in> set name" using assms 1 by (auto simp: attr_names_ok_def)
  then show ?thesis
    using x_sys_meta [OF 3] unfolding restore_one_attr_def Let_def 1 2 prod.case
    by (auto simp: buf_string_def 3)
qed

lemma restore_attrs_meta:
  assumes "attr_names_ok d"
  shows "\<exists>r exar'. restore_attrs_loop env p d sec n i ret exar = Some (r, exar') \<and> meta_step exar exar'"
proof (induction "n - i" arbitrary: i ret exar rule: less_induct)
  case less
  show ?case
  proof (cases "i < n")
    case True
    obtain r exar1 where 1: "restore_one_attr env p d sec i exar = Some (r, exar1)" "meta_step exar exar1"
      using restore_one_attr_meta [OF assms] by blast
    have "n - (i + 2) < n - i" using True by linarith
    from less [OF this] obtain r' exar2 where
      "restore_attrs_loop env p d sec n (i + 2) (if r \<noteq> 0 then -1 else ret) exar1 = Some (r', exar2)" "meta_step exar1 exar2"
      by blast
    then show ?thesis
      using True 1 meta_step_trans by (subst restore_attrs_loop.simps) auto
  qed (subst restore_attrs_loop.simps, auto)
qed

lemma attr_everything_meta:
  assumes "attr_names_ok d"
  shows "\<exists>r exar'. extractar_restore_attr_everything env objtype p d exar = Some (r, exar') \<and> meta_step exar exar'"
proof -
  obtain r1 exar1 where 1: "extractar_restore_attr_std env objtype p d exar = (r1, exar1)" by force
  obtain r2 exar2 where 2: "extractar_restore_attr_xattr env p d exar1 = Some (r2, exar2)" "meta_step exar1 exar2"
    using restore_attrs_meta [OF assms] unfolding extractar_restore_attr_xattr_def by blast
  obtain r3 exar3 where 3: "extractar_restore_attr_windows env p d exar2 = Some (r3, exar3)" "meta_step exar2 exar3"
    using restore_attrs_meta [OF assms] unfolding extractar_restore_attr_windows_def by blast
  have "meta_step exar exar3"
    using meta_step_trans [OF meta_step_trans [OF attr_std_meta [OF 1] 2(2)] 3(2)] .
  then show ?thesis by (simp add: extractar_restore_attr_everything_def 1 2(1) 3(1))
qed

section \<open>Restoring\<close>

lemma x_open_ok:
  assumes "os_file_ok (x_os env)" and "md5_open_ok (x_gcry env)" and "\<not> df_open f"
  shows "\<exists>f'. x_open_write env f path False sparse exar = (0, f', exar\<lparr>xr_trace := xr_trace exar @ [Sys_open path]\<rparr>) \<and>
    df_open f' \<and> \<not> df_simul f' \<and> df_md5ctx f' = [] \<and> written (df_sparse f') [] (file_of (xr_trace exar @ [Sys_open path]))"
  using datafile_open_ok [OF assms, of path sparse "xr_trace exar"] by (auto simp: x_open_write_def)

lemma x_close_ok:
  assumes "os_file_ok (x_os env)" and "md5_read_ok (x_gcry env)" and "df_open f" and "\<not> df_simul f"
    and "written (df_sparse f) bytes (file_of (xr_trace exar))"
  shows "\<exists>f' cs. x_close env f exar =
      (0, take 16 (md5_hash (x_gcry env) (df_md5ctx f)), f', exar\<lparr>xr_trace := xr_trace exar @ cs @ [Sys_close]\<rparr>) \<and>
    \<not> df_open f' \<and> list_all data_call cs \<and> fst (file_of (xr_trace exar @ cs @ [Sys_close])) = bytes"
proof -
  obtain f' tr where c: "datafile_close (x_os env) (x_gcry env) f (Some 16) (xr_trace exar) =
      (0, Some (take 16 (md5_hash (x_gcry env) (df_md5ctx f))), f', tr)" "\<not> df_open f'" "fst (file_of tr) = bytes"
    using datafile_close_ok [OF assms, of 16] by auto
  have "\<exists>cs. tr = xr_trace exar @ cs @ [Sys_close] \<and> list_all data_call cs"
    using c(1) assms(3,4) by (auto simp: datafile_close_def sys_call_def Let_def split: if_splits)
  then show ?thesis using c by (auto simp: x_close_def)
qed

lemma restore_footer_compares:
  assumes "queue_inv (xr_queue exar)" and "\<And>m. length (x_junk env m) = m" and "16 \<le> length (md5_hash gc bytes)"
    and "queue_contents (xr_queue exar) =
      (QITEM_STATUS_DONE, Qheader \<lparr>hmagic = FSA_MAGIC_FILF, hfsid = fsid, hdico = footer_dico gc bytes\<rparr>) # rest"
  shows "\<exists>q. restore_footer env False md5 exar =
      Some ((md5 \<noteq> take 16 (md5_hash gc bytes), md5 \<noteq> take 16 (md5_hash gc bytes)), exar\<lparr>xr_queue := q\<rparr>) \<and>
    queue_inv q \<and> queue_contents q = rest"
proof -
  obtain n q where d: "x_dequeue_header exar = Some (n, Some (footer_dico gc bytes, FSA_MAGIC_FILF, fsid), exar\<lparr>xr_queue := q\<rparr>)"
    "0 < n" "queue_inv q" "queue_contents q = rest"
    using x_dequeue_header_Cons [OF assms(1,4)] by (auto simp: fsa_const)
  have "dico_get_data (footer_dico gc bytes) 0 BLOCKFOOTITEMKEY_MD5SUM (x_junk env 16) 16 =
      (0, take 16 (md5_hash gc bytes), 16)"
    using assms(2,3) by (simp add: footer_dico_def dico_get_data_item new_item_def memcpy_def)
  then show ?thesis using d by (intro exI [of _ q]) (simp add: restore_footer_def)
qed

lemma x_destroy_closed: "\<not> df_open f \<Longrightarrow> x_destroy env f exar = exar"
  by (simp add: x_destroy_def datafile_destroy_def)

lemma meta_stepD: "meta_step a b \<Longrightarrow> \<exists>cs. b = a\<lparr>xr_trace := xr_trace a @ cs\<rparr> \<and> list_all meta_call cs"
  by (simp add: meta_step_def)

text \<open>Whether the attributes of the file and the times of its parent directory are set without an error.\<close>

definition attrs_restored :: "xenv \<Rightarrow> u32 \<Rightarrow> string \<Rightarrow> cdico \<Rightarrow> int \<times> int \<Rightarrow> cextractar \<Rightarrow> bool" where
  "attrs_restored env objtype path d tv exar \<longleftrightarrow>
     (case extractar_restore_attr_everything env objtype path d exar of
        Some (r, exar) \<Rightarrow> r = 0 \<and> fst (x_sys env (Sys_utimes (extract_dirpath path PATH_MAX) tv) exar) = 0
      | None \<Rightarrow> False)"

lemma restore_file_end_ok:
  assumes "os_file_ok (x_os env)" and "md5_read_ok (x_gcry env)" and "df_open f" and "\<not> df_simul f"
    and "written (df_sparse f) bytes (file_of (xr_trace exar))" and "attr_names_ok d"
  shows "\<exists>f' cs ms. restore_file_end env objtype path d tv False False f exar =
      Some (\<not> attrs_restored env objtype path d tv (exar\<lparr>xr_trace := xr_trace exar @ cs @ [Sys_close]\<rparr>),
        take 16 (md5_hash (x_gcry env) (df_md5ctx f)), f', exar\<lparr>xr_trace := xr_trace exar @ cs @ [Sys_close] @ ms\<rparr>) \<and>
    \<not> df_open f' \<and> list_all data_call cs \<and> list_all meta_call ms \<and>
    fst (file_of (xr_trace exar @ cs @ [Sys_close])) = bytes"
proof -
  obtain f' cs where c: "x_close env f exar =
      (0, take 16 (md5_hash (x_gcry env) (df_md5ctx f)), f', exar\<lparr>xr_trace := xr_trace exar @ cs @ [Sys_close]\<rparr>)"
    "\<not> df_open f'" "list_all data_call cs" "fst (file_of (xr_trace exar @ cs @ [Sys_close])) = bytes"
    using x_close_ok [OF assms(1-5)] by blast
  let ?e1 = "exar\<lparr>xr_trace := xr_trace exar @ cs @ [Sys_close]\<rparr>"
  obtain r e2 where a: "extractar_restore_attr_everything env objtype path d ?e1 = Some (r, e2)" "meta_step ?e1 e2"
    using attr_everything_meta [OF assms(6)] by blast
  obtain r2 e3 where u: "x_sys env (Sys_utimes (extract_dirpath path PATH_MAX) tv) e2 = (r2, e3)" by force
  have "meta_step ?e1 e3" using meta_step_sysE [OF u a(2)] by simp
  then obtain ms where m: "e3 = ?e1\<lparr>xr_trace := xr_trace ?e1 @ ms\<rparr>" "list_all meta_call ms"
    using meta_stepD by blast
  have "attrs_restored env objtype path d tv ?e1 \<longleftrightarrow> r = 0 \<and> r2 = 0"
    by (simp add: attrs_restored_def a(1) u)
  then have "restore_file_end env objtype path d tv False False f exar =
      Some (\<not> attrs_restored env objtype path d tv ?e1, take 16 (md5_hash (x_gcry env) (df_md5ctx f)), f', e3)"
    by (simp add: restore_file_end_def c(1) a(1) u)
  then show ?thesis using m c by auto
qed

section \<open>The file on the other side\<close>

definition fresh_file :: cdatafile where
  "fresh_file = \<lparr>df_fd = -1, df_simul = False, df_open = False, df_sparse = False, df_path = [], df_md5ctx = []\<rparr>"

definition file_sparse :: "xenv \<Rightarrow> cdico \<Rightarrow> bool" where
  "file_sparse env d = (let (r, flags) = get_std64 env d DISKITEMKEY_FLAGS in r = 0 \<and> and flags FSA_FILEFLAGS_SPARSE \<noteq> 0)"

text \<open>The function step by step when nothing fails but perhaps an attribute or the comparison of the digests.\<close>

lemma regfile_unique_run:
  assumes mem: "x_mem env = mem_ok" and size: "get_std64 env d DISKITEMKEY_SIZE = (0, filesize)"
    and ex: "\<not> x_excluded env relpath"
    and begin1: "obj_begin env fullpath (x_cost filesize (x_cost (of_nat FSA_COST_PER_FILE) exar)) = (tv, exar1)"
    and opened: "x_open_write env fresh_file fullpath False (file_sparse env d) exar1 = (0, f1, exar2)"
    and blocks: "restore_blocks env filesize 0 f1 exar2 = Some (Blocks_done, f2, exar3)"
    and ended: "restore_file_end env objtype fullpath d tv False False f2 exar3 = Some (bad, md5, f3, exar4)" "\<not> df_open f3"
    and footer: "(if filesize > 0 then restore_footer env False md5 exar4 else Some ((False, False), exar4)) =
      Some ((corrupt, corrupt), exar5)"
  shows "extractar_restore_obj_regfile_unique env fullpath relpath d objtype exar =
    Some (0, count_regfile (\<not> bad \<and> \<not> corrupt) (if corrupt then snd (x_sys env (Sys_unlink fullpath) exar5) else exar5))"
proof -
  obtain rf flags where fl: "get_std64 env d DISKITEMKEY_FLAGS = (rf, flags)" by force
  have "datafile_alloc (x_mem env) = Some fresh_file" by (simp add: datafile_alloc_def mem fresh_file_def)
  then show ?thesis
    unfolding extractar_restore_obj_regfile_unique_def
    using size ex begin1 opened blocks ended footer
    by (auto simp: fl Let_def x_destroy_closed file_sparse_def split: if_splits)
qed

lemma count_regfile_simps [simp]:
  "xr_trace (count_regfile ok exar) = xr_trace exar" "xr_queue (count_regfile ok exar) = xr_queue exar"
  by (simp_all add: count_regfile_def)

text \<open>The footer that follows the blocks of a file that is not empty.\<close>

definition file_footer :: "gcry \<Rightarrow> u16 \<Rightarrow> u8 list \<Rightarrow> qinfo list" where
  "file_footer gc fsid bytes =
     (if bytes = [] then [] else [Qheader \<lparr>hmagic = FSA_MAGIC_FILF, hfsid = fsid, hdico = footer_dico gc bytes\<rparr>])"

lemma file_infos_split:
  assumes "map content_of infos = map (content_of \<circ> Qblock) blocks @ map content_of (file_footer gc fsid bytes)"
  shows "\<exists>bl. map content_of bl = map (content_of \<circ> Qblock) blocks \<and> infos = bl @ file_footer gc fsid bytes"
proof -
  obtain bl ft where b: "infos = bl @ ft" "map content_of bl = map (content_of \<circ> Qblock) blocks"
      "map content_of ft = map content_of (file_footer gc fsid bytes)"
    using assms by (auto simp: map_eq_append_conv)
  have "ft = file_footer gc fsid bytes"
    using b(3) by (cases ft) (auto simp: file_footer_def split: if_splits elim: content_of.elims)
  then show ?thesis using b by blast
qed

lemma footer_if_bytes:
  assumes "queue_inv (xr_queue exar)" and "\<And>m. length (x_junk env m) = m" and "16 \<le> length (md5_hash gc bytes)"
    and "length bytes = unat filesize" "length data = unat filesize"
    and "queue_contents (xr_queue exar) = map (Pair QITEM_STATUS_DONE) (file_footer gc fsid bytes) @ rest"
    and "corrupt \<longleftrightarrow> take 16 (md5_hash gc data) \<noteq> take 16 (md5_hash gc bytes)"
  shows "\<exists>q. (if filesize > 0 then restore_footer env False (take 16 (md5_hash gc data)) exar else Some ((False, False), exar)) =
      Some ((corrupt, corrupt), exar\<lparr>xr_queue := q\<rparr>) \<and> queue_inv q \<and> queue_contents q = rest"
proof (cases "bytes = []")
  case True
  then have "filesize = 0" "data = []" using assms(4,5) by (simp_all add: unat_eq_zero)
  then show ?thesis using True assms(1,6,7) by (intro exI [of _ "xr_queue exar"]) (simp add: file_footer_def)
next
  case False
  then have "0 < filesize" using assms(4) by (metis length_greater_0_conv unat_gt_0 word_neq_0_conv)
  then show ?thesis
    using restore_footer_compares [OF assms(1-3), of fsid rest "take 16 (md5_hash gc data)"] assms(6,7) False
    by (simp add: file_footer_def)
qed

text \<open>The items of a file whose blocks may have been damaged: other bytes, as many of them.\<close>

fun damaged :: "qinfo \<Rightarrow> qinfo \<Rightarrow> bool" where
  "damaged (Qblock a) (Qblock b) \<longleftrightarrow> blkoffset a = blkoffset b \<and> blkrealsize a = blkrealsize b \<and>
     length (blkdata a) = length (blkdata b)"
| "damaged a b \<longleftrightarrow> a = b"

fun info_bytes :: "qinfo \<Rightarrow> u8 list" where
  "info_bytes (Qblock b) = blkdata b"
| "info_bytes _ = []"

lemma damaged_Qblock: "damaged a (Qblock b) \<longleftrightarrow> (\<exists>c. a = Qblock c \<and> blkoffset c = blkoffset b \<and>
    blkrealsize c = blkrealsize b \<and> length (blkdata c) = length (blkdata b))"
  by (cases a) auto

lemma damaged_Qheader: "damaged a (Qheader h) \<longleftrightarrow> a = Qheader h"
  by (cases a) auto

lemma damaged_blocks:
  assumes "0 < bs"
  shows "list_all2 damaged bl (map Qblock (file_blocks bs fsid pos bytes)) \<Longrightarrow>
    length (concat (map info_bytes bl)) = length bytes \<and>
    map content_of bl = map (content_of \<circ> Qblock) (file_blocks bs fsid pos (concat (map info_bytes bl)))"
proof (induction "length bytes" arbitrary: bl pos bytes rule: less_induct)
  case less
  show ?case
  proof (cases "bytes = []")
    case True
    then show ?thesis using less.prems by simp
  next
    case False
    let ?part = "take bs bytes"
    obtain c bl' where bl: "bl = Qblock c # bl'" "blkoffset c = of_nat pos" "blkrealsize c = of_nat (length ?part)"
        "length (blkdata c) = length ?part"
      and rest: "list_all2 damaged bl' (map Qblock (file_blocks bs fsid (pos + length ?part) (drop bs bytes)))"
      using less.prems False assms
      by (subst (asm) file_blocks.simps) (auto simp: list_all2_Cons2 damaged_Qblock file_block_def)
    let ?data' = "concat (map info_bytes bl')" and ?data = "blkdata c @ concat (map info_bytes bl')"
    have "length (drop bs bytes) < length bytes" using False assms by (cases bytes) auto
    from less.hyps [OF this rest] have ih: "length ?data' = length (drop bs bytes)"
      "map content_of bl' = map (content_of \<circ> Qblock) (file_blocks bs fsid (pos + length ?part) ?data')" by auto
    have "take bs (x @ y) = x \<and> drop bs (x @ y) = y"
      if "length x = length ?part" "length y = length (drop bs bytes)" for x y :: "u8 list"
      using that by (cases "length bytes \<le> bs") auto
    from this [OF bl(4) ih(1)] have td: "take bs ?data = blkdata c" "drop bs ?data = ?data'" by blast+
    have "blkdata c \<noteq> []" using bl(4) False assms by (cases bytes; cases bs) auto
    then have "file_blocks bs fsid pos ?data =
        file_block fsid pos (take bs ?data) # file_blocks bs fsid (pos + length (take bs ?data)) (drop bs ?data)"
      using assms by (subst file_blocks.simps) (simp only: if_False append_is_Nil_conv neq0_conv [symmetric] simp_thms)
    then show ?thesis using bl ih unfolding td by (simp add: file_block_def)
  qed
qed

lemma file_blocks_concat: "0 < bs \<Longrightarrow> concat (map (info_bytes \<circ> Qblock) (file_blocks bs fsid pos bytes)) = bytes"
proof (induction bs fsid pos bytes rule: file_blocks.induct)
  case (1 bs fsid pos bytes)
  then show ?case
    by (subst file_blocks.simps, cases "bytes = []") (simp_all add: file_block_def o_def)
qed

lemma damaged_items:
  assumes "0 < bs"
    and "list_all2 damaged infos (map Qblock (file_blocks bs fsid 0 bytes) @ file_footer gc fsid bytes)"
  shows "\<exists>bl data. infos = bl @ file_footer gc fsid bytes \<and> data = concat (map info_bytes infos) \<and>
    length data = length bytes \<and> map content_of bl = map (content_of \<circ> Qblock) (file_blocks bs fsid 0 data)"
proof -
  obtain bl ft where i: "infos = bl @ ft" "list_all2 damaged bl (map Qblock (file_blocks bs fsid 0 bytes))"
    "list_all2 damaged ft (file_footer gc fsid bytes)" using assms(2) by (auto simp: list_all2_append2)
  have ft: "ft = file_footer gc fsid bytes"
    using i(3) by (auto simp: file_footer_def list_all2_Cons2 damaged_Qheader split: if_splits)
  then have "concat (map info_bytes infos) = concat (map info_bytes bl)"
    using i(1) by (simp add: file_footer_def)
  then show ?thesis
    using damaged_blocks [OF assms(1) i(2)] i(1) ft
    by (intro exI [of _ bl] exI [of _ "concat (map info_bytes bl)"]) (simp del: length_concat)
qed

text \<open>C6: a large file comes through: with the items that createar_obj_regfile_unique added for a file (as they come out
  of the queue of the restoring side, the bytes in the blocks perhaps damaged), extractar_restore_obj_regfile_unique
  opens the destination once, writes only to it and closes it, and the file then has the bytes of the blocks:
  without damage those of the source, cut or filled up with zeros to the length that stat told. The items are used up
  and the result is 0. If the digest of the bytes is that of the footer, nothing is removed and the file is counted
  as restored if its attributes and the times of its parent directory could be set, as an error otherwise; if it
  is not, the file is removed and counted as an error. Saving reports an error exactly if the file had become shorter.\<close>

theorem regfile_roundtrip:
  assumes saved: "createar_obj_regfile_unique env save h p filesize = Some (r, save')"
      "sv_added save' = sv_added save @ header_item h FSA_MAGIC_OBJT (sv_fsid save) # items"
    and env: "s_mem env = mem_ok" "save_quiet env" "file_reads env p content"
    and bs: "0 < datablocksize (s_opt env)" "unat (datablocksize (s_opt env)) \<le> FSA_MAX_BLKSIZE"
    and md5: "md5_open_ok (s_gcry env)" "md5_read_ok (s_gcry env)" "\<And>x. 16 \<le> length (md5_hash (s_gcry env) x)"
    and xenv: "x_mem xenv = mem_ok" "os_file_ok (x_os xenv)" "\<And>q. \<not> x_interrupted xenv q" "x_gcry xenv = s_gcry env"
      "\<And>m. length (x_junk xenv m) = m"
    and head: "get_std64 xenv h DISKITEMKEY_SIZE = (0, filesize)" "attr_names_ok h" "\<not> x_excluded xenv relpath"
    and queue: "queue_inv (xr_queue exar)" "queue_contents (xr_queue exar) = map (Pair QITEM_STATUS_DONE) infos @ rest"
    and infos: "list_all2 damaged infos (map snd items)"
  shows "\<exists>exar' ms cs ms' closed corrupt data.
    extractar_restore_obj_regfile_unique xenv fullpath relpath h objtype exar = Some (0, exar') \<and>
    data = concat (map info_bytes infos) \<and>
    corrupt = (take 16 (md5_hash (s_gcry env) data) \<noteq> take 16 (md5_hash (s_gcry env) (file_resize (unat filesize) content))) \<and>
    (infos = map snd items \<longrightarrow> data = file_resize (unat filesize) content) \<and>
    xr_trace exar' = xr_trace closed @ ms' @ (if corrupt then [Sys_unlink fullpath] else []) \<and>
    xr_trace closed = xr_trace exar @ ms @ Sys_open fullpath # cs @ [Sys_close] \<and>
    list_all meta_call (ms @ ms') \<and> list_all data_call cs \<and>
    fst (file_of (xr_trace closed)) = data \<and>
    xr_stats exar' = xr_stats (count_regfile (\<not> corrupt \<and> attrs_restored xenv objtype fullpath h
      (fst (obj_begin xenv fullpath (x_cost filesize (x_cost (of_nat FSA_COST_PER_FILE) exar)))) closed) exar) \<and>
    queue_inv (xr_queue exar') \<and> queue_contents (xr_queue exar') = rest \<and>
    r = (if length content < unat filesize then -1 else 0)"
proof -
  define bytes where "bytes = file_resize (unat filesize) content"
  let ?bs = "unat (datablocksize (s_opt env))" and ?md5 = "md5_hash (s_gcry env)"
  let ?footer = "file_footer (s_gcry env) (sv_fsid save) bytes"
  have bs0: "0 < ?bs" using bs(1) by (simp add: word_less_nat_alt)
  have r: "r = (if length content < unat filesize then -1 else 0)"
    and "items = tl (file_items env (sv_fsid save) h bytes)"
    using regfile_unique_saves [OF env bs(1) md5, of save h filesize] saved by (auto simp: bytes_def file_items_def)
  then have items: "map snd items = map Qblock (file_blocks ?bs (sv_fsid save) 0 bytes) @ ?footer"
    by (simp add: file_items_def file_footer_def header_item_def)
  obtain bl data where b: "infos = bl @ ?footer" "data = concat (map info_bytes infos)"
      "length data = length bytes" "map content_of bl = map (content_of \<circ> Qblock) (file_blocks ?bs (sv_fsid save) 0 data)"
    using damaged_items [OF bs0, of infos "sv_fsid save" bytes "s_gcry env"] infos items by auto
  have same: "data = bytes" if "infos = map snd items"
    using that b(2) file_blocks_concat [OF bs0, of "sv_fsid save" 0 bytes] by (simp add: items file_footer_def o_def)
  have len: "length bytes = unat filesize" "length data = unat filesize" by (simp_all add: bytes_def b(3))
  define corrupt where "corrupt \<longleftrightarrow> take 16 (?md5 data) \<noteq> take 16 (?md5 bytes)"
  obtain tv exar1 where 1: "obj_begin xenv fullpath (x_cost filesize (x_cost (of_nat FSA_COST_PER_FILE) exar)) = (tv, exar1)"
    by (meson surj_pair)
  obtain ms where ms: "exar1 = x_cost filesize (x_cost (of_nat FSA_COST_PER_FILE) exar)\<lparr>xr_trace := xr_trace exar @ ms\<rparr>"
      "list_all meta_call ms"
    using meta_stepD [OF obj_begin_meta [OF 1]] by (auto simp: x_cost_def)
  have x1: "xr_trace exar1 = xr_trace exar @ ms" "xr_queue exar1 = xr_queue exar" "xr_stats exar1 = xr_stats exar"
    by (simp_all add: ms(1) x_cost_def)
  have fresh: "\<not> df_open fresh_file" by (simp add: fresh_file_def)
  let ?exar2 = "exar1\<lparr>xr_trace := xr_trace exar1 @ [Sys_open fullpath]\<rparr>"
  obtain f1 where 2: "x_open_write xenv fresh_file fullpath False (file_sparse xenv h) exar1 = (0, f1, ?exar2)"
      "df_open f1" "\<not> df_simul f1" "df_md5ctx f1 = []" "written (df_sparse f1) [] (file_of (xr_trace ?exar2))"
    using x_open_ok [OF xenv(2) _ fresh, of fullpath "file_sparse xenv h" exar1] md5(1) xenv(4) by auto
  have lt: "unat filesize < 2 ^ 64" using unsigned_less [of filesize, where ?'a = nat] by simp
  obtain q3 cs1 where 3: "restore_blocks xenv filesize 0 f1 ?exar2 = Some (Blocks_done, f1\<lparr>df_md5ctx := data\<rparr>,
        ?exar2\<lparr>xr_queue := q3, xr_trace := xr_trace ?exar2 @ cs1\<rparr>)"
      "queue_inv q3" "queue_contents q3 = map (Pair QITEM_STATUS_DONE) ?footer @ rest" "list_all data_call cs1"
      "written (df_sparse f1) data (file_of (xr_trace ?exar2 @ cs1))"
    using restore_blocks_ok [OF xenv(2,3) bs0 bs(2) len(2) lt, of f1 0 ?exar2 bl "map (Pair QITEM_STATUS_DONE) ?footer @ rest" "sv_fsid save"]
      2 queue b(1,4) x1(2) by auto
  let ?exar3 = "?exar2\<lparr>xr_queue := q3, xr_trace := xr_trace ?exar2 @ cs1\<rparr>" and ?f2 = "f1\<lparr>df_md5ctx := data\<rparr>"
  obtain f3 cs2 ms' where 4: "restore_file_end xenv objtype fullpath h tv False False ?f2 ?exar3 =
      Some (\<not> attrs_restored xenv objtype fullpath h tv (?exar3\<lparr>xr_trace := xr_trace ?exar3 @ cs2 @ [Sys_close]\<rparr>),
        take 16 (?md5 data), f3, ?exar3\<lparr>xr_trace := xr_trace ?exar3 @ cs2 @ [Sys_close] @ ms'\<rparr>)"
      "\<not> df_open f3" "list_all data_call cs2" "list_all meta_call ms'" "fst (file_of (xr_trace ?exar3 @ cs2 @ [Sys_close])) = data"
    using restore_file_end_ok [OF xenv(2) _ _ _ _ head(2), of ?f2 data ?exar3 objtype fullpath tv] 2(2,3) 3(5) md5(2) xenv(4)
    by auto
  let ?closed = "?exar3\<lparr>xr_trace := xr_trace ?exar3 @ cs2 @ [Sys_close]\<rparr>"
  let ?exar4 = "?exar3\<lparr>xr_trace := xr_trace ?exar3 @ cs2 @ [Sys_close] @ ms'\<rparr>"
  have "\<exists>q. (if filesize > 0 then restore_footer xenv False (take 16 (?md5 data)) ?exar4 else Some ((False, False), ?exar4)) =
      Some ((corrupt, corrupt), ?exar4\<lparr>xr_queue := q\<rparr>) \<and> queue_inv q \<and> queue_contents q = rest"
    by (rule footer_if_bytes [OF _ xenv(5) md5(3) len]) (use 3(2,3) in \<open>simp_all add: corrupt_def\<close>)
  then obtain q5 where 5: "(if filesize > 0 then restore_footer xenv False (take 16 (?md5 data)) ?exar4 else
      Some ((False, False), ?exar4)) = Some ((corrupt, corrupt), ?exar4\<lparr>xr_queue := q5\<rparr>)" "queue_inv q5" "queue_contents q5 = rest"
    by blast
  note run = regfile_unique_run [OF xenv(1) head(1,3) 1 2(1) 3(1) 4(1,2) 5(1)]
  show ?thesis
    unfolding bytes_def [symmetric] 1 fst_conv
    by (rule exI, rule exI [of _ ms], rule exI [of _ "cs1 @ cs2"], rule exI [of _ ms'], rule exI [of _ ?closed],
        rule exI [of _ corrupt], rule exI [of _ data], intro conjI, rule run)
      (use r 3(4) 4(3,4,5) 5(2,3) ms(2) x1 b(2) same in \<open>simp_all add: corrupt_def x_sys_def count_regfile_def\<close>)
qed

section \<open>An example\<close>

text \<open>A file of which stat told 4 bytes and that has only 3 when it is read, in blocks of 2 bytes.\<close>

definition demo_file_env :: senv where
  "demo_file_env = demo_senv\<lparr>s_open := (\<lambda>p. True), s_opt := options_zero\<lparr>datablocksize := 2\<rparr>,
     s_read := (\<lambda>p pos n. (let part = take n (drop pos [5, 6, 7]) in (int (length part), part)))\<rparr>"

definition demo_file_head :: cdico where
  "demo_file_head = [new_item DICO_OBJ_SECTION_STDATTR DISKITEMKEY_SIZE (cpu_to_le64 4) 8 DICTYPE_U64]"

definition demo_foot :: cheadinfo where
  "demo_foot = \<lparr>hmagic = FSA_MAGIC_FILF, hfsid = 0, hdico = footer_dico demo_gcry [5, 6, 7, 0]\<rparr>"

definition demo_infos :: "qinfo list" where
  "demo_infos = [Qblock (file_block 0 0 [5, 6]), Qblock (file_block 0 2 [7, 0]), Qheader demo_foot]"

definition demo_file_queue :: cqueue where
  "demo_file_queue =
     \<lparr>qhead = [\<lparr>itype = QITEM_TYPE_BLOCK, istatus = QITEM_STATUS_DONE, itemnum = 1, iblkinfo = file_block 0 0 [5, 6], iheadinfo = demo_foot\<rparr>,
        \<lparr>itype = QITEM_TYPE_BLOCK, istatus = QITEM_STATUS_DONE, itemnum = 2, iblkinfo = file_block 0 2 [7, 0], iheadinfo = demo_foot\<rparr>,
        \<lparr>itype = QITEM_TYPE_HEADER, istatus = QITEM_STATUS_DONE, itemnum = 3, iblkinfo = file_block 0 0 [], iheadinfo = demo_foot\<rparr>],
      curitemnum = 4, itemcount = 3, blkcount = 2, blkmax = 4, endofqueue = False\<rparr>"

lemma no_patterns_name: "exclude opt = [] \<Longrightarrow> \<not> name_or_path_excluded fnm opt q"
  by (simp add: name_or_path_excluded_def exclude_check_def strlist_count_def)

lemma no_patterns: "exclude opt = [] \<Longrightarrow> \<not> is_filedir_excluded fnm opt p"
proof -
  have "exclude opt = [] \<Longrightarrow> \<not> parents_excluded fnm opt q pos" for q pos
    by (induction fnm opt q pos rule: parents_excluded.induct)
      (subst parents_excluded.simps, auto simp: no_patterns_name Let_def split: prod.splits)
  then show "exclude opt = [] \<Longrightarrow> \<not> is_filedir_excluded fnm opt p"
    by (simp add: is_filedir_excluded_def no_patterns_name Let_def)
qed

lemma demo_head_facts:
  "dico_get_data demo_file_head sec k buf n =
     (if n < 1 then (-3, buf, 0)
      else if sec = DICO_OBJ_SECTION_STDATTR \<and> k = DISKITEMKEY_SIZE then
        (if 8 > n then (-4, buf, 0) else (0, cpu_to_le64 4 @ drop 8 buf, 8))
      else (-5, buf, 0))"
  by (auto simp: demo_file_head_def dico_get_data_item new_item_def memcpy_def)

lemma demo_file_items:
  "file_items demo_file_env 0 demo_file_head [5, 6, 7, 0] =
    header_item demo_file_head FSA_MAGIC_OBJT 0 #
      [(QITEM_STATUS_TODO, Qblock (file_block 0 0 [5, 6])), (QITEM_STATUS_TODO, Qblock (file_block 0 2 [7, 0])),
       (QITEM_STATUS_DONE, Qheader demo_foot)]"
  by (simp add: file_items_def demo_file_env_def demo_senv_def file_blocks.simps header_item_def demo_foot_def options_zero_def
      numeral_2_eq_2 [symmetric])

lemma regfile_roundtrip_witness:
  "\<exists>save' exar' ms cs ms'.
    createar_obj_regfile_unique demo_file_env demo_savear demo_file_head ''/m/f'' 4 = Some (-1, save') \<and>
    extractar_restore_obj_regfile_unique demo_xenv ''/d/f'' ''/f'' demo_file_head OBJTYPE_REGFILEUNIQUE
      (demo_extractar\<lparr>xr_queue := demo_file_queue\<rparr>) = Some (0, exar') \<and>
    xr_trace exar' = ms @ Sys_open ''/d/f'' # cs @ Sys_close # ms' \<and>
    fst (file_of (ms @ Sys_open ''/d/f'' # cs @ [Sys_close])) = [5, 6, 7, 0] \<and>
    queue_contents (xr_queue exar') = []"
proof -
  have e: "s_mem demo_file_env = mem_ok" "save_quiet demo_file_env" "file_reads demo_file_env ''/m/f'' [5, 6, 7]"
    "0 < datablocksize (s_opt demo_file_env)" "unat (datablocksize (s_opt demo_file_env)) \<le> FSA_MAX_BLKSIZE"
    "s_gcry demo_file_env = demo_gcry" "md5_open_ok demo_gcry" "md5_read_ok demo_gcry" "16 \<le> length (md5_hash demo_gcry x)" for x
    by (simp_all add: demo_file_env_def demo_senv_def save_quiet_def file_reads_def Let_def FSA_MAX_BLKSIZE_def demo_gcry_def options_zero_def)
  have x: "x_mem demo_xenv = mem_ok" "os_file_ok (x_os demo_xenv)" "\<not> x_interrupted demo_xenv q" "x_gcry demo_xenv = demo_gcry"
    "length (x_junk demo_xenv m) = m" for q m
    by (simp_all add: demo_xenv_def demo_os_ok)
  have h: "get_std64 demo_xenv demo_file_head DISKITEMKEY_SIZE = (0, 4)" "attr_names_ok demo_file_head"
    "\<not> x_excluded demo_xenv ''/f''"
  proof -
    show "get_std64 demo_xenv demo_file_head DISKITEMKEY_SIZE = (0, 4)"
      by (simp add: get_std64_def dico_get_u64_def demo_head_facts x(5))
    show "attr_names_ok demo_file_head"
      by (auto simp: attr_names_ok_def dico_get_string_def demo_head_facts Let_def split: if_splits)
    show "\<not> x_excluded demo_xenv ''/f''"
      by (simp add: x_excluded_def no_patterns demo_xenv_def options_zero_def)
  qed
  have q: "queue_inv demo_file_queue" "queue_contents demo_file_queue = map (Pair QITEM_STATUS_DONE) demo_infos @ []"
    by (simp_all add: queue_inv_def demo_file_queue_def queue_contents_def item_view_def demo_infos_def is_block_def item_ok_def)
  have r: "file_resize (unat (4 :: u64)) [5, 6, 7] = [5, 6, 7, 0 :: u8]"
    by (simp add: file_resize_def)
  have f: "sv_fsid demo_savear = 0" "sv_added demo_savear = []" by (simp_all add: demo_savear_def)
  obtain save' where s: "createar_obj_regfile_unique demo_file_env demo_savear demo_file_head ''/m/f'' 4 = Some (-1, save')"
    "sv_added save' = sv_added demo_savear @ header_item demo_file_head FSA_MAGIC_OBJT (sv_fsid demo_savear) #
      [(QITEM_STATUS_TODO, Qblock (file_block 0 0 [5, 6])), (QITEM_STATUS_TODO, Qblock (file_block 0 2 [7, 0])),
       (QITEM_STATUS_DONE, Qheader demo_foot)]"
    using regfile_unique_saves [OF e(1-4), of demo_savear demo_file_head 4] e(6-9) unfolding r f demo_file_items
    by (auto simp: f)
  let ?exar = "demo_extractar\<lparr>xr_queue := demo_file_queue\<rparr>"
  have m: "md5_open_ok (s_gcry demo_file_env)" "md5_read_ok (s_gcry demo_file_env)"
      "16 \<le> length (md5_hash (s_gcry demo_file_env) x)" "x_gcry demo_xenv = s_gcry demo_file_env" for x
    using e(6-9) x(4) by simp_all
  have q': "queue_inv (xr_queue ?exar)" "queue_contents (xr_queue ?exar) = map (Pair QITEM_STATUS_DONE) demo_infos @ []"
    "xr_trace ?exar = []"
    using q by (simp_all add: demo_extractar_def)
  have i: "list_all2 damaged demo_infos (map snd [(QITEM_STATUS_TODO, Qblock (file_block 0 0 [5, 6])),
      (QITEM_STATUS_TODO, Qblock (file_block 0 2 [7, 0])), (QITEM_STATUS_DONE, Qheader demo_foot)])"
    by (simp add: demo_infos_def)
  have "concat (map info_bytes demo_infos) = [5, 6, 7, 0]" by (simp add: demo_infos_def file_block_def)
  with regfile_roundtrip [OF s e(1-5) m(1-3) x(1-3) m(4) x(5) h q'(1,2) i, of "''/d/f''" OBJTYPE_REGFILEUNIQUE]
  obtain exar' ms cs ms' where t: "extractar_restore_obj_regfile_unique demo_xenv ''/d/f'' ''/f'' demo_file_head
      OBJTYPE_REGFILEUNIQUE ?exar = Some (0, exar')"
    "xr_trace exar' = ms @ Sys_open ''/d/f'' # cs @ Sys_close # ms'"
    "fst (file_of (ms @ Sys_open ''/d/f'' # cs @ [Sys_close])) = [5, 6, 7, 0]" "queue_contents (xr_queue exar') = []"
    unfolding r q'(3) append_Nil by fastforce
  show ?thesis
    by (rule exI [of _ save'], rule exI [of _ exar'], rule exI [of _ ms], rule exI [of _ cs], rule exI [of _ ms'])
      (intro conjI s(1) t)
qed

end
