(* ===== verification/Mainhead.thy ===== *)
theory Mainhead
  imports Savear Restobj Comp
begin

text \<open>The main header of an archive, as createar_write_mainhead of oper_save.c writes it and extractar_read_mainhead of
  oper_restore.c reads it, with the check of the password.\<close>

section \<open>Writing\<close>

text \<open>The entries that every main header has; \<open>now\<close> is the time of day in seconds.\<close>

definition mainhead_adds :: "malloc \<Rightarrow> coptions \<Rightarrow> u32 \<Rightarrow> u64 \<Rightarrow> u32 \<Rightarrow> u64 \<Rightarrow> (cdico \<Rightarrow> int \<times> cdico) list" where
  "mainhead_adds mem opt arcid now atype fscnt =
     [\<lambda>d. dico_add_string mem d 0 MAINHEADKEY_FILEFORMATVER FSA_FILEFORMAT,
      \<lambda>d. dico_add_string mem d 0 MAINHEADKEY_PROGVERCREAT FSA_VERSION,
      \<lambda>d. dico_add_string mem d 0 MAINHEADKEY_ARCHLABEL (archlabel opt),
      \<lambda>d. dico_add_u64 mem d 0 MAINHEADKEY_CREATTIME now,
      \<lambda>d. dico_add_u32 mem d 0 MAINHEADKEY_ARCHIVEID arcid,
      \<lambda>d. dico_add_u32 mem d 0 MAINHEADKEY_ARCHTYPE atype,
      \<lambda>d. dico_add_u32 mem d 0 MAINHEADKEY_COMPRESSALGO (ucast (compressalgo opt)),
      \<lambda>d. dico_add_u32 mem d 0 MAINHEADKEY_COMPRESSLEVEL (word_of_int (compresslevel opt)),
      \<lambda>d. dico_add_u32 mem d 0 MAINHEADKEY_ENCRYPTALGO (ucast (encryptalgo opt)),
      \<lambda>d. dico_add_u32 mem d 0 MAINHEADKEY_FSACOMPLEVEL (ucast (fsacomplevel opt)),
      \<lambda>d. dico_add_u32 mem d 0 MAINHEADKEY_HASDIRSINFOHEAD 1,
      \<lambda>d. dico_add_u64 mem d 0 MAINHEADKEY_MINFSAVERSION (FSA_VERSION_BUILD 0 6 4 0)] @
     (if atype = ARCHTYPE_FILESYSTEMS then [\<lambda>d. dico_add_u64 mem d 0 MAINHEADKEY_FSCOUNT fscnt] else [])"

text \<open>The test of the password: the digest of a random buffer and the encrypted buffer. None is an assertion that
  fails; a cipher that fails leaves the \<open>junk\<close> of the second buffer in place.\<close>

definition add_password_check ::
    "senv \<Rightarrow> complib \<Rightarrow> u8 list \<Rightarrow> u8 list \<Rightarrow> cdico \<Rightarrow> cdico option" where
  "add_password_check env lib random junk d =
     (let bufcheckclear = take FSA_CHECKPASSBUF_SIZE random
      in case crypto_blowfish lib bufcheckclear (FSA_CHECKPASSBUF_SIZE + 8) (encryptpass (s_opt env)) True of
           None \<Rightarrow> None
         | Some (_, out) \<Rightarrow>
             (let bufcheckcrypt = memcpy junk out;
                  md5sum = take 16 (md5_hash (s_gcry env) bufcheckclear);
                  (r1, d) = dico_add_data (s_mem env) d 0 MAINHEADKEY_BUFCHECKPASSCLEARMD5 md5sum 16
              in if r1 \<noteq> 0 then None
                 else
                   (let (r2, d) = dico_add_data (s_mem env) d 0 MAINHEADKEY_BUFCHECKPASSCRYPTBUF
                          (take FSA_CHECKPASSBUF_SIZE bufcheckcrypt) (of_nat FSA_CHECKPASSBUF_SIZE)
                    in if r2 \<noteq> 0 then None else Some d)))"

definition createar_write_mainhead ::
    "senv \<Rightarrow> complib \<Rightarrow> u8 list \<Rightarrow> u8 list \<Rightarrow> u64 \<Rightarrow> csavear \<Rightarrow> u32 \<Rightarrow> u64 \<Rightarrow> (int \<times> csavear) option" where
  "createar_write_mainhead env lib random junk now save atype fscnt =
     (case dico_alloc (s_mem env) of
        None \<Rightarrow> Some (-1, save)
      | Some d \<Rightarrow>
          (let d = dico_steps (mainhead_adds (s_mem env) (s_opt env) (w_archid (sv_ai save)) now atype fscnt) d
           in case (if encryptalgo (s_opt env) \<noteq> ENCRYPT_NONE then add_password_check env lib random junk d else Some d) of
                None \<Rightarrow> None
              | Some d \<Rightarrow>
                  (let (r, save) = g_queue_add env (header_item d FSA_MAGIC_MAIN FSA_FILESYSID_NULL) save
                   in Some (if r \<noteq> 0 then -1 else 0, save))))"


section \<open>Reading\<close>

text \<open>strcmp of a buffer with a constant: the comparison ends at the NUL of the constant at the latest.\<close>

definition buf_is :: "u8 list \<Rightarrow> string \<Rightarrow> bool" where
  "buf_is buf s \<longleftrightarrow> take (length s + 1) buf = bytes_of_string s @ [0]"

text \<open>The entries in the order they are read: an entry that is missing or too long ends the function.\<close>

definition read_u32 :: "xenv \<Rightarrow> cdico \<Rightarrow> u16 \<Rightarrow> (u32 \<Rightarrow> carchreader \<Rightarrow> carchreader) \<Rightarrow> carchreader \<Rightarrow> bool \<times> carchreader" where
  "read_u32 env d key upd ai =
     (let (r, v) = dico_get_u32 d 0 key (x_junk env 4) in (r = 0, upd v ai))"

definition read_u64 :: "xenv \<Rightarrow> cdico \<Rightarrow> u16 \<Rightarrow> (u64 \<Rightarrow> carchreader \<Rightarrow> carchreader) \<Rightarrow> carchreader \<Rightarrow> bool \<times> carchreader" where
  "read_u64 env d key upd ai =
     (let (r, v) = dico_get_u64 d 0 key (x_junk env 8) in (r = 0, upd v ai))"

definition read_text ::
    "cdico \<Rightarrow> u16 \<Rightarrow> nat \<Rightarrow> (carchreader \<Rightarrow> u8 list) \<Rightarrow> (u8 list \<Rightarrow> carchreader \<Rightarrow> carchreader) \<Rightarrow>
     carchreader \<Rightarrow> bool \<times> carchreader" where
  "read_text d key n get upd ai =
     (let (r, buf, _) = dico_get_data d 0 key (get ai) (of_nat n) in (r = 0, upd buf ai))"

fun read_steps :: "(carchreader \<Rightarrow> bool \<times> carchreader) list \<Rightarrow> carchreader \<Rightarrow> bool \<times> carchreader" where
  "read_steps [] ai = (True, ai)"
| "read_steps (rd # rds) ai = (let (ok, ai) = rd ai in if ok then read_steps rds ai else (False, ai))"

definition mainhead_reads :: "xenv \<Rightarrow> cdico \<Rightarrow> (carchreader \<Rightarrow> bool \<times> carchreader) list" where
  "mainhead_reads env d =
     [read_u32 env d MAINHEADKEY_ARCHTYPE (\<lambda>v ai. ai\<lparr>archtype := v\<rparr>),
      \<lambda>ai. if archtype ai = ARCHTYPE_FILESYSTEMS then read_u64 env d MAINHEADKEY_FSCOUNT (\<lambda>v ai. ai\<lparr>fscount := v\<rparr>) ai
           else (True, ai),
      read_u32 env d MAINHEADKEY_ARCHIVEID (\<lambda>v ai. ai\<lparr>archid := v\<rparr>),
      read_text d MAINHEADKEY_FILEFORMATVER FSA_MAX_FILEFMTLEN filefmt (\<lambda>v ai. ai\<lparr>filefmt := v\<rparr>),
      read_text d MAINHEADKEY_PROGVERCREAT FSA_MAX_PROGVERLEN creatver (\<lambda>v ai. ai\<lparr>creatver := v\<rparr>),
      read_text d MAINHEADKEY_ARCHLABEL FSA_MAX_LABELLEN label (\<lambda>v ai. ai\<lparr>label := v\<rparr>),
      read_u32 env d MAINHEADKEY_COMPRESSALGO (\<lambda>v ai. ai\<lparr>compalgo := v\<rparr>),
      read_u32 env d MAINHEADKEY_ENCRYPTALGO (\<lambda>v ai. ai\<lparr>cryptalgo := v\<rparr>),
      read_u32 env d MAINHEADKEY_COMPRESSLEVEL (\<lambda>v ai. ai\<lparr>complevel := v\<rparr>),
      read_u32 env d MAINHEADKEY_FSACOMPLEVEL (\<lambda>v ai. ai\<lparr>fsacomp := v\<rparr>),
      read_u64 env d MAINHEADKEY_CREATTIME (\<lambda>v ai. ai\<lparr>creattime := v\<rparr>)]"

text \<open>The check of the password: whether the digest of the decrypted buffer is the one of the header. The digest is
  copied into 16 bytes although up to 115 are accepted: None is the write behind them.\<close>

definition check_password :: "xenv \<Rightarrow> complib \<Rightarrow> cdico \<Rightarrow> bool option" where
  "check_password env lib d =
     (let (r1, bufcheckcrypt, cryptbufsize) =
            dico_get_data d 0 MAINHEADKEY_BUFCHECKPASSCRYPTBUF (x_junk env (FSA_CHECKPASSBUF_SIZE + 8))
              (of_nat (FSA_CHECKPASSBUF_SIZE + 8))
      in if r1 \<noteq> 0 then Some False
         else
           (let (r2, md5sumar, md5size) = dico_get_data d 0 MAINHEADKEY_BUFCHECKPASSCLEARMD5 (replicate 16 0) 115;
                password = encryptpass (x_opt env); passlen = length password
            in if r2 \<noteq> 0 then Some False
               else if unat md5size > 16 then None
               else if passlen < FSA_MIN_PASSLEN \<or> FSA_MAX_PASSLEN < passlen then Some False
               else case crypto_blowfish lib (take (unat cryptbufsize) bufcheckcrypt) (FSA_CHECKPASSBUF_SIZE + 8) password False of
                 None \<Rightarrow> None
               | Some (r3, bufcheckclear) \<Rightarrow>
                   (let md5sumnew = (if r3 = 0 then take 16 (md5_hash (x_gcry env) bufcheckclear) else replicate 16 0)
                    in Some (md5sumar = md5sumnew))))"

definition extractar_read_mainhead :: "xenv \<Rightarrow> complib \<Rightarrow> cextractar \<Rightarrow> (int \<times> cdico option \<times> cextractar) option" where
  "extractar_read_mainhead env lib exar =
     do {
       (lres, head, exar) \<leftarrow> x_dequeue_header exar;
       (case head of
          None \<Rightarrow> Some (-1, None, exar)
        | Some (d, magic, _) \<Rightarrow>
            if lres \<le> 0 then Some (-1, None, exar)
            else if magic \<noteq> FSA_MAGIC_MAIN then Some (-1, Some d, exar)
            else
              (let (ok, ai) = read_steps (mainhead_reads env d) (xr_ai exar)
               in if \<not> ok then Some (-1, Some d, exar\<lparr>xr_ai := ai\<rparr>)
                  else
                    (let (r, temp32) = dico_get_u32 d 0 MAINHEADKEY_HASDIRSINFOHEAD (x_junk env 4);
                         ai = (if r = 0 then ai\<lparr>hasdirsinfohead := temp32\<rparr> else ai)
                     in if \<not> buf_is (filefmt ai) FSA_FILEFORMAT \<and> \<not> buf_is (filefmt ai) ''FsArCh_00Y'' \<and>
                           \<not> buf_is (filefmt ai) ''FsArCh_001''
                        then Some (-1, Some d, exar\<lparr>xr_ai := ai\<rparr>)
                        else
                          (let (r, v) = dico_get_u64 d 0 MAINHEADKEY_MINFSAVERSION (x_junk env 8);
                               ai = ai\<lparr>minfsaver := (if r \<noteq> 0 then FSA_VERSION_BUILD 0 0 0 0 else v)\<rparr>;
                               exar = exar\<lparr>xr_ai := ai\<rparr>
                           in if cryptalgo ai \<noteq> ucast ENCRYPT_NONE then
                                do {
                                  good \<leftarrow> check_password env lib d;
                                  Some (if good then 0 else -1, Some d, exar)
                                }
                              else Some (0, Some d, exar)))))
     }"

end
