(* ===== verification/Headok.thy ===== *)
theory Headok
  imports Mainhead Saveok
begin

text \<open>What is written in the main header is what is read from it, and the password is checked.\<close>

section \<open>The dictionary of the main header\<close>

definition mainhead_items :: "coptions \<Rightarrow> u32 \<Rightarrow> u64 \<Rightarrow> u32 \<Rightarrow> u64 \<Rightarrow> cdico" where
  "mainhead_items opt arcid now atype fscnt =
     [str_item MAINHEADKEY_FILEFORMATVER FSA_FILEFORMAT, str_item MAINHEADKEY_PROGVERCREAT FSA_VERSION,
      str_item MAINHEADKEY_ARCHLABEL (archlabel opt), u64_item MAINHEADKEY_CREATTIME now,
      u32_item MAINHEADKEY_ARCHIVEID arcid, u32_item MAINHEADKEY_ARCHTYPE atype,
      u32_item MAINHEADKEY_COMPRESSALGO (ucast (compressalgo opt)),
      u32_item MAINHEADKEY_COMPRESSLEVEL (word_of_int (compresslevel opt)),
      u32_item MAINHEADKEY_ENCRYPTALGO (ucast (encryptalgo opt)),
      u32_item MAINHEADKEY_FSACOMPLEVEL (ucast (fsacomplevel opt)),
      u32_item MAINHEADKEY_HASDIRSINFOHEAD 1, u64_item MAINHEADKEY_MINFSAVERSION (FSA_VERSION_BUILD 0 6 4 0)] @
     (if atype = ARCHTYPE_FILESYSTEMS then [u64_item MAINHEADKEY_FSCOUNT fscnt] else [])"

definition password_items :: "u8 list \<Rightarrow> u8 list \<Rightarrow> cdico" where
  "password_items md5sum crypt =
     [data_item MAINHEADKEY_BUFCHECKPASSCLEARMD5 md5sum, data_item MAINHEADKEY_BUFCHECKPASSCRYPTBUF crypt]"

lemma mainhead_steps:
  "dico_steps (mainhead_adds mem_ok opt arcid now atype fscnt) [] = mainhead_items opt arcid now atype fscnt"
  by (simp add: mainhead_adds_def mainhead_items_def dico_add_new fsa_const)

section \<open>What is found in it\<close>

definition head_dico :: "coptions \<Rightarrow> u32 \<Rightarrow> u64 \<Rightarrow> u32 \<Rightarrow> u64 \<Rightarrow> (u8 list \<times> u8 list) option \<Rightarrow> cdico" where
  "head_dico opt arcid now atype fscnt pw =
     mainhead_items opt arcid now atype fscnt @ (case pw of None \<Rightarrow> [] | Some (md5sum, crypt) \<Rightarrow> password_items md5sum crypt)"

definition pw_small :: "(u8 list \<times> u8 list) option \<Rightarrow> bool" where
  "pw_small pw \<longleftrightarrow> (case pw of None \<Rightarrow> True | Some (md5sum, crypt) \<Rightarrow> length md5sum = 16 \<and> length crypt = FSA_CHECKPASSBUF_SIZE)"

lemma head_dico_wf:
  assumes "length (archlabel opt) < FSA_MAX_LABELLEN" and "pw_small pw"
  shows "dico_wf (head_dico opt arcid now atype fscnt pw)"
  using assms
  by (auto simp: head_dico_def mainhead_items_def password_items_def dico_wf_def head_item_wf pw_small_def
      FSA_VERSION_def FSA_FILEFORMAT_def fsa_const split: option.splits)

lemma head_dico_find:
  fixes opt arcid now atype fscnt pw
  defines "d \<equiv> head_dico opt arcid now atype fscnt pw"
  shows "dico_find d 0 MAINHEADKEY_FILEFORMATVER = Some (str_item MAINHEADKEY_FILEFORMATVER FSA_FILEFORMAT)"
    "dico_find d 0 MAINHEADKEY_PROGVERCREAT = Some (str_item MAINHEADKEY_PROGVERCREAT FSA_VERSION)"
    "dico_find d 0 MAINHEADKEY_ARCHLABEL = Some (str_item MAINHEADKEY_ARCHLABEL (archlabel opt))"
    "dico_find d 0 MAINHEADKEY_CREATTIME = Some (u64_item MAINHEADKEY_CREATTIME now)"
    "dico_find d 0 MAINHEADKEY_ARCHIVEID = Some (u32_item MAINHEADKEY_ARCHIVEID arcid)"
    "dico_find d 0 MAINHEADKEY_ARCHTYPE = Some (u32_item MAINHEADKEY_ARCHTYPE atype)"
    "dico_find d 0 MAINHEADKEY_COMPRESSALGO = Some (u32_item MAINHEADKEY_COMPRESSALGO (ucast (compressalgo opt)))"
    "dico_find d 0 MAINHEADKEY_COMPRESSLEVEL = Some (u32_item MAINHEADKEY_COMPRESSLEVEL (word_of_int (compresslevel opt)))"
    "dico_find d 0 MAINHEADKEY_ENCRYPTALGO = Some (u32_item MAINHEADKEY_ENCRYPTALGO (ucast (encryptalgo opt)))"
    "dico_find d 0 MAINHEADKEY_FSACOMPLEVEL = Some (u32_item MAINHEADKEY_FSACOMPLEVEL (ucast (fsacomplevel opt)))"
    "dico_find d 0 MAINHEADKEY_HASDIRSINFOHEAD = Some (u32_item MAINHEADKEY_HASDIRSINFOHEAD 1)"
    "dico_find d 0 MAINHEADKEY_MINFSAVERSION = Some (u64_item MAINHEADKEY_MINFSAVERSION (FSA_VERSION_BUILD 0 6 4 0))"
    "atype = ARCHTYPE_FILESYSTEMS \<Longrightarrow> dico_find d 0 MAINHEADKEY_FSCOUNT = Some (u64_item MAINHEADKEY_FSCOUNT fscnt)"
    "pw = Some (md5sum, crypt) \<Longrightarrow>
       dico_find d 0 MAINHEADKEY_BUFCHECKPASSCLEARMD5 = Some (data_item MAINHEADKEY_BUFCHECKPASSCLEARMD5 md5sum)"
    "pw = Some (md5sum, crypt) \<Longrightarrow>
       dico_find d 0 MAINHEADKEY_BUFCHECKPASSCRYPTBUF = Some (data_item MAINHEADKEY_BUFCHECKPASSCRYPTBUF crypt)"
  unfolding d_def head_dico_def mainhead_items_def password_items_def dico_find_def by (simp_all add: fsa_const)

section \<open>Reading it\<close>

definition head_reader :: "coptions \<Rightarrow> u32 \<Rightarrow> u64 \<Rightarrow> u32 \<Rightarrow> u64 \<Rightarrow> carchreader \<Rightarrow> carchreader" where
  "head_reader opt arcid now atype fscnt ai =
     ai\<lparr>archtype := atype, fscount := (if atype = ARCHTYPE_FILESYSTEMS then fscnt else fscount ai), archid := arcid,
        filefmt := bytes_of_string FSA_FILEFORMAT @ [0] @ drop (length FSA_FILEFORMAT + 1) (filefmt ai),
        creatver := bytes_of_string FSA_VERSION @ [0] @ drop (length FSA_VERSION + 1) (creatver ai),
        label := bytes_of_string (archlabel opt) @ [0] @ drop (length (archlabel opt) + 1) (label ai),
        compalgo := ucast (compressalgo opt), cryptalgo := ucast (encryptalgo opt),
        complevel := word_of_int (compresslevel opt), fsacomp := ucast (fsacomplevel opt), creattime := now\<rparr>"

lemma mainhead_read_steps:
  assumes "length (archlabel opt) < FSA_MAX_LABELLEN" and "pw_small pw" and "\<And>n. length (x_junk env n) = n"
  shows "read_steps (mainhead_reads env (head_dico opt arcid now atype fscnt pw)) ai =
    (True, head_reader opt arcid now atype fscnt ai)"
proof -
  let ?d = "head_dico opt arcid now atype fscnt pw"
  note wf = head_dico_wf [OF assms(1,2), where arcid = arcid and now = now and atype = atype and fscnt = fscnt]
  note f = head_dico_find [where opt = opt and arcid = arcid and now = now and atype = atype and fscnt = fscnt and pw = pw]
  note u32 = f(5-10) [THEN get_head_u32 [OF wf _ assms(3)]]
  note u64 = f(4) [THEN get_head_u64 [OF wf _ assms(3)]]
  have s: "length FSA_FILEFORMAT < FSA_MAX_FILEFMTLEN" "length FSA_VERSION < FSA_MAX_PROGVERLEN"
    by (simp_all add: FSA_VERSION_def FSA_FILEFORMAT_def fsa_const)
  have b: "FSA_MAX_FILEFMTLEN < 65535" "FSA_MAX_PROGVERLEN < 65535" "FSA_MAX_LABELLEN < 65535"
    by (simp_all add: fsa_const)
  note str = get_head_str [OF wf f(1) s(1) b(1)] get_head_str [OF wf f(2) s(2) b(2)] get_head_str [OF wf f(3) assms(1) b(3)]
  show ?thesis
  proof (cases "ARCHTYPE_FILESYSTEMS = atype")
    case True
    note f(13) [OF True [symmetric], THEN get_head_u64 [OF wf _ assms(3)]]
    then show ?thesis
      unfolding mainhead_reads_def head_reader_def read_u32_def read_u64_def read_text_def
      by (simp add: True u32 u64 str)
  next
    case False
    then show ?thesis
      unfolding mainhead_reads_def head_reader_def read_u32_def read_u64_def read_text_def
      by (simp add: u32 u64 str)
  qed
qed

lemma head_check_password:
  assumes wf: "dico_wf d" and "dico_find d 0 MAINHEADKEY_BUFCHECKPASSCLEARMD5 = Some (data_item MAINHEADKEY_BUFCHECKPASSCLEARMD5 md5sum)"
    and "dico_find d 0 MAINHEADKEY_BUFCHECKPASSCRYPTBUF = Some (data_item MAINHEADKEY_BUFCHECKPASSCRYPTBUF crypt)"
    and "length md5sum = 16" and "length crypt = FSA_CHECKPASSBUF_SIZE"
    and "FSA_MIN_PASSLEN \<le> length (encryptpass (x_opt env))" and "length (encryptpass (x_opt env)) \<le> FSA_MAX_PASSLEN"
    and c: "crypto_blowfish lib crypt (FSA_CHECKPASSBUF_SIZE + 8) (encryptpass (x_opt env)) False = Some (0, clear)"
  shows "check_password env lib d = Some (md5sum = take 16 (md5_hash (x_gcry env) clear))"
proof -
  note n = FSA_CHECKPASSBUF_SIZE_def
  have u: "unat (4104 :: u16) = 4104" "unat (115 :: u16) = 115" "unat (4096 :: u16) = 4096" by simp_all
  have k: "of_nat (FSA_CHECKPASSBUF_SIZE + 8) = (4104 :: u16)" by (simp add: n)
  have g1: "dico_get_data d 0 MAINHEADKEY_BUFCHECKPASSCRYPTBUF buf (of_nat (FSA_CHECKPASSBUF_SIZE + 8)) =
      (0, memcpy buf crypt, 4096)" for buf
    using get_head_data [OF wf assms(3), of "4104" buf] assms(5) unfolding k by (simp add: n)
  have g2: "dico_get_data d 0 MAINHEADKEY_BUFCHECKPASSCLEARMD5 (replicate 16 0) 115 = (0, md5sum, 16)"
    using get_head_data [OF wf assms(2), of 115 "replicate 16 0"] assms(4) by (simp add: memcpy_full)
  have t: "take (unat (4096 :: u16)) (memcpy buf crypt) = crypt" for buf
    using assms(5) by (simp add: memcpy_def n)
  show ?thesis
    using assms(6,7) unfolding check_password_def g1 g2 Let_def prod.case t c by simp
qed

lemma head_reader_filefmt: "buf_is (filefmt (head_reader opt arcid now atype fscnt ai)) FSA_FILEFORMAT"
  by (simp add: head_reader_def buf_is_def bytes_of_string_def)

text \<open>The queue that holds one header, and taking it.\<close>

lemma dequeue_only_header:
  assumes "0 \<le> maxblk" and "length magic = FSA_SIZEOF_MAGIC"
  shows "\<exists>q q' n. queue_add_header mem_ok (queue_init maxblk) d magic fsid = Some (0, q) \<and> 0 < n \<and>
    queue_dequeue_header q = Some (n, Some (d, magic, fsid), q')"
  using assms
  by (simp add: queue_add_header_def queue_add_header_internal_def queue_add_enter_def queue_add_header_link_def
      queue_init_def queue_dequeue_header_def queue_dequeue_header_internal_def first_not_ready_def
      queuelocked_get_end_of_queue_def Let_def FSAERR_SUCCESS_def)

lemma add_password_items:
  assumes "s_mem env = mem_ok" and "length random = FSA_CHECKPASSBUF_SIZE" and "\<And>x. length (md5_hash (s_gcry env) x) = 16"
    and c: "crypto_blowfish lib random (FSA_CHECKPASSBUF_SIZE + 8) (encryptpass (s_opt env)) True = Some (0, crypt)"
    and "length crypt = FSA_CHECKPASSBUF_SIZE"
  shows "add_password_check env lib random junk (mainhead_items opt arcid now atype fscnt) =
    Some (head_dico opt arcid now atype fscnt (Some (md5_hash (s_gcry env) random, crypt)))"
proof -
  let ?d = "mainhead_items opt arcid now atype fscnt"
  let ?m = "md5_hash (s_gcry env) random"
  have t: "take FSA_CHECKPASSBUF_SIZE random = random" "take 16 ?m = ?m"
    "take FSA_CHECKPASSBUF_SIZE (memcpy junk crypt) = crypt"
    using assms by (simp_all add: memcpy_def)
  have k: "(0, MAINHEADKEY_BUFCHECKPASSCLEARMD5) \<notin> set (dico_keys ?d)"
    "(0, MAINHEADKEY_BUFCHECKPASSCRYPTBUF) \<notin> set (dico_keys (?d @ [data_item MAINHEADKEY_BUFCHECKPASSCLEARMD5 ?m]))"
    by (auto simp: mainhead_items_def fsa_const)
  have a: "dico_add_data mem_ok ?d 0 MAINHEADKEY_BUFCHECKPASSCLEARMD5 ?m 16 =
      (0, ?d @ [data_item MAINHEADKEY_BUFCHECKPASSCLEARMD5 ?m])"
    using dico_add_new(4) [OF k(1), of ?m] assms(3) by simp
  have b: "dico_add_data mem_ok (?d @ [data_item MAINHEADKEY_BUFCHECKPASSCLEARMD5 ?m]) 0 MAINHEADKEY_BUFCHECKPASSCRYPTBUF
      crypt (of_nat FSA_CHECKPASSBUF_SIZE) = (0, ?d @ password_items ?m crypt)"
    using dico_add_new(4) [OF k(2), of crypt] assms(5) by (simp add: password_items_def)
  show ?thesis
    unfolding add_password_check_def Let_def t c option.case prod.case assms(1) a b
    by (simp add: head_dico_def)
qed

section \<open>Write and read\<close>

lemma ucast_u16_u32_eq: "(ucast (a :: u16) :: u32) = ucast b \<longleftrightarrow> a = b"
proof -
  have "unat (ucast x :: u32) = unat x" for x :: u16
    using unsigned_less [of x, where ?'a = nat] by (simp add: unsigned_ucast_eq take_bit_nat_eq_self)
  then show ?thesis by (metis word_unat_eq_iff)
qed

lemma read_head_dico:
  assumes "length (archlabel opt) < FSA_MAX_LABELLEN" and "pw_small pw" and "\<And>n. length (x_junk env n) = n"
    and q: "queue_dequeue_header q = Some (n, Some (head_dico opt arcid now atype fscnt pw, FSA_MAGIC_MAIN, fsid), q')"
    and "0 < n" and enc: "ucast (encryptalgo opt) = (ucast ENCRYPT_NONE :: u32) \<or>
      check_password env lib (head_dico opt arcid now atype fscnt pw) = Some good"
  shows "extractar_read_mainhead env lib (exar\<lparr>xr_queue := q\<rparr>) =
    Some (if encryptalgo opt = ENCRYPT_NONE \<or> good then 0 else -1, Some (head_dico opt arcid now atype fscnt pw),
      exar\<lparr>xr_queue := q', xr_ai := (head_reader opt arcid now atype fscnt (xr_ai exar))
        \<lparr>hasdirsinfohead := 1, minfsaver := FSA_VERSION_BUILD 0 6 4 0\<rparr>\<rparr>)"
proof -
  let ?d = "head_dico opt arcid now atype fscnt pw"
  note wf = head_dico_wf [OF assms(1,2), where arcid = arcid and now = now and atype = atype and fscnt = fscnt]
  note f = head_dico_find [where opt = opt and arcid = arcid and now = now and atype = atype and fscnt = fscnt and pw = pw]
  note g = f(11) [THEN get_head_u32 [OF wf _ assms(3)]] f(12) [THEN get_head_u64 [OF wf _ assms(3)]]
  have x: "x_dequeue_header (exar\<lparr>xr_queue := q\<rparr>) = Some (n, Some (?d, FSA_MAGIC_MAIN, fsid), exar\<lparr>xr_queue := q'\<rparr>)"
    by (simp add: x_dequeue_header_def q)
  have u: "ucast (encryptalgo opt) = (ucast ENCRYPT_NONE :: u32) \<longleftrightarrow> encryptalgo opt = ENCRYPT_NONE"
    by (rule ucast_u16_u32_eq)
  have k: "cryptalgo (head_reader opt arcid now atype fscnt (xr_ai exar)) = ucast (encryptalgo opt)"
    by (simp add: head_reader_def)
  note r = mainhead_read_steps [OF assms(1-3)]
  show ?thesis
    using enc assms(5)
    by (auto simp: extractar_read_mainhead_def x r g head_reader_filefmt k u Let_def)
qed

lemma blowfish_result:
  assumes "crypto_blowfish lib x n pw enc = Some (0, y)"
  shows "(if enc then gcry_encrypt lib pw x else gcry_decrypt lib pw x) = (0, y)"
  using assms by (auto simp: crypto_blowfish_def split: if_splits prod.splits)

lemma cipher_ok:
  assumes "lib_ok lib" and "gcry_encrypt lib pw x = (0, y)"
  shows "length y = length x" "gcry_decrypt lib pw y = (0, x)"
  using assms unfolding lib_ok_def by blast+

text \<open>C9: the main header that createar_write_mainhead puts into the queue, of an encrypted archive or of one that is not,
  is read by extractar_read_mainhead with all its fields: type of the archive, number of filesystems, id, algorithms,
  levels, time, label, versions. It is accepted exactly if the archive is not encrypted, whatever password there is,
  or the digest of what the password of the reader makes of the test buffer is the one of the buffer; the password of
  the writer is always accepted. Only for an encrypted archive the cipher has to work and the password of the
  reader to have a length that is allowed.\<close>

theorem mainhead_roundtrip:
  fixes env xenv lib save exar random crypt clear atype fscnt now
  defines "opt \<equiv> s_opt env" and "pw \<equiv> encryptpass (x_opt xenv)"
  assumes env: "s_mem env = mem_ok" "s_addq env (length (sv_added save)) = 0" and max: "0 \<le> maxblk"
    and lbl: "length (archlabel opt) < FSA_MAX_LABELLEN" "CHR 0x00 \<notin> set (archlabel opt)"
    and junk: "\<And>n. length (x_junk xenv n) = n" and lib: "lib_ok lib"
    and md5: "\<And>x. length (md5_hash (s_gcry env) x) = 16" "x_gcry xenv = s_gcry env"
    and enc: "encryptalgo opt = ENCRYPT_NONE \<or>
      length random = FSA_CHECKPASSBUF_SIZE \<and>
      crypto_blowfish lib random (FSA_CHECKPASSBUF_SIZE + 8) (encryptpass opt) True = Some (0, crypt) \<and>
      crypto_blowfish lib crypt (FSA_CHECKPASSBUF_SIZE + 8) pw False = Some (0, clear) \<and>
      FSA_MIN_PASSLEN \<le> length pw \<and> length pw \<le> FSA_MAX_PASSLEN"
  shows "\<exists>d save' q r exar' ai. createar_write_mainhead env lib random junk now save atype fscnt = Some (0, save') \<and>
    sv_added save' = sv_added save @ [header_item d FSA_MAGIC_MAIN FSA_FILESYSID_NULL] \<and>
    queue_add_header mem_ok (queue_init maxblk) d FSA_MAGIC_MAIN FSA_FILESYSID_NULL = Some (0, q) \<and>
    extractar_read_mainhead xenv lib (exar\<lparr>xr_queue := q\<rparr>) = Some (r, Some d, exar') \<and>
    (r = 0 \<longleftrightarrow> encryptalgo opt = ENCRYPT_NONE \<or> md5_hash (s_gcry env) clear = md5_hash (s_gcry env) random) \<and>
    (encryptalgo opt = ENCRYPT_NONE \<or> pw \<noteq> encryptpass opt \<or> clear = random) \<and>
    ai = xr_ai exar' \<and> archtype ai = atype \<and> (atype \<noteq> ARCHTYPE_FILESYSTEMS \<or> fscount ai = fscnt) \<and>
    archid ai = w_archid (sv_ai save) \<and> compalgo ai = ucast (compressalgo opt) \<and> cryptalgo ai = ucast (encryptalgo opt) \<and>
    complevel ai = word_of_int (compresslevel opt) \<and> fsacomp ai = ucast (fsacomplevel opt) \<and> creattime ai = now \<and>
    buf_string (label ai) = Some (archlabel opt) \<and> buf_string (creatver ai) = Some FSA_VERSION \<and>
    minfsaver ai = FSA_VERSION_BUILD 0 6 4 0 \<and> hasdirsinfohead ai = 1"
proof -
  let ?md5 = "md5_hash (s_gcry env)"
  let ?pw = "if encryptalgo opt = ENCRYPT_NONE then None else Some (?md5 random, crypt)"
  let ?d = "head_dico opt (w_archid (sv_ai save)) now atype fscnt ?pw"
  have enc: "length random = FSA_CHECKPASSBUF_SIZE"
      "crypto_blowfish lib random (FSA_CHECKPASSBUF_SIZE + 8) (encryptpass opt) True = Some (0, crypt)"
      "crypto_blowfish lib crypt (FSA_CHECKPASSBUF_SIZE + 8) pw False = Some (0, clear)"
      "FSA_MIN_PASSLEN \<le> length pw" "length pw \<le> FSA_MAX_PASSLEN" if "encryptalgo opt \<noteq> ENCRYPT_NONE"
    using enc that by blast+
  have len: "length crypt = FSA_CHECKPASSBUF_SIZE" if "encryptalgo opt \<noteq> ENCRYPT_NONE"
    using cipher_ok(1) [OF lib, of "encryptpass opt" random crypt] blowfish_result [OF enc(2) [OF that]] enc(1) [OF that]
    by simp
  have same: "encryptalgo opt = ENCRYPT_NONE \<or> pw \<noteq> encryptpass opt \<or> clear = random"
  proof (cases "encryptalgo opt = ENCRYPT_NONE")
    case False
    then show ?thesis
      using cipher_ok(2) [OF lib, of "encryptpass opt" random crypt] blowfish_result [OF enc(2)] blowfish_result [OF enc(3)]
      by auto
  qed simp
  have ps: "pw_small ?pw" using md5(1) len by (simp add: pw_small_def)
  note wf = head_dico_wf [OF lbl(1) ps, where arcid = "w_archid (sv_ai save)" and now = now and atype = atype and fscnt = fscnt]
  note f = head_dico_find [where opt = opt and arcid = "w_archid (sv_ai save)" and now = now and atype = atype and
      fscnt = fscnt and pw = ?pw]
  have a: "(if encryptalgo opt \<noteq> ENCRYPT_NONE then add_password_check env lib random junk
        (mainhead_items opt (w_archid (sv_ai save)) now atype fscnt)
      else Some (mainhead_items opt (w_archid (sv_ai save)) now atype fscnt)) = Some ?d"
    using add_password_items [OF env(1) enc(1) md5(1) enc(2) [unfolded opt_def] len, where opt = opt]
    by (simp add: head_dico_def opt_def)
  have w: "createar_write_mainhead env lib random junk now save atype fscnt =
      Some (0, save\<lparr>sv_added := sv_added save @ [header_item ?d FSA_MAGIC_MAIN FSA_FILESYSID_NULL]\<rparr>)"
    unfolding createar_write_mainhead_def env(1) Let_def mainhead_steps dico_alloc_def opt_def [symmetric] if_True option.case a
    by (simp add: g_queue_add_def env(2))
  obtain q q' n where q: "queue_add_header mem_ok (queue_init maxblk) ?d FSA_MAGIC_MAIN FSA_FILESYSID_NULL = Some (0, q)"
      "0 < n" "queue_dequeue_header q = Some (n, Some (?d, FSA_MAGIC_MAIN, FSA_FILESYSID_NULL), q')"
    using dequeue_only_header [OF max, of FSA_MAGIC_MAIN ?d FSA_FILESYSID_NULL] by (auto simp: fsa_const)
  have c: "ucast (encryptalgo opt) = (ucast ENCRYPT_NONE :: u32) \<or>
      check_password xenv lib ?d = Some (?md5 random = ?md5 clear)"
  proof (cases "encryptalgo opt = ENCRYPT_NONE")
    case False
    then have p: "?pw = Some (?md5 random, crypt)" by simp
    show ?thesis
      using head_check_password [OF wf f(14) [OF p] f(15) [OF p] md5(1) len [OF False], of xenv lib clear]
        enc(3-5) [OF False] md5 by (simp add: pw_def)
  qed simp
  note r = read_head_dico [OF lbl(1) ps junk q(3,2) c, of exar]
  have t: "CHR 0x00 \<notin> set FSA_VERSION" by (simp add: FSA_VERSION_def)
  show ?thesis
    using w q(1) r same buf_string_app [OF lbl(2)] buf_string_app [OF t]
    by (auto simp: head_reader_def intro!: exI [of _ ?d])
qed

lemma mainhead_roundtrip_witness:
  "\<exists>d save' q r exar' ai.
    createar_write_mainhead (demo_senv\<lparr>s_opt := demo_crypt\<rparr>) demo_lib (replicate 4096 7) [] 1234567 demo_savear
      ARCHTYPE_FILESYSTEMS 2 = Some (0, save') \<and>
    sv_added save' = sv_added demo_savear @ [header_item d FSA_MAGIC_MAIN FSA_FILESYSID_NULL] \<and>
    queue_add_header mem_ok (queue_init 4) d FSA_MAGIC_MAIN FSA_FILESYSID_NULL = Some (0, q) \<and>
    extractar_read_mainhead demo_xenv demo_lib (demo_extractar\<lparr>xr_queue := q\<rparr>) = Some (r, Some d, exar') \<and>
    r = 0 \<and> ai = xr_ai exar' \<and> archtype ai = ARCHTYPE_FILESYSTEMS \<and> fscount ai = 2 \<and> creattime ai = 1234567 \<and>
    buf_string (label ai) = Some [] \<and> minfsaver ai = FSA_VERSION_BUILD 0 6 4 0"
proof -
  have o: "s_opt (demo_senv\<lparr>s_opt := demo_crypt\<rparr>) = demo_crypt" "encryptpass (x_opt demo_xenv) = ''secret''"
    "encryptpass demo_crypt = ''secret''" "archlabel demo_crypt = []"
    by (simp_all add: demo_xenv_def demo_crypt_def options_zero_def)
  have c: "crypto_blowfish demo_lib (replicate 4096 7) (FSA_CHECKPASSBUF_SIZE + 8) ''secret'' True = Some (0, replicate 4096 (NOT 7))"
    "crypto_blowfish demo_lib (replicate 4096 (NOT 7)) (FSA_CHECKPASSBUF_SIZE + 8) ''secret'' False = Some (0, replicate 4096 7)"
    by (simp_all add: crypto_blowfish_def demo_lib_def FSA_CHECKPASSBUF_SIZE_def)
  have e: "s_mem (demo_senv\<lparr>s_opt := demo_crypt\<rparr>) = mem_ok" "s_addq (demo_senv\<lparr>s_opt := demo_crypt\<rparr>) n = 0"
    "s_gcry (demo_senv\<lparr>s_opt := demo_crypt\<rparr>) = demo_gcry" "x_gcry demo_xenv = demo_gcry"
    "length (x_junk demo_xenv m) = m" "length (md5_hash demo_gcry x) = 16" for n m x
    by (simp_all add: demo_senv_def demo_xenv_def demo_gcry_def)
  let ?env = "demo_senv\<lparr>s_opt := demo_crypt\<rparr>"
  have l: "length (archlabel (s_opt ?env)) < FSA_MAX_LABELLEN" "CHR 0x00 \<notin> set (archlabel (s_opt ?env))"
    "length (replicate 4096 7) = FSA_CHECKPASSBUF_SIZE"
    "FSA_MIN_PASSLEN \<le> length (encryptpass (x_opt demo_xenv))" "length (encryptpass (x_opt demo_xenv)) \<le> FSA_MAX_PASSLEN"
    by (simp_all add: o fsa_const)
  have m: "length (md5_hash (s_gcry ?env) x) = 16" "x_gcry demo_xenv = s_gcry ?env" for x
    using e by simp_all
  note t = mainhead_roundtrip [of ?env demo_savear 4 demo_xenv demo_lib "replicate 4096 7" "replicate 4096 (NOT 7)"
      "replicate 4096 7" "[]" 1234567 ARCHTYPE_FILESYSTEMS 2 demo_extractar,
      OF e(1,2) _ l(1,2) e(5) demo_lib_ok m, unfolded o, OF _ disjI2, OF _ conjI [OF l(3) conjI [OF c(1) conjI [OF c(2)]]]]
  have "(0 :: int) \<le> 4" "FSA_MIN_PASSLEN \<le> length ''secret'' \<and> length ''secret'' \<le> FSA_MAX_PASSLEN"
    by (simp_all add: fsa_const)
  from t [OF this] show ?thesis
    apply (elim exE)
    subgoal for d save' q r exar' ai
      by (rule exI [of _ d], rule exI [of _ save'], rule exI [of _ q], rule exI [of _ r], rule exI [of _ exar'],
          rule exI [of _ ai]) auto
    done
qed

end
