(* ===== verification/Attrtrip.thy ===== *)
theory Attrtrip
  imports Regtrip Headok
begin

text \<open>The extended attributes of a file on their way: createar_item_xattr on one side, extractar_restore_attr_xattr on
  the other.\<close>

section \<open>Saving\<close>

text \<open>The attributes of a file as the system calls tell them: the list of names fits the buffer of 4095 bytes, the
  names have at most 255 characters and the values at most 65535 bytes.\<close>

definition name_list :: "(string \<times> u8 list) list \<Rightarrow> string" where
  "name_list attrs = concat (map (\<lambda>(n, v). n @ [CHR 0x00]) attrs)"

definition has_xattrs :: "senv \<Rightarrow> string \<Rightarrow> (string \<times> u8 list) list \<Rightarrow> bool" where
  "has_xattrs env p attrs \<longleftrightarrow>
     s_listxattr env p = (int (length (name_list attrs)), name_list attrs) \<and> length (name_list attrs) \<le> 4095 \<and>
     (\<forall>(n, v) \<in> set attrs. CHR 0x00 \<notin> set n \<and> length n \<le> 255 \<and> length v \<le> 65535 \<and>
        fst (s_getxattr env p n 0) = int (length v) \<and> s_getxattr env p n (length v) = (int (length v), False, v))"

fun attr_items :: "nat \<Rightarrow> (string \<times> u8 list) list \<Rightarrow> cdico" where
  "attr_items k [] = []"
| "attr_items k ((n, v) # attrs) =
     new_item DICO_OBJ_SECTION_XATTR (of_nat (2 * k)) (bytes_of_string n @ [0]) (of_nat (length n) + 1) DICTYPE_STRING #
     new_item DICO_OBJ_SECTION_XATTR (of_nat (2 * k + 1)) v (of_nat (length v)) DICTYPE_DATA #
     attr_items (k + 1) attrs"

lemma attr_items_append: "attr_items k (as @ bs) = attr_items k as @ attr_items (k + length as) bs"
  by (induction k as rule: attr_items.induct) auto

lemma of_nat_u16_eq: "a < 65536 \<Longrightarrow> b < 65536 \<Longrightarrow> (of_nat a :: u16) = of_nat b \<longleftrightarrow> a = b"
  by (metis unat_of_nat_u16)

lemma attr_items_keys:
  "set (dico_keys (attr_items k attrs)) = (\<lambda>j. (DICO_OBJ_SECTION_XATTR, of_nat j)) ` {2 * k ..< 2 * (k + length attrs)}"
proof (induction k attrs rule: attr_items.induct)
  case (2 k n v attrs)
  have "{2 * k ..< 2 * (k + length ((n, v) # attrs))} = {2 * k, 2 * k + 1} \<union> {2 * (k + 1) ..< 2 * ((k + 1) + length attrs)}"
    by auto
  then show ?case using 2 by auto
qed simp

lemma attr_key_fresh:
  assumes "2 * (k + length attrs) \<le> j" and "j < 65536"
  shows "(DICO_OBJ_SECTION_XATTR, of_nat j) \<notin> set (dico_keys (attr_items k attrs))"
  using assms by (auto simp: attr_items_keys of_nat_u16_eq)

lemma name_list_length: "length attrs \<le> length (name_list attrs)"
  by (induction attrs) (auto simp: name_list_def)

text \<open>No entry of the section of the extended attributes.\<close>

definition no_xattr :: "cdico \<Rightarrow> bool" where
  "no_xattr d \<longleftrightarrow> (\<forall>item \<in> set d. dsection item \<noteq> DICO_OBJ_SECTION_XATTR)"

lemma no_xattr_keys: "no_xattr d \<Longrightarrow> (DICO_OBJ_SECTION_XATTR, k) \<notin> set (dico_keys d)"
  by (auto simp: no_xattr_def dico_keys_def)

lemma ucast_of_nat_16: "ucast (of_nat n :: u64) = (of_nat n :: u16)"
  by (simp add: unsigned_of_nat word_of_nat_eq_iff)

lemma ucast_key: "ucast (2 * (of_nat k :: u64)) = (of_nat (2 * k) :: u16)" "ucast (2 * (of_nat k :: u64) + 1) = (of_nat (2 * k + 1) :: u16)"
  using ucast_of_nat_16 [of "2 * k"] ucast_of_nat_16 [of "2 * k + 1"] by (simp_all add: add.commute)

lemma xattr_loop_saves:
  assumes env: "s_mem env = mem_ok" and d: "no_xattr d"
    and attrs: "\<forall>(n, v) \<in> set (as @ bs). CHR 0x00 \<notin> set n \<and> length n \<le> 255 \<and> length v \<le> 65535 \<and>
        fst (s_getxattr env p n 0) = int (length v) \<and> s_getxattr env p n (length v) = (int (length v), False, v)"
    and buf: "buffer = name_list (as @ bs) @ zs" and small: "length (name_list (as @ bs)) \<le> 4095"
  shows "xattr_loop env p buffer (int (length (name_list (as @ bs)))) (length (name_list as)) (of_nat (length as)) 0
      (d @ attr_items 0 as) = Some (0, d @ attr_items 0 (as @ bs))"
  using attrs buf small
proof (induction bs arbitrary: as)
  case Nil
  then show ?case by (subst xattr_loop.simps) simp
next
  case (Cons b bs)
  obtain n v where b: "b = (n, v)" by force
  have nv: "CHR 0x00 \<notin> set n" "length n \<le> 255" "length v \<le> 65535" "s_getxattr env p n (length v) = (int (length v), False, v)"
    using Cons.prems(1) b by auto
  obtain e x where g: "s_getxattr env p n 0 = (int (length v), e, x)"
    using Cons.prems(1) b by (cases "s_getxattr env p n 0") auto
  have nl: "name_list (as @ b # bs) = name_list as @ n @ [CHR 0x00] @ name_list bs" "name_list (as @ [b]) = name_list as @ n @ [CHR 0x00]"
    by (simp_all add: name_list_def b)
  have len: "length as \<le> length (name_list as)" by (rule name_list_length)
  have k: "2 * length as + 1 < 65536" using len Cons.prems(3) nl by simp
  have name: "cstr (drop (length (name_list as)) buffer) = n"
    using nv(1) by (simp add: Cons.prems(2) nl cstr_def takeWhile_append)
  let ?d = "d @ attr_items 0 as"
  have f: "(DICO_OBJ_SECTION_XATTR, of_nat (2 * length as)) \<notin> set (dico_keys ?d)"
    "(DICO_OBJ_SECTION_XATTR, of_nat (2 * length as + 1)) \<notin> set (dico_keys (?d @
      [new_item DICO_OBJ_SECTION_XATTR (of_nat (2 * length as)) (bytes_of_string n @ [0]) (of_nat (length n) + 1) DICTYPE_STRING]))"
    using no_xattr_keys [OF d] attr_key_fresh [of 0 as "2 * length as"] attr_key_fresh [of 0 as "2 * length as + 1"] k
      of_nat_u16_eq [of "2 * length as + 1" "2 * length as"]
    by (auto simp del: of_nat_mult of_nat_add of_nat_Suc)
  have v: "xattr_value env p n False (of_nat (length as)) ?d = Some ((True, False), d @ attr_items 0 (as @ [b]))"
  proof -
    have "of_int (int (length v)) = (of_nat (length v) :: u16)" by simp
    then show ?thesis
      unfolding xattr_value_def Let_def g prod.case nat_int ucast_key
      using nv(3,4) f env
      by (simp add: dico_add_string_def dico_add_data_def dico_add_generic_ok attr_items_append b Let_def
          del: of_nat_mult of_nat_add of_nat_Suc)
  qed
  have "xattr_loop env p buffer (int (length (name_list (as @ b # bs)))) (length (name_list as)) (of_nat (length as)) 0 ?d =
      xattr_loop env p buffer (int (length (name_list ((as @ [b]) @ bs)))) (length (name_list (as @ [b]))) (of_nat (length (as @ [b]))) 0
        (d @ attr_items 0 (as @ [b]))"
    using Cons.prems(3)
    by (subst xattr_loop.simps) (simp add: name v nl Let_def add.commute)
  then show ?case using Cons.IH [of "as @ [b]"] Cons.prems by simp
qed

section \<open>Restoring\<close>

abbreviation name_item :: "nat \<Rightarrow> string \<Rightarrow> cdicoitem" where
  "name_item j n \<equiv> new_item DICO_OBJ_SECTION_XATTR (of_nat j) (bytes_of_string n @ [0]) (of_nat (length n) + 1) DICTYPE_STRING"

abbreviation value_item :: "nat \<Rightarrow> u8 list \<Rightarrow> cdicoitem" where
  "value_item j v \<equiv> new_item DICO_OBJ_SECTION_XATTR (of_nat j) v (of_nat (length v)) DICTYPE_DATA"

lemma attr_items_find:
  assumes "i < length attrs" and "2 * (k + length attrs) \<le> 65536" and "attrs ! i = (n, v)"
  shows "dico_find (attr_items k attrs) DICO_OBJ_SECTION_XATTR (of_nat (2 * (k + i))) = Some (name_item (2 * (k + i)) n) \<and>
    dico_find (attr_items k attrs) DICO_OBJ_SECTION_XATTR (of_nat (2 * (k + i) + 1)) = Some (value_item (2 * (k + i) + 1) v)"
  using assms
proof (induction k attrs arbitrary: i rule: attr_items.induct)
  case (2 k n' v' attrs)
  show ?case
  proof (cases i)
    case 0
    have "(of_nat (2 * k + 1) :: u16) \<noteq> of_nat (2 * k)"
      using of_nat_u16_eq [of "2 * k + 1" "2 * k"] 2(3) by simp
    then show ?thesis using 0 2(4) by (auto simp: dico_find_def simp del: of_nat_mult of_nat_add of_nat_Suc)
  next
    case (Suc j)
    have e: "k + i = k + 1 + j" using Suc by simp
    have b: "2 * (k + 1 + j) + 1 < 65536" using 2(2,3) Suc by simp
    have neq: "(of_nat (2 * (k + 1 + j)) :: u16) \<noteq> of_nat (2 * k)" "(of_nat (2 * (k + 1 + j)) :: u16) \<noteq> of_nat (2 * k + 1)"
        "(of_nat (2 * (k + 1 + j) + 1) :: u16) \<noteq> of_nat (2 * k)" "(of_nat (2 * (k + 1 + j) + 1) :: u16) \<noteq> of_nat (2 * k + 1)"
      using of_nat_u16_eq b by (simp_all del: of_nat_mult of_nat_add of_nat_Suc)
    have skip: "dico_find (attr_items k ((n', v') # attrs)) DICO_OBJ_SECTION_XATTR key =
        dico_find (attr_items (k + 1) attrs) DICO_OBJ_SECTION_XATTR key"
      if "key \<noteq> of_nat (2 * k)" "key \<noteq> of_nat (2 * k + 1)" for key
      using that by (simp add: dico_find_def del: of_nat_mult of_nat_add of_nat_Suc)
    show ?thesis
      unfolding e skip [OF neq(1,2)] skip [OF neq(3,4)]
      using 2(1) [of j] 2(2-4) Suc by simp
  qed
qed simp

lemma dico_find_append_None: "dico_find d s k = None \<Longrightarrow> dico_find (d @ e) s k = dico_find e s k"
  by (simp add: dico_find_def find_append)

lemma dico_find_append_Some: "dico_find d s k = Some x \<Longrightarrow> dico_find (d @ e) s k = Some x"
  by (simp add: dico_find_def find_append)

lemma attr_items_distinct: "2 * (k + length attrs) \<le> 65536 \<Longrightarrow> distinct (dico_keys (attr_items k attrs))"
proof (induction k attrs rule: attr_items.induct)
  case (2 k n v attrs)
  have "(DICO_OBJ_SECTION_XATTR, of_nat j) \<notin> set (dico_keys (attr_items (k + 1) attrs))" if "j < 2 * (k + 1)" for j
    using that 2(2) by (auto simp: attr_items_keys of_nat_u16_eq simp del: of_nat_mult of_nat_add of_nat_Suc)
  moreover have "(of_nat (2 * k + 1) :: u16) \<noteq> of_nat (2 * k)"
    using of_nat_u16_eq [of "2 * k + 1" "2 * k"] 2(2) by simp
  ultimately show ?case using 2 by (auto simp del: of_nat_mult of_nat_add of_nat_Suc)
qed simp

lemma attr_items_wf:
  assumes "\<forall>(n, v) \<in> set attrs. length n \<le> 255 \<and> length v \<le> 65535"
  shows "\<forall>item \<in> set (attr_items k attrs). item_wf item"
  using assms
proof (induction k attrs rule: attr_items.induct)
  case (2 k n v attrs)
  have "unat (of_nat (length n) + 1 :: u16) = Suc (length n)" "unat (of_nat (length v) :: u16) = length v"
    using 2(2) by (auto intro!: unat_len_u16 unat_of_nat_u16)
  then show ?case using 2 by (auto simp: bytes_of_string_def intro!: new_item_wf simp del: of_nat_mult of_nat_add of_nat_Suc)
qed simp

lemma attr_dico_wf:
  assumes "dico_wf (d @ e)" and "no_xattr (d @ e)" and "\<forall>(n, v) \<in> set attrs. length n \<le> 255 \<and> length v \<le> 65535"
    and "2 * length attrs \<le> 65536"
  shows "dico_wf (d @ attr_items 0 attrs @ e)"
proof -
  have "set (dico_keys (attr_items 0 attrs)) \<inter> set (dico_keys (d @ e)) = {}"
    using no_xattr_keys [OF assms(2)] by (auto simp: attr_items_keys)
  then show ?thesis
    using assms(1) attr_items_distinct [of 0 attrs] assms(4) attr_items_wf [OF assms(3), of 0]
    by (auto simp: dico_wf_def)
qed

lemma count_section: "dico_count_one_section_loop d s c = c + int (length (filter (\<lambda>item. dsection item = s) d))"
  by (induction d arbitrary: c) auto

lemma attr_items_count: "length (filter (\<lambda>item. dsection item = DICO_OBJ_SECTION_XATTR) (attr_items k attrs)) = 2 * length attrs"
  by (induction k attrs rule: attr_items.induct) auto

lemma restore_saved_attr:
  assumes wf: "dico_wf d" and f: "dico_find d DICO_OBJ_SECTION_XATTR (of_nat j) = Some (name_item j n)"
      "dico_find d DICO_OBJ_SECTION_XATTR (of_nat (j + 1)) = Some (value_item (j + 1) v)"
    and nv: "CHR 0x00 \<notin> set n" "length n \<le> 255" "length v \<le> 65535"
  shows "\<exists>r. restore_one_attr env p d DICO_OBJ_SECTION_XATTR j exar =
      Some (r, exar\<lparr>xr_trace := xr_trace exar @ [Sys_lsetxattr p n v]\<rparr>) \<and>
    (r = 0 \<longleftrightarrow> x_os env (xr_trace exar) (Sys_lsetxattr p n v) = 0)"
proof -
  have l: "unat (of_nat (length n) + 1 :: u16) = Suc (length n)" "unat (of_nat (length v) :: u16) = length v"
    using nv(2,3) by (auto intro!: unat_len_u16 unat_of_nat_u16)
  have s: "dico_get_string d DICO_OBJ_SECTION_XATTR (of_nat j) 2048 = (0, bytes_of_string n @ 0 # replicate (2047 - length n) 0)"
    using dico_get_data_Some [OF wf f(1), of 2048 "replicate 2048 0"] l(1) nv(2)
    by (simp add: dico_get_string_def word_le_nat_alt new_item_bytes memcpy_def bytes_of_string_def Let_def)
  have g: "dico_get_data d DICO_OBJ_SECTION_XATTR (of_nat (j + 1)) (replicate 65535 0) 65535 =
      (0, v @ replicate (65535 - length v) 0, of_nat (length v))"
    using dico_get_data_Some [OF wf f(2), of 65535 "replicate 65535 0"] l(2) nv(3)
    by (simp add: word_le_nat_alt new_item_bytes memcpy_def del: of_nat_add of_nat_Suc)
  have b: "buf_string (bytes_of_string n @ 0 # replicate (2047 - length n) 0) = Some n"
    by (rule buf_string_app [OF nv(1)])
  show ?thesis
    unfolding restore_one_attr_def s g Let_def prod.case
    by (simp add: b x_sys_def l)
qed

lemma restore_saved_attrs:
  assumes wf: "dico_wf d" and small: "2 * length attrs \<le> 65536"
    and f: "\<And>i. i < length attrs \<Longrightarrow>
      dico_find d DICO_OBJ_SECTION_XATTR (of_nat (2 * i)) = Some (name_item (2 * i) (fst (attrs ! i))) \<and>
      dico_find d DICO_OBJ_SECTION_XATTR (of_nat (2 * i + 1)) = Some (value_item (2 * i + 1) (snd (attrs ! i)))"
    and nv: "\<forall>(n, v) \<in> set attrs. CHR 0x00 \<notin> set n \<and> length n \<le> 255 \<and> length v \<le> 65535"
    and os: "\<And>tr n v. x_os env tr (Sys_lsetxattr p n v) = 0" and "i \<le> length attrs"
  shows "restore_attrs_loop env p d DICO_OBJ_SECTION_XATTR (2 * length attrs) (2 * i) 0 exar =
      Some (0, exar\<lparr>xr_trace := xr_trace exar @ map (\<lambda>(n, v). Sys_lsetxattr p n v) (drop i attrs)\<rparr>)"
  using assms(6)
proof (induction "length attrs - i" arbitrary: i exar)
  case 0
  then show ?case by (subst restore_attrs_loop.simps) simp
next
  case (Suc m)
  then have i: "i < length attrs" by simp
  obtain n v where a: "attrs ! i = (n, v)" by force
  have "(n, v) \<in> set attrs" using i a by (metis nth_mem)
  then have nv': "CHR 0x00 \<notin> set n" "length n \<le> 255" "length v \<le> 65535" using nv by auto
  let ?exar = "exar\<lparr>xr_trace := xr_trace exar @ [Sys_lsetxattr p n v]\<rparr>"
  have o: "restore_one_attr env p d DICO_OBJ_SECTION_XATTR (2 * i) exar = Some (0, ?exar)"
    using restore_saved_attr [OF wf _ _ nv', of "2 * i" env p exar] f [OF i] a os by auto
  have "drop i attrs = (n, v) # drop (Suc i) attrs" using i a by (metis Cons_nth_drop_Suc)
  moreover have "restore_attrs_loop env p d DICO_OBJ_SECTION_XATTR (2 * length attrs) (2 * Suc i) 0 ?exar =
      Some (0, ?exar\<lparr>xr_trace := xr_trace ?exar @ map (\<lambda>(n, v). Sys_lsetxattr p n v) (drop (Suc i) attrs)\<rparr>)"
    using Suc.hyps(1) [of "Suc i" ?exar] Suc.hyps(2) i by simp
  ultimately show ?case
    using i by (subst restore_attrs_loop.simps) (simp add: o)
qed

section \<open>From one side to the other\<close>

text \<open>C10: the extended attributes of a file come through: the header that createar_item_xattr fills makes
  extractar_restore_attr_xattr set on the restored file exactly the attributes of the source, each with its name and all
  bytes of its value, in the order of the list, whatever other entries the header has.\<close>

theorem xattr_roundtrip:
  assumes "s_mem env = mem_ok" and attrs: "has_xattrs env p attrs" and d: "dico_wf (d @ e)" "no_xattr (d @ e)"
    and os: "\<And>tr n v. x_os xenv tr (Sys_lsetxattr q n v) = 0"
  shows "\<exists>d'. createar_item_xattr env p d = Some (0, d') \<and>
    extractar_restore_attr_xattr xenv q (d' @ e) exar =
      Some (0, exar\<lparr>xr_trace := xr_trace exar @ map (\<lambda>(n, v). Sys_lsetxattr q n v) attrs\<rparr>)"
proof -
  have a: "\<forall>(n, v) \<in> set attrs. CHR 0x00 \<notin> set n \<and> length n \<le> 255 \<and> length v \<le> 65535 \<and>
        fst (s_getxattr env p n 0) = int (length v) \<and> s_getxattr env p n (length v) = (int (length v), False, v)"
    and l: "s_listxattr env p = (int (length (name_list attrs)), name_list attrs)" "length (name_list attrs) \<le> 4095"
    using attrs by (auto simp: has_xattrs_def)
  have nv: "\<forall>(n, v) \<in> set attrs. CHR 0x00 \<notin> set n \<and> length n \<le> 255 \<and> length v \<le> 65535"
    "\<forall>(n, v) \<in> set attrs. length n \<le> 255 \<and> length v \<le> 65535" using a by auto
  have n: "no_xattr d" using d(2) by (auto simp: no_xattr_def)
  have small: "2 * length attrs \<le> 65536" using name_list_length [of attrs] l(2) by linarith
  define buffer where "buffer = take 4095 (name_list attrs @ replicate 4095 (CHR 0x00)) @ [CHR 0x00]"
  have buf: "buffer = name_list ([] @ attrs) @ replicate (4095 - length (name_list attrs)) (CHR 0x00) @ [CHR 0x00]"
    using l(2) by (simp add: buffer_def min_def)
  have "createar_item_xattr env p d = Some (0, d @ attr_items 0 attrs)"
    using xattr_loop_saves [OF assms(1) n _ buf] a l(2)
    by (simp add: createar_item_xattr_def l(1) buffer_def name_list_def)
  moreover have "extractar_restore_attr_xattr xenv q (d @ attr_items 0 attrs @ e) exar =
      Some (0, exar\<lparr>xr_trace := xr_trace exar @ map (\<lambda>(n, v). Sys_lsetxattr q n v) attrs\<rparr>)"
  proof -
    let ?d = "d @ attr_items 0 attrs @ e"
    have none: "dico_find d DICO_OBJ_SECTION_XATTR k = None" for k
      using no_xattr_keys [OF n] by (simp add: dico_find_None)
    have f: "dico_find ?d DICO_OBJ_SECTION_XATTR (of_nat (2 * i)) = Some (name_item (2 * i) (fst (attrs ! i))) \<and>
        dico_find ?d DICO_OBJ_SECTION_XATTR (of_nat (2 * i + 1)) = Some (value_item (2 * i + 1) (snd (attrs ! i)))"
      if "i < length attrs" for i
      using attr_items_find [OF that, of 0 "fst (attrs ! i)" "snd (attrs ! i)"] small
      by (simp add: dico_find_append_None [OF none] dico_find_append_Some del: of_nat_mult of_nat_add of_nat_Suc)
    have "filter (\<lambda>item. dsection item = DICO_OBJ_SECTION_XATTR) d = []" "filter (\<lambda>item. dsection item = DICO_OBJ_SECTION_XATTR) e = []"
      using d(2) by (auto simp: no_xattr_def filter_empty_conv)
    then have "nat (dico_count_one_section ?d DICO_OBJ_SECTION_XATTR) = 2 * length attrs"
      by (simp add: dico_count_one_section_def count_section attr_items_count)
    then show ?thesis
      using restore_saved_attrs [OF attr_dico_wf [OF d nv(2) small] small f nv(1) os, of 0 exar]
      by (simp add: extractar_restore_attr_xattr_def)
  qed
  ultimately show ?thesis by simp
qed

lemma xattr_roundtrip_witness:
  "\<exists>d'. createar_item_xattr (demo_senv\<lparr>s_listxattr := (\<lambda>p. (14, ''user.a'' @ [CHR 0x00] @ ''user.b'' @ [CHR 0x00])),
        s_getxattr := (\<lambda>p n k. if n = ''user.a'' then (3, False, [1, 0, 2]) else (0, False, []))\<rparr>) ''/m/f'' [] = Some (0, d') \<and>
    extractar_restore_attr_xattr demo_xenv ''/d/f'' d' demo_extractar =
      Some (0, demo_extractar\<lparr>xr_trace := [Sys_lsetxattr ''/d/f'' ''user.a'' [1, 0, 2], Sys_lsetxattr ''/d/f'' ''user.b'' []]\<rparr>)"
  using xattr_roundtrip [of "demo_senv\<lparr>s_listxattr := (\<lambda>p. (14, ''user.a'' @ [CHR 0x00] @ ''user.b'' @ [CHR 0x00])),
        s_getxattr := (\<lambda>p n k. if n = ''user.a'' then (3, False, [1, 0, 2]) else (0, False, []))\<rparr>" "''/m/f''"
      "[(''user.a'', [1, 0, 2]), (''user.b'', [])]" "[]" "[]" demo_xenv "''/d/f''" demo_extractar]
  by (simp add: demo_senv_def has_xattrs_def name_list_def no_xattr_def demo_xenv_def demo_os_def demo_extractar_def)

end
