(* ===== verification/Fsback.thy ===== *)
theory Fsback
  imports Headitem Filesys "HOL-Library.Monad_Syntax"
begin

text \<open>What the back ends fs_*.c share: running a program (exec_command of common.c), the versions that programs
  print, mounting and unmounting. The effects are a list of calls; what programs print and return, what is
  read from a device, the answers of mount and umount, wordexp and the libraries ext2fs, blkid and uuid are fields of an
  environment, and the answers may depend on the calls before. An access outside a buffer is the result None.\<close>

section \<open>Environment\<close>

datatype bcall =
    Run string "string list"
  | Dev_write string nat "u8 list"
  | Do_mount string string string u32 "string option"
  | Do_umount string
  | Do_mkdir string
  | Do_rmdir string

text \<open>How a program ended (its exit status, or 128 and the number of the signal) and what it printed.\<close>

record cproc =
  p_status :: int
  p_stdout :: string
  p_stderr :: string

text \<open>The fields of the superblock of ext2, ext3 and ext4 that the program reads (struct fsa_ext2_sb).\<close>

record fsa_ext2_sb =
  s_log_block_size :: u32
  s_max_mnt_count :: "16 word"
  s_checkinterval :: u32
  s_rev_level :: u32
  s_inode_size :: u16
  s_feature_compat :: u32
  s_feature_incompat :: u32
  s_feature_ro_compat :: u32
  s_uuid :: "u8 list"
  s_volume_name :: string
  s_default_mount_opts :: u32
  s_raid_stride :: u16
  s_raid_stripe_width :: u32

text \<open>The time of day that localtime_r makes of the clock, with the microseconds; month and year as they are printed.\<close>

record ctm =
  tm_year :: nat
  tm_mon :: nat
  tm_mday :: nat
  tm_hour :: nat
  tm_min :: nat
  tm_sec :: nat
  tv_usec :: u32

text \<open>\<open>b_spawn\<close> says whether pipe and fork succeed; \<open>b_read\<close> is open, lseek and read: None when the device cannot
  be opened, otherwise the bytes, fewer than asked for at the end of the device or on an error. \<open>b_mapper\<close> are the names in
  /dev/mapper, \<open>b_model\<close> the beginning of a file, and \<open>b_cache\<close> and \<open>b_blkid\<close> the answers of libblkid.\<close>

record benv =
  b_mem :: malloc
  b_wordexp :: "string \<Rightarrow> string list option"
  b_path :: "string option"
  b_access :: "string \<Rightarrow> bool"
  b_spawn :: "bcall list \<Rightarrow> bool"
  b_run :: "bcall list \<Rightarrow> string \<Rightarrow> string list \<Rightarrow> cproc"
  b_lseek :: "bcall list \<Rightarrow> string \<Rightarrow> nat \<Rightarrow> bool"
  b_read :: "bcall list \<Rightarrow> string \<Rightarrow> nat \<Rightarrow> nat \<Rightarrow> u8 list option"
  b_write :: "bcall list \<Rightarrow> string \<Rightarrow> bool"
  b_mount :: "bcall list \<Rightarrow> string \<Rightarrow> string \<Rightarrow> string \<Rightarrow> u32 \<Rightarrow> string option \<Rightarrow> int"
  b_umount :: "bcall list \<Rightarrow> string \<Rightarrow> (bool \<times> bool) list"
  b_devsize :: "bcall list \<Rightarrow> string \<Rightarrow> int option"
  b_uname :: "string option"
  b_regexec :: "string \<Rightarrow> string \<Rightarrow> bool"
  b_ext2 :: "bcall list \<Rightarrow> string \<Rightarrow> fsa_ext2_sb option"
  b_mntopt2string :: "u32 \<Rightarrow> string"
  b_unparse :: "u8 list \<Rightarrow> string"
  b_stat :: "string \<Rightarrow> cdevstat option"
  b_mapper :: "string list option"
  b_model :: "string \<Rightarrow> string option"
  b_cache :: bool
  b_blkid :: "string \<Rightarrow> (string \<times> string) list option"
  b_missing :: "bcall list \<Rightarrow> string \<Rightarrow> bool"
  b_now :: "bcall list \<Rightarrow> ctm"
  b_junk :: "nat \<Rightarrow> u8 list"

section \<open>Running a program\<close>

text \<open>The formatted command is cut to its buffer and split into words like a shell does. The array of the arguments
  has 128 places and no place for the NULL that ends it. Of the output what fits the buffers is kept.\<close>

definition exec_command ::
    "benv \<Rightarrow> bcall list \<Rightarrow> nat \<Rightarrow> nat \<Rightarrow> nat \<Rightarrow> string \<Rightarrow> (int \<times> int \<times> string \<times> string \<times> bcall list) option" where
  "exec_command env tr cmdbufsize stdoutsize stderrsize text =
     (let command = snprintf_s cmdbufsize text
      in case b_wordexp env command of
           None \<Rightarrow> None
         | Some words \<Rightarrow>
             (case words of
                [] \<Rightarrow> None
              | prog # args \<Rightarrow>
                  (case getpathtoprog (b_path env) (b_access env) PATH_MAX prog of
                     None \<Rightarrow> Some (-1, -1, [], [], tr)
                   | Some pathtoprog \<Rightarrow>
                       if \<not> b_spawn env tr then Some (-1, -1, [], [], tr)
                       else if 128 \<le> length words then None
                       else
                         (let p = b_run env tr pathtoprog words
                          in Some (0, p_status p, cstr (take (stdoutsize - 1) (p_stdout p)),
                                cstr (take (stderrsize - 1) (p_stderr p)), tr @ [Run pathtoprog words])))))"

text \<open>A command of which only the exit status counts.\<close>

definition run_command :: "benv \<Rightarrow> bcall list \<Rightarrow> string \<Rightarrow> (bool \<times> int \<times> bcall list) option" where
  "run_command env tr text =
     map_option (\<lambda>(r, exitst, _, _, tr). (r = 0, exitst, tr)) (exec_command env tr 2048 0 0 text)"

text \<open>The size of a device; it is an error when the device cannot be opened or seeking fails.\<close>

definition get_device_size :: "benv \<Rightarrow> bcall list \<Rightarrow> string \<Rightarrow> int" where
  "get_device_size env tr part =
     (case b_devsize env tr part of
        None \<Rightarrow> -1
      | Some devsize \<Rightarrow> if devsize < 0 then -1 else devsize)"

definition match_uname_r :: "benv \<Rightarrow> string \<Rightarrow> bool" where
  "match_uname_r env ere = (case b_uname env of None \<Rightarrow> False | Some release \<Rightarrow> b_regexec env ere release)"

section \<open>Versions\<close>

text \<open>The conversions of sscanf that are used: a character that must be there, white space, a decimal number (of
  at most so many characters) and a word. A number that does not fit an int has no defined result.\<close>

datatype scan = Slit char | Sws | Sint "nat option" | Sstr nat

datatype scanned = Vint int | Vstr string

definition scan_int :: "string \<Rightarrow> (int \<times> nat) option" where
  "scan_int s =
     (let neg = (s \<noteq> [] \<and> hd s = CHR ''-'');
          sign = (if s \<noteq> [] \<and> hd s \<in> set ''+-'' then 1 else 0);
          digits = takeWhile (\<lambda>c. c \<in> set ''0123456789'') (drop sign s)
      in if digits = [] then None
         else Some (if neg then - int (dec_value digits) else int (dec_value digits), sign + length digits))"

fun sscanf :: "scan list \<Rightarrow> string \<Rightarrow> scanned list option" where
  "sscanf [] s = Some []"
| "sscanf (Slit c # f) s = (case s of [] \<Rightarrow> Some [] | x # xs \<Rightarrow> if x = c then sscanf f xs else Some [])"
| "sscanf (Sws # f) s = sscanf f (dropWhile is_space s)"
| "sscanf (Sint w # f) s =
     (let s = dropWhile is_space s
      in case scan_int (case w of None \<Rightarrow> s | Some n \<Rightarrow> take n s) of
           None \<Rightarrow> Some []
         | Some (v, n) \<Rightarrow>
             if v < - (2 ^ 31) \<or> 2 ^ 31 \<le> v then None else map_option (\<lambda>vs. Vint v # vs) (sscanf f (drop n s)))"
| "sscanf (Sstr n # f) s =
     (let s = dropWhile is_space s; word = take n (takeWhile (\<lambda>c. \<not> is_space c) s)
      in if word = [] then Some [] else map_option (\<lambda>vs. Vstr word # vs) (sscanf f (drop (length word) s)))"

definition scanned_int :: "scanned list \<Rightarrow> nat \<Rightarrow> int" where
  "scanned_int vs i = (if i < length vs then case vs ! i of Vint v \<Rightarrow> v | Vstr s \<Rightarrow> 0 else 0)"

definition PROGVER :: "int \<Rightarrow> int \<Rightarrow> int \<Rightarrow> u64" where
  "PROGVER x y z = push_bit 16 (word_of_int x) + push_bit 8 (word_of_int y) + push_bit 0 (word_of_int z)"

definition version_format :: "scan list" where
  "version_format = [Sint None, Slit (CHR ''.''), Sint None, Slit (CHR ''.''), Sint None]"

text \<open>The version that a program of e2fsprogs prints with the option -V on its error output.\<close>

definition check_prog_version :: "benv \<Rightarrow> bcall list \<Rightarrow> string \<Rightarrow> (u64 \<times> bcall list) option" where
  "check_prog_version env tr prog =
     do {
       (r, _, _, stderrbuf, tr) \<leftarrow> exec_command env tr 2048 0 2048 (prog @ '' -V'');
       if r \<noteq> 0 then Some (-1, tr)
       else
         (case find (\<lambda>result. take (length prog) result = prog) (strtok_all [CHR 0x0A, CHR 0x0D] stderrbuf) of
            None \<Rightarrow> Some (0, tr)
          | Some result \<Rightarrow>
              do {
                vs \<leftarrow> sscanf ([Sstr 1023, Sws] @ version_format) result;
                let x = scanned_int vs 1; let y = scanned_int vs 2; let z = scanned_int vs 3;
                Some (if x = 0 \<and> y = 0 then 0 else PROGVER x y z, tr)
              })
     }"

section \<open>Mounting\<close>

definition back_mount ::
    "benv \<Rightarrow> bcall list \<Rightarrow> string \<Rightarrow> string \<Rightarrow> string \<Rightarrow> string option \<Rightarrow> u32 \<Rightarrow> int \<times> bcall list" where
  "back_mount env tr part mntbuf fsbuf mntopt flags =
     (generic_mount (b_mount env tr) part mntbuf fsbuf mntopt flags,
      if fsbuf = [] then tr
      else tr @ [Do_mount part mntbuf fsbuf (flags OR (MS_NOATIME OR MS_NODIRATIME)) mntopt])"

definition back_umount :: "benv \<Rightarrow> bcall list \<Rightarrow> string \<Rightarrow> int \<times> bcall list" where
  "back_umount env tr mntbuf = (fst (generic_umount (b_umount env tr mntbuf)), tr @ [Do_umount mntbuf])"

text \<open>The number that a \<open>%ld\<close> prints of a value cast to long.\<close>

definition show_long :: "u64 \<Rightarrow> string" where
  "show_long w = (if sint w < 0 then ''-'' @ dec_digits (nat (- sint w)) else dec_digits (nat (sint w)))"

text \<open>A number in hexadecimal with leading zeros and the given digits, as \<open>%.8x\<close> and \<open>%08X\<close> print it.\<close>

fun show_hex :: "string \<Rightarrow> nat \<Rightarrow> 'a::len word \<Rightarrow> string" where
  "show_hex digits 0 w = []"
| "show_hex digits (Suc n) w = show_hex digits n (drop_bit 4 w) @ [digits ! unat (w AND 0xF)]"

text \<open>An entry of the header as a C string, and a number: None in the outer option is a string without an end.\<close>

definition head_string :: "cdico \<Rightarrow> u16 \<Rightarrow> u16 \<Rightarrow> string option option" where
  "head_string d key bufsize =
     (let (r, buffer) = dico_get_string d 0 key bufsize
      in if r \<noteq> 0 then Some None else map_option Some (buf_string buffer))"

definition head_u64 :: "benv \<Rightarrow> cdico \<Rightarrow> u16 \<Rightarrow> u64 option" where
  "head_u64 env d key = (let (r, v) = dico_get_u64 d 0 key (b_junk env 8) in if r = 0 then Some v else None)"

text \<open>The option with the label: that of the command line, or else that of the archive when it is not empty.\<close>

definition label_text :: "string \<Rightarrow> (string \<Rightarrow> string) \<Rightarrow> string \<Rightarrow> string" where
  "label_text opt trunc s = opt @ [CHR 0x27] @ trunc s @ [CHR 0x27] @ '' ''"

definition mkfs_label :: "string \<Rightarrow> (string \<Rightarrow> string) \<Rightarrow> string \<Rightarrow> cdico \<Rightarrow> string \<Rightarrow> string option" where
  "mkfs_label opt trunc mkfslabel d options =
     (if length mkfslabel > 0 then Some (strlcatf 2048 options (label_text opt trunc mkfslabel))
      else map_option (\<lambda>s. case s of
             Some buffer \<Rightarrow> if length buffer > 0 then strlcatf 2048 options (label_text opt trunc buffer) else options
           | None \<Rightarrow> options) (head_string d FSYSHEADKEY_FSLABEL 2048))"

definition head_u64_or :: "benv \<Rightarrow> cdico \<Rightarrow> u16 \<Rightarrow> u64 \<Rightarrow> u64" where
  "head_u64_or env d key v = (case head_u64 env d key of Some w \<Rightarrow> w | None \<Rightarrow> v)"

text \<open>The UUID to set: that of the command line or else that of the archive.\<close>

definition choose_uuid :: "cdico \<Rightarrow> string \<Rightarrow> string option" where
  "choose_uuid d mkfsuuid =
     (if length mkfsuuid > 0 then Some (snprintf_s 64 mkfsuuid)
      else map_option (\<lambda>s. case s of Some buffer \<Rightarrow> snprintf_s 64 buffer | None \<Rightarrow> []) (head_string d FSYSHEADKEY_FSUUID 2048))"

section \<open>Superblocks\<close>

text \<open>A superblock is the list of its bytes; a number in it is stored with the lowest or the highest byte first.\<close>

definition le_field :: "u8 list \<Rightarrow> nat \<Rightarrow> nat \<Rightarrow> 'a::len word" where
  "le_field sb off n = le_val (take n (drop off sb))"

definition be_field :: "u8 list \<Rightarrow> nat \<Rightarrow> nat \<Rightarrow> 'a::len word" where
  "be_field sb off n = le_val (rev (take n (drop off sb)))"

text \<open>A field as a C string: it ends at the next zero byte of the structure.\<close>

definition sb_string :: "u8 list \<Rightarrow> nat \<Rightarrow> string option" where
  "sb_string sb off = buf_string (drop off sb)"

text \<open>open, lseek and read of a superblock: the number of the error or the bytes.\<close>

definition read_super :: "benv \<Rightarrow> bcall list \<Rightarrow> string \<Rightarrow> nat \<Rightarrow> nat \<Rightarrow> int + u8 list" where
  "read_super env tr devname off sbsize =
     (case b_read env tr devname off sbsize of
        None \<Rightarrow> Inl (-1)
      | Some sb \<Rightarrow>
          if \<not> b_lseek env tr devname off then Inl (-2)
          else if length sb \<noteq> sbsize then Inl (-3)
          else Inr sb)"

text \<open>The comparison of the first bytes of a field with a magic string that has no zero byte.\<close>

definition sb_magic_is :: "u8 list \<Rightarrow> nat \<Rightarrow> string \<Rightarrow> bool" where
  "sb_magic_is sb off magic \<longleftrightarrow> take (length magic) (drop off sb) = bytes_of_string magic"

section \<open>Directories\<close>

definition format_time :: "ctm \<Rightarrow> nat \<Rightarrow> string" where
  "format_time t bufsize =
     snprintf_s bufsize
       (dec_pad 4 (tm_year t) @ ''-'' @ dec_pad 2 (tm_mon t) @ ''-'' @ dec_pad 2 (tm_mday t) @ ''_'' @
        dec_pad 2 (tm_hour t) @ ''-'' @ dec_pad 2 (tm_min t) @ ''-'' @ dec_pad 2 (tm_sec t))"

definition generate_random_tmpdir :: "ctm \<Rightarrow> nat \<Rightarrow> nat \<Rightarrow> string" where
  "generate_random_tmpdir t bufsize n =
     snprintf_s bufsize
       (''/tmp/fsa/'' @ dec_pad 4 (tm_year t) @ dec_pad 2 (tm_mon t) @ dec_pad 2 (tm_mday t) @ ''-'' @
        dec_pad 2 (tm_hour t) @ dec_pad 2 (tm_min t) @ dec_pad 2 (tm_sec t) @ ''-'' @
        show_hex ''0123456789abcdef'' 8 (tv_usec t) @ ''-'' @ dec_pad 2 n)"

definition back_mkdir :: "benv \<Rightarrow> bcall list \<Rightarrow> string \<Rightarrow> bcall list" where
  "back_mkdir env tr path = mkdir_recursive (b_missing env) (\<lambda>tr p. tr @ [Do_mkdir p]) tr path"

section \<open>An example\<close>

text \<open>An environment in which every program runs and prints nothing, every device can be opened, holds zero bytes and has
  a number that is its own, and nothing is mounted.\<close>

definition demo_benv :: benv where
  "demo_benv =
     \<lparr>b_mem = (\<lambda>n. True), b_wordexp = (\<lambda>s. Some (strtok_all [CHR '' ''] s)), b_path = Some ''/sbin'',
      b_access = (\<lambda>p. True), b_spawn = (\<lambda>tr. True),
      b_run = (\<lambda>tr prog words. \<lparr>p_status = 0, p_stdout = [], p_stderr = []\<rparr>),
      b_lseek = (\<lambda>tr dev off. True), b_read = (\<lambda>tr dev off n. Some (replicate n 0)), b_write = (\<lambda>tr dev. True),
      b_mount = (\<lambda>tr dev dir fs flags opt. 0), b_umount = (\<lambda>tr dir. [(True, False)]),
      b_devsize = (\<lambda>tr dev. Some 1048576), b_uname = Some ''6.1.0'', b_regexec = (\<lambda>ere s. False),
      b_ext2 = (\<lambda>tr dev. None), b_mntopt2string = (\<lambda>w. []), b_unparse = (\<lambda>u. []),
      b_stat = (\<lambda>p. if take 7 p = ''/dev/sd'' then Some \<lparr>st_isblk = True, st_rdev = 2048 + of_nat (length p mod 256), st_dev = 5\<rparr> else None),
      b_mapper = None, b_model = (\<lambda>p. None), b_cache = True, b_blkid = (\<lambda>p. None), b_missing = (\<lambda>tr p. False),
      b_now = (\<lambda>tr. \<lparr>tm_year = 2024, tm_mon = 1, tm_mday = 2, tm_hour = 3, tm_min = 4, tm_sec = 5, tv_usec = 6\<rparr>),
      b_junk = (\<lambda>n. replicate n 0)\<rparr>"

end
