(* ===== verification/Fsext.thy ===== *)
theory Fsext
  imports Fsback
begin

text \<open>fs_ext2.c and fs_ext2.h: the features of ext2, ext3 and ext4, the choice of the features and options with which
  mke2fs and tune2fs recreate a filesystem, what is stored of a filesystem in its header, and the test and the
  mount.\<close>

section \<open>The features of fs_ext2.h\<close>

named_theorems fsext_const \<open>the masks of fs_ext2.h\<close>

definition FSA_EXT2_FEATURE_COMPAT_DIR_PREALLOC :: u32 where
  [fsext_const]: "FSA_EXT2_FEATURE_COMPAT_DIR_PREALLOC = 0x0001"

definition FSA_EXT2_FEATURE_COMPAT_IMAGIC_INODES :: u32 where
  [fsext_const]: "FSA_EXT2_FEATURE_COMPAT_IMAGIC_INODES = 0x0002"

definition FSA_EXT3_FEATURE_COMPAT_HAS_JOURNAL :: u32 where
  [fsext_const]: "FSA_EXT3_FEATURE_COMPAT_HAS_JOURNAL = 0x0004"

definition FSA_EXT2_FEATURE_COMPAT_EXT_ATTR :: u32 where
  [fsext_const]: "FSA_EXT2_FEATURE_COMPAT_EXT_ATTR = 0x0008"

definition FSA_EXT2_FEATURE_COMPAT_RESIZE_INODE :: u32 where
  [fsext_const]: "FSA_EXT2_FEATURE_COMPAT_RESIZE_INODE = 0x0010"

definition FSA_EXT2_FEATURE_COMPAT_DIR_INDEX :: u32 where
  [fsext_const]: "FSA_EXT2_FEATURE_COMPAT_DIR_INDEX = 0x0020"

definition FSA_EXT2_FEATURE_COMPAT_LAZY_BG :: u32 where
  [fsext_const]: "FSA_EXT2_FEATURE_COMPAT_LAZY_BG = 0x0040"

definition FSA_EXT4_FEATURE_COMPAT_SPARSE_SUPER2 :: u32 where
  [fsext_const]: "FSA_EXT4_FEATURE_COMPAT_SPARSE_SUPER2 = 0x0200"

definition FSA_EXT4_FEATURE_COMPAT_FAST_COMMIT :: u32 where
  [fsext_const]: "FSA_EXT4_FEATURE_COMPAT_FAST_COMMIT = 0x0400"

definition FSA_EXT4_FEATURE_COMPAT_STABLE_INODES :: u32 where
  [fsext_const]: "FSA_EXT4_FEATURE_COMPAT_STABLE_INODES = 0x0800"

definition FSA_EXT4_FEATURE_COMPAT_ORPHAN_FILE :: u32 where
  [fsext_const]: "FSA_EXT4_FEATURE_COMPAT_ORPHAN_FILE = 0x1000"

definition FSA_EXT2_FEATURE_RO_COMPAT_SPARSE_SUPER :: u32 where
  [fsext_const]: "FSA_EXT2_FEATURE_RO_COMPAT_SPARSE_SUPER = 0x0001"

definition FSA_EXT2_FEATURE_RO_COMPAT_LARGE_FILE :: u32 where
  [fsext_const]: "FSA_EXT2_FEATURE_RO_COMPAT_LARGE_FILE = 0x0002"

definition FSA_EXT2_FEATURE_RO_COMPAT_BTREE_DIR :: u32 where
  [fsext_const]: "FSA_EXT2_FEATURE_RO_COMPAT_BTREE_DIR = 0x0004"

definition FSA_EXT4_FEATURE_RO_COMPAT_HUGE_FILE :: u32 where
  [fsext_const]: "FSA_EXT4_FEATURE_RO_COMPAT_HUGE_FILE = 0x0008"

definition FSA_EXT4_FEATURE_RO_COMPAT_GDT_CSUM :: u32 where
  [fsext_const]: "FSA_EXT4_FEATURE_RO_COMPAT_GDT_CSUM = 0x0010"

definition FSA_EXT4_FEATURE_RO_COMPAT_DIR_NLINK :: u32 where
  [fsext_const]: "FSA_EXT4_FEATURE_RO_COMPAT_DIR_NLINK = 0x0020"

definition FSA_EXT4_FEATURE_RO_COMPAT_EXTRA_ISIZE :: u32 where
  [fsext_const]: "FSA_EXT4_FEATURE_RO_COMPAT_EXTRA_ISIZE = 0x0040"

definition FSA_EXT4_FEATURE_RO_COMPAT_QUOTA :: u32 where
  [fsext_const]: "FSA_EXT4_FEATURE_RO_COMPAT_QUOTA = 0x0100"

definition FSA_EXT4_FEATURE_RO_COMPAT_BIGALLOC :: u32 where
  [fsext_const]: "FSA_EXT4_FEATURE_RO_COMPAT_BIGALLOC = 0x0200"

definition FSA_EXT4_FEATURE_RO_COMPAT_METADATA_CSUM :: u32 where
  [fsext_const]: "FSA_EXT4_FEATURE_RO_COMPAT_METADATA_CSUM = 0x0400"

definition FSA_EXT4_FEATURE_RO_COMPAT_READONLY :: u32 where
  [fsext_const]: "FSA_EXT4_FEATURE_RO_COMPAT_READONLY = 0x1000"

definition FSA_EXT4_FEATURE_RO_COMPAT_PROJECT :: u32 where
  [fsext_const]: "FSA_EXT4_FEATURE_RO_COMPAT_PROJECT = 0x2000"

definition FSA_EXT4_FEATURE_RO_COMPAT_ORPHAN_PRESENT :: u32 where
  [fsext_const]: "FSA_EXT4_FEATURE_RO_COMPAT_ORPHAN_PRESENT = 0x10000"

definition FSA_EXT2_FEATURE_INCOMPAT_FILETYPE :: u32 where
  [fsext_const]: "FSA_EXT2_FEATURE_INCOMPAT_FILETYPE = 0x0002"

definition FSA_EXT3_FEATURE_INCOMPAT_RECOVER :: u32 where
  [fsext_const]: "FSA_EXT3_FEATURE_INCOMPAT_RECOVER = 0x0004"

definition FSA_EXT3_FEATURE_INCOMPAT_JOURNAL_DEV :: u32 where
  [fsext_const]: "FSA_EXT3_FEATURE_INCOMPAT_JOURNAL_DEV = 0x0008"

definition FSA_EXT2_FEATURE_INCOMPAT_META_BG :: u32 where
  [fsext_const]: "FSA_EXT2_FEATURE_INCOMPAT_META_BG = 0x0010"

definition FSA_EXT4_FEATURE_INCOMPAT_EXTENTS :: u32 where
  [fsext_const]: "FSA_EXT4_FEATURE_INCOMPAT_EXTENTS = 0x0040"

definition FSA_EXT4_FEATURE_INCOMPAT_64BIT :: u32 where
  [fsext_const]: "FSA_EXT4_FEATURE_INCOMPAT_64BIT = 0x0080"

definition FSA_EXT4_FEATURE_INCOMPAT_MMP :: u32 where
  [fsext_const]: "FSA_EXT4_FEATURE_INCOMPAT_MMP = 0x0100"

definition FSA_EXT4_FEATURE_INCOMPAT_FLEX_BG :: u32 where
  [fsext_const]: "FSA_EXT4_FEATURE_INCOMPAT_FLEX_BG = 0x0200"

definition FSA_EXT4_FEATURE_INCOMPAT_EA_INODE :: u32 where
  [fsext_const]: "FSA_EXT4_FEATURE_INCOMPAT_EA_INODE = 0x0400"

definition FSA_EXT4_FEATURE_INCOMPAT_DIRDATA :: u32 where
  [fsext_const]: "FSA_EXT4_FEATURE_INCOMPAT_DIRDATA = 0x1000"

definition FSA_EXT4_FEATURE_INCOMPAT_CSUM_SEED :: u32 where
  [fsext_const]: "FSA_EXT4_FEATURE_INCOMPAT_CSUM_SEED = 0x2000"

definition FSA_EXT4_FEATURE_INCOMPAT_LARGEDIR :: u32 where
  [fsext_const]: "FSA_EXT4_FEATURE_INCOMPAT_LARGEDIR = 0x4000"

definition FSA_EXT4_FEATURE_INCOMPAT_INLINEDATA :: u32 where
  [fsext_const]: "FSA_EXT4_FEATURE_INCOMPAT_INLINEDATA = 0x8000"

definition FSA_EXT4_FEATURE_INCOMPAT_ENCRYPT :: u32 where
  [fsext_const]: "FSA_EXT4_FEATURE_INCOMPAT_ENCRYPT = 0x10000"

definition FSA_EXT4_FEATURE_INCOMPAT_CASEFOLD :: u32 where
  [fsext_const]: "FSA_EXT4_FEATURE_INCOMPAT_CASEFOLD = 0x20000"

definition FSA_EXT2_FEATURE_COMPAT_SUPP :: u32 where
  [fsext_const]: "FSA_EXT2_FEATURE_COMPAT_SUPP = FSA_EXT2_FEATURE_COMPAT_EXT_ATTR"

definition FSA_EXT2_FEATURE_INCOMPAT_SUPP :: u32 where
  [fsext_const]: "FSA_EXT2_FEATURE_INCOMPAT_SUPP = (FSA_EXT2_FEATURE_INCOMPAT_FILETYPE OR FSA_EXT2_FEATURE_INCOMPAT_META_BG)"

definition FSA_EXT2_FEATURE_RO_COMPAT_SUPP :: u32 where
  [fsext_const]: "FSA_EXT2_FEATURE_RO_COMPAT_SUPP = (FSA_EXT2_FEATURE_RO_COMPAT_SPARSE_SUPER OR
     FSA_EXT2_FEATURE_RO_COMPAT_LARGE_FILE OR
     FSA_EXT2_FEATURE_RO_COMPAT_BTREE_DIR)"

definition FSA_EXT2_FEATURE_INCOMPAT_UNSUPPORTED :: u32 where
  [fsext_const]: "FSA_EXT2_FEATURE_INCOMPAT_UNSUPPORTED = NOT FSA_EXT2_FEATURE_INCOMPAT_SUPP"

definition FSA_EXT2_FEATURE_RO_COMPAT_UNSUPPORTED :: u32 where
  [fsext_const]: "FSA_EXT2_FEATURE_RO_COMPAT_UNSUPPORTED = NOT FSA_EXT2_FEATURE_RO_COMPAT_SUPP"

definition FSA_EXT3_FEATURE_COMPAT_SUPP :: u32 where
  [fsext_const]: "FSA_EXT3_FEATURE_COMPAT_SUPP = FSA_EXT2_FEATURE_COMPAT_EXT_ATTR"

definition FSA_EXT3_FEATURE_INCOMPAT_SUPP :: u32 where
  [fsext_const]: "FSA_EXT3_FEATURE_INCOMPAT_SUPP = (FSA_EXT2_FEATURE_INCOMPAT_FILETYPE OR
     FSA_EXT3_FEATURE_INCOMPAT_RECOVER OR
     FSA_EXT2_FEATURE_INCOMPAT_META_BG)"

definition FSA_EXT3_FEATURE_RO_COMPAT_SUPP :: u32 where
  [fsext_const]: "FSA_EXT3_FEATURE_RO_COMPAT_SUPP = (FSA_EXT2_FEATURE_RO_COMPAT_SPARSE_SUPER OR
     FSA_EXT2_FEATURE_RO_COMPAT_LARGE_FILE OR
     FSA_EXT2_FEATURE_RO_COMPAT_BTREE_DIR)"

definition FSA_EXT3_FEATURE_INCOMPAT_UNSUPPORTED :: u32 where
  [fsext_const]: "FSA_EXT3_FEATURE_INCOMPAT_UNSUPPORTED = NOT FSA_EXT3_FEATURE_INCOMPAT_SUPP"

definition FSA_EXT3_FEATURE_RO_COMPAT_UNSUPPORTED :: u32 where
  [fsext_const]: "FSA_EXT3_FEATURE_RO_COMPAT_UNSUPPORTED = NOT FSA_EXT3_FEATURE_RO_COMPAT_SUPP"

definition FSA_FEATURE_COMPAT_SUPP :: u64 where
  [fsext_const]: "FSA_FEATURE_COMPAT_SUPP = ucast (FSA_EXT2_FEATURE_COMPAT_DIR_PREALLOC OR
     FSA_EXT2_FEATURE_COMPAT_IMAGIC_INODES OR
     FSA_EXT3_FEATURE_COMPAT_HAS_JOURNAL OR
     FSA_EXT2_FEATURE_COMPAT_EXT_ATTR OR
     FSA_EXT2_FEATURE_COMPAT_RESIZE_INODE OR
     FSA_EXT2_FEATURE_COMPAT_DIR_INDEX OR
     FSA_EXT2_FEATURE_COMPAT_LAZY_BG OR
     FSA_EXT4_FEATURE_COMPAT_SPARSE_SUPER2 OR
     FSA_EXT4_FEATURE_COMPAT_FAST_COMMIT OR
     FSA_EXT4_FEATURE_COMPAT_ORPHAN_FILE)"

definition FSA_FEATURE_RO_COMPAT_SUPP :: u64 where
  [fsext_const]: "FSA_FEATURE_RO_COMPAT_SUPP = ucast (FSA_EXT2_FEATURE_RO_COMPAT_SPARSE_SUPER OR
     FSA_EXT2_FEATURE_RO_COMPAT_LARGE_FILE OR
     FSA_EXT2_FEATURE_RO_COMPAT_BTREE_DIR OR
     FSA_EXT4_FEATURE_RO_COMPAT_HUGE_FILE OR
     FSA_EXT4_FEATURE_RO_COMPAT_GDT_CSUM OR
     FSA_EXT4_FEATURE_RO_COMPAT_DIR_NLINK OR
     FSA_EXT4_FEATURE_RO_COMPAT_EXTRA_ISIZE OR
     FSA_EXT4_FEATURE_RO_COMPAT_QUOTA OR
     FSA_EXT4_FEATURE_RO_COMPAT_BIGALLOC OR
     FSA_EXT4_FEATURE_RO_COMPAT_METADATA_CSUM OR
     FSA_EXT4_FEATURE_RO_COMPAT_READONLY OR
     FSA_EXT4_FEATURE_RO_COMPAT_PROJECT OR
     FSA_EXT4_FEATURE_RO_COMPAT_ORPHAN_PRESENT)"

definition FSA_FEATURE_INCOMPAT_SUPP :: u64 where
  [fsext_const]: "FSA_FEATURE_INCOMPAT_SUPP = ucast (FSA_EXT2_FEATURE_INCOMPAT_FILETYPE OR
     FSA_EXT3_FEATURE_INCOMPAT_RECOVER OR
     FSA_EXT3_FEATURE_INCOMPAT_JOURNAL_DEV OR
     FSA_EXT2_FEATURE_INCOMPAT_META_BG OR
     FSA_EXT4_FEATURE_INCOMPAT_EXTENTS OR
     FSA_EXT4_FEATURE_INCOMPAT_64BIT OR
     FSA_EXT4_FEATURE_INCOMPAT_MMP OR
     FSA_EXT4_FEATURE_INCOMPAT_FLEX_BG OR
     FSA_EXT4_FEATURE_INCOMPAT_EA_INODE OR
     FSA_EXT4_FEATURE_INCOMPAT_DIRDATA OR
     FSA_EXT4_FEATURE_INCOMPAT_CSUM_SEED OR
     FSA_EXT4_FEATURE_INCOMPAT_LARGEDIR OR
     FSA_EXT4_FEATURE_INCOMPAT_INLINEDATA)"

section \<open>The table of the features that mke2fs knows\<close>

text \<open>The types of filesystems in the order of the enum of fs_ext2.h; the indexes of the three words of features
  are those of e2p.h and the feature bits of the superblock those of ext2fs.h, of which the header of the program has its
  own copies.\<close>

definition EXTFSTYPE_EXT2 :: nat where
  [fsext_const]: "EXTFSTYPE_EXT2 = 0"

definition EXTFSTYPE_EXT3 :: nat where
  [fsext_const]: "EXTFSTYPE_EXT3 = 1"

definition EXTFSTYPE_EXT4 :: nat where
  [fsext_const]: "EXTFSTYPE_EXT4 = 2"

definition E2P_FEATURE_COMPAT :: nat where
  [fsext_const]: "E2P_FEATURE_COMPAT = 0"

definition E2P_FEATURE_INCOMPAT :: nat where
  [fsext_const]: "E2P_FEATURE_INCOMPAT = 1"

definition E2P_FEATURE_RO_INCOMPAT :: nat where
  [fsext_const]: "E2P_FEATURE_RO_INCOMPAT = 2"

definition EXT2_GOOD_OLD_REV :: u64 where
  [fsext_const]: "EXT2_GOOD_OLD_REV = 0"

definition EXT2_DYNAMIC_REV :: u64 where
  [fsext_const]: "EXT2_DYNAMIC_REV = 1"

definition EXT2_GOOD_OLD_INODE_SIZE :: u64 where
  [fsext_const]: "EXT2_GOOD_OLD_INODE_SIZE = 128"

definition EXT3_DEFM_JMODE :: u32 where
  [fsext_const]: "EXT3_DEFM_JMODE = 0x0060"

record s_features =
  fe_name :: string
  fe_mask :: u32
  fe_compat :: nat
  fe_firstfs :: nat
  fe_firste2p :: u64

definition mkfeatures :: "s_features list" where
  "mkfeatures =
     [\<lparr>fe_name = ''has_journal'', fe_mask = FSA_EXT3_FEATURE_COMPAT_HAS_JOURNAL, fe_compat = E2P_FEATURE_COMPAT, fe_firstfs = EXTFSTYPE_EXT3, fe_firste2p = PROGVER 1 39 0\<rparr>,
      \<lparr>fe_name = ''ext_attr'', fe_mask = FSA_EXT2_FEATURE_COMPAT_EXT_ATTR, fe_compat = E2P_FEATURE_COMPAT, fe_firstfs = EXTFSTYPE_EXT2, fe_firste2p = PROGVER 1 40 5\<rparr>,
      \<lparr>fe_name = ''resize_inode'', fe_mask = FSA_EXT2_FEATURE_COMPAT_RESIZE_INODE, fe_compat = E2P_FEATURE_COMPAT, fe_firstfs = EXTFSTYPE_EXT2, fe_firste2p = PROGVER 1 39 0\<rparr>,
      \<lparr>fe_name = ''dir_index'', fe_mask = FSA_EXT2_FEATURE_COMPAT_DIR_INDEX, fe_compat = E2P_FEATURE_COMPAT, fe_firstfs = EXTFSTYPE_EXT2, fe_firste2p = PROGVER 1 33 0\<rparr>,
      \<lparr>fe_name = ''sparse_super2'', fe_mask = FSA_EXT4_FEATURE_COMPAT_SPARSE_SUPER2, fe_compat = E2P_FEATURE_COMPAT, fe_firstfs = EXTFSTYPE_EXT4, fe_firste2p = PROGVER 1 42 10\<rparr>,
      \<lparr>fe_name = ''fast_commit'', fe_mask = FSA_EXT4_FEATURE_COMPAT_FAST_COMMIT, fe_compat = E2P_FEATURE_COMPAT, fe_firstfs = EXTFSTYPE_EXT4, fe_firste2p = PROGVER 1 46 0\<rparr>,
      \<lparr>fe_name = ''orphan_file'', fe_mask = FSA_EXT4_FEATURE_COMPAT_ORPHAN_FILE, fe_compat = E2P_FEATURE_COMPAT, fe_firstfs = EXTFSTYPE_EXT4, fe_firste2p = PROGVER 1 47 0\<rparr>,
      \<lparr>fe_name = ''filetype'', fe_mask = FSA_EXT2_FEATURE_INCOMPAT_FILETYPE, fe_compat = E2P_FEATURE_INCOMPAT, fe_firstfs = EXTFSTYPE_EXT2, fe_firste2p = PROGVER 1 16 0\<rparr>,
      \<lparr>fe_name = ''extent'', fe_mask = FSA_EXT4_FEATURE_INCOMPAT_EXTENTS, fe_compat = E2P_FEATURE_INCOMPAT, fe_firstfs = EXTFSTYPE_EXT4, fe_firste2p = PROGVER 1 41 0\<rparr>,
      \<lparr>fe_name = ''journal_dev'', fe_mask = FSA_EXT3_FEATURE_INCOMPAT_JOURNAL_DEV, fe_compat = E2P_FEATURE_INCOMPAT, fe_firstfs = EXTFSTYPE_EXT3, fe_firste2p = PROGVER 1 39 0\<rparr>,
      \<lparr>fe_name = ''flex_bg'', fe_mask = FSA_EXT4_FEATURE_INCOMPAT_FLEX_BG, fe_compat = E2P_FEATURE_INCOMPAT, fe_firstfs = EXTFSTYPE_EXT4, fe_firste2p = PROGVER 1 41 0\<rparr>,
      \<lparr>fe_name = ''meta_bg'', fe_mask = FSA_EXT2_FEATURE_INCOMPAT_META_BG, fe_compat = E2P_FEATURE_INCOMPAT, fe_firstfs = EXTFSTYPE_EXT2, fe_firste2p = PROGVER 1 39 0\<rparr>,
      \<lparr>fe_name = ''mmp'', fe_mask = FSA_EXT4_FEATURE_INCOMPAT_MMP, fe_compat = E2P_FEATURE_INCOMPAT, fe_firstfs = EXTFSTYPE_EXT4, fe_firste2p = PROGVER 1 42 0\<rparr>,
      \<lparr>fe_name = ''64bit'', fe_mask = FSA_EXT4_FEATURE_INCOMPAT_64BIT, fe_compat = E2P_FEATURE_INCOMPAT, fe_firstfs = EXTFSTYPE_EXT4, fe_firste2p = PROGVER 1 42 0\<rparr>,
      \<lparr>fe_name = ''inline_data'', fe_mask = FSA_EXT4_FEATURE_INCOMPAT_INLINEDATA, fe_compat = E2P_FEATURE_INCOMPAT, fe_firstfs = EXTFSTYPE_EXT4, fe_firste2p = PROGVER 1 43 0\<rparr>,
      \<lparr>fe_name = ''ea_inode'', fe_mask = FSA_EXT4_FEATURE_INCOMPAT_EA_INODE, fe_compat = E2P_FEATURE_INCOMPAT, fe_firstfs = EXTFSTYPE_EXT4, fe_firste2p = PROGVER 1 44 0\<rparr>,
      \<lparr>fe_name = ''large_dir'', fe_mask = FSA_EXT4_FEATURE_INCOMPAT_LARGEDIR, fe_compat = E2P_FEATURE_INCOMPAT, fe_firstfs = EXTFSTYPE_EXT4, fe_firste2p = PROGVER 1 44 0\<rparr>,
      \<lparr>fe_name = ''large_file'', fe_mask = FSA_EXT2_FEATURE_RO_COMPAT_LARGE_FILE, fe_compat = E2P_FEATURE_RO_INCOMPAT, fe_firstfs = EXTFSTYPE_EXT2, fe_firste2p = PROGVER 1 40 7\<rparr>,
      \<lparr>fe_name = ''huge_file'', fe_mask = FSA_EXT4_FEATURE_RO_COMPAT_HUGE_FILE, fe_compat = E2P_FEATURE_RO_INCOMPAT, fe_firstfs = EXTFSTYPE_EXT4, fe_firste2p = PROGVER 1 41 0\<rparr>,
      \<lparr>fe_name = ''sparse_super'', fe_mask = FSA_EXT2_FEATURE_RO_COMPAT_SPARSE_SUPER, fe_compat = E2P_FEATURE_RO_INCOMPAT, fe_firstfs = EXTFSTYPE_EXT2, fe_firste2p = PROGVER 1 8 0\<rparr>,
      \<lparr>fe_name = ''uninit_bg'', fe_mask = FSA_EXT4_FEATURE_RO_COMPAT_GDT_CSUM, fe_compat = E2P_FEATURE_RO_INCOMPAT, fe_firstfs = EXTFSTYPE_EXT4, fe_firste2p = PROGVER 1 41 0\<rparr>,
      \<lparr>fe_name = ''dir_nlink'', fe_mask = FSA_EXT4_FEATURE_RO_COMPAT_DIR_NLINK, fe_compat = E2P_FEATURE_RO_INCOMPAT, fe_firstfs = EXTFSTYPE_EXT4, fe_firste2p = PROGVER 1 41 0\<rparr>,
      \<lparr>fe_name = ''extra_isize'', fe_mask = FSA_EXT4_FEATURE_RO_COMPAT_EXTRA_ISIZE, fe_compat = E2P_FEATURE_RO_INCOMPAT, fe_firstfs = EXTFSTYPE_EXT4, fe_firste2p = PROGVER 1 41 0\<rparr>,
      \<lparr>fe_name = ''bigalloc'', fe_mask = FSA_EXT4_FEATURE_RO_COMPAT_BIGALLOC, fe_compat = E2P_FEATURE_RO_INCOMPAT, fe_firstfs = EXTFSTYPE_EXT4, fe_firste2p = PROGVER 1 42 0\<rparr>,
      \<lparr>fe_name = ''metadata_csum'', fe_mask = FSA_EXT4_FEATURE_RO_COMPAT_METADATA_CSUM, fe_compat = E2P_FEATURE_RO_INCOMPAT, fe_firstfs = EXTFSTYPE_EXT4, fe_firste2p = PROGVER 1 43 0\<rparr>,
      \<lparr>fe_name = ''project'', fe_mask = FSA_EXT4_FEATURE_RO_COMPAT_PROJECT, fe_compat = E2P_FEATURE_RO_INCOMPAT, fe_firstfs = EXTFSTYPE_EXT4, fe_firste2p = PROGVER 1 43 0\<rparr>]"

definition e2fsprogs_minver :: "u64 list" where
  "e2fsprogs_minver = [PROGVER 1 39 0, PROGVER 1 39 0, PROGVER 1 41 0]"

definition format_fstype :: "nat \<Rightarrow> string" where
  "format_fstype fstype =
     (if fstype = EXTFSTYPE_EXT2 then ''ext2'' else if fstype = EXTFSTYPE_EXT3 then ''ext3''
      else if fstype = EXTFSTYPE_EXT4 then ''ext4'' else ''invalid'')"

section \<open>The type of a filesystem and the features that are supported\<close>

definition extfs_get_fstype_from_compat_flags :: "u32 \<Rightarrow> u32 \<Rightarrow> u32 \<Rightarrow> nat" where
  "extfs_get_fstype_from_compat_flags fcompat incompat ro_compat =
     (let fstype = EXTFSTYPE_EXT2;
          fstype = (if fcompat AND FSA_EXT3_FEATURE_COMPAT_HAS_JOURNAL \<noteq> 0 then EXTFSTYPE_EXT3 else fstype);
          fstype = (if ro_compat AND FSA_EXT2_FEATURE_RO_COMPAT_UNSUPPORTED \<noteq> 0 \<or>
                       incompat AND FSA_EXT2_FEATURE_INCOMPAT_UNSUPPORTED \<noteq> 0 then EXTFSTYPE_EXT3 else fstype)
      in if ro_compat AND FSA_EXT3_FEATURE_RO_COMPAT_UNSUPPORTED \<noteq> 0 \<or>
            incompat AND FSA_EXT3_FEATURE_INCOMPAT_UNSUPPORTED \<noteq> 0 then EXTFSTYPE_EXT4 else fstype)"

definition extfs_check_compatibility :: "u64 \<Rightarrow> u64 \<Rightarrow> u64 \<Rightarrow> int" where
  "extfs_check_compatibility fcompat incompat ro_compat =
     (if fcompat AND NOT FSA_FEATURE_COMPAT_SUPP \<noteq> 0 then -1
      else if incompat AND NOT FSA_FEATURE_INCOMPAT_SUPP \<noteq> 0 then -1
      else if ro_compat AND NOT FSA_FEATURE_RO_COMPAT_SUPP \<noteq> 0 then -1
      else 0)"

section \<open>Choosing the features\<close>

text \<open>The three words of features (features_tab); a mask of the table is an int that is extended with its sign.\<close>

type_synonym features_tab = "u64 list"

definition default_features :: features_tab where
  "default_features =
     [ucast (FSA_EXT2_FEATURE_COMPAT_RESIZE_INODE OR FSA_EXT2_FEATURE_COMPAT_DIR_INDEX OR FSA_EXT2_FEATURE_COMPAT_EXT_ATTR),
      ucast FSA_EXT2_FEATURE_INCOMPAT_FILETYPE, ucast FSA_EXT2_FEATURE_RO_COMPAT_SPARSE_SUPER]"

definition original_features :: "benv \<Rightarrow> cdico \<Rightarrow> u64 \<Rightarrow> features_tab" where
  "original_features env d fsextrevision =
     (case (head_u64 env d FSYSHEADKEY_FSEXTFEATURECOMPAT, head_u64 env d FSYSHEADKEY_FSEXTFEATUREINCOMPAT,
            head_u64 env d FSYSHEADKEY_FSEXTFEATUREROCOMPAT) of
        (Some fcompat, Some incompat, Some ro_compat) \<Rightarrow>
          if fsextrevision = EXT2_GOOD_OLD_REV then default_features else [fcompat, incompat, ro_compat]
      | _ \<Rightarrow> default_features)"

definition set_feature :: "features_tab \<Rightarrow> nat \<Rightarrow> u64 \<Rightarrow> features_tab" where
  "set_feature tab k m = tab[k := tab ! k OR m]"

definition clear_feature :: "features_tab \<Rightarrow> nat \<Rightarrow> u64 \<Rightarrow> features_tab" where
  "clear_feature tab k m = tab[k := tab ! k AND NOT m]"

text \<open>Features that the filesystem to create does not support are removed.\<close>

fun downgrade_features :: "s_features list \<Rightarrow> nat \<Rightarrow> features_tab \<Rightarrow> features_tab" where
  "downgrade_features [] extfstype tab = tab"
| "downgrade_features (f # fs) extfstype tab =
     downgrade_features fs extfstype
       (if fe_firstfs f > extfstype then clear_feature tab (fe_compat f) (scast (fe_mask f)) else tab)"

text \<open>Features that make the filesystem one of the type to create are added when the original was of an older type;
  then the revision is the dynamic one, and for ext4 the inodes have 256 bytes.\<close>

definition upgrade_features ::
    "nat \<Rightarrow> nat \<Rightarrow> features_tab \<times> u64 \<times> u64 \<Rightarrow> features_tab \<times> u64 \<times> u64" where
  "upgrade_features origextfstype extfstype x =
     (let (tab, fsextrevision, devisize) = x;
          (tab, fsextrevision) =
            (if origextfstype = EXTFSTYPE_EXT2 \<and> extfstype > EXTFSTYPE_EXT2
             then (set_feature tab E2P_FEATURE_COMPAT (ucast FSA_EXT3_FEATURE_COMPAT_HAS_JOURNAL), EXT2_DYNAMIC_REV)
             else (tab, fsextrevision))
      in if origextfstype < EXTFSTYPE_EXT4 \<and> extfstype \<ge> EXTFSTYPE_EXT4
         then (set_feature
                 (set_feature tab E2P_FEATURE_INCOMPAT
                    (ucast (FSA_EXT4_FEATURE_INCOMPAT_EXTENTS OR FSA_EXT4_FEATURE_INCOMPAT_FLEX_BG)))
                 E2P_FEATURE_RO_INCOMPAT
                 (ucast (FSA_EXT4_FEATURE_RO_COMPAT_DIR_NLINK OR FSA_EXT4_FEATURE_RO_COMPAT_EXTRA_ISIZE OR
                    FSA_EXT4_FEATURE_RO_COMPAT_GDT_CSUM OR FSA_EXT4_FEATURE_RO_COMPAT_HUGE_FILE)),
               EXT2_DYNAMIC_REV, 256)
         else (tab, fsextrevision, devisize))"

text \<open>On a device of at least \<open>2 ^ 32\<close> blocks.\<close>

definition large_device_features :: "features_tab \<Rightarrow> features_tab" where
  "large_device_features tab =
     set_feature
       (clear_feature (set_feature tab E2P_FEATURE_INCOMPAT (ucast FSA_EXT4_FEATURE_INCOMPAT_64BIT))
          E2P_FEATURE_COMPAT (ucast FSA_EXT2_FEATURE_COMPAT_RESIZE_INODE))
       E2P_FEATURE_RO_INCOMPAT (ucast FSA_EXT4_FEATURE_RO_COMPAT_GDT_CSUM)"

text \<open>The list for mke2fs: every feature that its version knows, with a circumflex when it is to be off.\<close>

fun feature_strings :: "malloc \<Rightarrow> s_features list \<Rightarrow> u64 \<Rightarrow> features_tab \<Rightarrow> cstrlist \<Rightarrow> cstrlist" where
  "feature_strings mem [] e2fstoolsver tab strfeatures = strfeatures"
| "feature_strings mem (f # fs) e2fstoolsver tab strfeatures =
     feature_strings mem fs e2fstoolsver tab
       (if fe_firste2p f \<le> e2fstoolsver then
          snd (strlist_add mem strfeatures
            (if tab ! fe_compat f AND scast (fe_mask f) \<noteq> 0 then fe_name f else snprintf_s 1024 (''^'' @ fe_name f)))
        else strfeatures)"

section \<open>Making a filesystem\<close>

text \<open>All that is decided of the features: the words of features, the revision and the size of the inodes. None is an
  error: features that are not supported, or a large device with an old filesystem or an old mke2fs.\<close>

definition choose_features ::
    "nat \<Rightarrow> u64 \<Rightarrow> bool \<Rightarrow> features_tab \<times> u64 \<times> u64 \<Rightarrow> (features_tab \<times> u64 \<times> u64) option" where
  "choose_features extfstype e2fstoolsver large x =
     (let (tab, fsextrevision, devisize) = x;
          origextfstype = extfs_get_fstype_from_compat_flags (ucast (tab ! E2P_FEATURE_COMPAT))
            (ucast (tab ! E2P_FEATURE_INCOMPAT)) (ucast (tab ! E2P_FEATURE_RO_INCOMPAT));
          (tab, fsextrevision, devisize) =
            upgrade_features origextfstype extfstype (downgrade_features mkfeatures extfstype tab, fsextrevision, devisize)
      in if large \<and> (extfstype < EXTFSTYPE_EXT4 \<or> e2fstoolsver < PROGVER 1 42 0) then None
         else Some (if large then large_device_features tab else tab, fsextrevision, devisize))"

text \<open>The options of mke2fs from the inode size on; the list of features is cut to its buffer.\<close>

definition mke2fs_feature_options ::
    "malloc \<Rightarrow> u64 \<Rightarrow> features_tab \<times> u64 \<times> u64 \<Rightarrow> string \<Rightarrow> string" where
  "mke2fs_feature_options mem e2fstoolsver x options =
     (let (tab, fsextrevision, devisize) = x;
          strfeatures = feature_strings mem mkfeatures e2fstoolsver tab [];
          options = strlcatf 2048 options ('' -I '' @ show_long devisize @ '' '');
          revision = show_long (scast (ucast fsextrevision :: u32));
          options = strlcatf 2048 options
            (if e2fstoolsver < PROGVER 1 47 2 then '' -r '' @ revision @ '' '' else '' -E revision='' @ revision @ '' '')
      in if fsextrevision \<noteq> EXT2_GOOD_OLD_REV \<and> strlist_count strfeatures > 0
         then strlcatf 2048 options ('' -O '' @ the (strlist_merge strfeatures 1024 (CHR '','')) @ '' '')
         else options)"

definition mke2fs_extended_options :: "benv \<Rightarrow> cdico \<Rightarrow> u64 \<Rightarrow> string \<Rightarrow> string" where
  "mke2fs_extended_options env d e2fstoolsver options =
     (let options = (case head_u64 env d FSYSHEADKEY_FSEXTEOPTRAIDSTRIDE of
            Some v \<Rightarrow> strlcatf 2048 options ('' -E stride='' @ show_long v @ '' '')
          | None \<Rightarrow> options)
      in case head_u64 env d FSYSHEADKEY_FSEXTEOPTRAIDSTRIPEWIDTH of
           Some v \<Rightarrow> if e2fstoolsver \<ge> PROGVER 1 40 7
                     then strlcatf 2048 options ('' -E stripe-width='' @ show_long v @ '' '') else options
         | None \<Rightarrow> options)"

text \<open>The options of tune2fs, which is run when there are any.\<close>

definition tune2fs_options :: "benv \<Rightarrow> cdico \<Rightarrow> bool \<Rightarrow> string \<Rightarrow> string option" where
  "tune2fs_options env d mke2fsuuid uuid =
     (let options = (if \<not> mke2fsuuid \<and> length uuid = 36 then strlcatf 2048 [] ('' -U '' @ uuid @ '' '') else [])
      in map_option (\<lambda>s.
           let options = (case s of
                  Some buffer \<Rightarrow> if length buffer > 0 then strlcatf 2048 options ('' -o '' @ buffer @ '' '') else options
                | None \<Rightarrow> options);
               options = (case head_u64 env d FSYSHEADKEY_FSEXTFSCKMAXMNTCOUNT of
                  Some v \<Rightarrow> strlcatf 2048 options ('' -c '' @ show_long v @ '' '')
                | None \<Rightarrow> options)
           in case head_u64 env d FSYSHEADKEY_FSEXTFSCKCHECKINTERVAL of
                Some v \<Rightarrow> strlcatf 2048 options ('' -i '' @ show_long (v div 86400) @ ''d '')
              | None \<Rightarrow> options)
           (head_string d FSYSHEADKEY_FSEXTDEFMNTOPT 2048))"

definition run_tune2fs ::
    "benv \<Rightarrow> bcall list \<Rightarrow> string \<Rightarrow> nat \<Rightarrow> bool \<Rightarrow> string \<Rightarrow> (int \<times> bcall list) option" where
  "run_tune2fs env tr part extfstype mke2fsuuid options =
     (if options = [] then Some (0, tr)
      else do {
        (ran, exitst, tr) \<leftarrow> run_command env tr (''tune2fs '' @ options @ '' '' @ part);
        if \<not> ran \<or> exitst \<noteq> 0 then Some (-1, tr)
        else if extfstype = EXTFSTYPE_EXT4 \<and> \<not> mke2fsuuid then do {
          (ran, exitst, tr) \<leftarrow> run_command env tr (''e2fsck -fy '' @ part);
          Some (if \<not> ran \<or> exitst \<noteq> 0 \<and> exitst \<noteq> 1 then -1 else 0, tr)
        }
        else Some (0, tr)
      })"

text \<open>mke2fs and then tune2fs. A block size of zero in the header is a division by zero.\<close>

definition extfs_mkfs ::
    "benv \<Rightarrow> bcall list \<Rightarrow> cdico \<Rightarrow> string \<Rightarrow> nat \<Rightarrow> string \<Rightarrow> string \<Rightarrow> string \<Rightarrow> (int \<times> bcall list) option" where
  "extfs_mkfs env tr d part extfstype fsoptions mkfslabel mkfsuuid =
     do {
       (found, _, tr) \<leftarrow> run_command env tr ''mke2fs -V'';
       if \<not> found then Some (-1, tr)
       else do {
         (e2fstoolsver, tr) \<leftarrow> check_prog_version env tr ''mke2fs'';
         let devblksize = head_u64_or env d FSYSHEADKEY_FSEXTBLOCKSIZE 4096;
         let devisize = head_u64_or env d FSYSHEADKEY_FSINODESIZE 256;
         let fsextrevision = head_u64_or env d FSYSHEADKEY_FSEXTREVISION EXT2_DYNAMIC_REV;
         options \<leftarrow> mkfs_label '' -L '' (take 16) mkfslabel d
                      (strlcatf 2048 '' -q  -F '' ('' -b '' @ show_long devblksize @ '' ''));
         uuid \<leftarrow> choose_uuid d mkfsuuid;
         let mke2fsuuid = (e2fstoolsver \<ge> PROGVER 1 41 4 \<and> length uuid = 36);
         let options = (if mke2fsuuid then strlcatf 2048 options ('' -U '' @ uuid @ '' '') else options);
         let tab = original_features env d fsextrevision;
         let devsize = get_device_size env tr part;
         let devblkcount = sint (word_of_int devsize div devblksize);
         if extfs_check_compatibility (tab ! E2P_FEATURE_COMPAT) (tab ! E2P_FEATURE_INCOMPAT)
              (tab ! E2P_FEATURE_RO_INCOMPAT) \<noteq> 0 then Some (-1, tr)
         else if devsize < 0 then Some (-1, tr)
         else if devblksize = 0 then None
         else
           (case choose_features extfstype e2fstoolsver (devblkcount \<ge> 2 ^ 32) (tab, fsextrevision, devisize) of
              None \<Rightarrow> Some (-1, tr)
            | Some features \<Rightarrow>
                if e2fstoolsver < e2fsprogs_minver ! extfstype then Some (-1, tr)
                else do {
                  let options = mke2fs_feature_options (b_mem env) e2fstoolsver features options;
                  let options = mke2fs_extended_options env d e2fstoolsver options;
                  let options = strlcatf 2048 options ('' '' @ fsoptions @ '' '');
                  (ran, exitst, tr) \<leftarrow> run_command env tr (''mke2fs '' @ options @ '' '' @ part);
                  if \<not> ran \<or> exitst \<noteq> 0 then Some (-1, tr)
                  else do {
                    options \<leftarrow> tune2fs_options env d mke2fsuuid uuid;
                    run_tune2fs env tr part extfstype mke2fsuuid options
                  }
                })
       }
     }"

definition ext2_mkfs ::
    "benv \<Rightarrow> bcall list \<Rightarrow> cdico \<Rightarrow> string \<Rightarrow> string \<Rightarrow> string \<Rightarrow> string \<Rightarrow> (int \<times> bcall list) option" where
  "ext2_mkfs env tr d part fsoptions mkfslabel mkfsuuid =
     extfs_mkfs env tr d part EXTFSTYPE_EXT2 fsoptions mkfslabel mkfsuuid"

definition ext3_mkfs ::
    "benv \<Rightarrow> bcall list \<Rightarrow> cdico \<Rightarrow> string \<Rightarrow> string \<Rightarrow> string \<Rightarrow> string \<Rightarrow> (int \<times> bcall list) option" where
  "ext3_mkfs env tr d part fsoptions mkfslabel mkfsuuid =
     extfs_mkfs env tr d part EXTFSTYPE_EXT3 fsoptions mkfslabel mkfsuuid"

definition ext4_mkfs ::
    "benv \<Rightarrow> bcall list \<Rightarrow> cdico \<Rightarrow> string \<Rightarrow> string \<Rightarrow> string \<Rightarrow> string \<Rightarrow> (int \<times> bcall list) option" where
  "ext4_mkfs env tr d part fsoptions mkfslabel mkfsuuid =
     extfs_mkfs env tr d part EXTFSTYPE_EXT4 fsoptions mkfslabel mkfsuuid"

section \<open>What is stored of a filesystem\<close>

text \<open>The names of the default mount options, with a comma between them.\<close>

fun mntopt_loop :: "benv \<Rightarrow> u32 \<Rightarrow> nat \<Rightarrow> nat \<Rightarrow> string \<Rightarrow> string" where
  "mntopt_loop env optmask 0 count mntopt = mntopt"
| "mntopt_loop env optmask (Suc n) count mntopt =
     (let m = push_bit (31 - n) (1 :: u32)
      in if m AND EXT3_DEFM_JMODE \<noteq> 0 then mntopt_loop env optmask n count mntopt
         else if optmask AND m \<noteq> 0 then
           mntopt_loop env optmask n (count + 1)
             (strlcatf 1024 (if count \<noteq> 0 then strlcatf 1024 mntopt '','' else mntopt) (b_mntopt2string env m))
         else mntopt_loop env optmask n count mntopt)"

definition default_mntopt :: "benv \<Rightarrow> u32 \<Rightarrow> string" where
  "default_mntopt env optmask =
     (if optmask AND EXT3_DEFM_JMODE \<noteq> 0
      then mntopt_loop env optmask 32 1 (strlcatf 1024 [] (b_mntopt2string env (optmask AND EXT3_DEFM_JMODE)))
      else mntopt_loop env optmask 32 0 [])"

definition extfs_getinfo :: "benv \<Rightarrow> bcall list \<Rightarrow> cdico \<Rightarrow> string \<Rightarrow> int \<times> cdico" where
  "extfs_getinfo env tr d devname =
     (case b_ext2 env tr devname of
        None \<Rightarrow> (-1, d)
      | Some super \<Rightarrow>
          (let mem = b_mem env;
               d = dico_steps
                 ([\<lambda>d. dico_add_string mem d 0 FSYSHEADKEY_FSLABEL (cstr (take 16 (s_volume_name super))),
                   \<lambda>d. dico_add_string mem d 0 FSYSHEADKEY_FSUUID (b_unparse env (s_uuid super)),
                   \<lambda>d. dico_add_u64 mem d 0 FSYSHEADKEY_FSEXTBLOCKSIZE
                         (ucast (push_bit (unat (s_log_block_size super)) (1024 :: u32))),
                   \<lambda>d. dico_add_u64 mem d 0 FSYSHEADKEY_FSEXTREVISION (ucast (s_rev_level super)),
                   \<lambda>d. dico_add_u64 mem d 0 FSYSHEADKEY_FSINODESIZE
                         (if ucast (s_rev_level super) \<ge> EXT2_DYNAMIC_REV then ucast (s_inode_size super)
                          else EXT2_GOOD_OLD_INODE_SIZE)] @
                  (if s_raid_stride super > 0
                   then [\<lambda>d. dico_add_u64 mem d 0 FSYSHEADKEY_FSEXTEOPTRAIDSTRIDE (ucast (s_raid_stride super))] else []) @
                  (if s_raid_stripe_width super > 0
                   then [\<lambda>d. dico_add_u64 mem d 0 FSYSHEADKEY_FSEXTEOPTRAIDSTRIPEWIDTH (ucast (s_raid_stripe_width super))]
                   else []) @
                  [\<lambda>d. dico_add_u64 mem d 0 FSYSHEADKEY_FSEXTFSCKMAXMNTCOUNT (of_int (max (sint (s_max_mnt_count super)) 0)),
                   \<lambda>d. dico_add_u64 mem d 0 FSYSHEADKEY_FSEXTFSCKCHECKINTERVAL (ucast (s_checkinterval super)),
                   \<lambda>d. dico_add_string mem d 0 FSYSHEADKEY_FSEXTDEFMNTOPT (default_mntopt env (s_default_mount_opts super)),
                   \<lambda>d. dico_add_u64 mem d 0 FSYSHEADKEY_FSEXTFEATURECOMPAT (ucast (s_feature_compat super)),
                   \<lambda>d. dico_add_u64 mem d 0 FSYSHEADKEY_FSEXTFEATUREINCOMPAT (ucast (s_feature_incompat super)),
                   \<lambda>d. dico_add_u64 mem d 0 FSYSHEADKEY_FSEXTFEATUREROCOMPAT (ucast (s_feature_ro_compat super))]) d
           in if extfs_check_compatibility (ucast (s_feature_compat super)) (ucast (s_feature_incompat super))
                   (ucast (s_feature_ro_compat super)) \<noteq> 0 then (-1, d)
              else (0, snd (dico_add_u64 mem d 0 FSYSHEADKEY_MINFSAVERSION (FSA_VERSION_BUILD 0 6 4 0)))))"

section \<open>Mounting and testing\<close>

definition super_fstype :: "fsa_ext2_sb \<Rightarrow> nat" where
  "super_fstype super =
     extfs_get_fstype_from_compat_flags (s_feature_compat super) (s_feature_incompat super) (s_feature_ro_compat super)"

definition extfs_mount ::
    "benv \<Rightarrow> bcall list \<Rightarrow> string \<Rightarrow> string \<Rightarrow> string \<Rightarrow> u32 \<Rightarrow> int \<times> bcall list" where
  "extfs_mount env tr part mntbuf fsbuf flags =
     (case b_ext2 env tr part of
        None \<Rightarrow> (-1, tr)
      | Some super \<Rightarrow>
          if snprintf_s 32 (format_fstype (super_fstype super)) \<noteq> fsbuf then (-1, tr)
          else back_mount env tr part mntbuf fsbuf (Some ''user_xattr,acl'') flags)"

definition extfs_umount :: "benv \<Rightarrow> bcall list \<Rightarrow> string \<Rightarrow> int \<times> bcall list" where
  "extfs_umount env tr mntbuf = back_umount env tr mntbuf"

definition extfs_test :: "benv \<Rightarrow> bcall list \<Rightarrow> string \<Rightarrow> nat \<Rightarrow> bool" where
  "extfs_test env tr part extfstype =
     (case b_ext2 env tr part of None \<Rightarrow> False | Some super \<Rightarrow> super_fstype super = extfstype)"

definition ext2_test :: "benv \<Rightarrow> bcall list \<Rightarrow> string \<Rightarrow> bool" where
  "ext2_test env tr part = extfs_test env tr part EXTFSTYPE_EXT2"

definition ext3_test :: "benv \<Rightarrow> bcall list \<Rightarrow> string \<Rightarrow> bool" where
  "ext3_test env tr part = extfs_test env tr part EXTFSTYPE_EXT3"

definition ext4_test :: "benv \<Rightarrow> bcall list \<Rightarrow> string \<Rightarrow> bool" where
  "ext4_test env tr part = extfs_test env tr part EXTFSTYPE_EXT4"

text \<open>Mount options that a filesystem needs and that it must not have.\<close>

definition extfs_get_reqmntopt :: "malloc \<Rightarrow> cstrlist \<Rightarrow> cstrlist \<Rightarrow> int \<times> cstrlist \<times> cstrlist" where
  "extfs_get_reqmntopt mem reqopt badopt =
     (0, reqopt, snd (strlist_add mem (snd (strlist_add mem badopt ''nouser_xattr'')) ''noacl''))"

end
