(* ===== verification/Fsxfs.thy ===== *)
theory Fsxfs
  imports Fsback
begin

text \<open>fs_xfs.c and fs_xfs.h: the features of XFS, the options of mkfs.xfs and xfs_admin, what is stored of a
  filesystem in its header, and the test and the mount. The superblock is the list of the bytes of struct xfs_sb; its
  fields are taken at their offsets.\<close>

section \<open>The features of fs_xfs.h\<close>

named_theorems fsxfs_const \<open>the masks of fs_xfs.h\<close>

definition XFS_SB_MAGIC :: u32 where
  [fsxfs_const]: "XFS_SB_MAGIC = 0x58465342"

definition XFS_SB_VERSION_4 :: u64 where
  [fsxfs_const]: "XFS_SB_VERSION_4 = 4"

definition XFS_SB_VERSION_5 :: u64 where
  [fsxfs_const]: "XFS_SB_VERSION_5 = 5"

definition XFS_SB_VERSION_NUMBITS :: u64 where
  [fsxfs_const]: "XFS_SB_VERSION_NUMBITS = 0x000f"

definition XFS_SB_FEAT_RO_COMPAT_FINOBT :: u64 where
  [fsxfs_const]: "XFS_SB_FEAT_RO_COMPAT_FINOBT = 1"

definition XFS_SB_FEAT_RO_COMPAT_RMAPBT :: u64 where
  [fsxfs_const]: "XFS_SB_FEAT_RO_COMPAT_RMAPBT = 2"

definition XFS_SB_FEAT_RO_COMPAT_REFLINK :: u64 where
  [fsxfs_const]: "XFS_SB_FEAT_RO_COMPAT_REFLINK = 4"

definition XFS_SB_FEAT_RO_COMPAT_INOBTCNT :: u64 where
  [fsxfs_const]: "XFS_SB_FEAT_RO_COMPAT_INOBTCNT = 8"

definition XFS_SB_FEAT_INCOMPAT_FTYPE :: u64 where
  [fsxfs_const]: "XFS_SB_FEAT_INCOMPAT_FTYPE = 1"

definition XFS_SB_FEAT_INCOMPAT_SPINODES :: u64 where
  [fsxfs_const]: "XFS_SB_FEAT_INCOMPAT_SPINODES = 2"

definition XFS_SB_FEAT_INCOMPAT_META_UUID :: u64 where
  [fsxfs_const]: "XFS_SB_FEAT_INCOMPAT_META_UUID = 4"

definition XFS_SB_FEAT_INCOMPAT_BIGTIME :: u64 where
  [fsxfs_const]: "XFS_SB_FEAT_INCOMPAT_BIGTIME = 8"

definition XFS_SB_FEAT_INCOMPAT_NEEDSREPAIR :: u64 where
  [fsxfs_const]: "XFS_SB_FEAT_INCOMPAT_NEEDSREPAIR = 16"

definition XFS_SB_FEAT_INCOMPAT_NREXT64 :: u64 where
  [fsxfs_const]: "XFS_SB_FEAT_INCOMPAT_NREXT64 = 32"

definition XFS_SB_FEAT_INCOMPAT_EXCHRANGE :: u64 where
  [fsxfs_const]: "XFS_SB_FEAT_INCOMPAT_EXCHRANGE = 64"

definition XFS_SB_FEAT_INCOMPAT_PARENT :: u64 where
  [fsxfs_const]: "XFS_SB_FEAT_INCOMPAT_PARENT = 128"

definition XFS_SB_FEAT_INCOMPAT_METADIR :: u64 where
  [fsxfs_const]: "XFS_SB_FEAT_INCOMPAT_METADIR = 256"

definition XFS_SB_FEAT_INCOMPAT_ZONED :: u64 where
  [fsxfs_const]: "XFS_SB_FEAT_INCOMPAT_ZONED = 512"

definition XFS_SB_FEAT_INCOMPAT_ZONE_GAPS :: u64 where
  [fsxfs_const]: "XFS_SB_FEAT_INCOMPAT_ZONE_GAPS = 1024"

definition FSA_XFS_FEATURE_COMPAT_SUPP :: u64 where
  [fsxfs_const]: "FSA_XFS_FEATURE_COMPAT_SUPP = 0"

definition FSA_XFS_FEATURE_RO_COMPAT_SUPP :: u64 where
  [fsxfs_const]: "FSA_XFS_FEATURE_RO_COMPAT_SUPP = (XFS_SB_FEAT_RO_COMPAT_FINOBT OR
     XFS_SB_FEAT_RO_COMPAT_RMAPBT OR
     XFS_SB_FEAT_RO_COMPAT_REFLINK OR
     XFS_SB_FEAT_RO_COMPAT_INOBTCNT)"

definition FSA_XFS_FEATURE_INCOMPAT_SUPP :: u64 where
  [fsxfs_const]: "FSA_XFS_FEATURE_INCOMPAT_SUPP = (XFS_SB_FEAT_INCOMPAT_FTYPE OR
     XFS_SB_FEAT_INCOMPAT_SPINODES OR
     XFS_SB_FEAT_INCOMPAT_META_UUID OR
     XFS_SB_FEAT_INCOMPAT_BIGTIME OR
     XFS_SB_FEAT_INCOMPAT_NEEDSREPAIR OR
     XFS_SB_FEAT_INCOMPAT_NREXT64 OR
     XFS_SB_FEAT_INCOMPAT_EXCHRANGE OR
     XFS_SB_FEAT_INCOMPAT_PARENT OR
     XFS_SB_FEAT_INCOMPAT_METADIR OR
     XFS_SB_FEAT_INCOMPAT_ZONED OR
     XFS_SB_FEAT_INCOMPAT_ZONE_GAPS)"

definition FSA_XFS_FEATURE_LOG_INCOMPAT_SUPP :: u64 where
  [fsxfs_const]: "FSA_XFS_FEATURE_LOG_INCOMPAT_SUPP = 0"

text \<open>The release of the kernels of RHEL 7, as a pattern.\<close>

definition RHEL7_KERNEL_ERE :: string where
  "RHEL7_KERNEL_ERE = ''[[:digit:]]+'' @ [CHR 0x5C] @ ''.el7(uek)?'' @ [CHR 0x5C] @ ''.''"

definition sizeof_xfs_sb :: nat where
  "sizeof_xfs_sb = 264"

definition xfs_check_compatibility :: "u64 \<Rightarrow> u64 \<Rightarrow> u64 \<Rightarrow> u64 \<Rightarrow> int" where
  "xfs_check_compatibility fcompat ro_compat incompat log_incompat =
     (if fcompat AND NOT FSA_XFS_FEATURE_COMPAT_SUPP \<noteq> 0 \<or> ro_compat AND NOT FSA_XFS_FEATURE_RO_COMPAT_SUPP \<noteq> 0 \<or>
         incompat AND NOT FSA_XFS_FEATURE_INCOMPAT_SUPP \<noteq> 0 \<or> log_incompat AND NOT FSA_XFS_FEATURE_LOG_INCOMPAT_SUPP \<noteq> 0
      then -1 else 0)"

section \<open>Making a filesystem\<close>

text \<open>The version to create: 4 when the original had it or did not say, and when mkfs.xfs cannot keep the UUID of a
  filesystem of version 5.\<close>

definition xfs_version :: "u64 \<Rightarrow> u64 option \<Rightarrow> u64" where
  "xfs_version xfstoolsver saved =
     (let xfsver = (case saved of
            None \<Rightarrow> XFS_SB_VERSION_4
          | Some v \<Rightarrow> if v = XFS_SB_VERSION_4 then XFS_SB_VERSION_4 else XFS_SB_VERSION_5)
      in if xfsver = XFS_SB_VERSION_5 \<and> xfstoolsver < PROGVER 4 3 0 then XFS_SB_VERSION_4 else xfsver)"

text \<open>An option that is given when mkfs.xfs is recent enough, with the value 0 or 1.\<close>

definition xfs_flag :: "u64 \<Rightarrow> u64 \<Rightarrow> string \<Rightarrow> bool \<Rightarrow> string list" where
  "xfs_flag xfstoolsver minver opt optval =
     (if xfstoolsver \<ge> minver then ['' '' @ opt @ ''='' @ (if optval then ''1'' else ''0'') @ '' ''] else [])"

definition xfs_flags_before :: "u64 \<Rightarrow> u64 \<Rightarrow> u64 \<Rightarrow> u64 \<Rightarrow> string list" where
  "xfs_flags_before ver xfsver ro_compat incompat =
     (let v5 = (xfsver = XFS_SB_VERSION_5)
      in xfs_flag ver (PROGVER 3 2 0) ''-m crc'' v5 @
         xfs_flag ver (PROGVER 3 2 1) ''-m finobt'' (v5 \<and> ro_compat AND XFS_SB_FEAT_RO_COMPAT_FINOBT \<noteq> 0) @
         xfs_flag ver (PROGVER 4 8 0) ''-m rmapbt'' (v5 \<and> ro_compat AND XFS_SB_FEAT_RO_COMPAT_RMAPBT \<noteq> 0) @
         xfs_flag ver (PROGVER 4 9 0) ''-m reflink'' (v5 \<and> ro_compat AND XFS_SB_FEAT_RO_COMPAT_REFLINK \<noteq> 0) @
         xfs_flag ver (PROGVER 5 10 0) ''-m inobtcount'' (v5 \<and> ro_compat AND XFS_SB_FEAT_RO_COMPAT_INOBTCNT \<noteq> 0) @
         xfs_flag ver (PROGVER 5 10 0) ''-m bigtime'' (v5 \<and> incompat AND XFS_SB_FEAT_INCOMPAT_BIGTIME \<noteq> 0))"

definition xfs_flags_after :: "bool \<Rightarrow> u64 \<Rightarrow> u64 \<Rightarrow> u64 \<Rightarrow> string list" where
  "xfs_flags_after rhel7 ver xfsver incompat =
     (let v5 = (xfsver = XFS_SB_VERSION_5)
      in (if ver \<ge> PROGVER 3 2 0 \<and> xfsver = XFS_SB_VERSION_4 then ['' -n ftype=0 ''] else []) @
         (if \<not> rhel7
          then xfs_flag ver (PROGVER 4 2 0) ''-i sparse'' (v5 \<and> incompat AND XFS_SB_FEAT_INCOMPAT_SPINODES \<noteq> 0) else []) @
         xfs_flag ver (PROGVER 5 19 0) ''-i nrext64'' (v5 \<and> incompat AND XFS_SB_FEAT_INCOMPAT_NREXT64 \<noteq> 0) @
         xfs_flag ver (PROGVER 6 10 0) ''-i exchange'' (incompat AND XFS_SB_FEAT_INCOMPAT_EXCHRANGE \<noteq> 0) @
         xfs_flag ver (PROGVER 6 10 0) ''-n parent'' (incompat AND XFS_SB_FEAT_INCOMPAT_PARENT \<noteq> 0) @
         xfs_flag ver (PROGVER 6 13 0) ''-m metadir'' (incompat AND XFS_SB_FEAT_INCOMPAT_METADIR \<noteq> 0) @
         xfs_flag ver (PROGVER 6 15 0) ''-r zoned'' (incompat AND XFS_SB_FEAT_INCOMPAT_ZONED \<noteq> 0))"

definition xfs_blocksize_ok :: "u64 \<Rightarrow> bool" where
  "xfs_blocksize_ok v \<longleftrightarrow> v mod 512 = 0 \<and> 512 \<le> v \<and> v \<le> 65536"

text \<open>The version is in the output of mkfs.xfs.\<close>

definition xfs_tool_version :: "benv \<Rightarrow> bcall list \<Rightarrow> (u64 option \<times> bcall list) option" where
  "xfs_tool_version env tr =
     do {
       (r, _, stdoutbuf, _, tr) \<leftarrow> exec_command env tr 2048 2048 0 ''mkfs.xfs -V'';
       if r \<noteq> 0 then Some (None, tr)
       else do {
         vs \<leftarrow> sscanf (map Slit ''mkfs.xfs'' @ [Sws] @ map Slit ''version'' @ [Sws] @ version_format) stdoutbuf;
         let x = scanned_int vs 0; let y = scanned_int vs 1; let z = scanned_int vs 2;
         Some (if x = 0 \<and> y = 0 then None else Some (PROGVER x y z), tr)
       }
     }"

text \<open>The options of mkfs.xfs and those of xfs_admin.\<close>

definition xfs_options ::
    "benv \<Rightarrow> cdico \<Rightarrow> u64 \<Rightarrow> u64 \<Rightarrow> string \<Rightarrow> string \<Rightarrow> string \<Rightarrow> (string \<times> string) option" where
  "xfs_options env d ver xfsver fsoptions mkfslabel mkfsuuid =
     do {
       mkfsopts \<leftarrow> mkfs_label '' -L '' (take 12) mkfslabel d [];
       uuid \<leftarrow> choose_uuid d mkfsuuid;
       let ro_compat = head_u64_or env d FSYSHEADKEY_FSXFSFEATUREROCOMPAT 0;
       let incompat = head_u64_or env d FSYSHEADKEY_FSXFSFEATUREINCOMPAT 0;
       let blocksize = (case head_u64 env d FSYSHEADKEY_FSXFSBLOCKSIZE of
              Some v \<Rightarrow> if xfs_blocksize_ok v then ['' -b size='' @ show_long v @ '' ''] else []
            | None \<Rightarrow> []);
       let mkuuid = (if length uuid = 36 \<and> ver \<ge> PROGVER 4 3 0 then ['' -m uuid='' @ uuid @ '' ''] else []);
       let xadmopts = (if length uuid = 36 \<and> \<not> ver \<ge> PROGVER 4 3 0 then strlcatf 2048 [] ('' -U '' @ uuid @ '' '') else []);
       Some (foldl (strlcatf 2048) mkfsopts
               (blocksize @ xfs_flags_before ver xfsver ro_compat incompat @ mkuuid @
                xfs_flags_after (match_uname_r env RHEL7_KERNEL_ERE) ver xfsver incompat @ ['' '' @ fsoptions @ '' '']),
             xadmopts)
     }"

definition xfs_mkfs ::
    "benv \<Rightarrow> bcall list \<Rightarrow> cdico \<Rightarrow> string \<Rightarrow> string \<Rightarrow> string \<Rightarrow> string \<Rightarrow> (int \<times> bcall list) option" where
  "xfs_mkfs env tr d part fsoptions mkfslabel mkfsuuid =
     do {
       (version, tr) \<leftarrow> xfs_tool_version env tr;
       (case version of
          None \<Rightarrow> Some (-1, tr)
        | Some ver \<Rightarrow>
            if xfs_check_compatibility (head_u64_or env d FSYSHEADKEY_FSXFSFEATURECOMPAT 0)
                 (head_u64_or env d FSYSHEADKEY_FSXFSFEATUREROCOMPAT 0) (head_u64_or env d FSYSHEADKEY_FSXFSFEATUREINCOMPAT 0)
                 (head_u64_or env d FSYSHEADKEY_FSXFSFEATURELOGINCOMPAT 0) \<noteq> 0 then Some (-1, tr)
            else do {
              (mkfsopts, xadmopts) \<leftarrow> xfs_options env d ver (xfs_version ver (head_u64 env d FSYSHEADKEY_FSXFSVERSION))
                                      fsoptions mkfslabel mkfsuuid;
              (ran, exitst, tr) \<leftarrow> run_command env tr (''mkfs.xfs -f '' @ mkfsopts @ '' '' @ part);
              if \<not> ran \<or> exitst \<noteq> 0 then Some (-1, tr)
              else if xadmopts = [] then Some (0, tr)
              else do {
                (ran, exitst, tr) \<leftarrow> run_command env tr (''xfs_admin '' @ xadmopts @ '' '' @ part);
                Some (if \<not> ran \<or> exitst \<noteq> 0 then -1 else 0, tr)
              }
            })
     }"

section \<open>What is stored of a filesystem\<close>

text \<open>The label is copied up to the next zero byte, which may stand behind the field; without one in the whole
  structure the string has no end that is defined.\<close>

definition xfs_getinfo :: "benv \<Rightarrow> bcall list \<Rightarrow> cdico \<Rightarrow> string \<Rightarrow> (int \<times> cdico) option" where
  "xfs_getinfo env tr d devname =
     (case b_read env tr devname 0 sizeof_xfs_sb of
        None \<Rightarrow> Some (-1, d)
      | Some sb \<Rightarrow>
          if length sb \<noteq> sizeof_xfs_sb then Some (-1, d)
          else if be_field sb 0 4 \<noteq> XFS_SB_MAGIC then Some (-1, d)
          else
            (let mem = b_mem env; xfsver = ucast (be_field sb 100 2 :: u16) AND XFS_SB_VERSION_NUMBITS
             in if xfsver \<noteq> XFS_SB_VERSION_4 \<and> xfsver \<noteq> XFS_SB_VERSION_5 then Some (-1, d)
                else do {
                  sb_fname \<leftarrow> sb_string sb 108;
                  let d = dico_steps
                    [\<lambda>d. dico_add_u64 mem d 0 FSYSHEADKEY_FSXFSVERSION xfsver,
                     \<lambda>d. dico_add_string mem d 0 FSYSHEADKEY_FSLABEL sb_fname,
                     \<lambda>d. dico_add_string mem d 0 FSYSHEADKEY_FSUUID (b_unparse env (take 16 (drop 32 sb)))] d;
                  let blocksize = (be_field sb 4 4 :: u32);
                  if \<not> xfs_blocksize_ok (ucast blocksize) then Some (-1, d)
                  else do {
                    let d = snd (dico_add_u64 mem d 0 FSYSHEADKEY_FSXFSBLOCKSIZE (ucast blocksize));
                    let feature = (\<lambda>off. if xfsver = XFS_SB_VERSION_5 then ucast (be_field sb off 4 :: u32) else (0 :: u64));
                    if xfs_check_compatibility (feature 208) (feature 212) (feature 216) (feature 220) \<noteq> 0 then Some (-1, d)
                    else Some (0, dico_steps
                      [\<lambda>d. dico_add_u64 mem d 0 FSYSHEADKEY_FSXFSFEATURECOMPAT (feature 208),
                       \<lambda>d. dico_add_u64 mem d 0 FSYSHEADKEY_FSXFSFEATUREROCOMPAT (feature 212),
                       \<lambda>d. dico_add_u64 mem d 0 FSYSHEADKEY_FSXFSFEATUREINCOMPAT (feature 216),
                       \<lambda>d. dico_add_u64 mem d 0 FSYSHEADKEY_FSXFSFEATURELOGINCOMPAT (feature 220),
                       \<lambda>d. dico_add_u64 mem d 0 FSYSHEADKEY_MINFSAVERSION (FSA_VERSION_BUILD 0 6 20 0)] d)
                  }
                }))"

section \<open>Mounting and testing\<close>

definition xfs_mount :: "benv \<Rightarrow> bcall list \<Rightarrow> string \<Rightarrow> string \<Rightarrow> string \<Rightarrow> u32 \<Rightarrow> int \<times> bcall list" where
  "xfs_mount env tr part mntbuf fsbuf flags = back_mount env tr part mntbuf fsbuf (Some ''nouuid'') flags"

definition xfs_umount :: "benv \<Rightarrow> bcall list \<Rightarrow> string \<Rightarrow> int \<times> bcall list" where
  "xfs_umount env tr mntbuf = back_umount env tr mntbuf"

definition xfs_test :: "benv \<Rightarrow> bcall list \<Rightarrow> string \<Rightarrow> bool" where
  "xfs_test env tr devname =
     (case b_read env tr devname 0 sizeof_xfs_sb of
        None \<Rightarrow> False
      | Some sb \<Rightarrow> length sb = sizeof_xfs_sb \<and> be_field sb 0 4 = XFS_SB_MAGIC)"

definition xfs_get_reqmntopt :: "malloc \<Rightarrow> cstrlist \<Rightarrow> cstrlist \<Rightarrow> int \<times> cstrlist \<times> cstrlist" where
  "xfs_get_reqmntopt mem reqopt badopt = (0, reqopt, badopt)"

end
