(* ===== verification/Fsbtrfs.thy ===== *)
theory Fsbtrfs
  imports Fsback
begin

text \<open>fs_btrfs.c and fs_btrfs.h: the features of btrfs, the options of mkfs.btrfs, what is stored of a filesystem in
  its header, and the test and the mount. The superblock is the list of the bytes of struct btrfs_super_block.\<close>

section \<open>The features of fs_btrfs.h\<close>

named_theorems fsbtrfs_const \<open>the masks of fs_btrfs.h\<close>

definition BTRFS_FEATURE_COMPAT_RO_FREE_SPACE_TREE :: u64 where
  [fsbtrfs_const]: "BTRFS_FEATURE_COMPAT_RO_FREE_SPACE_TREE = 1"

definition BTRFS_FEATURE_COMPAT_RO_FREE_SPACE_TREE_VALID :: u64 where
  [fsbtrfs_const]: "BTRFS_FEATURE_COMPAT_RO_FREE_SPACE_TREE_VALID = 2"

definition BTRFS_FEATURE_COMPAT_RO_VERITY :: u64 where
  [fsbtrfs_const]: "BTRFS_FEATURE_COMPAT_RO_VERITY = 4"

definition BTRFS_FEATURE_INCOMPAT_MIXED_BACKREF :: u64 where
  [fsbtrfs_const]: "BTRFS_FEATURE_INCOMPAT_MIXED_BACKREF = 1"

definition BTRFS_FEATURE_INCOMPAT_DEFAULT_SUBVOL :: u64 where
  [fsbtrfs_const]: "BTRFS_FEATURE_INCOMPAT_DEFAULT_SUBVOL = 2"

definition BTRFS_FEATURE_INCOMPAT_MIXED_GROUPS :: u64 where
  [fsbtrfs_const]: "BTRFS_FEATURE_INCOMPAT_MIXED_GROUPS = 4"

definition BTRFS_FEATURE_INCOMPAT_COMPRESS_LZO :: u64 where
  [fsbtrfs_const]: "BTRFS_FEATURE_INCOMPAT_COMPRESS_LZO = 8"

definition BTRFS_FEATURE_INCOMPAT_COMPRESS_ZSTD :: u64 where
  [fsbtrfs_const]: "BTRFS_FEATURE_INCOMPAT_COMPRESS_ZSTD = 16"

definition BTRFS_FEATURE_INCOMPAT_BIG_METADATA :: u64 where
  [fsbtrfs_const]: "BTRFS_FEATURE_INCOMPAT_BIG_METADATA = 32"

definition BTRFS_FEATURE_INCOMPAT_EXTENDED_IREF :: u64 where
  [fsbtrfs_const]: "BTRFS_FEATURE_INCOMPAT_EXTENDED_IREF = 64"

definition BTRFS_FEATURE_INCOMPAT_RAID56 :: u64 where
  [fsbtrfs_const]: "BTRFS_FEATURE_INCOMPAT_RAID56 = 128"

definition BTRFS_FEATURE_INCOMPAT_SKINNY_METADATA :: u64 where
  [fsbtrfs_const]: "BTRFS_FEATURE_INCOMPAT_SKINNY_METADATA = 256"

definition BTRFS_FEATURE_INCOMPAT_NO_HOLES :: u64 where
  [fsbtrfs_const]: "BTRFS_FEATURE_INCOMPAT_NO_HOLES = 512"

definition BTRFS_FEATURE_INCOMPAT_METADATA_UUID :: u64 where
  [fsbtrfs_const]: "BTRFS_FEATURE_INCOMPAT_METADATA_UUID = 1024"

definition BTRFS_FEATURE_INCOMPAT_RAID1C34 :: u64 where
  [fsbtrfs_const]: "BTRFS_FEATURE_INCOMPAT_RAID1C34 = 2048"

definition BTRFS_FEATURE_INCOMPAT_ZONED :: u64 where
  [fsbtrfs_const]: "BTRFS_FEATURE_INCOMPAT_ZONED = 4096"

definition BTRFS_FEATURE_INCOMPAT_EXTENT_TREE_V2 :: u64 where
  [fsbtrfs_const]: "BTRFS_FEATURE_INCOMPAT_EXTENT_TREE_V2 = 8192"

definition BTRFS_FEATURE_INCOMPAT_RAID_STRIPE_TREE :: u64 where
  [fsbtrfs_const]: "BTRFS_FEATURE_INCOMPAT_RAID_STRIPE_TREE = 16384"

definition BTRFS_FEATURE_INCOMPAT_SIMPLE_QUOTA :: u64 where
  [fsbtrfs_const]: "BTRFS_FEATURE_INCOMPAT_SIMPLE_QUOTA = 65536"

definition FSA_BTRFS_FEATURE_COMPAT_SUPP :: u64 where
  [fsbtrfs_const]: "FSA_BTRFS_FEATURE_COMPAT_SUPP = 0"

definition FSA_BTRFS_FEATURE_COMPAT_RO_SUPP :: u64 where
  [fsbtrfs_const]: "FSA_BTRFS_FEATURE_COMPAT_RO_SUPP = (BTRFS_FEATURE_COMPAT_RO_FREE_SPACE_TREE OR
     BTRFS_FEATURE_COMPAT_RO_FREE_SPACE_TREE_VALID OR
     BTRFS_FEATURE_COMPAT_RO_VERITY)"

definition FSA_BTRFS_FEATURE_INCOMPAT_SUPP :: u64 where
  [fsbtrfs_const]: "FSA_BTRFS_FEATURE_INCOMPAT_SUPP = (BTRFS_FEATURE_INCOMPAT_MIXED_BACKREF OR
     BTRFS_FEATURE_INCOMPAT_DEFAULT_SUBVOL OR
     BTRFS_FEATURE_INCOMPAT_MIXED_GROUPS OR
     BTRFS_FEATURE_INCOMPAT_BIG_METADATA OR
     BTRFS_FEATURE_INCOMPAT_COMPRESS_LZO OR
     BTRFS_FEATURE_INCOMPAT_COMPRESS_ZSTD OR
     BTRFS_FEATURE_INCOMPAT_RAID56 OR
     BTRFS_FEATURE_INCOMPAT_EXTENDED_IREF OR
     BTRFS_FEATURE_INCOMPAT_SKINNY_METADATA OR
     BTRFS_FEATURE_INCOMPAT_NO_HOLES OR
     BTRFS_FEATURE_INCOMPAT_METADATA_UUID OR
     BTRFS_FEATURE_INCOMPAT_RAID1C34 OR
     BTRFS_FEATURE_INCOMPAT_ZONED OR
     BTRFS_FEATURE_INCOMPAT_EXTENT_TREE_V2 OR
     BTRFS_FEATURE_INCOMPAT_RAID_STRIPE_TREE OR
     BTRFS_FEATURE_INCOMPAT_SIMPLE_QUOTA)"

definition BTRFS_SUPER_INFO_OFFSET :: nat where
  "BTRFS_SUPER_INFO_OFFSET = 64 * 1024"

definition BTRFS_MAGIC :: string where
  "BTRFS_MAGIC = ''_BHRfS_M''"

definition sizeof_btrfs_super_block :: nat where
  "sizeof_btrfs_super_block = 2859"

definition btrfs_check_compatibility :: "u64 \<Rightarrow> u64 \<Rightarrow> u64 \<Rightarrow> int" where
  "btrfs_check_compatibility fcompat incompat ro_compat =
     (if fcompat AND NOT FSA_BTRFS_FEATURE_COMPAT_SUPP \<noteq> 0 then -1
      else if incompat AND NOT FSA_BTRFS_FEATURE_INCOMPAT_SUPP \<noteq> 0 then -1
      else if ro_compat AND NOT FSA_BTRFS_FEATURE_COMPAT_RO_SUPP \<noteq> 0 then -1
      else 0)"

section \<open>Making a filesystem\<close>

definition btrfs_tool_version :: "benv \<Rightarrow> bcall list \<Rightarrow> (u64 option \<times> bcall list) option" where
  "btrfs_tool_version env tr =
     do {
       (r, _, stdoutbuf, _, tr) \<leftarrow> exec_command env tr 2048 2048 0 ''btrfs --version'';
       if r \<noteq> 0 then Some (None, tr)
       else do {
         vs \<leftarrow> sscanf (map Slit ''btrfs-progs'' @ [Sws, Slit (CHR ''v'')] @ version_format) stdoutbuf;
         let x = scanned_int vs 0; let y = scanned_int vs 1; let z = scanned_int vs 2;
         Some (if x = 0 \<and> y = 0 then None else Some (PROGVER x y z), tr)
       }
     }"

text \<open>The three words of features of the header, or zeros when one of them is missing.\<close>

definition btrfs_saved_features :: "benv \<Rightarrow> cdico \<Rightarrow> u64 \<times> u64 \<times> u64" where
  "btrfs_saved_features env d =
     (case (head_u64 env d FSYSHEADKEY_BTRFSFEATURECOMPAT, head_u64 env d FSYSHEADKEY_BTRFSFEATUREINCOMPAT,
            head_u64 env d FSYSHEADKEY_BTRFSFEATUREROCOMPAT) of
        (Some fcompat, Some incompat, Some ro_compat) \<Rightarrow> (fcompat, incompat, ro_compat)
      | _ \<Rightarrow> (0, 0, 0))"

definition btrfs_features :: "u64 \<Rightarrow> u64 \<Rightarrow> string" where
  "btrfs_features ver incompat =
     foldl (strlcatf 2048) []
       ((if ver \<ge> PROGVER 5 12 0
         then [if incompat AND BTRFS_FEATURE_INCOMPAT_ZONED \<noteq> 0 then ''zoned,'' else ''^zoned,''] else []) @
        (if ver \<ge> PROGVER 6 7 0
         then [if incompat AND BTRFS_FEATURE_INCOMPAT_SIMPLE_QUOTA \<noteq> 0 then ''squota,'' else ''^squota,''] else []))"

definition btrfs_options :: "benv \<Rightarrow> cdico \<Rightarrow> string \<Rightarrow> string \<Rightarrow> string \<Rightarrow> string \<Rightarrow> string option" where
  "btrfs_options env d features fsoptions mkfslabel mkfsuuid =
     do {
       options \<leftarrow> mkfs_label '' -L '' (\<lambda>s. s) mkfslabel d [];
       uuid \<leftarrow> (if length mkfsuuid > 0 then Some (Some mkfsuuid) else head_string d FSYSHEADKEY_FSUUID 2048);
       Some (foldl (strlcatf 2048) options
         ((case uuid of Some u \<Rightarrow> ['' -U '' @ [CHR 0x27] @ u @ [CHR 0x27] @ '' ''] | None \<Rightarrow> []) @
          (if length features > 0 then ['' -O '' @ [CHR 0x27] @ features @ [CHR 0x27] @ '' ''] else []) @
          (case head_u64 env d FSYSHEADKEY_FSBTRFSSECTORSIZE of Some v \<Rightarrow> ['' -s '' @ show_long v @ '' ''] | None \<Rightarrow> []) @
          ['' '' @ fsoptions @ '' '']))
     }"

definition btrfs_mkfs ::
    "benv \<Rightarrow> bcall list \<Rightarrow> cdico \<Rightarrow> string \<Rightarrow> string \<Rightarrow> string \<Rightarrow> string \<Rightarrow> (int \<times> bcall list) option" where
  "btrfs_mkfs env tr d part fsoptions mkfslabel mkfsuuid =
     do {
       (version, tr) \<leftarrow> btrfs_tool_version env tr;
       (case version of
          None \<Rightarrow> Some (-1, tr)
        | Some ver \<Rightarrow>
            (let (fcompat, incompat, ro_compat) = btrfs_saved_features env d
             in if btrfs_check_compatibility fcompat incompat ro_compat \<noteq> 0 then Some (-1, tr)
                else do {
                  (found, _, tr) \<leftarrow> run_command env tr ''mkfs.btrfs'';
                  if \<not> found then Some (-1, tr)
                  else do {
                    options \<leftarrow> btrfs_options env d (btrfs_features ver incompat) fsoptions mkfslabel mkfsuuid;
                    (ran, exitst, tr) \<leftarrow> run_command env tr (''mkfs.btrfs -f '' @ options @ '' '' @ part);
                    Some (if \<not> ran \<or> exitst \<noteq> 0 then -1 else 0, tr)
                  }
                }))
     }"

section \<open>What is stored of a filesystem\<close>

text \<open>The sector size goes through a variable of 16 bits.\<close>

definition btrfs_getinfo :: "benv \<Rightarrow> bcall list \<Rightarrow> cdico \<Rightarrow> string \<Rightarrow> (int \<times> cdico) option" where
  "btrfs_getinfo env tr d devname =
     (case read_super env tr devname BTRFS_SUPER_INFO_OFFSET sizeof_btrfs_super_block of
        Inl err \<Rightarrow> Some (err, d)
      | Inr sb \<Rightarrow>
          if \<not> sb_magic_is sb 64 BTRFS_MAGIC then Some (-4, d)
          else do {
            sb_label \<leftarrow> sb_string sb 299;
            let mem = b_mem env;
            let temp32 = (ucast (le_field sb 144 4 :: u32) :: u16);
            let compat_flags = (le_field sb 172 8 :: u64);
            let compat_ro_flags = (le_field sb 180 8 :: u64);
            let incompat_flags = (le_field sb 188 8 :: u64);
            let d = dico_steps
              [\<lambda>d. dico_add_string mem d 0 FSYSHEADKEY_FSLABEL sb_label,
               \<lambda>d. dico_add_string mem d 0 FSYSHEADKEY_FSUUID (b_unparse env (take 16 (drop 283 sb))),
               \<lambda>d. dico_add_u64 mem d 0 FSYSHEADKEY_FSBTRFSSECTORSIZE (ucast temp32),
               \<lambda>d. dico_add_u64 mem d 0 FSYSHEADKEY_BTRFSFEATURECOMPAT compat_flags,
               \<lambda>d. dico_add_u64 mem d 0 FSYSHEADKEY_BTRFSFEATUREINCOMPAT incompat_flags,
               \<lambda>d. dico_add_u64 mem d 0 FSYSHEADKEY_BTRFSFEATUREROCOMPAT compat_ro_flags] d;
            if btrfs_check_compatibility compat_flags incompat_flags compat_ro_flags \<noteq> 0 then Some (-1, d)
            else Some (0, snd (dico_add_u64 mem d 0 FSYSHEADKEY_MINFSAVERSION (FSA_VERSION_BUILD 0 6 4 0)))
          })"

section \<open>Mounting and testing\<close>

definition btrfs_mount :: "benv \<Rightarrow> bcall list \<Rightarrow> string \<Rightarrow> string \<Rightarrow> string \<Rightarrow> u32 \<Rightarrow> int \<times> bcall list" where
  "btrfs_mount env tr part mntbuf fsbuf flags = back_mount env tr part mntbuf fsbuf None flags"

definition btrfs_umount :: "benv \<Rightarrow> bcall list \<Rightarrow> string \<Rightarrow> int \<times> bcall list" where
  "btrfs_umount env tr mntbuf = back_umount env tr mntbuf"

definition btrfs_test :: "benv \<Rightarrow> bcall list \<Rightarrow> string \<Rightarrow> bool" where
  "btrfs_test env tr devname =
     (case read_super env tr devname BTRFS_SUPER_INFO_OFFSET sizeof_btrfs_super_block of
        Inl err \<Rightarrow> False
      | Inr sb \<Rightarrow> sb_magic_is sb 64 BTRFS_MAGIC)"

definition btrfs_get_reqmntopt :: "malloc \<Rightarrow> cstrlist \<Rightarrow> cstrlist \<Rightarrow> int \<times> cstrlist \<times> cstrlist" where
  "btrfs_get_reqmntopt mem reqopt badopt = (0, reqopt, snd (strlist_add mem badopt ''noacl''))"

end
