(* ===== verification/Devinfo.thy ===== *)
theory Devinfo
  imports Fsext
begin

text \<open>devinfo.c: what is known of a block device. The size in other units (txtsize) is computed with floating-point numbers and
  left out.\<close>

definition BLKDEV_INVALID :: int where
  "BLKDEV_INVALID = -1"

definition BLKDEV_PHYSDISK :: int where
  "BLKDEV_PHYSDISK = 0"

definition BLKDEV_FILESYSDEV :: int where
  "BLKDEV_FILESYSDEV = 1"

record s_devinfo =
  di_devtype :: int
  di_devname :: string
  di_longname :: string
  di_label :: string
  di_uuid :: string
  di_fsname :: string
  di_name :: string
  di_devsize :: u64
  di_minor :: u32
  di_major :: u32
  di_rdev :: u64

definition devinfo_init :: s_devinfo where
  "devinfo_init =
     \<lparr>di_devtype = BLKDEV_INVALID, di_devname = [], di_longname = [], di_label = ''<unknown>'', di_uuid = ''<unknown>'',
      di_fsname = ''<unknown>'', di_name = [], di_devsize = 0, di_minor = 0, di_major = 0, di_rdev = 0\<rparr>"

text \<open>The first name in /dev/mapper that is the device with the numbers asked for, which are compared as unsigned
  numbers.\<close>

fun mapper_name :: "benv \<Rightarrow> string list \<Rightarrow> int \<Rightarrow> int \<Rightarrow> string option" where
  "mapper_name env [] minnum majnum = None"
| "mapper_name env (d_name # names) minnum majnum =
     (let temp = snprintf_s PATH_MAX (''/dev/mapper/'' @ d_name)
      in case b_stat env temp of
           Some st \<Rightarrow>
             if st_isblk st \<and> dev_major (st_rdev st) = word_of_int majnum \<and> dev_minor (st_rdev st) = word_of_int minnum
             then Some temp else mapper_name env names minnum majnum
         | None \<Rightarrow> mapper_name env names minnum majnum)"

text \<open>The type of the device and the name of its model: the line in the file model; None is a file without an end of line,
  whose name goes on with what the buffer held before, or a name that is longer than its field.\<close>

definition device_model :: "benv \<Rightarrow> string \<Rightarrow> string option" where
  "device_model env sysblkdevname =
     (case b_model env (snprintf_s PATH_MAX (''/sys/block/'' @ sysblkdevname @ ''/device/model'')) of
        None \<Rightarrow> Some []
      | Some temp \<Rightarrow>
          (let name = takeWhile (\<lambda>c. c \<notin> {CHR 0x00, CHR 0x0D, CHR 0x0A}) temp
           in if temp = [] then Some []
              else if length name = length temp \<or> 512 \<le> length name then None else Some name))"

text \<open>The tags of libblkid.\<close>

fun blkid_tags :: "(string \<times> string) list \<Rightarrow> s_devinfo \<Rightarrow> s_devinfo" where
  "blkid_tags [] dev = dev"
| "blkid_tags ((typ, val) # tags) dev =
     blkid_tags tags
       (if typ = ''LABEL'' then dev\<lparr>di_label := snprintf_s FSA_MAX_LABELLEN val\<rparr>
        else if typ = ''UUID'' then dev\<lparr>di_uuid := snprintf_s FSA_MAX_UUIDLEN val\<rparr>
        else if typ = ''TYPE'' then dev\<lparr>di_fsname := snprintf_s FSA_MAX_FSNAMELEN val\<rparr>
        else dev)"

text \<open>The comparison of the size with 0 is one of an unsigned number and never true.\<close>

definition get_devinfo :: "benv \<Rightarrow> bcall list \<Rightarrow> string \<Rightarrow> int \<Rightarrow> int \<Rightarrow> (int \<times> s_devinfo) option" where
  "get_devinfo env tr indevname minnum majnum =
     (if take 5 indevname \<noteq> ''/dev/'' then Some (-1, devinfo_init)
      else
        (let longname = (case b_mapper env of
               None \<Rightarrow> snprintf_s FSA_MAX_DEVLEN indevname
             | Some names \<Rightarrow> (case mapper_name env names minnum majnum of
                   None \<Rightarrow> snprintf_s FSA_MAX_DEVLEN indevname
                 | Some temp \<Rightarrow> snprintf_s FSA_MAX_DEVLEN temp));
             devname = snprintf_s FSA_MAX_DEVLEN (drop 5 indevname);
             dev = devinfo_init\<lparr>di_devname := devname, di_longname := longname\<rparr>
         in case (b_devsize env tr longname, b_stat env longname) of
              (Some devsize, Some st) \<Rightarrow>
                (let dev = dev\<lparr>di_devsize := word_of_int devsize\<rparr>
                 in if \<not> st_isblk st then Some (-1, dev)
                    else
                      (let dev = dev\<lparr>di_rdev := st_rdev st, di_major := dev_major (st_rdev st), di_minor := dev_minor (st_rdev st)\<rparr>;
                           sysblkdevname = map (\<lambda>c. if c = CHR ''/'' then CHR ''!'' else c) (snprintf_s 512 devname);
                           physdisk = (b_stat env (snprintf_s PATH_MAX (''/sys/block/'' @ sysblkdevname @ ''/device'')) \<noteq> None)
                       in if di_devsize dev = 1024 then Some (-1, dev)
                          else
                            map_option (\<lambda>model.
                              let dev = (if physdisk then dev\<lparr>di_devtype := BLKDEV_PHYSDISK, di_name := model\<rparr>
                                         else dev\<lparr>di_devtype := BLKDEV_FILESYSDEV\<rparr>)
                              in if \<not> b_cache env then (-1, dev)
                                 else (case b_blkid env longname of
                                         None \<Rightarrow> (0, dev)
                                       | Some tags \<Rightarrow>
                                           (let dev = blkid_tags tags dev
                                            in (0, if di_fsname dev = ''ext3''
                                                   then dev\<lparr>di_fsname := if ext3_test env tr longname then ''ext3'' else ''ext4''\<rparr>
                                                   else dev))))
                              (if physdisk then device_model env sysblkdevname else Some [])))
            | (Some devsize, None) \<Rightarrow> Some (-1, dev\<lparr>di_devsize := word_of_int devsize\<rparr>)
            | _ \<Rightarrow> Some (-1, dev)))"

text \<open>No block device has the number 0: Linux reserves the major and minor number 0:0 for the null device
  number (Documentation/admin-guide/devices.txt).\<close>

definition numbered_devices :: "benv \<Rightarrow> bool" where
  "numbered_devices env \<longleftrightarrow> (\<forall>path st. b_stat env path = Some st \<longrightarrow> st_isblk st \<longrightarrow> st_rdev st \<noteq> 0)"

lemma blkid_tags_rdev [simp]: "di_rdev (blkid_tags tags dev) = di_rdev dev"
  by (induction tags arbitrary: dev) auto

lemma get_devinfo_rdev:
  "get_devinfo env tr name minnum majnum = Some (0, dev) \<Longrightarrow> numbered_devices env \<Longrightarrow> di_rdev dev \<noteq> 0"
  by (auto simp: get_devinfo_def Let_def numbered_devices_def split: if_splits option.splits)

end
