(* ===== verification/Fsntfs.thy ===== *)
theory Fsntfs
  imports Devinfo
begin

text \<open>fs_ntfs.c and fs_vfat.c: the options of mkfs.ntfs and mkfs.vfat, what is stored of these filesystems in their
  header, the test, and the mount, which for NTFS is done by ntfs-3g. The boot sector is the list of its bytes.\<close>

section \<open>NTFS\<close>

definition NTFS3G_VERSION :: "int \<Rightarrow> int \<Rightarrow> int \<Rightarrow> u64" where
  "NTFS3G_VERSION year month day =
     push_bit 48 (word_of_int year AND 0xFFFF) + push_bit 32 (word_of_int month AND 0xFFFF) +
     push_bit 16 (word_of_int day AND 0xFFFF)"

definition NTFS3G_MINVER_Y :: int where
  "NTFS3G_MINVER_Y = 2009"

definition NTFS3G_MINVER_M :: int where
  "NTFS3G_MINVER_M = 11"

definition NTFS3G_MINVER_D :: int where
  "NTFS3G_MINVER_D = 14"

text \<open>The UUID is written into the boot sector.\<close>

definition ntfs_replace_uuid :: "benv \<Rightarrow> bcall list \<Rightarrow> string \<Rightarrow> u64 \<Rightarrow> int \<times> bcall list" where
  "ntfs_replace_uuid env tr devname uuid =
     (case b_read env tr devname 0 512 of
        None \<Rightarrow> (-1, tr)
      | Some bootsect \<Rightarrow>
          if length bootsect \<noteq> 512 then (-1, tr)
          else
            (let bootsect = take 0x48 bootsect @ le_bytes 8 uuid @ drop (0x48 + 8) bootsect
             in if \<not> b_lseek env tr devname 0 then (-1, tr)
                else if \<not> b_write env tr devname then (-1, tr @ [Dev_write devname 0 bootsect])
                else (0, tr @ [Dev_write devname 0 bootsect])))"

definition ntfs_options :: "benv \<Rightarrow> cdico \<Rightarrow> string \<Rightarrow> string \<Rightarrow> string option" where
  "ntfs_options env d fsoptions mkfslabel =
     do {
       options \<leftarrow> mkfs_label '' --label '' (\<lambda>s. s) mkfslabel d [];
       let (r16, temp16) = dico_get_u16 d 0 FSYSHEADKEY_NTFSSECTORSIZE (b_junk env 2);
       let (r32, temp32) = dico_get_u32 d 0 FSYSHEADKEY_NTFSCLUSTERSIZE (b_junk env 4);
       Some (foldl (strlcatf 2048) options
         ((if r16 = 0 then ['' -s '' @ show_long (ucast temp16) @ '' ''] else []) @
          (if r32 = 0 then ['' -c '' @ show_long (ucast temp32) @ '' ''] else []) @
          ['' '' @ fsoptions @ '' '']))
     }"

definition ntfs_mkfs ::
    "benv \<Rightarrow> bcall list \<Rightarrow> cdico \<Rightarrow> string \<Rightarrow> string \<Rightarrow> string \<Rightarrow> string \<Rightarrow> (int \<times> bcall list) option" where
  "ntfs_mkfs env tr d part fsoptions mkfslabel mkfsuuid =
     do {
       (found, _, tr) \<leftarrow> run_command env tr ''mkfs.ntfs'';
       if \<not> found then Some (-1, tr)
       else do {
         options \<leftarrow> ntfs_options env d fsoptions mkfslabel;
         (ran, exitst, tr) \<leftarrow> run_command env tr (''mkfs.ntfs -f '' @ options @ '' '' @ part);
         if \<not> ran \<or> exitst \<noteq> 0 then Some (-1, tr)
         else
           Some (0, case head_u64 env d FSYSHEADKEY_NTFSUUID of
                      Some temp64 \<Rightarrow> snd (ntfs_replace_uuid env tr part temp64)
                    | None \<Rightarrow> tr)
       }
     }"

definition ntfs_getinfo :: "benv \<Rightarrow> bcall list \<Rightarrow> cdico \<Rightarrow> string \<Rightarrow> (int \<times> cdico) option" where
  "ntfs_getinfo env tr d devname =
     (case b_read env tr devname 0 512 of
        None \<Rightarrow> Some (-1, d)
      | Some bootsect \<Rightarrow>
          if length bootsect \<noteq> 512 then Some (-1, d)
          else if \<not> sb_magic_is bootsect 3 ''NTFS'' then Some (-1, d)
          else
            map_option (\<lambda>(r, devinfo).
              if r \<noteq> 0 then (-1, d)
              else
                 (let mem = b_mem env;
                      bytes_per_sector = (le_field bootsect 0xB 2 :: u32);
                      sectors_per_clusters = (le_field bootsect 0xD 1 :: u32);
                      bytes_per_cluster = bytes_per_sector * sectors_per_clusters;
                      uuid = (le_field bootsect 0x48 8 :: u64)
                  in (0, dico_steps
                       [\<lambda>d. dico_add_u16 mem d 0 FSYSHEADKEY_NTFSSECTORSIZE (ucast bytes_per_sector),
                        \<lambda>d. dico_add_u32 mem d 0 FSYSHEADKEY_NTFSCLUSTERSIZE bytes_per_cluster,
                        \<lambda>d. dico_add_u64 mem d 0 FSYSHEADKEY_NTFSUUID uuid,
                        \<lambda>d. dico_add_string mem d 0 FSYSHEADKEY_FSLABEL (di_label devinfo),
                        \<lambda>d. dico_add_u64 mem d 0 FSYSHEADKEY_MINFSAVERSION (FSA_VERSION_BUILD 0 6 4 0),
                        \<lambda>d. dico_add_string mem d 0 FSYSHEADKEY_MOUNTINFO ''streams_interface=xattr''] d)))
              (get_devinfo env tr devname (-1) (-1)))"

text \<open>The first line of the output that holds a version other than 0.0.0.\<close>

fun ntfs3g_version :: "string list \<Rightarrow> u64 \<Rightarrow> u64 option" where
  "ntfs3g_version [] instver = Some instver"
| "ntfs3g_version (result # results) instver =
     (if instver \<noteq> 0 then Some instver
      else
        (case sscanf (map Slit ''ntfs-3g'' @
                [Sws, Sint (Some 4), Slit (CHR ''.''), Sint (Some 2), Slit (CHR ''.''), Sint (Some 2), Sws]) result of
           None \<Rightarrow> None
         | Some vs \<Rightarrow>
             ntfs3g_version results
               (if length vs = 3 then NTFS3G_VERSION (scanned_int vs 0) (scanned_int vs 1) (scanned_int vs 2) else instver)))"

fun strstr :: "string \<Rightarrow> string \<Rightarrow> bool" where
  "strstr [] needle = (needle = [])"
| "strstr (c # hay) needle = (take (length needle) (c # hay) = needle \<or> strstr hay needle)"

definition ntfs_streamif :: "string \<Rightarrow> string" where
  "ntfs_streamif mntinfo =
     (if strstr mntinfo ''streams_interface=xattr'' then ''xattr''
      else if strstr mntinfo ''streams_interface=windows'' then ''windows''
      else ''xattr'')"

definition MS_RDONLY :: u32 where
  "MS_RDONLY = 1"

definition ntfs_mount ::
    "benv \<Rightarrow> bcall list \<Rightarrow> string \<Rightarrow> string \<Rightarrow> string \<Rightarrow> u32 \<Rightarrow> string \<Rightarrow> (int \<times> bcall list) option" where
  "ntfs_mount env tr part mntbuf fsbuf flags mntinfo =
     do {
       (r, _, _, stderrbuf, tr) \<leftarrow> exec_command env tr 2048 0 2048 ''ntfs-3g -h'';
       if r \<noteq> 0 then Some (-1, tr)
       else do {
         instver \<leftarrow> ntfs3g_version (strtok_all [CHR 0x0A, CHR 0x0D] stderrbuf) 0;
         if instver < NTFS3G_VERSION NTFS3G_MINVER_Y NTFS3G_MINVER_M NTFS3G_MINVER_D then Some (-1, tr)
         else do {
           let options = foldl (strlcatf 1024) []
             (('' -o streams_interface='' @ ntfs_streamif mntinfo @ '' -o efs_raw '') #
              (if flags AND MS_RDONLY \<noteq> 0 then ['' -o ro ''] else []));
           (ran, exitst, tr) \<leftarrow> run_command env tr (''ntfs-3g '' @ options @ '' '' @ part @ '' '' @ mntbuf);
           Some (if \<not> ran \<or> exitst \<noteq> 0 then -1 else 0, tr)
         }
       }
     }"

definition ntfs_umount :: "benv \<Rightarrow> bcall list \<Rightarrow> string \<Rightarrow> (int \<times> bcall list) option" where
  "ntfs_umount env tr mntbuf =
     do {
       (found, _, tr) \<leftarrow> run_command env tr ''fusermount'';
       if \<not> found then Some (-1, tr)
       else do {
         (ran, exitst, tr) \<leftarrow> run_command env tr (''fusermount -u '' @ mntbuf);
         Some (if \<not> ran \<or> exitst \<noteq> 0 then -1 else 0, tr)
       }
     }"

definition ntfs_test :: "benv \<Rightarrow> bcall list \<Rightarrow> string \<Rightarrow> bool" where
  "ntfs_test env tr devname =
     (case b_read env tr devname 0 16384 of
        None \<Rightarrow> False
      | Some bootsect \<Rightarrow> length bootsect = 16384 \<and> sb_magic_is bootsect 3 ''NTFS'')"

definition ntfs_get_reqmntopt :: "malloc \<Rightarrow> cstrlist \<Rightarrow> cstrlist \<Rightarrow> int \<times> cstrlist \<times> cstrlist" where
  "ntfs_get_reqmntopt mem reqopt badopt = (0, snd (strlist_add mem reqopt ''streams_interface=xattr''), badopt)"

section \<open>FAT\<close>

definition VFAT_SB_MAGIC :: u16 where
  "VFAT_SB_MAGIC = 0x55AA"

definition FAT_TYPE_FAT32 :: u16 where
  "FAT_TYPE_FAT32 = 0"

definition FAT_TYPE_FAT16 :: u16 where
  "FAT_TYPE_FAT16 = 1"

definition sizeof_vfat_superblock :: nat where
  "sizeof_vfat_superblock = 512"

definition vfat_options :: "benv \<Rightarrow> cdico \<Rightarrow> string \<Rightarrow> string \<Rightarrow> string \<Rightarrow> string option" where
  "vfat_options env d fsoptions mkfslabel mkfsuuid =
     (let (r16, temp16) = dico_get_u16 d 0 FSYSHEADKEY_FSVFATTYPE (b_junk env 2);
          (r32, temp32) = dico_get_u32 d 0 FSYSHEADKEY_FSVFATSERIAL (b_junk env 4);
          fattype = (if r16 = 0 \<and> temp16 = FAT_TYPE_FAT16 then '' -F 16 '' else '' -F 32 '')
      in map_option (\<lambda>mkfsopts.
           foldl (strlcatf 2048) mkfsopts
             ((if length mkfsuuid > 0 then [label_text '' -i '' (take 8) mkfsuuid]
               else if r32 = 0 then [label_text '' -i '' (\<lambda>s. s) (show_hex ''0123456789ABCDEF'' 8 temp32)]
               else []) @ ['' '' @ fsoptions @ '' '']))
           (mkfs_label '' -n '' (take 11) mkfslabel d (strlcatf 2048 [] fattype)))"

definition vfat_mkfs ::
    "benv \<Rightarrow> bcall list \<Rightarrow> cdico \<Rightarrow> string \<Rightarrow> string \<Rightarrow> string \<Rightarrow> string \<Rightarrow> (int \<times> bcall list) option" where
  "vfat_mkfs env tr d part fsoptions mkfslabel mkfsuuid =
     do {
       (r, _, _, _, tr) \<leftarrow> exec_command env tr 2048 2048 0 ''mkfs.vfat --help'';
       if r \<noteq> 0 then Some (-1, tr)
       else do {
         mkfsopts \<leftarrow> vfat_options env d fsoptions mkfslabel mkfsuuid;
         (ran, exitst, tr) \<leftarrow> run_command env tr (''mkfs.vfat '' @ mkfsopts @ '' '' @ part);
         Some (if \<not> ran \<or> exitst \<noteq> 0 then -1 else 0, tr)
       }
     }"

definition vfat_getinfo :: "benv \<Rightarrow> bcall list \<Rightarrow> cdico \<Rightarrow> string \<Rightarrow> int \<times> cdico" where
  "vfat_getinfo env tr d devname =
     (case b_read env tr devname 0 sizeof_vfat_superblock of
        None \<Rightarrow> (-1, d)
      | Some sb \<Rightarrow>
          if length sb \<noteq> sizeof_vfat_superblock then (-1, d)
          else if be_field sb 510 2 \<noteq> VFAT_SB_MAGIC then (-1, d)
          else if (le_field sb 16 1 :: u8) \<noteq> 1 \<and> (le_field sb 16 1 :: u8) \<noteq> 2 then (-1, d)
          else
            (let mem = b_mem env;
                 (fattype, labeloff, serialoff) =
                   (if (le_field sb 17 2 :: u16) = 0 then (FAT_TYPE_FAT32, 0x47, 0x43) else (FAT_TYPE_FAT16, 0x2B, 0x27));
                 label = cstr (string_of_bytes (take 11 (drop labeloff sb)));
                 serial = (le_field sb serialoff 4 :: u32)
             in (0, dico_steps
                  [\<lambda>d. dico_add_u16 mem d 0 FSYSHEADKEY_FSVFATTYPE fattype,
                   \<lambda>d. dico_add_string mem d 0 FSYSHEADKEY_FSLABEL label,
                   \<lambda>d. dico_add_u32 mem d 0 FSYSHEADKEY_FSVFATSERIAL serial,
                   \<lambda>d. dico_add_u64 mem d 0 FSYSHEADKEY_MINFSAVERSION (FSA_VERSION_BUILD 0 8 0 0)] d)))"

definition vfat_mount :: "benv \<Rightarrow> bcall list \<Rightarrow> string \<Rightarrow> string \<Rightarrow> string \<Rightarrow> u32 \<Rightarrow> int \<times> bcall list" where
  "vfat_mount env tr part mntbuf fsbuf flags = back_mount env tr part mntbuf fsbuf (Some []) flags"

definition vfat_umount :: "benv \<Rightarrow> bcall list \<Rightarrow> string \<Rightarrow> int \<times> bcall list" where
  "vfat_umount env tr mntbuf = back_umount env tr mntbuf"

definition vfat_test :: "benv \<Rightarrow> bcall list \<Rightarrow> string \<Rightarrow> bool" where
  "vfat_test env tr devname =
     (case b_read env tr devname 0 sizeof_vfat_superblock of
        None \<Rightarrow> False
      | Some sb \<Rightarrow> length sb = sizeof_vfat_superblock \<and> be_field sb 510 2 = VFAT_SB_MAGIC)"

definition vfat_get_reqmntopt :: "malloc \<Rightarrow> cstrlist \<Rightarrow> cstrlist \<Rightarrow> int \<times> cstrlist \<times> cstrlist" where
  "vfat_get_reqmntopt mem reqopt badopt = (0, reqopt, badopt)"

end
