(* ===== verification/Fsother.thy ===== *)
theory Fsother
  imports Fsback
begin

text \<open>fs_reiserfs.c, fs_reiser4.c and fs_jfs.c: the options of their mkfs programs, what is stored of these filesystems
  in their header, the test and the mount. The superblocks are the lists of the bytes of the structures.\<close>

section \<open>What the three have in common\<close>

text \<open>A UUID of the command line is passed on as it is, one of the archive only when it has 36 characters.\<close>

definition uuid_option :: "string \<Rightarrow> cdico \<Rightarrow> string \<Rightarrow> string list option" where
  "uuid_option opt d mkfsuuid =
     (if length mkfsuuid > 0 then Some ['' '' @ opt @ '' '' @ mkfsuuid @ '' '']
      else map_option (\<lambda>s. case s of
             Some buffer \<Rightarrow> if length buffer = 36 then ['' '' @ opt @ '' '' @ buffer @ '' ''] else []
           | None \<Rightarrow> []) (head_string d FSYSHEADKEY_FSUUID 2048))"

section \<open>ReiserFS\<close>

definition REISERFS_SUPER_MAGIC_STRING :: string where
  "REISERFS_SUPER_MAGIC_STRING = ''ReIsErFs''"

definition REISER2FS_SUPER_MAGIC_STRING :: string where
  "REISER2FS_SUPER_MAGIC_STRING = ''ReIsEr2Fs''"

definition REISERFS_DISK_OFFSET_IN_BYTES :: nat where
  "REISERFS_DISK_OFFSET_IN_BYTES = 64 * 1024"

definition sizeof_reiserfs_super_block :: nat where
  "sizeof_reiserfs_super_block = 204"

definition reiserfs_options :: "benv \<Rightarrow> cdico \<Rightarrow> string \<Rightarrow> string \<Rightarrow> string \<Rightarrow> string option" where
  "reiserfs_options env d fsoptions mkfslabel mkfsuuid =
     do {
       options \<leftarrow> mkfs_label '' -l '' (take 16) mkfslabel d [];
       uuid \<leftarrow> uuid_option ''-u'' d mkfsuuid;
       Some (foldl (strlcatf 2048) options
         ((case head_u64 env d FSYSHEADKEY_FSREISERBLOCKSIZE of Some v \<Rightarrow> ['' -b '' @ show_long v @ '' ''] | None \<Rightarrow> []) @
          uuid @ ['' '' @ fsoptions @ '' '']))
     }"

definition reiserfs_mkfs ::
    "benv \<Rightarrow> bcall list \<Rightarrow> cdico \<Rightarrow> string \<Rightarrow> string \<Rightarrow> string \<Rightarrow> string \<Rightarrow> (int \<times> bcall list) option" where
  "reiserfs_mkfs env tr d part fsoptions mkfslabel mkfsuuid =
     do {
       (found, _, tr) \<leftarrow> run_command env tr ''mkreiserfs -V'';
       if \<not> found then Some (-1, tr)
       else do {
         options \<leftarrow> reiserfs_options env d fsoptions mkfslabel mkfsuuid;
         (ran, exitst, tr) \<leftarrow> run_command env tr (''mkreiserfs -f '' @ options @ '' '' @ part);
         Some (if \<not> ran \<or> exitst \<noteq> 0 then -1 else 0, tr)
       }
     }"

definition reiserfs_getinfo :: "benv \<Rightarrow> bcall list \<Rightarrow> cdico \<Rightarrow> string \<Rightarrow> (int \<times> cdico) option" where
  "reiserfs_getinfo env tr d devname =
     (case read_super env tr devname REISERFS_DISK_OFFSET_IN_BYTES sizeof_reiserfs_super_block of
        Inl err \<Rightarrow> Some (err, d)
      | Inr sb \<Rightarrow>
          (let v35 = sb_magic_is sb 52 REISERFS_SUPER_MAGIC_STRING;
               v36 = sb_magic_is sb 52 REISER2FS_SUPER_MAGIC_STRING;
               mem = b_mem env
           in if \<not> v35 \<and> \<not> v36 then Some (-4, d)
              else do {
                s_label \<leftarrow> sb_string sb 100;
                Some (0, dico_steps
                  [\<lambda>d. dico_add_string mem d 0 FSYSHEADKEY_FSVERSION (if v35 then ''reiserfs-3.5'' else ''reiserfs-3.6''),
                   \<lambda>d. dico_add_string mem d 0 FSYSHEADKEY_FSLABEL s_label,
                   \<lambda>d. dico_add_string mem d 0 FSYSHEADKEY_FSUUID (b_unparse env (take 16 (drop 84 sb))),
                   \<lambda>d. dico_add_u64 mem d 0 FSYSHEADKEY_FSREISERBLOCKSIZE (ucast (le_field sb 44 2 :: u16)),
                   \<lambda>d. dico_add_u64 mem d 0 FSYSHEADKEY_MINFSAVERSION (FSA_VERSION_BUILD 0 6 4 0)] d)
              }))"

definition reiserfs_mount :: "benv \<Rightarrow> bcall list \<Rightarrow> string \<Rightarrow> string \<Rightarrow> string \<Rightarrow> u32 \<Rightarrow> int \<times> bcall list" where
  "reiserfs_mount env tr part mntbuf fsbuf flags =
     back_mount env tr part mntbuf fsbuf (Some ''user_xattr,acl'') flags"

definition reiserfs_umount :: "benv \<Rightarrow> bcall list \<Rightarrow> string \<Rightarrow> int \<times> bcall list" where
  "reiserfs_umount env tr mntbuf = back_umount env tr mntbuf"

definition reiserfs_test :: "benv \<Rightarrow> bcall list \<Rightarrow> string \<Rightarrow> bool" where
  "reiserfs_test env tr devname =
     (case read_super env tr devname REISERFS_DISK_OFFSET_IN_BYTES sizeof_reiserfs_super_block of
        Inl err \<Rightarrow> False
      | Inr sb \<Rightarrow> sb_magic_is sb 52 REISERFS_SUPER_MAGIC_STRING \<or> sb_magic_is sb 52 REISER2FS_SUPER_MAGIC_STRING)"

definition reiserfs_get_reqmntopt :: "malloc \<Rightarrow> cstrlist \<Rightarrow> cstrlist \<Rightarrow> int \<times> cstrlist \<times> cstrlist" where
  "reiserfs_get_reqmntopt mem reqopt badopt =
     (0, reqopt, snd (strlist_add mem (snd (strlist_add mem badopt ''nouser_xattr'')) ''noacl''))"

section \<open>Reiser4\<close>

definition REISERFS4_SUPER_MAGIC :: string where
  "REISERFS4_SUPER_MAGIC = ''ReIsEr4''"

definition REISER4_DISK_OFFSET_IN_BYTES :: nat where
  "REISER4_DISK_OFFSET_IN_BYTES = 64 * 1024"

definition sizeof_reiser4_master_sb :: nat where
  "sizeof_reiser4_master_sb = 60"

definition reiser4_options :: "benv \<Rightarrow> cdico \<Rightarrow> string \<Rightarrow> string \<Rightarrow> string \<Rightarrow> string option" where
  "reiser4_options env d fsoptions mkfslabel mkfsuuid =
     do {
       options \<leftarrow> mkfs_label '' -L '' (take 16) mkfslabel d [];
       uuid \<leftarrow> uuid_option ''-U'' d mkfsuuid;
       Some (foldl (strlcatf 2048) options
         ((case head_u64 env d FSYSHEADKEY_FSREISER4BLOCKSIZE of Some v \<Rightarrow> ['' -b '' @ show_long v @ '' ''] | None \<Rightarrow> []) @
          uuid @ ['' '' @ fsoptions @ '' '']))
     }"

definition reiser4_mkfs ::
    "benv \<Rightarrow> bcall list \<Rightarrow> cdico \<Rightarrow> string \<Rightarrow> string \<Rightarrow> string \<Rightarrow> string \<Rightarrow> (int \<times> bcall list) option" where
  "reiser4_mkfs env tr d part fsoptions mkfslabel mkfsuuid =
     do {
       (found, _, tr) \<leftarrow> run_command env tr ''mkfs.reiser4 -V'';
       if \<not> found then Some (-1, tr)
       else do {
         options \<leftarrow> reiser4_options env d fsoptions mkfslabel mkfsuuid;
         (ran, exitst, tr) \<leftarrow> run_command env tr (''mkfs.reiser4 -y '' @ options @ '' '' @ part);
         Some (if \<not> ran \<or> exitst \<noteq> 0 then -1 else 0, tr)
       }
     }"

definition reiser4_getinfo :: "benv \<Rightarrow> bcall list \<Rightarrow> cdico \<Rightarrow> string \<Rightarrow> (int \<times> cdico) option" where
  "reiser4_getinfo env tr d devname =
     (case read_super env tr devname REISER4_DISK_OFFSET_IN_BYTES sizeof_reiser4_master_sb of
        Inl err \<Rightarrow> Some (err, d)
      | Inr sb \<Rightarrow>
          (let mem = b_mem env
           in if \<not> sb_magic_is sb 0 REISERFS4_SUPER_MAGIC then Some (-4, d)
              else do {
                sb_label \<leftarrow> sb_string sb 36;
                let d = dico_steps
                  [\<lambda>d. dico_add_string mem d 0 FSYSHEADKEY_FSVERSION ''reiserfs-4.0'',
                   \<lambda>d. dico_add_string mem d 0 FSYSHEADKEY_FSLABEL sb_label,
                   \<lambda>d. dico_add_string mem d 0 FSYSHEADKEY_FSUUID (b_unparse env (take 16 (drop 20 sb)))] d;
                let temp16 = (le_field sb 18 2 :: u16);
                if temp16 \<noteq> 4096 then Some (-5, d)
                else Some (0, dico_steps
                  [\<lambda>d. dico_add_u64 mem d 0 FSYSHEADKEY_FSREISER4BLOCKSIZE (ucast temp16),
                   \<lambda>d. dico_add_u64 mem d 0 FSYSHEADKEY_MINFSAVERSION (FSA_VERSION_BUILD 0 6 4 0)] d)
              }))"

definition reiser4_mount :: "benv \<Rightarrow> bcall list \<Rightarrow> string \<Rightarrow> string \<Rightarrow> string \<Rightarrow> u32 \<Rightarrow> int \<times> bcall list" where
  "reiser4_mount env tr part mntbuf fsbuf flags = back_mount env tr part mntbuf fsbuf None flags"

definition reiser4_umount :: "benv \<Rightarrow> bcall list \<Rightarrow> string \<Rightarrow> int \<times> bcall list" where
  "reiser4_umount env tr mntbuf = back_umount env tr mntbuf"

definition reiser4_test :: "benv \<Rightarrow> bcall list \<Rightarrow> string \<Rightarrow> bool" where
  "reiser4_test env tr devname =
     (case read_super env tr devname REISER4_DISK_OFFSET_IN_BYTES sizeof_reiser4_master_sb of
        Inl err \<Rightarrow> False
      | Inr sb \<Rightarrow> sb_magic_is sb 0 REISERFS4_SUPER_MAGIC)"

definition reiser4_get_reqmntopt :: "malloc \<Rightarrow> cstrlist \<Rightarrow> cstrlist \<Rightarrow> int \<times> cstrlist \<times> cstrlist" where
  "reiser4_get_reqmntopt mem reqopt badopt = (0, reqopt, badopt)"

section \<open>JFS\<close>

definition JFS_MAGIC :: string where
  "JFS_MAGIC = ''JFS1''"

definition JFS_SUPER1_OFF :: nat where
  "JFS_SUPER1_OFF = 0x8000"

definition sizeof_jfs_superblock :: nat where
  "sizeof_jfs_superblock = 184"

text \<open>The UUID is set afterwards by jfs_tune, when there is one.\<close>

definition jfs_mkfs ::
    "benv \<Rightarrow> bcall list \<Rightarrow> cdico \<Rightarrow> string \<Rightarrow> string \<Rightarrow> string \<Rightarrow> string \<Rightarrow> (int \<times> bcall list) option" where
  "jfs_mkfs env tr d part fsoptions mkfslabel mkfsuuid =
     do {
       (found, _, tr) \<leftarrow> run_command env tr ''jfs_mkfs -V'';
       if \<not> found then Some (-1, tr)
       else do {
         options \<leftarrow> mkfs_label '' -L '' (\<lambda>s. s) mkfslabel d [];
         let options = strlcatf 2048 options ('' '' @ fsoptions @ '' '');
         (ran, exitst, tr) \<leftarrow> run_command env tr (''jfs_mkfs -q '' @ options @ '' '' @ part);
         if \<not> ran \<or> exitst \<noteq> 0 then Some (-1, tr)
         else do {
           uuid \<leftarrow> uuid_option ''-U'' d mkfsuuid;
           let options = foldl (strlcatf 2048) [] uuid;
           if options = [] then Some (0, tr)
           else do {
             (ran, exitst, tr) \<leftarrow> run_command env tr (''jfs_tune '' @ options @ '' '' @ part);
             Some (if \<not> ran \<or> exitst \<noteq> 0 then -1 else 0, tr)
           }
         }
       }
     }"

definition jfs_getinfo :: "benv \<Rightarrow> bcall list \<Rightarrow> cdico \<Rightarrow> string \<Rightarrow> (int \<times> cdico) option" where
  "jfs_getinfo env tr d devname =
     (case read_super env tr devname JFS_SUPER1_OFF sizeof_jfs_superblock of
        Inl err \<Rightarrow> Some (err, d)
      | Inr sb \<Rightarrow>
          (let mem = b_mem env
           in if \<not> sb_magic_is sb 0 JFS_MAGIC then Some (-4, d)
              else do {
                s_label \<leftarrow> sb_string sb 152;
                Some (0, dico_steps
                  [\<lambda>d. dico_add_string mem d 0 FSYSHEADKEY_FSLABEL s_label,
                   \<lambda>d. dico_add_string mem d 0 FSYSHEADKEY_FSUUID (b_unparse env (take 16 (drop 136 sb))),
                   \<lambda>d. dico_add_u64 mem d 0 FSYSHEADKEY_MINFSAVERSION (FSA_VERSION_BUILD 0 6 4 0)] d)
              }))"

definition jfs_mount :: "benv \<Rightarrow> bcall list \<Rightarrow> string \<Rightarrow> string \<Rightarrow> string \<Rightarrow> u32 \<Rightarrow> int \<times> bcall list" where
  "jfs_mount env tr part mntbuf fsbuf flags = back_mount env tr part mntbuf fsbuf None flags"

definition jfs_umount :: "benv \<Rightarrow> bcall list \<Rightarrow> string \<Rightarrow> int \<times> bcall list" where
  "jfs_umount env tr mntbuf = back_umount env tr mntbuf"

definition jfs_test :: "benv \<Rightarrow> bcall list \<Rightarrow> string \<Rightarrow> bool" where
  "jfs_test env tr devname =
     (case read_super env tr devname JFS_SUPER1_OFF sizeof_jfs_superblock of
        Inl err \<Rightarrow> False
      | Inr sb \<Rightarrow> sb_magic_is sb 0 JFS_MAGIC)"

definition jfs_get_reqmntopt :: "malloc \<Rightarrow> cstrlist \<Rightarrow> cstrlist \<Rightarrow> int \<times> cstrlist \<times> cstrlist" where
  "jfs_get_reqmntopt mem reqopt badopt = (0, reqopt, badopt)"

end
