(* ===== verification/Fstable.thy ===== *)
theory Fstable
  imports Fsext Fsxfs Fsbtrfs Fsntfs Fsother
begin

text \<open>The functions of the table of filesystems in filesys.c, entry by entry in the order of \<open>filesys\<close>. Where a back end
  has no undefined case its function is wrapped in Some.\<close>

record cfsops =
  fo_mount :: "benv \<Rightarrow> bcall list \<Rightarrow> string \<Rightarrow> string \<Rightarrow> string \<Rightarrow> u32 \<Rightarrow> string \<Rightarrow> (int \<times> bcall list) option"
  fo_umount :: "benv \<Rightarrow> bcall list \<Rightarrow> string \<Rightarrow> (int \<times> bcall list) option"
  fo_getinfo :: "benv \<Rightarrow> bcall list \<Rightarrow> cdico \<Rightarrow> string \<Rightarrow> (int \<times> cdico) option"
  fo_mkfs :: "benv \<Rightarrow> bcall list \<Rightarrow> cdico \<Rightarrow> string \<Rightarrow> string \<Rightarrow> string \<Rightarrow> string \<Rightarrow> (int \<times> bcall list) option"
  fo_test :: "benv \<Rightarrow> bcall list \<Rightarrow> string \<Rightarrow> bool"
  fo_reqmntopt :: "malloc \<Rightarrow> cstrlist \<Rightarrow> cstrlist \<Rightarrow> int \<times> cstrlist \<times> cstrlist"

text \<open>A mount function that does not use the stored mount information, and the ones without an undefined case.\<close>

definition plain_mount ::
    "(benv \<Rightarrow> bcall list \<Rightarrow> string \<Rightarrow> string \<Rightarrow> string \<Rightarrow> u32 \<Rightarrow> int \<times> bcall list) \<Rightarrow>
     benv \<Rightarrow> bcall list \<Rightarrow> string \<Rightarrow> string \<Rightarrow> string \<Rightarrow> u32 \<Rightarrow> string \<Rightarrow> (int \<times> bcall list) option" where
  "plain_mount f env tr part mntbuf fsbuf flags mntinfo = Some (f env tr part mntbuf fsbuf flags)"

definition plain_umount ::
    "(benv \<Rightarrow> bcall list \<Rightarrow> string \<Rightarrow> int \<times> bcall list) \<Rightarrow> benv \<Rightarrow> bcall list \<Rightarrow> string \<Rightarrow> (int \<times> bcall list) option" where
  "plain_umount f env tr mntbuf = Some (f env tr mntbuf)"

definition plain_getinfo ::
    "(benv \<Rightarrow> bcall list \<Rightarrow> cdico \<Rightarrow> string \<Rightarrow> int \<times> cdico) \<Rightarrow>
     benv \<Rightarrow> bcall list \<Rightarrow> cdico \<Rightarrow> string \<Rightarrow> (int \<times> cdico) option" where
  "plain_getinfo f env tr d devname = Some (f env tr d devname)"

definition filesys_ops :: "cfsops list" where
  "filesys_ops =
     [\<lparr>fo_mount = plain_mount extfs_mount, fo_umount = plain_umount extfs_umount, fo_getinfo = plain_getinfo extfs_getinfo,
       fo_mkfs = ext2_mkfs, fo_test = ext2_test, fo_reqmntopt = extfs_get_reqmntopt\<rparr>,
      \<lparr>fo_mount = plain_mount extfs_mount, fo_umount = plain_umount extfs_umount, fo_getinfo = plain_getinfo extfs_getinfo,
       fo_mkfs = ext3_mkfs, fo_test = ext3_test, fo_reqmntopt = extfs_get_reqmntopt\<rparr>,
      \<lparr>fo_mount = plain_mount extfs_mount, fo_umount = plain_umount extfs_umount, fo_getinfo = plain_getinfo extfs_getinfo,
       fo_mkfs = ext4_mkfs, fo_test = ext4_test, fo_reqmntopt = extfs_get_reqmntopt\<rparr>,
      \<lparr>fo_mount = plain_mount reiserfs_mount, fo_umount = plain_umount reiserfs_umount, fo_getinfo = reiserfs_getinfo,
       fo_mkfs = reiserfs_mkfs, fo_test = reiserfs_test, fo_reqmntopt = reiserfs_get_reqmntopt\<rparr>,
      \<lparr>fo_mount = plain_mount reiser4_mount, fo_umount = plain_umount reiser4_umount, fo_getinfo = reiser4_getinfo,
       fo_mkfs = reiser4_mkfs, fo_test = reiser4_test, fo_reqmntopt = reiser4_get_reqmntopt\<rparr>,
      \<lparr>fo_mount = plain_mount btrfs_mount, fo_umount = plain_umount btrfs_umount, fo_getinfo = btrfs_getinfo,
       fo_mkfs = btrfs_mkfs, fo_test = btrfs_test, fo_reqmntopt = btrfs_get_reqmntopt\<rparr>,
      \<lparr>fo_mount = plain_mount xfs_mount, fo_umount = plain_umount xfs_umount, fo_getinfo = xfs_getinfo,
       fo_mkfs = xfs_mkfs, fo_test = xfs_test, fo_reqmntopt = xfs_get_reqmntopt\<rparr>,
      \<lparr>fo_mount = plain_mount jfs_mount, fo_umount = plain_umount jfs_umount, fo_getinfo = jfs_getinfo,
       fo_mkfs = jfs_mkfs, fo_test = jfs_test, fo_reqmntopt = jfs_get_reqmntopt\<rparr>,
      \<lparr>fo_mount = ntfs_mount, fo_umount = ntfs_umount, fo_getinfo = ntfs_getinfo,
       fo_mkfs = ntfs_mkfs, fo_test = ntfs_test, fo_reqmntopt = ntfs_get_reqmntopt\<rparr>,
      \<lparr>fo_mount = plain_mount vfat_mount, fo_umount = plain_umount vfat_umount, fo_getinfo = plain_getinfo vfat_getinfo,
       fo_mkfs = vfat_mkfs, fo_test = vfat_test, fo_reqmntopt = vfat_get_reqmntopt\<rparr>]"

lemma filesys_ops_length [simp]: "length filesys_ops = length filesys"
  by (simp add: filesys_ops_def filesys_def)

end
