(* ===== verification/Archinfo.thy ===== *)
theory Archinfo
  imports Fsback Archreader
begin

text \<open>archinfo.c: what the command archinfo shows of an archive. The values that are shown are modelled, not the layout of
  the lines nor the sizes in other units, which are computed with floating-point numbers.\<close>

definition compalgostr :: "u32 \<Rightarrow> string" where
  "compalgostr algo =
     (if algo = ucast COMPRESS_NONE then ''none'' else if algo = ucast COMPRESS_LZO then ''lzo''
      else if algo = ucast COMPRESS_GZIP then ''gzip'' else if algo = ucast COMPRESS_BZIP2 then ''bzip2''
      else if algo = ucast COMPRESS_LZMA then ''lzma'' else if algo = ucast COMPRESS_LZ4 then ''lz4''
      else if algo = ucast COMPRESS_ZSTD then ''zstd'' else ''unknown'')"

definition cryptalgostr :: "u32 \<Rightarrow> string" where
  "cryptalgostr algo =
     (if algo = ucast ENCRYPT_NONE then ''none'' else if algo = ucast ENCRYPT_BLOWFISH then ''blowfish'' else ''unknown'')"

text \<open>What is shown of the main header; a value that is not shown is None.\<close>

record mainhead_shown =
  mh_type :: string
  mh_fscount :: "u64 option"
  mh_archid :: string
  mh_filefmt :: "string option"
  mh_creatver :: "string option"
  mh_created :: string
  mh_label :: "string option"
  mh_minfsaver :: "u64 option"
  mh_fsacomp :: u32
  mh_compalgo :: string
  mh_complevel :: u32
  mh_cryptalgo :: string

definition archinfo_show_mainhead :: "(u64 \<Rightarrow> ctm) \<Rightarrow> carchreader \<Rightarrow> int \<times> mainhead_shown" where
  "archinfo_show_mainhead localtime ai =
     (0, \<lparr>mh_type = (if archtype ai = ARCHTYPE_FILESYSTEMS then ''filesystems'' else ''flat files''),
          mh_fscount = (if archtype ai = ARCHTYPE_FILESYSTEMS then Some (fscount ai) else None),
          mh_archid = show_hex ''0123456789abcdef'' 8 (archid ai),
          mh_filefmt = buf_string (filefmt ai), mh_creatver = buf_string (creatver ai),
          mh_created = format_time (localtime (creattime ai)) 256, mh_label = buf_string (label ai),
          mh_minfsaver = (if minfsaver ai > 0 then Some (minfsaver ai) else None),
          mh_fsacomp = fsacomp ai, mh_compalgo = compalgostr (compalgo ai), mh_complevel = complevel ai,
          mh_cryptalgo = cryptalgostr (cryptalgo ai)\<rparr>)"

record fshead_shown =
  fh_id :: nat
  fh_format :: "string option"
  fh_label :: "string option"
  fh_uuid :: "string option"
  fh_origdev :: "string option"
  fh_total :: u64
  fh_used :: u64

text \<open>A string of the header, or another text when the entry is missing or too long.\<close>

definition shown_string :: "cdico \<Rightarrow> u16 \<Rightarrow> string \<Rightarrow> string option" where
  "shown_string d key other =
     (let (r, buffer) = dico_get_string d 0 key 256 in if r < 0 then Some other else buf_string buffer)"

text \<open>The identifier of a filesystem: that of NTFS, the serial number of FAT, or a UUID.\<close>

definition shown_uuid :: "benv \<Rightarrow> cdico \<Rightarrow> string option" where
  "shown_uuid env d =
     (let (r64, temp64) = dico_get_u64 d 0 FSYSHEADKEY_NTFSUUID (b_junk env 8);
          (r32, temp32) = dico_get_u32 d 0 FSYSHEADKEY_FSVFATSERIAL (b_junk env 4)
      in if r64 = 0 then Some (show_hex ''0123456789ABCDEF'' 16 temp64)
         else if r32 = 0 then Some (show_hex ''0123456789ABCDEF'' 8 temp32)
         else map_option (\<lambda>s. case s of Some buffer \<Rightarrow> if length buffer = 36 then buffer else ''<none>'' | None \<Rightarrow> ''<none>'')
                (head_string d FSYSHEADKEY_FSUUID 256))"

definition archinfo_show_fshead :: "benv \<Rightarrow> cdico \<Rightarrow> nat \<Rightarrow> int \<times> fshead_shown option" where
  "archinfo_show_fshead env d fsid =
     (let (r, fsbuf, _) = dico_get_data d 0 FSYSHEADKEY_FILESYSTEM (b_junk env FSA_MAX_FSNAMELEN) (of_nat FSA_MAX_FSNAMELEN)
      in if r \<noteq> 0 then (-1, None)
         else
           (case (head_u64 env d FSYSHEADKEY_BYTESTOTAL, head_u64 env d FSYSHEADKEY_BYTESUSED) of
              (Some fsbytestotal, Some fsbytesused) \<Rightarrow>
                (0, Some \<lparr>fh_id = fsid, fh_format = buf_string fsbuf, fh_label = shown_string d FSYSHEADKEY_FSLABEL ''<none>'',
                          fh_uuid = shown_uuid env d, fh_origdev = shown_string d FSYSHEADKEY_ORIGDEV ''<unknown>'',
                          fh_total = fsbytestotal, fh_used = fsbytesused\<rparr>)
            | _ \<Rightarrow> (-1, None)))"

end
