(* ===== verification/Restfs.thy ===== *)
theory Restfs
  imports Mainhead Fstable Archinfo
begin

text \<open>oper_restore.c, the upper part: extractar_filesystem_extract makes a filesystem, mounts it, extracts its tree and
  unmounts it; oper_restore checks the arguments against the headers of the archive and extracts what was asked for. The
  threads are those of Pipeline and Archio: here they are the queue, from which this thread takes the items.\<close>

section \<open>Environment\<close>

text \<open>\<open>r_fs\<close> tells of devices and mounts, which programs that ran may have changed; \<open>r_stop\<close> is
  get_stopfillqueue at the end; \<open>r_isdir\<close> is stat64 of the destination of restdir.\<close>

record restenv =
  r_x :: xenv
  r_b :: benv
  r_fs :: "bcall list \<Rightarrow> fsenv"
  r_lib :: complib
  r_isblk :: "string \<Rightarrow> bool"
  r_isdir :: "string \<Rightarrow> bool option"
  r_stop :: "cqueue \<Rightarrow> bool"
  r_localtime :: "u64 \<Rightarrow> ctm"

text \<open>The version of the program, from configure.ac.\<close>

definition curver :: u64 where
  "curver = FSA_VERSION_BUILD 0 8 10 0"

section \<open>One filesystem\<close>

text \<open>What is checked before the destination is written to: the arguments, the version that the archive asks for and
  that the destination is not mounted.\<close>

definition filesystem_checks :: "restenv \<Rightarrow> bcall list \<Rightarrow> cdico \<Rightarrow> cstrdico \<Rightarrow> (int \<times> string) option" where
  "filesystem_checks env tr dicofs dicocmdline =
     (let (r, part) = strdico_get_string dicocmdline 1024 ''dest'';
          minver = head_u64_or (r_b env) dicofs FSYSHEADKEY_MINFSAVERSION (FSA_VERSION_BUILD 0 6 4 0)
      in if r \<noteq> 0 then Some (-1, part)
         else if curver < minver then Some (-1, part)
         else map_option (\<lambda>(res, _). (if res = 0 then -1 else 0, part))
                (generic_get_mntinfo (r_fs env tr) part (PATH_MAX, 128, FSA_MAX_FSNAMELEN) []))"

text \<open>The name of the filesystem to make: that of the command line or that of the archive.\<close>

definition filesystem_name :: "cdico \<Rightarrow> cstrdico \<Rightarrow> string option option" where
  "filesystem_name dicofs dicocmdline =
     (let (r, tempbuf) = strdico_get_string dicocmdline 1024 ''mkfs''
      in if r = 0 then Some (Some (snprintf_s FSA_MAX_FSNAMELEN tempbuf))
         else
           (let (r, filesystem) = dico_get_string dicofs 0 FSYSHEADKEY_FILESYSTEM (of_nat FSA_MAX_FSNAMELEN)
            in if r < 0 then Some None else map_option Some (buf_string filesystem)))"

text \<open>The index of the filesystem in the table; a missing size in the header is an error too.\<close>

definition filesystem_type :: "restenv \<Rightarrow> cdico \<Rightarrow> cstrdico \<Rightarrow> nat option option" where
  "filesystem_type env dicofs dicocmdline =
     (case filesystem_name dicofs dicocmdline of
        None \<Rightarrow> None
      | Some None \<Rightarrow> Some None
      | Some (Some filesystem) \<Rightarrow>
          if head_u64 (r_b env) dicofs FSYSHEADKEY_BYTESTOTAL = None then Some None
          else if head_u64 (r_b env) dicofs FSYSHEADKEY_BYTESUSED = None then Some None
          else (let (r, fstype) = generic_get_fstype filesystem in Some (if r \<noteq> 0 then None else Some (nat fstype))))"

definition filesystem_umount :: "restenv \<Rightarrow> bcall list \<Rightarrow> nat \<Rightarrow> string \<Rightarrow> int \<Rightarrow> (int \<times> bcall list) option" where
  "filesystem_umount env tr fstype mntbuf ret =
     map_option (\<lambda>(r, tr). if r \<noteq> 0 then (-1, tr) else (ret, tr @ [Do_rmdir mntbuf]))
       (fo_umount (filesys_ops ! fstype) (r_b env) tr mntbuf)"

text \<open>The tree and the header that ends the filesystem. A header that is another one than expected is reported, but the
  result stays 0.\<close>

definition filesystem_objects :: "restenv \<Rightarrow> string \<Rightarrow> nat \<Rightarrow> cextractar \<Rightarrow> (int \<times> cextractar) option" where
  "filesystem_objects env mntbuf fstype exar =
     do {
       (r, errors, exar) \<leftarrow> extractar_extract_read_objects (r_x env) mntbuf fstype exar;
       if r \<noteq> 0 \<or> errors > 0 then Some (-1, exar)
       else do {
         (lres, head, exar) \<leftarrow> x_dequeue_header exar;
         Some (if lres \<le> 0 \<or> head = None then -1 else 0, exar)
       }
     }"

definition extractar_filesystem_extract ::
    "restenv \<Rightarrow> bcall list \<Rightarrow> cdico \<Rightarrow> cstrdico \<Rightarrow> cextractar \<Rightarrow> (int \<times> bcall list \<times> cextractar) option" where
  "extractar_filesystem_extract env tr dicofs dicocmdline exar =
     do {
       (r, part) \<leftarrow> filesystem_checks env tr dicofs dicocmdline;
       if r \<noteq> 0 then Some (-1, tr, exar)
       else do {
         (lres, head, exar) \<leftarrow> x_dequeue_header exar;
         (case head of
            None \<Rightarrow> Some (-1, tr, exar)
          | Some (dicobegin, magic, _) \<Rightarrow>
              if lres \<le> 0 \<or> magic \<noteq> FSA_MAGIC_FSYB then Some (-1, tr, exar)
              else do {
                fstype \<leftarrow> filesystem_type env dicofs dicocmdline;
                (case fstype of
                   None \<Rightarrow> Some (-1, tr, exar)
                 | Some fstype \<Rightarrow> do {
                     let mkfsoptions = snd (strdico_get_string dicocmdline 1024 ''mkfsopt'');
                     let mkfslabel = snd (strdico_get_string dicocmdline 1024 ''label'');
                     let mkfsuuid = snd (strdico_get_string dicocmdline 1024 ''uuid'');
                     (r, tr) \<leftarrow> fo_mkfs (filesys_ops ! fstype) (r_b env) tr dicofs part mkfsoptions mkfslabel mkfsuuid;
                     if r \<noteq> 0 then Some (-1, tr, exar)
                     else do {
                       let tr = back_mkdir (r_b env) tr [];
                       let mntbuf = generate_random_tmpdir (b_now (r_b env) tr) PATH_MAX 0;
                       let tr = back_mkdir (r_b env) tr mntbuf;
                       mountinfo \<leftarrow> head_string dicofs FSYSHEADKEY_MOUNTINFO 4096;
                       (r, tr) \<leftarrow> fo_mount (filesys_ops ! fstype) (r_b env) tr part mntbuf (fs_name (filesys ! fstype)) 0
                                   (case mountinfo of Some s \<Rightarrow> s | None \<Rightarrow> []);
                       if r \<noteq> 0 then Some (-1, tr, exar)
                       else do {
                         (ret, exar) \<leftarrow> filesystem_objects env mntbuf fstype exar;
                         (ret, tr) \<leftarrow> filesystem_umount env tr fstype mntbuf ret;
                         Some (ret, tr, exar)
                       }
                     }
                   })
              })
       }
     }"

section \<open>The headers in front\<close>

text \<open>oper_restore sets its arguments up: for restfs a dictionary for every filesystem that is wanted, and the flags that tell
  the reader thread which filesystems to read.\<close>

definition restore_args ::
    "restenv \<Rightarrow> nat \<Rightarrow> string option list \<Rightarrow> int \<times> cstrdico option list \<times> u8 list" where
  "restore_args env oper argv =
     (let dicoargv = replicate FSA_MAX_FSPERARCH None; bitmap = replicate FSA_MAX_FSPERARCH 0
      in if oper = OPER_RESTFS then
           (let (r, dicoargv) = convert_argv_to_strdicos (x_mem (r_x env)) (r_isblk env) argv dicoargv
            in (r, dicoargv, if r \<noteq> 0 then bitmap else map (\<lambda>d. if d \<noteq> None then 1 else 0) dicoargv))
         else if oper = OPER_RESTDIR then (0, dicoargv, bitmap[0 := 1])
         else (0, dicoargv, bitmap))"

text \<open>What the main header must agree with: the version it asks for, the kind of archive and the ids of the arguments.\<close>

definition restore_head_ok :: "nat \<Rightarrow> carchreader \<Rightarrow> cstrdico option list \<Rightarrow> bool" where
  "restore_head_ok oper ai dicoargv =
     (if (oper = OPER_RESTFS \<or> oper = OPER_RESTDIR) \<and> curver < minfsaver ai then False
      else if archtype ai = ARCHTYPE_DIRECTORIES \<and> oper = OPER_RESTFS then False
      else if archtype ai = ARCHTYPE_FILESYSTEMS \<and> oper = OPER_RESTDIR then False
      else if archtype ai \<noteq> ARCHTYPE_DIRECTORIES \<and> archtype ai \<noteq> ARCHTYPE_FILESYSTEMS then False
      else \<not> (\<exists>i \<in> set [0..<FSA_MAX_FSPERARCH]. dicoargv ! i \<noteq> None \<and> unat (fscount ai) \<le> i))"

text \<open>The headers of the filesystems with the sum of the costs of those that are wanted. False is an error.\<close>

fun restore_fsinfos ::
    "restenv \<Rightarrow> nat \<Rightarrow> cstrdico option list \<Rightarrow> nat list \<Rightarrow> cdico list \<Rightarrow> cextractar \<Rightarrow> (bool \<times> cdico list \<times> cextractar) option" where
  "restore_fsinfos env oper dicoargv [] dicofsinfo exar = Some (True, dicofsinfo, exar)"
| "restore_fsinfos env oper dicoargv (i # is) dicofsinfo exar =
     Option.bind (x_dequeue_header exar) (\<lambda>(lres, head, exar).
       (case head of
          None \<Rightarrow> Some (False, dicofsinfo, exar)
        | Some (d, magic, _) \<Rightarrow>
            if lres \<le> 0 \<or> magic \<noteq> FSA_MAGIC_FSIN then Some (False, dicofsinfo, exar)
            else if oper = OPER_ARCHINFO \<and> fst (archinfo_show_fshead (r_b env) d i) \<noteq> 0 then Some (False, dicofsinfo, exar)
            else
              (let exar = (case (dicoargv ! i, head_u64 (r_b env) d FSYSHEADKEY_TOTALCOST) of
                     (Some _, Some fscost) \<Rightarrow> exar\<lparr>xr_cost_global := xr_cost_global exar + fscost\<rparr>
                   | _ \<Rightarrow> exar)
               in restore_fsinfos env oper dicoargv is (dicofsinfo @ [d]) exar)))"

text \<open>The header with the statistics of an archive of directories.\<close>

definition restore_dirsinfo :: "restenv \<Rightarrow> cextractar \<Rightarrow> (bool \<times> cextractar) option" where
  "restore_dirsinfo env exar =
     (if archtype (xr_ai exar) = ARCHTYPE_DIRECTORIES \<and> hasdirsinfohead (xr_ai exar) = 1 then
        Option.bind (x_dequeue_header exar) (\<lambda>(lres, head, exar).
          (case head of
             None \<Rightarrow> Some (False, exar)
           | Some (d, magic, _) \<Rightarrow>
               if lres \<le> 0 \<or> magic \<noteq> FSA_MAGIC_DIRS then Some (False, exar)
               else (case head_u64 (r_b env) d DIRSINFOKEY_TOTALCOST of
                       None \<Rightarrow> Some (False, exar)
                     | Some cost \<Rightarrow> Some (True, exar\<lparr>xr_cost_global := cost\<rparr>))))
      else Some (True, exar))"

section \<open>The whole restoration\<close>

definition zero_stats :: cstats where
  "zero_stats =
     \<lparr>cnt_regfile = 0, cnt_dir = 0, cnt_symlink = 0, cnt_hardlink = 0, cnt_special = 0,
      err_regfile = 0, err_dir = 0, err_symlink = 0, err_hardlink = 0, err_special = 0\<rparr>"

text \<open>The filesystems that are wanted, one after the other; the first failure ends the loop. The result is whether all went
  well and the number of errors that were counted.\<close>

fun restore_filesystems ::
    "restenv \<Rightarrow> cstrdico option list \<Rightarrow> cdico list \<Rightarrow> nat list \<Rightarrow> u64 \<Rightarrow> bcall list \<Rightarrow> cextractar \<Rightarrow>
     (bool \<times> u64 \<times> bcall list \<times> cextractar) option" where
  "restore_filesystems env dicoargv dicofsinfo [] totalerr tr exar = Some (True, totalerr, tr, exar)"
| "restore_filesystems env dicoargv dicofsinfo (i # is) totalerr tr exar =
     (if x_abort (r_x env) (xr_queue exar) then Some (True, totalerr, tr, exar)
      else
        (case dicoargv ! i of
           None \<Rightarrow> restore_filesystems env dicoargv dicofsinfo is totalerr tr exar
         | Some dicocmdline \<Rightarrow>
             Option.bind
               (extractar_filesystem_extract env tr (dicofsinfo ! i) dicocmdline
                  (exar\<lparr>xr_fsid := of_nat i, xr_stats := zero_stats\<rparr>))
               (\<lambda>(r, tr, exar).
                  if r \<noteq> 0 then Some (False, totalerr, tr, exar)
                  else restore_filesystems env dicoargv dicofsinfo is (totalerr + stats_errcount (xr_stats exar)) tr exar)))"

definition restore_directories ::
    "restenv \<Rightarrow> string option list \<Rightarrow> cextractar \<Rightarrow> (bool \<times> u64 \<times> cextractar) option" where
  "restore_directories env argv exar =
     (let destdir = (if argv = [] then None else hd argv);
          exar = exar\<lparr>xr_fsid := 0\<rparr>
      in case destdir of
           None \<Rightarrow> Some (False, 0, exar)
         | Some destdir \<Rightarrow>
             if r_isdir env destdir \<noteq> Some True then Some (False, 0, exar)
             else
               map_option (\<lambda>(r, errors, exar).
                   if r \<noteq> 0 then (False, 0, exar) else (True, stats_errcount (xr_stats exar), exar))
                 (extractar_extract_read_objects (r_x env) destdir 0 (exar\<lparr>xr_stats := zero_stats\<rparr>)))"

text \<open>What is extracted after the headers have been read.\<close>

definition restore_contents ::
    "restenv \<Rightarrow> nat \<Rightarrow> string option list \<Rightarrow> cstrdico option list \<Rightarrow> cdico list \<Rightarrow> bcall list \<Rightarrow> cextractar \<Rightarrow>
     (bool \<times> u64 \<times> bcall list \<times> cextractar) option" where
  "restore_contents env oper argv dicoargv dicofsinfo tr exar =
     (if oper \<noteq> OPER_RESTFS \<and> oper \<noteq> OPER_RESTDIR then Some (True, 0, tr, exar)
      else if cryptalgo (xr_ai exar) \<noteq> ucast ENCRYPT_NONE \<and> encryptalgo (x_opt (r_x env)) \<noteq> ENCRYPT_BLOWFISH
      then Some (False, 0, tr, exar)
      else if archtype (xr_ai exar) = ARCHTYPE_FILESYSTEMS then
        restore_filesystems env dicoargv dicofsinfo [0..<min (unat (fscount (xr_ai exar))) FSA_MAX_FSPERARCH] 0 tr exar
      else map_option (\<lambda>(ok, totalerr, exar). (ok, totalerr, tr, exar)) (restore_directories env argv exar))"

text \<open>The result of the command: 0 only without a failure, an abort, a stop of the threads and an error that was
  counted.\<close>

definition restore_result :: "restenv \<Rightarrow> bool \<times> u64 \<times> bcall list \<times> cextractar \<Rightarrow> int \<times> bcall list \<times> cextractar" where
  "restore_result env x =
     (let (ok, totalerr, tr, exar) = x;
          ret = (if ok \<and> \<not> x_abort (r_x env) (xr_queue exar) \<and> \<not> r_stop env (xr_queue exar) then 0 else -1)
      in (if totalerr > 0 then -1 else ret, tr, exar))"

text \<open>The state of the extraction begins empty, with the path of the archive; only the queue, which the other
  threads fill, and the system are there before.\<close>

definition extractar_start :: "string \<Rightarrow> cextractar \<Rightarrow> cextractar" where
  "extractar_start archive exar =
     exar\<lparr>xr_ai := archreader_init\<lparr>basepath := snprintf_s PATH_MAX archive\<rparr>, xr_fsid := 0, xr_stats := zero_stats,
       xr_cost_global := 0, xr_cost_current := 0\<rparr>"

definition oper_restore ::
    "restenv \<Rightarrow> string \<Rightarrow> nat \<Rightarrow> string option list \<Rightarrow> bcall list \<Rightarrow> cextractar \<Rightarrow>
     (int \<times> bcall list \<times> cextractar) option" where
  "oper_restore env archive oper argv tr exar =
     (let exar = extractar_start archive exar;
          (r, dicoargv, bitmap) = restore_args env oper argv;
          failed = (\<lambda>exar. Some (restore_result env (False, 0, tr, exar)))
      in if r \<noteq> 0 then failed exar
         else do {
           (r, head, exar) \<leftarrow> extractar_read_mainhead (r_x env) (r_lib env) exar;
           if r < 0 \<or> head = None then failed exar
           else if oper = OPER_ARCHINFO \<and> fst (archinfo_show_mainhead (r_localtime env) (xr_ai exar)) \<noteq> 0 then failed exar
           else if \<not> restore_head_ok oper (xr_ai exar) dicoargv then failed exar
           else do {
             (ok, dicofsinfo, exar) \<leftarrow>
               (if archtype (xr_ai exar) = ARCHTYPE_FILESYSTEMS
                then restore_fsinfos env oper dicoargv [0..<min (unat (fscount (xr_ai exar))) FSA_MAX_FSPERARCH] [] exar
                else Some (True, [], exar));
             if \<not> ok then failed exar
             else do {
               (ok, exar) \<leftarrow> restore_dirsinfo env exar;
               if \<not> ok then failed exar
               else map_option (restore_result env) (restore_contents env oper argv dicoargv dicofsinfo tr exar)
             }
           }
         })"

end
