(* ===== verification/Savefs.thy ===== *)
theory Savefs
  imports Mainhead Fstable
begin

text \<open>oper_save.c, the upper part: filesystem_mount_partition mounts a partition and fills its header, and oper_save writes all
  headers and then the contents, and unmounts what it mounted. The threads are those of Pipeline and Archio: here
  this thread adds its items to the queue, and \<open>w_writer\<close> is what the writer thread has made of them at the end.\<close>

section \<open>Environment\<close>

text \<open>\<open>w_getxattr\<close> is lgetxattr: the result, and whether errno is ENOTSUP; \<open>w_statvfs\<close> the fragment size, the blocks and the
  free blocks; \<open>w_isblk\<close> and \<open>w_isdir\<close> what stat64 says of an argument. The remaining fields are the random buffer, the
  uninitialised buffer and the clock of the main header.\<close>

record saveenv =
  w_s :: senv
  w_b :: benv
  w_fs :: "bcall list \<Rightarrow> fsenv"
  w_lib :: complib
  w_env :: wenv
  w_getxattr :: "bcall list \<Rightarrow> string \<Rightarrow> string \<Rightarrow> int \<times> bool"
  w_statvfs :: "bcall list \<Rightarrow> string \<Rightarrow> (u64 \<times> u64 \<times> u64) option"
  w_isblk :: "string \<Rightarrow> bool"
  w_isdir :: "string \<Rightarrow> bool"
  w_random :: "u8 list"
  w_cryptjunk :: "u8 list"
  w_time :: u64
  w_clock :: "(u64 \<times> u64) list"
  w_writer :: "(qstatus \<times> qinfo) list \<Rightarrow> carchwriter \<times> disk"

record cdevinfo =
  dv_devpath :: string
  dv_partmount :: string
  dv_mountedbyfsa :: bool
  dv_fstype :: nat

definition MS_BIND :: u32 where
  "MS_BIND = 4096"

section \<open>Mounting a partition\<close>

text \<open>The options that a mounted partition must have and must not have; with the option -a they are not binding.\<close>

fun required_options :: "bool \<Rightarrow> cstrlist \<Rightarrow> cstrlist \<Rightarrow> bool" where
  "required_options dontcheck curmntopt [] = True"
| "required_options dontcheck curmntopt (item # items) =
     (if \<not> strlist_exists curmntopt (snprintf_s 128 item) \<and> \<not> dontcheck then False
      else required_options dontcheck curmntopt items)"

fun forbidden_options :: "bool \<Rightarrow> cstrlist \<Rightarrow> cstrlist \<Rightarrow> bool" where
  "forbidden_options dontcheck curmntopt [] = True"
| "forbidden_options dontcheck curmntopt (item # items) =
     (if strlist_exists curmntopt (snprintf_s 128 item) \<and> \<not> dontcheck then False
      else forbidden_options dontcheck curmntopt items)"

text \<open>A partition that is mounted already is mounted once more at another place, so that what is behind its mount points is
  seen.\<close>

definition mount_again ::
    "saveenv \<Rightarrow> bcall list \<Rightarrow> cdevinfo \<Rightarrow> mntres \<Rightarrow> int \<times> cdevinfo \<times> bcall list" where
  "mount_again env tr dev m =
     (let (readwrite, curmntdir, optbuf, fsbuf) = m; opt = s_opt (w_s env); mem = s_mem (w_s env);
          dev = dev\<lparr>dv_mountedbyfsa := False\<rparr>
      in if readwrite = 1 \<and> \<not> allowsaverw opt then (-1, dev, tr)
         else
           (let (r, fstype) = generic_get_fstype fsbuf
            in if r \<noteq> 0 then (-1, dev, tr)
               else
                 (let dev = dev\<lparr>dv_fstype := nat fstype\<rparr>;
                      (r, reqmntopt, badmntopt) = fo_reqmntopt (filesys_ops ! dv_fstype dev) mem [] [];
                      curmntopt = snd (strlist_split mem [] optbuf (CHR '',''))
                  in if r \<noteq> 0 then (-1, dev, tr)
                     else if \<not> required_options (dontcheckmountopts opt) curmntopt reqmntopt then (-1, dev, tr)
                     else if \<not> forbidden_options (dontcheckmountopts opt) curmntopt badmntopt then (-1, dev, tr)
                     else
                       (let tr = back_mkdir (w_b env) tr (dv_partmount dev);
                            r = b_mount (w_b env) tr curmntdir (dv_partmount dev) [] (MS_BIND OR MS_RDONLY) None;
                            tr = tr @ [Do_mount curmntdir (dv_partmount dev) [] (MS_BIND OR MS_RDONLY) None]
                        in if r \<noteq> 0 then (-1, dev, tr) else (0, dev\<lparr>dv_mountedbyfsa := True\<rparr>, tr)))))"

text \<open>The first back end whose test accepts the partition and whose mount works.\<close>

fun probe_mount :: "benv \<Rightarrow> bcall list \<Rightarrow> cdevinfo \<Rightarrow> nat list \<Rightarrow> (nat option \<times> bcall list) option" where
  "probe_mount env tr dev [] = Some (None, tr)"
| "probe_mount env tr dev (i # is) =
     (if fo_test (filesys_ops ! i) env tr (dv_devpath dev) then
        Option.bind (fo_mount (filesys_ops ! i) env tr (dv_devpath dev) (dv_partmount dev) (fs_name (filesys ! i)) MS_RDONLY [])
          (\<lambda>(r, tr). if r = 0 then Some (Some i, tr) else probe_mount env tr dev is)
      else probe_mount env tr dev is)"

definition mount_fresh :: "saveenv \<Rightarrow> bcall list \<Rightarrow> cdevinfo \<Rightarrow> (int \<times> cdevinfo \<times> bcall list) option" where
  "mount_fresh env tr dev =
     (let tr = back_mkdir (w_b env) tr (dv_partmount dev)
      in map_option (\<lambda>(tmptype, tr).
           case tmptype of
             None \<Rightarrow> (-1, dev, tr)
           | Some i \<Rightarrow> (0, dev\<lparr>dv_fstype := i, dv_mountedbyfsa := True\<rparr>, tr))
           (probe_mount (w_b env) tr dev [0..<length filesys_ops]))"

text \<open>An experimental back end is refused without the option -x, and so is a filesystem whose extended attributes or ACLs
  cannot be read without the option -a.\<close>

definition attr_unsupported :: "saveenv \<Rightarrow> bcall list \<Rightarrow> cdevinfo \<Rightarrow> string \<Rightarrow> bool" where
  "attr_unsupported env tr dev attr =
     (let (res, enotsup) = w_getxattr env tr (dv_partmount dev) attr in res \<noteq> 0 \<and> enotsup)"

definition mounted_ok :: "saveenv \<Rightarrow> bcall list \<Rightarrow> cdevinfo \<Rightarrow> bool" where
  "mounted_ok env tr dev =
     (let opt = s_opt (w_s env); fs = filesys ! dv_fstype dev
      in if \<not> experimental opt \<and> \<not> stable fs then False
         else if dontcheckmountopts opt then True
         else \<not> (support_for_xattr fs \<and> attr_unsupported env tr dev ''user.fsa_test_xattr'' \<or>
                  support_for_acls fs \<and> attr_unsupported env tr dev ''system.posix_acl_access''))"

definition filesystem_mount_partition ::
    "saveenv \<Rightarrow> bcall list \<Rightarrow> cdevinfo \<Rightarrow> cdico \<Rightarrow> (int \<times> cdevinfo \<times> cdico \<times> bcall list) option" where
  "filesystem_mount_partition env tr dev d =
     do {
       (res, m) \<leftarrow> generic_get_mntinfo (w_fs env tr) (dv_devpath dev) (PATH_MAX, 128, FSA_MAX_FSNAMELEN) [];
       (r, dev, tr) \<leftarrow> (if res = 0 then Some (mount_again env tr dev m) else mount_fresh env tr dev);
       if r \<noteq> 0 then Some (-1, dev, d, tr)
       else if \<not> mounted_ok env tr dev then Some (-1, dev, d, tr)
       else
         (case w_statvfs env tr (dv_partmount dev) of
            None \<Rightarrow> Some (-1, dev, d, tr)
          | Some (f_frsize, f_blocks, f_bfree) \<Rightarrow> do {
              let mem = s_mem (w_s env);
              let fsbytestotal = f_frsize * f_blocks;
              let d = dico_steps
                [\<lambda>d. dico_add_string mem d 0 FSYSHEADKEY_FILESYSTEM (fs_name (filesys ! dv_fstype dev)),
                 \<lambda>d. dico_add_string mem d 0 FSYSHEADKEY_MNTPATH (dv_partmount dev),
                 \<lambda>d. dico_add_string mem d 0 FSYSHEADKEY_ORIGDEV (dv_devpath dev),
                 \<lambda>d. dico_add_u64 mem d 0 FSYSHEADKEY_BYTESTOTAL fsbytestotal,
                 \<lambda>d. dico_add_u64 mem d 0 FSYSHEADKEY_BYTESUSED (fsbytestotal - f_frsize * f_bfree)] d;
              (r, d) \<leftarrow> fo_getinfo (filesys_ops ! dv_fstype dev) (w_b env) tr d (dv_devpath dev);
              Some (if r \<noteq> 0 then -1 else 0, dev, d, tr)
            })
     }"

section \<open>Saving\<close>

text \<open>The state of oper_save: the filesystems that were prepared (of all of them those that are mounted must be unmounted at
  the end), their headers and the calls.\<close>

record savestate =
  ss_save :: csavear
  ss_devs :: "cdevinfo list"
  ss_heads :: "cdico list"
  ss_trace :: "bcall list"
  ss_totalerr :: u64

definition new_devinfo :: "saveenv \<Rightarrow> savestate \<Rightarrow> string \<Rightarrow> nat \<Rightarrow> cdevinfo" where
  "new_devinfo env s arg i =
     \<lparr>dv_devpath = snprintf_s PATH_MAX arg,
      dv_partmount = generate_random_tmpdir (b_now (w_b env) (ss_trace s)) PATH_MAX i,
      dv_mountedbyfsa = False, dv_fstype = 0\<rparr>"

text \<open>Every partition is mounted; the first failure ends the loop, and what it had mounted stays in the state.
  The arrays have 128 places.\<close>

fun mount_all :: "saveenv \<Rightarrow> string list \<Rightarrow> nat \<Rightarrow> savestate \<Rightarrow> (bool \<times> savestate) option" where
  "mount_all env [] i s = Some (True, s)"
| "mount_all env (arg # args) i s =
     (if FSA_MAX_FSPERARCH \<le> i then None
      else case dico_alloc (s_mem (w_s env)) of
        None \<Rightarrow> Some (False, s)
      | Some d \<Rightarrow>
          Option.bind (filesystem_mount_partition env (ss_trace s) (new_devinfo env s arg i) d) (\<lambda>(r, dev, d, tr).
            (let s = s\<lparr>ss_devs := ss_devs s @ [dev], ss_heads := ss_heads s @ [d], ss_trace := tr\<rparr>
             in if r \<noteq> 0 then Some (False, s) else mount_all env args (i + 1) s)))"

text \<open>The cost of a tree, by a first walk that adds nothing to the archive.\<close>

definition eval_cost :: "saveenv \<Rightarrow> string \<Rightarrow> savestate \<Rightarrow> (bool \<times> u64 \<times> savestate) option" where
  "eval_cost env rootdir s =
     map_option (\<lambda>(r, cost, save).
         (r = 0, case cost of Some c \<Rightarrow> c | None \<Rightarrow> 0, s\<lparr>ss_save := save\<rparr>))
       (createar_save_directory_wrapper (w_s env) (ss_save s) rootdir ''/'' (Some 0))"

text \<open>A header for the queue; the result of the addition is looked at.\<close>

definition add_head :: "saveenv \<Rightarrow> cdico \<Rightarrow> u8 list \<Rightarrow> savestate \<Rightarrow> int \<times> savestate" where
  "add_head env d magic s =
     (let (r, save) = g_queue_add (w_s env) (header_item d magic FSA_FILESYSID_NULL) (ss_save s)
      in (r, s\<lparr>ss_save := save\<rparr>))"

definition add_cost :: "u64 \<Rightarrow> savestate \<Rightarrow> savestate" where
  "add_cost cost s = s\<lparr>ss_save := (ss_save s)\<lparr>sv_cost_global := sv_cost_global (ss_save s) + cost\<rparr>\<rparr>"

fun analyse_all :: "saveenv \<Rightarrow> (cdevinfo \<times> cdico) list \<Rightarrow> savestate \<Rightarrow> (bool \<times> savestate) option" where
  "analyse_all env [] s = Some (True, s)"
| "analyse_all env ((dev, d) # devs) s =
     Option.bind (eval_cost env (dv_partmount dev) s) (\<lambda>(ok, cost_evalfs, s).
       if \<not> ok then Some (False, s)
       else
         (let (r, d) = dico_add_u64 (s_mem (w_s env)) d 0 FSYSHEADKEY_TOTALCOST cost_evalfs
          in if r \<noteq> 0 then Some (False, s)
             else
               (let (r, s) = add_head env d FSA_MAGIC_FSIN (add_cost cost_evalfs s)
                in if r \<noteq> 0 then Some (False, s) else analyse_all env devs s)))"

fun analyse_dirs :: "saveenv \<Rightarrow> string list \<Rightarrow> savestate \<Rightarrow> (bool \<times> savestate) option" where
  "analyse_dirs env [] s = Some (True, s)"
| "analyse_dirs env (arg # args) s =
     Option.bind (eval_cost env arg s) (\<lambda>(ok, cost_evalfs, s).
       if \<not> ok then Some (False, s) else analyse_dirs env args (add_cost cost_evalfs s))"

definition write_dirsinfo :: "saveenv \<Rightarrow> savestate \<Rightarrow> bool \<times> savestate" where
  "write_dirsinfo env s =
     (case dico_alloc (s_mem (w_s env)) of
        None \<Rightarrow> (False, s)
      | Some dirsinfo \<Rightarrow>
          (let (r, dirsinfo) = dico_add_u64 (s_mem (w_s env)) dirsinfo 0 DIRSINFOKEY_TOTALCOST (sv_cost_global (ss_save s))
           in if r \<noteq> 0 then (False, s)
              else (let (r, s) = add_head env dirsinfo FSA_MAGIC_DIRS s in (r = 0, s))))"

definition save_zero_stats :: cstats where
  "save_zero_stats =
     \<lparr>cnt_regfile = 0, cnt_dir = 0, cnt_symlink = 0, cnt_hardlink = 0, cnt_special = 0,
      err_regfile = 0, err_dir = 0, err_symlink = 0, err_hardlink = 0, err_special = 0\<rparr>"

definition count_errors :: "savestate \<Rightarrow> savestate" where
  "count_errors s = s\<lparr>ss_totalerr := ss_totalerr s + stats_errcount (sv_stats (ss_save s))\<rparr>"

fun save_filesystems :: "saveenv \<Rightarrow> cdevinfo list \<Rightarrow> nat \<Rightarrow> savestate \<Rightarrow> (bool \<times> savestate) option" where
  "save_filesystems env [] i s = Some (True, s)"
| "save_filesystems env (dev # devs) i s =
     (if save_interrupted (w_s env) (ss_save s) then Some (True, s)
      else
        Option.bind (createar_oper_savefs (w_s env)
            ((ss_save s)\<lparr>sv_fsid := of_nat i, sv_stats := save_zero_stats\<rparr>) (dv_partmount dev) (dv_fstype dev))
          (\<lambda>(r, save).
             (let s = s\<lparr>ss_save := save\<rparr>
              in if r \<noteq> 0 then Some (False, s) else save_filesystems env devs (i + 1) (count_errors s))))"

fun save_directories :: "saveenv \<Rightarrow> string list \<Rightarrow> savestate \<Rightarrow> (bool \<times> savestate) option" where
  "save_directories env [] s = Some (True, s)"
| "save_directories env (arg # args) s =
     (if save_interrupted (w_s env) (ss_save s) then Some (True, s)
      else
        Option.bind (createar_oper_savedir (w_s env) (ss_save s) arg) (\<lambda>(r, save).
          (let s = s\<lparr>ss_save := save\<rparr> in if r \<noteq> 0 then Some (False, s) else save_directories env args s)))"

text \<open>The headers and the contents for each kind of archive, after the main header.\<close>

definition reset_counters :: "savestate \<Rightarrow> savestate" where
  "reset_counters s = s\<lparr>ss_save := (ss_save s)\<lparr>sv_cost_current := 0, sv_objectid := 0\<rparr>\<rparr>"

definition save_as_filesystems :: "saveenv \<Rightarrow> string list \<Rightarrow> savestate \<Rightarrow> (bool \<times> savestate) option" where
  "save_as_filesystems env args s =
     do {
       (ok, s) \<leftarrow> mount_all env args 0 s;
       if \<not> ok then Some (False, s)
       else do {
         (ok, s) \<leftarrow> analyse_all env (zip (ss_devs s) (ss_heads s)) s;
         if \<not> ok then Some (False, s) else save_filesystems env (ss_devs s) 0 (reset_counters s)
       }
     }"

definition save_as_directories :: "saveenv \<Rightarrow> string list \<Rightarrow> savestate \<Rightarrow> (bool \<times> savestate) option" where
  "save_as_directories env args s =
     do {
       (ok, s) \<leftarrow> analyse_dirs env args s;
       if \<not> ok then Some (False, s)
       else
         (let (ok, s) = write_dirsinfo env s
          in if \<not> ok then Some (False, s)
             else do {
               let s = reset_counters s;
               (ok, s) \<leftarrow> save_directories env args
                 (s\<lparr>ss_save := (ss_save s)\<lparr>sv_fsid := 0, sv_fstype := 0, sv_stats := save_zero_stats\<rparr>\<rparr>);
               if \<not> ok then Some (False, s)
               else
                 (case dico_alloc (s_mem (w_s env)) of
                    None \<Rightarrow> Some (False, count_errors s)
                  | Some dicoend \<Rightarrow> Some (True, snd (add_head env dicoend FSA_MAGIC_DATF (count_errors s))))
             })
     }"

text \<open>The end: everything that was mounted is unmounted whatever happened before.\<close>

fun umount_all :: "saveenv \<Rightarrow> cdevinfo list \<Rightarrow> bcall list \<Rightarrow> bcall list option" where
  "umount_all env [] tr = Some tr"
| "umount_all env (dev # devs) tr =
     (if dv_mountedbyfsa dev then
        Option.bind (fo_umount (filesys_ops ! dv_fstype dev) (w_b env) tr (dv_partmount dev)) (\<lambda>(r, tr).
          umount_all env devs (if r \<noteq> 0 then tr else tr @ [Do_rmdir (dv_partmount dev)]))
      else umount_all env devs tr)"

text \<open>The result of the command, and the archive: it is removed after a failure, but not after errors that were counted.\<close>

definition save_end :: "saveenv \<Rightarrow> bool \<times> savestate \<Rightarrow> (int \<times> savestate \<times> carchwriter \<times> disk) option" where
  "save_end env x =
     (let (ok, s) = x; ret = (if ok \<and> \<not> save_interrupted (w_s env) (ss_save s) then 0 else -1);
          (ai, dsk) = w_writer env (sv_added (ss_save s));
          (ai, dsk) = (if ret \<noteq> 0 then snd (archwriter_remove (w_env env) ai dsk) else (ai, dsk))
      in map_option (\<lambda>tr. (if ss_totalerr s > 0 then -1 else ret, s\<lparr>ss_trace := tr\<rparr>, snd (archwriter_destroy ai), dsk))
           (umount_all env (ss_devs s) (ss_trace s)))"

definition oper_save ::
    "saveenv \<Rightarrow> string \<Rightarrow> string list \<Rightarrow> u32 \<Rightarrow> csavear \<Rightarrow> (int \<times> savestate \<times> carchwriter \<times> disk) option" where
  "oper_save env archive args atype save =
     do {
       (_, ai) \<leftarrow> archwriter_generate_id (w_clock env) archwriter_init;
       let ai = ai\<lparr>w_basepath := path_force_extension PATH_MAX archive ''.fsa''\<rparr>;
       let s = \<lparr>ss_save = save\<lparr>sv_ai := ai, sv_cost_global := 0\<rparr>, ss_devs = [], ss_heads = [], ss_trace = [], ss_totalerr = 0\<rparr>;
       let valid = (if atype = ARCHTYPE_FILESYSTEMS then list_all (w_isblk env) args
                    else if atype = ARCHTYPE_DIRECTORIES then list_all (w_isdir env) args else True);
       if \<not> valid then save_end env (False, s)
       else do {
         (r, save) \<leftarrow> createar_write_mainhead (w_s env) (w_lib env) (w_random env) (w_cryptjunk env) (w_time env) (ss_save s)
                       atype (of_nat (length args));
         let s = s\<lparr>ss_save := save\<rparr>;
         if r \<noteq> 0 then save_end env (False, s)
         else
           Option.bind (if atype = ARCHTYPE_FILESYSTEMS then save_as_filesystems env args s
                        else if atype = ARCHTYPE_DIRECTORIES then save_as_directories env args s
                        else Some (False, s))
             (save_end env)
       }
     }"

end
