(* ===== verification/Probe.thy ===== *)
theory Probe
  imports Devinfo "HOL-Library.Multiset"
begin

text \<open>oper_probe.c: the list of the block devices, which is read from /proc/partitions and sorted by the number of the
  device. What oper_probe prints of it is left out.\<close>

section \<open>Numbers of the C library\<close>

text \<open>atoi is strtol whose result is cut to an int, and atoll is strtoll; a text without a number gives 0.\<close>

definition atoll :: "string \<Rightarrow> int" where
  "atoll s = fst (strtoll10 s)"

definition atoi :: "string \<Rightarrow> int" where
  "atoi s = sint (word_of_int (atoll s) :: u32)"

section \<open>Reading the list\<close>

text \<open>The columns of a line of /proc/partitions: major and minor number and the name; missing ones are empty.\<close>

definition partition_columns :: "string \<Rightarrow> string \<times> string \<times> string" where
  "partition_columns line =
     (let cols = strtok_all [CHR '' '', CHR 0x09, CHR 0x0A] line;
          col = (\<lambda>i n. if i < length cols then snprintf_s n (cols ! i) else [])
      in (col 0 256, col 1 256, col 3 1024))"

text \<open>The device of a line; None is a line to be ignored. The outer option is an access outside a buffer.\<close>

definition partition_device :: "benv \<Rightarrow> bcall list \<Rightarrow> string \<Rightarrow> s_devinfo option option" where
  "partition_device env tr line =
     (let (maj, min, devname) = partition_columns line
      in if devname = [] \<or> atoi maj = 0 \<and> atoi min = 0 then Some None
         else map_option (\<lambda>(r, dev). if r \<noteq> 0 then None else Some dev)
                (get_devinfo env tr (snprintf_s 1024 (''/dev/'' @ devname)) (atoi min) (atoi maj)))"

text \<open>The check for a device that is in the list already has no effect: its continue is that of the inner loop.\<close>

function read_partitions ::
    "benv \<Rightarrow> bcall list \<Rightarrow> cfile \<Rightarrow> nat \<Rightarrow> s_devinfo list \<Rightarrow> s_devinfo list option" where
  "read_partitions env tr f maxblkdev blkdev1 =
     (if feof f \<or> FSA_MAX_BLKDEVICES \<le> length blkdev1 \<or> maxblkdev \<le> length blkdev1 then Some blkdev1
      else
        (let (nline, f') = stream_readline f 1024; n = fst nline; line = snd nline
         in if n > 1 then
              (if n \<ge> 1024 then None
               else
                 (case partition_device env tr line of
                    None \<Rightarrow> None
                  | Some None \<Rightarrow> read_partitions env tr f' maxblkdev blkdev1
                  | Some (Some dev) \<Rightarrow> read_partitions env tr f' maxblkdev (blkdev1 @ [dev])))
            else read_partitions env tr f' maxblkdev blkdev1))"
  by pat_completeness auto
termination
  by (relation "measure (\<lambda>(env, tr, f, maxblkdev, blkdev1). stream_left f)")
    (rule wf_measure, unfold in_measure prod.case de_Morgan_disj, (elim conjE, erule (2) stream_readline_less')+)

declare read_partitions.simps [simp del]

section \<open>Sorting it\<close>

text \<open>A device that has been moved to the new array has the number 0. The best of the others is that with the smallest
  number; without any other one the index is -1 and None the access in front of the array.\<close>

definition first_left :: "s_devinfo list \<Rightarrow> nat option" where
  "first_left bl = find (\<lambda>j. di_rdev (bl ! j) \<noteq> 0) [0..<length bl]"

definition better :: "s_devinfo list \<Rightarrow> nat \<Rightarrow> nat \<Rightarrow> nat" where
  "better bl best j = (if di_rdev (bl ! j) > 0 \<and> di_rdev (bl ! j) < di_rdev (bl ! best) then j else best)"

definition best_left :: "s_devinfo list \<Rightarrow> nat option" where
  "best_left bl = map_option (\<lambda>best. foldl (better bl) best [0..<length bl]) (first_left bl)"

fun sort_devices :: "nat \<Rightarrow> s_devinfo list \<Rightarrow> s_devinfo list option" where
  "sort_devices 0 bl = Some []"
| "sort_devices (Suc n) bl =
     (case best_left bl of
        None \<Rightarrow> None
      | Some best \<Rightarrow>
          map_option (\<lambda>blkdev. bl ! best # blkdev) (sort_devices n (bl[best := (bl ! best)\<lparr>di_rdev := 0\<rparr>])))"

text \<open>The number of devices, the sorted list and how many disks and partitions there are.\<close>

definition partlist_getlist ::
    "benv \<Rightarrow> bcall list \<Rightarrow> cfile option \<Rightarrow> nat \<Rightarrow> (int \<times> s_devinfo list \<times> nat \<times> nat) option" where
  "partlist_getlist env tr fpart maxblkdev =
     (case fpart of
        None \<Rightarrow> Some (-1, [], 0, 0)
      | Some f \<Rightarrow> do {
          blkdev1 \<leftarrow> read_partitions env tr f maxblkdev [];
          blkdev \<leftarrow> sort_devices (length blkdev1) blkdev1;
          Some (int (length blkdev1), blkdev,
                length (filter (\<lambda>d. di_devtype d = BLKDEV_PHYSDISK) blkdev),
                length (filter (\<lambda>d. di_devtype d = BLKDEV_FILESYSDEV) blkdev))
        })"

definition oper_probe :: "benv \<Rightarrow> bcall list \<Rightarrow> cfile option \<Rightarrow> bool \<Rightarrow> int option" where
  "oper_probe env tr fpart details =
     map_option (\<lambda>(res, _). if res < 1 then -1 else 0) (partlist_getlist env tr fpart FSA_MAX_BLKDEVICES)"

section \<open>The result of sorting\<close>

lemma first_leftD: "first_left bl = Some j \<Longrightarrow> j < length bl \<and> di_rdev (bl ! j) \<noteq> 0"
  by (auto simp: first_left_def find_Some_iff)

lemma foldl_better:
  assumes "di_rdev (bl ! best) \<noteq> 0" and "best < length bl" and "set js \<subseteq> {..<length bl}"
  shows "let b = foldl (better bl) best js in
    b < length bl \<and> di_rdev (bl ! b) \<noteq> 0 \<and> di_rdev (bl ! b) \<le> di_rdev (bl ! best) \<and>
    (\<forall>j \<in> set js. di_rdev (bl ! j) \<noteq> 0 \<longrightarrow> di_rdev (bl ! b) \<le> di_rdev (bl ! j))"
  using assms
proof (induction js arbitrary: best)
  case (Cons j js)
  then have "di_rdev (bl ! better bl best j) \<noteq> 0" "better bl best j < length bl"
    by (auto simp: better_def)
  moreover have "di_rdev (bl ! better bl best j) \<le> di_rdev (bl ! best)"
    "di_rdev (bl ! j) \<noteq> 0 \<Longrightarrow> di_rdev (bl ! better bl best j) \<le> di_rdev (bl ! j)"
    by (auto simp: better_def word_gt_0)
  ultimately show ?case
    using Cons.IH [of "better bl best j"] Cons.prems(3) by (auto simp: Let_def)
qed simp

definition devices_left :: "s_devinfo list \<Rightarrow> s_devinfo list" where
  "devices_left bl = filter (\<lambda>d. di_rdev d \<noteq> 0) bl"

lemma best_left_least:
  assumes "devices_left bl \<noteq> []"
  shows "\<exists>b. best_left bl = Some b \<and> b < length bl \<and> di_rdev (bl ! b) \<noteq> 0 \<and>
    (\<forall>d \<in> set (devices_left bl). di_rdev (bl ! b) \<le> di_rdev d)"
proof -
  obtain i where "i < length bl" "di_rdev (bl ! i) \<noteq> 0"
    using assms by (auto simp: devices_left_def filter_empty_conv in_set_conv_nth)
  then obtain best where best: "first_left bl = Some best"
    by (cases "first_left bl") (auto simp: first_left_def find_None_iff)
  then have "di_rdev (bl ! best) \<noteq> 0" "best < length bl" using first_leftD by auto
  moreover have "set [0..<length bl] \<subseteq> {..<length bl}" by auto
  ultimately show ?thesis
    using foldl_better [of bl best "[0..<length bl]"]
    by (auto simp: best_left_def best devices_left_def Let_def in_set_conv_nth)
qed

lemma devices_left_moved:
  assumes "b < length bl" and "di_rdev (bl ! b) \<noteq> 0"
  shows "mset (devices_left bl) = add_mset (bl ! b) (mset (devices_left (bl[b := (bl ! b)\<lparr>di_rdev := 0\<rparr>])))"
proof -
  have "bl ! b \<in># filter_mset (\<lambda>d. di_rdev d \<noteq> 0) (mset bl)" using assms by simp
  then show ?thesis
    using assms by (simp add: devices_left_def mset_update filter_diff_mset)
qed

lemma sort_devices_sorts:
  "length (devices_left bl) = n \<Longrightarrow>
   \<exists>r. sort_devices n bl = Some r \<and> mset r = mset (devices_left bl) \<and> sorted (map di_rdev r)"
proof (induction n arbitrary: bl)
  case (Suc n)
  then have "devices_left bl \<noteq> []" by auto
  then obtain b where b: "best_left bl = Some b" "b < length bl" "di_rdev (bl ! b) \<noteq> 0"
    and least: "\<forall>d \<in> set (devices_left bl). di_rdev (bl ! b) \<le> di_rdev d"
    using best_left_least by blast
  let ?bl = "bl[b := (bl ! b)\<lparr>di_rdev := 0\<rparr>]"
  note m = devices_left_moved [OF b(2,3)]
  have "length (devices_left ?bl) = n"
    using Suc.prems arg_cong [OF m, of size] by (simp only: size_mset size_add_mset)
  from Suc.IH [OF this] obtain r where r: "sort_devices n ?bl = Some r" "mset r = mset (devices_left ?bl)"
    "sorted (map di_rdev r)" by blast
  have "set r \<subseteq> set (devices_left bl)"
    using arg_cong [OF m, of set_mset] arg_cong [OF r(2), of set_mset] by auto
  then show ?case using b r least m by auto
qed (auto simp: devices_left_def)

lemma read_partitions_rdev:
  assumes env: "numbered_devices env"
  shows "read_partitions env tr f maxblkdev devs0 = Some devs \<Longrightarrow> \<forall>d \<in> set devs0. di_rdev d \<noteq> 0 \<Longrightarrow>
    \<forall>d \<in> set devs. di_rdev d \<noteq> 0"
proof (induction "stream_left f" arbitrary: f devs0 rule: less_induct)
  case less
  have dev: "di_rdev dev \<noteq> 0" if "partition_device env tr line = Some (Some dev)" for line dev
    using that get_devinfo_rdev [OF _ env] by (fastforce simp: partition_device_def split: if_splits prod.splits)
  show ?case
  proof (cases "feof f \<or> FSA_MAX_BLKDEVICES \<le> length devs0 \<or> maxblkdev \<le> length devs0")
    case True
    then have "devs = devs0" using less.prems(1) by (simp add: read_partitions.simps [of env tr f])
    then show ?thesis using less.prems(2) by simp
  next
    case False
    obtain n line f' where l: "stream_readline f 1024 = ((n, line), f')" by (metis surj_pair)
    have "stream_left f' < stream_left f" using stream_readline_less l False by blast
    note IH = less.hyps [OF this]
    have "read_partitions env tr f' maxblkdev devs0 = Some devs \<or>
      (\<exists>d. di_rdev d \<noteq> 0 \<and> read_partitions env tr f' maxblkdev (devs0 @ [d]) = Some devs)"
      using less.prems(1) False dev [of line]
      by (auto simp: read_partitions.simps [of env tr f] l split: if_splits option.splits)
    then show ?thesis
    proof (elim disjE exE conjE)
      assume "read_partitions env tr f' maxblkdev devs0 = Some devs"
      from IH [OF this less.prems(2)] show ?thesis .
    next
      fix d assume "di_rdev d \<noteq> 0" "read_partitions env tr f' maxblkdev (devs0 @ [d]) = Some devs"
      from IH [OF this(2)] this(1) less.prems(2) show ?thesis by simp
    qed
  qed
qed

text \<open>The list holds exactly the devices that were read, each as often as it was read.\<close>

lemma partlist_devices:
  assumes "read_partitions env tr f maxblkdev [] = Some devs" and "numbered_devices env"
  shows "\<exists>blkdev diskcount partcount.
    partlist_getlist env tr (Some f) maxblkdev = Some (int (length devs), blkdev, diskcount, partcount) \<and>
    mset blkdev = mset devs \<and> sorted (map di_rdev blkdev) \<and>
    diskcount = length (filter (\<lambda>d. di_devtype d = BLKDEV_PHYSDISK) devs) \<and>
    partcount = length (filter (\<lambda>d. di_devtype d = BLKDEV_FILESYSDEV) devs)"
proof -
  have "devices_left devs = devs"
    using read_partitions_rdev [OF assms(2,1)] by (simp add: devices_left_def)
  then obtain r where r: "sort_devices (length devs) devs = Some r" "mset r = mset devs" "sorted (map di_rdev r)"
    using sort_devices_sorts [of devs] by auto
  have "length (filter P r) = length (filter P devs)" for P
    using arg_cong [OF r(2), of "\<lambda>m. size (filter_mset P m)"] by (simp only: mset_filter [symmetric] size_mset)
  then show ?thesis using assms(1) r by (simp add: partlist_getlist_def)
qed

text \<open>C26: when /proc/partitions gives every device once, the list that probing makes of it holds exactly the
  devices that were read, every one once and in the strict order of their numbers, with the right counts of
  disks and partitions. The environment has no block device with the number 0, which Linux reserves and the
  sorting uses as its mark.\<close>

theorem partlist_sorted:
  assumes "read_partitions env tr f maxblkdev [] = Some devs" and "distinct (map di_rdev devs)"
    and "numbered_devices env"
  shows "\<exists>blkdev diskcount partcount.
    partlist_getlist env tr (Some f) maxblkdev = Some (int (length devs), blkdev, diskcount, partcount) \<and>
    mset blkdev = mset devs \<and> sorted_wrt (<) (map di_rdev blkdev) \<and>
    diskcount = length (filter (\<lambda>d. di_devtype d = BLKDEV_PHYSDISK) devs) \<and>
    partcount = length (filter (\<lambda>d. di_devtype d = BLKDEV_FILESYSDEV) devs)"
proof -
  have "distinct (map di_rdev blkdev)" if "mset blkdev = mset devs" for blkdev
    using assms(2) mset_eq_imp_distinct_iff [of "map di_rdev blkdev" "map di_rdev devs"] that by simp
  then show ?thesis using partlist_devices [OF assms(1,3)] by (force simp: strict_sorted_iff)
qed

text \<open>Two devices, the second with the smaller number.\<close>

definition demo_device :: "string \<Rightarrow> u64 \<Rightarrow> s_devinfo" where
  "demo_device name rdev =
     devinfo_init\<lparr>di_devname := name, di_longname := ''/dev/'' @ name, di_devtype := BLKDEV_FILESYSDEV,
       di_devsize := 1048576, di_rdev := rdev, di_minor := ucast rdev AND 0xFF, di_major := 8\<rparr>"

definition demo_partitions :: cfile where
  "demo_partitions = \<lparr>fdata = ''8 9 9 sda1'' @ [CHR 0x0A] @ ''8 8 9 sda'', feof = False\<rparr>"

lemma demo_partitions_read:
  "read_partitions demo_benv [] demo_partitions 2 [] = Some [demo_device ''sda1'' 2057, demo_device ''sda'' 2056]"
proof -
  have l: "stream_readline demo_partitions 1024 = ((10, ''8 9 9 sda1''), \<lparr>fdata = ''8 8 9 sda'', feof = False\<rparr>)"
    "stream_readline \<lparr>fdata = ''8 8 9 sda'', feof = False\<rparr> 1024 = ((9, ''8 8 9 sda''), \<lparr>fdata = [], feof = True\<rparr>)"
    by code_simp+
  have d: "partition_device demo_benv [] ''8 9 9 sda1'' = Some (Some (demo_device ''sda1'' 2057))"
    "partition_device demo_benv [] ''8 8 9 sda'' = Some (Some (demo_device ''sda'' 2056))"
    by code_simp+
  have e: "\<not> feof demo_partitions" by (simp add: demo_partitions_def)
  show ?thesis
    by (subst read_partitions.simps, simp add: l d e FSA_MAX_BLKDEVICES_def)
       (subst read_partitions.simps, simp add: l d FSA_MAX_BLKDEVICES_def, subst read_partitions.simps, simp)
qed

lemma demo_numbered: "numbered_devices demo_benv"
proof -
  have "(2048 + of_nat (n mod 256) :: u64) \<noteq> 0" for n :: nat
  proof -
    have "n mod 256 < 256" by simp
    then have "\<not> 2 ^ 64 dvd 2048 + n mod 256" by (auto dest!: dvd_imp_le)
    then have "(word_of_nat (2048 + n mod 256) :: u64) \<noteq> 0" by (simp only: word_of_nat_eq_0_iff) simp
    moreover have "(2048 + word_of_nat (n mod 256) :: u64) = word_of_nat (2048 + n mod 256)" by simp
    ultimately show ?thesis by (simp only: not_False_eq_True)
  qed
  then show ?thesis by (auto simp: numbered_devices_def demo_benv_def)
qed

lemma partlist_sorted_witness:
  "\<exists>blkdev diskcount partcount. partlist_getlist demo_benv [] (Some demo_partitions) 2 = Some (2, blkdev, diskcount, partcount) \<and>
    mset blkdev = {#demo_device ''sda1'' 2057, demo_device ''sda'' 2056#} \<and> sorted_wrt (<) (map di_rdev blkdev)"
  using partlist_sorted [OF demo_partitions_read _ demo_numbered] by (auto simp: demo_device_def)

text \<open>A device that is listed twice is in the list twice: the check of the source before a device is added goes
  on with the next round of its own loop only.\<close>

definition double_partitions :: cfile where
  "double_partitions = \<lparr>fdata = ''8 8 9 sda'' @ [CHR 0x0A] @ ''8 8 9 sda'', feof = False\<rparr>"

lemma duplicate_device_kept:
  "\<exists>diskcount partcount. partlist_getlist demo_benv [] (Some double_partitions) 2 =
    Some (2, [demo_device ''sda'' 2056, demo_device ''sda'' 2056], diskcount, partcount)"
proof -
  have l: "stream_readline double_partitions 1024 = ((9, ''8 8 9 sda''), \<lparr>fdata = ''8 8 9 sda'', feof = False\<rparr>)"
    "stream_readline \<lparr>fdata = ''8 8 9 sda'', feof = False\<rparr> 1024 = ((9, ''8 8 9 sda''), \<lparr>fdata = [], feof = True\<rparr>)"
    by code_simp+
  have d: "partition_device demo_benv [] ''8 8 9 sda'' = Some (Some (demo_device ''sda'' 2056))" by code_simp
  have e: "\<not> feof double_partitions" by (simp add: double_partitions_def)
  have "read_partitions demo_benv [] double_partitions 2 [] = Some [demo_device ''sda'' 2056, demo_device ''sda'' 2056]"
    by (subst read_partitions.simps, simp add: l d e FSA_MAX_BLKDEVICES_def)
       (subst read_partitions.simps, simp add: l d FSA_MAX_BLKDEVICES_def, subst read_partitions.simps, simp)
  from partlist_devices [OF this demo_numbered] obtain blkdev diskcount partcount where
    b: "partlist_getlist demo_benv [] (Some double_partitions) 2 = Some (2, blkdev, diskcount, partcount)"
      "mset blkdev = {#demo_device ''sda'' 2056, demo_device ''sda'' 2056#}" by auto
  have "blkdev = replicate (length blkdev) (demo_device ''sda'' 2056)"
    using arg_cong [OF b(2), of set_mset] by (intro replicate_eqI) auto
  moreover have "length blkdev = 2"
    using arg_cong [OF b(2), of size] by (simp only: size_mset) simp
  ultimately have "blkdev = [demo_device ''sda'' 2056, demo_device ''sda'' 2056]"
    by (simp add: numeral_2_eq_2)
  then show ?thesis using b(1) by blast
qed

end
