(* ===== verification/Cmdline.thy ===== *)
theory Cmdline
  imports Restfs Savefs Probe
begin

text \<open>fsarchiver.c: the command line. The options are read into the options of the program, the command and its arguments are
  checked and the operation is run. The messages are left out.\<close>

section \<open>getopt\<close>

text \<open>The options of the program, and getopt_long of the C library: options may stand between the arguments, \<open>--\<close> ends them,
  several letters can be joined and a long name may be cut as long as it is unique. An option that is not known, or whose
  argument is missing, is reported as a question mark.\<close>

definition optstring :: string where
  "optstring = ''oaAvdj:hVs:c:L:e:xz:Z:''"

definition long_options :: "(string \<times> bool \<times> char) list" where
  "long_options =
     [(''overwrite'', False, CHR ''o''), (''allow-no-acl-xattr'', False, CHR ''a''), (''allow-rw-mounted'', False, CHR ''A''),
      (''verbose'', False, CHR ''v''), (''debug'', False, CHR ''d''), (''compress'', True, CHR ''z''), (''zstd'', True, CHR ''Z''),
      (''jobs'', True, CHR ''j''), (''help'', False, CHR ''h''), (''version'', False, CHR ''V''), (''split'', True, CHR ''s''),
      (''cryptpass'', True, CHR ''c''), (''label'', True, CHR ''L''), (''exclude'', True, CHR ''e''), (''experimental'', False, CHR ''x'')]"

fun opt_arity :: "string \<Rightarrow> char \<Rightarrow> bool option" where
  "opt_arity [] c = None"
| "opt_arity (x # xs) c = (if x = c \<and> x \<noteq> CHR '':'' then Some (xs \<noteq> [] \<and> hd xs = CHR '':'') else opt_arity xs c)"

type_synonym copt = "char \<times> string"

definition opt_with_arg :: "char \<Rightarrow> string list \<Rightarrow> copt \<times> string list" where
  "opt_with_arg c args = (case args of [] \<Rightarrow> ((CHR ''?'', []), []) | a # rest \<Rightarrow> ((c, a), rest))"

fun getopt_short :: "string \<Rightarrow> string list \<Rightarrow> copt list \<times> string list" where
  "getopt_short [] args = ([], args)"
| "getopt_short (c # cs) args =
     (case opt_arity optstring c of
        Some True \<Rightarrow>
          if cs \<noteq> [] then ([(c, cs)], args) else (let (copt, rest) = opt_with_arg c args in ([copt], rest))
      | Some False \<Rightarrow> (let (opts, rest) = getopt_short cs args in ((c, []) # opts, rest))
      | None \<Rightarrow> (let (opts, rest) = getopt_short cs args in ((CHR ''?'', []) # opts, rest)))"

definition getopt_match :: "string \<Rightarrow> (bool \<times> char) option" where
  "getopt_match name =
     (case map_of long_options name of
        Some x \<Rightarrow> Some x
      | None \<Rightarrow> (case filter (\<lambda>(long, _). take (length name) long = name) long_options of
                   [(_, x)] \<Rightarrow> Some x
                 | _ \<Rightarrow> None))"

definition getopt_name :: "string \<Rightarrow> string list \<Rightarrow> copt \<times> string list" where
  "getopt_name text args =
     (let name = takeWhile (\<lambda>c. c \<noteq> CHR ''='') text
      in case getopt_match name of
           None \<Rightarrow> ((CHR ''?'', []), args)
         | Some (has_arg, c) \<Rightarrow>
             if name \<noteq> text then (if has_arg then ((c, drop (length name + 1) text), args) else ((CHR ''?'', []), args))
             else if has_arg then opt_with_arg c args
             else ((c, []), args))"

lemma opt_with_arg_shorter: "length (snd (opt_with_arg c args)) \<le> length args"
  by (auto simp: opt_with_arg_def split: list.splits)

lemma getopt_short_shorter: "length (snd (getopt_short cs args)) \<le> length args"
proof (induction cs args rule: getopt_short.induct)
  case (2 c cs args)
  then show ?case
    using opt_with_arg_shorter [of c args] by (auto split: option.splits bool.splits prod.splits)
qed simp

lemma getopt_name_shorter: "length (snd (getopt_name text args)) \<le> length args"
  by (auto simp: getopt_name_def Let_def opt_with_arg_shorter split: option.splits)

function getopt_long :: "string list \<Rightarrow> copt list \<times> string list" where
  "getopt_long [] = ([], [])"
| "getopt_long (a # args) =
     (if a = ''--'' then ([], args)
      else if take 2 a = ''--'' then
        (let x = getopt_name (drop 2 a) args; (opts, rest) = getopt_long (snd x) in (fst x # opts, rest))
      else if take 1 a = ''-'' \<and> length a > 1 then
        (let x = getopt_short (tl a) args; (opts, rest) = getopt_long (snd x) in (fst x @ opts, rest))
      else (let (opts, rest) = getopt_long args in (opts, a # rest)))"
  by pat_completeness auto
termination
  by (relation "measure length") (auto simp: le_imp_less_Suc getopt_short_shorter getopt_name_shorter)

section \<open>Options\<close>

text \<open>The options before the command line is read; the size of volumes and the list of exclusions are those of
  options_init.\<close>

definition default_options :: "build \<Rightarrow> coptions \<Rightarrow> coptions" where
  "default_options bld opt =
     opt\<lparr>opt_overwrite := False, allowsaverw := False, experimental := False, dontcheckmountopts := False,
       verboselevel := 0, debuglevel := 0, compressjobs := 1, datablocksize := of_nat FSA_DEF_BLKSIZE,
       encryptalgo := ENCRYPT_NONE, archlabel := snprintf_s FSA_MAX_LABELLEN ''<none>'', encryptpass := [],
       compressalgo := FSA_DEF_COMPRESS_ALGO bld, compresslevel := FSA_DEF_COMPRESS_LEVEL bld,
       fsacomplevel := (if has_zstd bld then word_of_int (FSA_DEF_COMPRESS_LEVEL bld) else of_nat FSA_DEF_FSACOMP_LEVEL)\<rparr>"

text \<open>One option: Inl is the result with which the program ends.\<close>

definition set_jobs :: "coptions \<Rightarrow> string \<Rightarrow> int + coptions" where
  "set_jobs opt optarg =
     (let n = atoi optarg
      in if n < 1 then Inl 1
         else Inr (opt\<lparr>compressjobs := if int FSA_MAX_COMPJOBS < n then int FSA_MAX_COMPJOBS else n\<rparr>))"

definition set_splitsize :: "coptions \<Rightarrow> string \<Rightarrow> int + coptions" where
  "set_splitsize opt optarg =
     (let v = word_of_int (atoll optarg) * (1024 * 1024)
      in if v = 0 then Inl (-1) else Inr (opt\<lparr>splitsize := v\<rparr>))"

definition set_legacy_level :: "build \<Rightarrow> coptions \<Rightarrow> string \<Rightarrow> int + coptions" where
  "set_legacy_level bld opt optarg =
     (let opt = opt\<lparr>fsacomplevel := word_of_int (atoi optarg)\<rparr>; level = uint (fsacomplevel opt)
      in if level < 0 \<or> level > 9 then Inl (-1)
         else (let (r, opt) = options_select_compress_level bld opt level in if r < 0 then Inl (-1) else Inr opt))"

definition set_zstd_level :: "build \<Rightarrow> coptions \<Rightarrow> string \<Rightarrow> int + coptions" where
  "set_zstd_level bld opt optarg =
     (if \<not> has_zstd bld then Inl (-1)
      else
        (let level = atoi optarg;
             opt = opt\<lparr>compressalgo := COMPRESS_ZSTD, compresslevel := level, fsacomplevel := word_of_int level\<rparr>
         in if level < 1 \<or> level > 22 then Inl (-1)
            else Inr (opt\<lparr>datablocksize := if level \<le> 19 then of_nat FSA_DEF_BLKSIZE else of_nat FSA_MAX_BLKSIZE\<rparr>)))"

definition set_password :: "coptions \<Rightarrow> string \<Rightarrow> int + coptions" where
  "set_password opt optarg =
     (if (length optarg < FSA_MIN_PASSLEN \<or> length optarg > FSA_MAX_PASSLEN) \<and> optarg \<noteq> ''-'' then Inl (-1)
      else Inr (opt\<lparr>encryptalgo := ENCRYPT_BLOWFISH, encryptpass := snprintf_s FSA_MAX_PASSLEN optarg\<rparr>))"

definition set_option :: "build \<Rightarrow> malloc \<Rightarrow> copt \<Rightarrow> coptions \<Rightarrow> int + coptions" where
  "set_option bld mem co opt =
     (let (c, optarg) = co
      in if c = CHR ''o'' then Inr (opt\<lparr>opt_overwrite := True\<rparr>)
         else if c = CHR ''a'' then Inr (opt\<lparr>dontcheckmountopts := True\<rparr>)
         else if c = CHR ''A'' then Inr (opt\<lparr>allowsaverw := True\<rparr>)
         else if c = CHR ''x'' then Inr (opt\<lparr>experimental := True\<rparr>)
         else if c = CHR ''v'' then Inr (opt\<lparr>verboselevel := verboselevel opt + 1\<rparr>)
         else if c = CHR ''V'' then Inl 0
         else if c = CHR ''d'' then Inr (opt\<lparr>debuglevel := debuglevel opt + 1\<rparr>)
         else if c = CHR ''j'' then set_jobs opt optarg
         else if c = CHR ''e'' then Inr (opt\<lparr>exclude := snd (strlist_add mem (exclude opt) optarg)\<rparr>)
         else if c = CHR ''s'' then set_splitsize opt optarg
         else if c = CHR ''z'' then set_legacy_level bld opt optarg
         else if c = CHR ''Z'' then set_zstd_level bld opt optarg
         else if c = CHR ''c'' then set_password opt optarg
         else if c = CHR ''L'' then Inr (opt\<lparr>archlabel := snprintf_s FSA_MAX_LABELLEN optarg\<rparr>)
         else if c = CHR ''h'' then Inl 0
         else Inl (-1))"

fun set_options :: "build \<Rightarrow> malloc \<Rightarrow> copt list \<Rightarrow> coptions \<Rightarrow> int + coptions" where
  "set_options bld mem [] opt = Inr opt"
| "set_options bld mem (co # opts) opt =
     (case set_option bld mem co opt of Inl r \<Rightarrow> Inl r | Inr opt \<Rightarrow> set_options bld mem opts opt)"

definition small_file_threshold :: "u32 \<Rightarrow> u32" where
  "small_file_threshold blksize =
     (if blksize div 4 < of_nat FSA_MAX_SMALLFILESIZE then blksize div 4 else of_nat FSA_MAX_SMALLFILESIZE)"

section \<open>Commands\<close>

text \<open>What is to be run: the archive and the other arguments.\<close>

datatype command =
    Cmd_save string "string list" u32
  | Cmd_restore string "string list" nat
  | Cmd_probe bool

text \<open>The number of a command, whether it must be run as root and whether the number of its arguments is right.\<close>

definition find_command :: "string \<Rightarrow> nat \<Rightarrow> (nat \<times> bool \<times> bool) option" where
  "find_command name argc =
     (if name = ''savefs'' then Some (OPER_SAVEFS, True, argc \<ge> 2)
      else if name = ''restfs'' then Some (OPER_RESTFS, True, argc \<ge> 2)
      else if name = ''savedir'' then Some (OPER_SAVEDIR, True, argc \<ge> 2)
      else if name = ''restdir'' then Some (OPER_RESTDIR, True, argc = 2)
      else if name = ''archinfo'' then Some (OPER_ARCHINFO, False, argc = 1)
      else if name = ''probe'' then Some (OPER_PROBE, True, argc \<le> 1)
      else None)"

text \<open>The password that is asked for with \<open>-c -\<close>; \<open>pass\<close> are the answers of getpass. The first one is cut to its buffer
  before it is compared with the second.\<close>

definition read_password :: "nat \<Rightarrow> string option \<times> string option \<Rightarrow> coptions \<Rightarrow> int + coptions" where
  "read_password cmd pass opt =
     (if encryptpass opt \<noteq> ''-'' then Inr opt
      else
        (case fst pass of
           None \<Rightarrow> Inl (-1)
         | Some passtmp \<Rightarrow>
             if length passtmp < FSA_MIN_PASSLEN \<or> length passtmp > FSA_MAX_PASSLEN then Inl (-1)
             else
               (let opt = opt\<lparr>encryptpass := snprintf_s FSA_MAX_PASSLEN passtmp\<rparr>
                in if cmd = OPER_SAVEFS \<or> cmd = OPER_SAVEDIR then
                     (case snd pass of
                        None \<Rightarrow> Inl (-1)
                      | Some passtmp \<Rightarrow> if encryptpass opt \<noteq> passtmp then Inl (-1) else Inr opt)
                   else Inr opt)))"

text \<open>The operation for the arguments. The array of the partitions has 128 places; None is a write behind it.\<close>

definition select_operation :: "nat \<Rightarrow> string list \<Rightarrow> coptions \<Rightarrow> command option" where
  "select_operation cmd args opt =
     (if cmd = OPER_PROBE then
        (case args of
           [] \<Rightarrow> Some (Cmd_probe (verboselevel opt > 0))
         | probemode # rest \<Rightarrow>
             if FSA_MAX_FSPERARCH < length rest then None
             else Some (Cmd_probe (verboselevel opt > 0 \<or> probemode = ''detailed'')))
      else
        (case args of
           [] \<Rightarrow> None
         | archive # part \<Rightarrow>
             if FSA_MAX_FSPERARCH < length part then None
             else Some (if cmd = OPER_SAVEFS then Cmd_save archive part ARCHTYPE_FILESYSTEMS
                        else if cmd = OPER_SAVEDIR then Cmd_save archive part ARCHTYPE_DIRECTORIES
                        else Cmd_restore archive part cmd)))"

text \<open>Everything before the operation is run: Inl is the result of an early end.\<close>

record cmdenv =
  cm_build :: build
  cm_mem :: malloc
  cm_euid :: nat
  cm_pass :: "string option \<times> string option"

definition read_cmdline :: "cmdenv \<Rightarrow> coptions \<Rightarrow> string list \<Rightarrow> (int + command \<times> coptions) option" where
  "read_cmdline env opt argv =
     (let (opts, args) = getopt_long argv
      in case set_options (cm_build env) (cm_mem env) opts (default_options (cm_build env) opt) of
           Inl r \<Rightarrow> Some (Inl r)
         | Inr opt \<Rightarrow>
             (case args of
                [] \<Rightarrow> Some (Inl (-1))
              | name # args \<Rightarrow>
                  (let opt = opt\<lparr>smallfilethresh := small_file_threshold (datablocksize opt)\<rparr>
                   in case find_command name (length args) of
                        None \<Rightarrow> Some (Inl (-1))
                      | Some (cmd, runasroot, argcok) \<Rightarrow>
                          if \<not> argcok then Some (Inl (-1))
                          else if runasroot \<and> cm_euid env \<noteq> 0 then Some (Inl (-1))
                          else
                            (case read_password cmd (cm_pass env) opt of
                               Inl r \<Rightarrow> Some (Inl r)
                             | Inr opt \<Rightarrow> map_option (\<lambda>c. Inr (c, opt)) (select_operation cmd args opt)))))"

section \<open>Running the program\<close>

text \<open>The environments of the operations get the options that were read. The list of block devices is
  the file that probing reads.\<close>

record progenv =
  pg_cmd :: cmdenv
  pg_save :: saveenv
  pg_savear :: csavear
  pg_rest :: restenv
  pg_extractar :: cextractar
  pg_partitions :: "cfile option"

definition with_save_options :: "coptions \<Rightarrow> saveenv \<Rightarrow> saveenv" where
  "with_save_options opt env = env\<lparr>w_s := (w_s env)\<lparr>s_opt := opt\<rparr>\<rparr>"

definition with_rest_options :: "coptions \<Rightarrow> restenv \<Rightarrow> restenv" where
  "with_rest_options opt env = env\<lparr>r_x := (r_x env)\<lparr>x_opt := opt\<rparr>\<rparr>"

definition run_operation :: "progenv \<Rightarrow> coptions \<Rightarrow> command \<Rightarrow> int option" where
  "run_operation env opt c =
     (case c of
        Cmd_save archive part atype \<Rightarrow>
          map_option fst (oper_save (with_save_options opt (pg_save env)) archive part atype (pg_savear env))
      | Cmd_restore archive part oper \<Rightarrow>
          map_option fst (oper_restore (with_rest_options opt (pg_rest env)) archive oper (map Some part) [] (pg_extractar env))
      | Cmd_probe details \<Rightarrow> oper_probe (r_b (pg_rest env)) [] (pg_partitions env) details)"

definition process_cmdline :: "progenv \<Rightarrow> coptions \<Rightarrow> string list \<Rightarrow> int option" where
  "process_cmdline env opt argv =
     Option.bind (read_cmdline (pg_cmd env) opt argv) (\<lambda>r.
       (case r of Inl ret \<Rightarrow> Some ret | Inr (c, opt) \<Rightarrow> run_operation env opt c))"

text \<open>The exit status of the program.\<close>

definition main_status :: "progenv \<Rightarrow> string list \<Rightarrow> int option" where
  "main_status env argv =
     map_option (\<lambda>ret. if ret \<noteq> 0 then 1 else 0) (process_cmdline env (snd options_init) argv)"

section \<open>The options that are accepted\<close>

text \<open>The level of compression belongs to the algorithm, whose library is there.\<close>

definition level_ok :: "build \<Rightarrow> coptions \<Rightarrow> bool" where
  "level_ok bld opt \<longleftrightarrow>
     compressalgo opt = COMPRESS_ZSTD \<and> has_zstd bld \<and> compresslevel opt \<in> {1..22} \<or>
     compressalgo opt = COMPRESS_GZIP \<and> compresslevel opt \<in> {3, 6, 9} \<or>
     compressalgo opt = COMPRESS_BZIP2 \<and> compresslevel opt \<in> {2, 5} \<or>
     compressalgo opt = COMPRESS_LZMA \<and> has_lzma bld \<and> compresslevel opt \<in> {1, 6, 9} \<or>
     compressalgo opt = COMPRESS_LZO \<and> has_lzo bld \<and> compresslevel opt = 3 \<or>
     compressalgo opt = COMPRESS_LZ4 \<and> has_lz4 bld"

definition limits_ok :: "coptions \<Rightarrow> bool" where
  "limits_ok opt \<longleftrightarrow>
     datablocksize opt \<in> {of_nat FSA_DEF_BLKSIZE, of_nat FSA_MAX_BLKSIZE, 262144} \<and>
     1 \<le> compressjobs opt \<and> compressjobs opt \<le> int FSA_MAX_COMPJOBS \<and> length (archlabel opt) < FSA_MAX_LABELLEN"

definition password_ok :: "bool \<Rightarrow> coptions \<Rightarrow> bool" where
  "password_ok asked opt \<longleftrightarrow>
     encryptalgo opt = ENCRYPT_NONE \<and> encryptpass opt = [] \<or>
     encryptalgo opt = ENCRYPT_BLOWFISH \<and>
       (FSA_MIN_PASSLEN \<le> length (encryptpass opt) \<and> length (encryptpass opt) < FSA_MAX_PASSLEN \<or> asked \<and> encryptpass opt = ''-'')"

definition options_ok :: "build \<Rightarrow> coptions \<Rightarrow> bool" where
  "options_ok bld opt \<longleftrightarrow> level_ok bld opt \<and> limits_ok opt \<and> password_ok True opt"

lemmas options_ok_defs = options_ok_def level_ok_def limits_ok_def password_ok_def

lemma default_options_ok: "options_ok bld (default_options bld opt)"
  by (simp add: options_ok_defs default_options_def FSA_DEF_COMPRESS_ALGO_def FSA_DEF_COMPRESS_LEVEL_def FSA_MAX_COMPJOBS_def
      FSA_MAX_LABELLEN_def snprintf_s_def)

lemma select_level_range:
  assumes "options_select_compress_level bld opt level = (r, opt')" and "\<not> r < 0"
  shows "level = 0 \<or> level = 1 \<or> level = 2 \<or> level = 3 \<or> level = 4 \<or> level = 5 \<or> level = 6 \<or> level = 7 \<or>
      level = 8 \<or> level = 9"
proof (rule ccontr)
  assume "\<not> ?thesis"
  then have "options_select_compress_level bld opt level = (-1, opt)" by (simp add: options_select_compress_level_def)
  with assms show False by simp
qed

lemma select_level_ok:
  assumes "options_ok bld opt" and "options_select_compress_level bld opt level = (r, opt')" and "\<not> r < 0"
  shows "options_ok bld opt'"
proof -
  have l: "level = 0 \<or> level = 1 \<or> level = 2 \<or> level = 3 \<or> level = 4 \<or> level = 5 \<or> level = 6 \<or> level = 7 \<or>
      level = 8 \<or> level = 9"
    using assms(2,3) by (rule select_level_range)
  from l assms(2,3) have "level_ok bld opt'"
    by (elim disjE) (simp_all add: options_select_compress_level_def level_ok_def split: if_splits; (elim conjE)?; simp?;
      (drule sym)?; simp?)+
  moreover from l assms(2,3) have "encryptalgo opt' = encryptalgo opt" "encryptpass opt' = encryptpass opt"
    "compressjobs opt' = compressjobs opt" "archlabel opt' = archlabel opt"
    "datablocksize opt' \<in> {datablocksize opt, of_nat FSA_DEF_BLKSIZE, of_nat FSA_MAX_BLKSIZE, 262144}"
    by (elim disjE; auto simp: options_select_compress_level_def FSA_DEF_BLKSIZE_def split: if_splits)+
  ultimately show ?thesis using assms(1) by (auto simp: options_ok_def limits_ok_def password_ok_def)
qed

text \<open>The options that change nothing that has to be checked.\<close>

definition same_settings :: "coptions \<Rightarrow> coptions \<Rightarrow> bool" where
  "same_settings opt opt' \<longleftrightarrow>
     compressalgo opt' = compressalgo opt \<and> compresslevel opt' = compresslevel opt \<and> datablocksize opt' = datablocksize opt \<and>
     compressjobs opt' = compressjobs opt \<and> encryptalgo opt' = encryptalgo opt \<and> encryptpass opt' = encryptpass opt \<and>
     (length (archlabel opt) < FSA_MAX_LABELLEN \<longrightarrow> length (archlabel opt') < FSA_MAX_LABELLEN)"

lemma same_settings_ok: "options_ok bld opt \<Longrightarrow> same_settings opt opt' \<Longrightarrow> options_ok bld opt'"
  by (simp add: options_ok_defs same_settings_def)

lemma set_option_cases:
  assumes "set_option bld mem (c, optarg) opt = Inr opt'"
  obtains "set_jobs opt optarg = Inr opt'" | "set_legacy_level bld opt optarg = Inr opt'"
    | "set_zstd_level bld opt optarg = Inr opt'" | "set_password opt optarg = Inr opt'" | "same_settings opt opt'"
proof -
  have l: "length (snprintf_s FSA_MAX_LABELLEN optarg) < FSA_MAX_LABELLEN"
    by (simp add: FSA_MAX_LABELLEN_def snprintf_s_def min_def)
  from assms that show thesis
    unfolding set_option_def prod.case
    by (auto simp: same_settings_def set_splitsize_def Let_def l split: if_splits)
qed

lemma set_option_ok:
  assumes ok: "options_ok bld opt" and "set_option bld mem co opt = Inr opt'"
  shows "options_ok bld opt'"
proof -
  obtain c optarg where co: "co = (c, optarg)" by (cases co)
  from assms(2) [unfolded co] show ?thesis
  proof (cases rule: set_option_cases)
    case 1
    then obtain n where "opt' = opt\<lparr>compressjobs := n\<rparr>" "1 \<le> n" "n \<le> int FSA_MAX_COMPJOBS"
      by (auto simp: set_jobs_def FSA_MAX_COMPJOBS_def Let_def split: if_splits)
    then show ?thesis using ok by (simp add: options_ok_defs)
  next
    case 2
    have "options_ok bld (opt\<lparr>fsacomplevel := l\<rparr>)" for l using ok by (simp add: options_ok_defs)
    then show ?thesis
      using 2 by (auto simp: set_legacy_level_def Let_def split: if_splits prod.splits intro: select_level_ok)
  next
    case 3
    then obtain n where "has_zstd bld" "1 \<le> n" "n \<le> 22" and o: "opt' = opt\<lparr>compressalgo := COMPRESS_ZSTD, compresslevel := n,
        fsacomplevel := word_of_int n, datablocksize := if n \<le> 19 then of_nat FSA_DEF_BLKSIZE else of_nat FSA_MAX_BLKSIZE\<rparr>"
      unfolding set_zstd_level_def Let_def by (metis not_le sum.distinct(1) sum.inject(2))
    then have "level_ok bld opt'" by (simp add: level_ok_def)
    moreover have "datablocksize opt' \<in> {of_nat FSA_DEF_BLKSIZE, of_nat FSA_MAX_BLKSIZE, 262144}" using o by simp
    moreover have "encryptalgo opt' = encryptalgo opt" "encryptpass opt' = encryptpass opt"
      "compressjobs opt' = compressjobs opt" "archlabel opt' = archlabel opt"
      by (simp_all add: o)
    ultimately show ?thesis using ok by (simp add: options_ok_def limits_ok_def password_ok_def)
  next
    case 4
    then have "opt' = opt\<lparr>encryptalgo := ENCRYPT_BLOWFISH, encryptpass := take 63 optarg\<rparr>"
      "FSA_MIN_PASSLEN \<le> length (take 63 optarg) \<and> length (take 63 optarg) < FSA_MAX_PASSLEN \<or> take 63 optarg = ''-''"
      by (auto simp: set_password_def snprintf_s_def FSA_MIN_PASSLEN_def FSA_MAX_PASSLEN_def split: if_splits)
    then show ?thesis using ok by (simp add: options_ok_defs)
  next
    case 5 then show ?thesis using ok same_settings_ok by blast
  qed
qed

lemma set_options_ok:
  "options_ok bld opt \<Longrightarrow> set_options bld mem opts opt = Inr opt' \<Longrightarrow> options_ok bld opt'"
proof (induction opts arbitrary: opt)
  case (Cons co opts)
  then show ?case using set_option_ok by (fastforce split: sum.splits)
qed simp

lemma read_password_ok:
  assumes "options_ok bld opt" and "read_password cmd pass opt = Inr opt'"
  shows "level_ok bld opt'" "limits_ok opt'" "password_ok False opt'" "smallfilethresh opt' = smallfilethresh opt"
    "datablocksize opt' = datablocksize opt"
proof -
  have "opt' = opt \<and> encryptpass opt \<noteq> ''-'' \<or>
    (\<exists>pw. opt' = opt\<lparr>encryptpass := take 63 pw\<rparr> \<and> encryptpass opt = ''-'' \<and> FSA_MIN_PASSLEN \<le> length pw)"
    using assms(2) by (auto simp: read_password_def snprintf_s_def FSA_MAX_PASSLEN_def Let_def split: if_splits option.splits)
  then consider (given) "opt' = opt" "encryptpass opt \<noteq> ''-''"
    | (asked) pw where "opt' = opt\<lparr>encryptpass := take 63 pw\<rparr>" "encryptpass opt = ''-''" "FSA_MIN_PASSLEN \<le> length pw"
    by blast
  then have "level_ok bld opt' \<and> limits_ok opt' \<and> password_ok False opt' \<and> smallfilethresh opt' = smallfilethresh opt \<and>
    datablocksize opt' = datablocksize opt"
  proof cases
    case given then show ?thesis using assms(1) by (simp add: options_ok_def password_ok_def)
  next
    case asked
    have "encryptalgo opt = ENCRYPT_BLOWFISH" using assms(1) asked(2) by (simp add: options_ok_def password_ok_def)
    moreover have "FSA_MIN_PASSLEN \<le> length (take 63 pw)" "length (take 63 pw) < FSA_MAX_PASSLEN"
      using asked(3) by (simp_all add: FSA_MIN_PASSLEN_def FSA_MAX_PASSLEN_def)
    ultimately have "password_ok False opt'" by (simp add: password_ok_def asked(1))
    then show ?thesis using assms(1) by (simp add: options_ok_def level_ok_def limits_ok_def asked(1))
  qed
  then show "level_ok bld opt'" "limits_ok opt'" "password_ok False opt'" "smallfilethresh opt' = smallfilethresh opt"
    "datablocksize opt' = datablocksize opt" by blast+
qed

lemma small_file_threshold_bounds:
  assumes "blksize \<in> {of_nat FSA_DEF_BLKSIZE, of_nat FSA_MAX_BLKSIZE, 262144}"
  shows "small_file_threshold blksize \<in> {131072, 65536}"
  using assms by (auto simp: small_file_threshold_def FSA_DEF_BLKSIZE_def FSA_MAX_BLKSIZE_def FSA_MAX_SMALLFILESIZE_def)

text \<open>What was checked of the arguments of an operation.\<close>

definition command_ok :: "nat \<Rightarrow> command \<Rightarrow> bool" where
  "command_ok euid c =
     (case c of
        Cmd_save archive part atype \<Rightarrow>
          euid = 0 \<and> 1 \<le> length part \<and> length part \<le> FSA_MAX_FSPERARCH \<and>
          atype \<in> {ARCHTYPE_FILESYSTEMS, ARCHTYPE_DIRECTORIES}
      | Cmd_restore archive part oper \<Rightarrow>
          oper = OPER_RESTFS \<and> euid = 0 \<and> 1 \<le> length part \<and> length part \<le> FSA_MAX_FSPERARCH \<or>
          oper = OPER_RESTDIR \<and> euid = 0 \<and> length part = 1 \<or> oper = OPER_ARCHINFO \<and> part = []
      | Cmd_probe details \<Rightarrow> euid = 0)"

lemma select_operation_ok:
  assumes "find_command name (length args) = Some (cmd, runasroot, True)" and "\<not> (runasroot \<and> euid \<noteq> 0)"
    and "select_operation cmd args opt = Some c"
  shows "command_ok euid c"
  using assms
  by (auto simp: find_command_def select_operation_def command_ok_def FSA_MAX_FSPERARCH_def OPER_PROBE_def OPER_SAVEFS_def
      OPER_SAVEDIR_def OPER_RESTFS_def OPER_RESTDIR_def OPER_ARCHINFO_def Suc_le_eq numeral_2_eq_2 length_Suc_conv
      split: if_splits list.splits)

text \<open>What the program checks of an option and its argument. The level of -z is what is left of it in 16 bits; the size of
  volumes in bytes may wrap around, but not to 0.\<close>

definition volume_size :: "string \<Rightarrow> u64" where
  "volume_size optarg = word_of_int (atoll optarg) * (1024 * 1024)"

definition arg_ok :: "copt \<Rightarrow> bool" where
  "arg_ok co \<longleftrightarrow>
     (let (c, optarg) = co
      in c \<in> {CHR ''o'', CHR ''a'', CHR ''A'', CHR ''x'', CHR ''v'', CHR ''d'', CHR ''e'', CHR ''L''} \<or>
         c = CHR ''j'' \<and> 1 \<le> atoi optarg \<or>
         c = CHR ''s'' \<and> volume_size optarg \<noteq> 0 \<or>
         c = CHR ''z'' \<and> uint (word_of_int (atoi optarg) :: u16) \<le> 9 \<or>
         c = CHR ''Z'' \<and> 1 \<le> atoi optarg \<and> atoi optarg \<le> 22 \<or>
         c = CHR ''c'' \<and> (optarg = ''-'' \<or> FSA_MIN_PASSLEN \<le> length optarg \<and> length optarg \<le> FSA_MAX_PASSLEN))"

text \<open>The size of volumes: that of the last -s, or the one before the command line.\<close>

definition last_splitsize :: "copt list \<Rightarrow> u64 \<Rightarrow> u64" where
  "last_splitsize opts n = foldl (\<lambda>n (c, optarg). if c = CHR ''s'' then volume_size optarg else n) n opts"

lemma select_level_split: "options_select_compress_level bld opt level = (r, opt') \<Longrightarrow> splitsize opt' = splitsize opt"
  by (auto simp: options_select_compress_level_def split: if_splits)

lemma set_option_arg:
  assumes "set_option bld mem (c, optarg) opt = Inr opt'"
  shows "arg_ok (c, optarg) \<and> splitsize opt' = (if c = CHR ''s'' then volume_size optarg else splitsize opt)"
  using assms select_level_split
  by (auto simp: set_option_def arg_ok_def volume_size_def set_jobs_def set_splitsize_def set_legacy_level_def set_zstd_level_def
      set_password_def Let_def split: if_splits prod.splits)

lemma set_options_args:
  "set_options bld mem opts opt = Inr opt' \<Longrightarrow> list_all arg_ok opts \<and> splitsize opt' = last_splitsize opts (splitsize opt)"
proof (induction opts arbitrary: opt)
  case (Cons co opts)
  obtain c optarg where co: "co = (c, optarg)" by force
  obtain opt1 where o: "set_option bld mem (c, optarg) opt = Inr opt1" "set_options bld mem opts opt1 = Inr opt'"
    using Cons.prems by (auto simp: co split: sum.splits)
  show ?case using Cons.IH [OF o(2)] set_option_arg [OF o(1)] by (auto simp: co last_splitsize_def)
qed (simp add: last_splitsize_def)

lemma read_password_split: "read_password cmd pass opt = Inr opt' \<Longrightarrow> splitsize opt' = splitsize opt"
  by (auto simp: read_password_def Let_def split: if_splits option.splits)

text \<open>C14: whatever is on the command line, an operation is only run if every option has an argument that its check accepts
  (-j at least 1; -s a size that is not 0; -z 0 to 9 in the low 16 bits, so that 65538 passes as 2; -Z 1 to 22; -c
  a minus sign or 6 to 64 characters), and then with settings in their ranges: a library that is there with a level that
  it takes, a block size and a threshold for small files within the limits, one to 32 threads, the size of volumes of
  the last -s, no encryption or a password of 6 to 63 characters (one of 64 is cut); and with the rights and the number
  of arguments that the operation needs.\<close>

theorem cmdline_accepted:
  assumes "read_cmdline env opt argv = Some (Inr (c, opt'))"
  shows "list_all arg_ok (fst (getopt_long argv)) \<and>
    splitsize opt' = last_splitsize (fst (getopt_long argv)) (splitsize opt) \<and>
    level_ok (cm_build env) opt' \<and> limits_ok opt' \<and> password_ok False opt' \<and>
    smallfilethresh opt' \<in> {131072, 65536} \<and> 0 < datablocksize opt' \<and> unat (datablocksize opt') \<le> FSA_MAX_BLKSIZE \<and>
    command_ok (cm_euid env) c"
proof -
  obtain opts args where g: "getopt_long argv = (opts, args)" by (cases "getopt_long argv")
  obtain opt1 where o1: "set_options (cm_build env) (cm_mem env) opts (default_options (cm_build env) opt) = Inr opt1"
    using assms by (auto simp: read_cmdline_def g split: sum.splits)
  obtain name args' where a: "args = name # args'"
    using assms by (auto simp: read_cmdline_def g o1 split: list.splits)
  let ?opt2 = "opt1\<lparr>smallfilethresh := small_file_threshold (datablocksize opt1)\<rparr>"
  obtain cmd runasroot where f: "find_command name (length args') = Some (cmd, runasroot, True)"
    and root: "\<not> (runasroot \<and> cm_euid env \<noteq> 0)" and pw: "read_password cmd (cm_pass env) ?opt2 = Inr opt'"
    and op: "select_operation cmd args' opt' = Some c"
    using assms by (auto simp: read_cmdline_def g o1 a Let_def split: option.splits if_splits sum.splits)
  have args: "list_all arg_ok opts" "splitsize opt' = last_splitsize opts (splitsize opt)"
    using set_options_args [OF o1] read_password_split [OF pw] by (simp_all add: default_options_def)
  have ok: "options_ok (cm_build env) opt1" by (rule set_options_ok [OF default_options_ok o1])
  then have "options_ok (cm_build env) ?opt2" by (simp add: options_ok_defs)
  note r = read_password_ok [OF this pw]
  have d: "datablocksize opt1 \<in> {of_nat FSA_DEF_BLKSIZE, of_nat FSA_MAX_BLKSIZE, 262144}"
    using ok by (simp add: options_ok_def limits_ok_def)
  then have "0 < datablocksize opt1" "unat (datablocksize opt1) \<le> FSA_MAX_BLKSIZE"
    by (auto simp: FSA_DEF_BLKSIZE_def FSA_MAX_BLKSIZE_def)
  then show ?thesis
    using r args small_file_threshold_bounds [OF d] select_operation_ok [OF f root op] by (simp add: g)
qed

definition demo_cmdenv :: cmdenv where
  "demo_cmdenv =
     \<lparr>cm_build = demo_build, cm_mem = mem_ok, cm_euid = 0, cm_pass = (Some ''secret99'', Some ''secret99'')\<rparr>"

definition demo_argv :: "string list" where
  "demo_argv = [''savefs'', ''-ov'', ''-z5'', ''--jobs'', ''40'', ''/a.fsa'', ''--crypt=-'', ''/dev/sda1'']"

lemma demo_getopt:
  "getopt_long demo_argv =
     ([(CHR ''o'', []), (CHR ''v'', []), (CHR ''z'', ''5''), (CHR ''j'', ''40''), (CHR ''c'', ''-'')],
      [''savefs'', ''/a.fsa'', ''/dev/sda1''])"
  by (simp add: demo_argv_def getopt_name_def getopt_match_def long_options_def optstring_def opt_with_arg_def)

lemma demo_numbers: "atoi ''5'' = 5" "atoi ''40'' = 40" "atoi ''65538'' = 65538" "atoi ''2'' = 2"
  by (simp_all add: atoi_def atoll_def strtoll10_def is_space_def dec_value_def char_value_def)

lemma demo_cmdline:
  "\<exists>opt'. read_cmdline demo_cmdenv (snd options_init) demo_argv =
       Some (Inr (Cmd_save ''/a.fsa'' [''/dev/sda1''] ARCHTYPE_FILESYSTEMS, opt')) \<and>
     encryptpass opt' = ''secret99'' \<and> compressjobs opt' = 32"
  by (simp add: read_cmdline_def demo_getopt set_option_def set_legacy_level_def set_jobs_def set_password_def demo_numbers
      demo_cmdenv_def options_select_compress_level_def find_command_def read_password_def select_operation_def snprintf_s_def
      FSA_MAX_COMPJOBS_def FSA_MIN_PASSLEN_def FSA_MAX_PASSLEN_def FSA_MAX_FSPERARCH_def OPER_PROBE_def OPER_SAVEFS_def
      OPER_SAVEDIR_def Let_def)

lemma cmdline_accepted_witness:
  "\<exists>opt'. read_cmdline demo_cmdenv (snd options_init) demo_argv =
       Some (Inr (Cmd_save ''/a.fsa'' [''/dev/sda1''] ARCHTYPE_FILESYSTEMS, opt')) \<and>
     limits_ok opt' \<and> password_ok False opt' \<and> compressjobs opt' = 32"
  using demo_cmdline cmdline_accepted [of demo_cmdenv "snd options_init" demo_argv] by blast

text \<open>A password of 64 characters that is asked for is cut to 63 and never agrees with its confirmation.\<close>

lemma long_password_refused:
  assumes "length pw = FSA_MAX_PASSLEN" and "encryptpass opt = ''-''" and "cmd = OPER_SAVEFS"
  shows "read_password cmd (Some pw, Some pw) opt = Inl (-1)"
proof -
  have "length (take 63 pw) \<noteq> length pw" using assms(1) by (simp add: FSA_MAX_PASSLEN_def)
  then have "take 63 pw \<noteq> pw" by metis
  then show ?thesis using assms by (simp add: read_password_def snprintf_s_def FSA_MAX_PASSLEN_def FSA_MIN_PASSLEN_def)
qed

text \<open>The legacy level is stored in 16 bits before its range is checked.\<close>

lemma legacy_level_wraps: "set_legacy_level bld opt ''65538'' = set_legacy_level bld opt ''2''"
proof -
  have "(65538 :: u16) = 2" by simp
  then show ?thesis by (simp only: set_legacy_level_def demo_numbers of_int_numeral)
qed

end
