(* ===== verification/Extfeat.thy ===== *)
theory Extfeat
  imports Fsext
begin

text \<open>What becomes of the features of an ext2, ext3 or ext4 filesystem: what extfs_getinfo stores of them and what
  extfs_mkfs asks of mke2fs when the filesystem is restored as the same type.\<close>

section \<open>Single bits\<close>

text \<open>Whether a feature is on in the three words.\<close>

definition feature_on :: "features_tab \<Rightarrow> s_features \<Rightarrow> bool" where
  "feature_on tab f \<longleftrightarrow> tab ! fe_compat f AND scast (fe_mask f) \<noteq> 0"

definition single_bit :: "u32 \<Rightarrow> bool" where
  "single_bit m \<longleftrightarrow> (\<exists>n < 31. m = 2 ^ n)"

definition feature_ok :: "s_features \<Rightarrow> bool" where
  "feature_ok f \<longleftrightarrow> single_bit (fe_mask f) \<and> fe_compat f < 3"

lemma single_bitE:
  assumes "single_bit m"
  obtains n where "n < 31" "m = 2 ^ n" "scast m = (2 ^ n :: u64)"
proof -
  obtain n where n: "n < 31" "m = 2 ^ n" using assms by (auto simp: single_bit_def)
  have "scast (2 ^ n :: u32) = (2 ^ n :: u64)" using n(1) by (intro bit_word_eqI) (auto simp: bit_simps)
  then show thesis using n that by simp
qed

lemma feature_on_bit:
  assumes "fe_mask f = 2 ^ n" and "scast (fe_mask f) = (2 ^ n :: u64)"
  shows "feature_on tab f \<longleftrightarrow> bit (tab ! fe_compat f) n"
  using assms(2) by (simp add: feature_on_def and_exp_eq_0_iff_not_bit)

lemma feature_on_clear:
  assumes "feature_ok f" and "feature_ok g" and "length tab = 3"
  shows "feature_on (clear_feature tab (fe_compat g) (scast (fe_mask g))) f \<longleftrightarrow>
    feature_on tab f \<and> \<not> (fe_compat g = fe_compat f \<and> fe_mask g = fe_mask f)"
proof -
  obtain n where n: "n < 31" "fe_mask f = 2 ^ n" "scast (fe_mask f) = (2 ^ n :: u64)"
    using assms(1) single_bitE by (auto simp: feature_ok_def)
  obtain m where m: "m < 31" "fe_mask g = 2 ^ m" "scast (fe_mask g) = (2 ^ m :: u64)"
    using assms(2) single_bitE by (auto simp: feature_ok_def)
  have "(2 ^ m = (2 ^ n :: u32)) \<longleftrightarrow> m = n"
    using n(1) m(1) by (auto simp: bit_eq_iff bit_simps dest: spec [where x = m])
  then show ?thesis
    using assms n m
    by (auto simp: feature_on_bit [OF n(2,3)] clear_feature_def nth_list_update feature_ok_def bit_simps)
qed

lemma downgrade_length [simp]: "length (downgrade_features fs extfstype tab) = length tab"
  by (induction fs arbitrary: tab) (simp_all add: clear_feature_def)

lemma feature_on_downgrade:
  assumes "feature_ok f" and "\<forall>g \<in> set fs. feature_ok g" and "length tab = 3"
  shows "feature_on (downgrade_features fs extfstype tab) f \<longleftrightarrow>
    feature_on tab f \<and> \<not> (\<exists>g \<in> set fs. fe_firstfs g > extfstype \<and> fe_compat g = fe_compat f \<and> fe_mask g = fe_mask f)"
  using assms
proof (induction fs arbitrary: tab)
  case (Cons g fs)
  let ?tab = "if fe_firstfs g > extfstype then clear_feature tab (fe_compat g) (scast (fe_mask g)) else tab"
  have "length ?tab = 3" using Cons.prems by (simp add: clear_feature_def)
  then show ?case
    using Cons.IH [of ?tab] Cons.prems feature_on_clear [of f g tab] by auto
qed simp

section \<open>The table\<close>

lemma single_bit_power: "n < 31 \<Longrightarrow> single_bit (2 ^ n)"
  by (auto simp: single_bit_def)

lemmas single_bits =
  single_bit_power [of 0, simplified] single_bit_power [of 1, simplified] single_bit_power [of 2, simplified]
  single_bit_power [of 3, simplified] single_bit_power [of 4, simplified] single_bit_power [of 5, simplified]
  single_bit_power [of 6, simplified] single_bit_power [of 7, simplified] single_bit_power [of 8, simplified]
  single_bit_power [of 9, simplified] single_bit_power [of 10, simplified] single_bit_power [of 12, simplified]
  single_bit_power [of 13, simplified] single_bit_power [of 14, simplified] single_bit_power [of 15, simplified]
  single_bit_power [of 16, simplified] single_bit_power [of 17, simplified]

lemma mkfeatures_ok: "\<forall>f \<in> set mkfeatures. feature_ok f"
  by (simp add: mkfeatures_def feature_ok_def fsext_const single_bits)

lemma mkfeatures_distinct: "distinct (map (\<lambda>f. (fe_compat f, fe_mask f)) mkfeatures)"
  by (simp add: mkfeatures_def fsext_const)

lemma mkfeatures_unique:
  "\<lbrakk>f \<in> set mkfeatures; g \<in> set mkfeatures; fe_compat g = fe_compat f; fe_mask g = fe_mask f\<rbrakk> \<Longrightarrow> g = f"
  using mkfeatures_distinct by (auto simp: distinct_map inj_on_def)

text \<open>The bits that make a filesystem one of a later type.\<close>

definition later_bits :: "nat \<Rightarrow> nat \<Rightarrow> u32" where
  "later_bits extfstype k =
     (if extfstype = EXTFSTYPE_EXT2 then
        (if k = E2P_FEATURE_COMPAT then FSA_EXT3_FEATURE_COMPAT_HAS_JOURNAL
         else if k = E2P_FEATURE_INCOMPAT then FSA_EXT2_FEATURE_INCOMPAT_UNSUPPORTED OR FSA_EXT3_FEATURE_INCOMPAT_UNSUPPORTED
         else FSA_EXT2_FEATURE_RO_COMPAT_UNSUPPORTED OR FSA_EXT3_FEATURE_RO_COMPAT_UNSUPPORTED)
      else if extfstype = EXTFSTYPE_EXT3 then
        (if k = E2P_FEATURE_COMPAT then 0
         else if k = E2P_FEATURE_INCOMPAT then FSA_EXT3_FEATURE_INCOMPAT_UNSUPPORTED
         else FSA_EXT3_FEATURE_RO_COMPAT_UNSUPPORTED)
      else 0)"

text \<open>A feature that the program has only for ext4 although the kernel accepts it with the older types is not kept for them.\<close>

definition kept_feature :: "nat \<Rightarrow> s_features \<Rightarrow> bool" where
  "kept_feature extfstype f \<longleftrightarrow> extfstype = EXTFSTYPE_EXT4 \<or> fe_compat f \<noteq> E2P_FEATURE_COMPAT \<or> fe_firstfs f \<noteq> EXTFSTYPE_EXT4"

lemma and_or_zero: "w AND (a OR b) = 0 \<longleftrightarrow> w AND a = 0 \<and> w AND b = 0" for w a b :: "'a::len word"
  by (auto simp: bit_eq_iff bit_simps)

lemma fstype_later_bits:
  assumes "extfs_get_fstype_from_compat_flags c i r = T" and "k < 3"
  shows "[c, i, r] ! k AND later_bits T k = 0"
proof -
  have "k = 0 \<or> k = 1 \<or> k = 2" using assms(2) by auto
  moreover have "T = EXTFSTYPE_EXT2 \<or> T = EXTFSTYPE_EXT3 \<or> T = EXTFSTYPE_EXT4"
    using assms by (auto simp: extfs_get_fstype_from_compat_flags_def Let_def)
  ultimately show ?thesis
    using assms(1) unfolding extfs_get_fstype_from_compat_flags_def Let_def
    by (elim disjE) (auto simp: later_bits_def and_or_zero EXTFSTYPE_EXT2_def EXTFSTYPE_EXT3_def EXTFSTYPE_EXT4_def
        E2P_FEATURE_COMPAT_def E2P_FEATURE_INCOMPAT_def split: if_splits)
qed

lemma mkfeatures_later:
  assumes "f \<in> set mkfeatures" and "fe_firstfs f > T" and "kept_feature T f" and "T \<in> {EXTFSTYPE_EXT2, EXTFSTYPE_EXT3, EXTFSTYPE_EXT4}"
  shows "fe_mask f AND later_bits T (fe_compat f) = fe_mask f"
  using assms(4,1-3)
  by (elim insertE emptyE; simp add: mkfeatures_def kept_feature_def later_bits_def fsext_const; elim disjE; simp)

section \<open>The same type\<close>

lemma feature_on_u32:
  assumes "feature_ok f" and "tab = map ucast tab32" and "length tab32 = 3"
  shows "feature_on tab f \<longleftrightarrow> tab32 ! fe_compat f AND fe_mask f \<noteq> 0"
proof -
  obtain n where n: "n < 31" "fe_mask f = 2 ^ n" "scast (fe_mask f) = (2 ^ n :: u64)"
    using assms(1) single_bitE by (auto simp: feature_ok_def)
  have "fe_compat f < 3" using assms(1) by (simp add: feature_ok_def)
  then show ?thesis
    using n(1) assms(2,3) by (simp add: feature_on_bit [OF n(2,3)] n(2) and_exp_eq_0_iff_not_bit bit_simps)
qed

text \<open>Only the features that are not kept for the type are removed.\<close>

lemma same_type_features:
  fixes tab32 :: "u32 list"
  assumes f: "f \<in> set mkfeatures" and tab: "tab = map ucast tab32" "tab32 = [c, i, r]"
    and T: "extfs_get_fstype_from_compat_flags c i r = T"
  shows "feature_on (downgrade_features mkfeatures T tab) f \<longleftrightarrow> tab32 ! fe_compat f AND fe_mask f \<noteq> 0 \<and> kept_feature T f"
proof -
  have ok: "feature_ok f" using f mkfeatures_ok by blast
  have "length tab = 3" by (simp add: tab)
  from feature_on_downgrade [OF ok mkfeatures_ok this, where extfstype = T]
  have d: "feature_on (downgrade_features mkfeatures T tab) f \<longleftrightarrow> feature_on tab f \<and> \<not> fe_firstfs f > T"
    using f mkfeatures_unique by blast
  have on: "feature_on tab f \<longleftrightarrow> tab32 ! fe_compat f AND fe_mask f \<noteq> 0"
    by (rule feature_on_u32 [OF ok tab(1)]) (simp add: tab)
  have T3: "T \<in> {EXTFSTYPE_EXT2, EXTFSTYPE_EXT3, EXTFSTYPE_EXT4}"
    using T by (auto simp: extfs_get_fstype_from_compat_flags_def Let_def)
  show ?thesis
  proof (cases "fe_firstfs f > T \<and> kept_feature T f")
    case True
    have "fe_compat f < 3" using ok by (simp add: feature_ok_def)
    from fstype_later_bits [OF T this] have "tab32 ! fe_compat f AND later_bits T (fe_compat f) = 0" by (simp add: tab)
    moreover have "fe_mask f AND later_bits T (fe_compat f) = fe_mask f"
      using mkfeatures_later [OF f _ _ T3] True by blast
    ultimately have "tab32 ! fe_compat f AND fe_mask f = 0" by (auto simp: bit_eq_iff bit_simps)
    then show ?thesis using d on by simp
  next
    case False
    have "kept_feature T f" if "\<not> fe_firstfs f > T"
      using that T3 by (auto simp: kept_feature_def EXTFSTYPE_EXT2_def EXTFSTYPE_EXT3_def EXTFSTYPE_EXT4_def)
    then show ?thesis using d on False by blast
  qed
qed

lemma ucast_down_up: "ucast (ucast x :: u64) = x" for x :: u32
  by (rule bit_word_eqI) (simp add: bit_simps)

lemma choose_same_type:
  assumes "tab = [ucast c, ucast i, ucast r]" and "extfs_get_fstype_from_compat_flags c i r = T"
  shows "choose_features T ver large (tab, fsrev, isz) =
    (if large \<and> (T < EXTFSTYPE_EXT4 \<or> ver < PROGVER 1 42 0) then None
     else Some (if large then large_device_features (downgrade_features mkfeatures T tab) else downgrade_features mkfeatures T tab,
       fsrev, isz))"
  using assms(2)
  by (auto simp: choose_features_def upgrade_features_def Let_def ucast_down_up assms(1) E2P_FEATURE_COMPAT_def E2P_FEATURE_INCOMPAT_def
      E2P_FEATURE_RO_INCOMPAT_def)

text \<open>What a device of at least \<open>2 ^ 32\<close> blocks demands of a feature.\<close>

definition forced_feature :: "bool \<Rightarrow> s_features \<Rightarrow> bool option" where
  "forced_feature large f =
     (if \<not> large then None
      else if fe_name f \<in> {''64bit'', ''uninit_bg''} then Some True
      else if fe_name f = ''resize_inode'' then Some False else None)"

lemma feature_on_set:
  assumes "feature_ok f" and "g \<in> set mkfeatures" and "length tab = 3"
  shows "feature_on (set_feature tab (fe_compat g) (scast (fe_mask g))) f \<longleftrightarrow>
    feature_on tab f \<or> fe_compat g = fe_compat f \<and> fe_mask g = fe_mask f"
proof -
  obtain n where n: "n < 31" "fe_mask f = 2 ^ n" "scast (fe_mask f) = (2 ^ n :: u64)"
    using assms(1) single_bitE by (auto simp: feature_ok_def)
  have g: "feature_ok g" using assms(2) mkfeatures_ok by blast
  obtain m where m: "m < 31" "fe_mask g = 2 ^ m" "scast (fe_mask g) = (2 ^ m :: u64)"
    using g single_bitE by (auto simp: feature_ok_def)
  have "(2 ^ m = (2 ^ n :: u32)) \<longleftrightarrow> m = n"
    using n(1) m(1) by (auto simp: bit_eq_iff bit_simps dest: spec [where x = m])
  then show ?thesis
    using assms(1,3) g n m
    by (auto simp: feature_on_bit [OF n(2,3)] set_feature_def nth_list_update feature_ok_def bit_simps)
qed

lemma mkfeatures_forced:
  "\<exists>f64 \<in> set mkfeatures. \<exists>csum \<in> set mkfeatures. \<exists>resize \<in> set mkfeatures.
     large_device_features tab = set_feature (clear_feature (set_feature tab (fe_compat f64) (scast (fe_mask f64)))
       (fe_compat resize) (scast (fe_mask resize))) (fe_compat csum) (scast (fe_mask csum)) \<and>
     fe_name f64 = ''64bit'' \<and> fe_name csum = ''uninit_bg'' \<and> fe_name resize = ''resize_inode''"
  by (simp add: mkfeatures_def large_device_features_def fsext_const)

lemma mkfeatures_same_name:
  "f \<in> set mkfeatures \<Longrightarrow> g \<in> set mkfeatures \<Longrightarrow> fe_name f = fe_name g \<Longrightarrow> f = g"
proof -
  have "distinct (map fe_name mkfeatures)" by (simp add: mkfeatures_def)
  then show "f \<in> set mkfeatures \<Longrightarrow> g \<in> set mkfeatures \<Longrightarrow> fe_name f = fe_name g \<Longrightarrow> f = g"
    by (auto simp: distinct_map inj_on_def)
qed

lemma feature_on_large:
  assumes f: "f \<in> set mkfeatures" and len: "length tab = 3"
  shows "feature_on (large_device_features tab) f \<longleftrightarrow>
    (case forced_feature True f of Some b \<Rightarrow> b | None \<Rightarrow> feature_on tab f)"
proof -
  have ok: "feature_ok g" if "g \<in> set mkfeatures" for g using that mkfeatures_ok by blast
  obtain f64 csum resize where l: "f64 \<in> set mkfeatures" "csum \<in> set mkfeatures" "resize \<in> set mkfeatures"
    "large_device_features tab = set_feature (clear_feature (set_feature tab (fe_compat f64) (scast (fe_mask f64)))
       (fe_compat resize) (scast (fe_mask resize))) (fe_compat csum) (scast (fe_mask csum))"
    "fe_name f64 = ''64bit''" "fe_name csum = ''uninit_bg''" "fe_name resize = ''resize_inode''"
    using mkfeatures_forced [of tab] by blast
  have len': "length (set_feature t k m) = length t" "length (clear_feature t k m) = length t" for t k m
    by (simp_all add: set_feature_def clear_feature_def)
  have same: "fe_compat g = fe_compat f \<and> fe_mask g = fe_mask f \<longleftrightarrow> fe_name f = fe_name g" if "g \<in> set mkfeatures" for g
    using mkfeatures_unique [OF f that] mkfeatures_same_name [OF f that] by auto
  have "feature_on (large_device_features tab) f \<longleftrightarrow>
      (feature_on tab f \<or> fe_name f = ''64bit'') \<and> fe_name f \<noteq> ''resize_inode'' \<or> fe_name f = ''uninit_bg''"
    unfolding l(4)
    by (simp add: feature_on_set feature_on_clear ok f l(1-3) len len' same l(5-7))
  then show ?thesis by (auto simp: forced_feature_def)
qed

section \<open>The list for mke2fs\<close>

definition feature_text :: "features_tab \<Rightarrow> s_features \<Rightarrow> string" where
  "feature_text tab f = (if feature_on tab f then fe_name f else ''^'' @ fe_name f)"

definition name_plain :: "s_features \<Rightarrow> bool" where
  "name_plain f \<longleftrightarrow> (case fe_name f of [] \<Rightarrow> False | c # cs \<Rightarrow> c \<noteq> CHR ''^'' \<and> length cs < 1000)"

lemma feature_strings_texts:
  assumes "\<forall>f \<in> set fs. name_plain f \<and> fe_firste2p f \<le> ver" and "distinct (map fe_name fs)"
    and "\<forall>f \<in> set fs. fe_name f \<notin> set l \<and> ''^'' @ fe_name f \<notin> set l"
  shows "feature_strings mem_ok fs ver tab l = l @ map (feature_text tab) fs"
  using assms
proof (induction fs arbitrary: l)
  case (Cons f fs)
  have n: "fe_name f \<noteq> []" "hd (fe_name f) \<noteq> CHR ''^''" "snprintf_s 1024 (''^'' @ fe_name f) = ''^'' @ fe_name f"
    using Cons.prems(1) by (auto simp: name_plain_def snprintf_s_def split: list.splits)
  have "feature_text tab f \<notin> set l" using Cons.prems(3) by (simp add: feature_text_def)
  moreover have "feature_text tab f \<noteq> []" using n by (simp add: feature_text_def)
  ultimately have s: "snd (strlist_add mem_ok l (feature_text tab f)) = l @ [feature_text tab f]"
    by (simp add: strlist_add_def strlist_exists_iff)
  have d: "fe_name g \<noteq> feature_text tab f \<and> ''^'' @ fe_name g \<noteq> feature_text tab f" if "g \<in> set fs" for g
  proof -
    have "fe_name f \<notin> fe_name ` set fs" using Cons.prems(2) by simp
    then have "fe_name g \<noteq> fe_name f" using that by (metis imageI)
    moreover have "name_plain g" using Cons.prems(1) that by simp
    then have "hd (fe_name g) \<noteq> CHR ''^''" by (auto simp: name_plain_def split: list.splits)
    moreover have "CHR ''^'' # fe_name g \<noteq> fe_name f" using n(2) by (metis list.sel(1))
    moreover have "CHR ''^'' # fe_name f \<noteq> fe_name g" using \<open>hd (fe_name g) \<noteq> CHR ''^''\<close> by (metis list.sel(1))
    ultimately show ?thesis by (auto simp: feature_text_def)
  qed
  have "feature_strings mem_ok fs ver tab (l @ [feature_text tab f]) = (l @ [feature_text tab f]) @ map (feature_text tab) fs"
    using Cons.prems d by (intro Cons.IH) auto
  moreover have "feature_strings mem_ok (f # fs) ver tab l = feature_strings mem_ok fs ver tab (l @ [feature_text tab f])"
    using Cons.prems(1) s n(3) by (cases "feature_on tab f") (simp_all add: feature_text_def feature_on_def)
  ultimately show ?case by simp
qed simp

lemma mkfeatures_names: "distinct (map fe_name mkfeatures)" "\<forall>f \<in> set mkfeatures. name_plain f"
  by (simp_all add: mkfeatures_def name_plain_def)

lemma mkfeatures_versions: "\<forall>f \<in> set mkfeatures. fe_firste2p f \<le> PROGVER 1 47 0"
  by (simp add: mkfeatures_def PROGVER_def)

lemma mkfeatures_strings:
  assumes "PROGVER 1 47 0 \<le> ver"
  shows "feature_strings mem_ok mkfeatures ver tab [] = map (feature_text tab) mkfeatures"
proof -
  have "\<forall>f \<in> set mkfeatures. fe_firste2p f \<le> ver" using mkfeatures_versions assms by (blast intro: order_trans)
  then show ?thesis using feature_strings_texts [of mkfeatures ver "[]" tab] mkfeatures_names by simp
qed

section \<open>What is stored\<close>

lemma dico_steps_append: "dico_steps (xs @ ys) d = dico_steps ys (dico_steps xs d)"
  by (simp add: dico_steps_def)

text \<open>The entries under which the features and the revision are stored are new.\<close>

definition ext_keys_free :: "cdico \<Rightarrow> bool" where
  "ext_keys_free d \<longleftrightarrow> dico_wf d \<and>
     list_all (\<lambda>k. dico_find d 0 k = None)
       [FSYSHEADKEY_FSEXTREVISION, FSYSHEADKEY_FSEXTFEATURECOMPAT, FSYSHEADKEY_FSEXTFEATUREINCOMPAT, FSYSHEADKEY_FSEXTFEATUREROCOMPAT]"

lemma extfs_getinfo_stored:
  assumes free: "ext_keys_free d" and "b_mem env = mem_ok" and "b_ext2 env tr dev = Some super"
    and "extfs_getinfo env tr d dev = (0, d')"
  shows "dico_wf d'"
    "dico_find d' 0 FSYSHEADKEY_FSEXTREVISION = Some (u64_item FSYSHEADKEY_FSEXTREVISION (ucast (s_rev_level super)))"
    "dico_find d' 0 FSYSHEADKEY_FSEXTFEATURECOMPAT = Some (u64_item FSYSHEADKEY_FSEXTFEATURECOMPAT (ucast (s_feature_compat super)))"
    "dico_find d' 0 FSYSHEADKEY_FSEXTFEATUREINCOMPAT = Some (u64_item FSYSHEADKEY_FSEXTFEATUREINCOMPAT (ucast (s_feature_incompat super)))"
    "dico_find d' 0 FSYSHEADKEY_FSEXTFEATUREROCOMPAT = Some (u64_item FSYSHEADKEY_FSEXTFEATUREROCOMPAT (ucast (s_feature_ro_compat super)))"
  using assms
  by (auto simp: extfs_getinfo_def ext_keys_free_def Let_def dico_steps_append dico_step fsa_const split: if_splits)

definition super_has :: "fsa_ext2_sb \<Rightarrow> s_features \<Rightarrow> bool" where
  "super_has super f \<longleftrightarrow>
     [s_feature_compat super, s_feature_incompat super, s_feature_ro_compat super] ! fe_compat f AND fe_mask f \<noteq> 0"

text \<open>The feature is asked for when a filesystem is restored as the type it had.\<close>

definition wanted_feature :: "bool \<Rightarrow> fsa_ext2_sb \<Rightarrow> s_features \<Rightarrow> bool" where
  "wanted_feature large super f =
     (case forced_feature large f of Some b \<Rightarrow> b | None \<Rightarrow> super_has super f \<and> kept_feature (super_fstype super) f)"


text \<open>An ext3 with a journal, directory indexes and the feature of fast commits, which only ext4 has in the table.\<close>

definition demo_super :: fsa_ext2_sb where
  "demo_super =
     \<lparr>s_log_block_size = 2, s_max_mnt_count = 30, s_checkinterval = 86400, s_rev_level = 1, s_inode_size = 256,
      s_feature_compat = 0x42C, s_feature_incompat = 0x2, s_feature_ro_compat = 0x3, s_uuid = replicate 16 7,
      s_volume_name = ''data'', s_default_mount_opts = 0xC, s_raid_stride = 0, s_raid_stripe_width = 0\<rparr>"

definition demo_ext_env :: benv where
  "demo_ext_env = demo_benv\<lparr>b_ext2 := (\<lambda>tr dev. Some demo_super)\<rparr>"

lemma demo_getinfo: "\<exists>d'. extfs_getinfo demo_ext_env [] [] ''/dev/sda1'' = (0, d')"
  by (simp add: extfs_getinfo_def demo_ext_env_def demo_super_def Let_def extfs_check_compatibility_def fsext_const)


end
