(* ===== verification/Topsafe.thy ===== *)
theory Topsafe
  imports Restfs Savefs
begin

text \<open>The two operations that write to devices and mount them: a filesystem is only made on a device that has been
  checked, and whatever is mounted for saving is unmounted at the end.\<close>

section \<open>Restoring a filesystem\<close>

text \<open>What has been established before the first program is run or anything is mounted.\<close>

definition destination_checked :: "restenv \<Rightarrow> bcall list \<Rightarrow> cdico \<Rightarrow> cstrdico \<Rightarrow> cextractar \<Rightarrow> bool" where
  "destination_checked env tr dicofs dicocmdline exar \<longleftrightarrow>
     (\<exists>part res m lres d fsid exar1 fstype.
        strdico_get_string dicocmdline 1024 ''dest'' = (0, part) \<and>
        head_u64_or (r_b env) dicofs FSYSHEADKEY_MINFSAVERSION (FSA_VERSION_BUILD 0 6 4 0) \<le> curver \<and>
        generic_get_mntinfo (r_fs env tr) part (PATH_MAX, 128, FSA_MAX_FSNAMELEN) [] = Some (res, m) \<and> res \<noteq> 0 \<and>
        x_dequeue_header exar = Some (lres, Some (d, FSA_MAGIC_FSYB, fsid), exar1) \<and>
        filesystem_type env dicofs dicocmdline = Some (Some fstype) \<and> fstype < length filesys)"

text \<open>A successful end: the tree was extracted without an error and the filesystem is unmounted again.\<close>

definition restored_and_unmounted :: "restenv \<Rightarrow> cdico \<Rightarrow> cstrdico \<Rightarrow> bcall list \<Rightarrow> bool" where
  "restored_and_unmounted env dicofs dicocmdline tr' \<longleftrightarrow>
     (\<exists>fstype mntbuf exar1 exar2 tr1 tr2.
        filesystem_type env dicofs dicocmdline = Some (Some fstype) \<and>
        extractar_extract_read_objects (r_x env) mntbuf fstype exar1 = Some (0, 0, exar2) \<and>
        fo_umount (filesys_ops ! fstype) (r_b env) tr1 mntbuf = Some (0, tr2) \<and> tr' = tr2 @ [Do_rmdir mntbuf])"

lemma fstype_loop_bound: "fstype_loop fs i name = (0, k) \<Longrightarrow> i \<le> k \<and> k < i + int (length fs)"
  by (induction fs arbitrary: i) (fastforce split: if_splits)+

lemma get_fstype_bound: "generic_get_fstype name = (0, k) \<Longrightarrow> nat k < length filesys"
  using fstype_loop_bound [of filesys 0 name k] by (auto simp: generic_get_fstype_def)

lemma filesystem_type_bound: "filesystem_type env dicofs dicocmdline = Some (Some fstype) \<Longrightarrow> fstype < length filesys"
  by (auto simp: filesystem_type_def Let_def get_fstype_bound split: option.splits if_splits prod.splits)

lemma filesystem_checksD:
  assumes "filesystem_checks env tr dicofs dicocmdline = Some (0, part)"
  shows "strdico_get_string dicocmdline 1024 ''dest'' = (0, part)"
    "head_u64_or (r_b env) dicofs FSYSHEADKEY_MINFSAVERSION (FSA_VERSION_BUILD 0 6 4 0) \<le> curver"
    "\<exists>res m. generic_get_mntinfo (r_fs env tr) part (PATH_MAX, 128, FSA_MAX_FSNAMELEN) [] = Some (res, m) \<and> res \<noteq> 0"
  using assms by (auto simp: filesystem_checks_def Let_def not_less split: if_splits prod.splits)

lemma filesystem_objects_ok:
  assumes "filesystem_objects env mntbuf fstype exar = Some (0, exar')"
  shows "\<exists>exar1. extractar_extract_read_objects (r_x env) mntbuf fstype exar = Some (0, 0, exar1)"
  using assms
  by (auto simp: filesystem_objects_def bind_eq_Some_conv split: if_splits prod.splits)

lemma filesystem_umount_ok:
  assumes "filesystem_umount env tr fstype mntbuf ret = Some (0, tr')"
  shows "ret = 0 \<and> (\<exists>tr1. fo_umount (filesys_ops ! fstype) (r_b env) tr mntbuf = Some (0, tr1) \<and> tr' = tr1 @ [Do_rmdir mntbuf])"
  using assms by (auto simp: filesystem_umount_def split: if_splits prod.splits)


section \<open>Unmounting what was mounted for saving\<close>

text \<open>The directories on which something has been mounted successfully by the calls \<open>cs\<close>, which were made after \<open>tr\<close>.\<close>

fun done_mounts :: "benv \<Rightarrow> bcall list \<Rightarrow> bcall list \<Rightarrow> string set" where
  "done_mounts env tr [] = {}"
| "done_mounts env tr (Do_mount src dir fs flags opt # cs) =
     (if b_mount env tr src dir fs flags opt = 0 then {dir} else {}) \<union>
     done_mounts env (tr @ [Do_mount src dir fs flags opt]) cs"
| "done_mounts env tr (c # cs) = done_mounts env (tr @ [c]) cs"

lemma done_mounts_append: "done_mounts env tr (xs @ ys) = done_mounts env tr xs \<union> done_mounts env (tr @ xs) ys"
  by (induction env tr xs rule: done_mounts.induct) auto

text \<open>Calls none of which is a mount.\<close>

fun no_mount :: "bcall \<Rightarrow> bool" where
  "no_mount (Do_mount src dir fs flags opt) \<longleftrightarrow> False"
| "no_mount _ \<longleftrightarrow> True"

definition quiet :: "bcall list \<Rightarrow> bcall list \<Rightarrow> bool" where
  "quiet tr tr' \<longleftrightarrow> (\<exists>cs. tr' = tr @ cs \<and> list_all no_mount cs)"

lemma quiet_refl [simp]: "quiet tr tr"
  by (simp add: quiet_def)

lemma quiet_trans [trans]: "quiet a b \<Longrightarrow> quiet b c \<Longrightarrow> quiet a c"
  unfolding quiet_def by (elim exE conjE, rule exI, rule conjI, erule ssubst, erule ssubst, rule append_assoc) simp

lemma quiet_snoc [simp]: "no_mount c \<Longrightarrow> quiet tr (tr @ [c])"
  by (simp add: quiet_def)

lemma quiet_prefix: "quiet tr tr' \<Longrightarrow> prefix tr tr'"
  by (auto simp: quiet_def)

lemma quiet_done_mounts: "list_all no_mount cs \<Longrightarrow> done_mounts env tr cs = {}"
proof (induction cs arbitrary: tr)
  case (Cons c cs)
  then show ?case by (cases c) auto
qed simp

text \<open>What a function that mounts on \<open>dir\<close> may do: its calls mount nothing else, and nothing at all if it fails.\<close>

definition mounts_at :: "benv \<Rightarrow> string \<Rightarrow> bool \<Rightarrow> bcall list \<Rightarrow> bcall list \<Rightarrow> bool" where
  "mounts_at env dir ok tr tr' \<longleftrightarrow> (\<exists>cs. tr' = tr @ cs \<and> done_mounts env tr cs \<subseteq> (if ok then {dir} else {}))"

lemma quiet_mounts_at: "quiet tr tr' \<Longrightarrow> mounts_at env dir ok tr tr'"
  by (auto simp: quiet_def mounts_at_def quiet_done_mounts)

lemma mounts_at_trans: "mounts_at env dir False a b \<Longrightarrow> mounts_at env dir ok b c \<Longrightarrow> mounts_at env dir ok a c"
  unfolding mounts_at_def by (elim exE conjE) (simp add: done_mounts_append)

lemma exec_command_quiet: "exec_command env tr n1 n2 n3 text = Some (r, st, out, err, tr') \<Longrightarrow> quiet tr tr'"
  by (auto simp: exec_command_def Let_def split: option.splits list.splits if_splits)

lemma run_command_quiet: "run_command env tr text = Some (started, exitst, tr') \<Longrightarrow> quiet tr tr'"
  by (auto simp: run_command_def dest: exec_command_quiet)

lemma ntfs_umount_quiet: "ntfs_umount env tr mntbuf = Some (r, tr') \<Longrightarrow> quiet tr tr'"
  by (auto simp: ntfs_umount_def bind_eq_Some_conv split: if_splits
      dest!: run_command_quiet intro: quiet_trans)

lemma umount_quiet:
  assumes "i < length filesys" and "fo_umount (filesys_ops ! i) env tr mntbuf = Some (r, tr')"
  shows "quiet tr tr'"
proof -
  have "fo_umount (filesys_ops ! i) = ntfs_umount \<or> fo_umount (filesys_ops ! i) = plain_umount back_umount"
    using assms(1)
    by (auto simp: filesys_def filesys_ops_def less_Suc_eq numeral_eq_Suc fun_eq_iff plain_umount_def extfs_umount_def
        reiserfs_umount_def reiser4_umount_def btrfs_umount_def xfs_umount_def jfs_umount_def vfat_umount_def)
  then show ?thesis
    using assms(2) ntfs_umount_quiet by (auto simp: plain_umount_def back_umount_def)
qed

lemma ntfs_mount_quiet: "ntfs_mount env tr part mntbuf fsbuf flags mntinfo = Some (r, tr') \<Longrightarrow> quiet tr tr'"
  by (auto simp: ntfs_mount_def bind_eq_Some_conv Let_def split: if_splits
      dest!: run_command_quiet exec_command_quiet intro: quiet_trans)

lemma back_mount_mounts:
  "back_mount env tr part mntbuf fsbuf mntopt flags = (r, tr') \<Longrightarrow> mounts_at env mntbuf (r = 0) tr tr'"
  by (auto simp: back_mount_def generic_mount_def mounts_at_def Let_def split: if_splits)

lemma mount_mounts:
  assumes "i < length filesys" and "fo_mount (filesys_ops ! i) env tr part mntbuf fsbuf flags mntinfo = Some (r, tr')"
  shows "mounts_at env mntbuf (r = 0) tr tr'"
proof -
  have "(\<exists>opt. back_mount env tr part mntbuf fsbuf opt flags = (r, tr')) \<or> quiet tr tr' \<or>
      ntfs_mount env tr part mntbuf fsbuf flags mntinfo = Some (r, tr')"
    using assms
    by (auto simp: filesys_def filesys_ops_def less_Suc_eq numeral_eq_Suc plain_mount_def extfs_mount_def
        reiserfs_mount_def reiser4_mount_def btrfs_mount_def xfs_mount_def jfs_mount_def vfat_mount_def
        split: option.splits if_splits)
  then show ?thesis by (elim disjE exE) (blast intro: back_mount_mounts quiet_mounts_at ntfs_mount_quiet)+
qed

lemma probe_mount_mounts:
  "probe_mount env tr dev is = Some (t, tr') \<Longrightarrow> set is \<subseteq> {..<length filesys} \<Longrightarrow>
   mounts_at env (dv_partmount dev) (t \<noteq> None) tr tr'"
proof (induction env tr dev "is" rule: probe_mount.induct)
  case (2 env tr dev i "is")
  show ?case
  proof (cases "fo_test (filesys_ops ! i) env tr (dv_devpath dev)")
    case True
    obtain r tr1 where m: "fo_mount (filesys_ops ! i) env tr (dv_devpath dev) (dv_partmount dev) (fs_name (filesys ! i)) MS_RDONLY [] = Some (r, tr1)"
      using 2(3) True by (auto simp: bind_eq_Some_conv)
    have at: "mounts_at env (dv_partmount dev) (r = 0) tr tr1" using mount_mounts [OF _ m] 2(4) by simp
    show ?thesis
    proof (cases "r = 0")
      case False
      then have "probe_mount env tr1 dev is = Some (t, tr')" using 2(3) True m by simp
      then have "mounts_at env (dv_partmount dev) (t \<noteq> None) tr1 tr'"
        using 2(1) [OF True m refl False] 2(4) by simp
      then show ?thesis using mounts_at_trans at False by simp
    qed (use 2(3) True m at in auto)
  qed (use 2 in simp)
qed (simp add: quiet_mounts_at)

lemma back_mkdir_quiet: "quiet tr (back_mkdir env tr path)"
proof -
  have "quiet tr (mkdir_recursive_loop missing (\<lambda>tr p. tr @ [Do_mkdir p]) tr path poss)" for missing poss
  proof (induction poss arbitrary: tr)
    case (Cons pos poss)
    have "quiet tr (mkdir_recursive_loop missing (\<lambda>tr p. tr @ [Do_mkdir p]) (tr @ [Do_mkdir p]) path poss)" for p
      using quiet_trans [OF _ Cons.IH [of "tr @ [Do_mkdir p]"]] by simp
    then show ?case using Cons.IH [of tr] by (simp add: Let_def)
  qed simp
  then show ?thesis by (simp add: back_mkdir_def mkdir_recursive_def)
qed

text \<open>The unmount function of its back end was called for a partition after the calls \<open>pre\<close>, and its calls are among those
  that were made; for all back ends but that of NTFS, which runs a program, this is a call of umount.\<close>

definition unmount_run :: "benv \<Rightarrow> cdevinfo \<Rightarrow> bcall list \<Rightarrow> bcall list \<Rightarrow> bool" where
  "unmount_run env dev pre tr \<longleftrightarrow>
     (\<exists>tr0 r tr1. fo_umount (filesys_ops ! dv_fstype dev) env tr0 (dv_partmount dev) = Some (r, tr1) \<and>
        prefix pre tr0 \<and> prefix tr1 tr \<and>
        (fs_name (filesys ! dv_fstype dev) \<noteq> ''ntfs'' \<longrightarrow> Do_umount (dv_partmount dev) \<in> set (drop (length pre) tr)))"

lemma plain_umount_call:
  assumes "i < length filesys" and "fs_name (filesys ! i) \<noteq> ''ntfs''" and "fo_umount (filesys_ops ! i) env tr mntbuf = Some (r, tr')"
  shows "tr' = tr @ [Do_umount mntbuf]"
  using assms
  by (auto simp: filesys_def filesys_ops_def less_Suc_eq numeral_eq_Suc plain_umount_def extfs_umount_def back_umount_def
      reiserfs_umount_def reiser4_umount_def btrfs_umount_def xfs_umount_def jfs_umount_def vfat_umount_def)

lemma umount_all_runs:
  assumes "umount_all env devs tr = Some tr'" and "\<forall>dev \<in> set devs. dv_fstype dev < length filesys" and "prefix pre tr"
  shows "quiet tr tr' \<and> (\<forall>dev \<in> set devs. dv_mountedbyfsa dev \<longrightarrow> unmount_run (w_b env) dev pre tr')"
  using assms
proof (induction env devs tr rule: umount_all.induct)
  case (2 env dev devs tr)
  show ?case
  proof (cases "dv_mountedbyfsa dev")
    case True
    obtain r tr1 where u: "fo_umount (filesys_ops ! dv_fstype dev) (w_b env) tr (dv_partmount dev) = Some (r, tr1)"
      using 2(3) True by (cases "fo_umount (filesys_ops ! dv_fstype dev) (w_b env) tr (dv_partmount dev)") auto
    let ?tr2 = "if r \<noteq> 0 then tr1 else tr1 @ [Do_rmdir (dv_partmount dev)]"
    have b: "dv_fstype dev < length filesys" using 2(4) by simp
    have q1: "quiet tr tr1" using umount_quiet [OF b u] .
    have q2: "quiet tr1 ?tr2" by simp
    have "prefix pre ?tr2" using 2(5) quiet_prefix [OF quiet_trans [OF q1 q2]] by (rule prefix_order.trans)
    moreover have "umount_all env devs ?tr2 = Some tr'" using 2(3) True u by simp
    ultimately have "quiet ?tr2 tr' \<and> (\<forall>dev \<in> set devs. dv_mountedbyfsa dev \<longrightarrow> unmount_run (w_b env) dev pre tr')"
      using 2(1) [OF True, of "(r, tr1)" r tr1] 2(4) u by simp
    then have ih: "quiet ?tr2 tr'" "\<forall>dev \<in> set devs. dv_mountedbyfsa dev \<longrightarrow> unmount_run (w_b env) dev pre tr'"
      by blast+
    have p: "prefix tr1 tr'" using quiet_prefix [OF quiet_trans [OF q2 ih(1)]] .
    have "Do_umount (dv_partmount dev) \<in> set (drop (length pre) tr')" if "fs_name (filesys ! dv_fstype dev) \<noteq> ''ntfs''"
    proof -
      have "tr1 = tr @ [Do_umount (dv_partmount dev)]" using plain_umount_call [OF b that u] .
      then obtain zs where "tr' = tr @ Do_umount (dv_partmount dev) # zs" using p by (auto elim: prefixE)
      moreover have "length pre \<le> length tr" using 2(5) by (rule prefix_length_le)
      ultimately show ?thesis by simp
    qed
    then have "unmount_run (w_b env) dev pre tr'" using u p 2(5) unfolding unmount_run_def by blast
    moreover have "quiet tr tr'" using q1 quiet_trans [OF q2 ih(1)] by (rule quiet_trans)
    ultimately show ?thesis using ih(2) by simp
  next
    case False then show ?thesis using 2 by simp
  qed
qed simp

text \<open>Every partition of the state has a type of the table.\<close>

abbreviation types_ok :: "savestate \<Rightarrow> bool" where
  "types_ok s \<equiv> \<forall>dev \<in> set (ss_devs s). dv_fstype dev < length filesys"

lemma probe_mount_bound: "probe_mount env tr dev is = Some (Some i, tr') \<Longrightarrow> i \<in> set is"
  by (induction env tr dev "is" rule: probe_mount.induct) (auto simp: bind_eq_Some_conv split: if_splits)

lemma mount_again_type:
  "mount_again env tr dev m = (r, dev', tr') \<Longrightarrow> dv_fstype dev < length filesys \<Longrightarrow> dv_fstype dev' < length filesys"
  by (auto simp: mount_again_def Let_def get_fstype_bound split: prod.splits if_splits)

lemma mount_fresh_type:
  "mount_fresh env tr dev = Some (r, dev', tr') \<Longrightarrow> dv_fstype dev < length filesys \<Longrightarrow> dv_fstype dev' < length filesys"
  by (auto simp: mount_fresh_def Let_def dest!: probe_mount_bound split: option.splits)

lemma mount_partition_type:
  assumes "filesystem_mount_partition env tr dev d = Some (r, dev', d', tr')" and "dv_fstype dev < length filesys"
  shows "dv_fstype dev' < length filesys"
proof -
  obtain res m where g: "generic_get_mntinfo (w_fs env tr) (dv_devpath dev) (PATH_MAX, 128, FSA_MAX_FSNAMELEN) [] = Some (res, m)"
    using assms(1) by (auto simp: filesystem_mount_partition_def bind_eq_Some_conv)
  obtain r1 dev1 tr1 where m: "(if res = 0 then Some (mount_again env tr dev m) else mount_fresh env tr dev) = Some (r1, dev1, tr1)"
    using assms(1) by (auto simp: filesystem_mount_partition_def bind_eq_Some_conv g)
  have "dev' = dev1"
    using assms(1) by (auto simp: filesystem_mount_partition_def g m Let_def bind_eq_Some_conv split: if_splits option.splits)
  then show ?thesis
    using m assms(2) by (auto split: if_splits intro: mount_again_type mount_fresh_type)
qed

lemma mount_all_types: "mount_all env args i s = Some (ok, s') \<Longrightarrow> types_ok s \<Longrightarrow> types_ok s'"
proof (induction args arbitrary: i s)
  case (Cons arg args)
  have i: "\<not> FSA_MAX_FSPERARCH \<le> i" using Cons.prems(1) by (simp split: if_splits)
  show ?case
  proof (cases "dico_alloc (s_mem (w_s env))")
    case None then show ?thesis using Cons.prems i by simp
  next
    case (Some d)
    obtain r dev d' tr where m: "filesystem_mount_partition env (ss_trace s) (new_devinfo env s arg i) d = Some (r, dev, d', tr)"
      using Cons.prems(1) i Some by (cases "filesystem_mount_partition env (ss_trace s) (new_devinfo env s arg i) d") auto
    define s1 where "s1 = s\<lparr>ss_devs := ss_devs s @ [dev], ss_heads := ss_heads s @ [d'], ss_trace := tr\<rparr>"
    have "dv_fstype dev < length filesys"
      using m by (rule mount_partition_type) (simp add: new_devinfo_def filesys_def)
    then have t: "types_ok s1" using Cons.prems(2) by (auto simp: s1_def)
    have "(if r \<noteq> 0 then Some (False, s1) else mount_all env args (i + 1) s1) = Some (ok, s')"
      using Cons.prems(1) i Some m by (cases "r = 0") (simp_all add: Let_def s1_def)
    then show ?thesis using t Cons.IH [of "i + 1" s1] by (cases "r = 0") auto
  qed
qed simp

text \<open>What has been mounted is in the list of partitions, marked to be unmounted.\<close>

definition mounts_listed :: "saveenv \<Rightarrow> savestate \<Rightarrow> bool" where
  "mounts_listed env s \<longleftrightarrow>
     (\<forall>dir \<in> done_mounts (w_b env) [] (ss_trace s). \<exists>dev \<in> set (ss_devs s). dv_partmount dev = dir \<and> dv_mountedbyfsa dev)"

lemma mounts_at_mono: "mounts_at env dir ok tr tr' \<Longrightarrow> (ok \<Longrightarrow> ok') \<Longrightarrow> mounts_at env dir ok' tr tr'"
  unfolding mounts_at_def by (elim exE conjE) (rule exI, rule conjI, assumption, auto split: if_splits)

lemma mount_again_mounts:
  "mount_again env tr dev m = (r, dev', tr') \<Longrightarrow>
   dv_partmount dev' = dv_partmount dev \<and> mounts_at (w_b env) (dv_partmount dev) (dv_mountedbyfsa dev') tr tr'"
proof -
  assume m: "mount_again env tr dev m = (r, dev', tr')"
  let ?tr = "back_mkdir (w_b env) tr (dv_partmount dev)"
  have q: "mounts_at (w_b env) (dv_partmount dev) False tr ?tr" by (rule quiet_mounts_at [OF back_mkdir_quiet])
  have b: "mounts_at (w_b env) (dv_partmount dev) (b_mount (w_b env) ?tr src (dv_partmount dev) fs flags opt = 0) ?tr
      (?tr @ [Do_mount src (dv_partmount dev) fs flags opt])" for src fs flags opt
    by (simp add: mounts_at_def)
  note qb = mounts_at_trans [OF q b]
  have "dv_partmount dev' = dv_partmount dev \<and> (tr' = tr \<or>
      (\<exists>src fs flags opt. tr' = ?tr @ [Do_mount src (dv_partmount dev) fs flags opt] \<and>
        dv_mountedbyfsa dev' = (b_mount (w_b env) ?tr src (dv_partmount dev) fs flags opt = 0)))"
    using m by (auto simp: mount_again_def Let_def split: prod.splits if_splits)
  then show ?thesis
  proof (elim conjE disjE exE)
    fix src fs flags opt
    assume "tr' = ?tr @ [Do_mount src (dv_partmount dev) fs flags opt]"
      "dv_mountedbyfsa dev' = (b_mount (w_b env) ?tr src (dv_partmount dev) fs flags opt = 0)"
      "dv_partmount dev' = dv_partmount dev"
    then show ?thesis using qb [of src fs flags opt] by (simp only: simp_thms)
  qed (simp add: quiet_mounts_at)
qed

lemma mount_fresh_mounts:
  assumes "mount_fresh env tr dev = Some (r, dev', tr')"
  shows "dv_partmount dev' = dv_partmount dev \<and> mounts_at (w_b env) (dv_partmount dev) (dv_mountedbyfsa dev') tr tr'"
proof -
  let ?tr = "back_mkdir (w_b env) tr (dv_partmount dev)"
  obtain t where p: "probe_mount (w_b env) ?tr dev [0..<length filesys_ops] = Some (t, tr')"
      "t \<noteq> None \<longrightarrow> dv_mountedbyfsa dev'" "dv_partmount dev' = dv_partmount dev"
    using assms by (auto simp: mount_fresh_def Let_def split: option.splits)
  have "mounts_at (w_b env) (dv_partmount dev) (t \<noteq> None) ?tr tr'" by (rule probe_mount_mounts [OF p(1)]) auto
  from mounts_at_trans [OF quiet_mounts_at [OF back_mkdir_quiet] this] show ?thesis
    using p(2,3) by (auto intro: mounts_at_mono)
qed

lemma mount_partition_mounts:
  assumes "filesystem_mount_partition env tr dev d = Some (r, dev', d', tr')"
  shows "mounts_at (w_b env) (dv_partmount dev') (dv_mountedbyfsa dev') tr tr'"
proof -
  obtain res m where g: "generic_get_mntinfo (w_fs env tr) (dv_devpath dev) (PATH_MAX, 128, FSA_MAX_FSNAMELEN) [] = Some (res, m)"
    using assms(1) by (auto simp: filesystem_mount_partition_def bind_eq_Some_conv)
  obtain r1 dev1 tr1 where m: "(if res = 0 then Some (mount_again env tr dev m) else mount_fresh env tr dev) = Some (r1, dev1, tr1)"
    using assms(1) by (auto simp: filesystem_mount_partition_def bind_eq_Some_conv g)
  have "dev' = dev1 \<and> tr' = tr1"
    using assms(1) by (auto simp: filesystem_mount_partition_def g m Let_def bind_eq_Some_conv split: if_splits option.splits)
  then show ?thesis
    using m mount_again_mounts [of env tr dev m r1 dev1 tr1] mount_fresh_mounts [of env tr dev r1 dev1 tr1]
    by (auto split: if_splits)
qed

lemma mount_partition_marks:
  assumes "filesystem_mount_partition env tr dev d = Some (0, dev', d', tr')"
  shows "dv_mountedbyfsa dev'"
proof -
  obtain res m where g: "generic_get_mntinfo (w_fs env tr) (dv_devpath dev) (PATH_MAX, 128, FSA_MAX_FSNAMELEN) [] = Some (res, m)"
    using assms(1) by (auto simp: filesystem_mount_partition_def bind_eq_Some_conv)
  obtain r1 dev1 tr1 where m: "(if res = 0 then Some (mount_again env tr dev m) else mount_fresh env tr dev) = Some (r1, dev1, tr1)"
    using assms(1) by (auto simp: filesystem_mount_partition_def bind_eq_Some_conv g)
  have "dev' = dev1 \<and> r1 = 0"
    using assms(1) by (auto simp: filesystem_mount_partition_def g m Let_def bind_eq_Some_conv split: if_splits option.splits)
  then show ?thesis
    using m by (auto simp: mount_again_def mount_fresh_def Let_def split: if_splits prod.splits option.splits)
qed

lemma mount_all_marks:
  "mount_all env args i s = Some (True, s') \<Longrightarrow> list_all dv_mountedbyfsa (ss_devs s) \<Longrightarrow> list_all dv_mountedbyfsa (ss_devs s')"
proof (induction args arbitrary: i s)
  case (Cons arg args)
  have i: "\<not> FSA_MAX_FSPERARCH \<le> i" using Cons.prems(1) by (simp split: if_splits)
  obtain d where d: "dico_alloc (s_mem (w_s env)) = Some d" using Cons.prems(1) i by (cases "dico_alloc (s_mem (w_s env))") auto
  obtain r dev d' tr where m: "filesystem_mount_partition env (ss_trace s) (new_devinfo env s arg i) d = Some (r, dev, d', tr)"
    using Cons.prems(1) i d by (cases "filesystem_mount_partition env (ss_trace s) (new_devinfo env s arg i) d") auto
  have r: "r = 0" using Cons.prems(1) i d m by (simp add: Let_def split: if_splits)
  then have "dv_mountedbyfsa dev" using m mount_partition_marks by blast
  then show ?case using Cons i d m r by (simp add: Let_def)
qed simp

lemma mount_all_mounts: "mount_all env args i s = Some (ok, s') \<Longrightarrow> mounts_listed env s \<Longrightarrow> mounts_listed env s'"
proof (induction args arbitrary: i s)
  case (Cons arg args)
  have i: "\<not> FSA_MAX_FSPERARCH \<le> i" using Cons.prems(1) by (simp split: if_splits)
  show ?case
  proof (cases "dico_alloc (s_mem (w_s env))")
    case None then show ?thesis using Cons.prems i by simp
  next
    case (Some d)
    obtain r dev d' tr where m: "filesystem_mount_partition env (ss_trace s) (new_devinfo env s arg i) d = Some (r, dev, d', tr)"
      using Cons.prems(1) i Some by (cases "filesystem_mount_partition env (ss_trace s) (new_devinfo env s arg i) d") auto
    define s1 where "s1 = s\<lparr>ss_devs := ss_devs s @ [dev], ss_heads := ss_heads s @ [d'], ss_trace := tr\<rparr>"
    obtain cs where cs: "tr = ss_trace s @ cs"
      "done_mounts (w_b env) (ss_trace s) cs \<subseteq> (if dv_mountedbyfsa dev then {dv_partmount dev} else {})"
      using mount_partition_mounts [OF m] by (auto simp: mounts_at_def)
    have "mounts_listed env s1"
      unfolding mounts_listed_def
    proof
      fix dir assume "dir \<in> done_mounts (w_b env) [] (ss_trace s1)"
      then consider "dir \<in> done_mounts (w_b env) [] (ss_trace s)" | "dv_mountedbyfsa dev" "dir = dv_partmount dev"
        using cs by (auto simp: s1_def done_mounts_append split: if_splits)
      then show "\<exists>dev \<in> set (ss_devs s1). dv_partmount dev = dir \<and> dv_mountedbyfsa dev"
        by cases (use Cons.prems(2) in \<open>auto simp: s1_def mounts_listed_def\<close>)
    qed
    moreover have "(if r \<noteq> 0 then Some (False, s1) else mount_all env args (i + 1) s1) = Some (ok, s')"
      using Cons.prems(1) i Some m by (cases "r = 0") (simp_all add: Let_def s1_def)
    ultimately show ?thesis using Cons.IH [of "i + 1" s1] by (cases "r = 0") auto
  qed
qed simp

text \<open>Nothing else changes the list of partitions and the calls.\<close>

abbreviation frame :: "savestate \<Rightarrow> cdevinfo list \<times> bcall list" where
  "frame s \<equiv> (ss_devs s, ss_trace s)"

lemma eval_cost_devs: "eval_cost env rootdir s = Some (ok, cost, s') \<Longrightarrow> frame s' = frame s"
  by (auto simp: eval_cost_def)

lemma add_head_devs: "add_head env d magic s = (r, s') \<Longrightarrow> frame s' = frame s"
  by (auto simp: add_head_def split: prod.splits)

lemma update_devs [simp]:
  "ss_devs (add_cost cost s) = ss_devs s" "ss_devs (reset_counters s) = ss_devs s" "ss_devs (count_errors s) = ss_devs s"
  "ss_trace (add_cost cost s) = ss_trace s" "ss_trace (reset_counters s) = ss_trace s" "ss_trace (count_errors s) = ss_trace s"
  by (simp_all add: add_cost_def reset_counters_def count_errors_def)

lemma analyse_all_devs: "analyse_all env devs s = Some (ok, s') \<Longrightarrow> frame s' = frame s"
proof (induction devs arbitrary: s)
  case (Cons x devs)
  obtain dev d where x: "x = (dev, d)" by (cases x)
  obtain ok1 cost s1 where e: "eval_cost env (dv_partmount dev) s = Some (ok1, cost, s1)"
    using Cons.prems by (cases "eval_cost env (dv_partmount dev) s") (auto simp: x)
  obtain r1 d1 where d1: "dico_add_u64 (s_mem (w_s env)) d 0 FSYSHEADKEY_TOTALCOST cost = (r1, d1)" by fastforce
  obtain r2 s2 where h: "add_head env d1 FSA_MAGIC_FSIN (add_cost cost s1) = (r2, s2)" by fastforce
  have "frame s1 = frame s" "frame s2 = frame s1" using eval_cost_devs [OF e] add_head_devs [OF h] by simp_all
  then show ?case
    using Cons.prems Cons.IH [of s2] by (simp add: x e d1 h split: if_splits)
qed simp

lemma analyse_dirs_devs: "analyse_dirs env args s = Some (ok, s') \<Longrightarrow> frame s' = frame s"
proof (induction args arbitrary: s)
  case (Cons arg args)
  obtain ok1 cost s1 where e: "eval_cost env arg s = Some (ok1, cost, s1)"
    using Cons.prems by (cases "eval_cost env arg s") auto
  show ?case using Cons.prems Cons.IH [of "add_cost cost s1"] eval_cost_devs [OF e] by (simp add: e split: if_splits)
qed simp

lemma write_dirsinfo_devs: "write_dirsinfo env s = (ok, s') \<Longrightarrow> frame s' = frame s"
  by (auto simp: write_dirsinfo_def Let_def dest!: add_head_devs split: option.splits prod.splits if_splits)

lemma save_filesystems_devs: "save_filesystems env devs i s = Some (ok, s') \<Longrightarrow> frame s' = frame s"
proof (induction devs arbitrary: i s)
  case (Cons dev devs)
  let ?c = "createar_oper_savefs (w_s env) ((ss_save s)\<lparr>sv_fsid := of_nat i, sv_stats := save_zero_stats\<rparr>) (dv_partmount dev) (dv_fstype dev)"
  show ?case
  proof (cases "save_interrupted (w_s env) (ss_save s)")
    case False
    then obtain r save where c: "?c = Some (r, save)" using Cons.prems by (cases ?c) auto
    show ?thesis
      using Cons.prems Cons.IH [of "i + 1" "count_errors (s\<lparr>ss_save := save\<rparr>)"] by (auto simp: c False Let_def split: if_splits)
  qed (use Cons.prems in simp)
qed simp

lemma save_directories_devs: "save_directories env args s = Some (ok, s') \<Longrightarrow> frame s' = frame s"
proof (induction args arbitrary: s)
  case (Cons arg args)
  let ?c = "createar_oper_savedir (w_s env) (ss_save s) arg"
  show ?case
  proof (cases "save_interrupted (w_s env) (ss_save s)")
    case False
    then obtain r save where c: "?c = Some (r, save)" using Cons.prems by (cases ?c) auto
    show ?thesis
      using Cons.prems Cons.IH [of "s\<lparr>ss_save := save\<rparr>"] by (auto simp: c False Let_def split: if_splits)
  qed (use Cons.prems in simp)
qed simp

lemma save_as_filesystems_mounts:
  assumes "save_as_filesystems env args s = Some (ok, s')" and "types_ok s" and "mounts_listed env s" and "ss_devs s = []"
  shows "types_ok s' \<and> mounts_listed env s' \<and> (ok \<longrightarrow> list_all dv_mountedbyfsa (ss_devs s'))"
proof -
  obtain ok1 s1 where m: "mount_all env args 0 s = Some (ok1, s1)"
    using assms(1) by (cases "mount_all env args 0 s") (auto simp: save_as_filesystems_def)
  have t: "types_ok s1" "mounts_listed env s1" using mount_all_types [OF m assms(2)] mount_all_mounts [OF m assms(3)] .
  show ?thesis
  proof (cases ok1)
    case True
    have "list_all dv_mountedbyfsa (ss_devs s1)" using mount_all_marks [of env args 0 s s1] m True assms(4) by simp
    moreover obtain ok2 s2 where a: "analyse_all env (zip (ss_devs s1) (ss_heads s1)) s1 = Some (ok2, s2)"
      using assms(1) True m by (cases "analyse_all env (zip (ss_devs s1) (ss_heads s1)) s1") (auto simp: save_as_filesystems_def)
    moreover have "frame s' = frame s2"
      using assms(1) True save_filesystems_devs [of env "ss_devs s2" 0 "reset_counters s2" ok s']
      by (simp add: save_as_filesystems_def m a split: if_splits)
    ultimately show ?thesis using t analyse_all_devs [OF a] by (simp add: mounts_listed_def)
  qed (use assms(1) m t in \<open>simp add: save_as_filesystems_def\<close>)
qed

lemma save_as_directories_devs:
  assumes "save_as_directories env args s = Some (ok, s')"
  shows "frame s' = frame s"
proof -
  obtain ok1 s1 where d: "analyse_dirs env args s = Some (ok1, s1)"
    using assms by (cases "analyse_dirs env args s") (auto simp: save_as_directories_def)
  obtain ok2 s2 where w: "write_dirsinfo env s1 = (ok2, s2)" by fastforce
  note k = analyse_dirs_devs [OF d] write_dirsinfo_devs [OF w]
  show ?thesis
  proof (cases "ok1 \<and> ok2")
    case True
    let ?t = "reset_counters s2"
    let ?u = "?t\<lparr>ss_save := (ss_save ?t)\<lparr>sv_fsid := 0, sv_fstype := 0, sv_stats := save_zero_stats\<rparr>\<rparr>"
    obtain ok3 s3 where r: "save_directories env args ?u = Some (ok3, s3)"
      using assms True by (cases "save_directories env args ?u") (auto simp: save_as_directories_def d w Let_def)
    have s3: "frame s3 = frame s2" using save_directories_devs [OF r] by simp
    have a: "frame (snd (add_head env x m (count_errors s3))) = frame s3" for x m
      using add_head_devs [of env x m "count_errors s3"] by (cases "add_head env x m (count_errors s3)") simp
    show ?thesis
      using assms True s3 k a by (auto simp: save_as_directories_def d w r Let_def split: if_splits option.splits)
  qed (use assms k in \<open>auto simp: save_as_directories_def d w split: if_splits\<close>)
qed

text \<open>The state in which the end of the operation begins.\<close>

definition saved_state :: "saveenv \<Rightarrow> bool \<Rightarrow> savestate \<Rightarrow> bool" where
  "saved_state env ok s \<longleftrightarrow> types_ok s \<and> mounts_listed env s \<and> (ok \<longrightarrow> list_all dv_mountedbyfsa (ss_devs s))"

lemma save_end_runs:
  assumes "save_end env (ok, s1) = Some (ret, s, ai, dsk)" and "types_ok s1"
  shows "ss_devs s = ss_devs s1 \<and> quiet (ss_trace s1) (ss_trace s) \<and>
    (\<forall>dev \<in> set (ss_devs s). dv_mountedbyfsa dev \<longrightarrow> unmount_run (w_b env) dev (ss_trace s1) (ss_trace s)) \<and>
    (ret = 0 \<longrightarrow> ok \<and> ss_totalerr s = 0)"
  using assms umount_all_runs [of env "ss_devs s1" "ss_trace s1" _ "ss_trace s1"]
  by (auto simp: save_end_def Let_def word_gt_0 split: prod.splits if_splits)

lemma oper_save_ends:
  assumes "oper_save env archive args atype save = Some (ret, s, ai, dsk)"
  shows "\<exists>ok s1. save_end env (ok, s1) = Some (ret, s, ai, dsk) \<and> saved_state env ok s1"
proof -
  note d = oper_save_def
  obtain x ai0 where g: "archwriter_generate_id (w_clock env) archwriter_init = Some (x, ai0)"
    using assms by (cases "archwriter_generate_id (w_clock env) archwriter_init") (auto simp: d)
  define s0 where "s0 = \<lparr>ss_save = save\<lparr>sv_ai := ai0\<lparr>w_basepath := path_force_extension PATH_MAX archive ''.fsa''\<rparr>, sv_cost_global := 0\<rparr>,
    ss_devs = [], ss_heads = [], ss_trace = [], ss_totalerr = 0\<rparr>"
  have t0: "saved_state env ok s0" for ok by (simp add: s0_def saved_state_def mounts_listed_def)
  define valid where "valid = (if atype = ARCHTYPE_FILESYSTEMS then list_all (w_isblk env) args
    else if atype = ARCHTYPE_DIRECTORIES then list_all (w_isdir env) args else True)"
  define body where "body = (\<lambda>s. if atype = ARCHTYPE_FILESYSTEMS then save_as_filesystems env args s
    else if atype = ARCHTYPE_DIRECTORIES then save_as_directories env args s else Some (False, s))"
  let ?m = "createar_write_mainhead (w_s env) (w_lib env) (w_random env) (w_cryptjunk env) (w_time env) (ss_save s0)
    atype (of_nat (length args))"
  have e: "(if \<not> valid then save_end env (False, s0)
     else Option.bind ?m (\<lambda>(r, save).
       let s = s0\<lparr>ss_save := save\<rparr> in if r \<noteq> 0 then save_end env (False, s)
       else Option.bind (body s) (save_end env)))
     = Some (ret, s, ai, dsk)"
    using assms unfolding d g s0_def valid_def body_def by (simp add: Let_def)
  show ?thesis
  proof (cases valid)
    case False then show ?thesis using e t0 by auto
  next
    case True
    obtain r save1 where m: "?m = Some (r, save1)" using e True by (cases ?m) auto
    define s2 where "s2 = s0\<lparr>ss_save := save1\<rparr>"
    have t2: "saved_state env ok s2" "ss_devs s2 = []" "ss_trace s2 = []" for ok
      by (simp_all add: s2_def s0_def saved_state_def mounts_listed_def)
    have e2: "(if r \<noteq> 0 then save_end env (False, s2) else Option.bind (body s2) (save_end env)) = Some (ret, s, ai, dsk)"
      using e True m by (cases "r = 0") (simp_all add: s2_def Let_def)
    show ?thesis
    proof (cases "r = 0")
      case False then show ?thesis using e2 t2(1) by auto
    next
      case True
      obtain ok s3 where b: "body s2 = Some (ok, s3)" using e2 True by (cases "body s2") auto
      have "saved_state env ok s3"
        using b t2 save_as_filesystems_mounts [of env args s2 ok s3] save_as_directories_devs [of env args s2 ok s3]
        by (simp add: body_def saved_state_def mounts_listed_def split: if_splits)
      then show ?thesis using e2 True b by auto
    qed
  qed
qed

text \<open>C11: whatever the program has mounted for saving it unmounts. The calls of a run, on every path that ends, are those
  up to some point and after it no mount: every directory on which a mount of the first part succeeded is that of a
  partition in the list with the mark, and after that point the unmount function of its back end is run for every
  partition with the mark, which is a call of umount on its directory but for NTFS. The program only reports success if every
  partition has the mark and no error was counted.\<close>

theorem save_unmounts:
  assumes "oper_save env archive args atype save = Some (ret, s, ai, dsk)"
  shows "\<exists>mounting ending. ss_trace s = mounting @ ending \<and> list_all no_mount ending \<and>
    (\<forall>dir \<in> done_mounts (w_b env) [] mounting. \<exists>dev \<in> set (ss_devs s). dv_partmount dev = dir \<and> dv_mountedbyfsa dev) \<and>
    (\<forall>dev \<in> set (ss_devs s). dv_mountedbyfsa dev \<longrightarrow> unmount_run (w_b env) dev mounting (ss_trace s)) \<and>
    (ret = 0 \<longrightarrow> ss_totalerr s = 0 \<and> list_all dv_mountedbyfsa (ss_devs s))"
proof -
  obtain ok s1 where e: "save_end env (ok, s1) = Some (ret, s, ai, dsk)" and s1: "saved_state env ok s1"
    using oper_save_ends [OF assms] by blast
  note r = save_end_runs [OF e]
  obtain ending where t: "ss_trace s = ss_trace s1 @ ending" "list_all no_mount ending"
    using r s1 by (auto simp: saved_state_def quiet_def)
  show ?thesis
    by (rule exI [of _ "ss_trace s1"], rule exI [of _ ending])
      (use r s1 t in \<open>auto simp: saved_state_def mounts_listed_def\<close>)
qed

section \<open>Examples\<close>

text \<open>A destination that is made with jfs_mkfs from an archive with an empty filesystem. The shell splits no more than the
  program from a command.\<close>

definition demo_tool_env :: benv where
  "demo_tool_env = demo_benv\<lparr>b_wordexp := (\<lambda>s. Some [takeWhile (\<lambda>c. c \<noteq> CHR '' '') s]), b_umount := (\<lambda>tr dir. [(False, False)])\<rparr>"

definition demo_fsenv :: fsenv where
  "demo_fsenv = \<lparr>f_stat = (\<lambda>p. None), f_statfs = (\<lambda>p. True), f_open = (\<lambda>p. None)\<rparr>"

definition demo_restenv :: restenv where
  "demo_restenv =
     \<lparr>r_x = demo_xenv, r_b = demo_tool_env, r_fs = (\<lambda>tr. demo_fsenv), r_lib = demo_lib, r_isblk = (\<lambda>p. True),
      r_isdir = (\<lambda>p. Some True), r_stop = (\<lambda>q. False),
      r_localtime = (\<lambda>t. \<lparr>tm_year = 2024, tm_mon = 1, tm_mday = 2, tm_hour = 3, tm_min = 4, tm_sec = 5, tv_usec = 6\<rparr>)\<rparr>"

definition demo_fshead :: cdico where
  "demo_fshead =
     [new_item 0 FSYSHEADKEY_BYTESTOTAL (replicate 8 1) 8 DICTYPE_U64, new_item 0 FSYSHEADKEY_BYTESUSED (replicate 8 1) 8 DICTYPE_U64]"

definition demo_cmdline :: cstrdico where
  "demo_cmdline = \<lparr>sitems = [(''dest'', Some ''/dev/sdb1''), (''mkfs'', Some ''jfs'')], validkeys = None\<rparr>"

definition demo_head :: "u8 list \<Rightarrow> cqueueitem" where
  "demo_head magic =
     \<lparr>itype = QITEM_TYPE_HEADER, istatus = QITEM_STATUS_DONE, itemnum = 1, iblkinfo = zero_blockinfo,
      iheadinfo = \<lparr>hmagic = magic, hfsid = 0, hdico = []\<rparr>\<rparr>"

definition demo_fsqueue :: cextractar where
  "demo_fsqueue =
     demo_extractar\<lparr>xr_queue := (queue_init 4)\<lparr>itemcount := 2, qhead := [demo_head FSA_MAGIC_FSYB, demo_head FSA_MAGIC_DATF]\<rparr>\<rparr>"

lemma demo_run_command:
  "prog \<noteq> [] \<Longrightarrow> CHR '' '' \<notin> set prog \<Longrightarrow> length prog < 2000 \<Longrightarrow>
   \<exists>tr'. run_command demo_tool_env tr (prog @ CHR '' '' # args) = Some (True, 0, tr')"
proof -
  assume p: "prog \<noteq> []" "CHR '' '' \<notin> set prog" "length prog < 2000"
  have "takeWhile (\<lambda>c. c \<noteq> CHR '' '') (snprintf_s 2048 (prog @ CHR '' '' # args)) = prog"
  proof -
    have "snprintf_s 2048 (prog @ CHR '' '' # args) = prog @ CHR '' '' # take (2046 - length prog) args"
      using p(3) by (simp add: snprintf_s_def take_Cons' Suc_diff_Suc numeral_eq_Suc)
    moreover have "takeWhile (\<lambda>c. c \<noteq> CHR '' '') (prog @ CHR '' '' # rest) = prog" for rest
      using p(2) by (subst takeWhile_append2) auto
    ultimately show ?thesis by simp
  qed
  moreover have "strtok_all [CHR '':'', CHR 0x09, CHR 0x0A] (snprintf_s 4096 ''/sbin'') = [''/sbin'']"
    by (simp add: snprintf_s_id) code_simp
  ultimately show ?thesis
    by (simp add: run_command_def exec_command_def demo_tool_env_def demo_benv_def getpathtoprog_def Let_def cong: if_cong)
qed

lemma demo_fshead_items:
  "head_u64 demo_tool_env demo_fshead FSYSHEADKEY_BYTESTOTAL \<noteq> None" "head_u64 demo_tool_env demo_fshead FSYSHEADKEY_BYTESUSED \<noteq> None"
  "head_string demo_fshead FSYSHEADKEY_FSLABEL n = Some None" "head_string demo_fshead FSYSHEADKEY_FSUUID n = Some None"
  "head_string demo_fshead FSYSHEADKEY_MOUNTINFO n = Some None"
  "head_u64 demo_tool_env demo_fshead FSYSHEADKEY_MINFSAVERSION = None"
  by (simp_all add: head_u64_def head_string_def demo_fshead_def dico_get_u64_def dico_get_string_def dico_get_data_def
      dico_get_generic_def new_item_def memcpy_def FSYSHEADKEY_BYTESTOTAL_def FSYSHEADKEY_BYTESUSED_def FSYSHEADKEY_FSLABEL_def
      FSYSHEADKEY_FSUUID_def FSYSHEADKEY_MOUNTINFO_def FSYSHEADKEY_MINFSAVERSION_def Let_def)

lemma demo_cmdline_values:
  "strdico_get_string demo_cmdline 1024 ''dest'' = (0, ''/dev/sdb1'')" "strdico_get_string demo_cmdline 1024 ''mkfs'' = (0, ''jfs'')"
  "snd (strdico_get_string demo_cmdline 1024 ''mkfsopt'') = []" "snd (strdico_get_string demo_cmdline 1024 ''label'') = []"
  "snd (strdico_get_string demo_cmdline 1024 ''uuid'') = []"
  by (simp_all add: strdico_get_map strdico_map_def demo_cmdline_def snprintf_s_id FSAERR_SUCCESS_def)

lemma demo_jfs_mkfs: "\<exists>tr'. jfs_mkfs demo_tool_env tr demo_fshead ''/dev/sdb1'' [] [] [] = Some (0, tr')"
proof -
  obtain tr1 where 1: "run_command demo_tool_env tr ''jfs_mkfs -V'' = Some (True, 0, tr1)"
    using demo_run_command [of "''jfs_mkfs''" tr "''-V''"] by auto
  obtain tr2 where 2: "run_command demo_tool_env tr1
      (''jfs_mkfs -q '' @ strlcatf 2048 [] ('' '' @ [] @ '' '') @ '' '' @ ''/dev/sdb1'') = Some (True, 0, tr2)"
    using demo_run_command [of "''jfs_mkfs''" tr1 "''-q '' @ strlcatf 2048 [] ('' '' @ [] @ '' '') @ '' '' @ ''/dev/sdb1''"] by auto
  have "mkfs_label '' -L '' (\<lambda>s. s) [] demo_fshead [] = Some []" "uuid_option ''-U'' demo_fshead [] = Some []"
    by (simp_all add: mkfs_label_def uuid_option_def demo_fshead_items)
  then have "jfs_mkfs demo_tool_env tr demo_fshead ''/dev/sdb1'' [] [] [] = Some (0, tr2)"
    unfolding jfs_mkfs_def Let_def 1 by (simp only: Option.bind.simps prod.case 2 not_True_eq_False if_False) simp
  then show ?thesis by blast
qed

lemma demo_checks: "filesystem_checks demo_restenv [] demo_fshead demo_cmdline = Some (0, ''/dev/sdb1'')"
  by (simp add: filesystem_checks_def demo_cmdline_values demo_restenv_def head_u64_or_def demo_fshead_items
      generic_get_mntinfo_def demo_fsenv_def curver_def FSA_VERSION_BUILD_def Let_def)

lemma demo_type: "filesystem_type demo_restenv demo_fshead demo_cmdline = Some (Some 7)"
  by (simp add: filesystem_type_def filesystem_name_def demo_cmdline_values demo_restenv_def demo_fshead_items snprintf_s_id
      FSA_MAX_FSNAMELEN_def generic_get_fstype_def filesys_def)

lemma demo_objects:
  "\<exists>exar'. filesystem_objects demo_restenv mntbuf fstype
     (demo_fsqueue\<lparr>xr_queue := (queue_init 4)\<lparr>itemcount := n, qhead := [demo_head FSA_MAGIC_DATF]\<rparr>\<rparr>) = Some (0, exar')"
  by (simp add: filesystem_objects_def extractar_extract_read_objects_def read_objects_loop.simps skip_garbage.simps
      queue_check_next_item_def first_not_ready_def queuelocked_get_end_of_queue_def queue_init_def demo_head_def
      x_dequeue_header_def queue_dequeue_header_def queue_dequeue_header_internal_def magic_defs FSA_SIZEOF_MAGIC_def
      FSAERR_SUCCESS_def bytes_of_string_def)


text \<open>A partition that is mounted for saving and then refused: its space cannot be asked for.\<close>

definition demo_ext2 :: fsa_ext2_sb where
  "demo_ext2 =
     \<lparr>s_log_block_size = 2, s_max_mnt_count = 30, s_checkinterval = 86400, s_rev_level = 1, s_inode_size = 256,
      s_feature_compat = 0, s_feature_incompat = 0x2, s_feature_ro_compat = 0x3, s_uuid = replicate 16 7,
      s_volume_name = ''data'', s_default_mount_opts = 0xC, s_raid_stride = 0, s_raid_stripe_width = 0\<rparr>"

definition demo_saveenv :: saveenv where
  "demo_saveenv =
     \<lparr>w_s = \<lparr>s_mem = mem_ok, s_addq = (\<lambda>n. 0), s_interrupted = (\<lambda>n. False), s_junk = replicate 8 0,
        s_opt = options_zero\<lparr>encryptalgo := ENCRYPT_NONE\<rparr>, s_fnmatch = (=), s_gcry = demo_gcry, s_cwd = ''/'',
        s_lstat = (\<lambda>p. None), s_opendir = (\<lambda>p. None), s_readlink = (\<lambda>p. None), s_open = (\<lambda>p. False),
        s_read = (\<lambda>p pos n. (0, [])), s_listxattr = (\<lambda>p. (0, [])), s_getxattr = (\<lambda>p name n. (-1, True, []))\<rparr>,
      w_b = demo_tool_env\<lparr>b_ext2 := (\<lambda>tr dev. Some demo_ext2)\<rparr>, w_fs = (\<lambda>tr. demo_fsenv), w_lib = demo_lib, 
      w_env = \<lparr>e_mem = mem_ok, e_realpath = (\<lambda>p. None), e_special = (\<lambda>p. False), e_open = (\<lambda>p. 3),
        e_write = (\<lambda>p pos n. int n), e_unlink = (\<lambda>p. True)\<rparr>,
      w_getxattr = (\<lambda>tr p a. (0, False)), w_statvfs = (\<lambda>tr p. None), w_isblk = (\<lambda>p. True), w_isdir = (\<lambda>p. False),
      w_random = replicate 16 3, w_cryptjunk = [], w_time = 1700000000, w_clock = [(1, 2)],
      w_writer = (\<lambda>added. (archwriter_init, \<lambda>p. None))\<rparr>"

lemma demo_ext2_type: "super_fstype demo_ext2 = EXTFSTYPE_EXT2"
  by (simp add: super_fstype_def demo_ext2_def extfs_get_fstype_from_compat_flags_def fsext_const Let_def)

lemma demo_mount_partition:
  assumes "dv_partmount dev = mnt"
  shows "\<exists>dev' tr'. filesystem_mount_partition demo_saveenv tr dev d = Some (-1, dev', d, tr') \<and> dv_mountedbyfsa dev' \<and>
    dv_fstype dev' = 0 \<and> dv_partmount dev' = mnt"
  using assms
  by (simp add: filesystem_mount_partition_def demo_saveenv_def generic_get_mntinfo_def demo_fsenv_def mount_fresh_def
      filesys_ops_def filesys_def upt_conv_Cons ext2_test_def extfs_test_def demo_ext2_type plain_mount_def extfs_mount_def
      back_mount_def generic_mount_def demo_tool_env_def demo_benv_def mounted_ok_def options_zero_def attr_unsupported_def
      format_fstype_def snprintf_s_id Let_def EXTFSTYPE_EXT2_def)

definition demo_start :: csavear where
  "demo_start =
     \<lparr>sv_ai = archwriter_init, sv_regmulti = demo_regmulti, sv_hardlinks = [], sv_stats = save_zero_stats, sv_fstype = 0,
      sv_fsid = 0, sv_objectid = 0, sv_cost_global = 0, sv_cost_current = 0, sv_added = []\<rparr>"

lemma save_unmounts_witness:
  "\<exists>ret s ai dsk dev. oper_save demo_saveenv ''/a.fsa'' [''/dev/sda1''] ARCHTYPE_FILESYSTEMS demo_start = Some (ret, s, ai, dsk) \<and>
    ret = -1 \<and> ss_devs s = [dev] \<and> dv_mountedbyfsa dev \<and> Do_umount (dv_partmount dev) \<in> set (ss_trace s)"
proof -
  let ?env = demo_saveenv
  obtain x ai where g: "archwriter_generate_id (w_clock ?env) archwriter_init = Some (x, ai)"
    by (simp add: demo_saveenv_def archwriter_generate_id_def)
  define s0 where "s0 = \<lparr>ss_save = demo_start\<lparr>sv_ai := ai\<lparr>w_basepath := path_force_extension PATH_MAX ''/a.fsa'' ''.fsa''\<rparr>,
    sv_cost_global := 0\<rparr>, ss_devs = [], ss_heads = [], ss_trace = [], ss_totalerr = 0\<rparr>"
  obtain save1 where m: "createar_write_mainhead (w_s ?env) (w_lib ?env) (w_random ?env) (w_cryptjunk ?env) (w_time ?env) (ss_save s0)
      ARCHTYPE_FILESYSTEMS 1 = Some (0, save1)"
    by (simp add: createar_write_mainhead_def dico_alloc_def demo_saveenv_def options_zero_def g_queue_add_def)
  define s1 where "s1 = s0\<lparr>ss_save := save1\<rparr>"
  have s1: "ss_devs s1 = []" "ss_totalerr s1 = 0" by (simp_all add: s1_def s0_def)
  obtain dev tr where dev: "filesystem_mount_partition ?env (ss_trace s1) (new_devinfo ?env s1 ''/dev/sda1'' 0) [] = Some (-1, dev, [], tr)"
    "dv_mountedbyfsa dev" "dv_fstype dev = 0"
    using demo_mount_partition [OF refl] by blast
  define s2 where "s2 = s1\<lparr>ss_devs := [dev], ss_heads := ss_heads s1 @ [[]], ss_trace := tr\<rparr>"
  have "mount_all ?env [''/dev/sda1''] 0 s1 = Some (False, s2)"
    using dev(1) by (simp add: dico_alloc_def demo_saveenv_def s1 s2_def FSA_MAX_FSPERARCH_def)
  then have a: "save_as_filesystems ?env [''/dev/sda1''] s1 = Some (False, s2)" by (simp add: save_as_filesystems_def)
  obtain tr2 where u: "umount_all ?env [dev] tr = Some tr2"
    using dev(2,3) by (cases "umount_all ?env [dev] tr") (simp_all add: filesys_ops_def plain_umount_def split: prod.splits)
  have v: "list_all (w_isblk ?env) [''/dev/sda1'']" by (simp add: demo_saveenv_def)
  have w: "w_writer ?env added = (archwriter_init, \<lambda>p. None)" for added by (simp add: demo_saveenv_def)
  obtain s ai dsk where e: "save_end ?env (False, s2) = Some (-1, s, ai, dsk)" "ss_devs s = [dev]"
    by (cases "snd (archwriter_remove (w_env ?env) archwriter_init (\<lambda>p. None))") (auto simp: save_end_def w s1 s2_def u simp del: umount_all.simps)
  have "oper_save ?env ''/a.fsa'' [''/dev/sda1''] ARCHTYPE_FILESYSTEMS demo_start = Some (-1, s, ai, dsk)"
    unfolding oper_save_def g using m a e(1) v by (simp add: s0_def s1_def Let_def)
  from save_unmounts [OF this] this e(2) dev(2,3) show ?thesis
    by (auto simp: unmount_run_def filesys_def dest: in_set_dropD)
qed

end
