(* ===== verification/Spec2Isabelle.thy ===== *)
theory Spec2Isabelle
  imports Checksum Paths Archive Comp Regmulti Strdico Dichl Saveok Attrtrip Cmdline Extfeat Topsafe
begin
text \<open>fsarchiver saves filesystems or directories to an archive and restores them. This development models the program
  function by function and proves what its parts promise one another.

  The program. fsarchiver.c reads the command line and runs one of the operations. To save, oper_save.c mounts the partitions
  through the back ends fs_*.c, walks through their trees and adds headers (dictionaries, dico.c) and data blocks to a queue
  (queue.c); threads of thread_comp.c compress and encrypt the blocks in the queue; a thread of thread_archio.c takes the items
  from its front, lays them out (writebuf.c) and writes them to the volumes of the archive (archwriter.c). To restore, another
  thread of thread_archio.c reads the volumes (archreader.c) into a queue, the threads of thread_comp.c unpack the blocks, and
  oper_restore.c takes the items, makes and mounts the destination through the back ends, and recreates the objects, the
  contents of files through datafile.c. Small files share a block (regmulti.c).

  How C is modelled. A struct is a record, a buffer a list of bytes (\<open>u8 list\<close>), a C string in a buffer a \<open>string\<close> with
  the limit of its snprintf written out, an integer of fixed width a word that wraps around; an int that counts things in
  memory is an \<open>int\<close>. A function of the source is a definition of the same name that returns the C return code with the
  changed arguments. The outer result None is what C leaves undefined or what does not come back: an access outside a buffer,
  an assertion that fails, or a wait on the queue with the queue unchanged. The operating system and the libraries
  (zlib, bzip2, lzo, lz4, lzma, zstd, libgcrypt, ext2fs, blkid, uuid, wordexp, fnmatch) are fields of environment
  records: \<open>wenv\<close> and \<open>renv\<close> for the archive, \<open>senv\<close> for the source tree, \<open>xenv\<close> for the destination, \<open>benv\<close> for devices and
  programs, \<open>complib\<close> for the compression libraries. Calls with effects are recorded in a list, and answers may depend on
  the calls before. What malloc and the stack hold before they are written is an argument too.

  The theories, from the bottom up (sources under src/src/):

  Prelude, Fsa_Const, Cstring, Store: machine types and bytes (types.h), the constants of fsarchiver.h, strtok and the
  conversions of the C library; the interfaces \<open>field_codec\<close> (interpreted for the three widths), \<open>unique_store\<close> (for Dico and
  Dichl), \<open>work_queue\<close> (for Queue); \<open>string_set\<close> of Strlist is the fourth.

  Checksum (fletcher32 of common.c), Strlist (strlist.c), Paths (lines, paths and names of common.c), Dico (dico.c) with
  Headitem (entries of headers), Strdico (strdico.c), Dichl (dichl.c), Options (options.c): the data that the rest uses.
  Their lemmas: the checksum equals sums modulo 65535 and sees each changed byte and swap, entries are read back unchanged,
  paths are cut and joined without loss, volumes have different names, lists of definitions give maps.

  Writebuf, Archreader, Archwriter, Volumes: layout and reading of headers and blocks, volumes on a disk that maps paths to
  bytes. The lemmas: what is laid out is read back, behind damage too; damage to a header or block is found; Volumes
  states what the writer promises (a list of volumes of items) and that archwriter.c does it.

  Queue, Pipeline, Comp: the queue with its counters; the threads around it as the step relation \<open>pipe_step\<close> with an invariant
  by rule induction, order, absence of loss, states of items that only go forward, and that the queue can always be emptied; compression and encryption of a
  block and the way back.

  Archio, Archive: the writer and the reader thread. The lemmas: the writer leaves a complete archive on the disk, and the reader
  gives back exactly what was written, for every limit of the volumes.

  Regmulti, Datafile, Exclude, Filesys: small files in one block, the file that is written and its digest, the exclusion of
  paths, the table of filesystems and the mount tables.

  Savear with Saveok, Regtrip, Attrtrip: the walk through a tree (oper_save.c from createar_save_file to createar_oper_savefs and
  createar_oper_savedir). The lemmas: it ends for every tree without an access outside a buffer, all it adds is well-formed,
  a large file and the extended attributes come out as they went in.

  Restar, Restobj: taking objects from the queue and recreating them, the attributes, the loop over a tree, the arguments of restfs
  (oper_restore.c). Mainhead with Headok: the main header on both sides and the password.

  Fsback, Fsext with Extfeat, Fsxfs, Fsbtrfs, Fsntfs (NTFS and FAT), Fsother (ReiserFS, Reiser4, JFS), Fstable: the back ends: what
  is stored of a filesystem, the commands that make it again, mounting and the tests; Fstable is the table of their
  functions in filesys.c. The lemmas of Extfeat: the features of an ext2, ext3 or ext4 filesystem survive.

  Devinfo, Probe (devinfo.c, oper_probe.c): block devices and their sorted list. Archinfo (archinfo.c): the values that are
  shown of an archive.

  Savefs, Restfs with Topsafe: oper_save and oper_restore as wholes, with every early end. The lemmas: nothing is written to a
  destination before the checks, success means success of every step, and what was mounted for saving is unmounted.

  Cmdline (fsarchiver.c): options, commands, their checks and which operation is run, with the lemma that an operation only sees
  options in their ranges.

  This theory: both programs together, from what the producer adds on the saving side to what the restoring side is given.

  Loops and bounds. Recursion is structural or has a measure (the bytes, lines or items that are left), with two kinds of
  exceptions, which are \<open>partial_function (option)\<close>: loops over the queue or the archive that wait for other threads
  (Archio.reader_loop, the loops of Restobj, Restar.restore_blocks) and the two loops of the saving side that depend on answers of
  the system (Savear.regfile_blocks, Savear.save_directory_entries). For the latter termination is the theorem
  Saveok.save_tree_terminates; for the former the round trips state that they return. The walk ends
  because each directory is entered with a longer path, and a path has at most PATH_MAX characters. There is no fuel whose exhaustion could pass for a result.

  Hypotheses. \<open>lib_ok\<close> says that each compression library unpacks what it packed and Blowfish decrypts what it encrypted;
  \<open>env_good\<close> and \<open>renv_good\<close> that memory is there, that writing works and files are read as written; \<open>senv_ok\<close> that read
  and the sizes of stat are as POSIX says, that file names have at most 255 characters, that an MD5 digest has its length and
  that the options are in their ranges. Each theorem with hypotheses has an example where they hold.

  Not modelled: what only prints (usage, the messages and the log file of error.c and logfile.c, the show functions, the
  progress and the tables of archinfo and probe, stats_show), the sizes in other units (format_size computes with
  floating-point numbers), format_stacktrace, the release of memory, the creation and joining of the threads and
  pthread errors (the mutex makes each function of queue.c one step of Pipeline), and signals beyond the flags
  that they set. The program is taken as built for a little-endian machine with all optional libraries as the argument \<open>build\<close>
  says.\<close>

section \<open>Saving and restoring\<close>

text \<open>What the producer may add to the queue of the saving side: headers, and blocks whose compression works,
  for filesystems that will be wanted when the archive is read.\<close>

definition source_item_ok :: "complib \<Rightarrow> build \<Rightarrow> coptions \<Rightarrow> renv \<Rightarrow> qstatus \<times> qinfo \<Rightarrow> bool" where
  "source_item_ok lib bld opt env x =
     (case x of
        (QITEM_STATUS_TODO, Qblock b) \<Rightarrow>
          length (blkdata b) = unat (blkrealsize b) \<and> unat (blkrealsize b) \<le> FSA_MAX_BLKSIZE \<and>
          g_fsbitmap env (blkfsid b) = Some 1 \<and>
          (case compress_block_generic lib bld opt mem_ok b of
             Some (r, b') \<Rightarrow> r = 0 \<and> blkarsize b' \<noteq> 0
           | None \<Rightarrow> False)
      | (QITEM_STATUS_DONE, Qheader h) \<Rightarrow>
          item_writable (Qheader h) \<and> item_readable env (Qheader h) \<and>
          (hfsid h = FSA_FILESYSID_NULL \<or> g_fsbitmap env (hfsid h) = Some 1)
      | _ \<Rightarrow> False)"

text \<open>The work of the threads on both sides; \<open>fresh\<close> is what malloc leaves in a new buffer.\<close>

definition save_work :: "complib \<Rightarrow> build \<Rightarrow> coptions \<Rightarrow> cblockinfo \<Rightarrow> cblockinfo option" where
  "save_work lib bld opt = pipe_work_of (comp_work lib bld opt mem_ok [] COMPTHR_COMPRESS)"

definition restore_work :: "complib \<Rightarrow> build \<Rightarrow> coptions \<Rightarrow> (nat \<Rightarrow> u8 list) \<Rightarrow> cblockinfo \<Rightarrow> cblockinfo option" where
  "restore_work lib bld opt fresh b =
     pipe_work_of (comp_work lib bld opt mem_ok (fresh (unat (blkrealsize b))) COMPTHR_DECOMPRESS) b"

lemma compressed_block:
  assumes "lib_ok lib" and "length (blkdata b) = unat (blkrealsize b)" and "unat (blkrealsize b) \<le> FSA_MAX_BLKSIZE"
    and "compress_block_generic lib bld opt mem_ok b = Some (0, b')"
  shows "length (blkdata b') = unat (blkarsize b')" "blkarcsum b' = fletcher32 (blkdata b')"
    "blkrealsize b' = blkrealsize b" "blkfsid b' = blkfsid b"
proof -
  obtain r where r: "sealed_block lib opt (unat (compress_bufsize (blkrealsize b))) (stored_block b r) = Some (0, b')"
    using assms(4) by (auto simp: compress_block_eq [OF assms(2,3)] split: option.splits)
  note f = stored_block_fields [OF assms(2), of r]
  show "length (blkdata b') = unat (blkarsize b')" "blkarcsum b' = fletcher32 (blkdata b')"
    "blkrealsize b' = blkrealsize b" "blkfsid b' = blkfsid b"
    using sealed_block_result [OF r assms(1) f(1,2)] f by simp_all
qed

text \<open>One item on its way through both programs.\<close>

lemma item_chain:
  assumes lib: "lib_ok lib" and fresh: "\<And>n. length (fresh n) = n" and ok: "source_item_ok lib bld opt env x"
  shows "item_writable (processed (save_work lib bld opt) x) \<and> item_readable env (processed (save_work lib bld opt) x) \<and>
    (\<exists>y. handed_over env (processed (save_work lib bld opt) x) = [y] \<and>
       content_of (processed (restore_work lib bld opt fresh) y) = content_of (snd x))"
proof -
  consider (block) b where "x = (QITEM_STATUS_TODO, Qblock b)" | (header) h where "x = (QITEM_STATUS_DONE, Qheader h)"
    using ok by (auto simp: source_item_ok_def split: prod.splits qstatus.splits qinfo.splits)
  then show ?thesis
  proof cases
    case block
    have b: "length (blkdata b) = unat (blkrealsize b)" "unat (blkrealsize b) \<le> FSA_MAX_BLKSIZE"
      "g_fsbitmap env (blkfsid b) = Some 1"
      using ok block by (simp_all add: source_item_ok_def)
    obtain b' where b': "compress_block_generic lib bld opt mem_ok b = Some (0, b')" "blkarsize b' \<noteq> 0"
      using ok block by (auto simp: source_item_ok_def split: option.splits)
    have p: "processed (save_work lib bld opt) x = Qblock b'"
      using block b'(1) by (simp add: save_work_def pipe_work_of_def comp_work_def)
    note c = compressed_block [OF lib b(1,2) b'(1)]
    let ?r = "b'\<lparr>blkfsid := 0, blklocked := False\<rparr>"
    have "length (fresh (unat (blkrealsize b))) = unat (blkrealsize b)" by (rule fresh)
    from compress_decompress_core [OF lib b(1,2) b'(1) this] obtain b'' where
      "decompress_block_generic lib bld opt mem_ok (fresh (unat (blkrealsize b))) ?r = Some (0, b'')"
      "blkdata b'' = blkdata b" "blkrealsize b'' = blkrealsize b" "blkoffset b'' = blkoffset b"
      by blast
    then have "content_of (processed (restore_work lib bld opt fresh) (QITEM_STATUS_TODO, Qblock ?r)) = content_of (snd x)"
      using block c(3) by (simp add: restore_work_def pipe_work_of_def comp_work_def)
    then show ?thesis
      using p c b b'(2) by (simp add: g_fsbitmap_def split: if_splits)
  next
    case header
    then show ?thesis using ok by (auto simp: source_item_ok_def g_fsbitmap_def split: if_splits)
  qed
qed

lemma items_chain:
  assumes lib: "lib_ok lib" and fresh: "\<And>n. length (fresh n) = n"
  shows "\<forall>x \<in> set xs. source_item_ok lib bld opt env x \<Longrightarrow>
    map (content_of \<circ> processed (restore_work lib bld opt fresh))
      (concat (map (handed_over env) (map (processed (save_work lib bld opt)) xs))) = map content_of (map snd xs)"
proof (induction xs)
  case (Cons x xs)
  then obtain y where "handed_over env (processed (save_work lib bld opt) x) = [y]"
    "content_of (processed (restore_work lib bld opt fresh) y) = content_of (snd x)"
    using item_chain [OF lib fresh] by (metis list.set_intros(1))
  with Cons show ?case by simp
qed simp

text \<open>C1: saving and restoring: whatever the interleaving of the threads on the saving side, once its queue is
  drained the archive is written, and reading it back hands to the queue of the restoring side items that,
  after the decompression threads have worked on them, have the same headers and the same bytes in the
  same order as what the saving side was given. This holds for every limit of the volumes, every
  compression algorithm and with encryption.\<close>

theorem save_restore:
  assumes "lib_ok lib" and "\<And>n. length (fresh n) = n"
    and "0 \<le> maxblk" and "pipe_reach (save_work lib bld opt) (pipe_init maxblk) s" and "qhead (pq s) = []"
    and "\<forall>x \<in> set (padded s). source_item_ok lib bld opt renv x" and "map snd (padded s) = Qheader h # infos"
    and "map snd deqs = ptaken s" and "\<forall>d \<in> set deqs. 0 < fst d"
    and "env_good env" and "paths_ok env (w_basepath ai) vp n" and "paths_free opt vp 0 n dsk"
    and "w_curvol ai = 0" and "length deqs \<le> n"
    and "dico_get_u32 (hdico h) 0 MAINHEADKEY_ARCHIVEID (v_stk32 renv) = (0, w_archid ai)"
    and "splitsize opt = 0 \<or> 74 + length (qinfo_bytes (w_archid ai) (Qheader h)) \<le> unat (splitsize opt)"
    and "renv_good renv (snd (snd (thread_writer_fct env opt ai dsk deqs)))" and "v_realpath renv = e_realpath env"
  shows "\<exists>r. thread_reader_fct renv (archreader_init\<lparr>basepath := w_basepath ai\<rparr>) inputs = Some (Rexit r) \<and>
    r_end r = 1 \<and> r_errors r = 0 \<and>
    map (content_of \<circ> processed (restore_work lib bld opt fresh)) (r_added r) = map content_of (map snd (padded s))"
proof -
  let ?f = "save_work lib bld opt"
  have "pipe_inv ?f s" using pipe_reach_inv [OF assms(4) pipe_inv_init [OF assms(3)]] .
  then have taken: "ptaken s = map (processed ?f) (padded s)" using assms(5) by (auto simp: pipe_inv_def)
  obtain x xs where xs: "padded s = x # xs" "snd x = Qheader h" using assms(7) by (cases "padded s") auto
  then have x: "x = (QITEM_STATUS_DONE, Qheader h)"
    using assms(6) by (cases x) (auto simp: source_item_ok_def split: qstatus.splits)
  have chain: "item_writable (processed ?f y) \<and> item_readable renv (processed ?f y)" if "y \<in> set (padded s)" for y
    using item_chain [OF assms(1,2), of bld opt renv y] assms(6) that by blast
  have deqs: "map snd deqs = Qheader h # map (processed ?f) xs" using assms(8) taken xs x by simp
  have items: "\<forall>(num, info) \<in> set deqs. 0 < num \<and> item_writable info"
  proof (clarify)
    fix num info assume d: "(num, info) \<in> set deqs"
    then have "info \<in> set (map snd deqs)" by force
    then show "0 < num \<and> item_writable info" using assms(8,9) d taken chain by auto
  qed
  have readable: "\<forall>info \<in> set (Qheader h # map (processed ?f) xs). item_readable renv info"
    using chain taken deqs assms(8) by (metis (no_types, lifting) imageE list.set_map)
  from archive_write_read_core [OF assms(10-14) items deqs readable assms(15-18), of inputs]
  obtain r where r: "thread_reader_fct renv (archreader_init\<lparr>basepath := w_basepath ai\<rparr>) inputs = Some (Rexit r)"
    "r_end r = 1" "r_errors r = 0"
    "r_added r = (QITEM_STATUS_DONE, Qheader h) # concat (map (handed_over renv) (map (processed ?f) xs))"
    by blast
  have "map (content_of \<circ> processed (restore_work lib bld opt fresh)) (concat (map (handed_over renv) (map (processed ?f) xs)))
      = map content_of (map snd xs)"
    by (rule items_chain [OF assms(1,2)]) (use assms(6) xs in auto)
  then show ?thesis using r xs x by simp
qed

text \<open>An example: the header and one block of \<open>demo_data\<close>, compressed and encrypted.\<close>

definition demo_save :: coptions where
  "demo_save = demo_crypt\<lparr>splitsize := 150\<rparr>"

definition demo_added :: pipeline where
  "demo_added = (pipe_init 4)\<lparr>
     pq := (queue_init 4)\<lparr>curitemnum := 3, itemcount := 2, blkcount := 1,
       qhead := [\<lparr>itype = QITEM_TYPE_HEADER, istatus = QITEM_STATUS_DONE, itemnum = 1,
                  iblkinfo = zero_blockinfo, iheadinfo = demo_main\<rparr>,
                 \<lparr>itype = QITEM_TYPE_BLOCK, istatus = QITEM_STATUS_TODO, itemnum = 2,
                  iblkinfo = demo_data, iheadinfo = zero_headinfo\<rparr>]\<rparr>,
     padded := [(QITEM_STATUS_DONE, Qheader demo_main), (QITEM_STATUS_TODO, Qblock demo_data)]\<rparr>"

lemma demo_added_reach: "pipe_reach f (pipe_init 4) demo_added"
proof -
  let ?i = "\<lparr>itype = QITEM_TYPE_HEADER, istatus = QITEM_STATUS_DONE, itemnum = 1,
    iblkinfo = zero_blockinfo, iheadinfo = demo_main\<rparr>"
  let ?q = "(queue_init 4)\<lparr>curitemnum := 2, itemcount := 1, qhead := [?i]\<rparr>"
  let ?s = "(pipe_init 4)\<lparr>pq := ?q, padded := [(QITEM_STATUS_DONE, Qheader demo_main)]\<rparr>"
  have "queue_add_header_link (pq (pipe_init 4)) demo_main = Some ?q"
    by (simp add: pipe_init_def queue_init_def queue_add_header_link_def)
  from pipe_reach1 [OF step_add_header [OF this]] have 1: "pipe_reach f (pipe_init 4) ?s"
    by (simp add: pipe_init_def)
  have "queue_add_block_link (pq ?s) demo_data QITEM_STATUS_TODO = Some (pq demo_added)"
    by (simp add: demo_added_def pipe_init_def queue_init_def queue_add_block_link_def)
  from reach_step [OF 1 step_add_block [OF this]] show ?thesis
    by (simp add: demo_added_def pipe_init_def queue_init_def)
qed

lemma demo_compressed:
  "case compress_block_generic demo_lib demo_build demo_save mem_ok demo_data of
     Some (r, b') \<Rightarrow> r = 0 \<and> blkarsize b' \<noteq> 0 | None \<Rightarrow> False"
  by (simp add: compress_block_generic_def demo_data_def demo_save_def demo_crypt_def options_zero_def compress_attempts_def
      compress_with_def compress_block_gzip_def demo_lib_def demo_pack_def fsa_const compress_bufsize_def
      FSAERR_SUCCESS_def FSAERR_ENOMEM_def crypto_blowfish_def Let_def)

lemma save_restore_witness:
  "\<exists>s deqs r. pipe_reach (save_work demo_lib demo_build demo_save) (pipe_init 4) s \<and>
    map snd (padded s) = [Qheader demo_main, Qblock demo_data] \<and>
    thread_reader_fct (demo_renv (snd (snd (thread_writer_fct demo_wenv demo_save demo_writer (\<lambda>p. None) deqs))))
      (archreader_init\<lparr>basepath := w_basepath demo_writer\<rparr>) [] = Some (Rexit r) \<and>
    r_end r = 1 \<and> r_errors r = 0 \<and>
    map (content_of \<circ> processed (restore_work demo_lib demo_build demo_save (\<lambda>n. replicate n 0))) (r_added r) =
      map content_of (map snd (padded s))"
proof -
  let ?f = "save_work demo_lib demo_build demo_save"
  have inv: "pipe_inv ?f demo_added"
    using pipe_reach_inv [OF demo_added_reach pipe_inv_init] by simp
  have "work_ok ?f demo_added"
    using demo_compressed
    by (auto simp: work_ok_def demo_added_def pipe_init_def save_work_def pipe_work_of_def comp_work_def split: option.splits)
  then obtain s where s: "pipe_reach ?f demo_added s" "padded s = padded demo_added" "qhead (pq s) = []"
    using pipe_drains [OF inv] by blast
  have reach: "pipe_reach ?f (pipe_init 4) s" using reach_trans [OF s(1) demo_added_reach] .
  have p: "padded s = [(QITEM_STATUS_DONE, Qheader demo_main), (QITEM_STATUS_TODO, Qblock demo_data)]"
    using s(2) by (simp add: demo_added_def pipe_init_def)
  have inv2: "pipe_inv ?f s" using pipe_reach_inv [OF s(1) inv] .
  then have len: "length (ptaken s) = 2" using s(3) p by (auto simp: pipe_inv_def)
  define deqs where "deqs = map (\<lambda>x. (1 :: int, x)) (ptaken s)"
  let ?dsk = "snd (snd (thread_writer_fct demo_wenv demo_save demo_writer (\<lambda>p. None) deqs))"
  have ok: "\<forall>x \<in> set (padded s). source_item_ok demo_lib demo_build demo_save (demo_renv ?dsk) x"
    using demo_compressed demo_items
    by (simp add: p source_item_ok_def demo_data_def FSA_MAX_BLKSIZE_def g_fsbitmap_def demo_renv_def FSA_MAX_FSPERARCH_def
        zero_blockinfo_def demo_deqs_def) (simp add: demo_main_def valid_magic_def magic_defs bytes_of_string_def)
  have "\<exists>r. thread_reader_fct (demo_renv ?dsk) (archreader_init\<lparr>basepath := w_basepath demo_writer\<rparr>) [] = Some (Rexit r) \<and>
    r_end r = 1 \<and> r_errors r = 0 \<and>
    map (content_of \<circ> processed (restore_work demo_lib demo_build demo_save (\<lambda>n. replicate n 0))) (r_added r) =
      map content_of (map snd (padded s))"
  proof (rule save_restore [OF demo_lib_ok _ _ reach s(3) ok, where vp = demo_path and n = 2 and h = demo_main])
    show "dico_get_u32 (hdico demo_main) 0 MAINHEADKEY_ARCHIVEID (v_stk32 (demo_renv ?dsk)) = (0, w_archid demo_writer)"
      by (simp add: demo_main_def demo_renv_def demo_writer_def dico_get_u32_def dico_get_data_item new_item_def memcpy_full)
    show "splitsize demo_save = 0 \<or> 74 + length (qinfo_bytes (w_archid demo_writer) (Qheader demo_main)) \<le> unat (splitsize demo_save)"
      unfolding demo_main_length by (simp add: demo_save_def)
    show "env_good demo_wenv" by (rule demo_wenv_good)
    show "renv_good (demo_renv ?dsk) ?dsk" by (simp add: renv_good_def demo_renv_def demo_stk_ok)
    show "paths_ok demo_wenv (w_basepath demo_writer) demo_path 2" using demo_paths_ok by (simp add: demo_writer_def)
  qed (use p len in \<open>simp_all add: deqs_def comp_def demo_writer_def archwriter_init_def paths_free_def
    demo_wenv_def demo_renv_def\<close>)
  then obtain r where r: "thread_reader_fct (demo_renv ?dsk) (archreader_init\<lparr>basepath := w_basepath demo_writer\<rparr>) [] = Some (Rexit r)"
    "r_end r = 1" "r_errors r = 0"
    "map (content_of \<circ> processed (restore_work demo_lib demo_build demo_save (\<lambda>n. replicate n 0))) (r_added r) =
      map content_of (map snd (padded s))"
    by blast
  have "map snd (padded s) = [Qheader demo_main, Qblock demo_data]" by (simp add: p)
  then show ?thesis
    by (intro exI [of _ s] exI [of _ deqs] exI [of _ r] conjI reach r)
qed

end
